(* ===== verification/ATM_Prelude.thy ===== *)
theory ATM_Prelude
  imports Main "HOL-Library.Word" "HOL-Library.List_Lexorder" "HOL-Library.Char_ord"
begin

text \<open>
  Shared vocabulary of the development: the C++ integer types, the return codes of
  \<^verbatim>\<open>access_token_error.h\<close>, the permission flags of \<^verbatim>\<open>access_token.h\<close>, the pieces
  of the C++ standard library that the modelled code uses (\<open>c_str\<close>, \<open>atoll\<close>,
  \<open>std::to_string\<close>, \<open>std::find_if\<close> with an update through the iterator), and the generic
  lemmas and lemma collections that the component theories use.

  Unsigned integers are words of their width. Signed 32-bit integers are \<open>int\<close>; an
  arithmetic result that can leave the 32-bit range goes through \<open>i32\<close>, the two's
  complement reduction (signed overflow is undefined in C++; \<open>i32\<close> is what the compiled
  code computes).
\<close>

unbundle bit_operations_syntax

section \<open>Types\<close>

type_synonym u8 = "8 word"
type_synonym u16 = "16 word"
type_synonym u32 = "32 word"
type_synonym u64 = "64 word"

text \<open>\<open>AccessTokenID\<close> is \<open>unsigned int\<close>, a return code is \<open>int32_t\<close>.\<close>

type_synonym token_id = u32
type_synonym ret = int

named_theorems flag_simps \<open>tests of one permission flag as tests of one bit\<close>
named_theorems step_inv \<open>preservation of a component invariant by one operation\<close>

section \<open>Return codes\<close>

text \<open>The codes of \<^verbatim>\<open>interfaces/innerkits/accesstoken/include/access_token_error.h\<close>.\<close>

abbreviation RET_SUCCESS :: ret where "RET_SUCCESS \<equiv> 0"
abbreviation RET_FAILED :: ret where "RET_FAILED \<equiv> - 1"
abbreviation ERR_PERMISSION_DENIED :: ret where "ERR_PERMISSION_DENIED \<equiv> 201"
abbreviation ERR_PARAM_INVALID :: ret where "ERR_PARAM_INVALID \<equiv> 12100001"
abbreviation ERR_TOKEN_INVALID :: ret where "ERR_TOKEN_INVALID \<equiv> 12100002"
abbreviation ERR_TOKENID_NOT_EXIST :: ret where "ERR_TOKENID_NOT_EXIST \<equiv> 12100004"
abbreviation ERR_TOKENID_HAS_EXISTED :: ret where "ERR_TOKENID_HAS_EXISTED \<equiv> 12100005"
abbreviation ERR_TOKENID_CREATE_FAILED :: ret where "ERR_TOKENID_CREATE_FAILED \<equiv> 12100006"
abbreviation ERR_PERMISSION_NOT_EXIST :: ret where "ERR_PERMISSION_NOT_EXIST \<equiv> 12100007"
abbreviation ERR_IDENTITY_CHECK_FAILED :: ret where "ERR_IDENTITY_CHECK_FAILED \<equiv> 12100011"
abbreviation ERR_OVERSIZE :: ret where "ERR_OVERSIZE \<equiv> 12100016"
abbreviation ERR_DATABASE_OPERATE_FAILED :: ret where "ERR_DATABASE_OPERATE_FAILED \<equiv> 12100022"
abbreviation ERR_LOAD_SO_FAILED :: ret where "ERR_LOAD_SO_FAILED \<equiv> 12100027"
abbreviation ERR_PARSE_RAW_DATA_FAILED :: ret where "ERR_PARSE_RAW_DATA_FAILED \<equiv> 12100030"
abbreviation ERR_PERMISSION_WITHOUT_VALUE :: ret where "ERR_PERMISSION_WITHOUT_VALUE \<equiv> 12100031"
abbreviation ERR_PERMISSION_RESTRICTED :: ret where "ERR_PERMISSION_RESTRICTED \<equiv> 12100032"
abbreviation ERR_PERM_POLICY_ALREADY_SET_BY_OTHER :: ret
  where "ERR_PERM_POLICY_ALREADY_SET_BY_OTHER \<equiv> 12100100"
abbreviation ERR_PERM_POLICY_NOT_SET :: ret where "ERR_PERM_POLICY_NOT_SET \<equiv> 12100101"
abbreviation ERR_TOKENID_ALREADY_IN_POLICY_WHITELIST :: ret
  where "ERR_TOKENID_ALREADY_IN_POLICY_WHITELIST \<equiv> 12100102"
abbreviation ERR_TOKENID_NOT_IN_POLICY_WHITELIST :: ret
  where "ERR_TOKENID_NOT_IN_POLICY_WHITELIST \<equiv> 12100103"
abbreviation ERR_TOKENID_NOT_IN_POLICY_USERLIST :: ret
  where "ERR_TOKENID_NOT_IN_POLICY_USERLIST \<equiv> 12100104"
abbreviation ERR_PERM_POLICY_PERSISTENCE_FLAG_NOT_MATCH :: ret
  where "ERR_PERM_POLICY_PERSISTENCE_FLAG_NOT_MATCH \<equiv> 12100105"
abbreviation ERR_KERNEL_COMMON_FAILED :: ret where "ERR_KERNEL_COMMON_FAILED \<equiv> 12100300"

section \<open>Permission states and flags\<close>

text \<open>\<open>TypePermissionState\<close> and \<open>TypePermissionFlag\<close>.\<close>

abbreviation PERMISSION_DENIED :: int where "PERMISSION_DENIED \<equiv> - 1"
abbreviation PERMISSION_GRANTED :: int where "PERMISSION_GRANTED \<equiv> 0"

abbreviation PERMISSION_DEFAULT_FLAG :: u32 where "PERMISSION_DEFAULT_FLAG \<equiv> 0"
abbreviation PERMISSION_USER_SET :: u32 where "PERMISSION_USER_SET \<equiv> 1"
abbreviation PERMISSION_USER_FIXED :: u32 where "PERMISSION_USER_FIXED \<equiv> 2"
abbreviation PERMISSION_SYSTEM_FIXED :: u32 where "PERMISSION_SYSTEM_FIXED \<equiv> 4"
abbreviation PERMISSION_PRE_AUTHORIZED_CANCELABLE :: u32
  where "PERMISSION_PRE_AUTHORIZED_CANCELABLE \<equiv> 8"
abbreviation PERMISSION_COMPONENT_SET :: u32 where "PERMISSION_COMPONENT_SET \<equiv> 16"
abbreviation PERMISSION_FIXED_FOR_SECURITY_POLICY :: u32
  where "PERMISSION_FIXED_FOR_SECURITY_POLICY \<equiv> 32"
abbreviation PERMISSION_ALLOW_THIS_TIME :: u32 where "PERMISSION_ALLOW_THIS_TIME \<equiv> 64"
abbreviation PERMISSION_FIXED_BY_ADMIN_POLICY :: u32
  where "PERMISSION_FIXED_BY_ADMIN_POLICY \<equiv> 128"
abbreviation PERMISSION_ADMIN_POLICIES_CANCEL :: u32
  where "PERMISSION_ADMIN_POLICIES_CANCEL \<equiv> 256"
abbreviation PERMISSION_RESTRICTED_BY_ADMIN :: u32
  where "PERMISSION_RESTRICTED_BY_ADMIN \<equiv> 512"

lemma and_flag_bit:
  "(f::u32) AND 1 = 0 \<longleftrightarrow> \<not> bit f 0"
  "f AND 2 = 0 \<longleftrightarrow> \<not> bit f 1"
  "f AND 4 = 0 \<longleftrightarrow> \<not> bit f 2"
  "f AND 8 = 0 \<longleftrightarrow> \<not> bit f 3"
  "f AND 16 = 0 \<longleftrightarrow> \<not> bit f 4"
  "f AND 32 = 0 \<longleftrightarrow> \<not> bit f 5"
  "f AND 64 = 0 \<longleftrightarrow> \<not> bit f 6"
  "f AND 128 = 0 \<longleftrightarrow> \<not> bit f 7"
  "f AND 256 = 0 \<longleftrightarrow> \<not> bit f 8"
  "f AND 512 = 0 \<longleftrightarrow> \<not> bit f 9"
  using and_exp_eq_0_iff_not_bit [of f 0] and_exp_eq_0_iff_not_bit [of f 1]
    and_exp_eq_0_iff_not_bit [of f 2] and_exp_eq_0_iff_not_bit [of f 3]
    and_exp_eq_0_iff_not_bit [of f 4] and_exp_eq_0_iff_not_bit [of f 5]
    and_exp_eq_0_iff_not_bit [of f 6] and_exp_eq_0_iff_not_bit [of f 7]
    and_exp_eq_0_iff_not_bit [of f 8] and_exp_eq_0_iff_not_bit [of f 9]
  by simp_all

lemma and_exp_eq_self: "n < LENGTH('a) \<Longrightarrow> (f::'a::len word) AND 2 ^ n = 2 ^ n \<longleftrightarrow> bit f n"
proof -
  assume n: "n < LENGTH('a)"
  have "f AND 2 ^ n = (if bit f n then 2 ^ n else 0)"
    by (rule bit_word_eqI) (auto simp: bit_simps)
  with n show ?thesis by (auto simp: exp_eq_zero_iff)
qed

lemma and_flag_self:
  "(f::u32) AND 4 = 4 \<longleftrightarrow> bit f 2"
  "f AND 128 = 128 \<longleftrightarrow> bit f 7"
  "f AND 256 = 256 \<longleftrightarrow> bit f 8"
  using and_exp_eq_self [of 2 f] and_exp_eq_self [of 7 f] and_exp_eq_self [of 8 f]
  by simp_all

lemmas [flag_simps] = and_flag_bit and_flag_self

section \<open>The standard library\<close>

text \<open>Two's complement reduction of an \<open>int\<close> to \<open>int32_t\<close>.\<close>

definition i32 :: "int \<Rightarrow> int" where
  "i32 x = sint (word_of_int x :: u32)"

lemma i32_id [simp]: "- (2 ^ 31) \<le> x \<Longrightarrow> x < 2 ^ 31 \<Longrightarrow> i32 x = x"
  by (simp add: i32_def sint_sbintrunc' signed_take_bit_int_eq_self)

definition is_int32 :: "int \<Rightarrow> bool" where
  "is_int32 v \<longleftrightarrow> - (2 ^ 31) \<le> v \<and> v < 2 ^ 31"

lemma i32_sint [simp]: "i32 (sint (w :: u32)) = sint w"
  by (simp add: i32_def)

lemma i32_in_range: "is_int32 v \<Longrightarrow> i32 v = v"
  by (simp add: is_int32_def)

lemma i32_range: "- (2 ^ 31) \<le> i32 x" "i32 x < 2 ^ 31"
  unfolding i32_def using sint_range_size [of "word_of_int x :: u32"]
  by (simp_all add: word_size)

text \<open>\<open>std::string::c_str\<close> followed by a C string function: the bytes up to the first NUL.\<close>

definition c_str :: "string \<Rightarrow> string" where
  "c_str s = takeWhile (\<lambda>c. c \<noteq> CHR 0x00) s"

lemma c_str_id [simp]: "CHR 0x00 \<notin> set s \<Longrightarrow> c_str s = s"
  by (induction s) (auto simp: c_str_def)

lemma c_str_no_nul [simp]: "CHR 0x00 \<notin> set (c_str s)"
  by (auto simp: c_str_def dest: set_takeWhileD)

text \<open>The value of a decimal digit, and the value of the longest decimal prefix.\<close>

definition is_digit :: "char \<Rightarrow> bool" where
  "is_digit c \<longleftrightarrow> 48 \<le> (of_char c :: nat) \<and> (of_char c :: nat) \<le> 57"

definition digit_val :: "char \<Rightarrow> int" where
  "digit_val c = int (of_char c :: nat) - 48"

fun decimal_prefix :: "string \<Rightarrow> int \<Rightarrow> int" where
  "decimal_prefix [] n = n"
| "decimal_prefix (c # cs) n = (if is_digit c then decimal_prefix cs (10 * n + digit_val c) else n)"

text \<open>\<open>isspace\<close> of the C locale.\<close>

definition is_space :: "char \<Rightarrow> bool" where
  "is_space c \<longleftrightarrow> of_char c \<in> {9 :: nat, 10, 11, 12, 13, 32}"

text \<open>
  \<open>atoll\<close>: leading blanks, an optional sign, the decimal prefix. A value out of range is
  undefined in C; the callers reduce the result to 32 bits, which is the same for any
  implementation that wraps.
\<close>

definition atoll :: "string \<Rightarrow> int" where
  "atoll s =
     (case dropWhile is_space (c_str s) of
        [] \<Rightarrow> 0
      | c # cs \<Rightarrow>
          if c = CHR ''-'' then - decimal_prefix cs 0
          else if c = CHR ''+'' then decimal_prefix cs 0
          else decimal_prefix (c # cs) 0)"

text \<open>
  \<open>auto it = std::find_if(v.begin(), v.end(), P)\<close> is \<open>find P v\<close>; a write through the
  iterator, \<open>*it = f(*it)\<close>, changes the first element that satisfies \<open>P\<close>.
\<close>

fun update_first :: "('a \<Rightarrow> bool) \<Rightarrow> ('a \<Rightarrow> 'a) \<Rightarrow> 'a list \<Rightarrow> 'a list" where
  "update_first P f [] = []"
| "update_first P f (x # xs) = (if P x then f x # xs else x # update_first P f xs)"

text \<open>\<open>v.erase(it)\<close> with the iterator of \<open>std::find_if\<close>.\<close>

fun erase_first :: "('a \<Rightarrow> bool) \<Rightarrow> 'a list \<Rightarrow> 'a list" where
  "erase_first P [] = []"
| "erase_first P (x # xs) = (if P x then xs else x # erase_first P xs)"

lemma length_update_first [simp]: "length (update_first P f xs) = length xs"
  by (induction xs) auto

lemma update_first_none: "find P xs = None \<Longrightarrow> update_first P f xs = xs"
  by (induction xs) (auto split: if_splits)

lemma find_update_first_same:
  "(\<And>x. P x \<Longrightarrow> P (f x)) \<Longrightarrow> find P (update_first P f xs) = map_option f (find P xs)"
  by (induction xs) auto

lemma find_update_first_other:
  assumes "\<And>x. P x \<Longrightarrow> \<not> Q x" and "\<And>x. P x \<Longrightarrow> \<not> Q (f x)"
  shows "find Q (update_first P f xs) = find Q xs"
  using assms by (induction xs) auto

lemma map_update_first:
  "(\<And>x. P x \<Longrightarrow> g (f x) = g x) \<Longrightarrow> map g (update_first P f xs) = map g xs"
  by (induction xs) auto

lemma set_update_first: "set (update_first P f xs) \<subseteq> set xs \<union> f ` {x \<in> set xs. P x}"
  by (induction xs) auto

lemma find_Some_iff2: "find P xs = Some x \<Longrightarrow> x \<in> set xs \<and> P x"
  by (induction xs) (auto split: if_splits)

lemma find_distinct_key:
  "distinct (map g xs) \<Longrightarrow> x \<in> set xs \<Longrightarrow> find (\<lambda>y. g y = g x) xs = Some x"
  by (induction xs) (auto simp: rev_image_eqI)

lemma find_map_key: "find (\<lambda>y. g y = k) xs = None \<longleftrightarrow> k \<notin> g ` set xs"
  by (auto simp: find_None_iff)

lemma set_erase_first: "set (erase_first P xs) \<subseteq> set xs"
  by (induction xs) auto

lemma erase_first_distinct:
  "distinct xs \<Longrightarrow> erase_first (\<lambda>y. y = x) xs = filter (\<lambda>y. y \<noteq> x) xs"
  by (induction xs) (auto intro!: filter_True [symmetric])

lemma erase_first_none: "\<forall>x \<in> set xs. \<not> P x \<Longrightarrow> erase_first P xs = xs"
  by (induction xs) auto

lemma foldl_pair_snoc: "foldl f a (xs @ [x]) = f (foldl f a xs) x"
  by simp

end
