(* ===== verification/Token_Id.thy ===== *)
theory Token_Id
  imports ATM_Prelude
begin

text \<open>
  The 32-bit token identifier. \<open>AccessTokenIDInner\<close>
  (\<^verbatim>\<open>access_token_basic_type.h\<close>) is its bit field view: the first field of the struct
  occupies the least significant bits. \<open>to_token_id\<close> and \<open>of_token_id\<close> are the two
  directions of the \<open>memcpy_s\<close>/\<open>reinterpret_cast\<close> between a struct and an \<open>unsigned int\<close>.
  The predicates are those of \<^verbatim>\<open>frameworks/common/src/tokenid_attributes.cpp\<close>.
\<close>

unbundle bit_operations_syntax

section \<open>Types\<close>

datatype ATokenTypeEnum = TOKEN_INVALID | TOKEN_HAP | TOKEN_NATIVE | TOKEN_SHELL | TOKEN_TYPE_BUTT

fun token_type_value :: "ATokenTypeEnum \<Rightarrow> int" where
  "token_type_value TOKEN_INVALID = - 1"
| "token_type_value TOKEN_HAP = 0"
| "token_type_value TOKEN_NATIVE = 1"
| "token_type_value TOKEN_SHELL = 2"
| "token_type_value TOKEN_TYPE_BUTT = 3"

record AccessTokenIDInner =
  tokenUniqueID :: "20 word"
  toolFlag :: "1 word"
  res :: "2 word"
  type_ext :: "1 word"
  cloneFlag :: "1 word"
  renderFlag :: "1 word"
  dlpFlag :: "1 word"
  id_type :: "2 word"
  version :: "3 word"

abbreviation DEFAULT_TOKEN_VERSION :: "3 word" where "DEFAULT_TOKEN_VERSION \<equiv> 1"
abbreviation INVALID_TOKENID :: token_id where "INVALID_TOKENID \<equiv> 0"

definition to_token_id :: "AccessTokenIDInner \<Rightarrow> token_id" where
  "to_token_id r =
     ucast (tokenUniqueID r) OR push_bit 20 (ucast (toolFlag r)) OR push_bit 21 (ucast (res r)) OR
     push_bit 23 (ucast (type_ext r)) OR push_bit 24 (ucast (cloneFlag r)) OR
     push_bit 25 (ucast (renderFlag r)) OR push_bit 26 (ucast (dlpFlag r)) OR
     push_bit 27 (ucast (id_type r)) OR push_bit 29 (ucast (version r))"

definition of_token_id :: "token_id \<Rightarrow> AccessTokenIDInner" where
  "of_token_id i =
     \<lparr>tokenUniqueID = ucast i, toolFlag = ucast (drop_bit 20 i), res = ucast (drop_bit 21 i),
      type_ext = ucast (drop_bit 23 i), cloneFlag = ucast (drop_bit 24 i),
      renderFlag = ucast (drop_bit 25 i), dlpFlag = ucast (drop_bit 26 i),
      id_type = ucast (drop_bit 27 i), version = ucast (drop_bit 29 i)\<rparr>"

text \<open>\<open>static_cast<ATokenTypeEnum>\<close> of the two-bit type field.\<close>

definition token_type_of :: "2 word \<Rightarrow> ATokenTypeEnum" where
  "token_type_of w =
     (if w = 0 then TOKEN_HAP else if w = 1 then TOKEN_NATIVE
      else if w = 2 then TOKEN_SHELL else TOKEN_TYPE_BUTT)"

section \<open>Attributes\<close>

definition GetTokenIdTypeEnum :: "token_id \<Rightarrow> ATokenTypeEnum" where
  "GetTokenIdTypeEnum i = token_type_of (id_type (of_token_id i))"

definition IsBinTokenId :: "token_id \<Rightarrow> bool" where
  "IsBinTokenId i \<longleftrightarrow> type_ext (of_token_id i) = 1"

definition IsToolTokenId :: "token_id \<Rightarrow> bool" where
  "IsToolTokenId i \<longleftrightarrow> toolFlag (of_token_id i) = 1"

definition GetTokenIdDlpFlag :: "token_id \<Rightarrow> int" where
  "GetTokenIdDlpFlag i = uint (dlpFlag (of_token_id i))"

definition GetTokenIdCloneFlag :: "token_id \<Rightarrow> int" where
  "GetTokenIdCloneFlag i = uint (cloneFlag (of_token_id i))"

definition GetFullTokenAttrMask :: "nat \<Rightarrow> u64" where
  "GetFullTokenAttrMask attrIndex = push_bit (32 + attrIndex) 1"

definition GetTokenAttrMask :: "nat \<Rightarrow> u32" where
  "GetTokenAttrMask attrIndex = push_bit attrIndex 1"

definition SYSTEM_APP_MASK :: u64 where "SYSTEM_APP_MASK = GetFullTokenAttrMask 0"
definition DEBUG_APP_MASK :: u64 where "DEBUG_APP_MASK = GetFullTokenAttrMask 3"
definition DEBUG_APP_ATTR_MASK :: u32 where "DEBUG_APP_ATTR_MASK = GetTokenAttrMask 3"

definition IsSystemApp :: "u64 \<Rightarrow> bool" where
  "IsSystemApp i \<longleftrightarrow> i AND SYSTEM_APP_MASK = SYSTEM_APP_MASK"

definition IsDebugApp :: "u64 \<Rightarrow> bool" where
  "IsDebugApp i \<longleftrightarrow> i AND DEBUG_APP_MASK = DEBUG_APP_MASK"

definition IsDebugAppAttr :: "u32 \<Rightarrow> bool" where
  "IsDebugAppAttr a \<longleftrightarrow> a AND DEBUG_APP_ATTR_MASK = DEBUG_APP_ATTR_MASK"

text \<open>The union \<open>AccessTokenIDEx\<close>: the token id is the low half, the attributes the high half.\<close>

definition tokenIDEx :: "token_id \<Rightarrow> u32 \<Rightarrow> u64" where
  "tokenIDEx tokenID tokenAttr = ucast tokenID OR push_bit 32 (ucast tokenAttr)"

definition ex_tokenID :: "u64 \<Rightarrow> token_id" where "ex_tokenID x = ucast x"
definition ex_tokenAttr :: "u64 \<Rightarrow> u32" where "ex_tokenAttr x = ucast (drop_bit 32 x)"


section \<open>Layout lemmas\<close>

lemma not_bit_beyond: "LENGTH('a) \<le> n \<Longrightarrow> \<not> bit (w :: 'a::len word) n"
  using bit_imp_le_length by (metis linorder_not_less)

lemma bit_to_token_id:
  "bit (to_token_id r) n \<longleftrightarrow>
     (if n < 20 then bit (tokenUniqueID r) n else if n = 20 then bit (toolFlag r) 0
      else if n < 23 then bit (res r) (n - 21) else if n = 23 then bit (type_ext r) 0
      else if n = 24 then bit (cloneFlag r) 0 else if n = 25 then bit (renderFlag r) 0
      else if n = 26 then bit (dlpFlag r) 0 else if n < 29 then bit (id_type r) (n - 27)
      else n < 32 \<and> bit (version r) (n - 29))"
  by (auto simp: to_token_id_def bit_or_iff bit_push_bit_iff bit_ucast_iff not_bit_beyond)

lemma of_to_token_id [simp]: "of_token_id (to_token_id r) = r"
proof (cases r)
  case (fields u t r' e c re d ty v)
  have "ucast (to_token_id r) = u"
    by (rule bit_word_eqI) (simp add: bit_ucast_iff bit_to_token_id fields)
  moreover have "ucast (drop_bit 20 (to_token_id r)) = t"
    by (rule bit_word_eqI) (simp add: bit_ucast_iff bit_drop_bit_eq bit_to_token_id fields)
  moreover have "ucast (drop_bit 21 (to_token_id r)) = r'"
    by (rule bit_word_eqI) (simp add: bit_ucast_iff bit_drop_bit_eq bit_to_token_id fields)
  moreover have "ucast (drop_bit 23 (to_token_id r)) = e"
    by (rule bit_word_eqI) (simp add: bit_ucast_iff bit_drop_bit_eq bit_to_token_id fields)
  moreover have "ucast (drop_bit 24 (to_token_id r)) = c"
    by (rule bit_word_eqI) (simp add: bit_ucast_iff bit_drop_bit_eq bit_to_token_id fields)
  moreover have "ucast (drop_bit 25 (to_token_id r)) = re"
    by (rule bit_word_eqI) (simp add: bit_ucast_iff bit_drop_bit_eq bit_to_token_id fields)
  moreover have "ucast (drop_bit 26 (to_token_id r)) = d"
    by (rule bit_word_eqI) (simp add: bit_ucast_iff bit_drop_bit_eq bit_to_token_id fields)
  moreover have "ucast (drop_bit 27 (to_token_id r)) = ty"
    by (rule bit_word_eqI) (simp add: bit_ucast_iff bit_drop_bit_eq bit_to_token_id fields)
  moreover have "ucast (drop_bit 29 (to_token_id r)) = v"
    by (rule bit_word_eqI) (simp add: bit_ucast_iff bit_drop_bit_eq bit_to_token_id fields)
  ultimately show ?thesis by (simp add: fields of_token_id_def)
qed

lemma to_of_token_id [simp]: "to_token_id (of_token_id i) = i"
  by (rule bit_word_eqI) (auto simp: bit_to_token_id of_token_id_def bit_ucast_iff bit_drop_bit_eq)

lemma of_token_id_inject: "of_token_id i = of_token_id j \<longleftrightarrow> i = j"
  by (metis to_of_token_id)

lemma word1_eq_one_iff [flag_simps]: "(w :: 1 word) = 1 \<longleftrightarrow> bit w 0"
proof -
  have "w = 1 \<longleftrightarrow> (\<forall>n < 1. bit w n = bit (1 :: 1 word) n)"
    by (auto intro!: bit_word_eqI)
  then show ?thesis by simp
qed

lemma IsBinTokenId_bit: "IsBinTokenId i \<longleftrightarrow> bit i 23"
  by (simp add: IsBinTokenId_def of_token_id_def flag_simps bit_ucast_iff bit_drop_bit_eq)

lemma IsToolTokenId_bit: "IsToolTokenId i \<longleftrightarrow> bit i 20"
  by (simp add: IsToolTokenId_def of_token_id_def flag_simps bit_ucast_iff bit_drop_bit_eq)

lemma and_push_bit_1:
  "n < LENGTH('a) \<Longrightarrow> (w :: 'a::len word) AND push_bit n 1 = push_bit n 1 \<longleftrightarrow> bit w n"
  by (simp add: push_bit_of_1 and_exp_eq_self)

lemmas attr_mask_defs = SYSTEM_APP_MASK_def DEBUG_APP_MASK_def DEBUG_APP_ATTR_MASK_def
  GetFullTokenAttrMask_def GetTokenAttrMask_def

lemma IsSystemApp_bit [flag_simps]: "IsSystemApp x \<longleftrightarrow> bit x 32"
  using and_push_bit_1 [of 32 x] by (simp add: IsSystemApp_def attr_mask_defs)

lemma IsDebugApp_bit [flag_simps]: "IsDebugApp x \<longleftrightarrow> bit x 35"
  using and_push_bit_1 [of 35 x] by (simp add: IsDebugApp_def attr_mask_defs)

lemma IsDebugAppAttr_bit [flag_simps]: "IsDebugAppAttr a \<longleftrightarrow> bit a 3"
  using and_push_bit_1 [of 3 a] by (simp add: IsDebugAppAttr_def attr_mask_defs)

lemma ex_tokenID_tokenIDEx [simp]: "ex_tokenID (tokenIDEx t a) = t"
  by (rule bit_word_eqI)
    (simp add: ex_tokenID_def tokenIDEx_def bit_ucast_iff bit_or_iff bit_push_bit_iff)

lemma ex_tokenAttr_tokenIDEx [simp]: "ex_tokenAttr (tokenIDEx t a) = a"
  by (rule bit_word_eqI)
    (auto simp: ex_tokenAttr_def tokenIDEx_def bit_ucast_iff bit_or_iff bit_push_bit_iff
       bit_drop_bit_eq not_bit_beyond)

section \<open>Properties\<close>

text \<open>The bit field view of a token id and the 32-bit number determine each other: packing a
  struct and reading its fields back gives the struct, and reading the fields of any number and
  packing them gives the number. No field overlaps another and no bit of the id is lost.\<close>

theorem token_id_bit_layout:
  "of_token_id (to_token_id r) = r \<and> to_token_id (of_token_id i) = i"
  by simp

text \<open>In the extended (64-bit) id both halves are recovered, and the masks of
  \<open>TokenIDAttributes\<close> test bits of the attribute half only: bit 0 for system applications and
  bit 3 for debug applications, where the 64-bit and the 32-bit debug tests agree.\<close>

theorem extended_token_id_attributes:
  "ex_tokenID (tokenIDEx t a) = t \<and> ex_tokenAttr (tokenIDEx t a) = a \<and>
   (IsSystemApp (tokenIDEx t a) \<longleftrightarrow> bit a 0) \<and>
   (IsDebugApp (tokenIDEx t a) \<longleftrightarrow> IsDebugAppAttr a)"
  by (simp add: flag_simps) (simp add: tokenIDEx_def bit_or_iff bit_push_bit_iff bit_ucast_iff not_bit_beyond)

end
