(* ===== verification/Ordered_Map.thy ===== *)
theory Ordered_Map
  imports ATM_Prelude
begin

text \<open>
  \<open>std::map\<close> as the list of its entries in iteration order, which is increasing key order.
  \<open>omap_insert\<close> is \<open>m[k] = v\<close>, \<open>omap_emplace\<close> is \<open>m.emplace(k, v)\<close> (which keeps an
  existing entry), \<open>omap_erase\<close> is \<open>m.erase(k)\<close> and \<open>map_of\<close> is \<open>m.find(k)\<close>. The locale
  \<open>std_map\<close> is the interface the components rely on; it is interpreted on these operations.
\<close>

section \<open>The interface\<close>

locale std_map =
  fixes empty_map :: "'m"
    and insert_map :: "'k \<Rightarrow> 'v \<Rightarrow> 'm \<Rightarrow> 'm"
    and emplace_map :: "'k \<Rightarrow> 'v \<Rightarrow> 'm \<Rightarrow> 'm"
    and erase_map :: "'k \<Rightarrow> 'm \<Rightarrow> 'm"
    and find_map :: "'m \<Rightarrow> 'k \<Rightarrow> 'v option"
    and map_ok :: "'m \<Rightarrow> bool"
  assumes find_empty: "find_map empty_map = (\<lambda>_. None)"
    and find_insert: "map_ok m \<Longrightarrow> find_map (insert_map k v m) = (find_map m)(k \<mapsto> v)"
    and find_emplace:
      "map_ok m \<Longrightarrow> find_map (emplace_map k v m) =
         (if find_map m k = None then (find_map m)(k \<mapsto> v) else find_map m)"
    and find_erase: "map_ok m \<Longrightarrow> find_map (erase_map k m) = (find_map m)(k := None)"
    and ok_empty: "map_ok empty_map"
    and ok_insert: "map_ok m \<Longrightarrow> map_ok (insert_map k v m)"
    and ok_emplace: "map_ok m \<Longrightarrow> map_ok (emplace_map k v m)"
    and ok_erase: "map_ok m \<Longrightarrow> map_ok (erase_map k m)"
begin

lemma ok_insert_all: "map_ok m \<Longrightarrow> map_ok (fold (\<lambda>(k, v). insert_map k v) kvs m)"
  by (induction kvs arbitrary: m) (auto simp: ok_insert)

lemma find_insert_all:
  "map_ok m \<Longrightarrow> find_map (fold (\<lambda>(k, v). insert_map k v) kvs m) = find_map m ++ map_of (rev kvs)"
proof (induction kvs arbitrary: m)
  case Nil
  then show ?case by simp
next
  case (Cons kv kvs)
  obtain k v where kv: "kv = (k, v)" by fastforce
  have "find_map (fold (\<lambda>(k, v). insert_map k v) (kv # kvs) m) =
      find_map (insert_map k v m) ++ map_of (rev kvs)"
    using Cons.IH [OF ok_insert [OF Cons.prems]] by (simp add: kv)
  then show ?case by (simp add: kv find_insert [OF Cons.prems] map_add_assoc [symmetric])
qed

lemma ok_erase_all: "map_ok m \<Longrightarrow> map_ok (fold erase_map ks m)"
  by (induction ks arbitrary: m) (auto simp: ok_erase)

lemma find_erase_all:
  "map_ok m \<Longrightarrow> find_map (fold erase_map ks m) k = (if k \<in> set ks then None else find_map m k)"
  by (induction ks arbitrary: m) (auto simp: ok_erase find_erase)

end

section \<open>Sorted association lists\<close>

type_synonym ('k, 'v) omap = "('k \<times> 'v) list"

definition omap_ok :: "('k::linorder, 'v) omap \<Rightarrow> bool" where
  "omap_ok m \<longleftrightarrow> sorted_wrt (<) (map fst m)"

fun omap_insert :: "'k::linorder \<Rightarrow> 'v \<Rightarrow> ('k, 'v) omap \<Rightarrow> ('k, 'v) omap" where
  "omap_insert k v [] = [(k, v)]"
| "omap_insert k v ((k', v') # m) =
     (if k < k' then (k, v) # (k', v') # m
      else if k = k' then (k, v) # m
      else (k', v') # omap_insert k v m)"

definition omap_emplace :: "'k::linorder \<Rightarrow> 'v \<Rightarrow> ('k, 'v) omap \<Rightarrow> ('k, 'v) omap" where
  "omap_emplace k v m = (case map_of m k of Some _ \<Rightarrow> m | None \<Rightarrow> omap_insert k v m)"

definition omap_erase :: "'k \<Rightarrow> ('k, 'v) omap \<Rightarrow> ('k, 'v) omap" where
  "omap_erase k m = filter (\<lambda>(k', _). k' \<noteq> k) m"

lemma fst_set_omap_insert: "fst ` set (omap_insert k v m) = insert k (fst ` set m)"
  by (induction k v m rule: omap_insert.induct) auto

lemma omap_ok_Nil [simp]: "omap_ok []"
  by (simp add: omap_ok_def)

lemma omap_ok_Cons [simp]:
  "omap_ok ((k, v) # m) \<longleftrightarrow> (\<forall>k' \<in> fst ` set m. k < k') \<and> omap_ok m"
  by (auto simp: omap_ok_def)

lemma omap_ok_insert [intro]: "omap_ok m \<Longrightarrow> omap_ok (omap_insert k v m)"
  by (induction k v m rule: omap_insert.induct) (auto simp: fst_set_omap_insert)

lemma omap_ok_filter [intro]: "omap_ok m \<Longrightarrow> omap_ok (filter P m)"
  by (induction m) auto

lemma omap_ok_map_snd: "omap_ok m \<Longrightarrow> omap_ok (map (\<lambda>(k, v). (k, f k v)) m)"
  by (simp add: omap_ok_def case_prod_beta comp_def)

lemma map_of_omap_insert:
  "omap_ok m \<Longrightarrow> map_of (omap_insert k v m) = (map_of m)(k \<mapsto> v)"
proof (induction k v m rule: omap_insert.induct)
  case (2 k v k' v' m)
  have "map_of m k' = None"
    using "2.prems" by (fastforce simp: map_of_eq_None_iff)
  with "2" show ?case by (auto simp: fun_eq_iff)
qed simp

lemma map_of_omap_erase: "map_of (omap_erase k m) = (map_of m)(k := None)"
  by (induction m) (auto simp: omap_erase_def fun_eq_iff)

lemma map_of_filter_key:
  "map_of (filter (\<lambda>(k, _). P k) m) k = (if P k then map_of m k else None)"
  by (induction m) auto

lemma omap_ok_distinct: "omap_ok m \<Longrightarrow> distinct (map fst m)"
  by (auto simp: omap_ok_def strict_sorted_iff)

lemma omap_entries: "distinct (map fst m) \<Longrightarrow> map (\<lambda>k. (k, the (map_of m k))) (map fst m) = m"
proof (induction m)
  case (Cons kv m)
  have "map (\<lambda>k. (k, the (map_of (kv # m) k))) (map fst m) = map (\<lambda>k. (k, the (map_of m k))) (map fst m)"
    using Cons.prems by (intro map_cong) (auto simp: image_iff)
  with Cons show ?case by (cases kv) (simp del: map_map)
qed simp

lemma omap_ext:
  assumes "omap_ok m" and "omap_ok m'" and "map_of m = map_of m'"
  shows "m = m'"
proof -
  have "set (map fst m) = set (map fst m')"
    using assms(3) by (metis dom_map_of_conv_image_fst set_map)
  then have keys: "map fst m = map fst m'"
    using assms(1,2) by (auto simp: omap_ok_def strict_sorted_iff intro: sorted_distinct_set_unique)
  have "m = map (\<lambda>k. (k, the (map_of m k))) (map fst m)"
    using omap_entries [OF omap_ok_distinct [OF assms(1)]] by simp
  also have "\<dots> = m'"
    using omap_entries [OF omap_ok_distinct [OF assms(2)]] keys assms(3) by simp
  finally show ?thesis .
qed

lemma map_of_rev_functional:
  assumes "\<And>c r r'. (c, r) \<in> set kvs \<Longrightarrow> (c, r') \<in> set kvs \<Longrightarrow> r = r'"
  shows "map_of (rev kvs) c = Some r \<longleftrightarrow> (c, r) \<in> set kvs"
proof
  assume "(c, r) \<in> set kvs"
  then have "map_of (rev kvs) c \<noteq> None" by (simp add: map_of_eq_None_iff) force
  then obtain r' where "map_of (rev kvs) c = Some r'" by blast
  then show "map_of (rev kvs) c = Some r" using assms \<open>(c, r) \<in> set kvs\<close> by (metis map_of_SomeD set_rev)
qed (use map_of_SomeD in fastforce)

lemma map_of_filter_value:
  "distinct (map fst m) \<Longrightarrow> map_of (filter (\<lambda>(c, r). P r) m) c =
     (case map_of m c of Some r \<Rightarrow> if P r then Some r else None | None \<Rightarrow> None)"
proof (induction m)
  case (Cons x m)
  then have "x \<notin> set m" "map_of m (fst x) = None" by (auto simp: map_of_eq_None_iff)
  then show ?case using Cons by (cases x) auto
qed simp

lemma list_of_image: "inj_on f P \<Longrightarrow> set l = f ` P \<Longrightarrow> \<exists>kvs. l = map f kvs \<and> set kvs = P"
  by (rule exI [of _ "map (inv_into P f) l"])
    (auto simp: f_inv_into_f image_image intro!: nth_equalityI, metis f_inv_into_f nth_mem)

lemma map_of_omap_emplace:
  "omap_ok m \<Longrightarrow> map_of (omap_emplace k v m) =
     (if map_of m k = None then (map_of m)(k \<mapsto> v) else map_of m)"
  by (cases "map_of m k") (auto simp: omap_emplace_def map_of_omap_insert)

lemma omap_ok_emplace [intro]: "omap_ok m \<Longrightarrow> omap_ok (omap_emplace k v m)"
  by (cases "map_of m k") (auto simp: omap_emplace_def)

lemma omap_ok_erase [intro]: "omap_ok m \<Longrightarrow> omap_ok (omap_erase k m)"
  by (simp add: omap_erase_def omap_ok_filter)

interpretation om: std_map "[] :: ('k::linorder, 'v) omap" omap_insert omap_emplace omap_erase
    map_of omap_ok
  by unfold_locales
    (simp_all add: map_of_omap_insert map_of_omap_emplace map_of_omap_erase
      omap_ok_insert omap_ok_emplace omap_ok_erase del: not_None_eq)

lemmas omap_find_simps = om.find_insert om.find_emplace om.find_erase

end
