(* ===== verification/Generic_Values.thy ===== *)
theory Generic_Values
  imports Ordered_Map
begin

text \<open>
  \<open>VariantValue\<close> and \<open>GenericValues\<close> of \<^verbatim>\<open>services/common/database/src\<close>: the typed cell and
  the row (a \<open>std::map\<close> from column names to cells) that the services exchange with the
  database layer. \<open>Put\<close> uses \<open>emplace\<close>, so the first value put under a key stays.
\<close>

section \<open>Cells\<close>

datatype VariantValue =
    TYPE_NULL
  | TYPE_INT int
  | TYPE_INT64 int
  | TYPE_STRING string
  | TYPE_BLOB "u8 list"

abbreviation DEFAULT_VALUE :: int where "DEFAULT_VALUE \<equiv> - 1"

fun vv_GetInt :: "VariantValue \<Rightarrow> int" where
  "vv_GetInt (TYPE_INT v) = v"
| "vv_GetInt (TYPE_INT64 v) = i32 v"
| "vv_GetInt _ = DEFAULT_VALUE"

fun vv_GetInt64 :: "VariantValue \<Rightarrow> int" where
  "vv_GetInt64 (TYPE_INT64 v) = v"
| "vv_GetInt64 _ = DEFAULT_VALUE"

fun vv_GetString :: "VariantValue \<Rightarrow> string" where
  "vv_GetString (TYPE_STRING s) = s"
| "vv_GetString _ = []"

fun vv_GetBlob :: "VariantValue \<Rightarrow> u8 list" where
  "vv_GetBlob (TYPE_BLOB b) = b"
| "vv_GetBlob _ = []"

section \<open>Rows\<close>

type_synonym GenericValues = "(string, VariantValue) omap"

text \<open>\<open>Put(key, VariantValue)\<close>, and the overloads that build the cell first.\<close>

definition Put :: "string \<Rightarrow> VariantValue \<Rightarrow> GenericValues \<Rightarrow> GenericValues" where
  "Put key v m = omap_emplace key v m"

definition PutInt :: "string \<Rightarrow> int \<Rightarrow> GenericValues \<Rightarrow> GenericValues" where
  "PutInt key v m = omap_emplace key (TYPE_INT v) m"

definition PutInt64 :: "string \<Rightarrow> int \<Rightarrow> GenericValues \<Rightarrow> GenericValues" where
  "PutInt64 key v m = omap_emplace key (TYPE_INT64 v) m"

definition PutString :: "string \<Rightarrow> string \<Rightarrow> GenericValues \<Rightarrow> GenericValues" where
  "PutString key v m = omap_emplace key (TYPE_STRING v) m"

definition PutBlob :: "string \<Rightarrow> u8 list \<Rightarrow> GenericValues \<Rightarrow> GenericValues" where
  "PutBlob key v m = omap_emplace key (TYPE_BLOB v) m"

definition Get :: "GenericValues \<Rightarrow> string \<Rightarrow> VariantValue" where
  "Get m key = (case map_of m key of None \<Rightarrow> TYPE_NULL | Some v \<Rightarrow> v)"

definition GetInt :: "GenericValues \<Rightarrow> string \<Rightarrow> int" where
  "GetInt m key = (case map_of m key of None \<Rightarrow> DEFAULT_VALUE | Some v \<Rightarrow> vv_GetInt v)"

definition GetInt64 :: "GenericValues \<Rightarrow> string \<Rightarrow> int" where
  "GetInt64 m key = (case map_of m key of None \<Rightarrow> DEFAULT_VALUE | Some v \<Rightarrow> vv_GetInt64 v)"

definition GetString :: "GenericValues \<Rightarrow> string \<Rightarrow> string" where
  "GetString m key = (case map_of m key of None \<Rightarrow> [] | Some v \<Rightarrow> vv_GetString v)"

definition GetBlob :: "GenericValues \<Rightarrow> string \<Rightarrow> u8 list" where
  "GetBlob m key = (case map_of m key of None \<Rightarrow> [] | Some v \<Rightarrow> vv_GetBlob v)"

definition GetAllKeys :: "GenericValues \<Rightarrow> string list" where
  "GetAllKeys m = map fst m"

definition IsEmpty :: "GenericValues \<Rightarrow> bool" where
  "IsEmpty m \<longleftrightarrow> m = []"

definition Remove :: "string \<Rightarrow> GenericValues \<Rightarrow> GenericValues" where
  "Remove key m = (if map_of m key \<noteq> None then omap_erase key m else m)"

lemmas put_defs = Put_def PutInt_def PutInt64_def PutString_def PutBlob_def

lemmas get_defs = Get_def GetInt_def GetInt64_def GetString_def GetBlob_def

section \<open>Lookups after updates\<close>

text \<open>
  Every \<open>Get\<close> is \<open>Get\<close> of the cell followed by the conversion of the cell. This reduces the
  typed accessors to one function.
\<close>

lemma typed_gets:
  "GetInt m k = vv_GetInt (Get m k)"
  "GetInt64 m k = vv_GetInt64 (Get m k)"
  "GetString m k = vv_GetString (Get m k)"
  "GetBlob m k = vv_GetBlob (Get m k)"
  by (simp_all add: get_defs split: option.split)

lemma Get_Put:
  "omap_ok m \<Longrightarrow> Get (Put k v m) k' =
     (if k = k' \<and> map_of m k = None then v else Get m k')"
  by (auto simp: Get_def Put_def map_of_omap_emplace)

lemma omap_ok_Put [intro]: "omap_ok m \<Longrightarrow> omap_ok (Put k v m)"
  by (simp add: Put_def omap_ok_emplace)

lemma map_of_Put:
  "omap_ok m \<Longrightarrow> map_of (Put k v m) = (if map_of m k = None then (map_of m)(k \<mapsto> v) else map_of m)"
  by (simp add: Put_def map_of_omap_emplace)

lemma puts_as_Put:
  "PutInt k i m = Put k (TYPE_INT i) m"
  "PutInt64 k i m = Put k (TYPE_INT64 i) m"
  "PutString k s m = Put k (TYPE_STRING s) m"
  "PutBlob k b m = Put k (TYPE_BLOB b) m"
  by (simp_all add: put_defs)

lemma Get_Remove: "Get (Remove k m) k' = (if k = k' then TYPE_NULL else Get m k')"
  by (auto simp: Get_def Remove_def map_of_omap_erase split: option.split)

lemma omap_ok_Remove [intro]: "omap_ok m \<Longrightarrow> omap_ok (Remove k m)"
  by (simp add: Remove_def omap_ok_erase)

lemma GetAllKeys_sorted: "omap_ok m \<Longrightarrow> sorted_wrt (<) (GetAllKeys m)"
  by (simp add: GetAllKeys_def omap_ok_def)

end
