(* ===== verification/Token_Db.thy ===== *)
theory Token_Db
  imports Generic_Values "HOL-Library.Monad_Syntax"
begin

text \<open>
  The database layer: \<^verbatim>\<open>access_token_db_util.cpp\<close> (rows to and from the relational store),
  \<^verbatim>\<open>access_token_db.cpp\<close> (queries with retry and restore, updates, and the transaction that
  deletes and inserts rows) and \<^verbatim>\<open>access_token_db_operator.cpp\<close>, which only forwards.

  The relational store (\<open>NativeRdb\<close>) is not part of the repository. It is the parameter
  \<open>ops\<close>, a record of its operations on a store state \<open>'s\<close>, a transaction \<open>'t\<close> and a result
  cursor \<open>'r\<close>. What the code relies on is \<open>rdb_laws\<close>, over an abstraction of a store or
  transaction to its table contents.
\<close>

section \<open>Tables and columns\<close>

text \<open>The column names of \<^verbatim>\<open>token_field_const.cpp\<close>.\<close>

abbreviation FIELD_TOKEN_ID :: string where "FIELD_TOKEN_ID \<equiv> ''token_id''"
abbreviation FIELD_USER_ID :: string where "FIELD_USER_ID \<equiv> ''user_id''"
abbreviation FIELD_BUNDLE_NAME :: string where "FIELD_BUNDLE_NAME \<equiv> ''bundle_name''"
abbreviation FIELD_INST_INDEX :: string where "FIELD_INST_INDEX \<equiv> ''inst_index''"
abbreviation FIELD_DLP_TYPE :: string where "FIELD_DLP_TYPE \<equiv> ''dlp_type''"
abbreviation FIELD_APP_ID :: string where "FIELD_APP_ID \<equiv> ''app_id''"
abbreviation FIELD_DEVICE_ID :: string where "FIELD_DEVICE_ID \<equiv> ''device_id''"
abbreviation FIELD_UID :: string where "FIELD_UID \<equiv> ''uid''"
abbreviation FIELD_MIGRATED :: string where "FIELD_MIGRATED \<equiv> ''migrated''"
abbreviation FIELD_MODULE_NAME :: string where "FIELD_MODULE_NAME \<equiv> ''module_name''"
abbreviation FIELD_PATH :: string where "FIELD_PATH \<equiv> ''path''"
abbreviation FIELD_BUNDLE_TYPE :: string where "FIELD_BUNDLE_TYPE \<equiv> ''bundle_type''"
abbreviation FIELD_PERSIST_DATA :: string where "FIELD_PERSIST_DATA \<equiv> ''persist_data''"
abbreviation FIELD_IS_PREINSTALLED :: string where "FIELD_IS_PREINSTALLED \<equiv> ''is_preinstalled''"
abbreviation FIELD_APL :: string where "FIELD_APL \<equiv> ''apl''"
abbreviation FIELD_TOKEN_VERSION :: string where "FIELD_TOKEN_VERSION \<equiv> ''token_version''"
abbreviation FIELD_TOKEN_ATTR :: string where "FIELD_TOKEN_ATTR \<equiv> ''token_attr''"
abbreviation FIELD_API_VERSION :: string where "FIELD_API_VERSION \<equiv> ''api_version''"
abbreviation FIELD_FORBID_PERM_DIALOG :: string where "FIELD_FORBID_PERM_DIALOG \<equiv> ''perm_dialog_cap_state''"
abbreviation FIELD_RESERVED :: string where "FIELD_RESERVED \<equiv> ''reserved''"
abbreviation FIELD_PROCESS_NAME :: string where "FIELD_PROCESS_NAME \<equiv> ''process_name''"
abbreviation FIELD_DCAP :: string where "FIELD_DCAP \<equiv> ''dcap''"
abbreviation FIELD_NATIVE_ACLS :: string where "FIELD_NATIVE_ACLS \<equiv> ''native_acls''"
abbreviation FIELD_PERMISSION_NAME :: string where "FIELD_PERMISSION_NAME \<equiv> ''permission_name''"
abbreviation FIELD_GRANT_MODE :: string where "FIELD_GRANT_MODE \<equiv> ''grant_mode''"
abbreviation FIELD_AVAILABLE_LEVEL :: string where "FIELD_AVAILABLE_LEVEL \<equiv> ''available_level''"
abbreviation FIELD_PROVISION_ENABLE :: string where "FIELD_PROVISION_ENABLE \<equiv> ''provision_enable''"
abbreviation FIELD_DISTRIBUTED_SCENE_ENABLE :: string where "FIELD_DISTRIBUTED_SCENE_ENABLE \<equiv> ''distributed_scene_enable''"
abbreviation FIELD_LABEL :: string where "FIELD_LABEL \<equiv> ''label''"
abbreviation FIELD_LABEL_ID :: string where "FIELD_LABEL_ID \<equiv> ''label_id''"
abbreviation FIELD_DESCRIPTION :: string where "FIELD_DESCRIPTION \<equiv> ''description''"
abbreviation FIELD_DESCRIPTION_ID :: string where "FIELD_DESCRIPTION_ID \<equiv> ''description_id''"
abbreviation FIELD_AVAILABLE_TYPE :: string where "FIELD_AVAILABLE_TYPE \<equiv> ''available_type''"
abbreviation FIELD_GRANT_IS_GENERAL :: string where "FIELD_GRANT_IS_GENERAL \<equiv> ''is_general''"
abbreviation FIELD_GRANT_STATE :: string where "FIELD_GRANT_STATE \<equiv> ''grant_state''"
abbreviation FIELD_GRANT_FLAG :: string where "FIELD_GRANT_FLAG \<equiv> ''grant_flag''"
abbreviation FIELD_TIMESTAMP :: string where "FIELD_TIMESTAMP \<equiv> ''timestamp''"
abbreviation FIELD_REQUEST_TOGGLE_STATUS :: string where "FIELD_REQUEST_TOGGLE_STATUS \<equiv> ''status''"
abbreviation FIELD_SUB_PROFILE_ID :: string where "FIELD_SUB_PROFILE_ID \<equiv> ''sub_profile_id''"
abbreviation FIELD_KERNEL_EFFECT :: string where "FIELD_KERNEL_EFFECT \<equiv> ''kernel_effect''"
abbreviation FIELD_HAS_VALUE :: string where "FIELD_HAS_VALUE \<equiv> ''has_value''"
abbreviation FIELD_VALUE :: string where "FIELD_VALUE \<equiv> ''value''"
abbreviation FIELD_ACL :: string where "FIELD_ACL \<equiv> ''acl''"
abbreviation FIELD_NAME :: string where "FIELD_NAME \<equiv> ''name''"
abbreviation FIELD_APP_DISTRIBUTION_TYPE :: string where "FIELD_APP_DISTRIBUTION_TYPE \<equiv> ''app_distribution_type''"
abbreviation FIELD_IS_SIDELOAD :: string where "FIELD_IS_SIDELOAD \<equiv> ''is_sideload''"
abbreviation FIELD_CONTROLLER_TOKENID :: string where "FIELD_CONTROLLER_TOKENID \<equiv> ''controller_tokenid''"
abbreviation FIELD_RESTRICTED_USER :: string where "FIELD_RESTRICTED_USER \<equiv> ''restricted_user''"
abbreviation FIELD_WHITELIST :: string where "FIELD_WHITELIST \<equiv> ''whitelist''"
abbreviation FIELD_MODE :: string where "FIELD_MODE \<equiv> ''mode''"

datatype AtmDataType =
    ACCESSTOKEN_HAP_TOKEN_INFO
  | ACCESSTOKEN_NATIVE_INFO
  | ACCESSTOKEN_PERMISSION_DEF
  | ACCESSTOKEN_PERMISSION_STATE
  | ACCESSTOKEN_PERMISSION_REQUEST_TOGGLE_STATUS
  | ACCESSTOKEN_PERMISSION_EXTEND_VALUE
  | ACCESSTOKEN_HAP_UNDEFINE_INFO
  | ACCESSTOKEN_SYSTEM_CONFIG
  | ACCESSTOKEN_USER_POLICY
  | ACCESSTOKEN_HAP_PACKAGE_INFO

record DelInfo =
  delType :: AtmDataType
  delValue :: GenericValues

record AddInfo =
  addType :: AtmDataType
  addValues :: "GenericValues list"

definition g_StringTypeColumns :: "string list" where
  "g_StringTypeColumns =
     [''description'', ''permission_name'', ''device_id'', ''bundle_name'', ''app_id'',
      ''process_name'', ''dcap'', ''native_acls'', ''label'', ''value'', ''name'',
      ''app_distribution_type'', ''restricted_user'', ''whitelist'', ''module_name'', ''path'',
      ''hap_path'']"

definition g_DateTypeToTableName :: "(AtmDataType \<times> string) list" where
  "g_DateTypeToTableName =
     [(ACCESSTOKEN_HAP_TOKEN_INFO, ''hap_token_info_table''),
      (ACCESSTOKEN_NATIVE_INFO, ''native_token_info_table''),
      (ACCESSTOKEN_PERMISSION_DEF, ''permission_definition_table''),
      (ACCESSTOKEN_PERMISSION_STATE, ''permission_state_table''),
      (ACCESSTOKEN_PERMISSION_REQUEST_TOGGLE_STATUS, ''permission_request_toggle_status_table''),
      (ACCESSTOKEN_PERMISSION_EXTEND_VALUE, ''permission_extend_value_table''),
      (ACCESSTOKEN_HAP_UNDEFINE_INFO, ''hap_undefine_info_table''),
      (ACCESSTOKEN_SYSTEM_CONFIG, ''system_config_table''),
      (ACCESSTOKEN_USER_POLICY, ''user_policy_table''),
      (ACCESSTOKEN_HAP_PACKAGE_INFO, ''hap_info_table'')]"

definition GetTableNameByType :: "AtmDataType \<Rightarrow> string" where
  "GetTableNameByType t = (case map_of g_DateTypeToTableName t of None \<Rightarrow> [] | Some n \<Rightarrow> n)"

definition IsColumnStringType :: "string \<Rightarrow> bool" where
  "IsColumnStringType column \<longleftrightarrow> column \<in> set g_StringTypeColumns"

section \<open>Values exchanged with the store\<close>

text \<open>A cell (\<open>NativeRdb::ValueObject\<close>), a row to write (\<open>ValuesBucket\<close>) and a condition
  (\<open>RdbPredicates\<close>: a table and a conjunction of \<open>EqualTo\<close>/\<open>In\<close>) as this code builds them.\<close>

datatype ValueObject = VO_NULL | VO_INT int | VO_STRING string | VO_BLOB "u8 list" | VO_OTHER

type_synonym ValuesBucket = "(string, ValueObject) omap"

datatype rdb_cond = EqualTo string ValueObject | In_cond string "ValueObject list"

type_synonym RdbPredicates = "string \<times> rdb_cond list"

text \<open>The body of the loop of \<open>ToRdbValueBucket\<close>: the object stored under one column.\<close>

definition rdb_value :: "string \<Rightarrow> VariantValue \<Rightarrow> ValueObject" where
  "rdb_value column data =
     (case data of TYPE_BLOB b \<Rightarrow> VO_BLOB b
      | _ \<Rightarrow>
        if (case data of TYPE_STRING _ \<Rightarrow> True | _ \<Rightarrow> False) \<or> IsColumnStringType column
        then VO_STRING (vv_GetString data)
        else if (case data of TYPE_INT64 _ \<Rightarrow> True | _ \<Rightarrow> False) \<or> column = FIELD_TIMESTAMP
        then VO_INT (vv_GetInt64 data)
        else VO_INT (vv_GetInt data))"

definition ToRdbValueBucket :: "GenericValues \<Rightarrow> ValuesBucket" where
  "ToRdbValueBucket value =
     foldl (\<lambda>bucket column. omap_insert column (rdb_value column (Get value column)) bucket)
       [] (GetAllKeys value)"

definition ToRdbValueBuckets :: "GenericValues list \<Rightarrow> ValuesBucket list" where
  "ToRdbValueBuckets values = filter (\<lambda>b. b \<noteq> []) (map ToRdbValueBucket values)"

definition ToRdbPredicates :: "GenericValues \<Rightarrow> rdb_cond list" where
  "ToRdbPredicates c =
     map (\<lambda>column. if IsColumnStringType column then EqualTo column (VO_STRING (GetString c column))
                   else EqualTo column (VO_INT (GetInt c column)))
       (GetAllKeys c)"

definition AddStringInPredicate :: "string \<Rightarrow> VariantValue list \<Rightarrow> rdb_cond list" where
  "AddStringInPredicate column values = [In_cond column (map (\<lambda>v. VO_STRING (vv_GetString v)) values)]"

definition AddNumericInPredicate :: "string \<Rightarrow> VariantValue list \<Rightarrow> rdb_cond list" where
  "AddNumericInPredicate column values =
     [In_cond column
        (map (\<lambda>v. case v of TYPE_INT64 i \<Rightarrow> VO_INT i | _ \<Rightarrow> VO_INT (vv_GetInt v)) values)]"

definition ToRdbPredicatesIn :: "string \<Rightarrow> VariantValue list \<Rightarrow> rdb_cond list" where
  "ToRdbPredicatesIn column values =
     (if values = [] then []
      else if IsColumnStringType column then AddStringInPredicate column values
      else AddNumericInPredicate column values)"

definition put_column :: "GenericValues \<Rightarrow> string \<times> ValueObject \<Rightarrow> GenericValues" where
  "put_column value c =
     (case snd c of
        VO_INT i \<Rightarrow> PutInt64 (fst c) i value
      | VO_BLOB b \<Rightarrow> PutBlob (fst c) b value
      | VO_STRING s \<Rightarrow> PutString (fst c) s value
      | _ \<Rightarrow> value)"

definition ResultToGenericValues ::
    "ValueObject list \<Rightarrow> string list \<Rightarrow> GenericValues \<Rightarrow> GenericValues" where
  "ResultToGenericValues row columnNames value = foldl put_column value (zip columnNames row)"

section \<open>The store\<close>

abbreviation E_OK :: int where "E_OK \<equiv> 0"

text \<open>
  The operations of the store that the code calls. \<open>get_rdb_store\<close> is \<open>RdbHelper::GetRdbStore\<close>
  (whether a handle was obtained), \<open>query_by_step\<close> returns no cursor when the handle is null, and
  \<open>e_sqlite_corrupt\<close> is the store's code for a corrupt file.
\<close>

record ('s, 't, 'r) rdb_ops =
  e_sqlite_corrupt :: int
  get_rdb_store :: "'s \<Rightarrow> bool \<times> 's"
  rdb_restore :: "'s \<Rightarrow> int \<times> 's"
  rdb_update :: "ValuesBucket \<Rightarrow> RdbPredicates \<Rightarrow> 's \<Rightarrow> int \<times> 's"
  query_by_step :: "RdbPredicates \<Rightarrow> 's \<Rightarrow> 'r option \<times> 's"
  whole_column_names :: "'r \<Rightarrow> int \<times> string list"
  get_rows_data :: "nat \<Rightarrow> 'r \<Rightarrow> int \<times> ValueObject list list \<times> 'r"
  create_transaction :: "'s \<Rightarrow> int \<times> 't option \<times> 's"
  tx_delete :: "RdbPredicates \<Rightarrow> 't \<Rightarrow> int \<times> 't"
  tx_batch_insert :: "string \<Rightarrow> ValuesBucket list \<Rightarrow> 't \<Rightarrow> int \<times> int \<times> 't"
  tx_commit :: "'t \<Rightarrow> 's \<Rightarrow> int \<times> 's"
  tx_rollback :: "'t \<Rightarrow> 's \<Rightarrow> 's"

text \<open>\<open>AccessTokenDb\<close>: whether \<open>db_\<close> is non-null, and the store.\<close>

record 's AccessTokenDb =
  db_nonnull :: bool
  db_store :: 's

abbreviation BATCH_QUERY_SIZE :: nat where "BATCH_QUERY_SIZE \<equiv> 512"
abbreviation QUERY_MAX_RETRY_TIMES :: nat where "QUERY_MAX_RETRY_TIMES \<equiv> 2"

definition InitRdb :: "('s, 't, 'r) rdb_ops \<Rightarrow> 's AccessTokenDb \<Rightarrow> 's AccessTokenDb" where
  "InitRdb ops d =
     (let (ok, s) = get_rdb_store ops (db_store d) in d\<lparr>db_nonnull := ok, db_store := s\<rparr>)"

definition GetRdb :: "('s, 't, 'r) rdb_ops \<Rightarrow> 's AccessTokenDb \<Rightarrow> 's AccessTokenDb" where
  "GetRdb ops d = (if \<not> db_nonnull d then InitRdb ops d else d)"

subsection \<open>Queries\<close>

text \<open>
  The loop reads batches until one is short. A cursor that always returns full batches keeps it
  running, which is the value \<open>None\<close>.
\<close>

definition read_rows :: "string list \<Rightarrow> ValueObject list list \<Rightarrow> GenericValues list" where
  "read_rows columnNames rowsData =
     filter (\<lambda>v. \<not> IsEmpty v) (map (\<lambda>row. ResultToGenericValues row columnNames []) rowsData)"

partial_function (option) ReadResultSetByStep ::
    "('s, 't, 'r) rdb_ops \<Rightarrow> 'r \<Rightarrow> string list \<Rightarrow> GenericValues list \<Rightarrow>
      (int \<times> GenericValues list) option" where
  "ReadResultSetByStep ops rs columnNames results =
     (let (code, rowsData, rs') = get_rows_data ops BATCH_QUERY_SIZE rs in
      if code \<noteq> E_OK \<or> rowsData = [] then Some (code, results)
      else
        (let results' = results @ read_rows columnNames rowsData in
         if length rowsData = BATCH_QUERY_SIZE
         then ReadResultSetByStep ops rs' columnNames results'
         else Some (code, results')))"

definition QueryByStepAndRead ::
    "('s, 't, 'r) rdb_ops \<Rightarrow> RdbPredicates \<Rightarrow> GenericValues list \<Rightarrow> 's \<Rightarrow>
      (int \<times> GenericValues list \<times> 's) option" where
  "QueryByStepAndRead ops predicates results s =
     (case query_by_step ops predicates s of
        (None, s') \<Rightarrow> Some (ERR_DATABASE_OPERATE_FAILED, results, s')
      | (Some rs, s') \<Rightarrow>
          (let (nameErrCode, names) = whole_column_names ops rs in
           if nameErrCode \<noteq> E_OK then Some (ERR_DATABASE_OPERATE_FAILED, results, s')
           else do {
             (errCode, results') \<leftarrow> ReadResultSetByStep ops rs names results;
             Some (errCode, results', s') }))"

text \<open>The retry loop of \<open>FindByStep\<close>: \<open>n\<close> attempts remain.\<close>

fun find_attempts ::
    "('s, 't, 'r) rdb_ops \<Rightarrow> RdbPredicates \<Rightarrow> nat \<Rightarrow> int \<Rightarrow> GenericValues list \<Rightarrow> 's \<Rightarrow>
      (int \<times> GenericValues list \<times> 's) option" where
  "find_attempts ops p 0 errCode results s = Some (errCode, results, s)"
| "find_attempts ops p (Suc n) errCode results s = do {
     (e, rows, s') \<leftarrow> QueryByStepAndRead ops p [] s;
     if e = E_OK \<or> e = e_sqlite_corrupt ops then Some (e, rows, s')
     else find_attempts ops p n e rows s' }"

definition FindByStep ::
    "('s, 't, 'r) rdb_ops \<Rightarrow> RdbPredicates \<Rightarrow> GenericValues list \<Rightarrow> 's \<Rightarrow>
      (int \<times> GenericValues list \<times> 's) option" where
  "FindByStep ops p results s = do {
     (errCode, rows, s1) \<leftarrow>
       find_attempts ops p QUERY_MAX_RETRY_TIMES ERR_DATABASE_OPERATE_FAILED results s;
     if errCode = E_OK then Some (E_OK, rows, s1)
     else if errCode \<noteq> e_sqlite_corrupt ops then Some (ERR_DATABASE_OPERATE_FAILED, rows, s1)
     else
       (let (res, s2) = rdb_restore ops s1 in
        if res \<noteq> E_OK then Some (res, [], s2)
        else do {
          (e, rows', s3) \<leftarrow> QueryByStepAndRead ops p [] s2;
          if e \<noteq> E_OK then Some (ERR_DATABASE_OPERATE_FAILED, rows', s3)
          else Some (E_OK, rows', s3) }) }"

definition QueryByPredicates ::
    "('s, 't, 'r) rdb_ops \<Rightarrow> RdbPredicates \<Rightarrow> 's AccessTokenDb \<Rightarrow>
      (int \<times> GenericValues list \<times> 's AccessTokenDb) option" where
  "QueryByPredicates ops p d =
     (let d1 = GetRdb ops d in
      if \<not> db_nonnull d1 then Some (ERR_DATABASE_OPERATE_FAILED, [], d1)
      else do {
        (res, rows, s) \<leftarrow> FindByStep ops p [] (db_store d1);
        Some (res, rows, d1\<lparr>db_store := s\<rparr>) })"

definition Find ::
    "('s, 't, 'r) rdb_ops \<Rightarrow> AtmDataType \<Rightarrow> GenericValues \<Rightarrow> 's AccessTokenDb \<Rightarrow>
      (int \<times> GenericValues list \<times> 's AccessTokenDb) option" where
  "Find ops type conditionValue d =
     (let tableName = GetTableNameByType type in
      if tableName = [] then Some (ERR_PARAM_INVALID, [], d)
      else QueryByPredicates ops (tableName, ToRdbPredicates conditionValue) d)"

definition FindIn ::
    "('s, 't, 'r) rdb_ops \<Rightarrow> AtmDataType \<Rightarrow> string \<Rightarrow> VariantValue list \<Rightarrow> 's AccessTokenDb \<Rightarrow>
      (int \<times> GenericValues list \<times> 's AccessTokenDb) option" where
  "FindIn ops type column values d =
     (let tableName = GetTableNameByType type in
      if tableName = [] then Some (ERR_PARAM_INVALID, [], d)
      else QueryByPredicates ops (tableName, ToRdbPredicatesIn column values) d)"

subsection \<open>Updates\<close>

definition RestoreAndUpdateIfCorrupt ::
    "('s, 't, 'r) rdb_ops \<Rightarrow> int \<Rightarrow> ValuesBucket \<Rightarrow> RdbPredicates \<Rightarrow> 's \<Rightarrow> int \<times> 's" where
  "RestoreAndUpdateIfCorrupt ops resultCode bucket predicates s =
     (if resultCode \<noteq> e_sqlite_corrupt ops then (resultCode, s)
      else
        (let (res, s1) = rdb_restore ops s in
         if res \<noteq> E_OK then (res, s1)
         else
           (let (res', s2) = rdb_update ops bucket predicates s1 in
            if res' \<noteq> E_OK then (res', s2) else (0, s2))))"

definition Modify ::
    "('s, 't, 'r) rdb_ops \<Rightarrow> AtmDataType \<Rightarrow> GenericValues \<Rightarrow> GenericValues \<Rightarrow>
      's AccessTokenDb \<Rightarrow> ret \<times> 's AccessTokenDb" where
  "Modify ops type modifyValue conditionValue d =
     (let tableName = GetTableNameByType type in
      if tableName = [] then (ERR_PARAM_INVALID, d)
      else
        (let bucket = ToRdbValueBucket modifyValue in
         if bucket = [] then (ERR_PARAM_INVALID, d)
         else
           (let predicates = (tableName, ToRdbPredicates conditionValue); d1 = GetRdb ops d in
            if \<not> db_nonnull d1 then (ERR_DATABASE_OPERATE_FAILED, d1)
            else
              (let (res, s) = rdb_update ops bucket predicates (db_store d1) in
               if res \<noteq> E_OK
               then
                 (let (result, s') = RestoreAndUpdateIfCorrupt ops res bucket predicates s in
                  if result \<noteq> E_OK then (result, d1\<lparr>db_store := s'\<rparr>)
                  else (0, d1\<lparr>db_store := s'\<rparr>))
               else (0, d1\<lparr>db_store := s\<rparr>)))))"

subsection \<open>The transaction\<close>

fun AddValues :: "('s, 't, 'r) rdb_ops \<Rightarrow> AddInfo list \<Rightarrow> 't \<Rightarrow> int \<times> 't" where
  "AddValues ops [] t = (0, t)"
| "AddValues ops (a # as) t =
     (let tableName = GetTableNameByType (addType a) in
      if tableName = [] then (ERR_PARAM_INVALID, t)
      else if addValues a = [] then AddValues ops as t
      else
        (let (errCode, outInsertNum, t') =
           tx_batch_insert ops tableName (ToRdbValueBuckets (addValues a)) t in
         if errCode \<noteq> E_OK then (errCode, t')
         else if outInsertNum \<le> 0 then (ERR_DATABASE_OPERATE_FAILED, t')
         else AddValues ops as t'))"

fun RemoveValues :: "('s, 't, 'r) rdb_ops \<Rightarrow> DelInfo list \<Rightarrow> 't \<Rightarrow> int \<times> 't" where
  "RemoveValues ops [] t = (0, t)"
| "RemoveValues ops (d # ds) t =
     (let tableName = GetTableNameByType (delType d) in
      if tableName = [] then (ERR_PARAM_INVALID, t)
      else
        (let (errCode, t') = tx_delete ops (tableName, ToRdbPredicates (delValue d)) t in
         if errCode \<noteq> E_OK then (errCode, t') else RemoveValues ops ds t'))"

definition DeleteAndInsertValuesInner ::
    "('s, 't, 'r) rdb_ops \<Rightarrow> DelInfo list \<Rightarrow> AddInfo list \<Rightarrow> 's AccessTokenDb \<Rightarrow>
      ret \<times> 's AccessTokenDb" where
  "DeleteAndInsertValuesInner ops delInfoVec addInfoVec d =
     (let d1 = GetRdb ops d in
      if \<not> db_nonnull d1 then (ERR_DATABASE_OPERATE_FAILED, d1)
      else
        (case create_transaction ops (db_store d1) of
           (errcode, None, s) \<Rightarrow> (ERR_DATABASE_OPERATE_FAILED, d1\<lparr>db_store := s\<rparr>)
         | (errcode, Some t, s) \<Rightarrow>
             if errcode \<noteq> E_OK then (ERR_DATABASE_OPERATE_FAILED, d1\<lparr>db_store := s\<rparr>)
             else
               (let (res, t1) = RemoveValues ops delInfoVec t in
                if res \<noteq> E_OK then (res, d1\<lparr>db_store := tx_rollback ops t1 s\<rparr>)
                else
                  (let (res, t2) = AddValues ops addInfoVec t1 in
                   if res \<noteq> E_OK then (res, d1\<lparr>db_store := tx_rollback ops t2 s\<rparr>)
                   else
                     (let (res, s') = tx_commit ops t2 s in
                      if res \<noteq> E_OK then (res, d1\<lparr>db_store := tx_rollback ops t2 s'\<rparr>)
                      else (0, d1\<lparr>db_store := s'\<rparr>))))))"

definition RestoreDatabase ::
    "('s, 't, 'r) rdb_ops \<Rightarrow> int \<Rightarrow> 's AccessTokenDb \<Rightarrow> 's AccessTokenDb" where
  "RestoreDatabase ops errCode d =
     (if errCode \<noteq> e_sqlite_corrupt ops then d
      else
        (let d1 = GetRdb ops d in
         if \<not> db_nonnull d1 then d1 else d1\<lparr>db_store := snd (rdb_restore ops (db_store d1))\<rparr>))"

definition DeleteAndInsertValues ::
    "('s, 't, 'r) rdb_ops \<Rightarrow> DelInfo list \<Rightarrow> AddInfo list \<Rightarrow> 's AccessTokenDb \<Rightarrow>
      ret \<times> 's AccessTokenDb" where
  "DeleteAndInsertValues ops delInfoVec addInfoVec d =
     (let (res, d1) = DeleteAndInsertValuesInner ops delInfoVec addInfoVec d in
      if res \<noteq> E_OK
      then DeleteAndInsertValuesInner ops delInfoVec addInfoVec (RestoreDatabase ops res d1)
      else (res, d1))"

section \<open>What the store promises\<close>

text \<open>Table contents, and the meaning of a delete and of an insert on them.\<close>

type_synonym tables = "string \<Rightarrow> ValuesBucket list"

definition cond_holds :: "ValuesBucket \<Rightarrow> rdb_cond \<Rightarrow> bool" where
  "cond_holds row c =
     (case c of EqualTo k v \<Rightarrow> map_of row k = Some v
      | In_cond k vs \<Rightarrow> (\<exists>v \<in> set vs. map_of row k = Some v))"

definition delete_rows :: "RdbPredicates \<Rightarrow> tables \<Rightarrow> tables" where
  "delete_rows p db =
     db(fst p := filter (\<lambda>row. \<not> (\<forall>c \<in> set (snd p). cond_holds row c)) (db (fst p)))"

text \<open>The columns of \<open>bucket\<close> overwrite those of the rows that satisfy the condition.\<close>

definition update_rows :: "ValuesBucket \<Rightarrow> RdbPredicates \<Rightarrow> tables \<Rightarrow> tables" where
  "update_rows bucket p db =
     db(fst p := map (\<lambda>row. if \<forall>c \<in> set (snd p). cond_holds row c
                            then foldl (\<lambda>r (k, v). omap_insert k v r) row bucket else row) (db (fst p)))"

definition selected_rows :: "RdbPredicates \<Rightarrow> tables \<Rightarrow> ValuesBucket list" where
  "selected_rows p db = filter (\<lambda>row. \<forall>c \<in> set (snd p). cond_holds row c) (db (fst p))"

definition insert_rows :: "string \<Rightarrow> ValuesBucket list \<Rightarrow> tables \<Rightarrow> tables" where
  "insert_rows name rows db = db(name := db name @ rows)"

text \<open>
  The documented behaviour of the store, for an abstraction \<open>sabs\<close> of a store and \<open>tabs\<close> of an
  open transaction: a transaction starts on the current contents, its deletes and inserts are
  visible in it only, a successful commit publishes them, a failed commit and a rollback leave the
  store as it was, an update outside a transaction changes the rows it selects or, when it fails,
  nothing, a query changes nothing, and restoring from the real-time replica gives the same contents.
\<close>

definition rdb_laws :: "('s, 't, 'r) rdb_ops \<Rightarrow> ('s \<Rightarrow> tables) \<Rightarrow> ('t \<Rightarrow> tables) \<Rightarrow> bool" where
  "rdb_laws ops sabs tabs \<longleftrightarrow>
     (\<forall>s. sabs (snd (get_rdb_store ops s)) = sabs s) \<and>
     (\<forall>s. sabs (snd (rdb_restore ops s)) = sabs s) \<and>
     (\<forall>s. sabs (snd (snd (create_transaction ops s))) = sabs s) \<and>
     (\<forall>s t. fst (snd (create_transaction ops s)) = Some t \<longrightarrow> tabs t = sabs s) \<and>
     (\<forall>p t. fst (tx_delete ops p t) = E_OK \<longrightarrow> tabs (snd (tx_delete ops p t)) = delete_rows p (tabs t)) \<and>
     (\<forall>n rows t. fst (tx_batch_insert ops n rows t) = E_OK \<longrightarrow>
        tabs (snd (snd (tx_batch_insert ops n rows t))) = insert_rows n rows (tabs t)) \<and>
     (\<forall>t s. sabs (snd (tx_commit ops t s)) = (if fst (tx_commit ops t s) = E_OK then tabs t else sabs s)) \<and>
     (\<forall>t s. sabs (tx_rollback ops t s) = sabs s) \<and>
     (\<forall>b p s. sabs (snd (rdb_update ops b p s)) =
        (if fst (rdb_update ops b p s) = E_OK then update_rows b p (sabs s) else sabs s)) \<and>
     (\<forall>p s. sabs (snd (query_by_step ops p s)) = sabs s)"

text \<open>The contents after a list of deletes and after a list of inserts.\<close>

definition apply_dels :: "DelInfo list \<Rightarrow> tables \<Rightarrow> tables" where
  "apply_dels ds db =
     foldl (\<lambda>db d. delete_rows (GetTableNameByType (delType d), ToRdbPredicates (delValue d)) db) db ds"

definition apply_adds :: "AddInfo list \<Rightarrow> tables \<Rightarrow> tables" where
  "apply_adds as db =
     foldl (\<lambda>db a. insert_rows (GetTableNameByType (addType a)) (ToRdbValueBuckets (addValues a)) db) db as"

lemma rdb_lawsD:
  assumes "rdb_laws ops sabs tabs"
  shows "sabs (snd (get_rdb_store ops s)) = sabs s"
    and "sabs (snd (rdb_restore ops s)) = sabs s"
    and "create_transaction ops s = (e, t, s') \<Longrightarrow> sabs s' = sabs s"
    and "create_transaction ops s = (e, Some tx, s') \<Longrightarrow> tabs tx = sabs s"
    and "tx_delete ops p tx = (E_OK, tx') \<Longrightarrow> tabs tx' = delete_rows p (tabs tx)"
    and "tx_batch_insert ops n rows tx = (E_OK, k, tx') \<Longrightarrow> tabs tx' = insert_rows n rows (tabs tx)"
    and "tx_commit ops tx s = (e, s') \<Longrightarrow> sabs s' = (if e = E_OK then tabs tx else sabs s)"
    and "sabs (tx_rollback ops tx s) = sabs s"
    and "rdb_update ops b p s = (e, s') \<Longrightarrow> sabs s' = (if e = E_OK then update_rows b p (sabs s) else sabs s)"
    and "query_by_step ops p s = (q, s') \<Longrightarrow> sabs s' = sabs s"
  using assms unfolding rdb_laws_def by (metis fst_conv snd_conv)+

lemma insert_no_rows [simp]: "insert_rows n [] db = db"
  by (simp add: insert_rows_def)

lemma ToRdbValueBuckets_Nil [simp]: "ToRdbValueBuckets [] = []"
  by (simp add: ToRdbValueBuckets_def)

lemma RemoveValues_ok:
  "rdb_laws ops sabs tabs \<Longrightarrow> RemoveValues ops ds t = (E_OK, t') \<Longrightarrow>
     tabs t' = apply_dels ds (tabs t)"
  by (induction ops ds t rule: RemoveValues.induct)
    (auto simp: apply_dels_def Let_def rdb_lawsD(5) split: if_splits prod.splits)

lemma AddValues_ok:
  "rdb_laws ops sabs tabs \<Longrightarrow> AddValues ops as t = (E_OK, t') \<Longrightarrow>
     tabs t' = apply_adds as (tabs t)"
  by (induction ops as t rule: AddValues.induct)
    (auto simp: apply_adds_def Let_def rdb_lawsD(6) split: if_splits prod.splits)

lemma GetRdb_abs: "rdb_laws ops sabs tabs \<Longrightarrow> sabs (db_store (GetRdb ops d)) = sabs (db_store d)"
  using rdb_lawsD(1) [of ops sabs tabs "db_store d"]
  by (auto simp: GetRdb_def InitRdb_def Let_def split: prod.splits)

lemma RestoreDatabase_abs:
  "rdb_laws ops sabs tabs \<Longrightarrow> sabs (db_store (RestoreDatabase ops e d)) = sabs (db_store d)"
  by (simp add: RestoreDatabase_def Let_def rdb_lawsD(2) GetRdb_abs)

lemma DeleteAndInsertValuesInner_atomic:
  assumes laws: "rdb_laws ops sabs tabs"
    and run: "DeleteAndInsertValuesInner ops ds as d = (r, d')"
  shows "sabs (db_store d') =
    (if r = RET_SUCCESS then apply_adds as (apply_dels ds (sabs (db_store d))) else sabs (db_store d))"
proof -
  define d1 where "d1 = GetRdb ops d"
  obtain e t s where ct: "create_transaction ops (db_store d1) = (e, t, s)" by (cases "create_transaction ops (db_store d1)")
  have s: "sabs s = sabs (db_store d)"
    using rdb_lawsD(3) [OF laws ct] GetRdb_abs [OF laws, of d] by (simp add: d1_def)
  show ?thesis
  proof (cases "db_nonnull d1 \<and> e = E_OK \<and> t \<noteq> None")
    case False
    then show ?thesis
      using run ct s GetRdb_abs [OF laws, of d]
      by (auto simp: DeleteAndInsertValuesInner_def d1_def [symmetric] split: if_splits option.splits)
  next
    case True
    then obtain tx where tx: "t = Some tx" by auto
    obtain r1 t1 where rv: "RemoveValues ops ds tx = (r1, t1)" by fastforce
    obtain r2 t2 where av: "AddValues ops as t1 = (r2, t2)" by fastforce
    obtain r3 s3 where cm: "tx_commit ops t2 s = (r3, s3)" by fastforce
    have "tabs tx = sabs (db_store d)"
      using rdb_lawsD(4) [OF laws] ct tx GetRdb_abs [OF laws, of d] by (metis d1_def)
    then show ?thesis
      using run True ct tx rv av cm s RemoveValues_ok [OF laws, of ds tx t1] AddValues_ok [OF laws, of as t1 t2]
        rdb_lawsD(7) [OF laws cm] rdb_lawsD(8) [OF laws]
      by (auto simp: DeleteAndInsertValuesInner_def d1_def [symmetric] Let_def split: if_splits)
  qed
qed

lemma DeleteAndInsertValues_atomic:
  assumes "rdb_laws ops sabs tabs"
    and "DeleteAndInsertValues ops ds as d = (r, d')"
  shows "sabs (db_store d') =
    (if r = RET_SUCCESS then apply_adds as (apply_dels ds (sabs (db_store d))) else sabs (db_store d))"
proof -
  obtain r1 d1 where first: "DeleteAndInsertValuesInner ops ds as d = (r1, d1)" by fastforce
  show ?thesis
    using assms(2) first DeleteAndInsertValuesInner_atomic [OF assms(1) first]
      DeleteAndInsertValuesInner_atomic [OF assms(1), of ds as "RestoreDatabase ops r1 d1" r d']
      RestoreDatabase_abs [OF assms(1), of r1 d1]
    by (auto simp: DeleteAndInsertValues_def split: if_splits)
qed

lemma RestoreAndUpdate_abs:
  assumes "rdb_laws ops sabs tabs" and "RestoreAndUpdateIfCorrupt ops e b p s = (r, s')" and "e \<noteq> E_OK"
  shows "sabs s' = (if r = E_OK then update_rows b p (sabs s) else sabs s)"
proof -
  obtain r1 s1 where res: "rdb_restore ops s = (r1, s1)" by fastforce
  obtain r2 s2 where upd: "rdb_update ops b p s1 = (r2, s2)" by fastforce
  show ?thesis
    using assms(2,3) res upd rdb_lawsD(2) [OF assms(1), of s] rdb_lawsD(9) [OF assms(1) upd]
    by (auto simp: RestoreAndUpdateIfCorrupt_def split: if_splits)
qed

lemma Modify_abs:
  assumes "rdb_laws ops sabs tabs" and "Modify ops ty v c d = (r, d')"
  shows "sabs (db_store d') =
    (if r = RET_SUCCESS then update_rows (ToRdbValueBucket v) (GetTableNameByType ty, ToRdbPredicates c) (sabs (db_store d))
     else sabs (db_store d))"
proof -
  let ?p = "(GetTableNameByType ty, ToRdbPredicates c)" and ?b = "ToRdbValueBucket v"
  obtain e s where u: "rdb_update ops ?b ?p (db_store (GetRdb ops d)) = (e, s)" by fastforce
  obtain e' s' where ru: "RestoreAndUpdateIfCorrupt ops e ?b ?p s = (e', s')" by fastforce
  show ?thesis
    using assms(2) u ru GetRdb_abs [OF assms(1), of d] rdb_lawsD(9) [OF assms(1) u]
      RestoreAndUpdate_abs [OF assms(1) ru]
    by (auto simp: Modify_def Let_def split: if_splits)
qed

section \<open>Rows survive the store\<close>

lemma insert_columns:
  assumes "omap_ok b"
  shows "omap_ok (foldl (\<lambda>b c. omap_insert c (g c) b) b ks)"
    and "map_of (foldl (\<lambda>b c. omap_insert c (g c) b) b ks) k =
      (if k \<in> set ks then Some (g k) else map_of b k)"
  using assms by (induction ks arbitrary: b) (auto simp: map_of_omap_insert omap_ok_insert)

lemma map_of_map_cells:
  "map_of (map (\<lambda>(c, v). (c, f c v)) m) k = map_option (f k) (map_of m k)"
  by (induction m) auto

lemma ToRdbValueBucket_eq:
  assumes "omap_ok m"
  shows "ToRdbValueBucket m = map (\<lambda>(c, v). (c, rdb_value c v)) m"
proof (rule omap_ext)
  show "omap_ok (ToRdbValueBucket m)"
    unfolding ToRdbValueBucket_def by (rule insert_columns(1)) simp
  show "omap_ok (map (\<lambda>(c, v). (c, rdb_value c v)) m)"
    by (rule omap_ok_map_snd [OF assms])
  show "map_of (ToRdbValueBucket m) = map_of (map (\<lambda>(c, v). (c, rdb_value c v)) m)"
  proof
    fix k
    show "map_of (ToRdbValueBucket m) k = map_of (map (\<lambda>(c, v). (c, rdb_value c v)) m) k"
      unfolding ToRdbValueBucket_def insert_columns(2) [OF omap_ok_Nil] map_of_map_cells
      by (cases "map_of m k") (auto simp: GetAllKeys_def Get_def map_of_eq_None_iff
          intro!: rev_image_eqI dest!: map_of_SomeD)
  qed
qed

text \<open>The cell that \<open>put_column\<close> makes of a stored object.\<close>

definition cell_of :: "ValueObject \<Rightarrow> VariantValue option" where
  "cell_of v = (case v of VO_INT i \<Rightarrow> Some (TYPE_INT64 i) | VO_BLOB b \<Rightarrow> Some (TYPE_BLOB b)
     | VO_STRING s \<Rightarrow> Some (TYPE_STRING s) | _ \<Rightarrow> None)"

lemma put_column_cell:
  "put_column m (c, v) = (case cell_of v of None \<Rightarrow> m | Some x \<Rightarrow> Put c x m)"
  by (simp add: put_column_def cell_of_def puts_as_Put split: ValueObject.split)

lemma map_of_put_columns:
  assumes "omap_ok m" and "\<forall>(c, v) \<in> set row. cell_of v \<noteq> None"
  shows "map_of (foldl put_column m row) k =
    (case map_of m k of Some x \<Rightarrow> Some x | None \<Rightarrow> Option.bind (map_of row k) cell_of)"
  using assms
proof (induction row arbitrary: m)
  case (Cons cv row)
  obtain c v x where cv: "cv = (c, v)" "cell_of v = Some x"
    using Cons.prems by (cases cv) auto
  have "map_of (foldl put_column (Put c x m) row) k =
    (case map_of (Put c x m) k of Some x \<Rightarrow> Some x | None \<Rightarrow> Option.bind (map_of row k) cell_of)"
    using Cons.prems by (intro Cons.IH) (auto simp: omap_ok_Put)
  then show ?case
    using Cons.prems cv by (auto simp: put_column_cell map_of_Put split: option.split)
qed (auto split: option.split)

text \<open>A row whose cells have the type the column is stored with.\<close>

definition well_typed_cell :: "string \<Rightarrow> VariantValue \<Rightarrow> bool" where
  "well_typed_cell c v =
     (case v of TYPE_NULL \<Rightarrow> False
      | TYPE_INT i \<Rightarrow> \<not> IsColumnStringType c \<and> c \<noteq> FIELD_TIMESTAMP \<and> i32 i = i
      | TYPE_INT64 i \<Rightarrow> \<not> IsColumnStringType c
      | _ \<Rightarrow> True)"

text \<open>Reading back the row that \<open>ToRdbValueBucket\<close> wrote, column names and cells in order.\<close>

definition reload :: "GenericValues \<Rightarrow> GenericValues" where
  "reload m = (let b = ToRdbValueBucket m in ResultToGenericValues (map snd b) (map fst b) [])"

lemma cell_of_rdb_value:
  "\<exists>x. cell_of (rdb_value c v) = Some x"
  by (auto simp: cell_of_def rdb_value_def split: VariantValue.split)

lemma map_of_reload:
  assumes "omap_ok m"
  shows "map_of (reload m) k = Option.bind (map_of m k) (\<lambda>v. cell_of (rdb_value k v))"
proof -
  let ?b = "map (\<lambda>(c, v). (c, rdb_value c v)) m"
  have "reload m = foldl put_column [] ?b"
    by (simp only: reload_def Let_def ResultToGenericValues_def ToRdbValueBucket_eq [OF assms]
        zip_map_fst_snd)
  moreover have "map_of (foldl put_column [] ?b) k = Option.bind (map_of ?b k) cell_of"
    by (subst map_of_put_columns) (auto simp: cell_of_rdb_value)
  ultimately show ?thesis
    by (cases "map_of m k") (simp_all add: map_of_map_cells)
qed

lemma reload_gets:
  assumes "omap_ok m" and "\<forall>(c, v) \<in> set m. well_typed_cell c v"
  shows "GetInt (reload m) k = GetInt m k" and "GetString (reload m) k = GetString m k"
    and "GetBlob (reload m) k = GetBlob m k"
    and "(\<forall>i. map_of m k \<noteq> Some (TYPE_INT i)) \<Longrightarrow> GetInt64 (reload m) k = GetInt64 m k"
proof -
  have wt: "well_typed_cell k v" if "map_of m k = Some v" for v
    using assms(2) that by (auto dest: map_of_SomeD)
  note facts = map_of_reload [OF assms(1)] get_defs cell_of_def rdb_value_def well_typed_cell_def
  show "GetInt (reload m) k = GetInt m k"
    using wt by (cases "map_of m k"; cases "the (map_of m k)") (auto simp: facts)
  show "GetString (reload m) k = GetString m k"
    using wt by (cases "map_of m k"; cases "the (map_of m k)") (auto simp: facts)
  show "GetBlob (reload m) k = GetBlob m k"
    using wt by (cases "map_of m k"; cases "the (map_of m k)") (auto simp: facts)
  show "(\<forall>i. map_of m k \<noteq> Some (TYPE_INT i)) \<Longrightarrow> GetInt64 (reload m) k = GetInt64 m k"
    using wt by (cases "map_of m k"; cases "the (map_of m k)") (auto simp: facts)
qed

section \<open>Cursors\<close>

text \<open>A cursor over a finite list of rows: each read returns the next rows, at most as many as
  asked for.\<close>

definition cursor_laws :: "('s, 't, 'r) rdb_ops \<Rightarrow> ('r \<Rightarrow> ValueObject list list) \<Rightarrow> bool" where
  "cursor_laws ops rows \<longleftrightarrow>
     (\<forall>n r. \<exists>r'. get_rows_data ops n r = (E_OK, take n (rows r), r') \<and> rows r' = drop n (rows r))"

lemma read_rows_append: "read_rows cs (xs @ ys) = read_rows cs xs @ read_rows cs ys"
  by (simp add: read_rows_def)

lemma ReadResultSetByStep_all:
  assumes laws: "cursor_laws ops rows"
  shows "ReadResultSetByStep ops rs cs acc = Some (E_OK, acc @ read_rows cs (rows rs))"
proof (induction "length (rows rs)" arbitrary: rs acc rule: less_induct)
  case less
  obtain rs' where get: "get_rows_data ops BATCH_QUERY_SIZE rs = (E_OK, take BATCH_QUERY_SIZE (rows rs), rs')"
    and rest: "rows rs' = drop BATCH_QUERY_SIZE (rows rs)"
    using laws unfolding cursor_laws_def by blast
  have split: "read_rows cs (rows rs) = read_rows cs (take BATCH_QUERY_SIZE (rows rs)) @ read_rows cs (rows rs')"
    by (simp add: rest flip: read_rows_append)
  show ?case
  proof (cases "BATCH_QUERY_SIZE \<le> length (rows rs) \<and> rows rs \<noteq> []")
    case True
    then have "length (rows rs') < length (rows rs)" by (simp add: rest)
    from less [OF this] show ?thesis
      using True split by (subst ReadResultSetByStep.simps) (auto simp: get)
  next
    case False
    then show ?thesis
      by (subst ReadResultSetByStep.simps) (auto simp: get read_rows_def)
  qed
qed

text \<open>What a query returns: one list of cells for each row that satisfies the condition, in the order
  of the distinct column names; a column that the row does not have is absent or null.\<close>

definition row_matches :: "string list \<Rightarrow> ValueObject list \<Rightarrow> ValuesBucket \<Rightarrow> bool" where
  "row_matches names cells row \<longleftrightarrow>
     (\<forall>k. case map_of row k of
            Some v \<Rightarrow> map_of (zip names cells) k = Some v
          | None \<Rightarrow> map_of (zip names cells) k \<in> {None, Some VO_NULL})"

definition query_laws :: "('s, 't, 'r) rdb_ops \<Rightarrow> ('s \<Rightarrow> tables) \<Rightarrow> ('r \<Rightarrow> ValueObject list list) \<Rightarrow> bool" where
  "query_laws ops sabs rows \<longleftrightarrow>
     (\<forall>p s rs s' names. query_by_step ops p s = (Some rs, s') \<and> whole_column_names ops rs = (E_OK, names) \<longrightarrow>
        distinct names \<and> list_all2 (row_matches names) (rows rs) (selected_rows p (sabs s)))"

text \<open>The row as it is read back.\<close>

definition read_back :: "ValuesBucket \<Rightarrow> GenericValues" where
  "read_back row = foldl put_column [] row"

lemma put_columns_ok: "omap_ok m \<Longrightarrow> omap_ok (foldl put_column m row)"
proof (induction row arbitrary: m)
  case (Cons cv row)
  have "omap_ok (put_column m cv)"
    using Cons.prems by (cases cv) (auto simp: put_column_cell omap_ok_Put split: option.split)
  with Cons.IH show ?case by simp
qed simp

lemma map_of_put_columns_distinct:
  assumes "omap_ok m" and "distinct (map fst row)" and "\<forall>k \<in> fst ` set row. map_of m k = None"
  shows "map_of (foldl put_column m row) k =
    (if k \<in> fst ` set row then Option.bind (map_of row k) cell_of else map_of m k)"
  using assms
proof (induction row arbitrary: m)
  case (Cons cv row)
  obtain c v where cv: "cv = (c, v)" by (cases cv)
  have ok: "omap_ok (put_column m cv)"
    using Cons.prems(1) by (auto simp: cv put_column_cell omap_ok_Put split: option.split)
  have put: "map_of (put_column m cv) k' = (if k' = c then cell_of v else map_of m k')" for k'
    using Cons.prems by (auto simp: cv put_column_cell map_of_Put split: option.split)
  have "map_of (foldl put_column (put_column m cv) row) k =
      (if k \<in> fst ` set row then Option.bind (map_of row k) cell_of else map_of (put_column m cv) k)"
  proof (intro Cons.IH ok)
    show "\<forall>k \<in> fst ` set row. map_of (put_column m cv) k = None"
      using Cons.prems unfolding put by (auto simp: cv)
  qed (use Cons.prems in simp)
  then show ?case
    using Cons.prems(2) unfolding put by (auto simp: cv)
qed simp

lemma map_of_read_back:
  assumes "distinct (map fst row)"
  shows "map_of (read_back row) k = Option.bind (map_of row k) cell_of"
proof -
  have "k \<notin> fst ` set row \<Longrightarrow> map_of row k = None" by (simp add: map_of_eq_None_iff)
  then show ?thesis
    using map_of_put_columns_distinct [of "[]" row k] assms by (auto simp: read_back_def)
qed

lemma read_back_matches:
  assumes "distinct names" and "distinct (map fst row)" and "row_matches names cells row"
  shows "ResultToGenericValues cells names [] = read_back row"
proof (rule omap_ext)
  show "omap_ok (ResultToGenericValues cells names [])" "omap_ok (read_back row)"
    by (simp_all add: ResultToGenericValues_def read_back_def put_columns_ok)
  have d: "distinct (map fst (zip names cells))"
    using assms(1) by (simp add: map_fst_zip_take)
  show "map_of (ResultToGenericValues cells names []) = map_of (read_back row)"
  proof
    fix k
    have "map_of (ResultToGenericValues cells names []) k = Option.bind (map_of (zip names cells) k) cell_of"
      using map_of_read_back [OF d, of k] by (simp add: ResultToGenericValues_def read_back_def)
    moreover have "cell_of VO_NULL = None" by (simp add: cell_of_def)
    ultimately show "map_of (ResultToGenericValues cells names []) k = map_of (read_back row) k"
      using assms(3) [unfolded row_matches_def, rule_format, of k] unfolding map_of_read_back [OF assms(2)]
      by (cases "map_of row k") auto
  qed
qed

lemma read_rows_selected:
  assumes "distinct names" and "\<forall>row \<in> set rs. distinct (map fst row)" and "list_all2 (row_matches names) cells rs"
  shows "read_rows names cells = filter (\<lambda>v. \<not> IsEmpty v) (map read_back rs)"
  using assms(3,2)
  by (induction rule: list_all2_induct) (auto simp: read_rows_def read_back_matches [OF assms(1)])

lemma read_back_bucket: "omap_ok m \<Longrightarrow> read_back (ToRdbValueBucket m) = reload m"
  by (simp only: read_back_def reload_def Let_def ResultToGenericValues_def zip_map_fst_snd)

section \<open>The result of a successful query\<close>

lemma QueryByStepAndRead_abs:
  assumes "rdb_laws ops sabs tabs" and "query_laws ops sabs rows" and "cursor_laws ops rows"
    and "\<forall>row \<in> set (sabs s (fst p)). distinct (map fst row)"
    and "QueryByStepAndRead ops p acc s = Some (e, res, s')"
  shows "sabs s' = sabs s" and
    "e = E_OK \<Longrightarrow> res = acc @ filter (\<lambda>v. \<not> IsEmpty v) (map read_back (selected_rows p (sabs s)))"
proof -
  obtain q s1 where q: "query_by_step ops p s = (q, s1)" by fastforce
  show "sabs s' = sabs s"
    using assms(5) rdb_lawsD(10) [OF assms(1) q] q
    by (auto simp: QueryByStepAndRead_def ReadResultSetByStep_all [OF assms(3)] split: option.splits if_splits prod.splits)
  assume "e = E_OK"
  with assms(5) q obtain rs names where rs: "q = Some rs" "whole_column_names ops rs = (E_OK, names)"
    "res = acc @ read_rows names (rows rs)"
    by (auto simp: QueryByStepAndRead_def ReadResultSetByStep_all [OF assms(3)] split: option.splits if_splits prod.splits)
  have "\<forall>row \<in> set (selected_rows p (sabs s)). distinct (map fst row)"
    using assms(4) by (simp add: selected_rows_def)
  moreover have "distinct names \<and> list_all2 (row_matches names) (rows rs) (selected_rows p (sabs s))"
    using assms(2) q rs(1,2) unfolding query_laws_def by blast
  ultimately show "res = acc @ filter (\<lambda>v. \<not> IsEmpty v) (map read_back (selected_rows p (sabs s)))"
    using rs(3) read_rows_selected by simp
qed

lemma find_attempts_abs:
  assumes "rdb_laws ops sabs tabs" and "query_laws ops sabs rows" and "cursor_laws ops rows"
    and "\<forall>row \<in> set (sabs s (fst p)). distinct (map fst row)" and "e0 \<noteq> E_OK"
    and "find_attempts ops p n e0 acc s = Some (e, res, s')"
  shows "sabs s' = sabs s \<and>
    (e = E_OK \<longrightarrow> res = filter (\<lambda>v. \<not> IsEmpty v) (map read_back (selected_rows p (sabs s))))"
  using assms(4-6)
proof (induction n arbitrary: e0 acc s)
  case (Suc n)
  obtain e1 r1 s1 where q: "QueryByStepAndRead ops p [] s = Some (e1, r1, s1)"
    using Suc.prems(3) by (cases "QueryByStepAndRead ops p [] s") auto
  note a = QueryByStepAndRead_abs [OF assms(1-3) Suc.prems(1) q]
  show ?case
  proof (cases "e1 = E_OK \<or> e1 = e_sqlite_corrupt ops")
    case True
    then show ?thesis using Suc.prems(3) q a by auto
  next
    case False
    then show ?thesis using Suc.IH [of s1 e1 r1] Suc.prems q a(1) by auto
  qed
qed simp

lemma FindByStep_abs:
  assumes "rdb_laws ops sabs tabs" and "query_laws ops sabs rows" and "cursor_laws ops rows"
    and "\<forall>row \<in> set (sabs s (fst p)). distinct (map fst row)"
    and "FindByStep ops p acc s = Some (e, res, s')"
  shows "sabs s' = sabs s \<and>
    (e = E_OK \<longrightarrow> res = filter (\<lambda>v. \<not> IsEmpty v) (map read_back (selected_rows p (sabs s))))"
proof -
  obtain e1 r1 s1 where fa:
    "find_attempts ops p QUERY_MAX_RETRY_TIMES ERR_DATABASE_OPERATE_FAILED acc s = Some (e1, r1, s1)"
    using assms(5) by (cases "find_attempts ops p QUERY_MAX_RETRY_TIMES ERR_DATABASE_OPERATE_FAILED acc s")
      (auto simp: FindByStep_def)
  have a1: "sabs s1 = sabs s \<and>
      (e1 = E_OK \<longrightarrow> r1 = filter (\<lambda>v. \<not> IsEmpty v) (map read_back (selected_rows p (sabs s))))"
    by (rule find_attempts_abs [OF assms(1-4) _ fa]) simp
  obtain r2 s2 where rr: "rdb_restore ops s1 = (r2, s2)" by fastforce
  have s2: "sabs s2 = sabs s" using rdb_lawsD(2) [OF assms(1), of s1] rr a1 by simp
  consider "e1 = E_OK \<or> e1 \<noteq> e_sqlite_corrupt ops \<or> r2 \<noteq> E_OK"
    | "e1 \<noteq> E_OK" "e1 = e_sqlite_corrupt ops" "r2 = E_OK" by blast
  then show ?thesis
  proof cases
    case 1
    then show ?thesis using assms(5) fa a1 rr s2 by (auto simp: FindByStep_def split: if_splits)
  next
    case 2
    obtain e3 r3 s3 where q: "QueryByStepAndRead ops p [] s2 = Some (e3, r3, s3)"
      using assms(5) fa rr 2 by (cases "QueryByStepAndRead ops p [] s2") (auto simp: FindByStep_def)
    have "\<forall>row \<in> set (sabs s2 (fst p)). distinct (map fst row)" using assms(4) s2 by simp
    note a3 = QueryByStepAndRead_abs [OF assms(1-3) this q]
    show ?thesis using assms(5) fa rr 2 q a3 s2 by (auto simp: FindByStep_def split: if_splits)
  qed
qed

lemma Find_abs:
  assumes "rdb_laws ops sabs tabs" and "query_laws ops sabs rows" and "cursor_laws ops rows"
    and "\<forall>row \<in> set (sabs (db_store d) (GetTableNameByType ty)). distinct (map fst row)"
    and "Find ops ty c d = Some (r, res, d')"
  shows "sabs (db_store d') = sabs (db_store d) \<and>
    (r = RET_SUCCESS \<longrightarrow> res = filter (\<lambda>v. \<not> IsEmpty v)
       (map read_back (selected_rows (GetTableNameByType ty, ToRdbPredicates c) (sabs (db_store d)))))"
proof -
  let ?p = "(GetTableNameByType ty, ToRdbPredicates c)"
  let ?d1 = "GetRdb ops d"
  have d1: "sabs (db_store ?d1) = sabs (db_store d)" by (rule GetRdb_abs [OF assms(1)])
  have ty: "GetTableNameByType ty \<noteq> []"
    by (cases ty) (simp_all add: GetTableNameByType_def g_DateTypeToTableName_def)
  show ?thesis
  proof (cases "db_nonnull ?d1")
    case False
    then show ?thesis using assms(5) d1 ty by (auto simp: Find_def QueryByPredicates_def Let_def)
  next
    case True
    obtain s' where f: "FindByStep ops ?p [] (db_store ?d1) = Some (r, res, s')" and d': "d' = ?d1\<lparr>db_store := s'\<rparr>"
      using assms(5) ty True by (auto simp: Find_def QueryByPredicates_def Let_def bind_eq_Some_conv)
    have "\<forall>row \<in> set (sabs (db_store ?d1) (fst ?p)). distinct (map fst row)" using assms(4) d1 by simp
    from FindByStep_abs [OF assms(1-3) this f] show ?thesis by (simp add: d' d1)
  qed
qed

lemma Find_returns:
  assumes "cursor_laws ops rows"
  shows "\<exists>e res d'. Find ops ty cond d = Some (e, res, d')"
proof -
  have q: "\<exists>y. QueryByStepAndRead ops p acc s = Some y" for p acc s
    by (auto simp: QueryByStepAndRead_def Let_def ReadResultSetByStep_all [OF assms] split: option.split prod.split)
  have a: "\<exists>y. find_attempts ops p n e acc s = Some y" for p n e acc s
  proof (induction n arbitrary: e acc s)
    case (Suc n)
    obtain e1 r1 s1 where "QueryByStepAndRead ops p [] s = Some (e1, r1, s1)" using q [of p "[]" s] by auto
    then show ?case using Suc.IH by simp
  qed simp
  have f: "\<exists>y. FindByStep ops p acc s = Some y" for p acc s
  proof -
    obtain e1 r1 s1 where 1: "find_attempts ops p QUERY_MAX_RETRY_TIMES ERR_DATABASE_OPERATE_FAILED acc s = Some (e1, r1, s1)"
      using a by (metis prod_cases3)
    obtain e2 s2 where 2: "rdb_restore ops s1 = (e2, s2)" by fastforce
    obtain e3 r3 s3 where 3: "QueryByStepAndRead ops p [] s2 = Some (e3, r3, s3)" using q [of p "[]" s2] by auto
    show ?thesis by (simp add: FindByStep_def 1 2 3 del: find_attempts.simps)
  qed
  show ?thesis
  proof (cases "GetTableNameByType ty = [] \<or> \<not> db_nonnull (GetRdb ops d)")
    case False
    obtain e1 r1 s1 where "FindByStep ops (GetTableNameByType ty, ToRdbPredicates cond) [] (db_store (GetRdb ops d)) = Some (e1, r1, s1)"
      using f by (metis prod_cases3)
    then show ?thesis using False by (simp add: Find_def QueryByPredicates_def Let_def)
  qed (auto simp: Find_def QueryByPredicates_def Let_def)
qed

section \<open>A store in memory\<close>

text \<open>An instance of the parameter: the store and a transaction are the table contents, a cursor is
  the column names and the remaining rows, in which a missing column is null. It shows that the laws
  can hold.\<close>

definition mem_query :: "ValuesBucket list \<Rightarrow> string list \<times> ValueObject list list" where
  "mem_query rs =
     (let names = remdups (concat (map (map fst) rs)) in
      (names, map (\<lambda>row. map (\<lambda>k. case map_of row k of Some v \<Rightarrow> v | None \<Rightarrow> VO_NULL) names) rs))"

definition mem_rdb :: "(tables, tables, string list \<times> ValueObject list list) rdb_ops" where
  "mem_rdb =
     \<lparr>e_sqlite_corrupt = 14800011,
      get_rdb_store = (\<lambda>s. (True, s)),
      rdb_restore = (\<lambda>s. (E_OK, s)),
      rdb_update = (\<lambda>b p s. (E_OK, update_rows b p s)),
      query_by_step = (\<lambda>p s. (Some (mem_query (selected_rows p s)), s)),
      whole_column_names = (\<lambda>r. (E_OK, fst r)),
      get_rows_data = (\<lambda>n r. (E_OK, take n (snd r), (fst r, drop n (snd r)))),
      create_transaction = (\<lambda>s. (E_OK, Some s, s)),
      tx_delete = (\<lambda>p t. (E_OK, delete_rows p t)),
      tx_batch_insert = (\<lambda>n rows t. (E_OK, int (length rows), insert_rows n rows t)),
      tx_commit = (\<lambda>t s. (E_OK, t)),
      tx_rollback = (\<lambda>t s. s)\<rparr>"

lemma mem_rdb_laws: "rdb_laws mem_rdb (\<lambda>s. s) (\<lambda>t. t)"
  by (simp add: rdb_laws_def mem_rdb_def)

lemma mem_rdb_cursor: "cursor_laws mem_rdb snd"
  by (simp add: cursor_laws_def mem_rdb_def)

lemma mem_rdb_query: "query_laws mem_rdb (\<lambda>s. s) snd"
proof -
  have "list_all2 (row_matches names) (map (\<lambda>row. map (\<lambda>k. case map_of row k of Some v \<Rightarrow> v | None \<Rightarrow> VO_NULL) names) rs) rs"
    if "\<forall>row \<in> set rs. fst ` set row \<subseteq> set names" for names and rs :: "ValuesBucket list"
    using that
  proof (induction rs)
    case (Cons row rs)
    let ?f = "\<lambda>k. case map_of row k of Some v \<Rightarrow> v | None \<Rightarrow> VO_NULL"
    have z: "map_of (zip names (map ?f names)) k = (if k \<in> set names then Some (?f k) else None)" for k
      by (induction names) auto
    have "k \<notin> set names \<Longrightarrow> map_of row k = None" for k
      using Cons.prems by (auto simp: map_of_eq_None_iff)
    then have "row_matches names (map ?f names) row"
      by (auto simp: row_matches_def z split: option.split)
    with Cons show ?case by auto
  qed simp
  moreover have "fst ` set row \<subseteq> set (remdups (concat (map (map fst) rs)))" if "row \<in> set rs" for row and rs :: "ValuesBucket list"
    using that by auto
  ultimately show ?thesis
    by (auto simp: query_laws_def mem_rdb_def mem_query_def Let_def)
qed

lemma mem_find_succeeds: "\<exists>res d'. Find mem_rdb ty cond d = Some (RET_SUCCESS, res, d')"
proof -
  have q: "\<exists>res. QueryByStepAndRead mem_rdb p [] s = Some (E_OK, res, s)" for p s
    using ReadResultSetByStep_all [OF mem_rdb_cursor]
    by (simp add: QueryByStepAndRead_def mem_rdb_def)
  have f: "\<exists>res. FindByStep mem_rdb p [] s = Some (E_OK, res, s)" for p s
  proof -
    obtain res where "QueryByStepAndRead mem_rdb p [] s = Some (E_OK, res, s)" using q by blast
    then have "find_attempts mem_rdb p QUERY_MAX_RETRY_TIMES ERR_DATABASE_OPERATE_FAILED [] s = Some (E_OK, res, s)"
      by (simp add: numeral_2_eq_2)
    then show ?thesis by (simp add: FindByStep_def)
  qed
  have nonnull: "db_nonnull (GetRdb mem_rdb d)" by (simp add: GetRdb_def InitRdb_def mem_rdb_def)
  have "GetTableNameByType ty \<noteq> []"
    by (cases ty) (simp_all add: GetTableNameByType_def g_DateTypeToTableName_def)
  then show ?thesis
    using nonnull f [of "(GetTableNameByType ty, ToRdbPredicates cond)" "db_store (GetRdb mem_rdb d)"]
    by (auto simp: Find_def QueryByPredicates_def Let_def)
qed

section \<open>Properties\<close>

text \<open>C26. Atomicity of the transaction that every state change of the services goes through: for a
  store that keeps its contract, \<open>DeleteAndInsertValues\<close> either reports success, and then the
  contents are exactly those after all the deletes followed by all the inserts, or it reports an
  error, and then the contents are unchanged - whatever step failed, and also when the second
  attempt after a restore succeeds or fails.\<close>

theorem delete_and_insert_atomic:
  assumes "rdb_laws ops sabs tabs"
    and "DeleteAndInsertValues ops ds as d = (r, d')"
  shows "sabs (db_store d') =
    (if r = RET_SUCCESS then apply_adds as (apply_dels ds (sabs (db_store d))) else sabs (db_store d))"
  by (rule DeleteAndInsertValues_atomic [OF assms])

theorem delete_and_insert_atomic_witness:
  "let row = [(''name'', TYPE_STRING ''k''), (''value'', TYPE_STRING ''v'')];
       d = \<lparr>db_nonnull = False, db_store = \<lambda>_. []\<rparr>;
       d' = snd (DeleteAndInsertValues mem_rdb
              [\<lparr>delType = ACCESSTOKEN_SYSTEM_CONFIG, delValue = []\<rparr>]
              [\<lparr>addType = ACCESSTOKEN_SYSTEM_CONFIG, addValues = [row]\<rparr>] d)
   in db_store d' ''system_config_table'' = [[(''name'', VO_STRING ''k''), (''value'', VO_STRING ''v'')]]"
proof -
  let ?row = "[(''name'', TYPE_STRING ''k''), (''value'', TYPE_STRING ''v'')]"
  let ?del = "[\<lparr>delType = ACCESSTOKEN_SYSTEM_CONFIG, delValue = [] :: GenericValues\<rparr>]"
  let ?add = "[\<lparr>addType = ACCESSTOKEN_SYSTEM_CONFIG, addValues = [?row]\<rparr>]"
  let ?d = "\<lparr>db_nonnull = False, db_store = (\<lambda>_. []) :: tables\<rparr>"
  have bucket: "ToRdbValueBucket ?row = [(''name'', VO_STRING ''k''), (''value'', VO_STRING ''v'')]"
    by (simp add: ToRdbValueBucket_def GetAllKeys_def Get_def rdb_value_def)
  have ok: "fst (DeleteAndInsertValues mem_rdb ?del ?add ?d) = 0"
    by (simp add: DeleteAndInsertValues_def DeleteAndInsertValuesInner_def GetRdb_def InitRdb_def
        mem_rdb_def GetTableNameByType_def g_DateTypeToTableName_def ToRdbValueBuckets_def bucket)
  show ?thesis
    using delete_and_insert_atomic [OF mem_rdb_laws prod.collapse [symmetric], of ?del ?add ?d] ok
    by (simp add: apply_adds_def apply_dels_def insert_rows_def delete_rows_def
        GetTableNameByType_def g_DateTypeToTableName_def ToRdbValueBuckets_def bucket ToRdbPredicates_def
        GetAllKeys_def)
qed

text \<open>C30. A query returns every row: over a cursor of any finite length the batched reading loop
  ends, and \<open>Find\<close> reports success with the non-empty rows of all batches in cursor order.\<close>

theorem find_reads_all_rows:
  assumes "cursor_laws ops rows"
    and "db_nonnull d"
    and "query_by_step ops (GetTableNameByType type, ToRdbPredicates cond) (db_store d) = (Some rs, s')"
    and "whole_column_names ops rs = (E_OK, names)"
  shows "Find ops type cond d = Some (RET_SUCCESS, read_rows names (rows rs), d\<lparr>db_store := s'\<rparr>)"
proof -
  have "GetTableNameByType type \<noteq> []"
    by (cases type) (simp_all add: GetTableNameByType_def g_DateTypeToTableName_def)
  moreover have "find_attempts ops (GetTableNameByType type, ToRdbPredicates cond) QUERY_MAX_RETRY_TIMES
      ERR_DATABASE_OPERATE_FAILED [] (db_store d) = Some (E_OK, read_rows names (rows rs), s')"
    using assms(3,4) by (simp add: numeral_2_eq_2 QueryByStepAndRead_def ReadResultSetByStep_all [OF assms(1)])
  ultimately show ?thesis
    using assms(2) by (simp add: Find_def Let_def QueryByPredicates_def GetRdb_def FindByStep_def)
qed

theorem find_reads_all_rows_witness:
  "Find mem_rdb ACCESSTOKEN_SYSTEM_CONFIG [(''name'', TYPE_STRING ''k'')]
     \<lparr>db_nonnull = True, db_store = \<lambda>t. [[(''name'', VO_STRING ''k'')], [(''name'', VO_STRING ''x'')]]\<rparr> =
   Some (RET_SUCCESS, [[(''name'', TYPE_STRING ''k'')]],
     \<lparr>db_nonnull = True, db_store = \<lambda>t. [[(''name'', VO_STRING ''k'')], [(''name'', VO_STRING ''x'')]]\<rparr>)"
  using find_reads_all_rows [OF mem_rdb_cursor,
      of "\<lparr>db_nonnull = True, db_store = \<lambda>t. [[(''name'', VO_STRING ''k'')], [(''name'', VO_STRING ''x'')]]\<rparr>"
        ACCESSTOKEN_SYSTEM_CONFIG "[(''name'', TYPE_STRING ''k'')]" "([''name''], [[VO_STRING ''k'']])"]
  by (simp add: mem_rdb_def mem_query_def selected_rows_def Let_def ToRdbPredicates_def GetAllKeys_def GetString_def IsColumnStringType_def
      g_StringTypeColumns_def cond_holds_def read_rows_def ResultToGenericValues_def put_column_def
      PutString_def omap_emplace_def IsEmpty_def)

text \<open>C31. Rows survive storage: writing a row whose cells have their columns' types and reading it
  back gives the same integers, strings and blobs under every column. Plain integers come back as
  64-bit cells, so only \<open>GetInt64\<close> depends on how the cell was put.\<close>

theorem stored_row_round_trip:
  assumes "omap_ok m" and "\<forall>(c, v) \<in> set m. well_typed_cell c v"
  shows "GetInt (reload m) k = GetInt m k \<and> GetString (reload m) k = GetString m k \<and>
    GetBlob (reload m) k = GetBlob m k \<and>
    ((\<forall>i. map_of m k \<noteq> Some (TYPE_INT i)) \<longrightarrow> GetInt64 (reload m) k = GetInt64 m k)"
  using reload_gets [OF assms] by blast

theorem stored_row_round_trip_witness:
  "GetInt (reload [(''grant_state'', TYPE_INT (- 1)), (''timestamp'', TYPE_INT64 (2 ^ 40))]) ''grant_state'' = - 1 \<and>
   GetInt64 (reload [(''grant_state'', TYPE_INT (- 1)), (''timestamp'', TYPE_INT64 (2 ^ 40))]) ''timestamp'' = 2 ^ 40"
  using stored_row_round_trip [of "[(''grant_state'', TYPE_INT (- 1)), (''timestamp'', TYPE_INT64 (2 ^ 40))]" "''grant_state''"]
    stored_row_round_trip [of "[(''grant_state'', TYPE_INT (- 1)), (''timestamp'', TYPE_INT64 (2 ^ 40))]" "''timestamp''"]
  by (simp add: well_typed_cell_def IsColumnStringType_def g_StringTypeColumns_def get_defs)

end
