(* ===== verification/Id_Manager.thy ===== *)
theory Id_Manager
  imports Token_Id Token_Db
begin

text \<open>
  \<open>AccessTokenIDManager\<close> (\<^verbatim>\<open>accesstoken_id_manager.cpp\<close>): the registry of token ids in use,
  reserved or untrusted, and the allocator of bundle ids, whose reserved part is persisted in the
  system configuration table. The kernel's reference counts (\<^verbatim>\<open>spm_setproc.c\<close>) are read through
  \<open>spm_kernel\<close>, the random source is a sequence of draws, the system parameter is a pair of the
  return value and the buffer, and the dynamically loaded JSON library is a record of its two
  functions, or \<open>None\<close> when it does not load. Each operation runs under its lock, so it is one step.
\<close>

unbundle bit_operations_syntax

section \<open>State\<close>

datatype TokenIdStatus = ACTIVE | RESERVED | UNTRUSTED

record IdManager =
  tokenIdSet :: "token_id set"
  reservedTokenIdSet :: "token_id set"
  untrustedTokenIdSet :: "token_id set"
  bundleIdSet :: "int set"
  reservedBundleIdSet :: "int set"
  scanStartBundleId :: int
  migrationDone :: bool
  g_bundleIdMin :: int

definition init_id_manager :: IdManager where
  "init_id_manager =
     \<lparr>tokenIdSet = {}, reservedTokenIdSet = {}, untrustedTokenIdSet = {}, bundleIdSet = {},
      reservedBundleIdSet = {}, scanStartBundleId = - 1, migrationDone = False, g_bundleIdMin = - 1\<rparr>"

abbreviation BUNDLE_ID_MIN :: int where "BUNDLE_ID_MIN \<equiv> 10000"
abbreviation BUNDLE_ID_MAX :: int where "BUNDLE_ID_MAX \<equiv> 65535"
abbreviation UID_TRANSFORM_DIVISOR :: int where "UID_TRANSFORM_DIVISOR \<equiv> 200000"
abbreviation MAX_CREATE_TOKEN_ID_RETRY :: nat where "MAX_CREATE_TOKEN_ID_RETRY \<equiv> 1000"
abbreviation TOKEN_RANDOM_MASK :: u32 where "TOKEN_RANDOM_MASK \<equiv> 0xFFFFF"
abbreviation RESERVED_BUNDLE_ID_LIST_KEY :: string where
  "RESERVED_BUNDLE_ID_LIST_KEY \<equiv> ''reserved_bundle_id_list''"

section \<open>Token ids\<close>

definition GetTokenIdType :: "IdManager \<Rightarrow> token_id \<Rightarrow> ATokenTypeEnum" where
  "GetTokenIdType m i = (if i \<notin> tokenIdSet m then TOKEN_INVALID else GetTokenIdTypeEnum i)"

text \<open>The status and the return code together: \<open>None\<close> is \<open>ERR_TOKENID_NOT_EXIST\<close>.\<close>

definition GetTokenIdStatusLocked :: "IdManager \<Rightarrow> token_id \<Rightarrow> TokenIdStatus option" where
  "GetTokenIdStatusLocked m i =
     (if i \<in> tokenIdSet m then Some ACTIVE
      else if i \<in> reservedTokenIdSet m then Some RESERVED
      else if i \<in> untrustedTokenIdSet m then Some UNTRUSTED
      else None)"

definition GetTokenIdStatus :: "IdManager \<Rightarrow> token_id \<Rightarrow> ret \<times> TokenIdStatus option" where
  "GetTokenIdStatus m i =
     (case GetTokenIdStatusLocked m i of
        None \<Rightarrow> (ERR_TOKENID_NOT_EXIST, None) | Some s \<Rightarrow> (RET_SUCCESS, Some s))"

definition RegisterTokenId :: "token_id \<Rightarrow> ATokenTypeEnum \<Rightarrow> IdManager \<Rightarrow> ret \<times> IdManager" where
  "RegisterTokenId i type m =
     (let idInner = of_token_id i in
      if version idInner \<noteq> DEFAULT_TOKEN_VERSION \<or> uint (id_type idInner) \<noteq> token_type_value type \<or>
         type_ext idInner \<noteq> 0
      then (ERR_PARAM_INVALID, m)
      else if GetTokenIdStatusLocked m i \<noteq> None then (ERR_TOKENID_HAS_EXISTED, m)
      else (RET_SUCCESS, m\<lparr>tokenIdSet := insert i (tokenIdSet m)\<rparr>))"

text \<open>\<open>rand\<close> is the value of \<open>GetRandomUint32FromUrandom\<close>.\<close>

definition CreateTokenId :: "u32 \<Rightarrow> ATokenTypeEnum \<Rightarrow> int \<Rightarrow> int \<Rightarrow> int \<Rightarrow> token_id" where
  "CreateTokenId rand type dlp clone tool =
     (if rand = 0 then 0
      else to_token_id
        \<lparr>tokenUniqueID = ucast (rand AND TOKEN_RANDOM_MASK), toolFlag = word_of_int tool, res = 0,
         type_ext = 0, cloneFlag = word_of_int clone, renderFlag = 0, dlpFlag = word_of_int dlp,
         id_type = word_of_int (token_type_value type), version = DEFAULT_TOKEN_VERSION\<rparr>)"

text \<open>The retry loop: \<open>n\<close> attempts remain, the next draw is \<open>rnd i\<close>.\<close>

fun create_attempts ::
    "(nat \<Rightarrow> u32) \<Rightarrow> ATokenTypeEnum \<Rightarrow> int \<Rightarrow> int \<Rightarrow> int \<Rightarrow> nat \<Rightarrow> nat \<Rightarrow> IdManager \<Rightarrow>
      token_id \<times> IdManager" where
  "create_attempts rnd type dlp clone tool i 0 m = (INVALID_TOKENID, m)"
| "create_attempts rnd type dlp clone tool i (Suc n) m =
     (let tokenId = CreateTokenId (rnd i) type dlp clone tool in
      if tokenId = INVALID_TOKENID then (INVALID_TOKENID, m)
      else
        (let (ret, m') = RegisterTokenId tokenId type m in
         if ret = RET_SUCCESS then (tokenId, m')
         else create_attempts rnd type dlp clone tool (Suc i) n m'))"

definition CreateAndRegisterTokenId ::
    "(nat \<Rightarrow> u32) \<Rightarrow> ATokenTypeEnum \<Rightarrow> int \<Rightarrow> int \<Rightarrow> int \<Rightarrow> IdManager \<Rightarrow> token_id \<times> IdManager" where
  "CreateAndRegisterTokenId rnd type dlp clone tool m =
     create_attempts rnd type dlp clone tool 0 MAX_CREATE_TOKEN_ID_RETRY m"

definition ReleaseTokenId :: "token_id \<Rightarrow> IdManager \<Rightarrow> IdManager" where
  "ReleaseTokenId i m =
     (if i \<notin> tokenIdSet m then m else m\<lparr>tokenIdSet := tokenIdSet m - {i}\<rparr>)"

definition IsReservedTokenId :: "IdManager \<Rightarrow> token_id \<Rightarrow> bool" where
  "IsReservedTokenId m i \<longleftrightarrow> i \<in> reservedTokenIdSet m"

definition AddReservedTokenId :: "token_id \<Rightarrow> IdManager \<Rightarrow> IdManager" where
  "AddReservedTokenId i m =
     (if GetTokenIdStatusLocked m i \<noteq> None then m
      else m\<lparr>reservedTokenIdSet := insert i (reservedTokenIdSet m)\<rparr>)"

definition RemoveReservedTokenId :: "token_id \<Rightarrow> IdManager \<Rightarrow> IdManager" where
  "RemoveReservedTokenId i m = m\<lparr>reservedTokenIdSet := reservedTokenIdSet m - {i}\<rparr>"

text \<open>The two \<open>switch\<close> statements of \<open>ChangeTokenIdStatus\<close>.\<close>

fun erase_from_status :: "TokenIdStatus \<Rightarrow> token_id \<Rightarrow> IdManager \<Rightarrow> IdManager" where
  "erase_from_status ACTIVE i m = m\<lparr>tokenIdSet := tokenIdSet m - {i}\<rparr>"
| "erase_from_status RESERVED i m = m\<lparr>reservedTokenIdSet := reservedTokenIdSet m - {i}\<rparr>"
| "erase_from_status UNTRUSTED i m = m\<lparr>untrustedTokenIdSet := untrustedTokenIdSet m - {i}\<rparr>"

fun insert_into_status :: "TokenIdStatus \<Rightarrow> token_id \<Rightarrow> IdManager \<Rightarrow> IdManager" where
  "insert_into_status ACTIVE i m = m\<lparr>tokenIdSet := insert i (tokenIdSet m)\<rparr>"
| "insert_into_status RESERVED i m = m\<lparr>reservedTokenIdSet := insert i (reservedTokenIdSet m)\<rparr>"
| "insert_into_status UNTRUSTED i m = m\<lparr>untrustedTokenIdSet := insert i (untrustedTokenIdSet m)\<rparr>"

definition ChangeTokenIdStatus :: "token_id \<Rightarrow> TokenIdStatus \<Rightarrow> IdManager \<Rightarrow> ret \<times> IdManager" where
  "ChangeTokenIdStatus i targetStatus m =
     (case GetTokenIdStatusLocked m i of
        None \<Rightarrow> (ERR_TOKENID_NOT_EXIST, m)
      | Some currentStatus \<Rightarrow>
          if currentStatus = targetStatus then (RET_SUCCESS, m)
          else (RET_SUCCESS, insert_into_status targetStatus i (erase_from_status currentStatus i m)))"

section \<open>Kernel reference counts\<close>

text \<open>
  \<open>spm_supported\<close> is the cached answer of \<open>IsKernelSupportSpm\<close>; \<open>uid_refcnt n uid\<close> is what
  \<open>SpmGetUidRefCnt\<close> (an \<open>ioctl\<close>) returns and stores at the \<open>n\<close>-th try.
\<close>

record spm_kernel =
  spm_supported :: bool
  uid_refcnt :: "nat \<Rightarrow> u32 \<Rightarrow> int \<times> u64"

abbreviation SPM_GET_UID_REFCNT_MAX_RETRY :: nat where "SPM_GET_UID_REFCNT_MAX_RETRY \<equiv> 3"

fun refcnt_attempts :: "spm_kernel \<Rightarrow> u32 \<Rightarrow> nat \<Rightarrow> nat \<Rightarrow> int \<Rightarrow> int \<times> u64" where
  "refcnt_attempts k uid i 0 ret = (ret, 0)"
| "refcnt_attempts k uid i (Suc n) ret =
     (let (r, c) = uid_refcnt k i uid in
      if r = 0 then (0, c) else refcnt_attempts k uid (Suc i) n r)"

definition SpmGetUidRefCntWithRetry :: "spm_kernel \<Rightarrow> u32 \<Rightarrow> int \<times> u64" where
  "SpmGetUidRefCntWithRetry k uid =
     (if \<not> spm_supported k then (0, 0)
      else refcnt_attempts k uid 0 SPM_GET_UID_REFCNT_MAX_RETRY 0)"

section \<open>Bundle ids\<close>

text \<open>\<open>sysparam\<close> is the return value and the buffer of \<open>GetParameter\<close>.\<close>

definition GetBundleIdMin :: "int \<times> string \<Rightarrow> IdManager \<Rightarrow> int \<times> IdManager" where
  "GetBundleIdMin sysparam m =
     (if g_bundleIdMin m \<noteq> - 1 then (g_bundleIdMin m, m)
      else if fst sysparam \<le> 0 then (BUNDLE_ID_MIN, m\<lparr>g_bundleIdMin := BUNDLE_ID_MIN\<rparr>)
      else
        (let bundleIdMin = i32 (atoll (snd sysparam)) in
         if bundleIdMin < BUNDLE_ID_MIN \<or> bundleIdMin \<ge> BUNDLE_ID_MAX
         then (BUNDLE_ID_MIN, m\<lparr>g_bundleIdMin := BUNDLE_ID_MIN\<rparr>)
         else (bundleIdMin, m\<lparr>g_bundleIdMin := bundleIdMin\<rparr>)))"

definition ExtractBundleId :: "int \<Rightarrow> int option" where
  "ExtractBundleId uid =
     (if uid < 0 then None
      else
        (let extracted = uid mod UID_TRANSFORM_DIVISOR in
         if extracted < BUNDLE_ID_MIN \<or> extracted > BUNDLE_ID_MAX then None else Some extracted))"

definition IsUidReusable :: "spm_kernel \<Rightarrow> int \<Rightarrow> IdManager \<Rightarrow> ret \<times> bool" where
  "IsUidReusable k uid m =
     (case ExtractBundleId uid of
        None \<Rightarrow> (ERR_PARAM_INVALID, False)
      | Some bundleId \<Rightarrow>
          if bundleId \<in> bundleIdSet m \<and> bundleId \<notin> reservedBundleIdSet m then (RET_SUCCESS, False)
          else
            (let (ret, refcnt) = SpmGetUidRefCntWithRetry k (word_of_int uid) in
             if ret \<noteq> RET_SUCCESS then (ERR_KERNEL_COMMON_FAILED, False)
             else if refcnt \<noteq> 0 then (RET_SUCCESS, False)
             else (RET_SUCCESS, True)))"

definition InitSingleBundleIdCache :: "int \<Rightarrow> IdManager \<Rightarrow> ret \<times> IdManager" where
  "InitSingleBundleIdCache uid m =
     (case ExtractBundleId uid of
        None \<Rightarrow> (ERR_PARAM_INVALID, m)
      | Some bundleId \<Rightarrow> (RET_SUCCESS, m\<lparr>bundleIdSet := insert bundleId (bundleIdSet m)\<rparr>))"

text \<open>\<open>*bundleIdSet_.rbegin()\<close> is the largest element.\<close>

definition InitScanStartBundleIdFromCache :: "int \<times> string \<Rightarrow> IdManager \<Rightarrow> int \<times> IdManager" where
  "InitScanStartBundleIdFromCache sysparam m =
     (if bundleIdSet m = {} then GetBundleIdMin sysparam m
      else
        (let nextBundleId = Max (bundleIdSet m) + 1;
             (lowest, m1) = GetBundleIdMin sysparam m in
         if nextBundleId < lowest \<or> nextBundleId > BUNDLE_ID_MAX
         then GetBundleIdMin sysparam m1
         else (nextBundleId, m1)))"

definition GetScanStartLocked :: "int \<times> string \<Rightarrow> IdManager \<Rightarrow> int \<times> IdManager" where
  "GetScanStartLocked sysparam m =
     (let (lowest, m1) = GetBundleIdMin sysparam m;
          m2 = (if scanStartBundleId m1 < lowest then m1\<lparr>scanStartBundleId := lowest\<rparr> else m1) in
      if scanStartBundleId m2 > BUNDLE_ID_MAX then GetBundleIdMin sysparam m2
      else (scanStartBundleId m2, m2))"

text \<open>\<open>IsMigrationDone\<close> is compiled to \<open>true\<close> without \<open>SPM_DATA_ENABLE\<close>.\<close>

definition IsMigrationDone :: "bool \<Rightarrow> IdManager \<Rightarrow> bool" where
  "IsMigrationDone SPM_DATA_ENABLE m \<longleftrightarrow> \<not> (SPM_DATA_ENABLE \<and> \<not> migrationDone m)"

definition SetMigrationDone :: "IdManager \<Rightarrow> IdManager" where
  "SetMigrationDone m = m\<lparr>migrationDone := True\<rparr>"

definition uid_of :: "int \<Rightarrow> int \<Rightarrow> int" where
  "uid_of localId bundleId = i32 (localId * UID_TRANSFORM_DIVISOR + bundleId mod UID_TRANSFORM_DIVISOR)"

text \<open>One range of the scan of \<open>AllocUid\<close>: \<open>Some\<close> is a return inside the loop, with the value
  written to \<open>outUid\<close>, and \<open>None\<close> is the end of the range.\<close>

function alloc_scan ::
    "spm_kernel \<Rightarrow> int \<Rightarrow> int \<Rightarrow> int \<Rightarrow> IdManager \<Rightarrow> (ret \<times> int option \<times> IdManager) option" where
  "alloc_scan k localId candidate hi m =
     (if candidate > hi then None
      else if candidate \<in> bundleIdSet m then alloc_scan k localId (candidate + 1) hi m
      else
        (let uid = uid_of localId candidate;
             (ret, refcnt) = SpmGetUidRefCntWithRetry k (word_of_int uid) in
         if ret \<noteq> RET_SUCCESS then Some (ERR_KERNEL_COMMON_FAILED, None, m)
         else if refcnt \<noteq> 0 then alloc_scan k localId (candidate + 1) hi m
         else Some (RET_SUCCESS, Some uid,
                m\<lparr>bundleIdSet := insert candidate (bundleIdSet m), scanStartBundleId := candidate + 1\<rparr>)))"
  by pat_completeness auto
termination
  by (relation "measure (\<lambda>(k, localId, candidate, hi, m). nat (hi + 1 - candidate))") auto

definition AllocUid ::
    "bool \<Rightarrow> int \<times> string \<Rightarrow> spm_kernel \<Rightarrow> int \<Rightarrow> IdManager \<Rightarrow> ret \<times> int option \<times> IdManager" where
  "AllocUid SPM_DATA_ENABLE sysparam k localId m =
     (if \<not> IsMigrationDone SPM_DATA_ENABLE m then (ERR_PARAM_INVALID, None, m)
      else
        (let (startId, m1) = GetScanStartLocked sysparam m;
             (lowest, m2) = GetBundleIdMin sysparam m1 in
         case alloc_scan k localId startId BUNDLE_ID_MAX m2 of
           Some r \<Rightarrow> r
         | None \<Rightarrow>
             (case alloc_scan k localId lowest (startId - 1) m2 of
                Some r \<Rightarrow> r
              | None \<Rightarrow> (ERR_OVERSIZE, None, m2))))"

definition RemoveBundleId :: "int \<Rightarrow> bool \<Rightarrow> IdManager \<Rightarrow> ret \<times> IdManager" where
  "RemoveBundleId uid rollbackScanStart m =
     (case ExtractBundleId uid of
        None \<Rightarrow> (ERR_PARAM_INVALID, m)
      | Some bundleId \<Rightarrow>
          (let m1 = m\<lparr>bundleIdSet := bundleIdSet m - {bundleId}\<rparr> in
           if rollbackScanStart \<and> bundleId < scanStartBundleId m1 \<and> scanStartBundleId m1 - bundleId = 1
           then (RET_SUCCESS, m1\<lparr>scanStartBundleId := bundleId\<rparr>)
           else (RET_SUCCESS, m1)))"

definition TranslateUid :: "int \<Rightarrow> int \<Rightarrow> ret \<times> int option" where
  "TranslateUid srcUid dstLocalId =
     (case ExtractBundleId srcUid of
        None \<Rightarrow> (ERR_PARAM_INVALID, None)
      | Some bundleId \<Rightarrow> (RET_SUCCESS, Some (uid_of dstLocalId bundleId)))"

definition ImportInitialUids :: "int list \<Rightarrow> IdManager \<Rightarrow> ret \<times> IdManager" where
  "ImportInitialUids uids m =
     (RET_SUCCESS,
      foldl (\<lambda>m uid. case ExtractBundleId uid of
               Some bundleId \<Rightarrow> m\<lparr>bundleIdSet := insert bundleId (bundleIdSet m)\<rparr>
             | None \<Rightarrow> m) m uids)"

definition RemoveReservedBundleId :: "int \<Rightarrow> IdManager \<Rightarrow> ret \<times> IdManager" where
  "RemoveReservedBundleId uid m =
     (case ExtractBundleId uid of
        None \<Rightarrow> (ERR_PARAM_INVALID, m)
      | Some bundleId \<Rightarrow>
          (RET_SUCCESS, m\<lparr>bundleIdSet := bundleIdSet m - {bundleId},
                          reservedBundleIdSet := reservedBundleIdSet m - {bundleId}\<rparr>))"

definition IsReservedBundleId :: "int \<Rightarrow> IdManager \<Rightarrow> bool" where
  "IsReservedBundleId uid m =
     (case ExtractBundleId uid of None \<Rightarrow> False | Some bundleId \<Rightarrow> bundleId \<in> reservedBundleIdSet m)"

section \<open>The persisted reserved set\<close>

text \<open>The two functions of the configuration policy library that this component calls.\<close>

record policy_loader =
  GetReservedBundleIdList :: "string \<Rightarrow> ret \<times> int set"
  BuildReservedBundleIdList :: "int set \<Rightarrow> string"

definition ReservedBundleIdSetFromJson ::
    "policy_loader option \<Rightarrow> string \<Rightarrow> int set \<Rightarrow> ret \<times> int set" where
  "ReservedBundleIdSetFromJson loader value bundleList =
     (if value = [] then (RET_SUCCESS, bundleList)
      else (case loader of
              None \<Rightarrow> (ERR_LOAD_SO_FAILED, bundleList)
            | Some policy \<Rightarrow> GetReservedBundleIdList policy value))"

definition ReservedBundleIdSetToJson :: "policy_loader option \<Rightarrow> int set \<Rightarrow> ret \<times> string" where
  "ReservedBundleIdSetToJson loader bundleList =
     (if bundleList = {} then (RET_SUCCESS, [])
      else (case loader of
              None \<Rightarrow> (ERR_LOAD_SO_FAILED, [])
            | Some policy \<Rightarrow>
                (let value = BuildReservedBundleIdList policy bundleList in
                 if value = [] then (ERR_PARSE_RAW_DATA_FAILED, value) else (RET_SUCCESS, value))))"

definition LoadReservedBundleIdSetFromDb ::
    "('s, 't, 'r) rdb_ops \<Rightarrow> policy_loader option \<Rightarrow> 's AccessTokenDb \<Rightarrow>
      (ret \<times> int set \<times> 's AccessTokenDb) option" where
  "LoadReservedBundleIdSetFromDb ops loader d = do {
     (ret, results, d') \<leftarrow>
       Find ops ACCESSTOKEN_SYSTEM_CONFIG (PutString FIELD_NAME RESERVED_BUNDLE_ID_LIST_KEY []) d;
     if ret \<noteq> RET_SUCCESS then Some (ret, {}, d')
     else (case results of
             [] \<Rightarrow> Some (RET_SUCCESS, {}, d')
           | row # _ \<Rightarrow>
               (let (ret', bundleList) =
                  ReservedBundleIdSetFromJson loader (GetString row FIELD_VALUE) {} in
                Some (ret', bundleList, d'))) }"

definition InitReservedBundleIdSet ::
    "('s, 't, 'r) rdb_ops \<Rightarrow> policy_loader option \<Rightarrow> 's AccessTokenDb \<Rightarrow> IdManager \<Rightarrow>
      (ret \<times> 's AccessTokenDb \<times> IdManager) option" where
  "InitReservedBundleIdSet ops loader d m = do {
     (ret, reservedSet, d') \<leftarrow> LoadReservedBundleIdSetFromDb ops loader d;
     if ret \<noteq> RET_SUCCESS then Some (ret, d', m)
     else Some (RET_SUCCESS, d',
            m\<lparr>bundleIdSet := bundleIdSet m \<union> reservedSet, reservedBundleIdSet := reservedSet\<rparr>) }"

definition InitBundleIdConfig ::
    "('s, 't, 'r) rdb_ops \<Rightarrow> policy_loader option \<Rightarrow> int \<times> string \<Rightarrow> 's AccessTokenDb \<Rightarrow>
      IdManager \<Rightarrow> (ret \<times> 's AccessTokenDb \<times> IdManager) option" where
  "InitBundleIdConfig ops loader sysparam d m = do {
     (ret, d', m1) \<leftarrow> InitReservedBundleIdSet ops loader d m;
     if ret \<noteq> RET_SUCCESS then Some (ret, d', m1)
     else
       (let (scanStart, m2) = InitScanStartBundleIdFromCache sysparam m1 in
        Some (RET_SUCCESS, d', m2\<lparr>scanStartBundleId := scanStart\<rparr>)) }"

text \<open>The rows that replace the stored list.\<close>

definition reserved_del_info :: DelInfo where
  "reserved_del_info =
     \<lparr>delType = ACCESSTOKEN_SYSTEM_CONFIG,
      delValue = PutString FIELD_NAME RESERVED_BUNDLE_ID_LIST_KEY []\<rparr>"

definition reserved_add_info :: "string \<Rightarrow> AddInfo" where
  "reserved_add_info value =
     \<lparr>addType = ACCESSTOKEN_SYSTEM_CONFIG,
      addValues = [PutString FIELD_VALUE value (PutString FIELD_NAME RESERVED_BUNDLE_ID_LIST_KEY [])]\<rparr>"

definition PersistReservedBundleIdSetLocked ::
    "('s, 't, 'r) rdb_ops \<Rightarrow> policy_loader option \<Rightarrow> int set \<Rightarrow> 's AccessTokenDb \<Rightarrow>
      ret \<times> 's AccessTokenDb" where
  "PersistReservedBundleIdSetLocked ops loader bundleList d =
     (let (ret, value) = ReservedBundleIdSetToJson loader bundleList in
      if ret \<noteq> RET_SUCCESS then (ret, d)
      else DeleteAndInsertValues ops [reserved_del_info] [reserved_add_info value] d)"

definition RefreshReservedBundleIdSet ::
    "('s, 't, 'r) rdb_ops \<Rightarrow> policy_loader option \<Rightarrow> int set \<Rightarrow> 's AccessTokenDb \<Rightarrow> IdManager \<Rightarrow>
      ret \<times> 's AccessTokenDb \<times> IdManager" where
  "RefreshReservedBundleIdSet ops loader bundleList d m =
     (let (ret, d') = PersistReservedBundleIdSetLocked ops loader bundleList d in
      if ret \<noteq> RET_SUCCESS then (ret, d', m)
      else (RET_SUCCESS, d',
        m\<lparr>bundleIdSet := (bundleIdSet m - reservedBundleIdSet m) \<union> bundleList,
          reservedBundleIdSet := bundleList\<rparr>))"

definition GetReservedBundleIdSetPersistInfo ::
    "policy_loader option \<Rightarrow> int \<Rightarrow> IdManager \<Rightarrow> DelInfo list \<Rightarrow> AddInfo list \<Rightarrow>
      ret \<times> DelInfo list \<times> AddInfo list" where
  "GetReservedBundleIdSetPersistInfo loader bundleId m delInfoVec addInfoVec =
     (if bundleId \<notin> reservedBundleIdSet m then (RET_SUCCESS, delInfoVec, addInfoVec)
      else
        (let updatedSet = reservedBundleIdSet m - {bundleId};
             delInfoVec' = delInfoVec @ [reserved_del_info] in
         if updatedSet = {} then (RET_SUCCESS, delInfoVec', addInfoVec)
         else
           (let (ret, value) = ReservedBundleIdSetToJson loader updatedSet in
            if ret \<noteq> RET_SUCCESS then (ret, delInfoVec', addInfoVec)
            else (RET_SUCCESS, delInfoVec', addInfoVec @ [reserved_add_info value]))))"

declare alloc_scan.simps [simp del]

section \<open>The registry as a status map\<close>

text \<open>The interface: every id has at most one status, and each operation is an update of that
  map. Clients reason with the map only.\<close>

locale id_registry =
  fixes ok :: "'m \<Rightarrow> bool"
    and status :: "'m \<Rightarrow> token_id \<Rightarrow> TokenIdStatus option"
    and register :: "token_id \<Rightarrow> ATokenTypeEnum \<Rightarrow> 'm \<Rightarrow> ret \<times> 'm"
    and release :: "token_id \<Rightarrow> 'm \<Rightarrow> 'm"
    and reserve :: "token_id \<Rightarrow> 'm \<Rightarrow> 'm"
    and unreserve :: "token_id \<Rightarrow> 'm \<Rightarrow> 'm"
    and change :: "token_id \<Rightarrow> TokenIdStatus \<Rightarrow> 'm \<Rightarrow> ret \<times> 'm"
  assumes status_register: "ok m \<Longrightarrow> register i t m = (r, m') \<Longrightarrow>
        ok m' \<and> status m' = (if r = RET_SUCCESS then (status m)(i \<mapsto> ACTIVE) else status m)"
    and register_fresh: "register i t m = (RET_SUCCESS, m') \<Longrightarrow> status m i = None"
    and status_release: "ok m \<Longrightarrow> ok (release i m) \<and>
        status (release i m) = (if status m i = Some ACTIVE then (status m)(i := None) else status m)"
    and status_reserve: "ok m \<Longrightarrow> ok (reserve i m) \<and>
        status (reserve i m) = (if status m i = None then (status m)(i \<mapsto> RESERVED) else status m)"
    and status_unreserve: "ok m \<Longrightarrow> ok (unreserve i m) \<and>
        status (unreserve i m) = (if status m i = Some RESERVED then (status m)(i := None) else status m)"
    and status_change: "ok m \<Longrightarrow> change i s m = (r, m') \<Longrightarrow> ok m' \<and>
        r = (if status m i = None then ERR_TOKENID_NOT_EXIST else RET_SUCCESS) \<and>
        status m' = (if status m i = None then status m else (status m)(i \<mapsto> s))"
begin

lemma register_release:
  "ok m \<Longrightarrow> register i t m = (RET_SUCCESS, m') \<Longrightarrow> status (release i m') = status m"
  using status_register [of m i t RET_SUCCESS m'] register_fresh [of i t m m'] status_release [of m' i]
  by (auto simp: fun_eq_iff)

lemma no_second_registration:
  "ok m \<Longrightarrow> status m i \<noteq> None \<Longrightarrow> register i t m = (r, m') \<Longrightarrow> r \<noteq> RET_SUCCESS \<and> status m' = status m"
  using status_register [of m i t r m'] register_fresh [of i t m m'] by auto

lemma change_twice:
  assumes "ok m" and "change i s m = (RET_SUCCESS, m1)" and "change i s' m1 = (r, m2)"
  shows "r = RET_SUCCESS \<and> status m2 = (status m)(i \<mapsto> s')"
  using status_change [OF assms(1,2)] status_change [of m1 i s' r m2] assms(3)
  by (auto split: if_splits)

lemma reserved_id_not_registered:
  "ok m \<Longrightarrow> register i t (reserve i m) = (r, m') \<Longrightarrow> r \<noteq> RET_SUCCESS"
  using register_fresh [of i t "reserve i m" m'] status_reserve [of m i] by (auto split: if_splits)

end

definition ids_exclusive :: "IdManager \<Rightarrow> bool" where
  "ids_exclusive m \<longleftrightarrow>
     tokenIdSet m \<inter> reservedTokenIdSet m = {} \<and> tokenIdSet m \<inter> untrustedTokenIdSet m = {} \<and>
     reservedTokenIdSet m \<inter> untrustedTokenIdSet m = {}"

lemmas status_defs = GetTokenIdStatusLocked_def ids_exclusive_def

lemma register_status:
  assumes "ids_exclusive m" and "RegisterTokenId i t m = (r, m')"
  shows "ids_exclusive m' \<and> GetTokenIdStatusLocked m' =
    (if r = RET_SUCCESS then (GetTokenIdStatusLocked m)(i \<mapsto> ACTIVE) else GetTokenIdStatusLocked m)"
  using assms by (auto simp: RegisterTokenId_def Let_def status_defs fun_eq_iff split: if_splits)

lemma register_fresh_id:
  "RegisterTokenId i t m = (RET_SUCCESS, m') \<Longrightarrow> GetTokenIdStatusLocked m i = None"
  by (auto simp: RegisterTokenId_def Let_def split: if_splits)

lemma erase_from_status:
  assumes "ids_exclusive m" and "GetTokenIdStatusLocked m i = Some c"
  shows "ids_exclusive (erase_from_status c i m)"
    and "GetTokenIdStatusLocked (erase_from_status c i m) = (GetTokenIdStatusLocked m)(i := None)"
  using assms by (cases c; auto simp: status_defs fun_eq_iff split: if_splits)+

lemma insert_into_status:
  assumes "ids_exclusive m" and "GetTokenIdStatusLocked m i = None"
  shows "ids_exclusive (insert_into_status s i m)"
    and "GetTokenIdStatusLocked (insert_into_status s i m) = (GetTokenIdStatusLocked m)(i \<mapsto> s)"
  using assms by (cases s; auto simp: status_defs fun_eq_iff split: if_splits)+

lemma change_status:
  assumes "ids_exclusive m" and "ChangeTokenIdStatus i s m = (r, m')"
  shows "ids_exclusive m' \<and>
    r = (if GetTokenIdStatusLocked m i = None then ERR_TOKENID_NOT_EXIST else RET_SUCCESS) \<and>
    GetTokenIdStatusLocked m' =
      (if GetTokenIdStatusLocked m i = None then GetTokenIdStatusLocked m
       else (GetTokenIdStatusLocked m)(i \<mapsto> s))"
proof (cases "GetTokenIdStatusLocked m i")
  case None
  with assms show ?thesis by (simp add: ChangeTokenIdStatus_def)
next
  case (Some c)
  note erased = erase_from_status [OF assms(1) Some]
  show ?thesis
    using assms Some insert_into_status [OF erased(1), of i s]
    by (auto simp: ChangeTokenIdStatus_def erased(2) fun_eq_iff split: if_splits)
qed

interpretation idm: id_registry ids_exclusive GetTokenIdStatusLocked RegisterTokenId ReleaseTokenId
  AddReservedTokenId RemoveReservedTokenId ChangeTokenIdStatus
proof
  show "ids_exclusive m \<Longrightarrow> ids_exclusive (ReleaseTokenId i m) \<and> GetTokenIdStatusLocked (ReleaseTokenId i m) =
      (if GetTokenIdStatusLocked m i = Some ACTIVE then (GetTokenIdStatusLocked m)(i := None)
       else GetTokenIdStatusLocked m)" for i m
    by (auto simp: ReleaseTokenId_def status_defs fun_eq_iff)
  show "ids_exclusive m \<Longrightarrow> ids_exclusive (AddReservedTokenId i m) \<and> GetTokenIdStatusLocked (AddReservedTokenId i m) =
      (if GetTokenIdStatusLocked m i = None then (GetTokenIdStatusLocked m)(i \<mapsto> RESERVED)
       else GetTokenIdStatusLocked m)" for i m
    by (auto simp: AddReservedTokenId_def status_defs fun_eq_iff)
  show "ids_exclusive m \<Longrightarrow> ids_exclusive (RemoveReservedTokenId i m) \<and>
      GetTokenIdStatusLocked (RemoveReservedTokenId i m) =
      (if GetTokenIdStatusLocked m i = Some RESERVED then (GetTokenIdStatusLocked m)(i := None)
       else GetTokenIdStatusLocked m)" for i m
    by (auto simp: RemoveReservedTokenId_def status_defs fun_eq_iff)
qed (erule (1) register_status register_fresh_id change_status | rule register_fresh_id change_status register_status; assumption)+

section \<open>Creation\<close>

lemma register_result:
  assumes "RegisterTokenId i t m = (r, m')"
  shows "m' = (if r = RET_SUCCESS then m\<lparr>tokenIdSet := insert i (tokenIdSet m)\<rparr> else m)"
  using assms by (auto simp: RegisterTokenId_def Let_def split: if_splits)

lemma create_attempts_result:
  "create_attempts rnd t d c tool i n m = (tid, m') \<Longrightarrow>
     (tid = INVALID_TOKENID \<and> m' = m) \<or>
     (\<exists>j \<ge> i. tid = CreateTokenId (rnd j) t d c tool \<and> tid \<noteq> INVALID_TOKENID \<and>
        RegisterTokenId tid t m = (RET_SUCCESS, m'))"
proof (induction n arbitrary: i)
  case (Suc n)
  obtain r m1 where reg: "RegisterTokenId (CreateTokenId (rnd i) t d c tool) t m = (r, m1)" by fastforce
  show ?case
  proof (cases "r = RET_SUCCESS \<or> CreateTokenId (rnd i) t d c tool = INVALID_TOKENID")
    case True
    then show ?thesis using Suc.prems reg by (auto simp: Let_def split: if_splits)
  next
    case False
    then have "create_attempts rnd t d c tool (Suc i) n m = (tid, m')"
      using Suc.prems reg register_result [OF reg] by (simp add: Let_def)
    from Suc.IH [OF this] show ?thesis by (blast intro: Suc_leD)
  qed
qed simp

lemma CreateTokenId_fields:
  "rand \<noteq> 0 \<Longrightarrow> of_token_id (CreateTokenId rand t d c tool) =
     \<lparr>tokenUniqueID = ucast (rand AND TOKEN_RANDOM_MASK), toolFlag = word_of_int tool, res = 0,
      type_ext = 0, cloneFlag = word_of_int c, renderFlag = 0, dlpFlag = word_of_int d,
      id_type = word_of_int (token_type_value t), version = DEFAULT_TOKEN_VERSION\<rparr>"
  by (simp add: CreateTokenId_def)

lemma CreateTokenId_valid: "rand \<noteq> 0 \<Longrightarrow> CreateTokenId rand t d c tool \<noteq> INVALID_TOKENID"
proof
  assume "rand \<noteq> 0" and "CreateTokenId rand t d c tool = INVALID_TOKENID"
  then have "version (of_token_id 0) = DEFAULT_TOKEN_VERSION"
    using CreateTokenId_fields [of rand t d c tool] by simp
  then show False by (simp add: of_token_id_def)
qed

lemma CreateTokenId_zero [simp]: "CreateTokenId 0 t d c tool = 0"
  by (simp add: CreateTokenId_def)

lemma token_type_of_value: "uint w = token_type_value t \<Longrightarrow> token_type_of w = t"
proof -
  assume eq: "uint w = token_type_value t"
  have "w = word_of_int (token_type_value t)" by (metis eq word_of_int_uint)
  moreover have "0 \<le> token_type_value t" using eq uint_ge_0 [of w] by simp
  ultimately show ?thesis by (cases t) (simp_all add: token_type_of_def)
qed

lemma register_success_iff:
  "fst (RegisterTokenId i t m) = RET_SUCCESS \<longleftrightarrow>
     version (of_token_id i) = DEFAULT_TOKEN_VERSION \<and> uint (id_type (of_token_id i)) = token_type_value t \<and>
     type_ext (of_token_id i) = 0 \<and> GetTokenIdStatusLocked m i = None"
  by (auto simp: RegisterTokenId_def Let_def)

lemma register_created:
  assumes "rand \<noteq> 0" and "t \<noteq> TOKEN_INVALID"
    and "GetTokenIdStatusLocked m (CreateTokenId rand t d c tool) = None"
  shows "fst (RegisterTokenId (CreateTokenId rand t d c tool) t m) = RET_SUCCESS"
  using assms by (cases t) (simp_all add: register_success_iff CreateTokenId_fields)

lemma create_attempts_succeeds:
  assumes "i \<le> j" and "j < i + n" and "\<forall>k. i \<le> k \<and> k \<le> j \<longrightarrow> rnd k \<noteq> 0" and "t \<noteq> TOKEN_INVALID"
    and "GetTokenIdStatusLocked m (CreateTokenId (rnd j) t d c tool) = None"
  shows "fst (create_attempts rnd t d c tool i n m) \<noteq> INVALID_TOKENID"
  using assms(1-3)
proof (induction n arbitrary: i)
  case (Suc n)
  have valid: "CreateTokenId (rnd i) t d c tool \<noteq> INVALID_TOKENID"
    using Suc.prems by (intro CreateTokenId_valid) auto
  obtain r m1 where reg: "RegisterTokenId (CreateTokenId (rnd i) t d c tool) t m = (r, m1)" by fastforce
  show ?case
  proof (cases "r = RET_SUCCESS")
    case True
    with valid reg show ?thesis by simp
  next
    case False
    then have "m1 = m" using register_result [OF reg] by simp
    moreover have "i \<noteq> j"
      using register_created [of "rnd j" t m d c tool] assms(4,5) Suc.prems reg False by auto
    ultimately show ?thesis
      using Suc.IH [of "Suc i"] Suc.prems valid reg False by simp
  qed
qed simp

section \<open>Allocation\<close>

definition bundle_free :: "spm_kernel \<Rightarrow> int \<Rightarrow> IdManager \<Rightarrow> int \<Rightarrow> bool" where
  "bundle_free k localId m b \<longleftrightarrow>
     b \<notin> bundleIdSet m \<and> SpmGetUidRefCntWithRetry k (word_of_int (uid_of localId b)) = (RET_SUCCESS, 0)"

definition kernel_fails :: "spm_kernel \<Rightarrow> int \<Rightarrow> IdManager \<Rightarrow> int \<Rightarrow> bool" where
  "kernel_fails k localId m b \<longleftrightarrow>
     b \<notin> bundleIdSet m \<and> fst (SpmGetUidRefCntWithRetry k (word_of_int (uid_of localId b))) \<noteq> RET_SUCCESS"

definition take_bundle :: "int \<Rightarrow> IdManager \<Rightarrow> IdManager" where
  "take_bundle b m = m\<lparr>bundleIdSet := insert b (bundleIdSet m), scanStartBundleId := b + 1\<rparr>"

lemma alloc_scan_unfold:
  "alloc_scan k l c hi m =
     (if c > hi then None
      else if kernel_fails k l m c then Some (ERR_KERNEL_COMMON_FAILED, None, m)
      else if bundle_free k l m c then Some (RET_SUCCESS, Some (uid_of l c), take_bundle c m)
      else alloc_scan k l (c + 1) hi m)"
  by (subst alloc_scan.simps)
    (auto simp: kernel_fails_def bundle_free_def take_bundle_def Let_def split: prod.splits)

lemma ball_int_interval:
  "(\<forall>b \<in> {c..hi :: int}. P b) \<longleftrightarrow> c > hi \<or> P c \<and> (\<forall>b \<in> {c + 1..hi}. P b)"
proof -
  have "c \<le> hi \<Longrightarrow> {c..hi} = insert c {c + 1..hi}" by auto
  then show ?thesis by (cases "c \<le> hi") auto
qed

text \<open>The scan stops at the first bundle id that is free or whose count cannot be read.\<close>

lemma alloc_scan_None:
  "alloc_scan k l c hi m = None \<longleftrightarrow>
     (\<forall>b \<in> {c..hi}. \<not> bundle_free k l m b \<and> \<not> kernel_fails k l m b)"
proof (induction "nat (hi + 1 - c)" arbitrary: c rule: less_induct)
  case less
  show ?case
    by (subst alloc_scan_unfold, subst ball_int_interval) (use less [of "c + 1"] in auto)
qed

lemma alloc_scan_Some:
  "alloc_scan k l c hi m = Some r \<Longrightarrow>
     \<exists>b \<in> {c..hi}.
       (kernel_fails k l m b \<and> r = (ERR_KERNEL_COMMON_FAILED, None, m)) \<or>
       (bundle_free k l m b \<and> r = (RET_SUCCESS, Some (uid_of l b), take_bundle b m))"
proof (induction "nat (hi + 1 - c)" arbitrary: c rule: less_induct)
  case less
  show ?case
  proof (cases "kernel_fails k l m c \<or> bundle_free k l m c")
    case True
    then show ?thesis
      using less.prems by (subst (asm) alloc_scan_unfold) (auto split: if_splits)
  next
    case False
    then have "c \<le> hi" and "alloc_scan k l (c + 1) hi m = Some r"
      using less.prems by (subst (asm) alloc_scan_unfold, simp split: if_splits)+
    then show ?thesis
      using less.hyps [of "c + 1"] by (auto intro: add1_zle_eq [THEN iffD1, THEN less_imp_le])
  qed
qed

text \<open>The lowest bundle id is cached as \<open>-1\<close> (not yet read) or is in range.\<close>

definition bundle_min_ok :: "IdManager \<Rightarrow> bool" where
  "bundle_min_ok m \<longleftrightarrow>
     g_bundleIdMin m = - 1 \<or> (BUNDLE_ID_MIN \<le> g_bundleIdMin m \<and> g_bundleIdMin m < BUNDLE_ID_MAX)"

lemma GetBundleIdMin_range:
  assumes "bundle_min_ok m" and "GetBundleIdMin p m = (lowest, m')"
  shows "BUNDLE_ID_MIN \<le> lowest" and "lowest < BUNDLE_ID_MAX"
    and "m' = m\<lparr>g_bundleIdMin := lowest\<rparr>" and "GetBundleIdMin p' m' = (lowest, m')"
  using assms by (auto simp: GetBundleIdMin_def bundle_min_ok_def Let_def split: if_splits)

lemma GetScanStartLocked_range:
  assumes "bundle_min_ok m" and "GetScanStartLocked p m = (start, m1)"
    and "GetBundleIdMin p m1 = (lowest, m2)"
  shows "BUNDLE_ID_MIN \<le> lowest" and "lowest < BUNDLE_ID_MAX" and "lowest \<le> start"
    and "start \<le> BUNDLE_ID_MAX" and "lowest = fst (GetBundleIdMin p m)"
    and "bundleIdSet m2 = bundleIdSet m" and "m2 = m1"
proof -
  obtain low0 m0 where low0: "GetBundleIdMin p m = (low0, m0)" by fastforce
  note r = GetBundleIdMin_range [OF assms(1) low0]
  have again: "GetBundleIdMin p (m\<lparr>g_bundleIdMin := low0, scanStartBundleId := x\<rparr>) =
      (low0, m\<lparr>g_bundleIdMin := low0, scanStartBundleId := x\<rparr>)"
    "GetBundleIdMin p (m\<lparr>g_bundleIdMin := low0\<rparr>) = (low0, m\<lparr>g_bundleIdMin := low0\<rparr>)" for x
    using r(1) by (simp_all add: GetBundleIdMin_def)
  have "low0 = lowest \<and> lowest \<le> start \<and> start \<le> BUNDLE_ID_MAX \<and> bundleIdSet m2 = bundleIdSet m \<and> m2 = m1"
    using assms(2,3) low0 r(1,2,3) again
    by (auto simp: GetScanStartLocked_def Let_def split: if_splits)
  with r(1,2) low0 show "BUNDLE_ID_MIN \<le> lowest" "lowest < BUNDLE_ID_MAX" "lowest \<le> start"
    "start \<le> BUNDLE_ID_MAX" "lowest = fst (GetBundleIdMin p m)"
    "bundleIdSet m2 = bundleIdSet m" "m2 = m1" by auto
qed

lemma free_cong:
  "bundleIdSet m = bundleIdSet m' \<Longrightarrow> bundle_free k l m = bundle_free k l m'"
  "bundleIdSet m = bundleIdSet m' \<Longrightarrow> kernel_fails k l m = kernel_fails k l m'"
  by (simp_all add: fun_eq_iff bundle_free_def kernel_fails_def)

lemma AllocUid_cases:
  assumes "bundle_min_ok m" and "IsMigrationDone e m" and "AllocUid e p k l m = (r, out, m')"
  defines "candidates \<equiv> {fst (GetBundleIdMin p m)..BUNDLE_ID_MAX}"
  shows "(\<exists>b \<in> candidates. bundle_free k l m b \<and> r = RET_SUCCESS \<and> out = Some (uid_of l b) \<and>
            bundleIdSet m' = insert b (bundleIdSet m) \<and> scanStartBundleId m' = b + 1) \<or>
         (\<exists>b \<in> candidates. kernel_fails k l m b \<and> r = ERR_KERNEL_COMMON_FAILED \<and> out = None \<and>
            bundleIdSet m' = bundleIdSet m) \<or>
         ((\<forall>b \<in> candidates. \<not> bundle_free k l m b \<and> \<not> kernel_fails k l m b) \<and>
            r = ERR_OVERSIZE \<and> out = None \<and> bundleIdSet m' = bundleIdSet m)"
proof -
  obtain start m1 where start: "GetScanStartLocked p m = (start, m1)" by fastforce
  obtain lowest m2 where low: "GetBundleIdMin p m1 = (lowest, m2)" by fastforce
  note rng = GetScanStartLocked_range [OF assms(1) start low]
  note same = free_cong [OF rng(6)]
  have cand: "candidates = {lowest..start - 1} \<union> {start..BUNDLE_ID_MAX}"
    using rng(1-5) by (auto simp: candidates_def)
  have run: "(r, out, m') = (case alloc_scan k l start BUNDLE_ID_MAX m2 of Some x \<Rightarrow> x
      | None \<Rightarrow> (case alloc_scan k l lowest (start - 1) m2 of Some x \<Rightarrow> x
         | None \<Rightarrow> (ERR_OVERSIZE, None, m2)))"
    using assms(2,3) by (simp add: AllocUid_def start low)
  show ?thesis
  proof (cases "alloc_scan k l start BUNDLE_ID_MAX m2")
    case (Some x)
    from alloc_scan_Some [OF Some] Some run show ?thesis
      by (auto simp: cand same rng(6) take_bundle_def)
  next
    case first: None
    show ?thesis
    proof (cases "alloc_scan k l lowest (start - 1) m2")
      case (Some x)
      from alloc_scan_Some [OF Some] Some first run show ?thesis
        by (auto simp: cand same rng(6) take_bundle_def)
    next
      case None
      then have "r = ERR_OVERSIZE \<and> out = None \<and> m' = m2" using first run by simp
      moreover have "\<forall>b \<in> candidates. \<not> bundle_free k l m b \<and> \<not> kernel_fails k l m b"
        using first None by (simp only: alloc_scan_None same cand ball_Un)
      ultimately show ?thesis using rng(6) by blast
    qed
  qed
qed

lemma ExtractBundleId_uid_of:
  assumes "0 \<le> l" and "l \<le> 10737" and "BUNDLE_ID_MIN \<le> b" and "b \<le> BUNDLE_ID_MAX"
  shows "uid_of l b = l * UID_TRANSFORM_DIVISOR + b" and "ExtractBundleId (uid_of l b) = Some b"
proof -
  have "l * UID_TRANSFORM_DIVISOR + b < 2 ^ 31" using assms by simp
  then show eq: "uid_of l b = l * UID_TRANSFORM_DIVISOR + b"
    using assms by (simp add: uid_of_def)
  show "ExtractBundleId (uid_of l b) = Some b"
    using assms by (simp add: eq ExtractBundleId_def)
qed

section \<open>Steps\<close>

text \<open>Every call that changes the manager, in any order.\<close>

inductive id_step :: "('s, 't, 'r) rdb_ops \<Rightarrow> IdManager \<Rightarrow> IdManager \<Rightarrow> bool"
  for ops where
  step_register: "RegisterTokenId i t m = (r, m') \<Longrightarrow> id_step ops m m'"
| step_create: "CreateAndRegisterTokenId rnd t d c tool m = (i, m') \<Longrightarrow> id_step ops m m'"
| step_release: "id_step ops m (ReleaseTokenId i m)"
| step_reserve: "id_step ops m (AddReservedTokenId i m)"
| step_unreserve: "id_step ops m (RemoveReservedTokenId i m)"
| step_change: "ChangeTokenIdStatus i s m = (r, m') \<Longrightarrow> id_step ops m m'"
| step_alloc: "AllocUid e p k l m = (r, out, m') \<Longrightarrow> id_step ops m m'"
| step_init_uid: "InitSingleBundleIdCache uid m = (r, m') \<Longrightarrow> id_step ops m m'"
| step_import: "ImportInitialUids uids m = (r, m') \<Longrightarrow> id_step ops m m'"
| step_remove_bundle: "RemoveBundleId uid b m = (r, m') \<Longrightarrow> id_step ops m m'"
| step_remove_reserved_bundle: "RemoveReservedBundleId uid m = (r, m') \<Longrightarrow> id_step ops m m'"
| step_refresh: "RefreshReservedBundleIdSet ops loader bs db m = (r, db', m') \<Longrightarrow> id_step ops m m'"
| step_config: "InitBundleIdConfig ops loader p db m = Some (r, db', m') \<Longrightarrow> id_step ops m m'"
| step_migrated: "id_step ops m (SetMigrationDone m)"

definition id_inv :: "IdManager \<Rightarrow> bool" where
  "id_inv m \<longleftrightarrow> ids_exclusive m \<and> bundle_min_ok m"

text \<open>Operations on bundle ids leave the token id sets alone and keep the cached minimum.\<close>

definition same_ids :: "IdManager \<Rightarrow> IdManager \<Rightarrow> bool" where
  "same_ids m m' \<longleftrightarrow> tokenIdSet m' = tokenIdSet m \<and> reservedTokenIdSet m' = reservedTokenIdSet m \<and>
     untrustedTokenIdSet m' = untrustedTokenIdSet m"

lemma same_ids_exclusive: "same_ids m m' \<Longrightarrow> ids_exclusive m' = ids_exclusive m"
  by (simp add: same_ids_def ids_exclusive_def)

lemma same_ids_refl [simp]: "same_ids m m"
  by (simp add: same_ids_def)

lemma same_ids_trans: "same_ids a b \<Longrightarrow> same_ids b c \<Longrightarrow> same_ids a c"
  by (simp add: same_ids_def)

lemma GetBundleIdMin_keeps:
  "GetBundleIdMin p m = (low, m') \<Longrightarrow> same_ids m m' \<and> (bundle_min_ok m \<longrightarrow> bundle_min_ok m')"
  by (auto simp: GetBundleIdMin_def same_ids_def bundle_min_ok_def Let_def split: if_splits)

lemma GetScanStartLocked_keeps:
  assumes "GetScanStartLocked p m = (start, m')"
  shows "same_ids m m' \<and> (bundle_min_ok m \<longrightarrow> bundle_min_ok m')"
proof -
  obtain low m1 where low: "GetBundleIdMin p m = (low, m1)" by fastforce
  let ?m2 = "if scanStartBundleId m1 < low then m1\<lparr>scanStartBundleId := low\<rparr> else m1"
  have m2: "same_ids m ?m2 \<and> (bundle_min_ok m \<longrightarrow> bundle_min_ok ?m2)"
    using GetBundleIdMin_keeps [OF low] by (auto simp: same_ids_def bundle_min_ok_def)
  show ?thesis
  proof (cases "scanStartBundleId ?m2 > BUNDLE_ID_MAX")
    case True
    then have "GetBundleIdMin p ?m2 = (start, m')"
      using assms low by (simp add: GetScanStartLocked_def Let_def)
    with m2 show ?thesis by (blast dest: GetBundleIdMin_keeps intro: same_ids_trans)
  next
    case False
    then have "m' = ?m2" using assms low by (simp add: GetScanStartLocked_def Let_def)
    with m2 show ?thesis by simp
  qed
qed

lemma alloc_scan_keeps:
  "alloc_scan k l c hi m = Some (r, out, m') \<Longrightarrow> same_ids m m' \<and> (bundle_min_ok m \<longrightarrow> bundle_min_ok m')"
  using alloc_scan_Some [of k l c hi m "(r, out, m')"]
  by (auto simp: take_bundle_def same_ids_def bundle_min_ok_def)

lemma AllocUid_keeps:
  assumes "AllocUid e p k l m = (r, out, m')"
  shows "same_ids m m' \<and> (bundle_min_ok m \<longrightarrow> bundle_min_ok m')"
proof -
  obtain start m1 where start: "GetScanStartLocked p m = (start, m1)" by fastforce
  obtain low m2 where low: "GetBundleIdMin p m1 = (low, m2)" by fastforce
  have m2: "same_ids m m2 \<and> (bundle_min_ok m \<longrightarrow> bundle_min_ok m2)"
    using GetScanStartLocked_keeps [OF start] GetBundleIdMin_keeps [OF low] same_ids_trans by blast
  have "m' = m \<or> m' = m2 \<or> alloc_scan k l start BUNDLE_ID_MAX m2 = Some (r, out, m') \<or>
      alloc_scan k l low (start - 1) m2 = Some (r, out, m')"
    using assms start low by (auto simp: AllocUid_def split: if_splits option.splits)
  then show ?thesis
    using m2 alloc_scan_keeps [of k l start BUNDLE_ID_MAX m2 r out m']
      alloc_scan_keeps [of k l low "start - 1" m2 r out m'] same_ids_trans [of m m2 m'] same_ids_refl
    by blast
qed

lemma import_keeps:
  assumes "ImportInitialUids uids m = (r, m')"
  shows "same_ids m m' \<and> (bundle_min_ok m \<longrightarrow> bundle_min_ok m')"
proof -
  have "same_ids m (foldl (\<lambda>m uid. case ExtractBundleId uid of
               Some bundleId \<Rightarrow> m\<lparr>bundleIdSet := insert bundleId (bundleIdSet m)\<rparr> | None \<Rightarrow> m) m uids) \<and>
     g_bundleIdMin (foldl (\<lambda>m uid. case ExtractBundleId uid of
               Some bundleId \<Rightarrow> m\<lparr>bundleIdSet := insert bundleId (bundleIdSet m)\<rparr> | None \<Rightarrow> m) m uids) = g_bundleIdMin m"
    by (induction uids rule: rev_induct) (auto simp: same_ids_def split: option.split)
  then show ?thesis using assms by (auto simp: ImportInitialUids_def bundle_min_ok_def)
qed

lemma InitScanStart_keeps:
  assumes "InitScanStartBundleIdFromCache p m = (start, m')"
  shows "same_ids m m' \<and> (bundle_min_ok m \<longrightarrow> bundle_min_ok m')"
proof -
  obtain low m1 where low: "GetBundleIdMin p m = (low, m1)" by fastforce
  have "GetBundleIdMin p m = (start, m') \<or> GetBundleIdMin p m1 = (start, m') \<or> m' = m1"
    using assms low by (auto simp: InitScanStartBundleIdFromCache_def Let_def split: if_splits)
  then show ?thesis
    using GetBundleIdMin_keeps [OF low] GetBundleIdMin_keeps [of p m start m']
      GetBundleIdMin_keeps [of p m1 start m'] same_ids_trans [of m m1 m'] by blast
qed

lemma config_keeps:
  assumes "InitBundleIdConfig ops loader p db m = Some (r, db', m')"
  shows "same_ids m m' \<and> (bundle_min_ok m \<longrightarrow> bundle_min_ok m')"
proof -
  obtain r1 db1 m1 where init: "InitReservedBundleIdSet ops loader db m = Some (r1, db1, m1)"
    using assms by (auto simp: InitBundleIdConfig_def bind_eq_Some_conv)
  have m1: "same_ids m m1 \<and> (bundle_min_ok m \<longrightarrow> bundle_min_ok m1)"
    using init by (auto simp: InitReservedBundleIdSet_def bind_eq_Some_conv same_ids_def
        bundle_min_ok_def split: if_splits)
  obtain start m2 where scan: "InitScanStartBundleIdFromCache p m1 = (start, m2)" by fastforce
  have m2: "same_ids m1 m2 \<and> (bundle_min_ok m1 \<longrightarrow> bundle_min_ok m2)"
    by (rule InitScanStart_keeps [OF scan])
  have "m' = (if r1 \<noteq> RET_SUCCESS then m1 else m2\<lparr>scanStartBundleId := start\<rparr>)"
    using assms by (simp add: InitBundleIdConfig_def init scan split: if_split_asm)
  moreover have "same_ids m2 (m2\<lparr>scanStartBundleId := start\<rparr>) \<and>
      bundle_min_ok (m2\<lparr>scanStartBundleId := start\<rparr>) = bundle_min_ok m2"
    by (simp add: same_ids_def bundle_min_ok_def)
  ultimately show ?thesis
    using m1 m2 same_ids_trans by (metis (full_types))
qed

lemma ChangeTokenIdStatus_min:
  assumes "ChangeTokenIdStatus i s m = (r, m')"
  shows "g_bundleIdMin m' = g_bundleIdMin m"
proof -
  have "g_bundleIdMin (insert_into_status s i (erase_from_status c i m)) = g_bundleIdMin m" for c
    by (cases c; cases s) simp_all
  then show ?thesis
    using assms by (cases "GetTokenIdStatusLocked m i") (auto simp: ChangeTokenIdStatus_def split: if_splits)
qed

lemma id_step_inv [step_inv]:
  assumes "id_step ops m m'" and "id_inv m"
  shows "id_inv m'"
proof -
  have keeps: "id_inv m'" if "same_ids m m' \<and> (bundle_min_ok m \<longrightarrow> bundle_min_ok m')"
    using that assms(2) same_ids_exclusive [of m m'] by (auto simp: id_inv_def)
  have ids: "id_inv m'" if "ids_exclusive m'" and "g_bundleIdMin m' = g_bundleIdMin m"
    using that assms(2) by (simp add: id_inv_def bundle_min_ok_def)
  have ex: "ids_exclusive m" using assms(2) by (simp add: id_inv_def)
  show ?thesis
    using assms(1)
  proof cases
    case (step_create rnd t d c tool i)
    then have "m' = m \<or> RegisterTokenId i t m = (RET_SUCCESS, m')"
      unfolding CreateAndRegisterTokenId_def by (blast dest: create_attempts_result)
    then show ?thesis
      using ex assms(2) register_status [OF ex] register_result [of i t m RET_SUCCESS m']
      by (intro ids) (auto split: if_splits)
  next
    case (step_register i t r)
    then show ?thesis
      using register_status [OF ex step_register] register_result [OF step_register]
      by (intro ids) auto
  next
    case (step_change i s r)
    then show ?thesis
      using change_status [OF ex step_change] ChangeTokenIdStatus_min [OF step_change]
      by (intro ids) simp_all
  next
    case (step_release i)
    then show ?thesis using idm.status_release [OF ex] by (intro ids) (auto simp: ReleaseTokenId_def)
  next
    case (step_reserve i)
    then show ?thesis using idm.status_reserve [OF ex] by (intro ids) (auto simp: AddReservedTokenId_def)
  next
    case (step_unreserve i)
    then show ?thesis using idm.status_unreserve [OF ex] by (intro ids) (auto simp: RemoveReservedTokenId_def)
  next
    case (step_alloc e p k l r out)
    then show ?thesis by (rule keeps [OF AllocUid_keeps])
  next
    case (step_import uids r)
    then show ?thesis by (rule keeps [OF import_keeps])
  next
    case (step_config loader p db r db')
    then show ?thesis by (rule keeps [OF config_keeps])
  qed (rule keeps, force simp: same_ids_def bundle_min_ok_def InitSingleBundleIdCache_def RemoveBundleId_def
      RemoveReservedBundleId_def RefreshReservedBundleIdSet_def SetMigrationDone_def Let_def
      split: option.splits if_splits prod.splits)+
qed

lemma AllocUid_frame:
  assumes "bundle_min_ok m" and "IsMigrationDone e m" and "AllocUid e p k l m = (r, out, m')"
  shows "g_bundleIdMin m' = fst (GetBundleIdMin p m) \<and> migrationDone m' = migrationDone m"
proof -
  obtain start m1 where start: "GetScanStartLocked p m = (start, m1)" by fastforce
  obtain lowest m2 where low: "GetBundleIdMin p m1 = (lowest, m2)" by fastforce
  note rng = GetScanStartLocked_range [OF assms(1) start low]
  have m2: "g_bundleIdMin m2 = lowest" "migrationDone m2 = migrationDone m1"
    using low by (auto simp: GetBundleIdMin_def Let_def split: if_splits)
  have m1: "migrationDone m1 = migrationDone m"
    using start by (auto simp: GetScanStartLocked_def GetBundleIdMin_def Let_def split: if_splits)
  have "m' = m2 \<or> (\<exists>b. m' = take_bundle b m2)"
    using assms(2,3) start low alloc_scan_Some [of k l start BUNDLE_ID_MAX m2 "(r, out, m')"]
      alloc_scan_Some [of k l lowest "start - 1" m2 "(r, out, m')"]
    by (auto simp: AllocUid_def split: option.splits)
  then show ?thesis using m1 m2 rng(5) by (auto simp: take_bundle_def)
qed

section \<open>Properties\<close>

text \<open>C22. Mutual exclusivity of the three id sets and a sound cached minimum hold in every state
  that any sequence of calls can reach from start-up: an id is never both in use and reserved, in
  use and untrusted, or reserved and untrusted.\<close>

theorem id_sets_stay_exclusive:
  assumes "(id_step ops)\<^sup>*\<^sup>* init_id_manager m"
  shows "ids_exclusive m \<and> bundle_min_ok m"
proof -
  have "id_inv init_id_manager"
    by (simp add: id_inv_def ids_exclusive_def bundle_min_ok_def init_id_manager_def)
  with assms have "id_inv m"
    by (induction rule: rtranclp_induct) (auto intro: id_step_inv)
  then show ?thesis by (simp add: id_inv_def)
qed

theorem id_sets_stay_exclusive_witness:
  "ids_exclusive (AddReservedTokenId 0x20000001 (ReleaseTokenId 0x20000001 init_id_manager))"
proof -
  have "id_step mem_rdb init_id_manager (ReleaseTokenId 0x20000001 init_id_manager)"
    by (rule step_release)
  moreover have "id_step mem_rdb (ReleaseTokenId 0x20000001 init_id_manager)
      (AddReservedTokenId 0x20000001 (ReleaseTokenId 0x20000001 init_id_manager))"
    by (rule step_reserve)
  ultimately show ?thesis
    using id_sets_stay_exclusive
      [of mem_rdb "AddReservedTokenId 0x20000001 (ReleaseTokenId 0x20000001 init_id_manager)"]
    by (meson converse_rtranclp_into_rtranclp rtranclp.rtrancl_refl)
qed

text \<open>C27. The three sets implement one status map: with the sets exclusive, registering, releasing,
  reserving, unreserving and changing the status of an id are exactly the updates of the map from
  ids to \<open>ACTIVE\<close>/\<open>RESERVED\<close>/\<open>UNTRUSTED\<close> that their names promise, and a change of status fails only
  for an unknown id.\<close>

theorem id_manager_refines_status_map:
  assumes "ids_exclusive m"
  shows "(let (r, m') = RegisterTokenId i t m in
            GetTokenIdStatusLocked m' =
              (if r = RET_SUCCESS then (GetTokenIdStatusLocked m)(i \<mapsto> ACTIVE) else GetTokenIdStatusLocked m)) \<and>
    GetTokenIdStatusLocked (ReleaseTokenId i m) =
      (if GetTokenIdStatusLocked m i = Some ACTIVE then (GetTokenIdStatusLocked m)(i := None)
       else GetTokenIdStatusLocked m) \<and>
    GetTokenIdStatusLocked (AddReservedTokenId i m) =
      (if GetTokenIdStatusLocked m i = None then (GetTokenIdStatusLocked m)(i \<mapsto> RESERVED)
       else GetTokenIdStatusLocked m) \<and>
    GetTokenIdStatusLocked (RemoveReservedTokenId i m) =
      (if GetTokenIdStatusLocked m i = Some RESERVED then (GetTokenIdStatusLocked m)(i := None)
       else GetTokenIdStatusLocked m) \<and>
    (let (r, m') = ChangeTokenIdStatus i s m in
       if GetTokenIdStatusLocked m i = None then r = ERR_TOKENID_NOT_EXIST \<and> m' = m
       else r = RET_SUCCESS \<and> GetTokenIdStatusLocked m' = (GetTokenIdStatusLocked m)(i \<mapsto> s))"
proof -
  obtain r m1 where reg: "RegisterTokenId i t m = (r, m1)" by fastforce
  obtain r2 m2 where chg: "ChangeTokenIdStatus i s m = (r2, m2)" by fastforce
  have "GetTokenIdStatusLocked m i = None \<Longrightarrow> m2 = m"
    using chg by (simp add: ChangeTokenIdStatus_def)
  then show ?thesis
    using register_status [OF assms reg] change_status [OF assms chg] idm.status_release [OF assms, of i]
      idm.status_reserve [OF assms, of i] idm.status_unreserve [OF assms, of i]
    by (simp add: reg chg)
qed

theorem id_manager_refines_status_map_witness:
  "let m = \<lparr>tokenIdSet = {5}, reservedTokenIdSet = {6}, untrustedTokenIdSet = {}, bundleIdSet = {},
        reservedBundleIdSet = {}, scanStartBundleId = - 1, migrationDone = False, g_bundleIdMin = - 1\<rparr>;
       (r, m') = ChangeTokenIdStatus 6 UNTRUSTED m
   in r = RET_SUCCESS \<and> GetTokenIdStatusLocked m' = (GetTokenIdStatusLocked m)(6 \<mapsto> UNTRUSTED)"
  using id_manager_refines_status_map
    [of "\<lparr>tokenIdSet = {5}, reservedTokenIdSet = {6}, untrustedTokenIdSet = {}, bundleIdSet = {},
        reservedBundleIdSet = {}, scanStartBundleId = - 1, migrationDone = False, g_bundleIdMin = - 1\<rparr>" 6 TOKEN_HAP UNTRUSTED]
  by (simp add: ids_exclusive_def GetTokenIdStatusLocked_def Let_def)

text \<open>C28. A created id is fresh and carries what was asked for: whenever
  \<open>CreateAndRegisterTokenId\<close> returns an id, no set contained it before, it is the only change to the
  manager, and its bits give the requested type and flags; if it fails, nothing has changed.\<close>

theorem created_token_id_is_fresh:
  assumes "CreateAndRegisterTokenId rnd t dlp clone tool m = (i, m')"
  shows "if i = INVALID_TOKENID then m' = m
    else GetTokenIdStatusLocked m i = None \<and> m' = m\<lparr>tokenIdSet := insert i (tokenIdSet m)\<rparr> \<and>
      GetTokenIdType m' i = t \<and> dlpFlag (of_token_id i) = word_of_int dlp \<and>
      cloneFlag (of_token_id i) = word_of_int clone \<and> toolFlag (of_token_id i) = word_of_int tool \<and>
      version (of_token_id i) = DEFAULT_TOKEN_VERSION \<and> \<not> IsBinTokenId i"
proof -
  note result = create_attempts_result [OF assms [unfolded CreateAndRegisterTokenId_def]]
  show ?thesis
  proof (cases "i = INVALID_TOKENID")
    case True
    then show ?thesis using result by auto
  next
    case False
    then obtain j where i: "i = CreateTokenId (rnd j) t dlp clone tool"
      and reg: "RegisterTokenId i t m = (RET_SUCCESS, m')"
      using result by blast
    have "rnd j \<noteq> 0" using i False by auto
    note fields = CreateTokenId_fields [OF this, of t dlp clone tool, folded i]
    have "uint (id_type (of_token_id i)) = token_type_value t"
      using register_success_iff [of i t m] reg by simp
    then have "GetTokenIdTypeEnum i = t"
      by (simp add: GetTokenIdTypeEnum_def token_type_of_value)
    then show ?thesis
      using False register_fresh_id [OF reg] register_result [OF reg] fields
      by (simp add: GetTokenIdType_def IsBinTokenId_def)
  qed
qed

theorem created_token_id_is_fresh_witness:
  "let (i, m') = CreateAndRegisterTokenId (\<lambda>n. 5) TOKEN_HAP 1 0 0 init_id_manager in
   i = 0x24000005 \<and> GetTokenIdType m' i = TOKEN_HAP"
proof -
  have i: "CreateTokenId 5 TOKEN_HAP 1 0 0 = 0x24000005"
    by (simp add: CreateTokenId_def to_token_id_def)
  have "create_attempts (\<lambda>n. 5) TOKEN_HAP 1 0 0 0 (Suc 999) init_id_manager =
      (0x24000005, init_id_manager\<lparr>tokenIdSet := {0x24000005}\<rparr>)"
    by (subst create_attempts.simps(2)) (simp add: i RegisterTokenId_def of_token_id_def GetTokenIdStatusLocked_def init_id_manager_def)
  then have run: "CreateAndRegisterTokenId (\<lambda>n. 5) TOKEN_HAP 1 0 0 init_id_manager =
      (0x24000005, init_id_manager\<lparr>tokenIdSet := {0x24000005}\<rparr>)"
    by (simp add: CreateAndRegisterTokenId_def del: create_attempts.simps)
  obtain i m' where run': "CreateAndRegisterTokenId (\<lambda>n. 5) TOKEN_HAP 1 0 0 init_id_manager = (i, m')"
    by fastforce
  then have "i = 0x24000005" using run by simp
  then show ?thesis
    using created_token_id_is_fresh [OF run'] run' by auto
qed

text \<open>C29. Creation succeeds whenever it can: if the random source delivers non-zero draws up to one,
  within the first 1000, whose id is unused, then a valid id is returned.\<close>

theorem token_id_creation_succeeds:
  assumes "j < 1000" and "\<forall>k \<le> j. rnd k \<noteq> 0" and "t \<noteq> TOKEN_INVALID"
    and "GetTokenIdStatusLocked m (CreateTokenId (rnd j) t dlp clone tool) = None"
  shows "fst (CreateAndRegisterTokenId rnd t dlp clone tool m) \<noteq> INVALID_TOKENID"
  unfolding CreateAndRegisterTokenId_def
  using assms by (intro create_attempts_succeeds [of 0 j]) auto

theorem token_id_creation_succeeds_witness:
  "fst (CreateAndRegisterTokenId (\<lambda>n. if n = 0 then 7 else 8) TOKEN_HAP 0 0 0
     (init_id_manager\<lparr>tokenIdSet := {0x20000007}\<rparr>)) \<noteq> INVALID_TOKENID"
  by (rule token_id_creation_succeeds [of 1])
    (simp_all add: CreateTokenId_def to_token_id_def GetTokenIdStatusLocked_def init_id_manager_def)

text \<open>C24. What a successful allocation gives: the returned uid belongs to the requested user and to
  a bundle id in the product's range that no bundle held and whose uid has no process left in the
  kernel; exactly that bundle id becomes used, and the token id sets are untouched. The user id bound
  is where the uid still fits the 32-bit type.\<close>

theorem alloc_uid_sound:
  assumes "bundle_min_ok m" and "IsMigrationDone e m" and "0 \<le> localId" and "localId \<le> 10737"
    and "AllocUid e p k localId m = (RET_SUCCESS, out, m')"
  shows "\<exists>b uid. out = Some uid \<and> uid = localId * 200000 + b \<and> ExtractBundleId uid = Some b \<and>
    fst (GetBundleIdMin p m) \<le> b \<and> b \<le> BUNDLE_ID_MAX \<and> b \<notin> bundleIdSet m \<and>
    SpmGetUidRefCntWithRetry k (word_of_int uid) = (RET_SUCCESS, 0) \<and>
    bundleIdSet m' = insert b (bundleIdSet m) \<and> scanStartBundleId m' = b + 1 \<and>
    GetTokenIdStatusLocked m' = GetTokenIdStatusLocked m"
proof -
  from AllocUid_cases [OF assms(1,2,5)] obtain b where
    b: "b \<in> {fst (GetBundleIdMin p m)..BUNDLE_ID_MAX}" "bundle_free k localId m b" "out = Some (uid_of localId b)"
      "bundleIdSet m' = insert b (bundleIdSet m)" "scanStartBundleId m' = b + 1" by auto
  have "BUNDLE_ID_MIN \<le> b" "b \<le> BUNDLE_ID_MAX"
    using b(1) GetBundleIdMin_range(1) [OF assms(1) prod.collapse [symmetric], of p] by auto
  note uid = ExtractBundleId_uid_of [OF assms(3,4) this]
  have "GetTokenIdStatusLocked m' = GetTokenIdStatusLocked m"
    using AllocUid_keeps [OF assms(5)] by (simp add: same_ids_def GetTokenIdStatusLocked_def fun_eq_iff)
  with b uid show ?thesis by (auto simp: bundle_free_def)
qed

theorem alloc_uid_sound_witness:
  "\<exists>b uid. uid = 100 * 200000 + b \<and> b = 10001 \<and>
     fst (snd (AllocUid False (0, []) \<lparr>spm_supported = False, uid_refcnt = \<lambda>n u. (0, 0)\<rparr> 100
       (init_id_manager\<lparr>bundleIdSet := {10000}\<rparr>))) = Some uid"
proof -
  let ?k = "\<lparr>spm_supported = False, uid_refcnt = \<lambda>n u. (0, 0)\<rparr>"
  let ?m = "init_id_manager\<lparr>bundleIdSet := {10000}\<rparr>"
  have ok: "fst (AllocUid False (0, []) ?k 100 ?m) = RET_SUCCESS \<and>
      scanStartBundleId (snd (snd (AllocUid False (0, []) ?k 100 ?m))) = 10002"
    by (simp add: AllocUid_def IsMigrationDone_def GetScanStartLocked_def GetBundleIdMin_def
        init_id_manager_def alloc_scan.simps SpmGetUidRefCntWithRetry_def)
  obtain out m' where run: "AllocUid False (0, []) ?k 100 ?m = (RET_SUCCESS, out, m')"
    using ok by (cases "AllocUid False (0, []) ?k 100 ?m") auto
  have "bundle_min_ok ?m" "IsMigrationDone False ?m"
    by (simp_all add: bundle_min_ok_def IsMigrationDone_def init_id_manager_def)
  from alloc_uid_sound [OF this _ _ run] show ?thesis
    using ok run by auto
qed

text \<open>C23. Allocation is complete: with a kernel that answers, it succeeds exactly if some bundle id of
  the range is neither held nor still referenced by a process, wherever the scan starts, and
  otherwise reports \<open>ERR_OVERSIZE\<close> and leaves the held ids as they were.\<close>

theorem alloc_uid_complete:
  assumes "bundle_min_ok m" and "IsMigrationDone e m"
    and "\<forall>uid. fst (SpmGetUidRefCntWithRetry k uid) = RET_SUCCESS"
    and "AllocUid e p k localId m = (r, out, m')"
  defines "free \<equiv> {b \<in> {fst (GetBundleIdMin p m)..BUNDLE_ID_MAX}. b \<notin> bundleIdSet m \<and>
      snd (SpmGetUidRefCntWithRetry k (word_of_int (uid_of localId b))) = 0}"
  shows "r = (if free = {} then ERR_OVERSIZE else RET_SUCCESS) \<and>
    (free = {} \<longrightarrow> bundleIdSet m' = bundleIdSet m)"
proof -
  have "kernel_fails k localId m b = False" for b using assms(3) by (simp add: kernel_fails_def)
  moreover have "free = {b \<in> {fst (GetBundleIdMin p m)..BUNDLE_ID_MAX}. bundle_free k localId m b}"
    using assms(3) by (auto simp: free_def bundle_free_def prod_eq_iff)
  ultimately show ?thesis
    using AllocUid_cases [OF assms(1,2,4)] by auto
qed

theorem alloc_uid_complete_witness:
  "fst (AllocUid False (5, ''65534'') \<lparr>spm_supported = True, uid_refcnt = \<lambda>n u. (0, 1)\<rparr> 0
     init_id_manager) = ERR_OVERSIZE"
proof -
  let ?k = "\<lparr>spm_supported = True, uid_refcnt = \<lambda>n u. (0, 1)\<rparr>"
  have k: "SpmGetUidRefCntWithRetry ?k u = (0, 1)" for u
    by (simp add: SpmGetUidRefCntWithRetry_def numeral_3_eq_3)
  obtain r out m' where run: "AllocUid False (5, ''65534'') ?k 0 init_id_manager = (r, out, m')"
    by (rule prod_cases3)
  have "bundle_min_ok init_id_manager" "IsMigrationDone False init_id_manager"
    by (simp_all add: bundle_min_ok_def IsMigrationDone_def init_id_manager_def)
  from alloc_uid_complete [OF this _ run] show ?thesis
    by (simp add: k run)
qed

text \<open>C25. Rolling an allocation back restores the allocator: removing the uid just allocated with
  \<open>rollbackScanStart\<close> gives back the set of held bundle ids and sets the scan start to the bundle id
  that was given out, so that the next allocation for that user returns the same uid.\<close>

theorem alloc_rollback_round_trip:
  assumes "bundle_min_ok m" and "IsMigrationDone e m" and "0 \<le> localId" and "localId \<le> 10737"
    and "AllocUid e p k localId m = (RET_SUCCESS, Some uid, m1)"
    and "RemoveBundleId uid True m1 = (r, m2)"
  shows "r = RET_SUCCESS \<and> bundleIdSet m2 = bundleIdSet m \<and>
    ExtractBundleId uid = Some (scanStartBundleId m2) \<and>
    fst (snd (AllocUid e p k localId m2)) = Some uid"
proof -
  from AllocUid_cases [OF assms(1,2,5)] obtain b where
    b: "b \<in> {fst (GetBundleIdMin p m)..BUNDLE_ID_MAX}" "bundle_free k localId m b" "uid = uid_of localId b"
      "bundleIdSet m1 = insert b (bundleIdSet m)" "scanStartBundleId m1 = b + 1" by auto
  have range: "BUNDLE_ID_MIN \<le> b" "b \<le> BUNDLE_ID_MAX"
    using b(1) GetBundleIdMin_range(1) [OF assms(1) prod.collapse [symmetric], of p] by auto
  note uid = ExtractBundleId_uid_of [OF assms(3,4) range]
  have m2: "r = RET_SUCCESS" "bundleIdSet m2 = bundleIdSet m" "scanStartBundleId m2 = b"
      "g_bundleIdMin m2 = g_bundleIdMin m1" "migrationDone m2 = migrationDone m1"
    using assms(6) b uid by (auto simp: RemoveBundleId_def Let_def bundle_free_def)
  have g: "g_bundleIdMin m1 = fst (GetBundleIdMin p m)" "migrationDone m1 = migrationDone m"
    using AllocUid_frame [OF assms(1,2,5)] by simp_all
  have "IsMigrationDone e m2" using assms(2) g(2) m2(5) by (simp add: IsMigrationDone_def)
  moreover have "GetScanStartLocked p m2 = (b, m2)" "GetBundleIdMin p m2 = (fst (GetBundleIdMin p m), m2)"
    using b(1) range m2 g(1) GetBundleIdMin_range(1) [OF assms(1) prod.collapse [symmetric], of p]
    by (simp_all add: GetScanStartLocked_def GetBundleIdMin_def Let_def)
  moreover have "alloc_scan k localId b BUNDLE_ID_MAX m2 =
      Some (RET_SUCCESS, Some uid, take_bundle b m2)"
    using b(2,3) range free_cong [OF m2(2)]
    by (subst alloc_scan_unfold) (auto simp: kernel_fails_def bundle_free_def)
  ultimately show ?thesis
    using m2 uid b(3) by (simp add: AllocUid_def)
qed

theorem alloc_rollback_round_trip_witness:
  "let k = \<lparr>spm_supported = False, uid_refcnt = \<lambda>n u. (0, 0)\<rparr>;
       m1 = snd (snd (AllocUid False (0, []) k 100 init_id_manager));
       m2 = snd (RemoveBundleId 20010000 True m1)
   in fst (snd (AllocUid False (0, []) k 100 m2)) = Some 20010000"
proof -
  let ?k = "\<lparr>spm_supported = False, uid_refcnt = \<lambda>n u. (0, 0)\<rparr>"
  have "fst (AllocUid False (0, []) ?k 100 init_id_manager) = RET_SUCCESS \<and>
      fst (snd (AllocUid False (0, []) ?k 100 init_id_manager)) = Some 20010000"
    by (simp add: AllocUid_def IsMigrationDone_def GetScanStartLocked_def GetBundleIdMin_def
        init_id_manager_def alloc_scan.simps SpmGetUidRefCntWithRetry_def uid_of_def)
  then have run: "AllocUid False (0, []) ?k 100 init_id_manager =
      (RET_SUCCESS, Some 20010000, snd (snd (AllocUid False (0, []) ?k 100 init_id_manager)))"
    by (metis prod.collapse)
  have "bundle_min_ok init_id_manager" "IsMigrationDone False init_id_manager"
    by (simp_all add: bundle_min_ok_def IsMigrationDone_def init_id_manager_def)
  from alloc_rollback_round_trip [OF this _ _ run prod.collapse [symmetric]] show ?thesis
    by (simp add: Let_def)
qed

end
