(* ===== verification/Permission_Map.thy ===== *)
theory Permission_Map
  imports Ordered_Map
begin

text \<open>
  The permission table of \<^verbatim>\<open>frameworks/common/src/permission_map.cpp\<close>. The table itself
  (\<open>g_permList\<close>) and the command-line permission map are generated at build time, so they are
  arguments: \<open>tbl\<close>, the list of definitions, whose \<open>isEnable\<close> fields are mutable state, and
  \<open>cli\<close>. A permission's code is its index in the table. What the code relies on is
  \<open>perm_table_ok\<close>: names are distinct C strings and the codes fit the 16 bits they are stored in.
\<close>

section \<open>Definitions\<close>

datatype GrantMode = USER_GRANT | SYSTEM_GRANT | MANUAL_SETTINGS

datatype ATokenAplEnum = APL_INVALID | APL_NORMAL | APL_SYSTEM_BASIC | APL_SYSTEM_CORE | APL_ENUM_BUTT

datatype ATokenAvailableTypeEnum =
  INVALID | NORMAL | SYSTEM | MDM | SYSTEM_AND_MDM | SERVICE | ENTERPRISE_NORMAL | AVAILABLE_TYPE_BUTT

fun grant_mode_value :: "GrantMode \<Rightarrow> int" where
  "grant_mode_value USER_GRANT = 0"
| "grant_mode_value SYSTEM_GRANT = 1"
| "grant_mode_value MANUAL_SETTINGS = 2"

fun apl_value :: "ATokenAplEnum \<Rightarrow> int" where
  "apl_value APL_INVALID = 0"
| "apl_value APL_NORMAL = 1"
| "apl_value APL_SYSTEM_BASIC = 2"
| "apl_value APL_SYSTEM_CORE = 3"
| "apl_value APL_ENUM_BUTT = 4"

fun available_type_value :: "ATokenAvailableTypeEnum \<Rightarrow> int" where
  "available_type_value INVALID = - 1"
| "available_type_value NORMAL = 0"
| "available_type_value SYSTEM = 1"
| "available_type_value MDM = 2"
| "available_type_value SYSTEM_AND_MDM = 3"
| "available_type_value SERVICE = 4"
| "available_type_value ENTERPRISE_NORMAL = 5"
| "available_type_value AVAILABLE_TYPE_BUTT = 6"

text \<open>The fields of the three classes about permissions carry a prefix of their class.\<close>

record PermissionBriefDef =
  bd_permissionName :: string
  bd_grantMode :: GrantMode
  bd_availableLevel :: ATokenAplEnum
  bd_availableType :: ATokenAvailableTypeEnum
  bd_provisionEnable :: bool
  bd_distributedSceneEnable :: bool
  bd_isKernelEffect :: bool
  bd_hasValue :: bool
  bd_isEnable :: bool
  bd_provisionBypassForSideload :: bool

type_synonym perm_table = "PermissionBriefDef list"

text \<open>\<open>PermissionDef\<close> keeps the enumerations as the integers the database holds.\<close>

record PermissionDef =
  pd_permissionName :: string
  pd_bundleName :: string
  pd_grantMode :: int
  pd_availableLevel :: int
  pd_provisionEnable :: bool
  pd_distributedSceneEnable :: bool
  pd_label :: string
  pd_labelId :: int
  pd_description :: string
  pd_descriptionId :: int
  pd_availableType :: int
  pd_isKernelEffect :: bool
  pd_hasValue :: bool

text \<open>\<open>InitMap\<close>: the loop assigns \<open>g_permMap[name] = i\<close> for each index in turn.\<close>

definition InitMap :: "perm_table \<Rightarrow> (string, u32) omap" where
  "InitMap tbl =
     foldl (\<lambda>m i. omap_insert (bd_permissionName (tbl ! i)) (of_nat i) m) [] [0..<length tbl]"

definition TransferPermissionToOpcode :: "perm_table \<Rightarrow> string \<Rightarrow> u32 option" where
  "TransferPermissionToOpcode tbl permission = map_of (InitMap tbl) (c_str permission)"

definition TransferOpcodeToPermission :: "perm_table \<Rightarrow> u32 \<Rightarrow> string" where
  "TransferOpcodeToPermission tbl opCode =
     (if unat opCode \<ge> length tbl then [] else bd_permissionName (tbl ! unat opCode))"

definition QueryRequredPermissions :: "(string, string list) omap \<Rightarrow> string \<Rightarrow> bool \<times> string list" where
  "QueryRequredPermissions cli cliPermission =
     (case map_of cli cliPermission of None \<Rightarrow> (False, []) | Some ps \<Rightarrow> (True, ps))"

definition QueryMappedPermissionsByCliPermission ::
    "(string, string list) omap \<Rightarrow> string \<Rightarrow> bool \<times> string list" where
  "QueryMappedPermissionsByCliPermission cli cliPermission =
     (case map_of cli cliPermission of None \<Rightarrow> (False, []) | Some ps \<Rightarrow> (True, ps))"

definition IsUserGrantPermission :: "perm_table \<Rightarrow> string \<Rightarrow> bool" where
  "IsUserGrantPermission tbl permission =
     (case TransferPermissionToOpcode tbl permission of
        None \<Rightarrow> False
      | Some opCode \<Rightarrow> bd_isEnable (tbl ! unat opCode) \<and> bd_grantMode (tbl ! unat opCode) = USER_GRANT)"

definition IsOperablePermission :: "perm_table \<Rightarrow> string \<Rightarrow> bool" where
  "IsOperablePermission tbl permission =
     (case TransferPermissionToOpcode tbl permission of
        None \<Rightarrow> False
      | Some opCode \<Rightarrow>
          bd_isEnable (tbl ! unat opCode) \<and>
          (bd_grantMode (tbl ! unat opCode) = USER_GRANT \<or> bd_grantMode (tbl ! unat opCode) = MANUAL_SETTINGS))"

definition IsDefinedPermissionInner :: "perm_table \<Rightarrow> string \<Rightarrow> bool" where
  "IsDefinedPermissionInner tbl permission =
     (case map_of (InitMap tbl) (c_str permission) of
        None \<Rightarrow> False | Some i \<Rightarrow> bd_isEnable (tbl ! unat i))"

text \<open>The overload with the code returned too; the one without returns its first component.\<close>

definition GetPermissionBriefDefAndCode :: "perm_table \<Rightarrow> string \<Rightarrow> (PermissionBriefDef \<times> u32) option" where
  "GetPermissionBriefDefAndCode tbl permission =
     (case TransferPermissionToOpcode tbl permission of
        None \<Rightarrow> None | Some opCode \<Rightarrow> Some (tbl ! unat opCode, opCode))"

definition GetPermissionBriefDef :: "perm_table \<Rightarrow> string \<Rightarrow> PermissionBriefDef option" where
  "GetPermissionBriefDef tbl permission =
     (case TransferPermissionToOpcode tbl permission of
        None \<Rightarrow> None | Some opCode \<Rightarrow> Some (tbl ! unat opCode))"

text \<open>The overload by code reads \<open>g_permList[opCode]\<close> unchecked: \<open>None\<close> is a read out of bounds.\<close>

definition GetPermissionBriefDefByCode :: "perm_table \<Rightarrow> u32 \<Rightarrow> PermissionBriefDef option" where
  "GetPermissionBriefDefByCode tbl opCode =
     (if unat opCode < length tbl then Some (tbl ! unat opCode) else None)"

definition ConvertPermissionBriefToDef :: "PermissionBriefDef \<Rightarrow> PermissionDef \<Rightarrow> PermissionDef" where
  "ConvertPermissionBriefToDef briefDef def =
     def\<lparr>pd_permissionName := bd_permissionName briefDef,
         pd_grantMode := grant_mode_value (bd_grantMode briefDef),
         pd_availableLevel := apl_value (bd_availableLevel briefDef),
         pd_provisionEnable := bd_provisionEnable briefDef,
         pd_distributedSceneEnable := bd_distributedSceneEnable briefDef,
         pd_availableType := available_type_value (bd_availableType briefDef),
         pd_isKernelEffect := bd_isKernelEffect briefDef,
         pd_hasValue := bd_hasValue briefDef\<rparr>"

definition IsPermissionValidForHap :: "perm_table \<Rightarrow> string \<Rightarrow> bool" where
  "IsPermissionValidForHap tbl permissionName =
     (case TransferPermissionToOpcode tbl permissionName of
        None \<Rightarrow> False
      | Some opCode \<Rightarrow> bd_isEnable (tbl ! unat opCode) \<and> bd_availableType (tbl ! unat opCode) \<noteq> SERVICE)"

definition GetDefPermissionsSize :: "perm_table \<Rightarrow> nat" where
  "GetDefPermissionsSize tbl = length tbl"

definition SetPermissionBriefEnabled :: "string \<Rightarrow> bool \<Rightarrow> perm_table \<Rightarrow> bool \<times> perm_table" where
  "SetPermissionBriefEnabled permissionName isEnable tbl =
     (case map_of (InitMap tbl) (c_str permissionName) of
        None \<Rightarrow> (False, tbl)
      | Some i \<Rightarrow> (True, tbl[unat i := (tbl ! unat i)\<lparr>bd_isEnable := isEnable\<rparr>]))"

section \<open>Lookups\<close>

definition perm_table_ok :: "perm_table \<Rightarrow> bool" where
  "perm_table_ok tbl \<longleftrightarrow>
     distinct (map bd_permissionName tbl) \<and> length tbl \<le> 2 ^ 16 \<and>
     (\<forall>d \<in> set tbl. bd_permissionName d \<noteq> [] \<and> CHR 0x00 \<notin> set (bd_permissionName d))"

lemma InitMap_lookup_prefix:
  assumes "n \<le> length tbl" and "distinct (map bd_permissionName tbl)"
  defines "m \<equiv> foldl (\<lambda>m i. omap_insert (bd_permissionName (tbl ! i)) (of_nat i :: u32) m) [] [0..<n]"
  shows "omap_ok m \<and> (\<forall>p c. map_of m p = Some c \<longleftrightarrow> (\<exists>i < n. c = of_nat i \<and> bd_permissionName (tbl ! i) = p))"
  using assms(1) unfolding m_def
proof (induction n)
  case (Suc n)
  let ?f = "\<lambda>m i. omap_insert (bd_permissionName (tbl ! i)) (of_nat i :: u32) m"
  have IH: "omap_ok (foldl ?f [] [0..<n])"
      "map_of (foldl ?f [] [0..<n]) p = Some c \<longleftrightarrow> (\<exists>i < n. c = of_nat i \<and> bd_permissionName (tbl ! i) = p)"
    for p c using Suc by auto
  have inj: "bd_permissionName (tbl ! i) \<noteq> bd_permissionName (tbl ! n)" if "i < n" for i
    using assms(2) Suc.prems that by (auto simp: distinct_conv_nth)
  have "foldl ?f [] [0..<Suc n] = ?f (foldl ?f [] [0..<n]) n" by simp
  then show ?case
    using IH inj by (auto simp: omap_ok_insert map_of_omap_insert less_Suc_eq split: if_splits)
qed simp

lemma TransferPermissionToOpcode_iff:
  assumes "perm_table_ok tbl"
  shows "TransferPermissionToOpcode tbl p = Some c \<longleftrightarrow>
     unat c < length tbl \<and> bd_permissionName (tbl ! unat c) = c_str p"
proof -
  have small: "unat (of_nat i :: u32) = i" if "i < length tbl" for i
    using that assms by (simp add: perm_table_ok_def unat_of_nat)
  have "TransferPermissionToOpcode tbl p = Some c \<longleftrightarrow>
      (\<exists>i < length tbl. c = of_nat i \<and> bd_permissionName (tbl ! i) = c_str p)"
    using InitMap_lookup_prefix [of "length tbl" tbl] assms
    by (simp add: TransferPermissionToOpcode_def InitMap_def perm_table_ok_def)
  also have "\<dots> \<longleftrightarrow> unat c < length tbl \<and> bd_permissionName (tbl ! unat c) = c_str p"
  proof
    assume "unat c < length tbl \<and> bd_permissionName (tbl ! unat c) = c_str p"
    moreover have "c = of_nat (unat c)" by simp
    ultimately show "\<exists>i < length tbl. c = of_nat i \<and> bd_permissionName (tbl ! i) = c_str p" by blast
  qed (auto simp: small)
  finally show ?thesis .
qed

lemma opcode_of_index:
  assumes "perm_table_ok tbl" and "unat c < length tbl"
  shows "TransferPermissionToOpcode tbl (bd_permissionName (tbl ! unat c)) = Some c"
  using assms by (simp add: TransferPermissionToOpcode_iff perm_table_ok_def)

lemma opcode_None_iff:
  assumes "perm_table_ok tbl"
  shows "TransferPermissionToOpcode tbl p = None \<longleftrightarrow> c_str p \<notin> bd_permissionName ` set tbl"
proof -
  have "(\<exists>c. TransferPermissionToOpcode tbl p = Some c) \<longleftrightarrow> c_str p \<in> bd_permissionName ` set tbl"
  proof
    assume "c_str p \<in> bd_permissionName ` set tbl"
    then obtain i where i: "i < length tbl" "bd_permissionName (tbl ! i) = c_str p"
      by (auto simp: in_set_conv_nth)
    then have "unat (of_nat i :: u32) = i"
      using assms by (simp add: perm_table_ok_def unat_of_nat)
    with i show "\<exists>c. TransferPermissionToOpcode tbl p = Some c"
      using TransferPermissionToOpcode_iff [OF assms, of p "of_nat i"] by auto
  next
    assume "\<exists>c. TransferPermissionToOpcode tbl p = Some c"
    then show "c_str p \<in> bd_permissionName ` set tbl"
      by (metis TransferPermissionToOpcode_iff [OF assms] imageI nth_mem)
  qed
  then show ?thesis by (metis not_None_eq)
qed

lemma opcode_bound:
  "perm_table_ok tbl \<Longrightarrow> TransferPermissionToOpcode tbl p = Some c \<Longrightarrow> unat c < 2 ^ 16"
  by (auto simp: TransferPermissionToOpcode_iff perm_table_ok_def)

lemma perm_table_ok_update:
  "perm_table_ok tbl \<Longrightarrow> perm_table_ok (tbl[i := (tbl ! i)\<lparr>bd_isEnable := b\<rparr>])"
proof (cases "i < length tbl")
  case True
  assume ok: "perm_table_ok tbl"
  have "map bd_permissionName (tbl[i := (tbl ! i)\<lparr>bd_isEnable := b\<rparr>]) = map bd_permissionName tbl"
    using True by (intro nth_equalityI) (auto simp: nth_list_update)
  moreover have "bd_permissionName ((tbl ! i)\<lparr>bd_isEnable := b\<rparr>) \<in> bd_permissionName ` set tbl"
    using True by simp
  ultimately show ?thesis
    using ok True set_update_subset_insert [of tbl i "(tbl ! i)\<lparr>bd_isEnable := b\<rparr>"]
    by (auto simp: perm_table_ok_def)
qed (simp add: list_update_beyond)

section \<open>Properties\<close>

text \<open>C34. Names and codes correspond: in a table of distinct names, a permission name has a code
  exactly if it is in the table, the code's name is the permission, and every code of the table is
  the code of its name. Unknown names and codes out of range give no code and the empty name.\<close>

theorem permission_code_round_trip:
  assumes "perm_table_ok tbl"
  shows "(TransferPermissionToOpcode tbl p = Some c \<longrightarrow> TransferOpcodeToPermission tbl c = c_str p) \<and>
    (TransferOpcodeToPermission tbl c \<noteq> [] \<longrightarrow>
       TransferPermissionToOpcode tbl (TransferOpcodeToPermission tbl c) = Some c) \<and>
    (TransferPermissionToOpcode tbl p = None \<longleftrightarrow> c_str p \<notin> bd_permissionName ` set tbl) \<and>
    (TransferOpcodeToPermission tbl c = [] \<longleftrightarrow> unat c \<ge> length tbl)"
  using assms opcode_of_index [OF assms, of c] opcode_None_iff [OF assms, of p]
  by (auto simp: TransferOpcodeToPermission_def TransferPermissionToOpcode_iff perm_table_ok_def)

theorem permission_code_round_trip_witness:
  "let d = \<lparr>bd_permissionName = ''ohos.permission.CAMERA'', bd_grantMode = USER_GRANT,
        bd_availableLevel = APL_NORMAL, bd_availableType = NORMAL, bd_provisionEnable = True,
        bd_distributedSceneEnable = False, bd_isKernelEffect = False, bd_hasValue = False,
        bd_isEnable = True, bd_provisionBypassForSideload = False\<rparr>
   in TransferPermissionToOpcode [d\<lparr>bd_permissionName := ''ohos.permission.NFC''\<rparr>, d]
        (TransferOpcodeToPermission [d\<lparr>bd_permissionName := ''ohos.permission.NFC''\<rparr>, d] 1) = Some 1"
proof -
  let ?d = "\<lparr>bd_permissionName = ''ohos.permission.CAMERA'', bd_grantMode = USER_GRANT,
        bd_availableLevel = APL_NORMAL, bd_availableType = NORMAL, bd_provisionEnable = True,
        bd_distributedSceneEnable = False, bd_isKernelEffect = False, bd_hasValue = False,
        bd_isEnable = True, bd_provisionBypassForSideload = False\<rparr>"
  have "perm_table_ok [?d\<lparr>bd_permissionName := ''ohos.permission.NFC''\<rparr>, ?d]"
    by (simp add: perm_table_ok_def)
  from permission_code_round_trip [OF this, of _ 1] show ?thesis
    by (simp add: TransferOpcodeToPermission_def)
qed

end
