(* ===== verification/Validators.thy ===== *)
theory Validators
  imports Token_Id Permission_Map "HOL-Library.Sublist"
begin

text \<open>
  The validity checks shared by the services: \<open>DataValidator\<close>
  (\<^verbatim>\<open>frameworks/common/src/data_validator.cpp\<close>), \<open>PermissionValidator\<close>
  (\<^verbatim>\<open>permission_validator.cpp\<close>) with its two filters, and the flag helpers and the device id
  mask of \<open>ConstantCommon\<close> (\<^verbatim>\<open>constant_common.cpp\<close>).
\<close>

unbundle bit_operations_syntax

section \<open>DataValidator\<close>

abbreviation MAX_LENGTH :: nat where "MAX_LENGTH \<equiv> 256"
abbreviation MAX_DEVICE_NAME_LENGTH :: nat where "MAX_DEVICE_NAME_LENGTH \<equiv> 100"
abbreviation MAX_APPIDDESC_LENGTH :: nat where "MAX_APPIDDESC_LENGTH \<equiv> 10240"
abbreviation MAX_ENHANCED_IDENTITY_LENGTH :: nat where "MAX_ENHANCED_IDENTITY_LENGTH \<equiv> 48"
abbreviation MAX_EXTENDED_MAP_SIZE :: nat where "MAX_EXTENDED_MAP_SIZE \<equiv> 512"
abbreviation MAX_VALUE_LENGTH :: nat where "MAX_VALUE_LENGTH \<equiv> 1024"
abbreviation MAX_LIST_SIZE :: nat where "MAX_LIST_SIZE \<equiv> 1024"
abbreviation MAX_FEATURE_SIZE :: nat where "MAX_FEATURE_SIZE \<equiv> 64"

definition IsBundleNameValid :: "string \<Rightarrow> bool" where
  "IsBundleNameValid bundleName \<longleftrightarrow> bundleName \<noteq> [] \<and> length bundleName \<le> MAX_LENGTH"

definition IsLabelValid :: "string \<Rightarrow> bool" where
  "IsLabelValid label \<longleftrightarrow> length label \<le> MAX_LENGTH"

definition IsDescValid :: "string \<Rightarrow> bool" where
  "IsDescValid desc \<longleftrightarrow> length desc \<le> MAX_LENGTH"

definition IsPermissionNameValid :: "string \<Rightarrow> bool" where
  "IsPermissionNameValid permissionName \<longleftrightarrow>
     \<not> (permissionName = [] \<or> length permissionName > MAX_LENGTH)"

definition IsUserIdValid :: "int \<Rightarrow> bool" where
  "IsUserIdValid userId \<longleftrightarrow> \<not> userId < 0"

definition IsAclExtendedMapSizeValid :: "(string, string) omap \<Rightarrow> bool" where
  "IsAclExtendedMapSizeValid aclExtendedMap \<longleftrightarrow> \<not> length aclExtendedMap > MAX_EXTENDED_MAP_SIZE"

definition IsAclExtendedMapContentValid :: "string \<Rightarrow> string \<Rightarrow> bool" where
  "IsAclExtendedMapContentValid permissionName value =
     (if \<not> IsPermissionNameValid permissionName then False
      else if value = [] \<or> length value > MAX_VALUE_LENGTH then False else True)"

definition IsAppProvisionTypeValid :: "string \<Rightarrow> bool" where
  "IsAppProvisionTypeValid appProvisionType \<longleftrightarrow>
     appProvisionType = ''release'' \<or> appProvisionType = ''debug''"

text \<open>\<open>PermissionRequestToggleStatus\<close>: \<open>CLOSED\<close> is 0 and \<open>OPEN\<close> is 1.\<close>

definition IsToggleStatusValid :: "u32 \<Rightarrow> bool" where
  "IsToggleStatusValid status \<longleftrightarrow> status = 0 \<or> status = 1"

definition IsAppIDDescValid :: "string \<Rightarrow> bool" where
  "IsAppIDDescValid appIDDesc \<longleftrightarrow> appIDDesc \<noteq> [] \<and> length appIDDesc \<le> MAX_APPIDDESC_LENGTH"

definition IsDomainValid :: "string \<Rightarrow> bool" where
  "IsDomainValid domain \<longleftrightarrow> domain \<noteq> [] \<and> length domain \<le> MAX_LENGTH"

definition IsAplNumValid :: "int \<Rightarrow> bool" where
  "IsAplNumValid apl \<longleftrightarrow>
     apl = apl_value APL_NORMAL \<or> apl = apl_value APL_SYSTEM_BASIC \<or> apl = apl_value APL_SYSTEM_CORE"

definition IsAvailableTypeValid :: "int \<Rightarrow> bool" where
  "IsAvailableTypeValid availableType \<longleftrightarrow>
     availableType = available_type_value NORMAL \<or> availableType = available_type_value MDM"

definition IsProcessNameValid :: "string \<Rightarrow> bool" where
  "IsProcessNameValid processName \<longleftrightarrow> processName \<noteq> [] \<and> length processName \<le> MAX_LENGTH"

definition IsDeviceIdValid :: "string \<Rightarrow> bool" where
  "IsDeviceIdValid deviceId \<longleftrightarrow> \<not> (deviceId = [] \<or> length deviceId > MAX_LENGTH)"

definition IsDeviceNameValid :: "string \<Rightarrow> bool" where
  "IsDeviceNameValid deviceName \<longleftrightarrow> \<not> (deviceName = [] \<or> length deviceName > MAX_DEVICE_NAME_LENGTH)"

definition IsDcapValid :: "string \<Rightarrow> bool" where
  "IsDcapValid dcap \<longleftrightarrow> dcap \<noteq> [] \<and> length dcap \<le> MAX_VALUE_LENGTH"

definition IsPermissionFlagValid :: "u32 \<Rightarrow> bool" where
  "IsPermissionFlagValid flag =
     (let additiveMask = PERMISSION_PRE_AUTHORIZED_CANCELABLE OR PERMISSION_COMPONENT_SET OR
            PERMISSION_RESTRICTED_BY_ADMIN;
          baseFlag = flag AND NOT additiveMask in
      baseFlag = PERMISSION_DEFAULT_FLAG \<or> baseFlag = PERMISSION_USER_SET \<or>
      baseFlag = PERMISSION_USER_FIXED \<or> baseFlag = PERMISSION_SYSTEM_FIXED \<or>
      baseFlag = PERMISSION_FIXED_FOR_SECURITY_POLICY \<or> baseFlag = PERMISSION_ALLOW_THIS_TIME \<or>
      baseFlag = PERMISSION_FIXED_BY_ADMIN_POLICY \<or> baseFlag = PERMISSION_ADMIN_POLICIES_CANCEL)"

definition IsPermissionFlagValidForAdmin :: "u32 \<Rightarrow> bool" where
  "IsPermissionFlagValidForAdmin flag \<longleftrightarrow>
     flag = PERMISSION_FIXED_BY_ADMIN_POLICY \<or> flag = PERMISSION_ADMIN_POLICIES_CANCEL"

definition IsAdminPermissionFlag :: "u32 \<Rightarrow> bool" where
  "IsAdminPermissionFlag flag \<longleftrightarrow>
     flag AND (PERMISSION_FIXED_BY_ADMIN_POLICY OR PERMISSION_ADMIN_POLICIES_CANCEL) \<noteq> 0"

definition IsPermissionStatusValid :: "int \<Rightarrow> bool" where
  "IsPermissionStatusValid status \<longleftrightarrow> status = PERMISSION_GRANTED \<or> status = PERMISSION_DENIED"

definition IsTokenIDValid :: "token_id \<Rightarrow> bool" where
  "IsTokenIDValid i \<longleftrightarrow> \<not> i = 0"

definition IsDlpTypeValid :: "int \<Rightarrow> bool" where
  "IsDlpTypeValid dlpType \<longleftrightarrow> dlpType = 0 \<or> dlpType = 1 \<or> dlpType = 2 \<or> dlpType = 3 \<or> dlpType = 4"

definition IsPermissionUsedFlagValid :: "u32 \<Rightarrow> bool" where
  "IsPermissionUsedFlagValid flag \<longleftrightarrow>
     flag = 0 \<or> flag = 1 \<or> flag = 2 \<or> flag = 3 \<or> flag = 4 \<or> flag = 5 \<or> flag = 6"

definition IsPermissionUsedTypeValid :: "u32 \<Rightarrow> bool" where
  "IsPermissionUsedTypeValid type \<longleftrightarrow> \<not> (type \<noteq> 0 \<and> type \<noteq> 1 \<and> type \<noteq> 2)"

definition IsEnhancedIdentityValid :: "string \<Rightarrow> bool" where
  "IsEnhancedIdentityValid enhancedIdentity \<longleftrightarrow>
     \<not> length enhancedIdentity > MAX_ENHANCED_IDENTITY_LENGTH"

definition IsUpdateWhiteListTypeValid :: "int \<Rightarrow> bool" where
  "IsUpdateWhiteListTypeValid type \<longleftrightarrow> \<not> (type \<noteq> 0 \<and> type \<noteq> 1)"

definition IsRemotePermissionUsedFlagValid :: "u32 \<Rightarrow> bool" where
  "IsRemotePermissionUsedFlagValid flag \<longleftrightarrow> flag = 0 \<or> flag = 1"

definition IsPolicyTypeValid :: "u32 \<Rightarrow> bool" where
  "IsPolicyTypeValid type \<longleftrightarrow> \<not> (type \<noteq> 0 \<and> type \<noteq> 1 \<and> type \<noteq> 2)"

definition IsCallerTypeValid :: "u32 \<Rightarrow> bool" where
  "IsCallerTypeValid type \<longleftrightarrow> \<not> (type \<noteq> 0 \<and> type \<noteq> 1)"

definition IsNativeCaller :: "token_id \<Rightarrow> bool" where
  "IsNativeCaller i \<longleftrightarrow> token_type_of (id_type (of_token_id i)) = TOKEN_NATIVE"

definition IsHapCaller :: "token_id \<Rightarrow> bool" where
  "IsHapCaller i \<longleftrightarrow> token_type_of (id_type (of_token_id i)) = TOKEN_HAP"

definition IsListSizeValid :: "nat \<Rightarrow> bool" where
  "IsListSizeValid n \<longleftrightarrow> \<not> (n = 0 \<or> n > MAX_LIST_SIZE)"

definition IsPermFeatureValid :: "string \<Rightarrow> bool" where
  "IsPermFeatureValid feature \<longleftrightarrow> \<not> length feature > MAX_FEATURE_SIZE"

section \<open>PermissionValidator\<close>

record PermissionStatus =
  ps_tokenID :: token_id
  ps_permissionName :: string
  ps_feature :: string
  ps_grantStatus :: int
  ps_grantFlag :: u32
  ps_timestamp :: u64

definition IsGrantModeValid :: "int \<Rightarrow> bool" where
  "IsGrantModeValid grantMode \<longleftrightarrow>
     grantMode = grant_mode_value SYSTEM_GRANT \<or> grantMode = grant_mode_value USER_GRANT \<or>
     grantMode = grant_mode_value MANUAL_SETTINGS"

definition IsGrantStatusValid :: "int \<Rightarrow> bool" where
  "IsGrantStatusValid grantStatus \<longleftrightarrow> grantStatus = PERMISSION_GRANTED \<or> grantStatus = PERMISSION_DENIED"

definition IsPermissionDefValid :: "PermissionDef \<Rightarrow> bool" where
  "IsPermissionDefValid permDef =
     (if \<not> IsLabelValid (pd_label permDef) then False
      else if \<not> IsDescValid (pd_description permDef) then False
      else if \<not> IsBundleNameValid (pd_bundleName permDef) then False
      else if \<not> IsPermissionNameValid (pd_permissionName permDef) then False
      else if \<not> IsGrantModeValid (pd_grantMode permDef) then False
      else if \<not> IsAvailableTypeValid (pd_availableType permDef) then False
      else if \<not> IsAplNumValid (pd_availableLevel permDef) then False
      else True)"

definition IsPermissionAvailable :: "perm_table \<Rightarrow> ATokenTypeEnum \<Rightarrow> string \<Rightarrow> bool" where
  "IsPermissionAvailable tbl tokenType permissionName =
     (if tokenType = TOKEN_HAP \<and> \<not> IsPermissionValidForHap tbl permissionName then False else True)"

definition IsPermissionStateValid :: "PermissionStatus \<Rightarrow> bool" where
  "IsPermissionStateValid permState =
     (if \<not> IsPermissionNameValid (ps_permissionName permState) then False
      else if \<not> IsGrantStatusValid (ps_grantStatus permState) \<or>
              \<not> IsPermissionFlagValid (ps_grantFlag permState) then False
      else True)"

text \<open>The loops of the two filters; \<open>seen\<close> is the local set of names.\<close>

fun filter_def_loop :: "PermissionDef list \<Rightarrow> string set \<Rightarrow> PermissionDef list \<Rightarrow> PermissionDef list" where
  "filter_def_loop [] seen result = result"
| "filter_def_loop (it # permList) seen result =
     (if \<not> IsPermissionDefValid it \<or> pd_permissionName it \<in> seen
      then filter_def_loop permList seen result
      else filter_def_loop permList (insert (pd_permissionName it) seen) (result @ [it]))"

definition FilterInvalidPermissionDef ::
    "PermissionDef list \<Rightarrow> PermissionDef list \<Rightarrow> PermissionDef list" where
  "FilterInvalidPermissionDef permList result = filter_def_loop permList {} result"

fun filter_state_loop ::
    "perm_table \<Rightarrow> ATokenTypeEnum \<Rightarrow> bool \<Rightarrow> PermissionStatus list \<Rightarrow> string set \<Rightarrow>
      PermissionStatus list \<Rightarrow> PermissionStatus list" where
  "filter_state_loop tbl tokenType chk [] seen result = result"
| "filter_state_loop tbl tokenType chk (it # permList) seen result =
     (if \<not> IsPermissionStateValid it \<or> ps_permissionName it \<in> seen
      then filter_state_loop tbl tokenType chk permList seen result
      else if chk \<and> \<not> IsPermissionAvailable tbl tokenType (ps_permissionName it)
      then filter_state_loop tbl tokenType chk permList seen result
      else filter_state_loop tbl tokenType chk permList (insert (ps_permissionName it) seen) (result @ [it]))"

definition FilterInvalidPermissionState ::
    "perm_table \<Rightarrow> ATokenTypeEnum \<Rightarrow> bool \<Rightarrow> PermissionStatus list \<Rightarrow> PermissionStatus list \<Rightarrow>
      PermissionStatus list" where
  "FilterInvalidPermissionState tbl tokenType doPermAvailableCheck permList result =
     filter_state_loop tbl tokenType doPermAvailableCheck permList {} result"

section \<open>ConstantCommon\<close>

text \<open>\<open>std::string::replace(pos, len, s)\<close>.\<close>

definition string_replace :: "string \<Rightarrow> nat \<Rightarrow> nat \<Rightarrow> string \<Rightarrow> string" where
  "string_replace str pos len s = take pos str @ s @ drop (pos + len) str"

definition EncryptDevId :: "string \<Rightarrow> string" where
  "EncryptDevId deviceId =
     (if deviceId = [] then deviceId
      else if length deviceId > 8
      then string_replace deviceId (0 + 4) (length deviceId - 8) ''****''
      else string_replace deviceId (0 + 1) (length deviceId - 1) ''*******'')"

definition IsPermOperatedByUser :: "int \<Rightarrow> bool" where
  "IsPermOperatedByUser flag =
     (let uFlag = word_of_int flag in
      uFlag AND PERMISSION_USER_FIXED \<noteq> 0 \<or> uFlag AND PERMISSION_USER_SET \<noteq> 0)"

definition IsPermOperatedBySystem :: "int \<Rightarrow> bool" where
  "IsPermOperatedBySystem flag =
     (let uFlag = word_of_int flag in
      uFlag AND PERMISSION_SYSTEM_FIXED \<noteq> 0 \<or> uFlag AND PERMISSION_PRE_AUTHORIZED_CANCELABLE \<noteq> 0)"

definition IsPermGrantedBySecComp :: "int \<Rightarrow> bool" where
  "IsPermGrantedBySecComp flag = (let uFlag = word_of_int flag in uFlag AND PERMISSION_COMPONENT_SET \<noteq> 0)"

definition GetFlagWithoutSpecifiedElement :: "u32 \<Rightarrow> u32 \<Rightarrow> u32" where
  "GetFlagWithoutSpecifiedElement fullFlag removedFlag = fullFlag AND NOT removedFlag"

section \<open>Lemmas\<close>

definition state_accepted :: "perm_table \<Rightarrow> ATokenTypeEnum \<Rightarrow> bool \<Rightarrow> PermissionStatus \<Rightarrow> bool" where
  "state_accepted tbl tokenType chk s \<longleftrightarrow>
     IsPermissionStateValid s \<and> (chk \<longrightarrow> IsPermissionAvailable tbl tokenType (ps_permissionName s))"

text \<open>Keep the first element of each key.\<close>

fun first_by :: "('a \<Rightarrow> 'k) \<Rightarrow> 'a list \<Rightarrow> 'k set \<Rightarrow> 'a list" where
  "first_by k [] seen = []"
| "first_by k (x # xs) seen =
     (if k x \<in> seen then first_by k xs seen else x # first_by k xs (insert (k x) seen))"

lemma filter_state_loop_eq:
  "filter_state_loop tbl ty chk xs seen acc =
     acc @ first_by ps_permissionName (filter (state_accepted tbl ty chk) xs) seen"
  by (induction tbl ty chk xs seen acc rule: filter_state_loop.induct) (auto simp: state_accepted_def)

lemma filter_def_loop_eq:
  "filter_def_loop xs seen acc = acc @ first_by pd_permissionName (filter IsPermissionDefValid xs) seen"
  by (induction xs seen acc rule: filter_def_loop.induct) auto

lemma first_by_props:
  "distinct (map k (first_by k xs seen))" "k ` set (first_by k xs seen) = k ` set xs - seen"
  "subseq (first_by k xs seen) xs"
  by (induction k xs seen rule: first_by.induct) auto

lemma word_eq_bit_set: "(v :: u32) = w \<longleftrightarrow> {n. bit v n} = {n. bit w n}"
proof
  assume "{n. bit v n} = {n. bit w n}"
  then show "v = w" by (intro bit_word_eqI) (simp add: set_eq_iff)
qed simp

lemma bit_set_exp: "k < 32 \<Longrightarrow> {n. bit (2 ^ k :: u32) n} = {k}"
  by (auto simp: bit_exp_iff)

lemma bits_of_flag:
  "{n. bit (1::u32) n} = {0}" "{n. bit (2::u32) n} = {1}" "{n. bit (4::u32) n} = {2}"
  "{n. bit (8::u32) n} = {3}" "{n. bit (16::u32) n} = {4}" "{n. bit (32::u32) n} = {5}"
  "{n. bit (64::u32) n} = {6}" "{n. bit (128::u32) n} = {7}" "{n. bit (256::u32) n} = {8}"
  "{n. bit (512::u32) n} = {9}" "{n. bit (0::u32) n} = {}"
  using bit_set_exp [of 0] bit_set_exp [of 1] bit_set_exp [of 2] bit_set_exp [of 3] bit_set_exp [of 4]
    bit_set_exp [of 5] bit_set_exp [of 6] bit_set_exp [of 7] bit_set_exp [of 8] bit_set_exp [of 9]
  by simp_all

lemma bit_set_ops:
  "{n. bit (v OR w :: u32) n} = {n. bit v n} \<union> {n. bit w n}"
  "{n. bit (v AND NOT w :: u32) n} = {n. bit v n} - {n. bit w n}"
  by (auto simp: bit_or_iff bit_and_iff bit_not_iff dest: bit_imp_le_length)

lemma small_subset:
  "finite S \<Longrightarrow> S \<subseteq> A \<and> card S \<le> 1 \<longleftrightarrow> S = {} \<or> (\<exists>k \<in> A. S = {k})"
  by (auto simp: le_Suc_eq card_1_singleton_iff)

lemma finite_bits: "finite {n. bit (w :: u32) n}"
  by (rule finite_subset [of _ "{..<32}"]) (auto dest: bit_imp_le_length)

section \<open>Properties\<close>

text \<open>C36. Which flags are valid: no bit beyond the ten defined ones, and besides the three additive
  flags (pre-authorised, component-set, restricted by admin) at most one of the exclusive ones.\<close>

theorem valid_flag_has_one_exclusive_bit:
  "IsPermissionFlagValid f \<longleftrightarrow>
     {n. bit f n} \<subseteq> {..<10} \<and> card ({n. bit f n} \<inter> {0, 1, 2, 5, 6, 7, 8}) \<le> 1"
proof -
  let ?S = "{n. bit f n} - {3, 4, 9}" and ?A = "{0, 1, 2, 5, 6, 7, 8 :: nat}"
  have base: "{n. bit (f AND NOT (8 OR (16 OR 512))) n} = ?S"
    by (simp only: bit_set_ops bits_of_flag insert_is_Un [symmetric])
  have "IsPermissionFlagValid f \<longleftrightarrow> ?S = {} \<or> (\<exists>k \<in> ?A. ?S = {k})"
    unfolding IsPermissionFlagValid_def Let_def word_eq_bit_set base bits_of_flag by simp
  also have "\<dots> \<longleftrightarrow> ?S \<subseteq> ?A \<and> card ?S \<le> 1"
    by (rule small_subset [symmetric]) (simp add: finite_bits)
  also have "\<dots> \<longleftrightarrow> {n. bit f n} \<subseteq> {..<10} \<and> card ({n. bit f n} \<inter> ?A) \<le> 1"
  proof -
    have *: "?S \<subseteq> ?A \<longleftrightarrow> {n. bit f n} \<subseteq> {..<10}"
    proof -
      have "{..<10} = ?A \<union> {3, 4, 9}" by (auto simp: lessThan_Suc numeral_eq_Suc)
      then show ?thesis by auto
    qed
    moreover have "?S \<subseteq> ?A \<Longrightarrow> {n. bit f n} \<inter> ?A = ?S" by auto
    ultimately show ?thesis by metis
  qed
  finally show ?thesis .
qed

text \<open>The permission state filter keeps, in order, exactly the first acceptable entry of every
  name: the result is a subsequence of the input in which every entry is valid (and available, when
  that is checked), no name occurs twice, and every name with an acceptable entry occurs.\<close>

theorem filter_permission_state:
  "let res = FilterInvalidPermissionState tbl ty chk xs [] in
    subseq res xs \<and> set res \<subseteq> Collect (state_accepted tbl ty chk) \<and> distinct (map ps_permissionName res) \<and>
    ps_permissionName ` set res = ps_permissionName ` (set xs \<inter> Collect (state_accepted tbl ty chk))"
proof -
  let ?ok = "filter (state_accepted tbl ty chk) xs"
  have acc: "set ?ok = set xs \<inter> Collect (state_accepted tbl ty chk)" by auto
  note f = first_by_props [where k = ps_permissionName and xs = ?ok and seen = "{}"]
  have "subseq (first_by ps_permissionName ?ok {}) xs"
    by (rule subseq_order.order_trans [OF f(3) subseq_filter_left])
  moreover have "set (first_by ps_permissionName ?ok {}) \<subseteq> set ?ok"
    using f(3) by (auto elim!: list_emb_set)
  ultimately show ?thesis
    using f(1,2) acc by (simp add: FilterInvalidPermissionState_def filter_state_loop_eq)
qed

end
