(* ===== verification/Data_Translator.thy ===== *)
theory Data_Translator
  imports Validators Token_Db
begin

text \<open>
  \<open>DataTranslator\<close> (\<^verbatim>\<open>services/accesstokenmanager/main/cpp/src/database/data_translator.cpp\<close>):
  permission definitions and permission states to and from database rows, with the validation of
  what is read back.
\<close>

unbundle bit_operations_syntax

section \<open>Translations\<close>

definition of_bool_int :: "bool \<Rightarrow> int" where
  "of_bool_int b = (if b then 1 else 0)"

definition PermissionDefIntoGenericValues :: "PermissionDef \<Rightarrow> GenericValues \<Rightarrow> ret \<times> GenericValues" where
  "PermissionDefIntoGenericValues d out =
     (RET_SUCCESS,
      (PutInt FIELD_HAS_VALUE (of_bool_int (pd_hasValue d)) \<circ>
       PutInt FIELD_KERNEL_EFFECT (of_bool_int (pd_isKernelEffect d)) \<circ>
       PutInt FIELD_AVAILABLE_TYPE (pd_availableType d) \<circ>
       PutInt FIELD_DESCRIPTION_ID (pd_descriptionId d) \<circ>
       PutString FIELD_DESCRIPTION (pd_description d) \<circ>
       PutInt FIELD_LABEL_ID (pd_labelId d) \<circ>
       PutString FIELD_LABEL (pd_label d) \<circ>
       PutInt FIELD_DISTRIBUTED_SCENE_ENABLE (of_bool_int (pd_distributedSceneEnable d)) \<circ>
       PutInt FIELD_PROVISION_ENABLE (of_bool_int (pd_provisionEnable d)) \<circ>
       PutInt FIELD_AVAILABLE_LEVEL (pd_availableLevel d) \<circ>
       PutInt FIELD_GRANT_MODE (pd_grantMode d) \<circ>
       PutString FIELD_BUNDLE_NAME (pd_bundleName d) \<circ>
       PutString FIELD_PERMISSION_NAME (pd_permissionName d)) out)"

definition TranslationIntoPermissionDef :: "GenericValues \<Rightarrow> PermissionDef \<Rightarrow> ret \<times> PermissionDef" where
  "TranslationIntoPermissionDef v out =
     (let out1 = out\<lparr>pd_permissionName := GetString v FIELD_PERMISSION_NAME,
                     pd_bundleName := GetString v FIELD_BUNDLE_NAME,
                     pd_grantMode := GetInt v FIELD_GRANT_MODE\<rparr>;
          aplNum = GetInt v FIELD_AVAILABLE_LEVEL in
      if \<not> IsAplNumValid aplNum then (ERR_PARAM_INVALID, out1)
      else (RET_SUCCESS,
        out1\<lparr>pd_availableLevel := aplNum,
             pd_provisionEnable := GetInt v FIELD_PROVISION_ENABLE = 1,
             pd_distributedSceneEnable := GetInt v FIELD_DISTRIBUTED_SCENE_ENABLE = 1,
             pd_label := GetString v FIELD_LABEL,
             pd_labelId := GetInt v FIELD_LABEL_ID,
             pd_description := GetString v FIELD_DESCRIPTION,
             pd_descriptionId := GetInt v FIELD_DESCRIPTION_ID,
             pd_availableType := GetInt v FIELD_AVAILABLE_TYPE,
             pd_isKernelEffect := GetInt v FIELD_KERNEL_EFFECT = 1,
             pd_hasValue := GetInt v FIELD_HAS_VALUE = 1\<rparr>))"

definition PermissionStatusIntoGenericValues ::
    "PermissionStatus \<Rightarrow> GenericValues \<Rightarrow> ret \<times> GenericValues" where
  "PermissionStatusIntoGenericValues s out =
     (RET_SUCCESS,
      (PutInt64 FIELD_TIMESTAMP (sint (ps_timestamp s)) \<circ>
       PutInt FIELD_GRANT_FLAG (sint (ps_grantFlag s)) \<circ>
       PutInt FIELD_GRANT_STATE (ps_grantStatus s) \<circ>
       PutInt FIELD_GRANT_IS_GENERAL 1 \<circ>
       PutString FIELD_DEVICE_ID ''PHONE-001'' \<circ>
       PutString FIELD_PERMISSION_NAME (ps_permissionName s)) out)"

definition TranslationIntoPermissionStatus ::
    "GenericValues \<Rightarrow> PermissionStatus \<Rightarrow> ret \<times> PermissionStatus" where
  "TranslationIntoPermissionStatus v out =
     (let out1 = out\<lparr>ps_permissionName := GetString v FIELD_PERMISSION_NAME\<rparr> in
      if \<not> IsPermissionNameValid (ps_permissionName out1) then (ERR_PARAM_INVALID, out1)
      else
        (let grantFlag = GetInt v FIELD_GRANT_FLAG in
         if \<not> IsPermissionFlagValid (word_of_int grantFlag) then (ERR_PARAM_INVALID, out1)
         else
           (let out2 = out1\<lparr>ps_grantFlag := word_of_int grantFlag\<rparr>;
                grantStatus = GetInt v FIELD_GRANT_STATE in
            if \<not> IsGrantStatusValid grantStatus then (ERR_PARAM_INVALID, out2)
            else
              (let grantStatus' =
                 (if (word_of_int grantFlag :: u32) AND PERMISSION_ALLOW_THIS_TIME \<noteq> 0
                  then PERMISSION_DENIED else grantStatus) in
               (RET_SUCCESS,
                out2\<lparr>ps_grantStatus := grantStatus',
                     ps_timestamp := word_of_int (GetInt64 v FIELD_TIMESTAMP)\<rparr>)))))"

text \<open>\<open>PermissionWithValue\<close> as the pair of its fields.\<close>

definition TranslationIntoExtendedPermission ::
    "GenericValues \<Rightarrow> string \<times> string \<Rightarrow> ret \<times> string \<times> string" where
  "TranslationIntoExtendedPermission v perm =
     (let name = GetString v FIELD_PERMISSION_NAME in
      if \<not> IsPermissionNameValid name then (ERR_PARAM_INVALID, (name, snd perm))
      else (RET_SUCCESS, (name, GetString v FIELD_VALUE)))"

section \<open>Lemmas\<close>

definition row_ok :: "GenericValues \<Rightarrow> bool" where
  "row_ok m \<longleftrightarrow> omap_ok m \<and> (\<forall>(c, v) \<in> set m. well_typed_cell c v)"

lemma set_omap_insert: "set (omap_insert k v m) \<subseteq> insert (k, v) (set m)"
  by (induction k v m rule: omap_insert.induct) auto

lemma row_ok_Put: "row_ok m \<Longrightarrow> well_typed_cell k v \<Longrightarrow> row_ok (Put k v m)"
  using set_omap_insert [of k v m]
  by (auto simp: row_ok_def omap_ok_Put Put_def omap_emplace_def split: option.split)

lemma row_ok_Nil [simp]: "row_ok []"
  by (simp add: row_ok_def)

lemma row_ok_omap: "row_ok m \<Longrightarrow> omap_ok m"
  by (simp add: row_ok_def)

lemma map_of_Put_row:
  "row_ok m \<Longrightarrow> map_of (Put k v m) k' = (if k = k' \<and> map_of m k = None then Some v else map_of m k')"
  by (auto simp: map_of_Put row_ok_omap)

lemma sint_cell: "i32 (sint (w :: u32)) = sint w"
  by (simp add: i32_def)

lemma i32_small: "- (2 ^ 31) \<le> x \<Longrightarrow> x < 2 ^ 31 \<Longrightarrow> i32 x = x"
  by (rule i32_id)

lemmas column_types = well_typed_cell_def IsColumnStringType_def g_StringTypeColumns_def

section \<open>Properties\<close>

text \<open>C35. A permission state survives a restart: writing a valid state to a database row, storing and
  reading the row, and translating it back succeeds and gives the same name, flag and timestamp, and
  the same grant status, except that a permission granted for this time only comes back denied.\<close>

theorem permission_status_round_trip:
  assumes "IsPermissionStateValid s"
  shows "TranslationIntoPermissionStatus (reload (snd (PermissionStatusIntoGenericValues s []))) out =
    (RET_SUCCESS,
     out\<lparr>ps_permissionName := ps_permissionName s, ps_grantFlag := ps_grantFlag s,
         ps_grantStatus := (if bit (ps_grantFlag s) 6 then PERMISSION_DENIED else ps_grantStatus s),
         ps_timestamp := ps_timestamp s\<rparr>)"
proof -
  let ?m = "snd (PermissionStatusIntoGenericValues s [])"
  have st: "i32 (ps_grantStatus s) = ps_grantStatus s"
    using assms by (auto simp: IsPermissionStateValid_def IsGrantStatusValid_def split: if_splits)
  note row = row_ok_Put row_ok_Nil column_types st sint_cell
  have ok: "row_ok ?m"
    by (simp add: PermissionStatusIntoGenericValues_def puts_as_Put row)
  note get = reload_gets [OF row_ok_omap [OF ok]] 
  have look: "map_of ?m FIELD_PERMISSION_NAME = Some (TYPE_STRING (ps_permissionName s))"
    "map_of ?m FIELD_GRANT_FLAG = Some (TYPE_INT (sint (ps_grantFlag s)))"
    "map_of ?m FIELD_GRANT_STATE = Some (TYPE_INT (ps_grantStatus s))"
    "map_of ?m FIELD_TIMESTAMP = Some (TYPE_INT64 (sint (ps_timestamp s)))"
    by (simp_all add: PermissionStatusIntoGenericValues_def puts_as_Put map_of_Put_row row)
  have vals: "GetString (reload ?m) FIELD_PERMISSION_NAME = ps_permissionName s"
    "GetInt (reload ?m) FIELD_GRANT_FLAG = sint (ps_grantFlag s)"
    "GetInt (reload ?m) FIELD_GRANT_STATE = ps_grantStatus s"
    "GetInt64 (reload ?m) FIELD_TIMESTAMP = sint (ps_timestamp s)"
    using ok get look by (simp_all add: row_ok_def typed_gets Get_def)
  have "IsPermissionNameValid (ps_permissionName s)" "IsGrantStatusValid (ps_grantStatus s)"
    "IsPermissionFlagValid (ps_grantFlag s)"
    using assms by (auto simp: IsPermissionStateValid_def split: if_splits)
  then show ?thesis
    by (simp add: TranslationIntoPermissionStatus_def vals Let_def flag_simps)
qed

theorem permission_status_round_trip_witness:
  "snd (TranslationIntoPermissionStatus (reload (snd (PermissionStatusIntoGenericValues
      \<lparr>ps_tokenID = 7, ps_permissionName = ''ohos.permission.CAMERA'', ps_feature = [], ps_grantStatus = 0,
       ps_grantFlag = 64, ps_timestamp = 99\<rparr> [])))
      \<lparr>ps_tokenID = 7, ps_permissionName = [], ps_feature = [], ps_grantStatus = 0, ps_grantFlag = 0,
       ps_timestamp = 0\<rparr>) =
   \<lparr>ps_tokenID = 7, ps_permissionName = ''ohos.permission.CAMERA'', ps_feature = [],
    ps_grantStatus = PERMISSION_DENIED, ps_grantFlag = 64, ps_timestamp = 99\<rparr>"
  using permission_status_round_trip
    [of "\<lparr>ps_tokenID = 7, ps_permissionName = ''ohos.permission.CAMERA'', ps_feature = [], ps_grantStatus = 0,
       ps_grantFlag = 64, ps_timestamp = 99\<rparr>"]
  by (simp add: IsPermissionStateValid_def IsPermissionNameValid_def IsGrantStatusValid_def
      IsPermissionFlagValid_def)

end
