(* ===== verification/Permission_Data_Brief.thy ===== *)
theory Permission_Data_Brief
  imports Data_Translator
begin

text \<open>
  \<open>PermissionDataBrief\<close> (\<^verbatim>\<open>permission_data_brief.cpp\<close>): the compact store of permission states.
  For every token it holds the list of requested permissions (\<open>requestedPermData_\<close>), for
  permissions that carry a value the value under the 64-bit key of token id and code
  (\<open>extendedValue_\<close>), and the permissions granted through security components
  (\<open>secCompList_\<close>). Each public operation holds the lock for its whole state change, so it is one
  step here. The table of permissions is the argument \<open>tbl\<close>; the clock is the argument \<open>now\<close>, one
  reading per operation.
\<close>

unbundle bit_operations_syntax

section \<open>State\<close>

text \<open>The status of an entry is an \<open>int8_t\<close> that only ever receives -1 and 0; the \<open>reserved\<close> field of
  \<open>BriefSecCompData\<close> is padding and left out.\<close>

record BriefPermData =
  bp_status :: int
  bp_type :: u8
  bp_permCode :: u16
  bp_flag :: u32

record BriefSecCompData =
  sc_permCode :: u16
  sc_tokenId :: token_id

datatype PermissionStatusChangeType = NO_CHANGE | STATUS_ONLY | FLAG_ONLY | STATUS_AND_FLAG

datatype PermUsedTypeEnum =
  INVALID_USED_TYPE | NORMAL_TYPE | PICKER_TYPE | SEC_COMPONENT_TYPE | PERM_USED_TYPE_BUTT

text \<open>\<open>PermissionWithValue\<close>: the permission name and its value.\<close>

type_synonym PermissionWithValue = "string \<times> string"

record PermissionDataBrief =
  requestedPermData :: "(token_id, BriefPermData list) omap"
  extendedValue :: "(u64, string) omap"
  secCompList :: "BriefSecCompData list"

definition init_brief :: PermissionDataBrief where
  "init_brief = \<lparr>requestedPermData = [], extendedValue = [], secCompList = []\<rparr>"

abbreviation IS_KERNEL_EFFECT :: u8 where "IS_KERNEL_EFFECT \<equiv> 1"
abbreviation HAS_VALUE :: u8 where "HAS_VALUE \<equiv> 2"

text \<open>The key \<open>(tokenID << 32) | permCode\<close> and the two reads of it.\<close>

definition ext_key :: "token_id \<Rightarrow> u32 \<Rightarrow> u64" where
  "ext_key tokenID code = push_bit 32 (ucast tokenID) OR ucast code"

definition key_token :: "u64 \<Rightarrow> token_id" where "key_token key = ucast (drop_bit 32 key)"
definition key_code :: "u64 \<Rightarrow> u32" where "key_code key = ucast (key AND 0xFFFFFFFF)"

definition code_is :: "u32 \<Rightarrow> BriefPermData \<Rightarrow> bool" where
  "code_is code d \<longleftrightarrow> ucast (bp_permCode d) = code"

definition sec_comp_is :: "token_id \<Rightarrow> u32 \<Rightarrow> BriefSecCompData \<Rightarrow> bool" where
  "sec_comp_is tokenID code d \<longleftrightarrow> sc_tokenId d = tokenID \<and> ucast (sc_permCode d) = code"

section \<open>Queries\<close>

definition GetPermissionTimestampFromStateValue :: "GenericValues \<Rightarrow> u64" where
  "GetPermissionTimestampFromStateValue stateValue =
     (let timestamp = GetInt64 stateValue FIELD_TIMESTAMP in
      if timestamp \<le> 0 then 0 else word_of_int timestamp)"

definition BuildPermissionStateKey :: "GenericValues \<Rightarrow> string" where
  "BuildPermissionStateKey stateValue =
     GetString stateValue FIELD_PERMISSION_NAME @ ''#'' @ GetString stateValue FIELD_DEVICE_ID"

definition GetEffectivePermissionStatus :: "BriefPermData \<Rightarrow> int" where
  "GetEffectivePermissionStatus permData =
     (if bp_flag permData AND PERMISSION_RESTRICTED_BY_ADMIN \<noteq> 0 then PERMISSION_DENIED
      else if IsPermGrantedBySecComp (uint (bp_flag permData)) then PERMISSION_GRANTED
      else bp_status permData)"

definition GetBriefPermDataByTokenIdInner ::
    "PermissionDataBrief \<Rightarrow> token_id \<Rightarrow> BriefPermData list \<Rightarrow> ret \<times> BriefPermData list" where
  "GetBriefPermDataByTokenIdInner st tokenID l =
     (case map_of (requestedPermData st) tokenID of
        None \<Rightarrow> (ERR_TOKEN_INVALID, l) | Some ds \<Rightarrow> (RET_SUCCESS, l @ ds))"

definition GetBriefPermDataByTokenId ::
    "PermissionDataBrief \<Rightarrow> token_id \<Rightarrow> BriefPermData list \<Rightarrow> ret \<times> BriefPermData list" where
  "GetBriefPermDataByTokenId st tokenID l = GetBriefPermDataByTokenIdInner st tokenID l"

definition GetExtendedValueListInner ::
    "perm_table \<Rightarrow> PermissionDataBrief \<Rightarrow> token_id \<Rightarrow> PermissionWithValue list \<Rightarrow> PermissionWithValue list" where
  "GetExtendedValueListInner tbl st tokenId l =
     l @ map (\<lambda>(key, v). (TransferOpcodeToPermission tbl (key_code key), v))
           (filter (\<lambda>(key, v). key_token key = tokenId) (extendedValue st))"

definition GetExtendedValueList ::
    "perm_table \<Rightarrow> PermissionDataBrief \<Rightarrow> token_id \<Rightarrow> PermissionWithValue list \<Rightarrow> PermissionWithValue list" where
  "GetExtendedValueList tbl st tokenId l = GetExtendedValueListInner tbl st tokenId l"

text \<open>The loop of \<open>GetKernelPermissions\<close>.\<close>

fun kernel_perms_loop ::
    "perm_table \<Rightarrow> PermissionDataBrief \<Rightarrow> token_id \<Rightarrow> BriefPermData list \<Rightarrow> PermissionWithValue list \<Rightarrow>
      ret \<times> PermissionWithValue list" where
  "kernel_perms_loop tbl st tokenId [] acc = (RET_SUCCESS, acc)"
| "kernel_perms_loop tbl st tokenId (d # ds) acc =
     (if bp_type d AND IS_KERNEL_EFFECT \<noteq> IS_KERNEL_EFFECT
      then kernel_perms_loop tbl st tokenId ds acc
      else
        (let permissionName = TransferOpcodeToPermission tbl (ucast (bp_permCode d)) in
         if bp_type d AND HAS_VALUE = HAS_VALUE
         then
           (case map_of (extendedValue st) (ext_key tokenId (ucast (bp_permCode d))) of
              None \<Rightarrow> (ERR_PERMISSION_WITHOUT_VALUE, acc)
            | Some v \<Rightarrow>
                kernel_perms_loop tbl st tokenId ds
                  (acc @ [(permissionName, if v = [] then ''true'' else v)]))
         else kernel_perms_loop tbl st tokenId ds (acc @ [(permissionName, ''true'')])))"

definition GetKernelPermissions ::
    "perm_table \<Rightarrow> PermissionDataBrief \<Rightarrow> token_id \<Rightarrow> PermissionWithValue list \<Rightarrow>
      ret \<times> PermissionWithValue list" where
  "GetKernelPermissions tbl st tokenId acc =
     (let (ret, l) = GetBriefPermDataByTokenIdInner st tokenId [] in
      if ret \<noteq> RET_SUCCESS then (ret, acc) else kernel_perms_loop tbl st tokenId l acc)"

definition GetReqPermissionByName ::
    "perm_table \<Rightarrow> PermissionDataBrief \<Rightarrow> token_id \<Rightarrow> string \<Rightarrow> bool \<Rightarrow> ret \<times> string option" where
  "GetReqPermissionByName tbl st tokenId permissionName tokenIdCheck =
     (if tokenIdCheck \<and> map_of (requestedPermData st) tokenId = None then (ERR_TOKEN_INVALID, None)
      else if \<not> IsDefinedPermissionInner tbl permissionName then (ERR_PERMISSION_NOT_EXIST, None)
      else (case TransferPermissionToOpcode tbl permissionName of
              None \<Rightarrow> (ERR_PERMISSION_NOT_EXIST, None)
            | Some code \<Rightarrow>
                (case map_of (extendedValue st) (ext_key tokenId code) of
                   None \<Rightarrow> (ERR_PERMISSION_WITHOUT_VALUE, None)
                 | Some v \<Rightarrow> (RET_SUCCESS, Some v))))"

text \<open>The fields that \<open>GetPermissionStatus\<close> leaves at the class's initial values are zero or empty.\<close>

definition GetPermissionStatus :: "perm_table \<Rightarrow> int \<Rightarrow> BriefPermData \<Rightarrow> PermissionStatus" where
  "GetPermissionStatus tbl now d =
     \<lparr>ps_tokenID = 0, ps_permissionName = TransferOpcodeToPermission tbl (ucast (bp_permCode d)),
      ps_feature = [], ps_grantStatus = bp_status d, ps_grantFlag = bp_flag d,
      ps_timestamp = word_of_int now\<rparr>"

definition VerifyPermissionStatusByCode :: "PermissionDataBrief \<Rightarrow> token_id \<Rightarrow> u32 \<Rightarrow> int" where
  "VerifyPermissionStatusByCode st tokenID code =
     (case map_of (requestedPermData st) tokenID of
        None \<Rightarrow> PERMISSION_DENIED
      | Some ds \<Rightarrow>
          (case find (code_is code) ds of
             Some d \<Rightarrow> GetEffectivePermissionStatus d
           | None \<Rightarrow>
               if \<exists>s \<in> set (secCompList st). sec_comp_is tokenID code s
               then PERMISSION_GRANTED else PERMISSION_DENIED))"

definition VerifyPermissionStatus :: "perm_table \<Rightarrow> PermissionDataBrief \<Rightarrow> token_id \<Rightarrow> string \<Rightarrow> int" where
  "VerifyPermissionStatus tbl st tokenID permission =
     (case TransferPermissionToOpcode tbl permission of
        None \<Rightarrow> PERMISSION_DENIED
      | Some opCode \<Rightarrow> VerifyPermissionStatusByCode st tokenID opCode)"

definition IsPermissionGrantedWithSecComp ::
    "perm_table \<Rightarrow> PermissionDataBrief \<Rightarrow> token_id \<Rightarrow> string \<Rightarrow> bool" where
  "IsPermissionGrantedWithSecComp tbl st tokenID permissionName =
     (case TransferPermissionToOpcode tbl permissionName of
        None \<Rightarrow> False
      | Some opCode \<Rightarrow>
          (case map_of (requestedPermData st) tokenID of
             None \<Rightarrow> False
           | Some ds \<Rightarrow>
               (case find (code_is opCode) ds of
                  None \<Rightarrow> \<exists>s \<in> set (secCompList st). sec_comp_is tokenID opCode s
                | Some d \<Rightarrow> IsPermGrantedBySecComp (uint (bp_flag d)))))"

text \<open>The out parameters \<open>status\<close> and \<open>flag\<close> are written on success only.\<close>

definition QueryPermissionStatusAndFlagInner ::
    "PermissionDataBrief \<Rightarrow> token_id \<Rightarrow> u32 \<Rightarrow> int \<times> u32 \<Rightarrow> ret \<times> int \<times> u32" where
  "QueryPermissionStatusAndFlagInner st tokenID code out =
     (case map_of (requestedPermData st) tokenID of
        None \<Rightarrow> (ERR_TOKENID_NOT_EXIST, out)
      | Some ds \<Rightarrow>
          (case find (code_is code) ds of
             None \<Rightarrow> (ERR_PERMISSION_NOT_EXIST, out)
           | Some d \<Rightarrow> (RET_SUCCESS, GetEffectivePermissionStatus d, bp_flag d)))"

definition QueryEffectivePermissionStatusAndFlag ::
    "PermissionDataBrief \<Rightarrow> token_id \<Rightarrow> u32 \<Rightarrow> int \<times> u32 \<Rightarrow> ret \<times> int \<times> u32" where
  "QueryEffectivePermissionStatusAndFlag st tokenID code out =
     (let (ret, s, f) = QueryPermissionStatusAndFlagInner st tokenID code out in
      if ret \<noteq> RET_SUCCESS then (ret, s, f)
      else (RET_SUCCESS, s, GetFlagWithoutSpecifiedElement f PERMISSION_PRE_AUTHORIZED_CANCELABLE))"

definition QueryStoredPermissionStatusAndFlag ::
    "PermissionDataBrief \<Rightarrow> token_id \<Rightarrow> u32 \<Rightarrow> int \<times> u32 \<Rightarrow> ret \<times> int \<times> u32" where
  "QueryStoredPermissionStatusAndFlag st tokenID code out =
     (let (ret, l) = GetBriefPermDataByTokenIdInner st tokenID [] in
      if ret \<noteq> RET_SUCCESS then (ret, out)
      else (case find (code_is code) l of
              None \<Rightarrow> (ERR_PERMISSION_NOT_EXIST, out)
            | Some d \<Rightarrow> (RET_SUCCESS, bp_status d, bp_flag d)))"

definition GetGrantedPermCodeList :: "PermissionDataBrief \<Rightarrow> token_id \<Rightarrow> u32 list \<Rightarrow> u32 list" where
  "GetGrantedPermCodeList st tokenID opCodeList =
     (case map_of (requestedPermData st) tokenID of
        None \<Rightarrow> opCodeList
      | Some ds \<Rightarrow>
          (let l = opCodeList @
                 map (\<lambda>d. ucast (bp_permCode d))
                   (filter (\<lambda>d. GetEffectivePermissionStatus d = PERMISSION_GRANTED) ds) in
           if token_type_of (id_type (of_token_id tokenID)) \<noteq> TOKEN_HAP then l
           else l @ map (\<lambda>s. ucast (sc_permCode s)) (filter (\<lambda>s. sc_tokenId s = tokenID) (secCompList st))))"

definition GetGrantedPermList ::
    "perm_table \<Rightarrow> PermissionDataBrief \<Rightarrow> token_id \<Rightarrow> string list \<Rightarrow> string list" where
  "GetGrantedPermList tbl st tokenID permissionList =
     permissionList @ map (TransferOpcodeToPermission tbl) (GetGrantedPermCodeList st tokenID [])"

definition GetPermissionUsedType :: "PermissionDataBrief \<Rightarrow> token_id \<Rightarrow> int \<Rightarrow> PermUsedTypeEnum" where
  "GetPermissionUsedType st tokenID opCode =
     (case map_of (requestedPermData st) tokenID of
        None \<Rightarrow> INVALID_USED_TYPE
      | Some ds \<Rightarrow>
          (case find (\<lambda>d. uint (bp_permCode d) = opCode) ds of
             Some d \<Rightarrow>
               if IsPermGrantedBySecComp (uint (bp_flag d)) then SEC_COMPONENT_TYPE
               else if bp_status d = PERMISSION_DENIED then INVALID_USED_TYPE
               else NORMAL_TYPE
           | None \<Rightarrow>
               if \<exists>s \<in> set (secCompList st). sc_tokenId s = tokenID \<and> uint (sc_permCode s) = opCode
               then SEC_COMPONENT_TYPE else INVALID_USED_TYPE))"

section \<open>Building the stored data\<close>

text \<open>\<open>GetPermissionBriefData\<close>: \<open>None\<close> is the return value \<open>false\<close>, and the value of a permission
  that carries one is recorded.\<close>

definition GetPermissionBriefData ::
    "perm_table \<Rightarrow> token_id \<Rightarrow> PermissionStatus \<Rightarrow> (string, string) omap \<Rightarrow> PermissionDataBrief \<Rightarrow>
      BriefPermData option \<times> PermissionDataBrief" where
  "GetPermissionBriefData tbl tokenID permState aclExtendedMap st =
     (if \<not> IsGrantStatusValid (ps_grantStatus permState) then (None, st)
      else (case TransferPermissionToOpcode tbl (ps_permissionName permState) of
              None \<Rightarrow> (None, st)
            | Some code \<Rightarrow>
                (let briefDef = tbl ! unat code;
                     data = \<lparr>bp_status = ps_grantStatus permState,
                             bp_type = (if bd_isKernelEffect briefDef then IS_KERNEL_EFFECT else 0),
                             bp_permCode = ucast code, bp_flag = ps_grantFlag permState\<rparr>;
                     key = ext_key tokenID (ucast (bp_permCode data)) in
                 if bd_hasValue briefDef
                 then
                   (Some (data\<lparr>bp_type := bp_type data OR HAS_VALUE\<rparr>),
                    st\<lparr>extendedValue :=
                         omap_insert key
                           (case map_of aclExtendedMap (ps_permissionName permState) of
                              Some v \<Rightarrow> v | None \<Rightarrow> [])
                           (extendedValue st)\<rparr>)
                 else (Some data, st))))"

definition DeleteExtendedValue :: "token_id \<Rightarrow> PermissionDataBrief \<Rightarrow> PermissionDataBrief" where
  "DeleteExtendedValue tokenID st =
     st\<lparr>extendedValue := filter (\<lambda>(key, v). key_token key \<noteq> tokenID) (extendedValue st)\<rparr>"

fun brief_data_loop ::
    "perm_table \<Rightarrow> token_id \<Rightarrow> (string, string) omap \<Rightarrow> PermissionStatus list \<Rightarrow>
      BriefPermData list \<Rightarrow> PermissionDataBrief \<Rightarrow> BriefPermData list \<times> PermissionDataBrief" where
  "brief_data_loop tbl tokenID acl [] l st = (l, st)"
| "brief_data_loop tbl tokenID acl (s # ss) l st =
     (case GetPermissionBriefData tbl tokenID s acl st of
        (Some data, st') \<Rightarrow> brief_data_loop tbl tokenID acl ss (l @ [data]) st'
      | (None, st') \<Rightarrow> brief_data_loop tbl tokenID acl ss l st')"

definition GetPermissionBriefDataList ::
    "perm_table \<Rightarrow> token_id \<Rightarrow> PermissionStatus list \<Rightarrow> (string, string) omap \<Rightarrow>
      BriefPermData list \<Rightarrow> PermissionDataBrief \<Rightarrow> BriefPermData list \<times> PermissionDataBrief" where
  "GetPermissionBriefDataList tbl tokenID permStateList acl l st =
     brief_data_loop tbl tokenID acl permStateList l (DeleteExtendedValue tokenID st)"

definition AddBriefPermDataByTokenId ::
    "token_id \<Rightarrow> BriefPermData list \<Rightarrow> PermissionDataBrief \<Rightarrow> PermissionDataBrief" where
  "AddBriefPermDataByTokenId tokenID listInput st =
     st\<lparr>requestedPermData :=
          omap_insert tokenID listInput
            (if map_of (requestedPermData st) tokenID \<noteq> None
             then omap_erase tokenID (requestedPermData st) else requestedPermData st)\<rparr>"

definition AddPermToBriefPermission ::
    "perm_table \<Rightarrow> token_id \<Rightarrow> PermissionStatus list \<Rightarrow> (string, string) omap \<Rightarrow> bool \<Rightarrow>
      PermissionDataBrief \<Rightarrow> PermissionDataBrief" where
  "AddPermToBriefPermission tbl tokenId permStateList acl defCheck st =
     (let tokenType = GetTokenIdTypeEnum tokenId;
          permStateListRes =
            (if defCheck then FilterInvalidPermissionState tbl tokenType True permStateList []
             else permStateList);
          (l, st') = GetPermissionBriefDataList tbl tokenId permStateListRes acl [] st in
      AddBriefPermDataByTokenId tokenId l st')"

definition UpdatePermStatus :: "BriefPermData \<Rightarrow> BriefPermData \<Rightarrow> BriefPermData" where
  "UpdatePermStatus permOld permNew =
     (if (bp_flag permOld AND PERMISSION_FIXED_BY_ADMIN_POLICY \<noteq> 0 \<or>
          bp_flag permOld AND PERMISSION_ADMIN_POLICIES_CANCEL \<noteq> 0) \<and>
         bp_flag permNew = PERMISSION_SYSTEM_FIXED then permNew
      else if bp_flag permOld AND PERMISSION_ADMIN_POLICIES_CANCEL \<noteq> 0 \<and>
         bp_flag permNew = PERMISSION_PRE_AUTHORIZED_CANCELABLE then permNew
      else if bp_flag permOld = PERMISSION_DEFAULT_FLAG \<and> bp_status permOld = PERMISSION_DENIED then permNew
      else if bp_flag permOld = PERMISSION_SYSTEM_FIXED \<or>
         bp_flag permOld = PERMISSION_PRE_AUTHORIZED_CANCELABLE then permNew
      else
        (let userPolicyFlag = bp_flag permNew AND PERMISSION_RESTRICTED_BY_ADMIN in
         permNew\<lparr>bp_status := bp_status permOld,
                 bp_flag := GetFlagWithoutSpecifiedElement (bp_flag permOld) PERMISSION_RESTRICTED_BY_ADMIN
                   OR userPolicyFlag\<rparr>))"

text \<open>The body of the loop of \<open>Update\<close> for one new entry.\<close>

definition update_one :: "bool \<Rightarrow> BriefPermData list \<Rightarrow> BriefPermData \<Rightarrow> BriefPermData" where
  "update_one needUpdatePermByProvision oldList newPermData =
     (case find (\<lambda>old. bp_permCode newPermData = bp_permCode old) oldList of
        None \<Rightarrow> newPermData
      | Some old \<Rightarrow>
          if needUpdatePermByProvision \<and> bp_flag old AND PERMISSION_FIXED_BY_ADMIN_POLICY = 0
          then newPermData
          else UpdatePermStatus old newPermData)"

definition Update ::
    "perm_table \<Rightarrow> token_id \<Rightarrow> PermissionStatus list \<Rightarrow> (string, string) omap \<Rightarrow> bool \<Rightarrow>
      PermissionDataBrief \<Rightarrow> PermissionDataBrief" where
  "Update tbl tokenId permStateList acl needUpdatePermByProvision st =
     (let permStateFilterList = FilterInvalidPermissionState tbl TOKEN_HAP True permStateList [];
          (newList, st1) = GetPermissionBriefDataList tbl tokenId permStateFilterList acl [] st;
          (ret, briefPermDataList) = GetBriefPermDataByTokenIdInner st1 tokenId [] in
      AddBriefPermDataByTokenId tokenId
        (map (update_one needUpdatePermByProvision briefPermDataList) newList) st1)"

definition GetFlagWroteToDb :: "u32 \<Rightarrow> u32" where
  "GetFlagWroteToDb grantFlag = GetFlagWithoutSpecifiedElement grantFlag PERMISSION_COMPONENT_SET"

text \<open>The rows of a query grouped by token id are a partial function.\<close>

fun acl_loop :: "GenericValues list \<Rightarrow> (string, string) omap \<Rightarrow> ret \<times> (string, string) omap" where
  "acl_loop [] acl = (RET_SUCCESS, acl)"
| "acl_loop (v # vs) acl =
     (let (ret, perm) = TranslationIntoExtendedPermission v ([], []) in
      if ret \<noteq> RET_SUCCESS then (ret, acl) else acl_loop vs (omap_insert (fst perm) (snd perm) acl))"

definition TranslationIntoAclExtendedMap ::
    "token_id \<Rightarrow> (token_id \<Rightarrow> GenericValues list option) \<Rightarrow> (string, string) omap \<Rightarrow>
      ret \<times> (string, string) omap" where
  "TranslationIntoAclExtendedMap tokenId extendedPermRes acl =
     (case extendedPermRes tokenId of None \<Rightarrow> (RET_SUCCESS, acl) | Some vs \<Rightarrow> acl_loop vs acl)"

definition MergePermBriefData :: "BriefPermData list \<Rightarrow> BriefPermData \<Rightarrow> BriefPermData list" where
  "MergePermBriefData l data0 =
     (let data = data0\<lparr>bp_flag := GetFlagWroteToDb (bp_flag data0)\<rparr> in
      if find (\<lambda>d. bp_permCode data = bp_permCode d) l \<noteq> None
      then update_first (\<lambda>d. bp_permCode data = bp_permCode d)
             (\<lambda>d. d\<lparr>bp_status := bp_status data, bp_flag := bp_flag data\<rparr>) l
      else l @ [data])"

fun restore_loop ::
    "perm_table \<Rightarrow> token_id \<Rightarrow> (string, string) omap \<Rightarrow> GenericValues list \<Rightarrow> BriefPermData list \<Rightarrow>
      PermissionDataBrief \<Rightarrow> BriefPermData list \<times> PermissionDataBrief" where
  "restore_loop tbl tokenId acl [] l st = (l, st)"
| "restore_loop tbl tokenId acl (v # vs) l st =
     (let (ret, state) = TranslationIntoPermissionStatus v
            \<lparr>ps_tokenID = 0, ps_permissionName = [], ps_feature = [], ps_grantStatus = 0,
             ps_grantFlag = 0, ps_timestamp = 0\<rparr> in
      if ret \<noteq> RET_SUCCESS then restore_loop tbl tokenId acl vs l st
      else (case GetPermissionBriefData tbl tokenId state acl st of
              (None, st') \<Rightarrow> restore_loop tbl tokenId acl vs l st'
            | (Some data, st') \<Rightarrow> restore_loop tbl tokenId acl vs (MergePermBriefData l data) st'))"

definition RestorePermissionBriefData ::
    "perm_table \<Rightarrow> token_id \<Rightarrow> (token_id \<Rightarrow> GenericValues list option) \<Rightarrow>
      (token_id \<Rightarrow> GenericValues list option) \<Rightarrow> PermissionDataBrief \<Rightarrow> PermissionDataBrief" where
  "RestorePermissionBriefData tbl tokenId permStateRes extendedPermRes st =
     (let (result, acl) = TranslationIntoAclExtendedMap tokenId extendedPermRes [] in
      if result \<noteq> RET_SUCCESS then st
      else
        (let (l, st') =
           (case permStateRes tokenId of
              None \<Rightarrow> ([], st)
            | Some vs \<Rightarrow> restore_loop tbl tokenId acl vs [] st) in
         AddBriefPermDataByTokenId tokenId l st'))"

text \<open>The row of one permission; an unchanged state keeps the timestamp of its old row. The lookup
  in \<open>oldPermStateMap\<close>, filled by \<open>emplace\<close>, finds the first old row of a key.\<close>

definition state_row :: "perm_table \<Rightarrow> int \<Rightarrow> token_id \<Rightarrow> GenericValues list \<Rightarrow> BriefPermData \<Rightarrow> GenericValues" where
  "state_row tbl now tokenId oldPermStateValues data =
     (let g0 = PutInt FIELD_TOKEN_ID (sint tokenId) [];
          g1 = snd (PermissionStatusIntoGenericValues (GetPermissionStatus tbl now data) g0);
          g2 = PutString FIELD_DEVICE_ID ''PHONE-001'' g1 in
      case map_of (map (\<lambda>v. (BuildPermissionStateKey v, v)) oldPermStateValues) (BuildPermissionStateKey g2) of
        None \<Rightarrow> g2
      | Some old \<Rightarrow>
          if GetInt old FIELD_GRANT_STATE = GetInt g2 FIELD_GRANT_STATE \<and>
             GetInt old FIELD_GRANT_FLAG = GetInt g2 FIELD_GRANT_FLAG
          then PutInt64 FIELD_TIMESTAMP (sint (GetPermissionTimestampFromStateValue old))
                 (Remove FIELD_TIMESTAMP g2)
          else g2)"

definition BuildPermissionStateValues ::
    "perm_table \<Rightarrow> int \<Rightarrow> PermissionDataBrief \<Rightarrow> token_id \<Rightarrow> GenericValues list \<Rightarrow> GenericValues list \<Rightarrow>
      ret \<times> GenericValues list" where
  "BuildPermissionStateValues tbl now st tokenId oldPermStateValues permStateValueList =
     (let (ret, l) = GetBriefPermDataByTokenIdInner st tokenId [] in
      if ret \<noteq> RET_SUCCESS then (ret, permStateValueList)
      else (RET_SUCCESS, permStateValueList @ map (state_row tbl now tokenId oldPermStateValues) l))"

section \<open>Changing states\<close>

definition UpdateWithNewFlag :: "u32 \<Rightarrow> u32 \<Rightarrow> u32" where
  "UpdateWithNewFlag oldFlag currFlag =
     currFlag OR (oldFlag AND (PERMISSION_PRE_AUTHORIZED_CANCELABLE OR PERMISSION_RESTRICTED_BY_ADMIN))"

definition IsRestrictedPermission :: "u32 \<Rightarrow> u32 \<Rightarrow> bool" where
  "IsRestrictedPermission oldFlag newFlag =
     (let isFixedByAdmin = (oldFlag AND PERMISSION_FIXED_BY_ADMIN_POLICY = PERMISSION_FIXED_BY_ADMIN_POLICY);
          newFlagDoesNotHaveFixedAdmin = (newFlag AND PERMISSION_FIXED_BY_ADMIN_POLICY = 0);
          newFlagHasNoSystemFixed = (newFlag AND PERMISSION_SYSTEM_FIXED = 0);
          newFlagHasNoAdminCancel = (newFlag AND PERMISSION_ADMIN_POLICIES_CANCEL = 0) in
      isFixedByAdmin \<and> newFlagDoesNotHaveFixedAdmin \<and> newFlagHasNoSystemFixed \<and> newFlagHasNoAdminCancel)"

text \<open>Write the list of a token, and change its first entry with a given code.\<close>

definition set_token_list ::
    "token_id \<Rightarrow> BriefPermData list \<Rightarrow> PermissionDataBrief \<Rightarrow> PermissionDataBrief" where
  "set_token_list tokenID ds st = st\<lparr>requestedPermData := omap_insert tokenID ds (requestedPermData st)\<rparr>"

definition UpdatePermStateList ::
    "token_id \<Rightarrow> u32 \<Rightarrow> bool \<Rightarrow> u32 \<Rightarrow> PermissionDataBrief \<Rightarrow> ret \<times> PermissionDataBrief" where
  "UpdatePermStateList tokenId opCode isGranted newflag st =
     (case map_of (requestedPermData st) tokenId of
        None \<Rightarrow> (ERR_TOKEN_INVALID, st)
      | Some ds \<Rightarrow>
          (case find (code_is opCode) ds of
             None \<Rightarrow> (ERR_PARAM_INVALID, st)
           | Some d \<Rightarrow>
               if bp_flag d AND PERMISSION_SYSTEM_FIXED = PERMISSION_SYSTEM_FIXED then (ERR_PARAM_INVALID, st)
               else if IsRestrictedPermission (bp_flag d) newflag then (ERR_PERMISSION_RESTRICTED, st)
               else if newflag AND PERMISSION_ADMIN_POLICIES_CANCEL = PERMISSION_ADMIN_POLICIES_CANCEL \<and>
                       bp_flag d AND PERMISSION_FIXED_BY_ADMIN_POLICY = 0 then (ERR_PARAM_INVALID, st)
               else
                 (let newStatus =
                    (if newflag AND PERMISSION_ADMIN_POLICIES_CANCEL = 0
                     then (if isGranted then PERMISSION_GRANTED else PERMISSION_DENIED)
                     else bp_status d) in
                  (RET_SUCCESS,
                   set_token_list tokenId
                     (update_first (code_is opCode)
                        (\<lambda>d. d\<lparr>bp_status := newStatus, bp_flag := UpdateWithNewFlag (bp_flag d) newflag\<rparr>) ds)
                     st))))"

definition SecCompGrantedPermListUpdated ::
    "perm_table \<Rightarrow> token_id \<Rightarrow> string \<Rightarrow> bool \<Rightarrow> PermissionDataBrief \<Rightarrow> PermissionDataBrief" where
  "SecCompGrantedPermListUpdated tbl tokenID permissionName isAdded st =
     (case TransferPermissionToOpcode tbl permissionName of
        None \<Rightarrow> st
      | Some opCode \<Rightarrow>
          (case map_of (requestedPermData st) tokenID of
             None \<Rightarrow> st
           | Some ds \<Rightarrow>
               (let l = secCompList st;
                    l' = (if isAdded
                          then if find (sec_comp_is tokenID opCode) l = None
                               then l @ [\<lparr>sc_permCode = ucast opCode, sc_tokenId = tokenID\<rparr>] else l
                          else erase_first (sec_comp_is tokenID opCode) l) in
                (set_token_list tokenID
                   (update_first (code_is opCode)
                      (\<lambda>d. d\<lparr>bp_flag := (if isAdded then bp_flag d OR PERMISSION_COMPONENT_SET
                                        else bp_flag d AND NOT PERMISSION_COMPONENT_SET)\<rparr>) ds)
                   st)\<lparr>secCompList := l'\<rparr>)))"

definition UpdateSecCompGrantedPermList ::
    "perm_table \<Rightarrow> token_id \<Rightarrow> u32 \<Rightarrow> bool \<Rightarrow> PermissionDataBrief \<Rightarrow> ret \<times> PermissionDataBrief" where
  "UpdateSecCompGrantedPermList tbl tokenId opCode isToGrant st =
     (let (ret, oldStatus, oldFlag) = QueryPermissionStatusAndFlagInner st tokenId opCode (PERMISSION_DENIED, 0) in
      if oldFlag AND PERMISSION_FIXED_BY_ADMIN_POLICY \<noteq> 0 then (ERR_PERMISSION_RESTRICTED, st)
      else
        (let permissionName = TransferOpcodeToPermission tbl opCode in
         if IsPermOperatedByUser (uint oldFlag) \<or> IsPermOperatedBySystem (uint oldFlag)
         then
           (if isToGrant
            then if oldStatus = PERMISSION_GRANTED then (RET_SUCCESS, st) else (ERR_PERMISSION_DENIED, st)
            else (RET_SUCCESS, SecCompGrantedPermListUpdated tbl tokenId permissionName False st))
         else (RET_SUCCESS, SecCompGrantedPermListUpdated tbl tokenId permissionName isToGrant st)))"

text \<open>\<open>changeType\<close> is not written when the name is unknown.\<close>

definition UpdatePermissionStatus ::
    "perm_table \<Rightarrow> token_id \<Rightarrow> string \<Rightarrow> bool \<Rightarrow> u32 \<Rightarrow> PermissionDataBrief \<Rightarrow>
      ret \<times> PermissionStatusChangeType option \<times> PermissionDataBrief" where
  "UpdatePermissionStatus tbl tokenId permissionName isGranted newflag st =
     (case TransferPermissionToOpcode tbl permissionName of
        None \<Rightarrow> (ERR_PARAM_INVALID, None, st)
      | Some opCode \<Rightarrow>
          (let oldStatus = VerifyPermissionStatusByCode st tokenId opCode;
               (_, status1, oldFlag) = QueryPermissionStatusAndFlagInner st tokenId opCode (PERMISSION_DENIED, 0);
               (ret, st') =
                 (if \<not> IsPermGrantedBySecComp (uint newflag)
                  then UpdatePermStateList tokenId opCode isGranted newflag st
                  else UpdateSecCompGrantedPermList tbl tokenId opCode isGranted st);
               newStatus = VerifyPermissionStatusByCode st' tokenId opCode;
               (_, _, newFlag) = QueryPermissionStatusAndFlagInner st' tokenId opCode (status1, 0);
               changeType =
                 (if oldStatus \<noteq> newStatus
                  then (if oldFlag \<noteq> newFlag then STATUS_AND_FLAG else STATUS_ONLY)
                  else if oldFlag \<noteq> newFlag then FLAG_ONLY else NO_CHANGE) in
           (ret, Some changeType, st')))"

definition UpdatePermissionFlag ::
    "token_id \<Rightarrow> u32 \<Rightarrow> u32 \<Rightarrow> bool \<Rightarrow> PermissionDataBrief \<Rightarrow>
      ret \<times> PermissionStatusChangeType option \<times> PermissionDataBrief" where
  "UpdatePermissionFlag tokenId code flagMask addFlag st =
     (case map_of (requestedPermData st) tokenId of
        None \<Rightarrow> (ERR_TOKENID_NOT_EXIST, None, st)
      | Some ds \<Rightarrow>
          (case find (code_is code) ds of
             None \<Rightarrow> (ERR_PERMISSION_NOT_EXIST, None, st)
           | Some d \<Rightarrow>
               (let oldFlag = bp_flag d;
                    newFlag = (if addFlag then oldFlag OR flagMask else oldFlag AND NOT flagMask) in
                (RET_SUCCESS, Some (if oldFlag = newFlag then NO_CHANGE else FLAG_ONLY),
                 set_token_list tokenId (update_first (code_is code) (\<lambda>d. d\<lparr>bp_flag := newFlag\<rparr>) ds) st))))"

text \<open>The body of the loop of \<open>ResetUserGrantPermissionStatus\<close>.\<close>

definition reset_perm :: "BriefPermData \<Rightarrow> BriefPermData" where
  "reset_perm perm =
     (let oldFlag = bp_flag perm;
          adminFlag = oldFlag AND (PERMISSION_FIXED_BY_ADMIN_POLICY OR PERMISSION_RESTRICTED_BY_ADMIN) in
      if oldFlag AND PERMISSION_SYSTEM_FIXED \<noteq> 0 then perm
      else if oldFlag AND PERMISSION_PRE_AUTHORIZED_CANCELABLE \<noteq> 0
      then perm\<lparr>bp_status := PERMISSION_GRANTED, bp_flag := PERMISSION_PRE_AUTHORIZED_CANCELABLE OR adminFlag\<rparr>
      else if oldFlag AND PERMISSION_FIXED_BY_ADMIN_POLICY \<noteq> 0 then perm
      else if oldFlag AND PERMISSION_RESTRICTED_BY_ADMIN \<noteq> 0 then perm
      else perm\<lparr>bp_status := PERMISSION_DENIED, bp_flag := PERMISSION_DEFAULT_FLAG\<rparr>)"

definition ClearAllSecCompGrantedPermById :: "token_id \<Rightarrow> PermissionDataBrief \<Rightarrow> PermissionDataBrief" where
  "ClearAllSecCompGrantedPermById tokenID st =
     st\<lparr>secCompList := filter (\<lambda>s. sc_tokenId s \<noteq> tokenID) (secCompList st)\<rparr>"

definition ResetUserGrantPermissionStatus ::
    "token_id \<Rightarrow> PermissionDataBrief \<Rightarrow> ret \<times> PermissionDataBrief" where
  "ResetUserGrantPermissionStatus tokenID st =
     (case map_of (requestedPermData st) tokenID of
        None \<Rightarrow> (ERR_TOKENID_NOT_EXIST, st)
      | Some ds \<Rightarrow>
          (RET_SUCCESS,
           ClearAllSecCompGrantedPermById tokenID (set_token_list tokenID (map reset_perm ds) st)))"

definition DeleteBriefPermDataByTokenId ::
    "token_id \<Rightarrow> PermissionDataBrief \<Rightarrow> ret \<times> PermissionDataBrief" where
  "DeleteBriefPermDataByTokenId tokenID st =
     (case map_of (requestedPermData st) tokenID of
        None \<Rightarrow> (ERR_TOKEN_INVALID, st)
      | Some _ \<Rightarrow>
          (RET_SUCCESS,
           DeleteExtendedValue tokenID
             (st\<lparr>requestedPermData := omap_erase tokenID (requestedPermData st),
                 secCompList := filter (\<lambda>s. sc_tokenId s \<noteq> tokenID) (secCompList st)\<rparr>)))"

fun replace_ext_loop ::
    "perm_table \<Rightarrow> token_id \<Rightarrow> PermissionWithValue list \<Rightarrow> (u64, string) omap \<Rightarrow> (u64, string) omap" where
  "replace_ext_loop tbl tokenID [] m = m"
| "replace_ext_loop tbl tokenID ((name, v) # l) m =
     (case GetPermissionBriefDefAndCode tbl name of
        None \<Rightarrow> replace_ext_loop tbl tokenID l m
      | Some (permDef, code) \<Rightarrow>
          if \<not> bd_isEnable permDef \<or> \<not> bd_hasValue permDef then replace_ext_loop tbl tokenID l m
          else replace_ext_loop tbl tokenID l (omap_insert (ext_key tokenID code) v m))"

definition ReplaceExtendedValueByTokenIdLocked ::
    "perm_table \<Rightarrow> token_id \<Rightarrow> PermissionWithValue list \<Rightarrow> PermissionDataBrief \<Rightarrow> PermissionDataBrief" where
  "ReplaceExtendedValueByTokenIdLocked tbl tokenID data st =
     (if data = [] then st
      else
        (let st' = DeleteExtendedValue tokenID st in
         st'\<lparr>extendedValue := replace_ext_loop tbl tokenID data (extendedValue st')\<rparr>))"

definition ReplaceBriefPermDataByTokenId ::
    "perm_table \<Rightarrow> token_id \<Rightarrow> BriefPermData list \<Rightarrow> PermissionWithValue list \<Rightarrow> PermissionDataBrief \<Rightarrow>
      PermissionDataBrief" where
  "ReplaceBriefPermDataByTokenId tbl tokenID data aclExtendedList st =
     ReplaceExtendedValueByTokenIdLocked tbl tokenID aclExtendedList (AddBriefPermDataByTokenId tokenID data st)"

definition ClearAllSecCompGrantedPerm :: "PermissionDataBrief \<Rightarrow> BriefSecCompData list \<times> PermissionDataBrief" where
  "ClearAllSecCompGrantedPerm st = (secCompList st, st\<lparr>secCompList := []\<rparr>)"

definition AddBriefPermData ::
    "perm_table \<Rightarrow> token_id \<Rightarrow> string \<Rightarrow> int \<Rightarrow> u32 \<Rightarrow> string \<Rightarrow> PermissionDataBrief \<Rightarrow>
      ret \<times> PermissionDataBrief" where
  "AddBriefPermData tbl tokenID permissionName grantStatus grantFlag value st =
     (let s = \<lparr>ps_tokenID = 0, ps_permissionName = permissionName, ps_feature = [],
               ps_grantStatus = grantStatus, ps_grantFlag = grantFlag, ps_timestamp = 0\<rparr> in
      case GetPermissionBriefData tbl tokenID s [(permissionName, value)] st of
        (None, st1) \<Rightarrow> (ERR_PERMISSION_NOT_EXIST, st1)
      | (Some data, st1) \<Rightarrow>
          (let (res, l) = GetBriefPermDataByTokenIdInner st1 tokenID [] in
           if res \<noteq> RET_SUCCESS then (res, DeleteExtendedValue tokenID st1)
           else (RET_SUCCESS, AddBriefPermDataByTokenId tokenID (MergePermBriefData l data) st1)))"

section \<open>Keys\<close>

lemma key_token_ext_key [simp]: "key_token (ext_key t c) = t"
  by (rule bit_word_eqI)
    (auto simp: key_token_def ext_key_def bit_ucast_iff bit_drop_bit_eq bit_or_iff bit_push_bit_iff not_bit_beyond)

lemma key_code_ext_key [simp]: "key_code (ext_key t c) = c"
proof (rule bit_word_eqI)
  fix n assume n: "n < LENGTH(32)"
  have "bit (0xFFFFFFFF :: u64) n \<longleftrightarrow> n < 32" for n
    using bit_mask_iff [where 'a = "64 word", of 32 n] by (auto simp: mask_eq_exp_minus_1)
  with n show "bit (key_code (ext_key t c)) n = bit c n"
    by (auto simp: key_code_def ext_key_def bit_ucast_iff bit_and_iff bit_or_iff bit_push_bit_iff)
qed

lemma ucast_code_inject [simp]: "(ucast (a :: u16) :: u32) = ucast b \<longleftrightarrow> a = b"
proof
  assume eq: "(ucast a :: u32) = ucast b"
  show "a = b"
  proof (rule bit_word_eqI)
    fix n assume "n < LENGTH(16)"
    moreover have "bit (ucast a :: u32) n = bit (ucast b :: u32) n" using eq by simp
    ultimately show "bit a n = bit b n" by (simp add: bit_ucast_iff)
  qed
qed simp

section \<open>The store invariant\<close>

definition tokens :: "PermissionDataBrief \<Rightarrow> token_id set" where
  "tokens st = fst ` set (requestedPermData st)"

definition value_tokens :: "PermissionDataBrief \<Rightarrow> token_id set" where
  "value_tokens st = key_token ` fst ` set (extendedValue st)"

definition sec_comp_tokens :: "PermissionDataBrief \<Rightarrow> token_id set" where
  "sec_comp_tokens st = sc_tokenId ` set (secCompList st)"

definition brief_inv :: "PermissionDataBrief \<Rightarrow> bool" where
  "brief_inv st \<longleftrightarrow>
     omap_ok (requestedPermData st) \<and> omap_ok (extendedValue st) \<and> distinct (secCompList st) \<and>
     value_tokens st \<subseteq> tokens st \<and> sec_comp_tokens st \<subseteq> tokens st"

text \<open>While the data of a token is being built, its values may precede its entry.\<close>

definition building :: "token_id \<Rightarrow> PermissionDataBrief \<Rightarrow> PermissionDataBrief \<Rightarrow> bool" where
  "building t st st' \<longleftrightarrow>
     requestedPermData st' = requestedPermData st \<and> secCompList st' = secCompList st \<and>
     omap_ok (extendedValue st') \<and> value_tokens st' \<subseteq> insert t (value_tokens st)"

lemma building_refl: "omap_ok (extendedValue st) \<Longrightarrow> building t st st"
  by (auto simp: building_def)

lemma building_trans: "building t a b \<Longrightarrow> building t b c \<Longrightarrow> building t a c"
  by (auto simp: building_def)

lemma value_tokens_insert:
  "value_tokens (st\<lparr>extendedValue := omap_insert (ext_key t c) v (extendedValue st)\<rparr>) = insert t (value_tokens st)"
  by (simp add: value_tokens_def fst_set_omap_insert)

lemma building_brief_data:
  assumes "omap_ok (extendedValue st)" and "GetPermissionBriefData tbl t s acl st = (r, st')"
  shows "building t st st'"
proof -
  have "st' = st \<or> (\<exists>c v. st' = st\<lparr>extendedValue := omap_insert (ext_key t c) v (extendedValue st)\<rparr>)"
    using assms(2)
    by (simp add: GetPermissionBriefData_def Let_def split: if_split_asm option.split_asm) blast+
  then show ?thesis
    using assms(1) by (auto simp: building_def value_tokens_insert omap_ok_insert)
qed

lemma building_loop:
  "omap_ok (extendedValue st) \<Longrightarrow> brief_data_loop tbl t acl ss l st = (l', st') \<Longrightarrow> building t st st'"
proof (induction ss arbitrary: l st)
  case Nil
  then show ?case by (simp add: building_refl)
next
  case (Cons s ss)
  obtain r st1 where g: "GetPermissionBriefData tbl t s acl st = (r, st1)" by fastforce
  note b = building_brief_data [OF Cons.prems(1) g]
  then have "omap_ok (extendedValue st1)" by (simp add: building_def)
  then have "building t st1 st'"
    using Cons.IH [of st1] Cons.prems(2) g by (cases r) auto
  with b show ?case by (rule building_trans)
qed

lemma building_delete_value: "omap_ok (extendedValue st) \<Longrightarrow> building t st (DeleteExtendedValue t' st)"
  by (auto simp: building_def DeleteExtendedValue_def value_tokens_def omap_ok_filter)

lemma building_list:
  assumes "omap_ok (extendedValue st)" and "GetPermissionBriefDataList tbl t ss acl l st = (l', st')"
  shows "building t st st'"
proof -
  have "omap_ok (extendedValue (DeleteExtendedValue t st))"
    using assms(1) by (simp add: DeleteExtendedValue_def omap_ok_filter)
  from building_loop [OF this] assms(2) show ?thesis
    unfolding GetPermissionBriefDataList_def
    using building_trans building_delete_value [OF assms(1)] by blast
qed

lemma building_restore:
  "omap_ok (extendedValue st) \<Longrightarrow> restore_loop tbl t acl vs l st = (l', st') \<Longrightarrow> building t st st'"
proof (induction vs arbitrary: l st)
  case Nil
  then show ?case by (simp add: building_refl)
next
  case (Cons v vs)
  define s where "s = snd (TranslationIntoPermissionStatus v
            \<lparr>ps_tokenID = 0, ps_permissionName = [], ps_feature = [], ps_grantStatus = 0,
             ps_grantFlag = 0, ps_timestamp = 0\<rparr>)"
  obtain r st1 where g: "GetPermissionBriefData tbl t s acl st = (r, st1)" by fastforce
  note b = building_brief_data [OF Cons.prems(1) g]
  then have ok1: "omap_ok (extendedValue st1)" by (simp add: building_def)
  have "(\<exists>l1. restore_loop tbl t acl vs l1 st = (l', st')) \<or> (\<exists>l1. restore_loop tbl t acl vs l1 st1 = (l', st'))"
    using Cons.prems(2) g by (auto simp: s_def split: if_splits prod.splits option.splits)
  then show ?case
    using Cons.IH [OF Cons.prems(1)] Cons.IH [OF ok1] building_trans [OF b] by blast
qed

lemma tokens_insert [simp]:
  "fst ` set (omap_insert t ds m) = insert t (fst ` set m)"
  by (rule fst_set_omap_insert)

lemma tokens_AddBrief: "tokens (AddBriefPermDataByTokenId t l st) = insert t (tokens st)"
  by (auto simp: tokens_def AddBriefPermDataByTokenId_def omap_erase_def)

lemma AddBrief_inv:
  assumes "brief_inv st" and "building t st st'"
  shows "brief_inv (AddBriefPermDataByTokenId t l st')"
proof -
  have "omap_ok (requestedPermData (AddBriefPermDataByTokenId t l st'))"
    using assms by (simp add: AddBriefPermDataByTokenId_def building_def brief_inv_def omap_ok_insert omap_ok_erase)
  moreover have "tokens (AddBriefPermDataByTokenId t l st') = insert t (tokens st)"
    using assms(2) tokens_AddBrief [of t l st'] by (simp add: building_def tokens_def)
  moreover have "value_tokens (AddBriefPermDataByTokenId t l st') = value_tokens st'"
    "sec_comp_tokens (AddBriefPermDataByTokenId t l st') = sec_comp_tokens st'"
    "extendedValue (AddBriefPermDataByTokenId t l st') = extendedValue st'"
    "secCompList (AddBriefPermDataByTokenId t l st') = secCompList st'"
    by (simp_all add: value_tokens_def sec_comp_tokens_def AddBriefPermDataByTokenId_def)
  moreover have "sec_comp_tokens st' = sec_comp_tokens st"
    using assms(2) by (simp add: building_def sec_comp_tokens_def)
  ultimately show ?thesis
    using assms by (auto simp: brief_inv_def building_def)
qed

lemma tokens_lookup: "map_of (requestedPermData st) t = Some ds \<Longrightarrow> t \<in> tokens st"
  by (force simp: tokens_def dest: map_of_SomeD)

lemma set_token_list_simps [simp]:
  "tokens (set_token_list t ds st) = insert t (tokens st)"
  "value_tokens (set_token_list t ds st) = value_tokens st"
  "sec_comp_tokens (set_token_list t ds st) = sec_comp_tokens st"
  "extendedValue (set_token_list t ds st) = extendedValue st"
  "secCompList (set_token_list t ds st) = secCompList st"
  by (simp_all add: set_token_list_def tokens_def value_tokens_def sec_comp_tokens_def)

lemma set_token_list_inv:
  "brief_inv st \<Longrightarrow> brief_inv (set_token_list t ds st)"
  by (auto simp: brief_inv_def) (simp add: set_token_list_def omap_ok_insert)

lemma UpdatePermStateList_inv:
  "brief_inv st \<Longrightarrow> UpdatePermStateList t c g f st = (r, st') \<Longrightarrow> brief_inv st'"
  by (auto simp: UpdatePermStateList_def Let_def set_token_list_inv split: option.splits if_splits)

lemma erase_first_subset: "distinct xs \<Longrightarrow> distinct (erase_first P xs)"
  using set_erase_first by (induction xs) fastforce+

lemma secCompList_update_simps [simp]:
  "tokens (st\<lparr>secCompList := l\<rparr>) = tokens st"
  "value_tokens (st\<lparr>secCompList := l\<rparr>) = value_tokens st"
  "sec_comp_tokens (st\<lparr>secCompList := l\<rparr>) = sc_tokenId ` set l"
  by (simp_all add: tokens_def value_tokens_def sec_comp_tokens_def)

lemma sec_comp_update_inv:
  assumes "brief_inv st" and "t \<in> tokens st" and "distinct l" and "sc_tokenId ` set l \<subseteq> insert t (sec_comp_tokens st)"
  shows "brief_inv ((set_token_list t ds st)\<lparr>secCompList := l\<rparr>)"
  using set_token_list_inv [OF assms(1), of t ds] assms by (auto simp: brief_inv_def)

lemma ucast_code_back: "unat (c :: u32) < 2 ^ 16 \<Longrightarrow> ucast (ucast c :: u16) = c"
proof -
  assume "unat c < 2 ^ 16"
  then have "take_bit 16 c = c" by (simp add: take_bit_eq_mod word_arith_nat_mod)
  then have "bit c n \<longleftrightarrow> n < 16 \<and> bit c n" for n by (metis bit_take_bit_iff)
  then show ?thesis by (intro bit_word_eqI) (auto simp: bit_ucast_iff)
qed

lemma SecCompUpdated_inv:
  assumes "perm_table_ok tbl" and "brief_inv st"
  shows "brief_inv (SecCompGrantedPermListUpdated tbl t name added st)"
proof -
  have unchanged: ?thesis if "SecCompGrantedPermListUpdated tbl t name added st = st"
    using that assms by simp
  show ?thesis
  proof (cases "TransferPermissionToOpcode tbl name"; cases "map_of (requestedPermData st) t")
    fix c ds
    assume c: "TransferPermissionToOpcode tbl name = Some c" and ds: "map_of (requestedPermData st) t = Some ds"
    let ?l = "secCompList st" and ?new = "\<lparr>sc_permCode = ucast c, sc_tokenId = t\<rparr>"
    let ?l' = "if added then if find (sec_comp_is t c) ?l = None then ?l @ [?new] else ?l
               else erase_first (sec_comp_is t c) ?l"
    have d: "distinct ?l" using assms(2) by (simp add: brief_inv_def)
    have "sec_comp_is t c ?new"
      using ucast_code_back [OF opcode_bound [OF assms(1) c]] by (simp add: sec_comp_is_def)
    then have "distinct ?l'"
      using d by (auto simp: erase_first_subset find_None_iff)
    moreover have "sc_tokenId ` set ?l' \<subseteq> insert t (sec_comp_tokens st)"
      using set_erase_first [of "sec_comp_is t c" ?l] by (auto simp: sec_comp_tokens_def)
    ultimately have "brief_inv ((set_token_list t ds' st)\<lparr>secCompList := ?l'\<rparr>)" for ds'
      using sec_comp_update_inv [OF assms(2) tokens_lookup [OF ds]] by blast
    then show ?thesis by (simp add: SecCompGrantedPermListUpdated_def c ds Let_def)
  qed (rule unchanged, simp add: SecCompGrantedPermListUpdated_def)+
qed

lemma UpdatePermissionStatus_inv:
  assumes "perm_table_ok tbl" and "brief_inv st" and "UpdatePermissionStatus tbl t name g f st = (r, ct, st')"
  shows "brief_inv st'"
proof (cases "TransferPermissionToOpcode tbl name")
  case None
  with assms show ?thesis by (simp add: UpdatePermissionStatus_def)
next
  case (Some c)
  obtain r1 st1 where u: "UpdatePermStateList t c g f st = (r1, st1)" by fastforce
  obtain r2 st2 where s: "UpdateSecCompGrantedPermList tbl t c g st = (r2, st2)" by fastforce
  have "st2 = st \<or> (\<exists>n a. st2 = SecCompGrantedPermListUpdated tbl t n a st)"
    using s by (auto simp: UpdateSecCompGrantedPermList_def Let_def split: if_splits prod.splits)
  then have "brief_inv st2" using SecCompUpdated_inv [OF assms(1,2)] assms(2) by blast
  moreover have "brief_inv st1" by (rule UpdatePermStateList_inv [OF assms(2) u])
  moreover have "st' = st1 \<or> st' = st2"
    using assms(3) Some u s by (auto simp: UpdatePermissionStatus_def Let_def split: if_splits prod.splits)
  ultimately show ?thesis by blast
qed

lemma UpdatePermissionFlag_inv:
  "brief_inv st \<Longrightarrow> UpdatePermissionFlag t c fm a st = (r, ct, st') \<Longrightarrow> brief_inv st'"
  by (auto simp: UpdatePermissionFlag_def Let_def set_token_list_inv split: option.splits if_splits)

lemma filter_sec_comp_inv:
  assumes "brief_inv st"
  shows "brief_inv (st\<lparr>secCompList := filter P (secCompList st)\<rparr>)"
  using assms by (auto simp: brief_inv_def sec_comp_tokens_def)

lemma Reset_inv:
  "brief_inv st \<Longrightarrow> ResetUserGrantPermissionStatus t st = (r, st') \<Longrightarrow> brief_inv st'"
  using filter_sec_comp_inv [OF set_token_list_inv, of st]
  by (auto simp: ResetUserGrantPermissionStatus_def ClearAllSecCompGrantedPermById_def split: option.splits)

lemma keys_filtered:
  "key_token ` fst ` set (filter (\<lambda>(key, v). key_token key \<noteq> t) m) = key_token ` fst ` set m - {t}"
  "fst ` set (omap_erase k l) = fst ` set l - {k}"
  "sc_tokenId ` set (filter (\<lambda>s. sc_tokenId s \<noteq> t) ss) = sc_tokenId ` set ss - {t}"
  by (force simp: omap_erase_def)+

lemma value_tokens_delete: "value_tokens (DeleteExtendedValue t st) = value_tokens st - {t}"
  by (simp add: value_tokens_def DeleteExtendedValue_def keys_filtered del: set_filter)

lemma Delete_result:
  assumes "DeleteBriefPermDataByTokenId t st = (RET_SUCCESS, st')"
  shows "tokens st' = tokens st - {t}" and "value_tokens st' = value_tokens st - {t}"
    and "sec_comp_tokens st' = sec_comp_tokens st - {t}"
proof -
  have "st' = DeleteExtendedValue t (st\<lparr>requestedPermData := omap_erase t (requestedPermData st),
      secCompList := filter (\<lambda>s. sc_tokenId s \<noteq> t) (secCompList st)\<rparr>)"
    using assms by (simp add: DeleteBriefPermDataByTokenId_def split: option.splits)
  then show "tokens st' = tokens st - {t}" "value_tokens st' = value_tokens st - {t}"
    "sec_comp_tokens st' = sec_comp_tokens st - {t}"
    by (simp_all add: DeleteExtendedValue_def tokens_def value_tokens_def sec_comp_tokens_def keys_filtered del: set_filter)
qed

lemma Delete_inv:
  assumes "brief_inv st" and "DeleteBriefPermDataByTokenId t st = (r, st')"
  shows "brief_inv st'"
proof (cases "r = RET_SUCCESS")
  case True
  have "omap_ok (requestedPermData st')" "omap_ok (extendedValue st')" "distinct (secCompList st')"
    using assms by (auto simp: DeleteBriefPermDataByTokenId_def DeleteExtendedValue_def brief_inv_def
        omap_ok_filter omap_ok_erase split: option.splits)
  with True show ?thesis
    using assms Delete_result [of t st st'] by (auto simp: brief_inv_def)
next
  case False
  then show ?thesis
    using assms by (auto simp: DeleteBriefPermDataByTokenId_def split: option.splits)
qed

lemma replace_ext_loop_keys:
  "omap_ok m \<Longrightarrow> omap_ok (replace_ext_loop tbl t l m) \<and>
     key_token ` fst ` set (replace_ext_loop tbl t l m) \<subseteq> insert t (key_token ` fst ` set m)"
proof (induction l arbitrary: m)
  case (Cons p l)
  obtain name v where p: "p = (name, v)" by (cases p)
  have ins: "omap_ok (omap_insert (ext_key t c) v m)"
    "key_token ` fst ` set (omap_insert (ext_key t c) v m) = insert t (key_token ` fst ` set m)" for c
    using Cons.prems by (simp_all add: omap_ok_insert fst_set_omap_insert)
  show ?case
    using Cons.IH [OF Cons.prems] Cons.IH [OF ins(1)]
    by (auto simp add: p ins(2) split: option.splits)
qed auto

lemma Replace_inv:
  assumes "brief_inv st"
  shows "brief_inv (ReplaceBriefPermDataByTokenId tbl t data acl st)"
proof -
  let ?st1 = "AddBriefPermDataByTokenId t data st"
  have inv1: "brief_inv ?st1"
    using assms by (intro AddBrief_inv [OF assms] building_refl) (simp add: brief_inv_def)
  show ?thesis
  proof (cases "acl = []")
    case True
    then show ?thesis
      using inv1 by (simp add: ReplaceBriefPermDataByTokenId_def ReplaceExtendedValueByTokenIdLocked_def)
  next
    case False
    let ?m = "filter (\<lambda>(key, v). key_token key \<noteq> t) (extendedValue ?st1)"
    have "omap_ok ?m" using inv1 by (simp add: brief_inv_def omap_ok_filter)
    note loop = replace_ext_loop_keys [OF this, of tbl t acl]
    have "insert t (value_tokens ?st1) \<subseteq> tokens ?st1"
      using inv1 by (simp add: tokens_AddBrief brief_inv_def)
    with loop have "key_token ` fst ` set (replace_ext_loop tbl t acl ?m) \<subseteq> tokens ?st1"
      unfolding keys_filtered value_tokens_def by blast
    then show ?thesis
      using inv1 loop False
      by (simp add: ReplaceBriefPermDataByTokenId_def ReplaceExtendedValueByTokenIdLocked_def Let_def
          DeleteExtendedValue_def brief_inv_def tokens_def value_tokens_def sec_comp_tokens_def)
  qed
qed

lemma AddBriefPermData_inv:
  assumes "brief_inv st" and "AddBriefPermData tbl t name s f v st = (r, st')"
  shows "brief_inv st'"
proof -
  define ps where "ps = \<lparr>ps_tokenID = 0 :: token_id, ps_permissionName = name, ps_feature = [],
               ps_grantStatus = s, ps_grantFlag = f, ps_timestamp = 0 :: u64\<rparr>"
  obtain d st1 where g: "GetPermissionBriefData tbl t ps [(name, v)] st = (d, st1)" by fastforce
  have ok: "omap_ok (extendedValue st)" using assms(1) by (simp add: brief_inv_def)
  note b = building_brief_data [OF ok g]
  have none: "d = None \<Longrightarrow> st1 = st"
    using g by (auto simp: GetPermissionBriefData_def Let_def split: if_splits option.splits)
  have del: "map_of (requestedPermData st) t = None \<Longrightarrow> brief_inv (DeleteExtendedValue t st1)"
  proof -
    have "value_tokens (DeleteExtendedValue t st1) \<subseteq> value_tokens st"
      using b by (auto simp: building_def value_tokens_delete)
    then show ?thesis
      using b assms(1) by (auto simp: building_def brief_inv_def DeleteExtendedValue_def omap_ok_filter
          tokens_def sec_comp_tokens_def)
  qed
  show ?thesis
    using assms(2) AddBrief_inv [OF assms(1) b] none del assms(1) b
    by (auto simp: AddBriefPermData_def ps_def [symmetric] g GetBriefPermDataByTokenIdInner_def building_def
        split: option.splits if_splits)
qed

lemma AddPerm_inv:
  assumes "brief_inv st"
  shows "brief_inv (AddPermToBriefPermission tbl t ss acl chk st)"
proof -
  define ss' where "ss' = (if chk then FilterInvalidPermissionState tbl (GetTokenIdTypeEnum t) True ss [] else ss)"
  obtain l st1 where g: "GetPermissionBriefDataList tbl t ss' acl [] st = (l, st1)" by fastforce
  have "building t st st1"
    using assms g by (intro building_list) (auto simp: brief_inv_def)
  from AddBrief_inv [OF assms this] show ?thesis
    by (simp add: AddPermToBriefPermission_def Let_def ss'_def [symmetric] g)
qed

lemma Update_inv:
  assumes "brief_inv st"
  shows "brief_inv (Update tbl t ss acl p st)"
proof -
  obtain l st1 where g: "GetPermissionBriefDataList tbl t (FilterInvalidPermissionState tbl TOKEN_HAP True ss []) acl [] st = (l, st1)"
    by fastforce
  have "building t st st1"
    using assms g by (intro building_list) (auto simp: brief_inv_def)
  from AddBrief_inv [OF assms this] show ?thesis
    by (simp add: Update_def Let_def g split: prod.split)
qed

lemma Restore_inv:
  assumes "brief_inv st"
  shows "brief_inv (RestorePermissionBriefData tbl t ps es st)"
proof -
  have ok: "omap_ok (extendedValue st)" using assms by (simp add: brief_inv_def)
  have "brief_inv (AddBriefPermDataByTokenId t [] st)"
    by (rule AddBrief_inv [OF assms building_refl [OF ok]])
  moreover have "brief_inv (AddBriefPermDataByTokenId t l st1)"
    if "restore_loop tbl t acl vs [] st = (l, st1)" for acl vs l st1
    by (rule AddBrief_inv [OF assms building_restore [OF ok that]])
  ultimately show ?thesis
    using assms by (auto simp: RestorePermissionBriefData_def Let_def split: prod.split option.split)
qed

section \<open>Steps\<close>

text \<open>Every operation that changes the store.\<close>

inductive brief_step :: "perm_table \<Rightarrow> PermissionDataBrief \<Rightarrow> PermissionDataBrief \<Rightarrow> bool" for tbl where
  bs_add: "brief_step tbl st (AddPermToBriefPermission tbl t ss acl chk st)"
| bs_update: "brief_step tbl st (Update tbl t ss acl p st)"
| bs_restore: "brief_step tbl st (RestorePermissionBriefData tbl t ps es st)"
| bs_status: "UpdatePermissionStatus tbl t name g f st = (r, ct, st') \<Longrightarrow> brief_step tbl st st'"
| bs_flag: "UpdatePermissionFlag t c fm a st = (r, ct, st') \<Longrightarrow> brief_step tbl st st'"
| bs_reset: "ResetUserGrantPermissionStatus t st = (r, st') \<Longrightarrow> brief_step tbl st st'"
| bs_delete: "DeleteBriefPermDataByTokenId t st = (r, st') \<Longrightarrow> brief_step tbl st st'"
| bs_replace: "brief_step tbl st (ReplaceBriefPermDataByTokenId tbl t data acl st)"
| bs_clear: "ClearAllSecCompGrantedPerm st = (l, st') \<Longrightarrow> brief_step tbl st st'"
| bs_add_data: "AddBriefPermData tbl t name s f v st = (r, st') \<Longrightarrow> brief_step tbl st st'"

lemma brief_step_inv:
  assumes "perm_table_ok tbl" and "brief_step tbl st st'" and "brief_inv st"
  shows "brief_inv st'"
  using assms(2)
proof cases
  case bs_clear
  then have "st' = st\<lparr>secCompList := []\<rparr>" by (simp add: ClearAllSecCompGrantedPerm_def)
  then show ?thesis
    using assms(3) by (simp add: brief_inv_def sec_comp_tokens_def tokens_def value_tokens_def)
next
  case bs_status
  then show ?thesis by (rule UpdatePermissionStatus_inv [OF assms(1,3)])
next
  case bs_flag
  then show ?thesis by (rule UpdatePermissionFlag_inv [OF assms(3)])
next
  case bs_reset
  then show ?thesis by (rule Reset_inv [OF assms(3)])
next
  case bs_delete
  then show ?thesis by (rule Delete_inv [OF assms(3)])
next
  case bs_add_data
  then show ?thesis by (rule AddBriefPermData_inv [OF assms(3)])
qed (simp_all add: assms(3) Replace_inv AddPerm_inv Update_inv Restore_inv)

end
