(* ===== verification/Permission_Brief_Laws.thy ===== *)
theory Permission_Brief_Laws
  imports Permission_Data_Brief
begin

text \<open>
  What the operations of \<open>PermissionDataBrief\<close> do to the answers of its queries: a status update
  touches one permission (\<open>only_changes\<close>), administrator restrictions and fixed permissions resist
  it, an application update keeps the user's decisions, the list of granted codes agrees with
  verification, and the states survive a restart through the database. The last section exhibits
  three states in which the parts of the store disagree.
\<close>

unbundle bit_operations_syntax

section \<open>What an update changes\<close>

text \<open>The stored entry of a permission, and whether a security component granted it.\<close>

definition entry :: "PermissionDataBrief \<Rightarrow> token_id \<Rightarrow> u32 \<Rightarrow> BriefPermData option" where
  "entry st t c = (case map_of (requestedPermData st) t of None \<Rightarrow> None | Some ds \<Rightarrow> find (code_is c) ds)"

definition sec_granted :: "PermissionDataBrief \<Rightarrow> token_id \<Rightarrow> u32 \<Rightarrow> bool" where
  "sec_granted st t c \<longleftrightarrow> (\<exists>s \<in> set (secCompList st). sec_comp_is t c s)"

lemma Verify_entry:
  "VerifyPermissionStatusByCode st t c =
     (case entry st t c of
        Some d \<Rightarrow> GetEffectivePermissionStatus d
      | None \<Rightarrow> if t \<in> tokens st \<and> sec_granted st t c then PERMISSION_GRANTED else PERMISSION_DENIED)"
proof (cases "map_of (requestedPermData st) t")
  case None
  then have "t \<notin> tokens st" by (simp add: tokens_def map_of_eq_None_iff)
  with None show ?thesis by (simp add: VerifyPermissionStatusByCode_def entry_def)
next
  case (Some ds)
  then show ?thesis
    by (auto simp: VerifyPermissionStatusByCode_def entry_def sec_granted_def tokens_lookup [OF Some]
        split: option.split)
qed

lemma entry_set_first:
  assumes "omap_ok (requestedPermData st)" and "map_of (requestedPermData st) t = Some ds"
    and "\<And>d. bp_permCode (f d) = bp_permCode d"
  shows "entry (set_token_list t (update_first (code_is c) f ds) st) t' c' =
    (if t' = t \<and> c' = c then map_option f (entry st t c) else entry st t' c')"
proof -
  have "find (code_is c') (update_first (code_is c) f ds) =
      (if c' = c then map_option f (find (code_is c) ds) else find (code_is c') ds)"
    using find_update_first_same [of "code_is c" f ds] find_update_first_other [of "code_is c" "code_is c'" f ds]
    by (auto simp: code_is_def assms(3))
  then show ?thesis
    using assms(1,2) by (auto simp: entry_def set_token_list_def map_of_omap_insert)
qed

lemma entry_sec_list [simp]: "entry (st\<lparr>secCompList := l\<rparr>) t c = entry st t c"
  by (simp add: entry_def)

lemma sec_granted_set_token [simp]: "sec_granted (set_token_list t ds st) t' c = sec_granted st t' c"
  by (simp add: sec_granted_def)

lemma sec_comp_is_unique: "sec_comp_is t c s \<Longrightarrow> sec_comp_is t' c' s \<Longrightarrow> t' = t \<and> c' = c"
  by (auto simp: sec_comp_is_def)

lemma erase_first_other:
  assumes "\<And>s. P s \<Longrightarrow> \<not> Q s"
  shows "(\<exists>s \<in> set (erase_first P l). Q s) \<longleftrightarrow> (\<exists>s \<in> set l. Q s)"
  using assms by (induction l) auto

lemma sec_granted_updated:
  assumes "(t', c') \<noteq> (t, c)" and "ucast (ucast c :: u16) = c"
  shows "(\<exists>s \<in> set (if add then if find (sec_comp_is t c) l = None
              then l @ [\<lparr>sc_permCode = ucast c, sc_tokenId = t\<rparr>] else l
            else erase_first (sec_comp_is t c) l). sec_comp_is t' c' s) \<longleftrightarrow>
         (\<exists>s \<in> set l. sec_comp_is t' c' s)"
proof -
  have "\<not> sec_comp_is t' c' s" if "sec_comp_is t c s" for s
    using that assms(1) sec_comp_is_unique by blast
  moreover have "\<not> sec_comp_is t' c' \<lparr>sc_permCode = ucast c, sc_tokenId = t\<rparr>"
    using assms by (auto simp: sec_comp_is_def)
  ultimately show ?thesis
    using erase_first_other [of "sec_comp_is t c" "sec_comp_is t' c'" l] by auto
qed

text \<open>An update of the permission \<open>(t, c)\<close> leaves every other permission alone.\<close>

definition only_changes :: "token_id \<Rightarrow> u32 \<Rightarrow> PermissionDataBrief \<Rightarrow> PermissionDataBrief \<Rightarrow> bool" where
  "only_changes t c st st' \<longleftrightarrow> tokens st' = tokens st \<and> extendedValue st' = extendedValue st \<and>
     (\<forall>t' c'. (t', c') \<noteq> (t, c) \<longrightarrow> entry st' t' c' = entry st t' c' \<and> sec_granted st' t' c' = sec_granted st t' c')"

lemma only_changes_refl [simp]: "only_changes t c st st"
  by (simp add: only_changes_def)

lemma only_changes_Verify:
  "only_changes t c st st' \<Longrightarrow> (t', c') \<noteq> (t, c) \<Longrightarrow>
   VerifyPermissionStatusByCode st' t' c' = VerifyPermissionStatusByCode st t' c'"
  by (auto simp: only_changes_def Verify_entry split: option.split)

lemma only_changes_set_first:
  assumes "omap_ok (requestedPermData st)" and "map_of (requestedPermData st) t = Some ds"
    and "\<And>d. bp_permCode (f d) = bp_permCode d"
  shows "only_changes t c st (set_token_list t (update_first (code_is c) f ds) st)"
  using entry_set_first [OF assms] tokens_lookup [OF assms(2)] by (auto simp: only_changes_def)

lemma only_changes_state_list:
  assumes "omap_ok (requestedPermData st)" and "UpdatePermStateList t c g f st = (r, st')"
  shows "only_changes t c st st'"
  using assms only_changes_set_first [OF assms(1)]
  by (auto simp: UpdatePermStateList_def Let_def split: option.splits if_splits)

lemma only_changes_sec_comp:
  assumes "perm_table_ok tbl" and "omap_ok (requestedPermData st)"
    and "TransferPermissionToOpcode tbl name = Some c"
  shows "only_changes t c st (SecCompGrantedPermListUpdated tbl t name add st)"
proof (cases "map_of (requestedPermData st) t")
  case None
  then show ?thesis by (simp add: SecCompGrantedPermListUpdated_def assms(3))
next
  case (Some ds)
  let ?f = "\<lambda>d. d\<lparr>bp_flag := (if add then bp_flag d OR PERMISSION_COMPONENT_SET
                             else bp_flag d AND NOT PERMISSION_COMPONENT_SET)\<rparr>"
  have "ucast (ucast c :: u16) = c" by (rule ucast_code_back [OF opcode_bound [OF assms(1,3)]])
  then show ?thesis
    using sec_granted_updated [of _ _ t c add "secCompList st"] Some
      only_changes_set_first [OF assms(2) Some, of ?f c]
    by (simp add: SecCompGrantedPermListUpdated_def assms(3) Let_def only_changes_def sec_granted_def)
qed

lemma sec_comp_flag: "IsPermGrantedBySecComp (uint (f :: u32)) \<longleftrightarrow> bit f 4"
  by (simp add: IsPermGrantedBySecComp_def Let_def flag_simps)

lemma operated_flag:
  "IsPermOperatedByUser (uint (f :: u32)) \<longleftrightarrow> bit f 1 \<or> bit f 0"
  "IsPermOperatedBySystem (uint f) \<longleftrightarrow> bit f 2 \<or> bit f 3"
  by (simp_all add: IsPermOperatedByUser_def IsPermOperatedBySystem_def Let_def flag_simps)

lemma effective_status:
  "GetEffectivePermissionStatus d =
     (if bit (bp_flag d) 9 then PERMISSION_DENIED else if bit (bp_flag d) 4 then PERMISSION_GRANTED else bp_status d)"
  by (simp add: GetEffectivePermissionStatus_def sec_comp_flag flag_simps)

lemma bit_new_flag: "bit (UpdateWithNewFlag old new) n \<longleftrightarrow> bit new n \<or> n \<in> {3, 9} \<and> bit old n"
proof -
  have "bit (8 OR 512 :: u32) n \<longleftrightarrow> n = 3 \<or> n = 9"
    unfolding bit_or_iff using bit_exp_iff [where 'a = u32, of 3 n] bit_exp_iff [where 'a = u32, of 9 n] by auto
  then show ?thesis by (auto simp: UpdateWithNewFlag_def bit_or_iff bit_and_iff)
qed

lemma IsRestricted_bits:
  "IsRestrictedPermission old new \<longleftrightarrow> bit old 7 \<and> \<not> bit new 7 \<and> \<not> bit new 2 \<and> \<not> bit new 8"
  by (simp add: IsRestrictedPermission_def flag_simps)

lemma component_set_bits:
  "bit ((f :: u32) OR PERMISSION_COMPONENT_SET) n \<longleftrightarrow> bit f n \<or> n = 4"
  "bit (f AND - 17) n \<longleftrightarrow> bit f n \<and> n \<noteq> 4"
proof -
  have neg: "(- 17 :: u32) = NOT PERMISSION_COMPONENT_SET" by simp
  have "bit (16 :: u32) n \<longleftrightarrow> n = 4" for n
    using bit_exp_iff [where 'a = u32, of 4 n] by auto
  moreover have "bit f n \<Longrightarrow> n < 32" for n
    using bit_imp_le_length [of f n] by simp
  ultimately show "bit (f OR PERMISSION_COMPONENT_SET) n \<longleftrightarrow> bit f n \<or> n = 4"
    "bit (f AND - 17) n \<longleftrightarrow> bit f n \<and> n \<noteq> 4"
    unfolding neg bit_or_iff bit_and_iff bit_not_iff by auto
qed

lemmas flag_bits = bit_new_flag component_set_bits IsRestricted_bits operated_flag sec_comp_flag

lemma UpdatePermStateList_entry:
  assumes "omap_ok (requestedPermData st)" and "UpdatePermStateList t c g f st = (r, st')"
  shows "st' = st \<and> r \<noteq> RET_SUCCESS \<or>
    (\<exists>d. entry st t c = Some d \<and> r = RET_SUCCESS \<and> \<not> bit (bp_flag d) 2 \<and> \<not> IsRestrictedPermission (bp_flag d) f \<and>
       (bit f 8 \<longrightarrow> bit (bp_flag d) 7) \<and>
       entry st' t c = Some (d\<lparr>bp_status := (if bit f 8 then bp_status d else if g then PERMISSION_GRANTED else PERMISSION_DENIED),
                             bp_flag := UpdateWithNewFlag (bp_flag d) f\<rparr>))"
proof (cases "map_of (requestedPermData st) t")
  case None
  with assms(2) show ?thesis by (simp add: UpdatePermStateList_def)
next
  case (Some ds)
  show ?thesis
  proof (cases "find (code_is c) ds")
    case None
    with assms(2) Some show ?thesis by (simp add: UpdatePermStateList_def)
  next
    case d: (Some d)
    then have e: "entry st t c = Some d" using Some by (simp add: entry_def)
    let ?s = "if bit f 8 then bp_status d else if g then PERMISSION_GRANTED else PERMISSION_DENIED"
    show ?thesis
      using assms(2) Some d e entry_set_first [OF assms(1) Some,
          of "\<lambda>d. d\<lparr>bp_status := ?s, bp_flag := UpdateWithNewFlag (bp_flag d) f\<rparr>" c]
      by (auto simp: UpdatePermStateList_def Let_def flag_simps split: if_split_asm)
  qed
qed

lemma SecComp_entry:
  assumes "omap_ok (requestedPermData st)" and "TransferPermissionToOpcode tbl name = Some c"
  shows "entry (SecCompGrantedPermListUpdated tbl t name a st) t c =
    map_option (\<lambda>d. d\<lparr>bp_flag := (if a then bp_flag d OR PERMISSION_COMPONENT_SET
                                 else bp_flag d AND NOT PERMISSION_COMPONENT_SET)\<rparr>) (entry st t c)"
proof (cases "map_of (requestedPermData st) t")
  case None
  then show ?thesis by (simp add: SecCompGrantedPermListUpdated_def assms(2) entry_def)
next
  case (Some ds)
  then show ?thesis
    using entry_set_first [OF assms(1) Some]
    by (simp add: SecCompGrantedPermListUpdated_def assms(2) Let_def)
qed

lemma UpdateSecComp_cases:
  assumes "UpdateSecCompGrantedPermList tbl t c g st = (r, st')"
  obtains (unchanged) "st' = st" "r \<in> {RET_SUCCESS, ERR_PERMISSION_RESTRICTED, ERR_PERMISSION_DENIED}"
  | (changed) a where "st' = SecCompGrantedPermListUpdated tbl t (TransferOpcodeToPermission tbl c) a st"
      "r = RET_SUCCESS" "a \<longrightarrow> g"
      "\<And>d. entry st t c = Some d \<Longrightarrow> \<not> bit (bp_flag d) 7 \<and> (a \<longrightarrow> \<not> bit (bp_flag d) 2)"
proof -
  have q: "snd (snd (QueryPermissionStatusAndFlagInner st t c (PERMISSION_DENIED, 0))) =
      (case entry st t c of None \<Rightarrow> 0 | Some d \<Rightarrow> bp_flag d)"
    by (simp add: QueryPermissionStatusAndFlagInner_def entry_def split: option.split)
  show thesis
    using assms q
    by (auto simp: UpdateSecCompGrantedPermList_def Let_def flag_simps operated_flag
        intro: unchanged changed split: if_split_asm prod.splits)
qed

lemma UpdatePermissionStatus_cases:
  assumes "UpdatePermissionStatus tbl t name g f st = (r, ct, st')" and "TransferPermissionToOpcode tbl name = Some c"
  shows "\<not> bit f 4 \<and> UpdatePermStateList t c g f st = (r, st') \<or>
         bit f 4 \<and> UpdateSecCompGrantedPermList tbl t c g st = (r, st')"
  using assms by (simp add: UpdatePermissionStatus_def Let_def sec_comp_flag split: if_split_asm prod.splits)

lemma opcode_back:
  assumes "perm_table_ok tbl" and "TransferPermissionToOpcode tbl name = Some c"
  shows "TransferPermissionToOpcode tbl (TransferOpcodeToPermission tbl c) = Some c"
  using assms opcode_of_index [OF assms(1)]
  by (simp add: TransferOpcodeToPermission_def TransferPermissionToOpcode_iff)

lemma UpdatePermissionStatus_local:
  assumes "perm_table_ok tbl" and "omap_ok (requestedPermData st)"
    and "TransferPermissionToOpcode tbl name = Some c"
    and "UpdatePermissionStatus tbl t name g f st = (r, ct, st')"
  shows "only_changes t c st st' \<and> (r \<noteq> RET_SUCCESS \<longrightarrow> st' = st)"
  using UpdatePermissionStatus_cases [OF assms(4,3)]
proof
  assume "\<not> bit f 4 \<and> UpdatePermStateList t c g f st = (r, st')"
  then show ?thesis
    using only_changes_state_list [OF assms(2)] UpdatePermStateList_entry [OF assms(2)] by blast
next
  assume "bit f 4 \<and> UpdateSecCompGrantedPermList tbl t c g st = (r, st')"
  then have "UpdateSecCompGrantedPermList tbl t c g st = (r, st')" ..
  then show ?thesis
    by (cases rule: UpdateSecComp_cases)
      (simp_all add: only_changes_sec_comp [OF assms(1,2) opcode_back [OF assms(1,3)]])
qed

text \<open>Decisions of the user and of security components, and the reset of them.\<close>

inductive user_step :: "perm_table \<Rightarrow> PermissionDataBrief \<Rightarrow> PermissionDataBrief \<Rightarrow> bool" for tbl where
  us_status: "UpdatePermissionStatus tbl t name g f st = (r, ct, st') \<Longrightarrow> user_step tbl st st'"
| us_reset: "ResetUserGrantPermissionStatus t st = (r, st') \<Longrightarrow> user_step tbl st st'"
| us_clear: "ClearAllSecCompGrantedPerm st = (l, st') \<Longrightarrow> user_step tbl st st'"

lemma Reset_entry:
  assumes "omap_ok (requestedPermData st)" and "ResetUserGrantPermissionStatus t st = (r, st')"
  shows "entry st' t' c = (if t' = t then map_option reset_perm (entry st t c) else entry st t' c)"
proof (cases "map_of (requestedPermData st) t")
  case None
  with assms(2) show ?thesis by (auto simp: ResetUserGrantPermissionStatus_def entry_def)
next
  case (Some ds)
  have "find (code_is c) (map reset_perm ds) = map_option reset_perm (find (code_is c) ds)"
    by (induction ds) (auto simp: code_is_def reset_perm_def Let_def)
  moreover have "st' = ClearAllSecCompGrantedPermById t (set_token_list t (map reset_perm ds) st)"
    using assms(2) Some by (simp add: ResetUserGrantPermissionStatus_def)
  ultimately show ?thesis
    using assms(1) Some
    by (simp add: ClearAllSecCompGrantedPermById_def entry_def set_token_list_def map_of_omap_insert)
qed

lemma reset_perm_restricted: "bit (bp_flag d) 9 \<Longrightarrow> bit (bp_flag (reset_perm d)) 9"
  by (simp add: reset_perm_def Let_def flag_simps bit_or_iff bit_and_iff)

definition restricted :: "PermissionDataBrief \<Rightarrow> token_id \<Rightarrow> u32 \<Rightarrow> bool" where
  "restricted st t c \<longleftrightarrow> (\<exists>d. entry st t c = Some d \<and> bit (bp_flag d) 9)"

lemma restricted_denied: "restricted st t c \<Longrightarrow> VerifyPermissionStatusByCode st t c = PERMISSION_DENIED"
  by (auto simp: restricted_def Verify_entry effective_status)

lemma restricted_update:
  assumes "perm_table_ok tbl" and "omap_ok (requestedPermData st)" and "restricted st t c"
    and "UpdatePermissionStatus tbl t' name g f st = (r, ct, st')"
  shows "restricted st' t c"
proof (cases "TransferPermissionToOpcode tbl name")
  case None
  with assms show ?thesis by (simp add: UpdatePermissionStatus_def)
next
  case (Some c')
  note loc = UpdatePermissionStatus_local [OF assms(1,2) Some assms(4)]
  show ?thesis
  proof (cases "(t, c) = (t', c')")
    case False
    then show ?thesis using assms(3) loc by (auto simp: restricted_def only_changes_def)
  next
    case True
    obtain d where d: "entry st t c = Some d" "bit (bp_flag d) 9"
      using assms(3) by (auto simp: restricted_def)
    from UpdatePermissionStatus_cases [OF assms(4) Some] show ?thesis
    proof
      assume "\<not> bit f 4 \<and> UpdatePermStateList t' c' g f st = (r, st')"
      then show ?thesis
        using UpdatePermStateList_entry [OF assms(2), of t' c' g f r st'] d True assms(3)
        by (auto simp: restricted_def flag_bits)
    next
      assume "bit f 4 \<and> UpdateSecCompGrantedPermList tbl t' c' g st = (r, st')"
      then have "UpdateSecCompGrantedPermList tbl t' c' g st = (r, st')" ..
      then show ?thesis
        using d True assms(3)
        by (cases rule: UpdateSecComp_cases)
          (auto simp: restricted_def SecComp_entry [OF assms(2) opcode_back [OF assms(1) Some]] flag_bits)
    qed
  qed
qed

lemma user_step_restricted:
  assumes "perm_table_ok tbl" and "user_step tbl st st'" and "brief_inv st" and "restricted st t c"
  shows "brief_inv st' \<and> restricted st' t c"
  using assms(2)
proof cases
  case (us_status t' name g f r ct)
  then show ?thesis
    using UpdatePermissionStatus_inv [OF assms(1,3)] restricted_update [OF assms(1) _ assms(4)] assms(3)
    unfolding brief_inv_def by blast
next
  case (us_reset t' r)
  have "omap_ok (requestedPermData st)" using assms(3) by (simp add: brief_inv_def)
  from Reset_entry [OF this us_reset] have "restricted st' t c"
    using assms(4) reset_perm_restricted by (auto simp: restricted_def)
  then show ?thesis using Reset_inv [OF assms(3) us_reset] by blast
next
  case (us_clear l)
  then have "brief_step tbl st st'" by (rule bs_clear)
  from brief_step_inv [OF assms(1) this assms(3)] us_clear assms(4) show ?thesis
    by (auto simp: ClearAllSecCompGrantedPerm_def restricted_def)
qed

lemma same_bits_status:
  assumes "\<And>n. n \<noteq> 4 \<Longrightarrow> bit (bp_flag d') n = bit (bp_flag d) n" and "bp_status d' = bp_status d"
    and "\<not> bit (bp_flag d) 4" and "\<not> bit (bp_flag d') 4"
  shows "GetEffectivePermissionStatus d' = GetEffectivePermissionStatus d"
  using assms by (simp add: effective_status)

lemma fixed_update:
  assumes "perm_table_ok tbl" and "omap_ok (requestedPermData st)"
    and c: "TransferPermissionToOpcode tbl name = Some c"
    and d: "entry st t c = Some d" "bit (bp_flag d) 2" "\<not> bit (bp_flag d) 4"
    and u: "UpdatePermissionStatus tbl t name g f st = (r, ct, st')"
  shows "VerifyPermissionStatusByCode st' t c = VerifyPermissionStatusByCode st t c"
  using UpdatePermissionStatus_cases [OF u c]
proof
  assume "\<not> bit f 4 \<and> UpdatePermStateList t c g f st = (r, st')"
  then show ?thesis using UpdatePermStateList_entry [OF assms(2), of t c g f r st'] d by auto
next
  assume "bit f 4 \<and> UpdateSecCompGrantedPermList tbl t c g st = (r, st')"
  then have "UpdateSecCompGrantedPermList tbl t c g st = (r, st')" ..
  then show ?thesis
  proof (cases rule: UpdateSecComp_cases)
    case (changed a)
    then have "\<not> a" using d by blast
    then have "entry st' t c = Some (d\<lparr>bp_flag := bp_flag d AND NOT PERMISSION_COMPONENT_SET\<rparr>)"
      using d changed by (simp add: SecComp_entry [OF assms(2) opcode_back [OF assms(1) c]])
    then show ?thesis
      using d same_bits_status [of "d\<lparr>bp_flag := bp_flag d AND NOT PERMISSION_COMPONENT_SET\<rparr>" d]
      by (simp add: Verify_entry flag_bits)
  qed simp
qed

lemma admin_fixed_update:
  assumes "omap_ok (requestedPermData st)"
    and c: "TransferPermissionToOpcode tbl name = Some c"
    and d: "entry st t c = Some d" "bit (bp_flag d) 7" "\<not> bit f 7" "\<not> bit f 2" "\<not> bit f 8"
    and u: "UpdatePermissionStatus tbl t name g f st = (r, ct, st')"
  shows "r \<noteq> RET_SUCCESS \<and> st' = st"
  using UpdatePermissionStatus_cases [OF u c]
proof
  assume "\<not> bit f 4 \<and> UpdatePermStateList t c g f st = (r, st')"
  then show ?thesis
    using UpdatePermStateList_entry [OF assms(1), of t c g f r st'] d by (auto simp: flag_bits)
next
  assume "bit f 4 \<and> UpdateSecCompGrantedPermList tbl t c g st = (r, st')"
  moreover have "QueryPermissionStatusAndFlagInner st t c (PERMISSION_DENIED, 0) =
      (RET_SUCCESS, GetEffectivePermissionStatus d, bp_flag d)"
    using d(1) by (auto simp: QueryPermissionStatusAndFlagInner_def entry_def split: option.splits)
  ultimately show ?thesis
    using d(2) by (auto simp: UpdateSecCompGrantedPermList_def Let_def flag_simps)
qed

section \<open>An application update\<close>

lemma update_one_code [simp]: "bp_permCode (update_one p l d) = bp_permCode d"
  by (simp add: update_one_def UpdatePermStatus_def Let_def split: option.split)

lemma find_code_map:
  assumes "\<And>d. bp_permCode (f d) = bp_permCode d"
  shows "find (code_is c) (map f l) = map_option f (find (code_is c) l)"
  by (induction l) (auto simp: code_is_def assms)

lemma Update_entry:
  assumes "omap_ok (requestedPermData st)" and "omap_ok (extendedValue st)" and "entry st t c = Some old"
    and "entry (Update tbl t ss acl p st) t c = Some d"
  obtains new where "bp_permCode new = bp_permCode old"
    and "d = (if p \<and> \<not> bit (bp_flag old) 7 then new else UpdatePermStatus old new)"
proof -
  define fs where "fs = FilterInvalidPermissionState tbl TOKEN_HAP True ss []"
  obtain l st1 where g: "GetPermissionBriefDataList tbl t fs acl [] st = (l, st1)" by fastforce
  have b: "requestedPermData st1 = requestedPermData st"
    using building_list [OF assms(2) g] by (simp add: building_def)
  obtain ds where ds: "map_of (requestedPermData st) t = Some ds" "find (code_is c) ds = Some old"
    using assms(3) by (auto simp: entry_def split: option.splits)
  have "entry (Update tbl t ss acl p st) t c = find (code_is c) (map (update_one p ds) l)"
    using assms(1) b ds(1)
    by (simp add: Update_def fs_def [symmetric] g Let_def GetBriefPermDataByTokenIdInner_def entry_def
        AddBriefPermDataByTokenId_def map_of_omap_insert omap_ok_erase)
  then obtain new where n: "find (code_is c) l = Some new" "d = update_one p ds new"
    using assms(4) by (cases "find (code_is c) l") (simp_all add: find_code_map)
  have code: "ucast (bp_permCode new) = c" "ucast (bp_permCode old) = c"
    using find_Some_iff2 [OF n(1)] find_Some_iff2 [OF ds(2)] by (simp_all add: code_is_def)
  then have same: "bp_permCode new = bp_permCode old" using ucast_code_inject by metis
  have "(\<lambda>o'. bp_permCode new = bp_permCode o') = code_is c"
    using code(1) by (auto simp: code_is_def fun_eq_iff)
  then have "d = (if p \<and> \<not> bit (bp_flag old) 7 then new else UpdatePermStatus old new)"
    using n(2) ds(2) by (simp add: update_one_def flag_simps)
  with same that show thesis by blast
qed

lemma user_decision_kept:
  assumes "bit (bp_flag old) 0 \<or> bit (bp_flag old) 1" and "\<not> bit (bp_flag old) 7" and "\<not> bit (bp_flag old) 8"
  shows "bp_status (UpdatePermStatus old new) = bp_status old"
    and "n \<noteq> 9 \<Longrightarrow> bit (bp_flag (UpdatePermStatus old new)) n = bit (bp_flag old) n"
proof -
  have "bp_flag old \<noteq> 0" "bp_flag old \<noteq> 4" "bp_flag old \<noteq> 8"
    using assms(1) by (auto)
  then have u: "UpdatePermStatus old new = new\<lparr>bp_status := bp_status old,
      bp_flag := bp_flag old AND NOT PERMISSION_RESTRICTED_BY_ADMIN OR bp_flag new AND PERMISSION_RESTRICTED_BY_ADMIN\<rparr>"
    using assms(2,3) by (simp add: UpdatePermStatus_def Let_def flag_simps GetFlagWithoutSpecifiedElement_def)
  then show "bp_status (UpdatePermStatus old new) = bp_status old" by simp
  have "bit (512 :: u32) n \<longleftrightarrow> n = 9" using bit_exp_iff [where 'a = u32, of 9 n] by auto
  then have "bit (x AND NOT 512 OR y AND 512 :: u32) n = bit x n" if "n \<noteq> 9" for x y
    using that bit_imp_le_length [of x n] unfolding bit_or_iff bit_and_iff bit_not_iff by auto
  then show "bit (bp_flag (UpdatePermStatus old new)) n = bit (bp_flag old) n" if "n \<noteq> 9"
    using that by (simp add: u)
qed

section \<open>The list of granted permissions\<close>

lemma entry_of_member:
  assumes "map_of (requestedPermData st) t = Some ds" and "distinct (map bp_permCode ds)" and "d \<in> set ds"
  shows "entry st t (ucast (bp_permCode d)) = Some d"
proof -
  have "code_is (ucast (bp_permCode d)) = (\<lambda>y. bp_permCode y = bp_permCode d)"
    by (auto simp: code_is_def fun_eq_iff)
  then show ?thesis using find_distinct_key [OF assms(2,3)] assms(1) by (simp add: entry_def)
qed

lemma granted_codes:
  assumes "map_of (requestedPermData st) t = Some ds"
    and "token_type_of (id_type (of_token_id t)) = TOKEN_HAP"
  shows "c \<in> set (GetGrantedPermCodeList st t l) \<longleftrightarrow>
     c \<in> set l \<or> (\<exists>d \<in> set ds. ucast (bp_permCode d) = c \<and> GetEffectivePermissionStatus d = PERMISSION_GRANTED) \<or>
     sec_granted st t c"
  using assms by (auto simp: GetGrantedPermCodeList_def Let_def sec_granted_def sec_comp_is_def)

lemma granted_codes_complete:
  assumes "token_type_of (id_type (of_token_id t)) = TOKEN_HAP"
    and "VerifyPermissionStatusByCode st t c = PERMISSION_GRANTED"
  shows "c \<in> set (GetGrantedPermCodeList st t [])"
proof (cases "map_of (requestedPermData st) t")
  case None
  with assms(2) show ?thesis by (simp add: VerifyPermissionStatusByCode_def)
next
  case (Some ds)
  have "sec_granted st t c" if "find (code_is c) ds = None"
    using that assms(2) Some
    by (auto simp: VerifyPermissionStatusByCode_def sec_granted_def split: if_splits)
  moreover have "\<exists>d \<in> set ds. ucast (bp_permCode d) = c \<and> GetEffectivePermissionStatus d = PERMISSION_GRANTED"
    if "find (code_is c) ds = Some d" for d
    using that assms(2) Some find_Some_iff2 [OF that]
    by (auto simp: VerifyPermissionStatusByCode_def code_is_def)
  ultimately show ?thesis
    unfolding granted_codes [OF Some assms(1)] by (cases "find (code_is c) ds") auto
qed

section \<open>Restart\<close>

text \<open>An entry that the code itself would have built from the table.\<close>

definition entry_valid :: "perm_table \<Rightarrow> BriefPermData \<Rightarrow> bool" where
  "entry_valid tbl d \<longleftrightarrow>
     unat (bp_permCode d) < length tbl \<and>
     IsPermissionNameValid (bd_permissionName (tbl ! unat (bp_permCode d))) \<and>
     IsGrantStatusValid (bp_status d) \<and> IsPermissionFlagValid (bp_flag d) \<and>
     bp_type d = (let def = tbl ! unat (bp_permCode d) in
       (if bd_isKernelEffect def then IS_KERNEL_EFFECT else 0) OR (if bd_hasValue def then HAS_VALUE else 0))"

definition restarted :: "BriefPermData \<Rightarrow> BriefPermData" where
  "restarted d = d\<lparr>bp_status := (if bit (bp_flag d) 6 then PERMISSION_DENIED else bp_status d),
                  bp_flag := GetFlagWroteToDb (bp_flag d)\<rparr>"

definition no_status :: PermissionStatus where
  "no_status = \<lparr>ps_tokenID = 0, ps_permissionName = [], ps_feature = [], ps_grantStatus = 0, ps_grantFlag = 0,
     ps_timestamp = 0\<rparr>"

lemma state_row_cells:
  assumes "IsGrantStatusValid (bp_status d)"
  shows "row_ok (state_row tbl now t old d)"
    and "map_of (state_row tbl now t old d) FIELD_PERMISSION_NAME =
      Some (TYPE_STRING (TransferOpcodeToPermission tbl (ucast (bp_permCode d))))"
    and "map_of (state_row tbl now t old d) FIELD_GRANT_FLAG = Some (TYPE_INT (sint (bp_flag d)))"
    and "map_of (state_row tbl now t old d) FIELD_GRANT_STATE = Some (TYPE_INT (bp_status d))"
proof -
  have s: "i32 (bp_status d) = bp_status d"
    using assms by (auto simp: IsGrantStatusValid_def)
  let ?g = "PutString FIELD_DEVICE_ID ''PHONE-001''
     (snd (PermissionStatusIntoGenericValues (GetPermissionStatus tbl now d) (PutInt FIELD_TOKEN_ID (sint t) [])))"
  let ?h = "\<lambda>x. PutInt64 FIELD_TIMESTAMP x (Remove FIELD_TIMESTAMP ?g)"
  note row = row_ok_Put row_ok_Nil column_types s sint_cell
  have g: "row_ok ?g"
    "map_of ?g FIELD_PERMISSION_NAME = Some (TYPE_STRING (TransferOpcodeToPermission tbl (ucast (bp_permCode d))))"
    "map_of ?g FIELD_GRANT_FLAG = Some (TYPE_INT (sint (bp_flag d)))"
    "map_of ?g FIELD_GRANT_STATE = Some (TYPE_INT (bp_status d))"
    by (simp_all add: PermissionStatusIntoGenericValues_def GetPermissionStatus_def puts_as_Put map_of_Put_row row)
  have r: "row_ok (Remove FIELD_TIMESTAMP ?g)"
    using g(1) by (auto simp: row_ok_def Remove_def omap_ok_erase omap_erase_def)
  have h: "row_ok (?h x)"
    "map_of (?h x) FIELD_PERMISSION_NAME = map_of ?g FIELD_PERMISSION_NAME"
    "map_of (?h x) FIELD_GRANT_FLAG = map_of ?g FIELD_GRANT_FLAG"
    "map_of (?h x) FIELD_GRANT_STATE = map_of ?g FIELD_GRANT_STATE" for x
    using r by (simp_all add: puts_as_Put map_of_Put_row row_ok_Put column_types Remove_def map_of_omap_erase)
  have "state_row tbl now t old d = ?g \<or> (\<exists>x. state_row tbl now t old d = ?h x)"
    by (auto simp: state_row_def Let_def split: option.split)
  then show "row_ok (state_row tbl now t old d)"
    "map_of (state_row tbl now t old d) FIELD_PERMISSION_NAME =
      Some (TYPE_STRING (TransferOpcodeToPermission tbl (ucast (bp_permCode d))))"
    "map_of (state_row tbl now t old d) FIELD_GRANT_FLAG = Some (TYPE_INT (sint (bp_flag d)))"
    "map_of (state_row tbl now t old d) FIELD_GRANT_STATE = Some (TYPE_INT (bp_status d))"
    by (elim disjE exE; simp only: g h)+
qed

lemma unat_code [simp]: "unat (ucast (c :: u16) :: u32) = unat c"
proof -
  have "unat c < 2 ^ 16" using unsigned_less [of c] by simp
  then show ?thesis by (simp add: unsigned_ucast_eq take_bit_nat_eq_self)
qed

lemma code_index:
  assumes "unat (c :: u16) < length tbl"
  shows "unat (ucast c :: u32) < length tbl" "TransferOpcodeToPermission tbl (ucast c) = bd_permissionName (tbl ! unat c)"
  using assms by (simp_all add: TransferOpcodeToPermission_def)

lemma translate_state_row:
  assumes "entry_valid tbl d"
  obtains ts where "TranslationIntoPermissionStatus (reload (state_row tbl now t old d)) no_status =
    (RET_SUCCESS, no_status\<lparr>ps_permissionName := bd_permissionName (tbl ! unat (bp_permCode d)),
       ps_grantFlag := bp_flag d, ps_grantStatus := bp_status (restarted d), ps_timestamp := ts\<rparr>)"
proof -
  let ?m = "state_row tbl now t old d"
  have v: "IsGrantStatusValid (bp_status d)" "IsPermissionFlagValid (bp_flag d)"
    "IsPermissionNameValid (bd_permissionName (tbl ! unat (bp_permCode d)))"
    "unat (bp_permCode d) < length tbl"
    using assms by (simp_all add: entry_valid_def)
  note cells = state_row_cells [OF v(1), of tbl now t old]
  note get = reload_gets [OF row_ok_omap [OF cells(1)]]
  have "GetString (reload ?m) FIELD_PERMISSION_NAME = bd_permissionName (tbl ! unat (bp_permCode d))"
    "GetInt (reload ?m) FIELD_GRANT_FLAG = sint (bp_flag d)"
    "GetInt (reload ?m) FIELD_GRANT_STATE = bp_status d"
    using cells get code_index [OF v(4)] by (simp_all add: row_ok_def typed_gets Get_def)
  then show thesis
    using v by (intro that [of "word_of_int (GetInt64 (reload ?m) FIELD_TIMESTAMP)"])
      (simp add: TranslationIntoPermissionStatus_def Let_def flag_simps no_status_def restarted_def)
qed

lemma restored_brief_data:
  assumes "perm_table_ok tbl" and "entry_valid tbl d"
  obtains st' where "GetPermissionBriefData tbl t (no_status\<lparr>ps_permissionName := bd_permissionName (tbl ! unat (bp_permCode d)),
       ps_grantFlag := bp_flag d, ps_grantStatus := bp_status (restarted d), ps_timestamp := ts\<rparr>) acl st =
    (Some ((restarted d)\<lparr>bp_flag := bp_flag d\<rparr>), st')"
proof -
  have lt: "unat (bp_permCode d) < length tbl" using assms(2) by (simp add: entry_valid_def)
  have opc: "TransferPermissionToOpcode tbl (bd_permissionName (tbl ! unat (bp_permCode d))) = Some (ucast (bp_permCode d))"
    using opcode_of_index [OF assms(1) code_index(1) [OF lt]] by simp
  have u16: "(ucast (ucast (bp_permCode d) :: u32) :: u16) = bp_permCode d"
    by (rule bit_word_eqI) (simp add: bit_ucast_iff)
  have st: "IsGrantStatusValid (bp_status (restarted d))"
    using assms(2) by (auto simp: entry_valid_def restarted_def IsGrantStatusValid_def)
  have "fst (GetPermissionBriefData tbl t (no_status\<lparr>ps_permissionName := bd_permissionName (tbl ! unat (bp_permCode d)),
       ps_grantFlag := bp_flag d, ps_grantStatus := bp_status (restarted d), ps_timestamp := ts\<rparr>) acl st) =
    Some ((restarted d)\<lparr>bp_flag := bp_flag d\<rparr>)"
    using st assms(2) opc u16
    by (cases d) (auto simp: GetPermissionBriefData_def Let_def entry_valid_def restarted_def)
  then show thesis using that by (metis prod.collapse)
qed

lemma Merge_new:
  assumes "bp_permCode d \<notin> bp_permCode ` set l"
  shows "MergePermBriefData l ((restarted d)\<lparr>bp_flag := bp_flag d\<rparr>) = l @ [restarted d]"
proof -
  have "find (\<lambda>x. bp_permCode d = bp_permCode x) l = None"
    using assms by (auto simp: find_None_iff)
  then show ?thesis by (simp add: MergePermBriefData_def Let_def restarted_def)
qed

lemma restore_loop_rows:
  assumes "perm_table_ok tbl" and "\<forall>d \<in> set ds. entry_valid tbl d" and "distinct (map bp_permCode (l @ ds))"
  shows "fst (restore_loop tbl t acl (map (\<lambda>d. reload (state_row tbl now t old d)) ds) l st) = l @ map restarted ds"
  using assms(2,3)
proof (induction ds arbitrary: l st)
  case (Cons d ds)
  have v: "entry_valid tbl d" using Cons.prems by simp
  obtain ts where ts: "TranslationIntoPermissionStatus (reload (state_row tbl now t old d)) no_status =
    (RET_SUCCESS, no_status\<lparr>ps_permissionName := bd_permissionName (tbl ! unat (bp_permCode d)),
       ps_grantFlag := bp_flag d, ps_grantStatus := bp_status (restarted d), ps_timestamp := ts\<rparr>)"
    by (rule translate_state_row [OF v])
  obtain st' where st': "GetPermissionBriefData tbl t (no_status\<lparr>ps_permissionName := bd_permissionName (tbl ! unat (bp_permCode d)),
       ps_grantFlag := bp_flag d, ps_grantStatus := bp_status (restarted d), ps_timestamp := ts\<rparr>) acl st =
    (Some ((restarted d)\<lparr>bp_flag := bp_flag d\<rparr>), st')"
    by (rule restored_brief_data [OF assms(1) v])
  have m: "MergePermBriefData l ((restarted d)\<lparr>bp_flag := bp_flag d\<rparr>) = l @ [restarted d]"
    using Cons.prems by (intro Merge_new) auto
  have "distinct (map bp_permCode ((l @ [restarted d]) @ ds))"
    using Cons.prems by (simp add: restarted_def)
  then show ?case
    using Cons.IH [of "l @ [restarted d]" st'] Cons.prems ts st' m
    by (simp add: no_status_def [symmetric])
qed simp

lemma restore_rows:
  assumes "perm_table_ok tbl" and "brief_inv st" and "map_of (requestedPermData st) t = Some ds"
    and "\<forall>d \<in> set ds. entry_valid tbl d" and "distinct (map bp_permCode ds)"
    and "BuildPermissionStateValues tbl now st t old [] = (RET_SUCCESS, rows)"
    and "permStateRes t = Some (map reload rows)" and "fst (TranslationIntoAclExtendedMap t ext []) = RET_SUCCESS"
    and "brief_inv st0"
  shows "map_of (requestedPermData (RestorePermissionBriefData tbl t permStateRes ext st0)) t = Some (map restarted ds)"
proof -
  obtain acl where acl: "TranslationIntoAclExtendedMap t ext [] = (RET_SUCCESS, acl)"
    using assms(8) by (cases "TranslationIntoAclExtendedMap t ext []") auto
  have rows: "map reload rows = map (\<lambda>d. reload (state_row tbl now t old d)) ds"
    using assms(3,6) by (auto simp: BuildPermissionStateValues_def GetBriefPermDataByTokenIdInner_def)
  obtain st1 where l: "restore_loop tbl t acl (map reload rows) [] st0 = (map restarted ds, st1)"
    using restore_loop_rows [OF assms(1,4), of "[]" t acl now old st0] assms(5) rows
    by (metis append_Nil prod.collapse)
  have "omap_ok (requestedPermData st1)"
    using building_restore [OF _ l] assms(9) by (simp add: building_def brief_inv_def)
  then show ?thesis
    by (simp add: RestorePermissionBriefData_def acl assms(7) l AddBriefPermDataByTokenId_def map_of_omap_insert
        omap_ok_erase)
qed

section \<open>Sample data\<close>

text \<open>A table of two permissions and an application token that requests the first, used to show that
  the hypotheses of the properties below can hold.\<close>

definition sample_def :: PermissionBriefDef where
  "sample_def = \<lparr>bd_permissionName = ''ohos.permission.CAMERA'', bd_grantMode = USER_GRANT,
     bd_availableLevel = APL_NORMAL, bd_availableType = NORMAL, bd_provisionEnable = True,
     bd_distributedSceneEnable = False, bd_isKernelEffect = False, bd_hasValue = False,
     bd_isEnable = True, bd_provisionBypassForSideload = False\<rparr>"

definition sample_table :: perm_table where
  "sample_table = [sample_def, sample_def\<lparr>bd_permissionName := ''ohos.permission.NFC''\<rparr>]"

definition sample_entry :: "int \<Rightarrow> u32 \<Rightarrow> BriefPermData" where
  "sample_entry s f = \<lparr>bp_status = s, bp_type = 0, bp_permCode = 0, bp_flag = f\<rparr>"

definition sample_store :: "int \<Rightarrow> u32 \<Rightarrow> PermissionDataBrief" where
  "sample_store s f = \<lparr>requestedPermData = [(0x20000001, [sample_entry s f])], extendedValue = [], secCompList = []\<rparr>"

lemma sample_table_ok: "perm_table_ok sample_table"
  by (simp add: perm_table_ok_def sample_table_def sample_def_def)

lemma sample_opcode:
  "TransferPermissionToOpcode sample_table ''ohos.permission.CAMERA'' = Some 0"
  "TransferPermissionToOpcode sample_table ''ohos.permission.NFC'' = Some 1"
  by (simp_all add: TransferPermissionToOpcode_iff [OF sample_table_ok])
    (simp_all add: sample_table_def sample_def_def)

lemma sample_name: "TransferOpcodeToPermission sample_table 0 = ''ohos.permission.CAMERA''"
  by (simp add: TransferOpcodeToPermission_def sample_table_def sample_def_def)

lemma sample_inv: "brief_inv (sample_store s f)"
  by (simp add: sample_store_def brief_inv_def tokens_def value_tokens_def sec_comp_tokens_def)

lemma sample_store_entry: "entry (sample_store s f) 0x20000001 0 = Some (sample_entry s f)"
  by (simp add: entry_def sample_store_def code_is_def sample_entry_def)

lemma sample_lookup:
  "map_of (requestedPermData (sample_store s f)) 0x20000001 = Some [sample_entry s f]"
  "code_is 0 (sample_entry s f)" "secCompList (sample_store s f) = []"
  by (simp_all add: sample_store_def sample_entry_def code_is_def)

section \<open>Properties\<close>

text \<open>C2. The store never holds data of a token it does not know: after any sequence of the
  operations that change it, every extended value and every security-component grant belongs to a
  token with a permission list, no such grant is recorded twice, and deleting a token removes its
  list, its values and its grants, so that every permission of it is denied.\<close>

theorem no_orphan_permission_data:
  assumes "perm_table_ok tbl" and "(brief_step tbl)\<^sup>*\<^sup>* init_brief st"
  shows "value_tokens st \<subseteq> tokens st \<and> sec_comp_tokens st \<subseteq> tokens st \<and> distinct (secCompList st) \<and>
    (\<forall>t st'. DeleteBriefPermDataByTokenId t st = (RET_SUCCESS, st') \<longrightarrow>
       t \<notin> tokens st' \<and> t \<notin> value_tokens st' \<and> t \<notin> sec_comp_tokens st' \<and>
       (\<forall>c. VerifyPermissionStatusByCode st' t c = PERMISSION_DENIED))"
proof -
  have "brief_inv init_brief"
    by (simp add: brief_inv_def init_brief_def tokens_def value_tokens_def sec_comp_tokens_def)
  with assms(2) have "brief_inv st"
    by (induction rule: rtranclp_induct) (auto intro: brief_step_inv [OF assms(1)])
  moreover have "VerifyPermissionStatusByCode st' t c = PERMISSION_DENIED" if "t \<notin> tokens st'" for t st' c
  proof -
    have "map_of (requestedPermData st') t = None" using that by (simp add: tokens_def map_of_eq_None_iff)
    then show ?thesis by (simp add: VerifyPermissionStatusByCode_def)
  qed
  ultimately show ?thesis
    using Delete_result by (auto simp: brief_inv_def)
qed

theorem no_orphan_permission_data_witness:
  "let st = AddPermToBriefPermission sample_table 0x20000001 [] [] False init_brief
   in 0x20000001 \<in> tokens st \<and> value_tokens st \<subseteq> tokens st \<and>
      0x20000001 \<notin> tokens (snd (DeleteBriefPermDataByTokenId 0x20000001 st))"
proof -
  let ?st = "AddPermToBriefPermission sample_table 0x20000001 [] [] False init_brief"
  have r: "(brief_step sample_table)\<^sup>*\<^sup>* init_brief ?st"
    using bs_add by (rule r_into_rtranclp)
  have t: "0x20000001 \<in> tokens ?st"
    by (simp add: AddPermToBriefPermission_def GetPermissionBriefDataList_def Let_def tokens_AddBrief)
  then have "fst (DeleteBriefPermDataByTokenId 0x20000001 ?st) = RET_SUCCESS"
    by (auto simp: DeleteBriefPermDataByTokenId_def tokens_def map_of_eq_None_iff split: option.split)
  then have "DeleteBriefPermDataByTokenId 0x20000001 ?st = (RET_SUCCESS, snd (DeleteBriefPermDataByTokenId 0x20000001 ?st))"
    by (simp add: prod_eq_iff)
  with no_orphan_permission_data [OF sample_table_ok r] t show ?thesis by simp
qed

text \<open>C1. A restriction by the administrator holds: while the flag \<open>PERMISSION_RESTRICTED_BY_ADMIN\<close> of
  a requested permission is set, no sequence of grants, revocations, security-component changes and
  resets lifts it; every verification answers denied.\<close>

theorem admin_restriction_holds:
  assumes "perm_table_ok tbl" and "brief_inv st" and "entry st t c = Some d"
    and "bp_flag d AND PERMISSION_RESTRICTED_BY_ADMIN \<noteq> 0" and "(user_step tbl)\<^sup>*\<^sup>* st st'"
  shows "VerifyPermissionStatusByCode st' t c = PERMISSION_DENIED"
proof -
  have "restricted st t c" using assms(3,4) by (simp add: restricted_def flag_simps)
  with assms(5,2) have "brief_inv st' \<and> restricted st' t c"
    by (induction rule: rtranclp_induct) (auto dest: user_step_restricted [OF assms(1)])
  then show ?thesis by (simp add: restricted_denied)
qed

theorem admin_restriction_holds_witness:
  "VerifyPermissionStatusByCode (snd (snd (UpdatePermissionStatus sample_table 0x20000001
     ''ohos.permission.CAMERA'' True PERMISSION_USER_FIXED (sample_store PERMISSION_DENIED 512)))) 0x20000001 0 =
   PERMISSION_DENIED"
proof -
  let ?u = "UpdatePermissionStatus sample_table 0x20000001 ''ohos.permission.CAMERA'' True PERMISSION_USER_FIXED
     (sample_store PERMISSION_DENIED 512)"
  obtain r ct st' where u: "?u = (r, ct, st')" by (metis prod.collapse)
  have "(user_step sample_table)\<^sup>*\<^sup>* (sample_store PERMISSION_DENIED 512) st'"
    using us_status [OF u] by (rule r_into_rtranclp)
  from admin_restriction_holds [OF sample_table_ok sample_inv sample_store_entry _ this] show ?thesis
    by (simp add: u sample_entry_def)
qed



text \<open>C13. Fixed permissions stay as they are. A permission fixed by the system that no security
  component holds keeps its verification answer whatever update is asked for, and one fixed by
  administrator policy rejects every update whose flag is neither an administrator flag nor the
  system flag, leaving the store unchanged.\<close>

theorem fixed_permissions_keep_state:
  assumes "perm_table_ok tbl" and "brief_inv st" and "TransferPermissionToOpcode tbl name = Some c"
    and "entry st t c = Some d" and "UpdatePermissionStatus tbl t name isGranted flag st = (r, ct, st')"
  shows "(bp_flag d AND PERMISSION_SYSTEM_FIXED \<noteq> 0 \<and> bp_flag d AND PERMISSION_COMPONENT_SET = 0 \<longrightarrow>
      VerifyPermissionStatusByCode st' t c = VerifyPermissionStatusByCode st t c) \<and>
    (bp_flag d AND PERMISSION_FIXED_BY_ADMIN_POLICY \<noteq> 0 \<and> flag AND PERMISSION_FIXED_BY_ADMIN_POLICY = 0 \<and>
     flag AND PERMISSION_SYSTEM_FIXED = 0 \<and> flag AND PERMISSION_ADMIN_POLICIES_CANCEL = 0 \<longrightarrow>
      r \<noteq> RET_SUCCESS \<and> st' = st)"
proof -
  have "omap_ok (requestedPermData st)" using assms(2) by (simp add: brief_inv_def)
  then show ?thesis
    using fixed_update [OF assms(1) _ assms(3,4) _ _ assms(5)] admin_fixed_update [OF _ assms(3,4) _ _ _ _ assms(5)]
    by (simp add: flag_simps)
qed

theorem fixed_permissions_keep_state_witness:
  "snd (snd (UpdatePermissionStatus sample_table 0x20000001 ''ohos.permission.CAMERA'' True
      PERMISSION_USER_FIXED (sample_store PERMISSION_DENIED 128))) = sample_store PERMISSION_DENIED 128"
proof -
  obtain r ct st' where u: "UpdatePermissionStatus sample_table 0x20000001 ''ohos.permission.CAMERA'' True
      PERMISSION_USER_FIXED (sample_store PERMISSION_DENIED 128) = (r, ct, st')"
    by (metis prod.collapse)
  from fixed_permissions_keep_state [OF sample_table_ok sample_inv sample_opcode(1) sample_store_entry u] u
  show ?thesis by (simp add: sample_entry_def)
qed


lemma sample_update:
  "entry (Update sample_table 0x20000001 [no_status\<lparr>ps_permissionName := ''ohos.permission.CAMERA''\<rparr>] [] False
     (sample_store PERMISSION_DENIED 2)) 0x20000001 0 =
   Some (UpdatePermStatus (sample_entry PERMISSION_DENIED 2) (sample_entry PERMISSION_GRANTED 0))"
proof -
  let ?s = "no_status\<lparr>ps_permissionName := ''ohos.permission.CAMERA''\<rparr>"
  let ?st = "sample_store PERMISSION_DENIED 2"
  have n: "sample_table ! 0 = sample_def" by (simp add: sample_table_def)
  have f: "FilterInvalidPermissionState sample_table TOKEN_HAP True [?s] [] = [?s]"
    by (simp add: FilterInvalidPermissionState_def no_status_def IsPermissionAvailable_def IsPermissionValidForHap_def
        sample_opcode n IsPermissionStateValid_def IsPermissionNameValid_def IsGrantStatusValid_def
        IsPermissionFlagValid_def) (simp add: sample_def_def)
  have "GetPermissionBriefDataList sample_table 0x20000001 [?s] [] [] ?st = ([sample_entry PERMISSION_GRANTED 0], ?st)"
    by (simp add: GetPermissionBriefDataList_def GetPermissionBriefData_def DeleteExtendedValue_def no_status_def
        IsGrantStatusValid_def Let_def sample_opcode n)
      (simp add: sample_def_def sample_entry_def sample_store_def)
  then show ?thesis
    by (simp add: Update_def f Let_def GetBriefPermDataByTokenIdInner_def sample_lookup AddBriefPermDataByTokenId_def
        entry_def update_one_def map_of_omap_insert omap_ok_erase)
      (simp add: sample_store_def sample_entry_def UpdatePermStatus_def code_is_def Let_def omap_erase_def)
qed


text \<open>C15. For an application, the list of granted codes that is handed to the kernel contains every
  permission that verification would grant. When the permissions are requested once each and
  security components hold only permissions the application did not request, it contains exactly
  those.\<close>

theorem granted_list_matches_verification:
  assumes "token_type_of (id_type (of_token_id t)) = TOKEN_HAP"
  shows "(VerifyPermissionStatusByCode st t c = PERMISSION_GRANTED \<longrightarrow> c \<in> set (GetGrantedPermCodeList st t [])) \<and>
    (\<forall>ds. map_of (requestedPermData st) t = Some ds \<and> distinct (map bp_permCode ds) \<and>
       (\<forall>d \<in> set ds. \<not> sec_granted st t (ucast (bp_permCode d))) \<longrightarrow>
       (c \<in> set (GetGrantedPermCodeList st t []) \<longleftrightarrow> VerifyPermissionStatusByCode st t c = PERMISSION_GRANTED))"
proof (intro conjI allI impI)
  assume "VerifyPermissionStatusByCode st t c = PERMISSION_GRANTED"
  then show "c \<in> set (GetGrantedPermCodeList st t [])" by (rule granted_codes_complete [OF assms])
next
  fix ds assume *: "map_of (requestedPermData st) t = Some ds \<and> distinct (map bp_permCode ds) \<and>
    (\<forall>d \<in> set ds. \<not> sec_granted st t (ucast (bp_permCode d)))"
  then have ds: "map_of (requestedPermData st) t = Some ds" by blast
  have none: "entry st t c = None" if "sec_granted st t c"
    using * that by (auto simp: entry_def find_None_iff code_is_def)
  have "VerifyPermissionStatusByCode st t c = PERMISSION_GRANTED" if "c \<in> set (GetGrantedPermCodeList st t [])"
    using that * entry_of_member [OF ds] none tokens_lookup [OF ds]
    unfolding granted_codes [OF ds assms] by (auto simp: Verify_entry)
  then show "c \<in> set (GetGrantedPermCodeList st t []) \<longleftrightarrow> VerifyPermissionStatusByCode st t c = PERMISSION_GRANTED"
    using granted_codes_complete [OF assms] by blast
qed

theorem granted_list_matches_verification_witness:
  "0 \<in> set (GetGrantedPermCodeList (sample_store PERMISSION_GRANTED 2) 0x20000001 [])"
proof -
  have "token_type_of (id_type (of_token_id 0x20000001)) = TOKEN_HAP" by code_simp
  moreover have "VerifyPermissionStatusByCode (sample_store PERMISSION_GRANTED 2) 0x20000001 0 = PERMISSION_GRANTED"
    by (simp add: Verify_entry sample_store_entry effective_status) (simp add: sample_entry_def)
  ultimately show ?thesis using granted_list_matches_verification by blast
qed

text \<open>C3. The permission states of a token survive a restart. Writing them to database rows, storing
  and reloading the rows and restoring the token from them succeeds and gives back every entry, with
  two changes: a grant by a security component is forgotten, and a permission allowed for this time
  only is denied.\<close>

theorem permission_states_survive_restart:
  assumes "perm_table_ok tbl" and "brief_inv st" and "map_of (requestedPermData st) t = Some ds"
    and "\<forall>d \<in> set ds. entry_valid tbl d" and "distinct (map bp_permCode ds)"
    and "fst (TranslationIntoAclExtendedMap t ext []) = RET_SUCCESS" and "brief_inv st0"
    and "permStateRes t = Some (map reload (snd (BuildPermissionStateValues tbl now st t old [])))"
  shows "fst (BuildPermissionStateValues tbl now st t old []) = RET_SUCCESS \<and>
    map_of (requestedPermData (RestorePermissionBriefData tbl t permStateRes ext st0)) t = Some (map restarted ds)"
proof -
  have ok: "fst (BuildPermissionStateValues tbl now st t old []) = RET_SUCCESS"
    using assms(3) by (simp add: BuildPermissionStateValues_def GetBriefPermDataByTokenIdInner_def)
  then have "BuildPermissionStateValues tbl now st t old [] =
      (RET_SUCCESS, snd (BuildPermissionStateValues tbl now st t old []))"
    by (simp add: prod_eq_iff)
  from restore_rows [where permStateRes = permStateRes and t = t, OF assms(1-5) this assms(8,6,7)] ok show ?thesis by blast
qed

theorem permission_states_survive_restart_witness:
  "map_of (requestedPermData (RestorePermissionBriefData sample_table 0x20000001
     (\<lambda>_. Some (map reload (snd (BuildPermissionStateValues sample_table 5 (sample_store PERMISSION_GRANTED 64)
        0x20000001 [] [])))) (\<lambda>_. None) init_brief)) 0x20000001 =
   Some [sample_entry PERMISSION_DENIED 64]"
proof -
  have "\<forall>d \<in> set [sample_entry PERMISSION_GRANTED 64]. entry_valid sample_table d"
    by (simp add: entry_valid_def sample_entry_def sample_table_def sample_def_def IsPermissionNameValid_def
        IsGrantStatusValid_def IsPermissionFlagValid_def)
  moreover have "brief_inv init_brief"
    by (simp add: brief_inv_def init_brief_def tokens_def value_tokens_def sec_comp_tokens_def)
  ultimately show ?thesis
    using permission_states_survive_restart [OF sample_table_ok sample_inv sample_lookup(1),
        of PERMISSION_GRANTED 64 "\<lambda>_. None" init_brief
        "\<lambda>_. Some (map reload (snd (BuildPermissionStateValues sample_table 5 (sample_store PERMISSION_GRANTED 64)
          0x20000001 [] [])))" 5 "[]"]
    by (simp add: TranslationIntoAclExtendedMap_def restarted_def GetFlagWroteToDb_def
        GetFlagWithoutSpecifiedElement_def sample_entry_def)
qed

section \<open>Where the three stores of a component grant disagree\<close>

text \<open>A requested permission that a security component granted, and that the user then revoked.\<close>

definition component_granted :: PermissionDataBrief where
  "component_granted = snd (snd (UpdatePermissionStatus sample_table 0x20000001 ''ohos.permission.CAMERA'' True
     PERMISSION_COMPONENT_SET (sample_store PERMISSION_DENIED 0)))"

lemma UpdatePermissionStatus_result:
  assumes "TransferPermissionToOpcode tbl name = Some c"
  shows "snd (snd (UpdatePermissionStatus tbl t name g f st)) =
    snd (if \<not> bit f 4 then UpdatePermStateList t c g f st else UpdateSecCompGrantedPermList tbl t c g st)"
  by (simp add: UpdatePermissionStatus_def assms sec_comp_flag Let_def split_beta)

lemma component_granted_eq:
  "component_granted = (sample_store PERMISSION_DENIED 16)\<lparr>secCompList := [\<lparr>sc_permCode = 0, sc_tokenId = 0x20000001\<rparr>]\<rparr>"
proof -
  have "QueryPermissionStatusAndFlagInner (sample_store PERMISSION_DENIED 0) 0x20000001 0 (PERMISSION_DENIED, 0) =
      (RET_SUCCESS, PERMISSION_DENIED, 0)"
    by (simp add: QueryPermissionStatusAndFlagInner_def sample_lookup effective_status) (simp add: sample_entry_def)
  then have "component_granted = SecCompGrantedPermListUpdated sample_table 0x20000001 ''ohos.permission.CAMERA'' True
      (sample_store PERMISSION_DENIED 0)"
    by (simp add: component_granted_def UpdatePermissionStatus_result [OF sample_opcode(1)]
        UpdateSecCompGrantedPermList_def operated_flag [of 0, simplified] IsPermOperatedByUser_def
        IsPermOperatedBySystem_def sample_name)
  then show ?thesis
    by (simp add: SecCompGrantedPermListUpdated_def sample_opcode sample_lookup Let_def)
      (simp add: sample_entry_def sample_store_def set_token_list_def)
qed

lemma revoked_component_grant_still_listed:
  "let st = snd (snd (UpdatePermissionStatus sample_table 0x20000001 ''ohos.permission.CAMERA'' False
       PERMISSION_USER_FIXED component_granted))
   in VerifyPermissionStatusByCode st 0x20000001 0 = PERMISSION_DENIED \<and>
      0 \<in> set (GetGrantedPermCodeList st 0x20000001 [])"
proof -
  let ?l = "[\<lparr>sc_permCode = 0, sc_tokenId = 0x20000001\<rparr>]"
  have st: "snd (snd (UpdatePermissionStatus sample_table 0x20000001 ''ohos.permission.CAMERA'' False
       PERMISSION_USER_FIXED component_granted)) = (sample_store PERMISSION_DENIED 2)\<lparr>secCompList := ?l\<rparr>"
    unfolding UpdatePermissionStatus_result [OF sample_opcode(1)] component_granted_eq
    by (simp add: UpdatePermStateList_def sample_entry_def sample_store_def code_is_def IsRestrictedPermission_def
        UpdateWithNewFlag_def set_token_list_def)
  have hap: "token_type_of (id_type (of_token_id 0x20000001)) = TOKEN_HAP" by code_simp
  have "VerifyPermissionStatusByCode ((sample_store PERMISSION_DENIED 2)\<lparr>secCompList := ?l\<rparr>) 0x20000001 0 = PERMISSION_DENIED"
    by (simp add: Verify_entry sample_store_entry effective_status) (simp add: sample_entry_def)
  moreover have "0 \<in> set (GetGrantedPermCodeList ((sample_store PERMISSION_DENIED 2)\<lparr>secCompList := ?l\<rparr>) 0x20000001 [])"
    by (simp add: GetGrantedPermCodeList_def sample_lookup hap)
  ultimately show ?thesis by (simp add: st)
qed

text \<open>Clearing all component grants empties the list, but the flag still makes verification grant.\<close>

lemma cleared_component_grant_still_verified:
  "let (cleared, st) = ClearAllSecCompGrantedPerm component_granted
   in cleared = [\<lparr>sc_permCode = 0, sc_tokenId = 0x20000001\<rparr>] \<and> secCompList st = [] \<and>
      VerifyPermissionStatusByCode st 0x20000001 0 = PERMISSION_GRANTED"
  by (simp add: ClearAllSecCompGrantedPerm_def component_granted_eq Verify_entry sample_store_entry effective_status)
    (simp add: sample_entry_def)

text \<open>A pre-authorized permission that administrator policy denied is granted by a reset.\<close>

lemma reset_changes_admin_fixed_status:
  "reset_perm (sample_entry PERMISSION_DENIED (PERMISSION_PRE_AUTHORIZED_CANCELABLE OR PERMISSION_FIXED_BY_ADMIN_POLICY)) =
   sample_entry PERMISSION_GRANTED (PERMISSION_PRE_AUTHORIZED_CANCELABLE OR PERMISSION_FIXED_BY_ADMIN_POLICY)"
  by (simp add: reset_perm_def sample_entry_def)

end
