(* ===== verification/Text_Codec.thy ===== *)
theory Text_Codec
  imports ATM_Prelude
begin

text \<open>
  Numbers and lists of numbers as text, as the standard library writes and reads them:
  \<open>std::to_string\<close>, \<open>std::from_chars\<close> in base ten on a whole string, and the splitting at a separator
  with \<open>std::string::find\<close>.
\<close>

section \<open>Printing and reading a number\<close>

definition digit_char :: "nat \<Rightarrow> char" where
  "digit_char d = char_of (48 + d)"

fun nat_digits :: "nat \<Rightarrow> string" where
  "nat_digits n = (if n < 10 then [digit_char n] else nat_digits (n div 10) @ [digit_char (n mod 10)])"

declare nat_digits.simps [simp del]

definition to_string :: "int \<Rightarrow> string" where
  "to_string i = (if i < 0 then CHR ''-'' # nat_digits (nat (- i)) else nat_digits (nat i))"

text \<open>\<open>std::from_chars\<close> that has to consume the whole string: no blanks, no plus sign, a minus sign only
  for a signed type, and a value in the range of the type.\<close>

definition from_chars :: "int \<Rightarrow> int \<Rightarrow> string \<Rightarrow> int option" where
  "from_chars lo hi s =
     (let neg = lo < 0 \<and> s \<noteq> [] \<and> hd s = CHR ''-'';
          ds = (if neg then tl s else s);
          v = (if neg then - decimal_prefix ds 0 else decimal_prefix ds 0) in
      if ds = [] \<or> \<not> list_all is_digit ds \<or> v < lo \<or> hi < v then None else Some v)"

lemma digit_char_props:
  assumes "d < 10"
  shows "is_digit (digit_char d)" and "digit_val (digit_char d) = int d" and "digit_char d \<noteq> CHR ''-''"
    and "digit_char d \<notin> {CHR '' '', CHR '','', CHR 0x09}"
proof -
  have c: "(of_char (digit_char d) :: nat) = 48 + d"
    using assms by (simp add: digit_char_def)
  then show "is_digit (digit_char d)" "digit_val (digit_char d) = int d"
    using assms by (simp_all add: is_digit_def digit_val_def)
  have "(of_char (CHR ''-'') :: nat) = 45" "(of_char (CHR '' '') :: nat) = 32" "(of_char (CHR '','') :: nat) = 44"
    "(of_char (CHR 0x09) :: nat) = 9" by simp_all
  with c show "digit_char d \<noteq> CHR ''-''" "digit_char d \<notin> {CHR '' '', CHR '','', CHR 0x09}" by auto
qed

lemma decimal_prefix_append:
  "list_all is_digit xs \<Longrightarrow> decimal_prefix (xs @ ys) n = decimal_prefix ys (decimal_prefix xs n)"
  by (induction xs arbitrary: n) auto

lemma nat_digits_props:
  "nat_digits n \<noteq> [] \<and> list_all is_digit (nat_digits n) \<and> decimal_prefix (nat_digits n) 0 = int n \<and>
   hd (nat_digits n) \<noteq> CHR ''-'' \<and> set (nat_digits n) \<inter> {CHR '' '', CHR '','', CHR 0x09} = {}"
proof (induction n rule: nat_digits.induct)
  case (1 n)
  show ?case
  proof (cases "n < 10")
    case True
    then show ?thesis
      using digit_char_props [OF True] by (subst (1 2 3 4 5) nat_digits.simps) simp
  next
    case False
    have d: "n mod 10 < 10" by simp
    have "int (n div 10) * 10 + int (n mod 10) = int n" by presburger
    then show ?thesis
      using 1 [OF False] False digit_char_props [OF d]
      by (subst (1 2 3 4 5) nat_digits.simps) (auto simp: decimal_prefix_append)
  qed
qed

lemma from_chars_to_string:
  assumes "lo \<le> v" and "v \<le> hi" and "lo \<le> 0"
  shows "from_chars lo hi (to_string v) = Some v"
  using assms nat_digits_props [of "nat v"] nat_digits_props [of "nat (- v)"]
  by (cases "nat_digits (nat v)") (auto simp: from_chars_def to_string_def Let_def)

lemma to_string_chars:
  "to_string v \<noteq> []" "set (to_string v) \<inter> {CHR '' '', CHR '','', CHR 0x09} = {}"
  using nat_digits_props [of "nat v"] nat_digits_props [of "nat (- v)"] by (auto simp: to_string_def)

section \<open>Splitting at a separator\<close>

text \<open>The text before the next separator, and what follows it; \<open>None\<close> is \<open>std::string::npos\<close>.\<close>

definition next_item :: "char \<Rightarrow> string \<Rightarrow> string \<times> string option" where
  "next_item sep s =
     (let item = takeWhile (\<lambda>c. c \<noteq> sep) s; rest = dropWhile (\<lambda>c. c \<noteq> sep) s in
      (item, case rest of [] \<Rightarrow> None | _ # r \<Rightarrow> Some r))"

lemma next_item_length: "next_item sep s = (item, Some r) \<Longrightarrow> length r < length s"
proof -
  assume "next_item sep s = (item, Some r)"
  then obtain c where "dropWhile (\<lambda>c. c \<noteq> sep) s = c # r"
    by (auto simp: next_item_def Let_def split: list.splits)
  then show ?thesis
    using length_dropWhile_le [of "\<lambda>c. c \<noteq> sep" s] by simp
qed

lemma next_item_join: "sep \<notin> set x \<Longrightarrow> next_item sep (x @ sep # r) = (x, Some r)"
  by (simp add: next_item_def Let_def takeWhile_append dropWhile_append)

lemma next_item_last: "sep \<notin> set x \<Longrightarrow> next_item sep x = (x, None)"
proof -
  assume "sep \<notin> set x"
  then have w: "takeWhile (\<lambda>c. c \<noteq> sep) x = x" "dropWhile (\<lambda>c. c \<noteq> sep) x = []"
    by (auto intro!: takeWhile_eq_all_conv [THEN iffD2] dropWhile_eq_Nil_conv [THEN iffD2])
  show ?thesis unfolding next_item_def Let_def w by simp
qed

end
