(* ===== verification/User_Policy.thy ===== *)
theory User_Policy
  imports Permission_Data_Brief Text_Codec
begin

text \<open>
  \<open>UserPolicyManager\<close> (\<^verbatim>\<open>user_policy_manager.cpp\<close>, built with \<open>SUPPORT_MANAGE_USER_POLICY\<close>): which
  permissions an administrator restricts for which users, with a whitelist of exempt tokens. A policy
  belongs to the token that set it (the controller) and may be persistent, in which case the database
  holds a row for it. Every public operation holds the lock throughout, so it is one step; the
  database is the parameter of \<open>Token_Db\<close>.
\<close>

section \<open>Data\<close>

record UserPolicy =
  up_userId :: int
  up_isRestricted :: bool

record UserPermissionPolicy =
  pp_permissionName :: string
  pp_userPolicyList :: "UserPolicy list"
  pp_isPersist :: bool

record UserPolicyChange =
  uc_permCode :: u32
  uc_isPersist :: bool
  uc_changedUserList :: "int set"

datatype UpdateWhiteListType = ADD | DELETE

record UserPolicyRecord =
  ur_userList :: "int list"
  ur_controllerToken :: token_id
  ur_whiteList :: "token_id set"
  ur_isPersist :: bool

definition new_record :: UserPolicyRecord where
  "new_record = \<lparr>ur_userList = [], ur_controllerToken = 0, ur_whiteList = {}, ur_isPersist = False\<rparr>"

record PolicyWhiteListUpdateInfo =
  wl_tokenId :: token_id
  wl_userId :: int
  wl_permCode :: u32
  wl_type :: UpdateWhiteListType
  wl_callerToken :: token_id

text \<open>The member \<open>userPolicyRecords_\<close>, from permission codes to records.\<close>

type_synonym UserPolicyRecords = "(u32, UserPolicyRecord) omap"

abbreviation USER_POLICY_SEPARATOR :: char where "USER_POLICY_SEPARATOR \<equiv> CHR '',''"
abbreviation USER_POLICY_MAX_LIST_SIZE :: nat where "USER_POLICY_MAX_LIST_SIZE \<equiv> 1024"

section \<open>Lists as text\<close>

definition Trim :: "string \<Rightarrow> string" where
  "Trim value =
     (let blank = (\<lambda>c. c = CHR '' '' \<or> c = CHR 0x09) in
      rev (dropWhile blank (rev (dropWhile blank value))))"

definition ParseInt32Value :: "string \<Rightarrow> int option" where
  "ParseInt32Value value =
     (let trimmedValue = Trim value in
      if trimmedValue = [] then None else from_chars (- (2 ^ 31)) (2 ^ 31 - 1) trimmedValue)"

definition ParseTokenIdValue :: "string \<Rightarrow> token_id option" where
  "ParseTokenIdValue value =
     (let trimmedValue = Trim value in
      if trimmedValue = [] then None else map_option word_of_int (from_chars 0 (2 ^ 32 - 1) trimmedValue))"

function parse_user_loop :: "string \<Rightarrow> int list \<Rightarrow> bool \<times> int list" where
  "parse_user_loop value userList =
     (let (item, rest) = next_item USER_POLICY_SEPARATOR value;
          next = (if Trim item = [] then Some userList
                  else (case ParseInt32Value item of
                          None \<Rightarrow> None
                        | Some userId \<Rightarrow>
                            if length userList \<ge> USER_POLICY_MAX_LIST_SIZE then None
                            else Some (userList @ [userId]))) in
      case next of
        None \<Rightarrow> (False, userList)
      | Some l \<Rightarrow> (case rest of None \<Rightarrow> (True, l) | Some r \<Rightarrow> parse_user_loop r l))"
  by pat_completeness auto
termination
  by (relation "measure (\<lambda>(s, _). length s)") (auto simp: next_item_length [OF sym])

declare parse_user_loop.simps [simp del]

definition ParseUserList :: "string \<Rightarrow> bool \<times> int list" where
  "ParseUserList value = (if value = [] then (True, []) else parse_user_loop value [])"

function parse_token_loop :: "string \<Rightarrow> token_id set \<Rightarrow> nat \<Rightarrow> bool \<times> token_id set" where
  "parse_token_loop value whiteList tokenCount =
     (let (item, rest) = next_item USER_POLICY_SEPARATOR value;
          next = (if Trim item = [] then Some (whiteList, tokenCount)
                  else (case ParseTokenIdValue item of
                          None \<Rightarrow> None
                        | Some tokenId \<Rightarrow>
                            if tokenCount \<ge> USER_POLICY_MAX_LIST_SIZE then None
                            else Some (insert tokenId whiteList, tokenCount + 1))) in
      case next of
        None \<Rightarrow> (False, whiteList)
      | Some (w, n) \<Rightarrow> (case rest of None \<Rightarrow> (True, w) | Some r \<Rightarrow> parse_token_loop r w n))"
  by pat_completeness auto
termination
  by (relation "measure (\<lambda>(s, _, _). length s)") (auto simp: next_item_length [OF sym])

declare parse_token_loop.simps [simp del]

definition ParseWhiteTokenList :: "string \<Rightarrow> bool \<times> token_id set" where
  "ParseWhiteTokenList value = (if value = [] then (True, {}) else parse_token_loop value {} 0)"

definition SerializeList :: "int list \<Rightarrow> string" where
  "SerializeList valueList =
     foldl (\<lambda>result v. (if result = [] then result else result @ [USER_POLICY_SEPARATOR]) @ to_string v)
       [] valueList"

definition SerializeWhiteTokenList :: "token_id set \<Rightarrow> string" where
  "SerializeWhiteTokenList whiteList = SerializeList (map uint (sorted_list_of_set whiteList))"

section \<open>Records\<close>

definition IsSupportedPolicyApl :: "ATokenAplEnum \<Rightarrow> bool" where
  "IsSupportedPolicyApl apl \<longleftrightarrow> apl = APL_NORMAL \<or> apl = APL_SYSTEM_BASIC"

definition BuildUserPolicyCondition :: "string \<Rightarrow> GenericValues" where
  "BuildUserPolicyCondition permissionName = PutString FIELD_PERMISSION_NAME permissionName []"

definition BuildUserPolicyValue :: "string \<Rightarrow> UserPolicyRecord \<Rightarrow> GenericValues" where
  "BuildUserPolicyValue permissionName record =
     (PutString FIELD_WHITELIST (SerializeWhiteTokenList (ur_whiteList record)) \<circ>
      PutString FIELD_RESTRICTED_USER (SerializeList (ur_userList record)) \<circ>
      PutInt FIELD_CONTROLLER_TOKENID (sint (ur_controllerToken record)) \<circ>
      PutString FIELD_PERMISSION_NAME permissionName) []"

fun UpdateRestrictedUserList :: "UserPolicy list \<Rightarrow> int list \<Rightarrow> int set \<Rightarrow> int set \<times> int list" where
  "UpdateRestrictedUserList [] users changed = (changed, users)"
| "UpdateRestrictedUserList (item # items) users changed =
     (if up_userId item \<in> set users \<and> \<not> up_isRestricted item
      then UpdateRestrictedUserList items (erase_first (\<lambda>u. u = up_userId item) users)
             (insert (up_userId item) changed)
      else if up_userId item \<notin> set users \<and> up_isRestricted item
      then UpdateRestrictedUserList items (users @ [up_userId item]) (insert (up_userId item) changed)
      else UpdateRestrictedUserList items users changed)"

definition IsUserPolicyRecordSizeValid :: "UserPolicyRecord \<Rightarrow> bool" where
  "IsUserPolicyRecordSizeValid record \<longleftrightarrow>
     ur_userList record \<noteq> [] \<and> length (ur_userList record) \<le> USER_POLICY_MAX_LIST_SIZE \<and>
     card (ur_whiteList record) \<le> USER_POLICY_MAX_LIST_SIZE"

definition IsUserPolicyRecordsSizeValid :: "UserPolicyRecords \<Rightarrow> bool" where
  "IsUserPolicyRecordsSizeValid records =
     (if length records > USER_POLICY_MAX_LIST_SIZE then False
      else list_all (\<lambda>item. IsUserPolicyRecordSizeValid (snd item)) records)"

section \<open>Setting and clearing policies\<close>

text \<open>The loop of \<open>ValidateSetUserPolicy\<close>; \<open>flags\<close> is \<open>batchPolicyPersistFlags\<close>.\<close>

fun validate_set_loop ::
    "perm_table \<Rightarrow> UserPolicyRecords \<Rightarrow> token_id \<Rightarrow> UserPermissionPolicy list \<Rightarrow> (u32, bool) omap \<Rightarrow>
      u32 list \<Rightarrow> ret \<times> u32 list" where
  "validate_set_loop tbl records callerToken [] flags codes = (RET_SUCCESS, codes)"
| "validate_set_loop tbl records callerToken (policy # policies) flags codes =
     (case GetPermissionBriefDefAndCode tbl (pp_permissionName policy) of
        None \<Rightarrow> (ERR_PARAM_INVALID, codes)
      | Some (briefDef, code) \<Rightarrow>
          if \<not> IsSupportedPolicyApl (bd_availableLevel briefDef) then (ERR_PARAM_INVALID, codes)
          else if pp_userPolicyList policy = [] then (ERR_PARAM_INVALID, codes)
          else
            (case map_of flags code of
               Some persist \<Rightarrow>
                 if persist \<noteq> pp_isPersist policy then (ERR_PERM_POLICY_PERSISTENCE_FLAG_NOT_MATCH, codes)
                 else (ERR_PARAM_INVALID, codes)
             | None \<Rightarrow>
                 (let flags' = omap_emplace code (pp_isPersist policy) flags;
                      rest =
                        (if \<not> list_all (\<lambda>u. IsUserIdValid (up_userId u)) (pp_userPolicyList policy)
                         then (ERR_PARAM_INVALID, codes)
                         else validate_set_loop tbl records callerToken policies flags' (codes @ [code])) in
                  case map_of records code of
                    None \<Rightarrow> rest
                  | Some record \<Rightarrow>
                      if ur_controllerToken record \<noteq> callerToken
                      then (ERR_PERM_POLICY_ALREADY_SET_BY_OTHER, codes)
                      else if ur_isPersist record \<noteq> pp_isPersist policy
                      then (ERR_PERM_POLICY_PERSISTENCE_FLAG_NOT_MATCH, codes)
                      else rest)))"

definition ValidateSetUserPolicy ::
    "perm_table \<Rightarrow> UserPolicyRecords \<Rightarrow> UserPermissionPolicy list \<Rightarrow> token_id \<Rightarrow> ret \<times> u32 list" where
  "ValidateSetUserPolicy tbl records userPermissionList callerToken =
     validate_set_loop tbl records callerToken userPermissionList [] []"

fun validate_clear_loop ::
    "perm_table \<Rightarrow> UserPolicyRecords \<Rightarrow> token_id \<Rightarrow> string list \<Rightarrow> u32 list \<Rightarrow> ret \<times> u32 list" where
  "validate_clear_loop tbl records callerToken [] codes = (RET_SUCCESS, codes)"
| "validate_clear_loop tbl records callerToken (permission # permissions) codes =
     (case TransferPermissionToOpcode tbl permission of
        None \<Rightarrow> (ERR_PARAM_INVALID, codes)
      | Some permCode \<Rightarrow>
          (case map_of records permCode of
             None \<Rightarrow> (ERR_PERM_POLICY_NOT_SET, codes)
           | Some record \<Rightarrow>
               if ur_controllerToken record \<noteq> callerToken
               then (ERR_PERM_POLICY_ALREADY_SET_BY_OTHER, codes)
               else validate_clear_loop tbl records callerToken permissions (codes @ [permCode])))"

definition ValidateClearUserPolicy ::
    "perm_table \<Rightarrow> UserPolicyRecords \<Rightarrow> string list \<Rightarrow> token_id \<Rightarrow> ret \<times> u32 list" where
  "ValidateClearUserPolicy tbl records permissionList callerToken =
     validate_clear_loop tbl records callerToken permissionList []"

text \<open>The body of the loop of \<open>UpdateUserPolicyCache\<close> for one policy and its code.\<close>

definition cache_policy ::
    "token_id \<Rightarrow> UserPermissionPolicy \<times> u32 \<Rightarrow> UserPolicyRecords \<times> UserPolicyChange list \<Rightarrow>
      UserPolicyRecords \<times> UserPolicyChange list" where
  "cache_policy callerToken pc acc =
     (let (policy, permCode) = pc; (records, changes) = acc;
          oldRecord = (case map_of records permCode of
                         Some record \<Rightarrow> record
                       | None \<Rightarrow> new_record\<lparr>ur_isPersist := pp_isPersist policy\<rparr>);
          (changedUserList, userList) =
            UpdateRestrictedUserList (pp_userPolicyList policy) (ur_userList oldRecord) {};
          changes' = (if changedUserList = {} then changes
                      else changes @ [\<lparr>uc_permCode = permCode, uc_isPersist = ur_isPersist oldRecord,
                                       uc_changedUserList = changedUserList\<rparr>]) in
      if userList = [] then (omap_erase permCode records, changes')
      else (omap_insert permCode (oldRecord\<lparr>ur_userList := userList, ur_controllerToken := callerToken\<rparr>) records,
            changes'))"

definition UpdateUserPolicyCache ::
    "UserPolicyRecords \<Rightarrow> UserPermissionPolicy list \<Rightarrow> u32 list \<Rightarrow> token_id \<Rightarrow>
      UserPolicyRecords \<times> UserPolicyChange list" where
  "UpdateUserPolicyCache records userPermissionList permCodeList callerToken =
     fold (cache_policy callerToken) (zip userPermissionList permCodeList) (records, [])"

definition policy_del :: "perm_table \<Rightarrow> u32 \<Rightarrow> DelInfo" where
  "policy_del tbl permCode =
     \<lparr>delType = ACCESSTOKEN_USER_POLICY,
      delValue = BuildUserPolicyCondition (TransferOpcodeToPermission tbl permCode)\<rparr>"

definition policy_add :: "perm_table \<Rightarrow> u32 \<Rightarrow> UserPolicyRecord \<Rightarrow> AddInfo" where
  "policy_add tbl permCode record =
     \<lparr>addType = ACCESSTOKEN_USER_POLICY,
      addValues = [BuildUserPolicyValue (TransferOpcodeToPermission tbl permCode) record]\<rparr>"

definition UpdateUserPolicyDatabase ::
    "('s, 't, 'r) rdb_ops \<Rightarrow> perm_table \<Rightarrow> UserPolicyRecords \<Rightarrow> UserPolicyChange list \<Rightarrow> UserPolicyRecords \<Rightarrow>
      's AccessTokenDb \<Rightarrow> ret \<times> 's AccessTokenDb" where
  "UpdateUserPolicyDatabase ops tbl records userPolicyChanges nextRecords d =
     (let delInfoVec = concat (map (\<lambda>change.
            case map_of records (uc_permCode change) of
              None \<Rightarrow> []
            | Some record \<Rightarrow> if ur_isPersist record then [policy_del tbl (uc_permCode change)] else [])
            userPolicyChanges);
          addInfoVec = concat (map (\<lambda>change.
            case map_of nextRecords (uc_permCode change) of
              None \<Rightarrow> []
            | Some record \<Rightarrow> if ur_isPersist record then [policy_add tbl (uc_permCode change) record] else [])
            userPolicyChanges) in
      if delInfoVec = [] \<and> addInfoVec = [] then (RET_SUCCESS, d)
      else
        (let (ret, d') = DeleteAndInsertValues ops delInfoVec addInfoVec d in
         (if ret = RET_SUCCESS then RET_SUCCESS else ERR_DATABASE_OPERATE_FAILED, d')))"

definition SetUserPolicy ::
    "('s, 't, 'r) rdb_ops \<Rightarrow> perm_table \<Rightarrow> UserPermissionPolicy list \<Rightarrow> token_id \<Rightarrow>
      UserPolicyRecords \<times> 's AccessTokenDb \<Rightarrow>
      ret \<times> UserPolicyChange list \<times> UserPolicyRecords \<times> 's AccessTokenDb" where
  "SetUserPolicy ops tbl userPermissionList callerToken st =
     (let (records, d) = st; (ret, permCodeList) = ValidateSetUserPolicy tbl records userPermissionList callerToken in
      if ret \<noteq> RET_SUCCESS then (ret, [], records, d)
      else
        (let (nextRecords, changes) = UpdateUserPolicyCache records userPermissionList permCodeList callerToken in
         if nextRecords \<noteq> [] \<and> \<not> IsUserPolicyRecordsSizeValid nextRecords then (ERR_OVERSIZE, [], records, d)
         else
           (let (ret, d') = UpdateUserPolicyDatabase ops tbl records changes nextRecords d in
            if ret \<noteq> RET_SUCCESS then (ret, [], records, d') else (RET_SUCCESS, changes, nextRecords, d'))))"

text \<open>The loop of \<open>ClearUserPolicy\<close>: staged records, staged changes, rows to delete.\<close>

fun clear_loop ::
    "perm_table \<Rightarrow> u32 list \<Rightarrow> UserPolicyRecords \<Rightarrow> UserPolicyChange list \<Rightarrow> DelInfo list \<Rightarrow>
      UserPolicyRecords \<times> UserPolicyChange list \<times> DelInfo list" where
  "clear_loop tbl [] records changes dels = (records, changes, dels)"
| "clear_loop tbl (permCode # codes) records changes dels =
     (case map_of records permCode of
        None \<Rightarrow> clear_loop tbl codes records changes dels
      | Some record \<Rightarrow>
          clear_loop tbl codes (omap_erase permCode records)
            (changes @ [\<lparr>uc_permCode = permCode, uc_isPersist = ur_isPersist record,
                         uc_changedUserList = set (ur_userList record)\<rparr>])
            (if ur_isPersist record then dels @ [policy_del tbl permCode] else dels))"

definition ClearUserPolicy ::
    "('s, 't, 'r) rdb_ops \<Rightarrow> perm_table \<Rightarrow> string list \<Rightarrow> token_id \<Rightarrow>
      UserPolicyRecords \<times> 's AccessTokenDb \<Rightarrow>
      ret \<times> UserPolicyChange list \<times> UserPolicyRecords \<times> 's AccessTokenDb" where
  "ClearUserPolicy ops tbl permissionList callerToken st =
     (let (records, d) = st; (ret, permCodeList) = ValidateClearUserPolicy tbl records permissionList callerToken in
      if ret \<noteq> RET_SUCCESS then (ret, [], records, d)
      else
        (let (stagedRecords, stagedChanges, delInfoVec) = clear_loop tbl permCodeList records [] [] in
         if delInfoVec = [] then (RET_SUCCESS, stagedChanges, stagedRecords, d)
         else
           (let (ret, d') = DeleteAndInsertValues ops delInfoVec [] d in
            if ret \<noteq> RET_SUCCESS then (ERR_DATABASE_OPERATE_FAILED, [], records, d')
            else (RET_SUCCESS, stagedChanges, stagedRecords, d'))))"

section \<open>Whitelists\<close>

definition ValidatePolicyWhiteListUpdateLocked ::
    "UserPolicyRecords \<Rightarrow> PolicyWhiteListUpdateInfo \<Rightarrow> ret \<times> UserPolicyRecord option" where
  "ValidatePolicyWhiteListUpdateLocked records context =
     (case map_of records (wl_permCode context) of
        None \<Rightarrow> (ERR_PERM_POLICY_NOT_SET, None)
      | Some record \<Rightarrow>
          if ur_controllerToken record \<noteq> wl_callerToken context
          then (ERR_PERM_POLICY_ALREADY_SET_BY_OTHER, None)
          else if wl_userId context \<notin> set (ur_userList record) then (ERR_TOKENID_NOT_IN_POLICY_USERLIST, None)
          else if wl_type context = ADD
          then
            (if wl_tokenId context \<in> ur_whiteList record
             then (ERR_TOKENID_ALREADY_IN_POLICY_WHITELIST, None)
             else if card (ur_whiteList record) + 1 > USER_POLICY_MAX_LIST_SIZE then (ERR_OVERSIZE, None)
             else (RET_SUCCESS, Some record))
          else if wl_tokenId context \<notin> ur_whiteList record then (ERR_TOKENID_NOT_IN_POLICY_WHITELIST, None)
          else (RET_SUCCESS, Some record))"

text \<open>The second result is the out parameter \<open>isPersist\<close>, written only after the validation.\<close>

definition UpdatePolicyWhiteList ::
    "('s, 't, 'r) rdb_ops \<Rightarrow> perm_table \<Rightarrow> PolicyWhiteListUpdateInfo \<Rightarrow>
      UserPolicyRecords \<times> 's AccessTokenDb \<Rightarrow> ret \<times> bool option \<times> UserPolicyRecords \<times> 's AccessTokenDb" where
  "UpdatePolicyWhiteList ops tbl context st =
     (let (records, d) = st; permission = TransferOpcodeToPermission tbl (wl_permCode context) in
      if permission = [] then (ERR_PARAM_INVALID, None, records, d)
      else
        (case ValidatePolicyWhiteListUpdateLocked records context of
           (ret, None) \<Rightarrow> (ret, None, records, d)
         | (ret, Some staged) \<Rightarrow>
             (let whiteList =
                (if wl_type context = ADD then insert (wl_tokenId context) (ur_whiteList staged)
                 else ur_whiteList staged - {wl_tokenId context});
                  records' = omap_insert (wl_permCode context) (staged\<lparr>ur_whiteList := whiteList\<rparr>) records in
              if ur_isPersist staged
              then
                (let (ret, d') = Modify ops ACCESSTOKEN_USER_POLICY
                       (PutString FIELD_WHITELIST (SerializeWhiteTokenList whiteList) [])
                       (BuildUserPolicyCondition permission) d in
                 if ret \<noteq> RET_SUCCESS then (ERR_DATABASE_OPERATE_FAILED, Some True, records, d')
                 else (RET_SUCCESS, Some True, records', d'))
              else (RET_SUCCESS, Some False, records', d))))"

text \<open>The records whose whitelist holds the token, in key order.\<close>

definition RemoveTokenFromPolicyWhiteList ::
    "('s, 't, 'r) rdb_ops \<Rightarrow> perm_table \<Rightarrow> token_id \<Rightarrow> UserPolicyRecords \<times> 's AccessTokenDb \<Rightarrow>
      ret \<times> UserPolicyRecords \<times> 's AccessTokenDb" where
  "RemoveTokenFromPolicyWhiteList ops tbl tokenId st =
     (let (records, d) = st;
          stagedRecords = map (\<lambda>(c, r). (c, r\<lparr>ur_whiteList := ur_whiteList r - {tokenId}\<rparr>)) records;
          changed = filter (\<lambda>(c, r). tokenId \<in> ur_whiteList r) records;
          persisted = filter (\<lambda>(c, r). ur_isPersist r) changed;
          delInfoVec = map (\<lambda>(c, r). policy_del tbl c) persisted;
          addInfoVec = map (\<lambda>(c, r). policy_add tbl c (r\<lparr>ur_whiteList := ur_whiteList r - {tokenId}\<rparr>)) persisted in
      if changed = [] then (RET_SUCCESS, records, d)
      else if delInfoVec \<noteq> [] \<or> addInfoVec \<noteq> []
      then
        (let (ret, d') = DeleteAndInsertValues ops delInfoVec addInfoVec d in
         if ret \<noteq> RET_SUCCESS then (ERR_DATABASE_OPERATE_FAILED, records, d')
         else (RET_SUCCESS, stagedRecords, d'))
      else (RET_SUCCESS, stagedRecords, d))"

text \<open>The vector holds the elements of the set in an order that the hash table does not specify.\<close>

definition GetPolicyWhiteList :: "perm_table \<Rightarrow> UserPolicyRecords \<Rightarrow> u32 \<Rightarrow> ret \<times> token_id set" where
  "GetPolicyWhiteList tbl records permCode =
     (if TransferOpcodeToPermission tbl permCode = [] then (ERR_PARAM_INVALID, {})
      else (RET_SUCCESS, case map_of records permCode of None \<Rightarrow> {} | Some r \<Rightarrow> ur_whiteList r))"

section \<open>Queries\<close>

definition IsInPolicyWhiteList :: "token_id \<Rightarrow> UserPolicyRecord \<Rightarrow> bool" where
  "IsInPolicyWhiteList tokenId record \<longleftrightarrow> tokenId \<in> ur_whiteList record"

definition IsPermissionRestricted :: "UserPolicyRecords \<Rightarrow> token_id \<Rightarrow> int \<Rightarrow> u32 \<Rightarrow> bool" where
  "IsPermissionRestricted records tokenId userId permCode =
     (case map_of records permCode of
        None \<Rightarrow> False
      | Some r \<Rightarrow> if IsInPolicyWhiteList tokenId r then False else userId \<in> set (ur_userList r))"

definition UpdatePermissionStatusListForUserPolicy ::
    "perm_table \<Rightarrow> UserPolicyRecords \<Rightarrow> token_id \<Rightarrow> int \<Rightarrow> PermissionStatus list \<Rightarrow> PermissionStatus list" where
  "UpdatePermissionStatusListForUserPolicy tbl records tokenId userId permStateList =
     map (\<lambda>s. case TransferPermissionToOpcode tbl (ps_permissionName s) of
                None \<Rightarrow> s
              | Some permCode \<Rightarrow>
                  if IsPermissionRestricted records tokenId userId permCode
                  then s\<lparr>ps_grantFlag := or (ps_grantFlag s) PERMISSION_RESTRICTED_BY_ADMIN\<rparr>
                  else s\<lparr>ps_grantFlag :=
                           GetFlagWithoutSpecifiedElement (ps_grantFlag s) PERMISSION_RESTRICTED_BY_ADMIN\<rparr>)
       permStateList"

definition GetRestrictedPermListByUserId :: "UserPolicyRecords \<Rightarrow> int \<Rightarrow> u32 list" where
  "GetRestrictedPermListByUserId records userId =
     map fst (filter (\<lambda>(c, r). userId \<in> set (ur_userList r)) records)"

definition IsPolicyPersisted :: "UserPolicyRecords \<Rightarrow> u32 \<Rightarrow> bool" where
  "IsPolicyPersisted records permCode =
     (case map_of records permCode of None \<Rightarrow> False | Some r \<Rightarrow> ur_isPersist r)"

section \<open>Loading\<close>

text \<open>The body of the loop over the rows read from the database.\<close>

definition load_row :: "perm_table \<Rightarrow> GenericValues \<Rightarrow> UserPolicyRecords \<Rightarrow> UserPolicyRecords" where
  "load_row tbl item records =
     (case TransferPermissionToOpcode tbl (GetString item FIELD_PERMISSION_NAME) of
        None \<Rightarrow> records
      | Some permCode \<Rightarrow>
          (let (okUsers, users) = ParseUserList (GetString item FIELD_RESTRICTED_USER);
               (okTokens, tokens) = ParseWhiteTokenList (GetString item FIELD_WHITELIST) in
           if \<not> okUsers \<or> \<not> okTokens \<or> users = [] then records
           else omap_insert permCode
                  \<lparr>ur_userList = users,
                   ur_controllerToken = word_of_int (GetInt item FIELD_CONTROLLER_TOKENID),
                   ur_whiteList = tokens, ur_isPersist = True\<rparr> records))"

definition LoadPersistedPolicies ::
    "('s, 't, 'r) rdb_ops \<Rightarrow> perm_table \<Rightarrow> UserPolicyRecords \<times> 's AccessTokenDb \<Rightarrow>
      (ret \<times> UserPolicyRecords \<times> 's AccessTokenDb) option" where
  "LoadPersistedPolicies ops tbl st =
     (let (records, d) = st in do {
        (ret, results, d') \<leftarrow> Find ops ACCESSTOKEN_USER_POLICY [] d;
        if ret \<noteq> RET_SUCCESS then Some (ret, records, d')
        else Some (RET_SUCCESS,
                   fold (load_row tbl) results (filter (\<lambda>(c, r). \<not> ur_isPersist r) records), d') })"

end
