(* ===== verification/User_Policy_Laws.thy ===== *)
theory User_Policy_Laws
  imports User_Policy Permission_Brief_Laws
begin

text \<open>
  Laws of the user policies: the text of a user or token list is read back unchanged, the rows of the
  table correspond to the persistent records, and setting, clearing, editing a whitelist and removing a
  token keep table and cache in step (\<open>policy_inv\<close>).
\<close>

section \<open>The text of a list is read back\<close>

lemma SerializeList_Cons:
  "SerializeList (v # vs) = to_string v @ concat (map (\<lambda>v. USER_POLICY_SEPARATOR # to_string v) vs)"
proof -
  let ?f = "\<lambda>result v. (if result = [] then result else result @ [USER_POLICY_SEPARATOR]) @ to_string v"
  have "foldl ?f acc vs = acc @ concat (map (\<lambda>v. USER_POLICY_SEPARATOR # to_string v) vs)" if "acc \<noteq> []" for acc vs
    using that by (induction vs arbitrary: acc) auto
  then show ?thesis using to_string_chars(1) by (simp add: SerializeList_def)
qed

lemma Trim_to_string: "Trim (to_string v) = to_string v"
proof -
  let ?b = "\<lambda>c. c = CHR '' '' \<or> c = CHR 0x09"
  have no: "dropWhile ?b s = s" if "set s \<inter> {CHR '' '', CHR '','', CHR 0x09} = {}" for s
    using that by (cases s) auto
  have "set (rev (to_string v)) \<inter> {CHR '' '', CHR '','', CHR 0x09} = {}" using to_string_chars(2) by simp
  with no to_string_chars(2) show ?thesis by (simp add: Trim_def)
qed

lemma separator_not_in_number: "USER_POLICY_SEPARATOR \<notin> set (to_string v)"
  using to_string_chars(2) [of v] by blast

lemma next_number:
  "next_item USER_POLICY_SEPARATOR (to_string v @ concat (map (\<lambda>v. USER_POLICY_SEPARATOR # to_string v) vs)) =
   (to_string v, case vs of [] \<Rightarrow> None
      | w # ws \<Rightarrow> Some (to_string w @ concat (map (\<lambda>v. USER_POLICY_SEPARATOR # to_string v) ws)))"
  using next_item_join [OF separator_not_in_number] next_item_last [OF separator_not_in_number]
  by (cases vs) simp_all

lemma parse_user_numbers:
  "length acc + length (v # vs) \<le> USER_POLICY_MAX_LIST_SIZE \<Longrightarrow> list_all is_int32 (v # vs) \<Longrightarrow>
   parse_user_loop (to_string v @ concat (map (\<lambda>v. USER_POLICY_SEPARATOR # to_string v) vs)) acc = (True, acc @ v # vs)"
proof (induction vs arbitrary: v acc)
  case Nil
  then show ?case
    by (subst parse_user_loop.simps)
      (simp add: next_number [of v "[]", simplified] Trim_to_string to_string_chars ParseInt32Value_def
        from_chars_to_string is_int32_def)
next
  case (Cons w ws)
  have p: "ParseInt32Value (to_string v) = Some v"
    using Cons.prems by (simp add: Trim_to_string to_string_chars ParseInt32Value_def from_chars_to_string is_int32_def)
  show ?case
    using Cons.IH [of "acc @ [v]" w] Cons.prems
    by (subst parse_user_loop.simps) (simp add: next_number [of v "w # ws", simplified] p Trim_to_string to_string_chars)
qed

lemma parse_token_numbers:
  "n + length (v # vs) \<le> USER_POLICY_MAX_LIST_SIZE \<Longrightarrow>
   parse_token_loop (to_string (uint v) @ concat (map (\<lambda>v. USER_POLICY_SEPARATOR # to_string v) (map uint vs))) acc n =
   (True, acc \<union> set (v # vs))"
proof (induction vs arbitrary: v acc n)
  case Nil
  have p: "ParseTokenIdValue (to_string (uint v)) = Some v"
    using uint_lt2p [of v] by (simp add: Trim_to_string to_string_chars ParseTokenIdValue_def from_chars_to_string)
  then show ?case
    using Nil by (subst parse_token_loop.simps)
      (simp add: next_number [of "uint v" "[]", simplified] Trim_to_string to_string_chars)
next
  case (Cons w ws)
  have p: "ParseTokenIdValue (to_string (uint v)) = Some v"
    using uint_lt2p [of v] by (simp add: Trim_to_string to_string_chars ParseTokenIdValue_def from_chars_to_string)
  show ?case
    using Cons.IH [of "n + 1" w "insert v acc"] Cons.prems
    by (subst parse_token_loop.simps)
      (simp add: next_number [of "uint v" "map uint (w # ws)", simplified] p Trim_to_string to_string_chars insert_commute)
qed

lemma ParseUserList_SerializeList:
  assumes "length l \<le> USER_POLICY_MAX_LIST_SIZE" and "list_all is_int32 l"
  shows "ParseUserList (SerializeList l) = (True, l)"
proof (cases l)
  case Nil
  then show ?thesis by (simp add: ParseUserList_def SerializeList_def)
next
  case (Cons v vs)
  then show ?thesis
    using assms parse_user_numbers [of "[]" v vs] to_string_chars(1) [of v]
    by (simp add: ParseUserList_def SerializeList_Cons)
qed

lemma ParseWhiteTokenList_Serialize:
  assumes "card w \<le> USER_POLICY_MAX_LIST_SIZE"
  shows "ParseWhiteTokenList (SerializeWhiteTokenList w) = (True, w)"
proof (cases "sorted_list_of_set w")
  case Nil
  then show ?thesis by (simp add: ParseWhiteTokenList_def SerializeWhiteTokenList_def SerializeList_def)
next
  case (Cons v vs)
  have "SerializeWhiteTokenList w =
      to_string (uint v) @ concat (map (\<lambda>v. USER_POLICY_SEPARATOR # to_string v) (map uint vs))"
    by (simp add: SerializeWhiteTokenList_def Cons SerializeList_Cons)
  moreover have len: "length (v # vs) \<le> USER_POLICY_MAX_LIST_SIZE" and w: "set (v # vs) = w"
    using assms Cons by (metis length_sorted_list_of_set, metis finite set_sorted_list_of_set)
  ultimately show ?thesis
    using parse_token_numbers [of 0 v vs "{}"] to_string_chars(1) [of "uint v"]
    unfolding ParseWhiteTokenList_def w by simp
qed

section \<open>Records and rows\<close>

abbreviation policy_table :: string where "policy_table \<equiv> ''user_policy_table''"

lemma policy_table_name [simp]: "GetTableNameByType ACCESSTOKEN_USER_POLICY = policy_table"
  by (simp add: GetTableNameByType_def g_DateTypeToTableName_def)

text \<open>The row of a persistent policy.\<close>

definition policy_row :: "perm_table \<Rightarrow> u32 \<Rightarrow> UserPolicyRecord \<Rightarrow> ValuesBucket" where
  "policy_row tbl c r = ToRdbValueBucket (BuildUserPolicyValue (TransferOpcodeToPermission tbl c) r)"

lemma BuildUserPolicyValue_eq:
  "BuildUserPolicyValue name r =
     [(''controller_tokenid'', TYPE_INT (sint (ur_controllerToken r))), (''permission_name'', TYPE_STRING name),
      (''restricted_user'', TYPE_STRING (SerializeList (ur_userList r))),
      (''whitelist'', TYPE_STRING (SerializeWhiteTokenList (ur_whiteList r)))]"
  by (simp add: BuildUserPolicyValue_def PutString_def PutInt_def omap_emplace_def)

lemma policy_row_eq:
  "policy_row tbl c r =
     [(''controller_tokenid'', VO_INT (sint (ur_controllerToken r))),
      (''permission_name'', VO_STRING (TransferOpcodeToPermission tbl c)),
      (''restricted_user'', VO_STRING (SerializeList (ur_userList r))),
      (''whitelist'', VO_STRING (SerializeWhiteTokenList (ur_whiteList r)))]"
  by (simp add: policy_row_def BuildUserPolicyValue_eq ToRdbValueBucket_def GetAllKeys_def Get_def rdb_value_def
      IsColumnStringType_def g_StringTypeColumns_def)

definition named_row :: "string \<Rightarrow> ValuesBucket \<Rightarrow> bool" where
  "named_row name row \<longleftrightarrow> map_of row ''permission_name'' = Some (VO_STRING name)"

lemma policy_condition:
  "ToRdbPredicates (BuildUserPolicyCondition name) = [EqualTo ''permission_name'' (VO_STRING name)]"
  by (simp add: ToRdbPredicates_def BuildUserPolicyCondition_def PutString_def omap_emplace_def GetAllKeys_def
      IsColumnStringType_def g_StringTypeColumns_def get_defs)

lemma rows_after_dels:
  "apply_dels (map (policy_del tbl) cs) db policy_table =
     filter (\<lambda>row. \<forall>c \<in> set cs. \<not> named_row (TransferOpcodeToPermission tbl c) row) (db policy_table)"
proof (induction cs arbitrary: db)
  case (Cons c cs)
  have "apply_dels (map (policy_del tbl) (c # cs)) db =
      apply_dels (map (policy_del tbl) cs)
        (delete_rows (policy_table, [EqualTo ''permission_name'' (VO_STRING (TransferOpcodeToPermission tbl c))]) db)"
    by (simp add: apply_dels_def policy_del_def policy_condition)
  then show ?case
    by (simp add: Cons.IH delete_rows_def cond_holds_def named_row_def conj_commute)
qed (simp add: apply_dels_def)

lemma rows_after_adds:
  "apply_adds (map (\<lambda>(c, r). policy_add tbl c r) crs) db policy_table =
     db policy_table @ map (\<lambda>(c, r). policy_row tbl c r) crs"
proof (induction crs arbitrary: db)
  case (Cons cr crs)
  obtain c r where cr: "cr = (c, r)" by (cases cr)
  have "ToRdbValueBuckets [BuildUserPolicyValue (TransferOpcodeToPermission tbl c) r] = [policy_row tbl c r]"
    using policy_row_eq [of tbl c r] by (simp add: ToRdbValueBuckets_def policy_row_def)
  then have "apply_adds (map (\<lambda>(c, r). policy_add tbl c r) (cr # crs)) db =
      apply_adds (map (\<lambda>(c, r). policy_add tbl c r) crs) (insert_rows policy_table [policy_row tbl c r] db)"
    by (simp add: apply_adds_def policy_add_def cr)
  then show ?case by (simp add: Cons.IH insert_rows_def cr)
qed (simp add: apply_adds_def)

section \<open>The invariant\<close>

definition records_ok :: "perm_table \<Rightarrow> UserPolicyRecords \<Rightarrow> bool" where
  "records_ok tbl records \<longleftrightarrow>
     omap_ok records \<and>
     (\<forall>(c, r) \<in> set records. unat c < length tbl \<and> IsUserPolicyRecordSizeValid r \<and>
        list_all is_int32 (ur_userList r) \<and> distinct (ur_userList r))"

text \<open>The table holds the rows of the persistent policies and no others.\<close>

definition db_matches :: "perm_table \<Rightarrow> UserPolicyRecords \<Rightarrow> tables \<Rightarrow> bool" where
  "db_matches tbl records db \<longleftrightarrow>
     set (db policy_table) = (\<lambda>(c, r). policy_row tbl c r) ` {x \<in> set records. ur_isPersist (snd x)}"

lemma records_lookup: "omap_ok records \<Longrightarrow> (c, r) \<in> set records \<longleftrightarrow> map_of records c = Some r"
  using omap_ok_distinct by (fastforce dest: map_of_SomeD)

lemma code_name_inject:
  assumes "perm_table_ok tbl" and "unat c < length tbl" and "unat c' < length tbl"
    and "TransferOpcodeToPermission tbl c = TransferOpcodeToPermission tbl c'"
  shows "c = c'"
proof -
  have "bd_permissionName (tbl ! unat c) = bd_permissionName (tbl ! unat c')"
    using assms(2-4) by (simp add: TransferOpcodeToPermission_def split: if_split_asm)
  then have "Some c = Some c'"
    using opcode_of_index [OF assms(1,2)] opcode_of_index [OF assms(1,3)] by metis
  then show ?thesis by simp
qed

lemma named_policy_row: "named_row name (policy_row tbl c r) \<longleftrightarrow> TransferOpcodeToPermission tbl c = name"
  by (simp add: named_row_def policy_row_eq)

text \<open>Replacing the rows of the changed codes keeps the table in step with the records.\<close>

lemma db_matches_replace:
  assumes tbl: "perm_table_ok tbl" and ok: "records_ok tbl records" "omap_ok next"
    and m: "db_matches tbl records db"
    and codes: "\<forall>c \<in> CH. unat c < length tbl"
    and same: "\<And>c. c \<notin> CH \<Longrightarrow> map_of next c = map_of records c"
    and dels: "set cs = {c \<in> CH. \<exists>r. map_of records c = Some r \<and> ur_isPersist r}"
    and adds: "set crs = {(c, r). c \<in> CH \<and> map_of next c = Some r \<and> ur_isPersist r}"
  shows "db_matches tbl next (apply_adds (map (\<lambda>(c, r). policy_add tbl c r) crs)
     (apply_dels (map (policy_del tbl) cs) db))"
proof -
  let ?row = "\<lambda>(c, r). policy_row tbl c r"
  have oko: "omap_ok records" using ok(1) by (simp add: records_ok_def)
  have old: "{x \<in> set records. ur_isPersist (snd x)} = {(c, r). map_of records c = Some r \<and> ur_isPersist r}"
    using records_lookup [OF oko] by auto
  have new: "{x \<in> set next. ur_isPersist (snd x)} = {(c, r). map_of next c = Some r \<and> ur_isPersist r}"
    using records_lookup [OF ok(2)] by auto
  have lt: "unat c < length tbl" if "map_of records c = Some r" for c r
    using that ok(1) by (auto simp: records_ok_def dest: map_of_SomeD)
  have gone: "(\<exists>c' \<in> set cs. named_row (TransferOpcodeToPermission tbl c') (policy_row tbl c r)) \<longleftrightarrow> c \<in> CH"
    if "map_of records c = Some r" "ur_isPersist r" for c r
  proof
    assume "c \<in> CH"
    then show "\<exists>c' \<in> set cs. named_row (TransferOpcodeToPermission tbl c') (policy_row tbl c r)"
      using that dels by (intro bexI [of _ c]) (simp_all add: named_policy_row)
  next
    assume "\<exists>c' \<in> set cs. named_row (TransferOpcodeToPermission tbl c') (policy_row tbl c r)"
    then obtain c' where "c' \<in> CH" "TransferOpcodeToPermission tbl c = TransferOpcodeToPermission tbl c'"
      using dels by (auto simp: named_policy_row)
    with code_name_inject [OF tbl lt [OF that(1)]] codes show "c \<in> CH" by auto
  qed
  let ?old = "{(c, r). map_of records c = Some r \<and> ur_isPersist r}"
  have "set (filter (\<lambda>row. \<forall>c \<in> set cs. \<not> named_row (TransferOpcodeToPermission tbl c) row) (db policy_table)) =
      {row \<in> ?row ` ?old. \<forall>c \<in> set cs. \<not> named_row (TransferOpcodeToPermission tbl c) row}"
    using m unfolding db_matches_def old by simp
  also have "\<dots> = ?row ` {x \<in> ?old. fst x \<notin> CH}"
  proof -
    have "(\<forall>c \<in> set cs. \<not> named_row (TransferOpcodeToPermission tbl c) (?row x)) \<longleftrightarrow> fst x \<notin> CH" if "x \<in> ?old" for x
      using that gone [of "fst x" "snd x"] by (auto simp: case_prod_beta)
    then show ?thesis by blast
  qed
  finally have kept: "set (filter (\<lambda>row. \<forall>c \<in> set cs. \<not> named_row (TransferOpcodeToPermission tbl c) row) (db policy_table)) =
      ?row ` {x \<in> ?old. fst x \<notin> CH}" .
  have "{x \<in> ?old. fst x \<notin> CH} \<union> set crs = {(c, r). map_of next c = Some r \<and> ur_isPersist r}"
    unfolding adds using same by auto
  then have "?row ` {x \<in> ?old. fst x \<notin> CH} \<union> ?row ` set crs = ?row ` {(c, r). map_of next c = Some r \<and> ur_isPersist r}"
    by (metis image_Un)
  then show ?thesis
    unfolding db_matches_def new rows_after_adds rows_after_dels set_append kept by simp
qed

section \<open>What setting a policy does\<close>

text \<open>The last request for a user decides.\<close>

definition request :: "UserPolicy list \<Rightarrow> int \<Rightarrow> bool option" where
  "request items = map_of (rev (map (\<lambda>i. (up_userId i, up_isRestricted i)) items))"

lemma request_Cons:
  "request (i # items) u = (case request items u of Some b \<Rightarrow> Some b
     | None \<Rightarrow> if u = up_userId i then Some (up_isRestricted i) else None)"
  by (simp add: request_def map_of_append map_add_def split: option.split)

lemma request_Nil [simp]: "request [] = (\<lambda>_. None)"
  by (simp add: request_def fun_eq_iff)

lemma set_erase_user: "distinct users \<Longrightarrow> set (erase_first (\<lambda>u. u = v) users) = set users - {v}"
  by (simp add: erase_first_distinct) auto

definition user_list_updated :: "UserPolicy list \<Rightarrow> int list \<Rightarrow> int set \<Rightarrow> int set \<Rightarrow> int list \<Rightarrow> bool" where
  "user_list_updated items users acc changed users' \<longleftrightarrow>
     distinct users' \<and> (\<forall>u. u \<in> set users' \<longleftrightarrow> (case request items u of Some b \<Rightarrow> b | None \<Rightarrow> u \<in> set users)) \<and>
     acc \<subseteq> changed \<and> (changed = {} \<longrightarrow> users' = users) \<and>
     (\<forall>u. (u \<in> set users') \<noteq> (u \<in> set users) \<longrightarrow> u \<in> changed)"

lemma user_list_updated_step:
  assumes IH: "user_list_updated items users1 (insert (up_userId i) acc) changed users'"
    and set1: "set users1 = (if up_isRestricted i then insert (up_userId i) (set users) else set users - {up_userId i})"
  shows "user_list_updated (i # items) users acc changed users'"
proof -
  have in_changed: "up_userId i \<in> changed" "acc \<subseteq> changed" using IH by (auto simp: user_list_updated_def)
  have mem: "u \<in> set users' \<longleftrightarrow> (case request (i # items) u of Some b \<Rightarrow> b | None \<Rightarrow> u \<in> set users)" for u
    using IH set1 by (auto simp: user_list_updated_def request_Cons split: option.splits if_splits)
  have "u \<in> changed" if "(u \<in> set users') \<noteq> (u \<in> set users)" for u
  proof (cases "u = up_userId i")
    case False
    then have "u \<in> set users1 \<longleftrightarrow> u \<in> set users" using set1 by simp
    then show ?thesis using IH that by (simp add: user_list_updated_def)
  qed (simp add: in_changed)
  then show ?thesis using IH in_changed mem by (auto simp: user_list_updated_def)
qed

lemma UpdateRestrictedUserList_result:
  "UpdateRestrictedUserList items users acc = (changed, users') \<Longrightarrow> distinct users \<Longrightarrow>
   user_list_updated items users acc changed users'"
proof (induction items users acc rule: UpdateRestrictedUserList.induct)
  case (2 i items users acc)
  consider (out) "up_userId i \<in> set users" "\<not> up_isRestricted i"
    | (new) "up_userId i \<notin> set users" "up_isRestricted i"
    | (same) "up_userId i \<in> set users \<longleftrightarrow> up_isRestricted i" by blast
  then show ?case
  proof cases
    case out
    have "distinct (erase_first (\<lambda>u. u = up_userId i) users)" using 2(5) by (simp add: erase_first_distinct)
    with 2(1) 2(4) out
    have "user_list_updated items (erase_first (\<lambda>u. u = up_userId i) users) (insert (up_userId i) acc) changed users'"
      by simp
    then show ?thesis by (rule user_list_updated_step) (simp add: out set_erase_user 2(5))
  next
    case new
    with 2(2) 2(4) 2(5) have "user_list_updated items (users @ [up_userId i]) (insert (up_userId i) acc) changed users'"
      by simp
    then show ?thesis by (rule user_list_updated_step) (simp add: new)
  next
    case same
    with 2(3) 2(4) 2(5) have "user_list_updated items users acc changed users'" by simp
    then show ?thesis using same by (auto simp: user_list_updated_def request_Cons split: option.splits)
  qed
qed (simp add: user_list_updated_def)

text \<open>The record of one permission before and after a policy is applied to it.\<close>

definition policy_base :: "UserPermissionPolicy \<Rightarrow> UserPolicyRecord option \<Rightarrow> UserPolicyRecord" where
  "policy_base p old = (case old of Some r \<Rightarrow> r | None \<Rightarrow> new_record\<lparr>ur_isPersist := pp_isPersist p\<rparr>)"

definition policy_users :: "UserPermissionPolicy \<Rightarrow> UserPolicyRecord option \<Rightarrow> int set \<times> int list" where
  "policy_users p old = UpdateRestrictedUserList (pp_userPolicyList p) (ur_userList (policy_base p old)) {}"

definition policy_result :: "token_id \<Rightarrow> UserPermissionPolicy \<Rightarrow> UserPolicyRecord option \<Rightarrow> UserPolicyRecord option" where
  "policy_result caller p old =
     (if snd (policy_users p old) = [] then None
      else Some ((policy_base p old)\<lparr>ur_userList := snd (policy_users p old), ur_controllerToken := caller\<rparr>))"

lemma cache_policy_eq:
  "cache_policy caller (p, c) (records, changes) =
     (let old = map_of records c in
      (case policy_result caller p old of None \<Rightarrow> omap_erase c records | Some r \<Rightarrow> omap_insert c r records,
       if fst (policy_users p old) = {} then changes
       else changes @ [\<lparr>uc_permCode = c, uc_isPersist = ur_isPersist (policy_base p old),
                        uc_changedUserList = fst (policy_users p old)\<rparr>]))"
  by (cases "map_of records c")
    (simp_all add: cache_policy_def policy_result_def policy_users_def policy_base_def Let_def split_beta)

lemma cache_fold:
  assumes "omap_ok records" and "distinct (map snd pcs)"
    and "fold (cache_policy caller) pcs (records, changes) = (records', changes')"
  shows "omap_ok records' \<and> (\<forall>c. c \<notin> snd ` set pcs \<longrightarrow> map_of records' c = map_of records c) \<and>
    (\<forall>(p, c) \<in> set pcs. map_of records' c = policy_result caller p (map_of records c)) \<and>
    uc_permCode ` set changes' =
      uc_permCode ` set changes \<union> {c. \<exists>p. (p, c) \<in> set pcs \<and> fst (policy_users p (map_of records c)) \<noteq> {}}"
  using assms
proof (induction pcs arbitrary: records changes)
  case (Cons pc pcs)
  obtain p c where pc: "pc = (p, c)" by (cases pc)
  obtain records1 changes1 where step: "cache_policy caller (p, c) (records, changes) = (records1, changes1)" by fastforce
  have ok1: "omap_ok records1" and at: "map_of records1 c = policy_result caller p (map_of records c)"
    and off: "\<And>c'. c' \<noteq> c \<Longrightarrow> map_of records1 c' = map_of records c'"
    using step Cons.prems(1)
    by (auto simp: cache_policy_eq Let_def omap_ok_insert omap_ok_erase map_of_omap_insert map_of_omap_erase
        split: option.splits)
  have ch: "uc_permCode ` set changes1 =
      uc_permCode ` set changes \<union> (if fst (policy_users p (map_of records c)) = {} then {} else {c})"
    using step by (auto simp: cache_policy_eq Let_def split: if_splits)
  have d: "distinct (map snd pcs)" "c \<notin> snd ` set pcs" using Cons.prems(2) by (auto simp: pc)
  have "fold (cache_policy caller) pcs (records1, changes1) = (records', changes')"
    using Cons.prems(3) step by (simp add: pc)
  note IH = Cons.IH [OF ok1 d(1) this]
  have rest: "map_of records1 c' = map_of records c'" if "(p', c') \<in> set pcs" for p' c'
    using off [of c'] that d(2) by force
  have "map_of records' c = policy_result caller p (map_of records c)" using IH d(2) at by simp
  moreover have "\<forall>(p, c) \<in> set pcs. map_of records' c = policy_result caller p (map_of records c)"
    using IH rest by fastforce
  moreover have "uc_permCode ` set changes' = uc_permCode ` set changes \<union>
      {c'. \<exists>p'. (p', c') \<in> set (pc # pcs) \<and> fst (policy_users p' (map_of records c')) \<noteq> {}}"
    using IH ch rest d(2) by (auto simp: pc)
  ultimately show ?case
    using IH off by (simp add: pc)
qed simp

lemma validate_set_loop_ok:
  assumes "perm_table_ok tbl" and "omap_ok flags" and "validate_set_loop tbl records caller ps flags codes = (RET_SUCCESS, codes')"
  shows "\<exists>cs. codes' = codes @ cs \<and> length cs = length ps \<and> distinct cs \<and> set cs \<inter> dom (map_of flags) = {} \<and>
    (\<forall>(p, c) \<in> set (zip ps cs). TransferPermissionToOpcode tbl (pp_permissionName p) = Some c \<and>
       list_all (\<lambda>u. IsUserIdValid (up_userId u)) (pp_userPolicyList p) \<and>
       (\<forall>r. map_of records c = Some r \<longrightarrow> ur_controllerToken r = caller \<and> ur_isPersist r = pp_isPersist p))"
  using assms(2,3)
proof (induction ps arbitrary: flags codes)
  case (Cons p ps)
  obtain def c where g: "GetPermissionBriefDefAndCode tbl (pp_permissionName p) = Some (def, c)"
    using Cons.prems(2) by (cases "GetPermissionBriefDefAndCode tbl (pp_permissionName p)") auto
  then have c: "TransferPermissionToOpcode tbl (pp_permissionName p) = Some c"
    by (auto simp: GetPermissionBriefDefAndCode_def split: option.splits)
  have f: "map_of flags c = None" and u: "list_all (\<lambda>u. IsUserIdValid (up_userId u)) (pp_userPolicyList p)"
    and r: "\<forall>r. map_of records c = Some r \<longrightarrow> ur_controllerToken r = caller \<and> ur_isPersist r = pp_isPersist p"
    and go: "validate_set_loop tbl records caller ps (omap_emplace c (pp_isPersist p) flags) (codes @ [c]) = (RET_SUCCESS, codes')"
    using Cons.prems(2) g by (auto simp: Let_def split: option.splits if_splits)
  have ok: "omap_ok (omap_emplace c (pp_isPersist p) flags)" using Cons.prems(1) by (rule omap_ok_emplace)
  from Cons.IH [OF ok go] obtain cs where cs: "codes' = (codes @ [c]) @ cs" "length cs = length ps" "distinct cs"
    "set cs \<inter> dom (map_of (omap_emplace c (pp_isPersist p) flags)) = {}"
    "\<forall>(p, c) \<in> set (zip ps cs). TransferPermissionToOpcode tbl (pp_permissionName p) = Some c \<and>
       list_all (\<lambda>u. IsUserIdValid (up_userId u)) (pp_userPolicyList p) \<and>
       (\<forall>r. map_of records c = Some r \<longrightarrow> ur_controllerToken r = caller \<and> ur_isPersist r = pp_isPersist p)"
    by blast
  have dom: "dom (map_of (omap_emplace c (pp_isPersist p) flags)) = insert c (dom (map_of flags))"
    using Cons.prems(1) f by (simp add: map_of_omap_emplace)
  have nc: "c \<notin> dom (map_of flags)" using f by (simp add: domIff)
  show ?case
    by (rule exI [of _ "c # cs"]) (use cs c u r dom nc in auto)
qed simp

section \<open>The database follows the cache\<close>

definition policy_inv :: "perm_table \<Rightarrow> ('s \<Rightarrow> tables) \<Rightarrow> UserPolicyRecords \<times> 's AccessTokenDb \<Rightarrow> bool" where
  "policy_inv tbl sabs st \<longleftrightarrow> records_ok tbl (fst st) \<and> db_matches tbl (fst st) (sabs (db_store (snd st)))"

definition persisted :: "UserPolicyRecords \<Rightarrow> u32 \<Rightarrow> bool" where
  "persisted records c \<longleftrightarrow> (\<exists>r. map_of records c = Some r \<and> ur_isPersist r)"

lemma policy_dels_eq:
  "concat (map (\<lambda>change. case map_of records (uc_permCode change) of None \<Rightarrow> []
       | Some r \<Rightarrow> if ur_isPersist r then [policy_del tbl (uc_permCode change)] else []) changes) =
   map (policy_del tbl) (filter (persisted records) (map uc_permCode changes))"
  by (induction changes) (auto simp: persisted_def split: option.splits)

lemma policy_adds_eq:
  "concat (map (\<lambda>change. case map_of records (uc_permCode change) of None \<Rightarrow> []
       | Some r \<Rightarrow> if ur_isPersist r then [policy_add tbl (uc_permCode change) r] else []) changes) =
   map (\<lambda>(c, r). policy_add tbl c r)
     (map (\<lambda>c. (c, the (map_of records c))) (filter (persisted records) (map uc_permCode changes)))"
  by (induction changes) (auto simp: persisted_def split: option.splits)

lemma UpdateUserPolicyDatabase_matches:
  assumes laws: "rdb_laws ops sabs tabs" and tbl: "perm_table_ok tbl"
    and ok: "records_ok tbl records" "omap_ok next" and m: "db_matches tbl records (sabs (db_store d))"
    and codes: "\<forall>c \<in> uc_permCode ` set changes. unat c < length tbl"
    and same: "\<And>c. c \<notin> uc_permCode ` set changes \<Longrightarrow> map_of next c = map_of records c"
    and run: "UpdateUserPolicyDatabase ops tbl records changes next d = (ret, d')"
  shows "if ret = RET_SUCCESS then db_matches tbl next (sabs (db_store d'))
         else sabs (db_store d') = sabs (db_store d)"
proof -
  let ?cs = "filter (persisted records) (map uc_permCode changes)"
  let ?crs = "map (\<lambda>c. (c, the (map_of next c))) (filter (persisted next) (map uc_permCode changes))"
  let ?dels = "map (policy_del tbl) ?cs" and ?adds = "map (\<lambda>(c, r). policy_add tbl c r) ?crs"
  have "db_matches tbl next (apply_adds ?adds (apply_dels ?dels (sabs (db_store d))))"
  proof (rule db_matches_replace [OF tbl ok m codes same])
    show "set ?cs = {c \<in> uc_permCode ` set changes. \<exists>r. map_of records c = Some r \<and> ur_isPersist r}"
      by (auto simp: persisted_def)
    show "set ?crs = {(c, r). c \<in> uc_permCode ` set changes \<and> map_of next c = Some r \<and> ur_isPersist r}"
      by (force simp: persisted_def)
  qed
  moreover obtain e d1 where del: "DeleteAndInsertValues ops ?dels ?adds d = (e, d1)" by fastforce
  ultimately show ?thesis
    using run DeleteAndInsertValues_atomic [OF laws del]
    unfolding UpdateUserPolicyDatabase_def policy_dels_eq policy_adds_eq
    by (auto simp: Let_def apply_adds_def apply_dels_def split: if_splits)
qed

section \<open>The cache after a policy is set\<close>

lemma request_SomeD: "request items u = Some b \<Longrightarrow> \<exists>i \<in> set items. up_userId i = u"
  by (auto simp: request_def dest!: map_of_SomeD)

lemma policy_users_updated:
  assumes "\<And>r. old = Some r \<Longrightarrow> distinct (ur_userList r)"
  shows "user_list_updated (pp_userPolicyList p) (ur_userList (policy_base p old)) {}
    (fst (policy_users p old)) (snd (policy_users p old))"
  by (rule UpdateRestrictedUserList_result)
    (use assms in \<open>auto simp: policy_users_def policy_base_def new_record_def split: option.split\<close>)

lemma policy_result_unchanged:
  assumes "fst (policy_users p old) = {}"
    and "\<And>r. old = Some r \<Longrightarrow> distinct (ur_userList r) \<and> ur_userList r \<noteq> [] \<and> ur_controllerToken r = caller"
  shows "policy_result caller p old = old"
proof -
  have "snd (policy_users p old) = ur_userList (policy_base p old)"
    using policy_users_updated [of old p] assms by (auto simp: user_list_updated_def)
  then show ?thesis
    using assms(2) by (cases old) (auto simp: policy_result_def policy_base_def new_record_def)
qed

lemma policy_result_users:
  assumes "\<And>r. old = Some r \<Longrightarrow> distinct (ur_userList r) \<and> list_all is_int32 (ur_userList r)"
    and "list_all (\<lambda>u. is_int32 (up_userId u)) (pp_userPolicyList p)"
    and "policy_result caller p old = Some r'"
  shows "distinct (ur_userList r') \<and> list_all is_int32 (ur_userList r') \<and> ur_controllerToken r' = caller"
proof -
  let ?base = "ur_userList (policy_base p old)"
  have upd: "user_list_updated (pp_userPolicyList p) ?base {} (fst (policy_users p old)) (snd (policy_users p old))"
    using policy_users_updated assms(1) by blast
  have r': "ur_userList r' = snd (policy_users p old)" "ur_controllerToken r' = caller"
    using assms(3) by (auto simp: policy_result_def split: if_splits)
  have base: "is_int32 u" if "u \<in> set ?base" for u
    using that assms(1) by (auto simp: policy_base_def new_record_def list_all_iff split: option.splits)
  have "is_int32 u" if "u \<in> set (snd (policy_users p old))" for u
  proof (cases "request (pp_userPolicyList p) u")
    case None
    then show ?thesis using upd that base by (auto simp: user_list_updated_def)
  next
    case (Some b)
    then show ?thesis using request_SomeD assms(2) by (fastforce simp: list_all_iff)
  qed
  then show ?thesis using upd r' by (simp add: list_all_iff user_list_updated_def)
qed

definition typed_policy :: "UserPermissionPolicy \<Rightarrow> bool" where
  "typed_policy p \<longleftrightarrow> list_all (\<lambda>u. is_int32 (up_userId u)) (pp_userPolicyList p)"

text \<open>What a validated request does to the cache.\<close>

definition cache_updated ::
    "perm_table \<Rightarrow> token_id \<Rightarrow> UserPermissionPolicy list \<Rightarrow> u32 list \<Rightarrow> UserPolicyRecords \<Rightarrow>
      UserPolicyRecords \<Rightarrow> UserPolicyChange list \<Rightarrow> bool" where
  "cache_updated tbl caller ps cs records next changes \<longleftrightarrow>
     length cs = length ps \<and>
     (\<forall>(p, c) \<in> set (zip ps cs). TransferPermissionToOpcode tbl (pp_permissionName p) = Some c \<and>
        (\<forall>r. map_of records c = Some r \<longrightarrow> ur_controllerToken r = caller \<and> ur_isPersist r = pp_isPersist p) \<and>
        map_of next c = policy_result caller p (map_of records c)) \<and>
     (\<forall>c. c \<notin> set cs \<longrightarrow> map_of next c = map_of records c) \<and> omap_ok next \<and>
     (\<forall>c. c \<notin> uc_permCode ` set changes \<longrightarrow> map_of next c = map_of records c) \<and>
     uc_permCode ` set changes \<subseteq> set cs"

lemma records_okD:
  assumes "records_ok tbl records" and "map_of records c = Some r"
  shows "unat c < length tbl" and "IsUserPolicyRecordSizeValid r" and "list_all is_int32 (ur_userList r)"
    and "distinct (ur_userList r)" and "ur_userList r \<noteq> []"
  using assms map_of_SomeD [of records c r] by (auto simp: records_ok_def IsUserPolicyRecordSizeValid_def)

lemma cache_updated_by_set:
  assumes tbl: "perm_table_ok tbl" and ok: "records_ok tbl records"
    and v: "ValidateSetUserPolicy tbl records ps caller = (RET_SUCCESS, cs)"
    and u: "UpdateUserPolicyCache records ps cs caller = (next, changes)"
  shows "cache_updated tbl caller ps cs records next changes"
proof -
  have oko: "omap_ok records" using ok by (simp add: records_ok_def)
  from validate_set_loop_ok [OF tbl omap_ok_Nil v [unfolded ValidateSetUserPolicy_def]]
  have vs: "length cs = length ps" "distinct cs"
    "\<forall>(p, c) \<in> set (zip ps cs). TransferPermissionToOpcode tbl (pp_permissionName p) = Some c \<and>
       list_all (\<lambda>u. IsUserIdValid (up_userId u)) (pp_userPolicyList p) \<and>
       (\<forall>r. map_of records c = Some r \<longrightarrow> ur_controllerToken r = caller \<and> ur_isPersist r = pp_isPersist p)"
    by auto
  have d: "distinct (map snd (zip ps cs))" and s: "snd ` set (zip ps cs) = set cs"
    using vs(1,2) by (simp_all flip: set_map)
  note f = cache_fold [OF oko d u [unfolded UpdateUserPolicyCache_def]]
  have eq: "map_of next c = map_of records c" if c: "c \<notin> uc_permCode ` set changes" for c
  proof (cases "c \<in> set cs")
    case True
    then obtain p where p: "(p, c) \<in> set (zip ps cs)" using s by force
    have "fst (policy_users p (map_of records c)) = {}" using f c p by auto
    moreover have "map_of next c = policy_result caller p (map_of records c)" using f p by auto
    ultimately show ?thesis
      using policy_result_unchanged [of p "map_of records c" caller] vs(3) p records_okD(4,5) [OF ok] by auto
  qed (use f s in auto)
  have "uc_permCode ` set changes \<subseteq> set cs" using f s by force
  then show ?thesis
    unfolding cache_updated_def using vs f s eq by auto
qed

lemma cache_updated_ok:
  assumes tbl: "perm_table_ok tbl" and ok: "records_ok tbl records"
    and c: "cache_updated tbl caller ps cs records next changes"
    and typed: "list_all typed_policy ps" and sz: "next \<noteq> [] \<longrightarrow> IsUserPolicyRecordsSizeValid next"
  shows "records_ok tbl next"
proof -
  have "unat c < length tbl \<and> IsUserPolicyRecordSizeValid r \<and> list_all is_int32 (ur_userList r) \<and> distinct (ur_userList r)"
    if cr: "(c, r) \<in> set next" for c r
  proof -
    have at: "map_of next c = Some r" using cr c records_lookup [of "next" c r] by (simp add: cache_updated_def)
    have sz': "IsUserPolicyRecordSizeValid r"
      using sz cr by (force simp: IsUserPolicyRecordsSizeValid_def list_all_iff split: if_splits)
    show ?thesis
    proof (cases "c \<in> set cs")
      case True
      then obtain p where p: "(p, c) \<in> set (zip ps cs)"
        using c by (metis cache_updated_def in_set_impl_in_set_zip2)
      then have res: "policy_result caller p (map_of records c) = Some r"
        and op: "TransferPermissionToOpcode tbl (pp_permissionName p) = Some c"
        using c at by (auto simp: cache_updated_def)
      have "typed_policy p" using typed p by (metis list_all_iff in_set_zipE)
      then show ?thesis
        using policy_result_users [OF _ _ res] records_okD [OF ok] sz' op [unfolded TransferPermissionToOpcode_iff [OF tbl]]
        by (auto simp: typed_policy_def)
    next
      case False
      then have "map_of records c = Some r" using c at by (auto simp: cache_updated_def)
      then show ?thesis using records_okD [OF ok] by auto
    qed
  qed
  then show ?thesis using c by (auto simp: records_ok_def cache_updated_def)
qed

section \<open>Every operation keeps cache and table in step\<close>

lemma SetUserPolicy_cases:
  assumes "SetUserPolicy ops tbl ps caller (records, d) = (ret, ch, records', d')"
  obtains (rejected) "ret \<noteq> RET_SUCCESS" "records' = records" "d' = d"
  | (failed) cs "next" changes where "ValidateSetUserPolicy tbl records ps caller = (RET_SUCCESS, cs)"
      "UpdateUserPolicyCache records ps cs caller = (next, changes)"
      "UpdateUserPolicyDatabase ops tbl records changes next d = (ret, d')" "ret \<noteq> RET_SUCCESS" "records' = records"
  | (stored) cs where "ValidateSetUserPolicy tbl records ps caller = (RET_SUCCESS, cs)"
      "UpdateUserPolicyCache records ps cs caller = (records', ch)"
      "records' \<noteq> [] \<longrightarrow> IsUserPolicyRecordsSizeValid records'"
      "UpdateUserPolicyDatabase ops tbl records ch records' d = (RET_SUCCESS, d')" "ret = RET_SUCCESS"
proof -
  obtain e cs where v: "ValidateSetUserPolicy tbl records ps caller = (e, cs)" by fastforce
  obtain "next" changes where u: "UpdateUserPolicyCache records ps cs caller = (next, changes)" by fastforce
  obtain e2 d2 where db: "UpdateUserPolicyDatabase ops tbl records changes next d = (e2, d2)" by fastforce
  show ?thesis
    using assms v u db that by (auto simp: SetUserPolicy_def Let_def split: if_splits)
qed

lemma cache_updated_codes:
  assumes tbl: "perm_table_ok tbl" and up: "cache_updated tbl caller ps cs records next changes"
  shows "\<forall>c \<in> uc_permCode ` set changes. unat c < length tbl"
proof
  fix c
  assume "c \<in> uc_permCode ` set changes"
  then have "c \<in> set cs" and "length cs = length ps" using up by (auto simp: cache_updated_def)
  then obtain p where "(p, c) \<in> set (zip ps cs)" using in_set_impl_in_set_zip2 by metis
  then have "TransferPermissionToOpcode tbl (pp_permissionName p) = Some c"
    using up by (auto simp: cache_updated_def)
  then show "unat c < length tbl" by (simp add: TransferPermissionToOpcode_iff [OF tbl])
qed

lemma SetUserPolicy_inv:
  assumes laws: "rdb_laws ops sabs tabs" and tbl: "perm_table_ok tbl" and inv: "policy_inv tbl sabs (records, d)"
    and typed: "list_all typed_policy ps"
    and run: "SetUserPolicy ops tbl ps caller (records, d) = (ret, ch, records', d')"
  shows "policy_inv tbl sabs (records', d')"
proof -
  have ok: "records_ok tbl records" and m: "db_matches tbl records (sabs (db_store d))"
    using inv by (simp_all add: policy_inv_def)
  have db: "if r = RET_SUCCESS then db_matches tbl next (sabs (db_store d1)) else sabs (db_store d1) = sabs (db_store d)"
    if up: "cache_updated tbl caller ps cs records next changes"
      and "UpdateUserPolicyDatabase ops tbl records changes next d = (r, d1)" for cs "next" changes r d1
  proof (rule UpdateUserPolicyDatabase_matches [OF laws tbl ok _ m cache_updated_codes [OF tbl up] _ that(2)])
    show "omap_ok next" using up by (simp add: cache_updated_def)
    show "map_of next c = map_of records c" if "c \<notin> uc_permCode ` set changes" for c
      using up that by (simp add: cache_updated_def)
  qed
  from run show ?thesis
  proof (cases rule: SetUserPolicy_cases)
    case (failed cs "next" changes)
    show ?thesis
      using db [OF cache_updated_by_set [OF tbl ok failed(1,2)] failed(3)] ok m failed(4,5)
      by (simp add: policy_inv_def)
  next
    case (stored cs)
    note up = cache_updated_by_set [OF tbl ok stored(1,2)]
    show ?thesis
      using db [OF up stored(4)] cache_updated_ok [OF tbl ok up typed stored(3)] by (simp add: policy_inv_def)
  next
    case rejected
    then show ?thesis using inv by simp
  qed
qed

lemma clear_loop_result:
  assumes "omap_ok records" and "clear_loop tbl cs records changes dels = (records', changes', dels')"
  shows "omap_ok records' \<and> set records' \<subseteq> set records \<and>
    (\<forall>c. map_of records' c = (if c \<in> set cs then None else map_of records c)) \<and>
    (\<exists>xs. dels' = dels @ map (policy_del tbl) xs \<and> set xs = {c \<in> set cs. persisted records c})"
  using assms
proof (induction cs arbitrary: records changes dels)
  case (Cons c cs)
  show ?case
  proof (cases "map_of records c")
    case None
    then have "{c' \<in> set (c # cs). persisted records c'} = {c' \<in> set cs. persisted records c'}"
      by (auto simp: persisted_def)
    then show ?thesis using Cons.IH [OF Cons.prems(1)] Cons.prems(2) None by auto
  next
    case (Some r)
    have sub: "set (omap_erase c records) \<subseteq> set records" by (auto simp: omap_erase_def)
    have "clear_loop tbl cs (omap_erase c records)
        (changes @ [\<lparr>uc_permCode = c, uc_isPersist = ur_isPersist r, uc_changedUserList = set (ur_userList r)\<rparr>])
        (if ur_isPersist r then dels @ [policy_del tbl c] else dels) = (records', changes', dels')"
      using Cons.prems(2) Some by simp
    from Cons.IH [OF omap_ok_erase [OF Cons.prems(1)] this] obtain xs where xs:
      "omap_ok records'" "set records' \<subseteq> set (omap_erase c records)"
      "\<forall>c'. map_of records' c' = (if c' \<in> set cs then None else map_of (omap_erase c records) c')"
      "dels' = (if ur_isPersist r then dels @ [policy_del tbl c] else dels) @ map (policy_del tbl) xs"
      "set xs = {c' \<in> set cs. persisted (omap_erase c records) c'}" by blast
    have p: "persisted (omap_erase c records) c' \<longleftrightarrow> c' \<noteq> c \<and> persisted records c'" for c'
      by (auto simp: persisted_def map_of_omap_erase)
    have "\<exists>ys. dels' = dels @ map (policy_del tbl) ys \<and> set ys = {c' \<in> set (c # cs). persisted records c'}"
      by (rule exI [of _ "(if ur_isPersist r then [c] else []) @ xs"])
        (use xs(4,5) p Some in \<open>auto simp: persisted_def\<close>)
    then show ?thesis using xs(1-3) sub by (auto simp: map_of_omap_erase)
  qed
qed simp

lemma validate_clear_loop_ok:
  assumes "validate_clear_loop tbl records caller ps codes = (RET_SUCCESS, codes')"
  shows "\<exists>cs. codes' = codes @ cs \<and> list_all2 (\<lambda>p c. TransferPermissionToOpcode tbl p = Some c) ps cs \<and>
    (\<forall>c \<in> set cs. \<exists>r. map_of records c = Some r \<and> ur_controllerToken r = caller)"
  using assms
proof (induction ps arbitrary: codes)
  case (Cons p ps)
  obtain c where c: "TransferPermissionToOpcode tbl p = Some c"
    using Cons.prems by (cases "TransferPermissionToOpcode tbl p") auto
  obtain r where r: "map_of records c = Some r" "ur_controllerToken r = caller"
    and go: "validate_clear_loop tbl records caller ps (codes @ [c]) = (RET_SUCCESS, codes')"
    using Cons.prems c by (cases "map_of records c") (auto split: if_splits)
  from Cons.IH [OF go] obtain cs where "codes' = (codes @ [c]) @ cs"
    "list_all2 (\<lambda>p c. TransferPermissionToOpcode tbl p = Some c) ps cs"
    "\<forall>c \<in> set cs. \<exists>r. map_of records c = Some r \<and> ur_controllerToken r = caller" by blast
  then show ?case using c r by (intro exI [of _ "c # cs"]) auto
qed simp

lemma records_ok_subset: "records_ok tbl records \<Longrightarrow> omap_ok next \<Longrightarrow> set next \<subseteq> set records \<Longrightarrow> records_ok tbl next"
  by (auto simp: records_ok_def)

lemma ClearUserPolicy_inv:
  assumes laws: "rdb_laws ops sabs tabs" and tbl: "perm_table_ok tbl" and inv: "policy_inv tbl sabs (records, d)"
    and run: "ClearUserPolicy ops tbl ps caller (records, d) = (ret, ch, records', d')"
  shows "policy_inv tbl sabs (records', d')"
proof -
  have ok: "records_ok tbl records" and m: "db_matches tbl records (sabs (db_store d))"
    using inv by (simp_all add: policy_inv_def)
  obtain e cs where v: "ValidateClearUserPolicy tbl records ps caller = (e, cs)" by fastforce
  obtain "next" changes dels where l: "clear_loop tbl cs records [] [] = (next, changes, dels)"
    using prod_cases3 by blast
  obtain e2 d2 where del: "DeleteAndInsertValues ops dels [] d = (e2, d2)" by fastforce
  have oko: "omap_ok records" using ok by (simp add: records_ok_def)
  from clear_loop_result [OF oko l] obtain xs where next_ok: "omap_ok next" and sub: "set next \<subseteq> set records"
    and look: "\<forall>c. map_of next c = (if c \<in> set cs then None else map_of records c)"
    and dels: "dels = map (policy_del tbl) xs" and xs: "set xs = {c \<in> set cs. persisted records c}" by auto
  show ?thesis
  proof (cases "e = RET_SUCCESS")
    case True
    have "validate_clear_loop tbl records caller ps [] = (RET_SUCCESS, cs)"
      using v True by (simp add: ValidateClearUserPolicy_def)
    from validate_clear_loop_ok [OF this] have "\<forall>c \<in> set cs. unat c < length tbl"
      using records_okD(1) [OF ok] by auto
    from db_matches_replace [OF tbl ok next_ok m this, of xs "[]"] look xs
    have "db_matches tbl next (apply_dels dels (sabs (db_store d)))"
      by (simp add: dels persisted_def apply_adds_def)
    moreover have "dels = [] \<Longrightarrow> apply_dels dels db = db" for db by (simp add: apply_dels_def)
    ultimately show ?thesis
      using run v l del True DeleteAndInsertValues_atomic [OF laws del] inv records_ok_subset [OF ok next_ok sub]
      by (auto simp: ClearUserPolicy_def policy_inv_def Let_def apply_adds_def split: if_splits)
  qed (use run v inv in \<open>auto simp: ClearUserPolicy_def\<close>)
qed

lemma policy_row_whitelist:
  "foldl (\<lambda>r (k, v). omap_insert k v r) (policy_row tbl c r)
     (ToRdbValueBucket (PutString FIELD_WHITELIST (SerializeWhiteTokenList w) [])) =
   policy_row tbl c (r\<lparr>ur_whiteList := w\<rparr>)"
  by (simp add: policy_row_eq PutString_def omap_emplace_def ToRdbValueBucket_def GetAllKeys_def Get_def rdb_value_def
      IsColumnStringType_def g_StringTypeColumns_def)

lemma db_matches_whitelist:
  assumes tbl: "perm_table_ok tbl" and ok: "records_ok tbl records" and m: "db_matches tbl records db"
    and r: "map_of records c = Some r" "ur_isPersist r"
  shows "db_matches tbl (omap_insert c (r\<lparr>ur_whiteList := w\<rparr>) records)
    (update_rows (ToRdbValueBucket (PutString FIELD_WHITELIST (SerializeWhiteTokenList w) []))
       (policy_table, ToRdbPredicates (BuildUserPolicyCondition (TransferOpcodeToPermission tbl c))) db)"
proof -
  let ?name = "TransferOpcodeToPermission tbl c" and ?r' = "r\<lparr>ur_whiteList := w\<rparr>"
  let ?bucket = "ToRdbValueBucket (PutString FIELD_WHITELIST (SerializeWhiteTokenList w) [])"
  define upd where
    "upd row = (if named_row ?name row then foldl (\<lambda>r (k, v). omap_insert k v r) row ?bucket else row)" for row
  let ?row = "\<lambda>(c, r). policy_row tbl c r"
  have oko: "omap_ok records" using ok by (simp add: records_ok_def)
  have lookup: "{x \<in> set rs. ur_isPersist (snd x)} = {(c, r). map_of rs c = Some r \<and> ur_isPersist r}"
    if "omap_ok rs" for rs using records_lookup [OF that] by auto
  have rows: "update_rows ?bucket (policy_table, ToRdbPredicates (BuildUserPolicyCondition ?name)) db policy_table =
      map upd (db policy_table)"
    by (simp add: update_rows_def policy_condition cond_holds_def named_row_def upd_def [abs_def])
  have f: "upd (policy_row tbl c' q) = (if c' = c then policy_row tbl c (q\<lparr>ur_whiteList := w\<rparr>) else policy_row tbl c' q)"
    if "map_of records c' = Some q" for c' q
    using code_name_inject [OF tbl records_okD(1) [OF ok that] records_okD(1) [OF ok r(1)]]
    by (auto simp: named_policy_row policy_row_whitelist upd_def)
  have "upd ` ?row ` {(c, r). map_of records c = Some r \<and> ur_isPersist r} =
      ?row ` {(c', q). map_of (omap_insert c ?r' records) c' = Some q \<and> ur_isPersist q}" (is "?l = ?r")
  proof
    show "?l \<subseteq> ?r"
    proof clarify
      fix c' q
      assume q: "map_of records c' = Some q" "ur_isPersist q"
      show "upd (policy_row tbl c' q) \<in> ?r"
        using f [OF q(1)] q r by (cases "c' = c") (force simp: map_of_omap_insert [OF oko])+
    qed
    show "?r \<subseteq> ?l"
    proof clarify
      fix c' q
      assume q: "map_of (omap_insert c ?r' records) c' = Some q" "ur_isPersist q"
      have "\<exists>q0. map_of records c' = Some q0 \<and> ur_isPersist q0 \<and> policy_row tbl c' q = upd (policy_row tbl c' q0)"
      proof (cases "c' = c")
        case True
        then have "policy_row tbl c' q = upd (policy_row tbl c' r)"
          using q f [OF r(1)] by (simp add: map_of_omap_insert [OF oko])
        then show ?thesis using r True by blast
      next
        case False
        then have old: "map_of records c' = Some q" using q by (simp add: map_of_omap_insert [OF oko])
        then have "policy_row tbl c' q = upd (policy_row tbl c' q)" using f [OF old] False by simp
        then show ?thesis using old q(2) by blast
      qed
      then show "policy_row tbl c' q \<in> ?l" by (auto intro!: image_eqI)
    qed
  qed
  then show ?thesis
    using m unfolding db_matches_def rows lookup [OF oko] lookup [OF omap_ok_insert [OF oko]] set_map by simp
qed

lemma records_ok_insert:
  assumes "records_ok tbl records" and "map_of records c = Some r" and "card w \<le> USER_POLICY_MAX_LIST_SIZE"
  shows "records_ok tbl (omap_insert c (r\<lparr>ur_whiteList := w\<rparr>) records)"
proof -
  have oko: "omap_ok records" using assms(1) by (simp add: records_ok_def)
  have "unat c' < length tbl \<and> IsUserPolicyRecordSizeValid q \<and> list_all is_int32 (ur_userList q) \<and> distinct (ur_userList q)"
    if "(c', q) \<in> set (omap_insert c (r\<lparr>ur_whiteList := w\<rparr>) records)" for c' q
    using that records_okD [OF assms(1)] assms(2,3)
    by (cases "c' = c")
      (auto simp: records_lookup [OF omap_ok_insert [OF oko]] map_of_omap_insert [OF oko] IsUserPolicyRecordSizeValid_def)
  then show ?thesis using oko by (auto simp: records_ok_def)
qed

lemma ValidatePolicyWhiteListUpdate_ok:
  assumes "ValidatePolicyWhiteListUpdateLocked records cx = (ret, Some r)"
  shows "ret = RET_SUCCESS" and "map_of records (wl_permCode cx) = Some r" and "ur_controllerToken r = wl_callerToken cx"
    and "wl_userId cx \<in> set (ur_userList r)"
    and "wl_tokenId cx \<in> ur_whiteList r \<longleftrightarrow> wl_type cx \<noteq> ADD"
    and "wl_type cx = ADD \<Longrightarrow> card (ur_whiteList r) + 1 \<le> USER_POLICY_MAX_LIST_SIZE"
  using assms by (auto simp: ValidatePolicyWhiteListUpdateLocked_def split: option.splits if_splits)

definition whitelist_after :: "PolicyWhiteListUpdateInfo \<Rightarrow> UserPolicyRecord \<Rightarrow> token_id set" where
  "whitelist_after cx r =
     (if wl_type cx = ADD then insert (wl_tokenId cx) (ur_whiteList r) else ur_whiteList r - {wl_tokenId cx})"

lemma UpdatePolicyWhiteList_cases:
  assumes "UpdatePolicyWhiteList ops tbl cx (records, d) = (ret, p, records', d')"
  obtains (rejected) "ret \<noteq> RET_SUCCESS" "records' = records" "d' = d"
  | (memory) r where "ValidatePolicyWhiteListUpdateLocked records cx = (RET_SUCCESS, Some r)" "\<not> ur_isPersist r"
      "records' = omap_insert (wl_permCode cx) (r\<lparr>ur_whiteList := whitelist_after cx r\<rparr>) records" "d' = d"
      "ret = RET_SUCCESS"
  | (stored) r e where "ValidatePolicyWhiteListUpdateLocked records cx = (RET_SUCCESS, Some r)" "ur_isPersist r"
      "Modify ops ACCESSTOKEN_USER_POLICY (PutString FIELD_WHITELIST (SerializeWhiteTokenList (whitelist_after cx r)) [])
         (BuildUserPolicyCondition (TransferOpcodeToPermission tbl (wl_permCode cx))) d = (e, d')"
      "records' = (if e = RET_SUCCESS then omap_insert (wl_permCode cx) (r\<lparr>ur_whiteList := whitelist_after cx r\<rparr>) records
                   else records)" "ret = RET_SUCCESS \<longleftrightarrow> e = RET_SUCCESS"
proof (cases "TransferOpcodeToPermission tbl (wl_permCode cx) = []")
  case True
  then show ?thesis using assms that(1) by (simp add: UpdatePolicyWhiteList_def)
next
  case name: False
  obtain e x where v: "ValidatePolicyWhiteListUpdateLocked records cx = (e, x)" by fastforce
  show ?thesis
  proof (cases x)
    case None
    then have "e \<noteq> RET_SUCCESS"
      using v by (auto simp: ValidatePolicyWhiteListUpdateLocked_def split: option.splits if_splits)
    then show ?thesis using assms name v None that(1) by (simp add: UpdatePolicyWhiteList_def)
  next
    case (Some r)
    then have v: "ValidatePolicyWhiteListUpdateLocked records cx = (RET_SUCCESS, Some r)"
      using v ValidatePolicyWhiteListUpdate_ok(1) by simp
    show ?thesis
    proof (cases "ur_isPersist r")
      case False
      then show ?thesis
        using assms name v that(2) by (simp add: UpdatePolicyWhiteList_def Let_def whitelist_after_def)
    next
      case True
      obtain e1 d1 where mod: "Modify ops ACCESSTOKEN_USER_POLICY
          (PutString FIELD_WHITELIST (SerializeWhiteTokenList (whitelist_after cx r)) [])
          (BuildUserPolicyCondition (TransferOpcodeToPermission tbl (wl_permCode cx))) d = (e1, d1)" by fastforce
      then have "d' = d1" "records' = (if e1 = RET_SUCCESS
          then omap_insert (wl_permCode cx) (r\<lparr>ur_whiteList := whitelist_after cx r\<rparr>) records else records)"
        "ret = RET_SUCCESS \<longleftrightarrow> e1 = RET_SUCCESS"
        using assms name v True
        by (auto simp: UpdatePolicyWhiteList_def Let_def whitelist_after_def split: if_splits)
      then show ?thesis using that(3) v True mod by blast
    qed
  qed
qed

lemma whitelist_after_card:
  assumes "ValidatePolicyWhiteListUpdateLocked records cx = (ret, Some r)" and "IsUserPolicyRecordSizeValid r"
  shows "card (whitelist_after cx r) \<le> USER_POLICY_MAX_LIST_SIZE"
  using ValidatePolicyWhiteListUpdate_ok [OF assms(1)] assms(2)
  by (auto simp: whitelist_after_def IsUserPolicyRecordSizeValid_def card_insert_if card_Diff_singleton_if)

lemma UpdatePolicyWhiteList_inv:
  assumes laws: "rdb_laws ops sabs tabs" and tbl: "perm_table_ok tbl" and inv: "policy_inv tbl sabs (records, d)"
    and run: "UpdatePolicyWhiteList ops tbl cx (records, d) = (ret, p, records', d')"
  shows "policy_inv tbl sabs (records', d')"
proof -
  have ok: "records_ok tbl records" and m: "db_matches tbl records (sabs (db_store d))"
    using inv by (simp_all add: policy_inv_def)
  have ins: "records_ok tbl (omap_insert (wl_permCode cx) (r\<lparr>ur_whiteList := whitelist_after cx r\<rparr>) records)"
    if v: "ValidatePolicyWhiteListUpdateLocked records cx = (e, Some r)" for e r
    using records_ok_insert [OF ok] ValidatePolicyWhiteListUpdate_ok(2) [OF v] whitelist_after_card [OF v]
      records_okD(2) [OF ok] by blast
  from run show ?thesis
  proof (cases rule: UpdatePolicyWhiteList_cases)
    case rejected
    then show ?thesis using inv by simp
  next
    case (memory r)
    note at = ValidatePolicyWhiteListUpdate_ok(2) [OF memory(1)]
    have oko: "omap_ok records" using ok by (simp add: records_ok_def)
    have "{x \<in> set records'. ur_isPersist (snd x)} = {x \<in> set records. ur_isPersist (snd x)}"
      using memory at records_lookup [OF oko] records_lookup [OF omap_ok_insert [OF oko]]
      by (auto simp: map_of_omap_insert [OF oko] split: if_splits)
    then show ?thesis using ins [OF memory(1)] m memory(3,4) by (simp add: policy_inv_def db_matches_def)
  next
    case (stored r e)
    note at = ValidatePolicyWhiteListUpdate_ok(2) [OF stored(1)]
    show ?thesis
      using Modify_abs [OF laws stored(3)] stored(4) ins [OF stored(1)] inv db_matches_whitelist [OF tbl ok m at stored(2)]
      by (auto simp: policy_inv_def)
  qed
qed

lemma records_ok_shrunk:
  assumes "records_ok tbl records"
  shows "records_ok tbl (map (\<lambda>(c, r). (c, r\<lparr>ur_whiteList := ur_whiteList r - {t}\<rparr>)) records)"
proof -
  have "card (ur_whiteList r - {t}) \<le> card (ur_whiteList r)" for r :: UserPolicyRecord
    by (simp add: card_Diff_singleton_if)
  then show ?thesis
    using assms omap_ok_map_snd [of records "\<lambda>c r. r\<lparr>ur_whiteList := ur_whiteList r - {t}\<rparr>"]
    by (fastforce simp: records_ok_def IsUserPolicyRecordSizeValid_def intro: order_trans)
qed

lemma RemoveToken_inv:
  assumes laws: "rdb_laws ops sabs tabs" and tbl: "perm_table_ok tbl" and inv: "policy_inv tbl sabs (records, d)"
    and run: "RemoveTokenFromPolicyWhiteList ops tbl t (records, d) = (ret, records', d')"
  shows "policy_inv tbl sabs (records', d')"
proof -
  have ok: "records_ok tbl records" and m: "db_matches tbl records (sabs (db_store d))"
    using inv by (simp_all add: policy_inv_def)
  have oko: "omap_ok records" using ok by (simp add: records_ok_def)
  let ?g = "\<lambda>r. r\<lparr>ur_whiteList := ur_whiteList r - {t}\<rparr>"
  let ?next = "map (\<lambda>(c, r). (c, ?g r)) records"
  let ?pers = "filter (\<lambda>(c, r). ur_isPersist r) (filter (\<lambda>(c, r). t \<in> ur_whiteList r) records)"
  let ?dels = "map (\<lambda>(c, r). policy_del tbl c) ?pers" and ?adds = "map (\<lambda>(c, r). policy_add tbl c (?g r)) ?pers"
  have next_ok: "records_ok tbl ?next" using records_ok_shrunk [OF ok] .
  have look: "map_of ?next c = map_option ?g (map_of records c)" for c by (simp add: map_of_map)
  let ?CH = "{c. \<exists>r. map_of records c = Some r \<and> t \<in> ur_whiteList r}"
  have same: "map_of ?next c = map_of records c" if "c \<notin> ?CH" for c
    using that by (cases "map_of records c") (auto simp: look)
  have "db_matches tbl ?next (apply_adds (map (\<lambda>(c, r). policy_add tbl c r) (map (\<lambda>(c, r). (c, ?g r)) ?pers))
      (apply_dels (map (policy_del tbl) (map fst ?pers)) (sabs (db_store d))))"
  proof (rule db_matches_replace [OF tbl ok _ m _ same])
    show "omap_ok ?next" using next_ok by (simp add: records_ok_def)
    show "\<forall>c \<in> ?CH. unat c < length tbl" using records_okD(1) [OF ok] by auto
    show "set (map fst ?pers) = {c \<in> ?CH. \<exists>r. map_of records c = Some r \<and> ur_isPersist r}"
      using records_lookup [OF oko] by (fastforce simp: image_iff)
    show "set (map (\<lambda>(c, r). (c, ?g r)) ?pers) = {(c, r). c \<in> ?CH \<and> map_of ?next c = Some r \<and> ur_isPersist r}"
      using records_lookup [OF oko] by (fastforce simp: image_iff look)
  qed
  moreover have "map (\<lambda>(c, r). policy_add tbl c r) (map (\<lambda>(c, r). (c, ?g r)) ?pers) = ?adds"
    and "map (policy_del tbl) (map fst ?pers) = ?dels" by (auto simp: case_prod_beta)
  ultimately have match: "db_matches tbl ?next (apply_adds ?adds (apply_dels ?dels (sabs (db_store d))))" by (simp only:)
  obtain e d1 where del: "DeleteAndInsertValues ops ?dels ?adds d = (e, d1)" by fastforce
  have none: "?pers = [] \<Longrightarrow> db_matches tbl ?next (sabs (db_store d))"
    using match unfolding apply_adds_def apply_dels_def by simp
  show ?thesis
    using run inv match next_ok del DeleteAndInsertValues_atomic [OF laws del] none
    by (auto simp: RemoveTokenFromPolicyWhiteList_def policy_inv_def Let_def split: if_splits)
qed

end
