(* ===== verification/User_Policy_Reach.thy ===== *)
theory User_Policy_Reach
  imports User_Policy_Laws
begin

text \<open>
  The life of the user policies: loading after a restart, the reachable states of the manager and its
  database (\<open>policy_step\<close>, \<open>policy_reachable\<close>), and the properties of the component.
\<close>

section \<open>Loading\<close>

lemma load_row_policy_row:
  assumes tbl: "perm_table_ok tbl" and c: "unat c < length tbl" and r: "IsUserPolicyRecordSizeValid r"
    "list_all is_int32 (ur_userList r)" "ur_isPersist r"
  shows "load_row tbl (read_back (policy_row tbl c r)) records = omap_insert c r records"
    and "\<not> IsEmpty (read_back (policy_row tbl c r))"
proof -
  let ?m = "BuildUserPolicyValue (TransferOpcodeToPermission tbl c) r"
  have ok: "omap_ok ?m" by (simp add: BuildUserPolicyValue_eq)
  have rb: "read_back (policy_row tbl c r) = reload ?m" by (simp add: policy_row_def read_back_bucket [OF ok])
  have wt: "\<forall>(k, v) \<in> set ?m. well_typed_cell k v"
    by (simp add: BuildUserPolicyValue_eq well_typed_cell_def IsColumnStringType_def g_StringTypeColumns_def i32_def)
  note get = reload_gets(1,2) [OF ok wt]
  have "map_of ?m ''permission_name'' \<noteq> None" by (simp add: BuildUserPolicyValue_eq)
  then have "map_of (reload ?m) ''permission_name'' \<noteq> None"
    using cell_of_rdb_value [of "''permission_name''"] by (auto simp: map_of_reload [OF ok])
  then show "\<not> IsEmpty (read_back (policy_row tbl c r))" by (auto simp: rb IsEmpty_def)
  have name: "TransferPermissionToOpcode tbl (TransferOpcodeToPermission tbl c) = Some c"
    using opcode_of_index [OF tbl c] c by (simp add: TransferOpcodeToPermission_def)
  have users: "ParseUserList (SerializeList (ur_userList r)) = (True, ur_userList r)"
    using ParseUserList_SerializeList r by (simp add: IsUserPolicyRecordSizeValid_def)
  have tokens: "ParseWhiteTokenList (SerializeWhiteTokenList (ur_whiteList r)) = (True, ur_whiteList r)"
    using ParseWhiteTokenList_Serialize r by (simp add: IsUserPolicyRecordSizeValid_def)
  have vals: "GetString ?m FIELD_PERMISSION_NAME = TransferOpcodeToPermission tbl c"
    "GetString ?m FIELD_RESTRICTED_USER = SerializeList (ur_userList r)"
    "GetString ?m FIELD_WHITELIST = SerializeWhiteTokenList (ur_whiteList r)"
    "GetInt ?m FIELD_CONTROLLER_TOKENID = sint (ur_controllerToken r)"
    by (simp_all add: BuildUserPolicyValue_eq get_defs)
  have same: "\<lparr>ur_userList = ur_userList r, ur_controllerToken = ur_controllerToken r,
      ur_whiteList = ur_whiteList r, ur_isPersist = True\<rparr> = r" using r(3) by (cases r) simp
  show "load_row tbl (read_back (policy_row tbl c r)) records = omap_insert c r records"
    using r(1) unfolding rb load_row_def get vals name
    by (simp add: users tokens IsUserPolicyRecordSizeValid_def same)
qed

lemma policy_row_inj:
  assumes "perm_table_ok tbl" and "records_ok tbl records"
  shows "inj_on (\<lambda>(c, r). policy_row tbl c r) {x \<in> set records. ur_isPersist (snd x)}"
proof (rule inj_onI, clarify)
  fix c r c' r'
  assume in1: "(c, r) \<in> set records" and in2: "(c', r') \<in> set records"
    and eq: "policy_row tbl c r = policy_row tbl c' r'"
  have oko: "omap_ok records" using assms(2) by (simp add: records_ok_def)
  have at: "map_of records c = Some r" "map_of records c' = Some r'" using in1 in2 records_lookup [OF oko] by auto
  have "TransferOpcodeToPermission tbl c = TransferOpcodeToPermission tbl c'"
    using eq by (simp add: policy_row_eq)
  then have "c = c'"
    by (rule code_name_inject [OF assms(1) records_okD(1) [OF assms(2) at(1)] records_okD(1) [OF assms(2) at(2)]])
  then show "c = c' \<and> r = r'" using at by simp
qed

text \<open>The records a reload produces from the given in-memory ones.\<close>

definition reloaded :: "UserPolicyRecords \<Rightarrow> UserPolicyRecords \<Rightarrow> u32 \<Rightarrow> UserPolicyRecord option" where
  "reloaded mem records c =
     (if persisted records c then map_of records c
      else case map_of mem c of Some r \<Rightarrow> if ur_isPersist r then None else Some r | None \<Rightarrow> None)"

lemma load_rows:
  assumes tbl: "perm_table_ok tbl" and ok: "records_ok tbl records" and m: "db_matches tbl records db"
    and mem: "omap_ok mem"
  shows "let next = fold (load_row tbl) (filter (\<lambda>v. \<not> IsEmpty v) (map read_back (db policy_table)))
            (filter (\<lambda>(c, r). \<not> ur_isPersist r) mem) in omap_ok next \<and> map_of next = reloaded mem records"
proof -
  have oko: "omap_ok records" using ok by (simp add: records_ok_def)
  let ?m0 = "filter (\<lambda>(c, r). \<not> ur_isPersist r) mem"
  have "\<exists>kvs. db policy_table = map (\<lambda>(c, r). policy_row tbl c r) kvs \<and> set kvs = {x \<in> set records. ur_isPersist (snd x)}"
    by (rule list_of_image [OF policy_row_inj [OF tbl ok]]) (use m in \<open>simp add: db_matches_def\<close>)
  then obtain kvs where kvs: "db policy_table = map (\<lambda>(c, r). policy_row tbl c r) kvs"
    "set kvs = {x \<in> set records. ur_isPersist (snd x)}" by blast
  have mem_kvs: "(c, r) \<in> set kvs \<longleftrightarrow> map_of records c = Some r \<and> ur_isPersist r" for c r
    using kvs(2) records_lookup [OF oko] by auto
  have row: "load_row tbl (read_back (policy_row tbl c r)) rs = omap_insert c r rs"
    "\<not> IsEmpty (read_back (policy_row tbl c r))" if "(c, r) \<in> set kvs" for c r rs
    using load_row_policy_row [OF tbl records_okD(1) [OF ok] records_okD(2) [OF ok] records_okD(3) [OF ok]] that mem_kvs
    by blast+
  have all: "filter (\<lambda>v. \<not> IsEmpty v) (map read_back (db policy_table)) = map (\<lambda>(c, r). read_back (policy_row tbl c r)) kvs"
    using row(2) by (subst filter_True) (auto simp: kvs(1))
  have "fold (load_row tbl) (map (\<lambda>(c, r). read_back (policy_row tbl c r)) kvs) ?m0 = fold (\<lambda>(c, r). omap_insert c r) kvs ?m0"
    unfolding fold_map by (rule fold_cong) (use row(1) in \<open>auto simp: fun_eq_iff\<close>)
  moreover have m0: "omap_ok ?m0" using mem by (rule omap_ok_filter)
  moreover have "map_of (fold (\<lambda>(c, r). omap_insert c r) kvs ?m0) = map_of ?m0 ++ map_of (rev kvs)"
    using om.find_insert_all [OF m0] by simp
  moreover have "(map_of ?m0 ++ map_of (rev kvs)) c = reloaded mem records c" for c
  proof -
    have f: "map_of (rev kvs) c = Some r \<longleftrightarrow> map_of records c = Some r \<and> ur_isPersist r" for r
      by (subst map_of_rev_functional) (auto simp: mem_kvs)
    have "map_of ?m0 c = (case map_of mem c of Some r \<Rightarrow> if ur_isPersist r then None else Some r | None \<Rightarrow> None)"
      using map_of_filter_value [OF omap_ok_distinct [OF mem], of "\<lambda>r. \<not> ur_isPersist r"]
      by (auto split: option.split)
    then show ?thesis
      using f by (cases "map_of (rev kvs) c") (auto simp: map_add_def reloaded_def persisted_def)
  qed
  ultimately show ?thesis
    using om.ok_insert_all [OF m0, of kvs] by (simp add: all Let_def fun_eq_iff)
qed

lemma LoadPersistedPolicies_result:
  assumes laws: "rdb_laws ops sabs tabs" "query_laws ops sabs rows" "cursor_laws ops rows"
    and tbl: "perm_table_ok tbl" and inv: "policy_inv tbl sabs (records, d)" and mem: "omap_ok mem"
    and run: "LoadPersistedPolicies ops tbl (mem, d) = Some (ret, records', d')"
  shows "sabs (db_store d') = sabs (db_store d) \<and>
    (if ret = RET_SUCCESS then omap_ok records' \<and> map_of records' = reloaded mem records else records' = mem)"
proof -
  have ok: "records_ok tbl records" and m: "db_matches tbl records (sabs (db_store d))"
    using inv by (simp_all add: policy_inv_def)
  obtain e res d1 where f: "Find ops ACCESSTOKEN_USER_POLICY [] d = Some (e, res, d1)"
    using Find_returns [OF laws(3)] by blast
  have "distinct (map fst (policy_row tbl c r))" for c r by (simp add: policy_row_eq)
  then have "\<forall>row \<in> set (sabs (db_store d) (GetTableNameByType ACCESSTOKEN_USER_POLICY)). distinct (map fst row)"
    using m by (auto simp: db_matches_def)
  note found = Find_abs [OF laws this f]
  have "selected_rows (policy_table, ToRdbPredicates []) db = db policy_table" for db
    by (simp add: selected_rows_def ToRdbPredicates_def GetAllKeys_def)
  then show ?thesis
    using run f found load_rows [OF tbl ok m mem]
    by (auto simp: LoadPersistedPolicies_def Let_def split: if_splits)
qed

lemma LoadPersistedPolicies_returns:
  assumes "cursor_laws ops rows"
  shows "\<exists>ret records' d'. LoadPersistedPolicies ops tbl (mem, d) = Some (ret, records', d')"
proof -
  obtain e res d1 where "Find ops ACCESSTOKEN_USER_POLICY [] d = Some (e, res, d1)"
    using Find_returns [OF assms] by blast
  then show ?thesis by (simp add: LoadPersistedPolicies_def)
qed

lemma reloaded_self: "reloaded records records = map_of records"
  by (auto simp: reloaded_def persisted_def fun_eq_iff split: option.split)

lemma reloaded_empty: "omap_ok records \<Longrightarrow> reloaded [] records = map_of (filter (\<lambda>(c, r). ur_isPersist r) records)"
  using map_of_filter_value [OF omap_ok_distinct, of records ur_isPersist]
  by (auto simp: reloaded_def persisted_def fun_eq_iff split: option.split)

section \<open>The reachable states\<close>

text \<open>One call of the manager, or a restart of the service whose load succeeds. The user ids of a
  request are 32-bit integers.\<close>

inductive policy_step ::
    "('s, 't, 'r) rdb_ops \<Rightarrow> perm_table \<Rightarrow> UserPolicyRecords \<times> 's AccessTokenDb \<Rightarrow>
      UserPolicyRecords \<times> 's AccessTokenDb \<Rightarrow> bool" for ops tbl where
  set_policy: "SetUserPolicy ops tbl ps caller st = (ret, changes, st') \<Longrightarrow> list_all typed_policy ps \<Longrightarrow>
     policy_step ops tbl st st'"
| clear_policy: "ClearUserPolicy ops tbl names caller st = (ret, changes, st') \<Longrightarrow> policy_step ops tbl st st'"
| update_whitelist: "UpdatePolicyWhiteList ops tbl context st = (ret, persist, st') \<Longrightarrow> policy_step ops tbl st st'"
| remove_token: "RemoveTokenFromPolicyWhiteList ops tbl tokenId st = (ret, st') \<Longrightarrow> policy_step ops tbl st st'"
| reload: "LoadPersistedPolicies ops tbl st = Some (ret, st') \<Longrightarrow> policy_step ops tbl st st'"
| restart: "LoadPersistedPolicies ops tbl ([], snd st) = Some (RET_SUCCESS, st') \<Longrightarrow> policy_step ops tbl st st'"

inductive policy_reachable ::
    "('s, 't, 'r) rdb_ops \<Rightarrow> perm_table \<Rightarrow> ('s \<Rightarrow> tables) \<Rightarrow> UserPolicyRecords \<times> 's AccessTokenDb \<Rightarrow> bool"
  for ops tbl sabs where
  start: "sabs (db_store d) policy_table = [] \<Longrightarrow> policy_reachable ops tbl sabs ([], d)"
| step: "policy_reachable ops tbl sabs st \<Longrightarrow> policy_step ops tbl st st' \<Longrightarrow> policy_reachable ops tbl sabs st'"

lemma load_keeps_inv:
  assumes laws: "rdb_laws ops sabs tabs" "query_laws ops sabs rows" "cursor_laws ops rows"
    and tbl: "perm_table_ok tbl" and inv: "policy_inv tbl sabs (records, d)"
    and mem: "mem = records \<or> mem = [] \<and> ret = RET_SUCCESS"
    and run: "LoadPersistedPolicies ops tbl (mem, d) = Some (ret, records', d')"
  shows "policy_inv tbl sabs (records', d')"
    and "mem = [] \<Longrightarrow> ret = RET_SUCCESS \<Longrightarrow> records' = filter (\<lambda>(c, r). ur_isPersist r) records"
proof -
  have ok: "records_ok tbl records" and oko: "omap_ok records"
    and m: "db_matches tbl records (sabs (db_store d))" using inv by (simp_all add: policy_inv_def records_ok_def)
  have memok: "omap_ok mem" using mem oko by auto
  note res = LoadPersistedPolicies_result [OF laws tbl inv memok run]
  let ?kept = "filter (\<lambda>(c, r). ur_isPersist r) records"
  have empty: "records' = ?kept" if "mem = []" "ret = RET_SUCCESS"
    using res that reloaded_empty [OF oko] omap_ext [OF _ omap_ok_filter [OF oko]] by simp
  then show "mem = [] \<Longrightarrow> ret = RET_SUCCESS \<Longrightarrow> records' = ?kept" .
  have same: "records' = records" if "mem = records"
    using res that reloaded_self omap_ext [OF _ oko, of records'] by (simp split: if_splits)
  have "policy_inv tbl sabs (?kept, d')"
    using ok m res records_ok_subset [OF ok omap_ok_filter [OF oko]]
    by (auto simp: policy_inv_def db_matches_def case_prod_beta)
  then show "policy_inv tbl sabs (records', d')"
    using mem empty same res inv by (auto simp: policy_inv_def)
qed

lemma policy_step_inv:
  assumes laws: "rdb_laws ops sabs tabs" "query_laws ops sabs rows" "cursor_laws ops rows"
    and tbl: "perm_table_ok tbl" and step: "policy_step ops tbl st st'" and inv: "policy_inv tbl sabs st"
  shows "policy_inv tbl sabs st'"
proof -
  obtain records d records' d' where st: "st = (records, d)" "st' = (records', d')" by fastforce
  note inv = inv [unfolded st]
  from step [unfolded st] have "policy_inv tbl sabs (records', d')"
  proof cases
    case set_policy
    then show ?thesis using SetUserPolicy_inv [OF laws(1) tbl inv] by blast
  next
    case clear_policy
    then show ?thesis using ClearUserPolicy_inv [OF laws(1) tbl inv] by blast
  next
    case update_whitelist
    then show ?thesis using UpdatePolicyWhiteList_inv [OF laws(1) tbl inv] by blast
  next
    case remove_token
    then show ?thesis using RemoveToken_inv [OF laws(1) tbl inv] by blast
  next
    case reload
    then show ?thesis using load_keeps_inv(1) [OF laws tbl inv] by blast
  next
    case restart
    then show ?thesis using load_keeps_inv(1) [OF laws tbl inv] by auto
  qed
  then show ?thesis by (simp add: st)
qed

lemma policy_reachable_inv:
  assumes "rdb_laws ops sabs tabs" "query_laws ops sabs rows" "cursor_laws ops rows" "perm_table_ok tbl"
    and "policy_reachable ops tbl sabs st"
  shows "policy_inv tbl sabs st"
  using assms(5)
proof induction
  case (start d)
  then show ?case by (simp add: policy_inv_def records_ok_def db_matches_def)
next
  case (step st st')
  then show ?case using policy_step_inv [OF assms(1-4)] by blast
qed

section \<open>Effect of a request on the restrictions\<close>

text \<open>Every policy with a change has an entry in the list of changes, with the changed users.\<close>

lemma cache_fold_changes:
  assumes "omap_ok records" and "distinct (map snd pcs)"
    and "fold (cache_policy caller) pcs (records, changes) = (records', changes')"
    and "(p, c) \<in> set pcs" and "fst (policy_users p (map_of records c)) \<noteq> {}"
  shows "\<exists>ch \<in> set changes'. uc_permCode ch = c \<and> uc_changedUserList ch = fst (policy_users p (map_of records c))"
proof -
  have keeps: "set chs \<subseteq> set chs'"
    if "fold (cache_policy caller) xs (rs, chs) = (rs', chs')" for xs rs chs rs' chs'
    using that
  proof (induction xs arbitrary: rs chs)
    case (Cons x xs)
    obtain rs1 chs1 where step: "cache_policy caller x (rs, chs) = (rs1, chs1)" by fastforce
    then have "set chs \<subseteq> set chs1" by (cases x) (auto simp: cache_policy_eq Let_def split: if_splits)
    moreover have "set chs1 \<subseteq> set chs'" using Cons step by auto
    ultimately show ?case by blast
  qed simp
  show ?thesis
    using assms
  proof (induction pcs arbitrary: records changes)
    case (Cons x pcs)
    obtain records1 changes1 where step: "cache_policy caller x (records, changes) = (records1, changes1)" by fastforce
    then have run: "fold (cache_policy caller) pcs (records1, changes1) = (records', changes')" using Cons.prems(3) by simp
    show ?case
    proof (cases "x = (p, c)")
      case True
      then have "\<lparr>uc_permCode = c, uc_isPersist = ur_isPersist (policy_base p (map_of records c)),
          uc_changedUserList = fst (policy_users p (map_of records c))\<rparr> \<in> set changes1"
        using step Cons.prems(5) by (auto simp: cache_policy_eq Let_def)
      with keeps [OF run] show ?thesis by force
    next
      case False
      then have in_rest: "(p, c) \<in> set pcs" using Cons.prems(4) by auto
      then have "c \<in> snd ` set pcs" by force
      then have "snd x \<noteq> c" using Cons.prems(2) by auto
      then have "omap_ok records1 \<and> map_of records1 c = map_of records c"
        using step Cons.prems(1)
        by (cases x) (auto simp: cache_policy_eq Let_def omap_ok_insert omap_ok_erase map_of_omap_insert map_of_omap_erase
            split: option.splits)
      then show ?thesis using Cons.IH [OF _ _ run in_rest] Cons.prems(2,5) by simp
    qed
  qed simp
qed

definition exempt :: "UserPolicyRecords \<Rightarrow> token_id \<Rightarrow> u32 \<Rightarrow> bool" where
  "exempt records t c \<longleftrightarrow> (\<exists>r. map_of records c = Some r \<and> t \<in> ur_whiteList r)"

lemma restricted_after_policy:
  assumes "\<And>r. map_of records c = Some r \<Longrightarrow> distinct (ur_userList r)"
    and "map_of records' c = policy_result caller p (map_of records c)"
  shows "IsPermissionRestricted records' t u c \<longleftrightarrow> \<not> exempt records t c \<and>
    (case request (pp_userPolicyList p) u of Some b \<Rightarrow> b | None \<Rightarrow> IsPermissionRestricted records t u c)"
    and "IsPermissionRestricted records' t u c \<noteq> IsPermissionRestricted records t u c \<Longrightarrow>
      u \<in> fst (policy_users p (map_of records c))"
proof -
  let ?old = "map_of records c"
  have upd: "user_list_updated (pp_userPolicyList p) (ur_userList (policy_base p ?old)) {}
      (fst (policy_users p ?old)) (snd (policy_users p ?old))"
    using policy_users_updated assms(1) by blast
  have wl: "exempt records t c \<longleftrightarrow> t \<in> ur_whiteList (policy_base p ?old)"
    and before: "IsPermissionRestricted records t u c \<longleftrightarrow> \<not> exempt records t c \<and> u \<in> set (ur_userList (policy_base p ?old))"
    by (auto simp: exempt_def policy_base_def new_record_def IsPermissionRestricted_def IsInPolicyWhiteList_def
        split: option.splits)
  have after: "IsPermissionRestricted records' t u c \<longleftrightarrow> \<not> exempt records t c \<and> u \<in> set (snd (policy_users p ?old))"
    by (auto simp: IsPermissionRestricted_def assms(2) policy_result_def IsInPolicyWhiteList_def wl)
  show "IsPermissionRestricted records' t u c \<longleftrightarrow> \<not> exempt records t c \<and>
      (case request (pp_userPolicyList p) u of Some b \<Rightarrow> b | None \<Rightarrow> IsPermissionRestricted records t u c)"
    using upd by (auto simp: before after user_list_updated_def split: option.splits)
  show "IsPermissionRestricted records' t u c \<noteq> IsPermissionRestricted records t u c \<Longrightarrow>
      u \<in> fst (policy_users p ?old)"
    using upd by (auto simp: before after user_list_updated_def)
qed

lemma restricted_unchanged:
  "map_of records' c = map_of records c \<Longrightarrow> IsPermissionRestricted records' t u c = IsPermissionRestricted records t u c"
  by (simp add: IsPermissionRestricted_def)

lemma SetUserPolicy_success:
  assumes tbl: "perm_table_ok tbl" and ok: "records_ok tbl records"
    and run: "SetUserPolicy ops tbl ps caller (records, d) = (RET_SUCCESS, changes, records', d')"
  obtains cs where "cache_updated tbl caller ps cs records records' changes" "distinct cs"
    "fold (cache_policy caller) (zip ps cs) (records, []) = (records', changes)"
  using run
proof (cases rule: SetUserPolicy_cases)
  case (stored cs)
  from validate_set_loop_ok [OF tbl omap_ok_Nil stored(1) [unfolded ValidateSetUserPolicy_def]] have "distinct cs" by auto
  then show ?thesis
    using that cache_updated_by_set [OF tbl ok stored(1,2)] stored(2) by (simp add: UpdateUserPolicyCache_def)
qed auto

lemma ClearUserPolicy_result:
  assumes ok: "omap_ok records" and run: "ClearUserPolicy ops tbl names caller (records, d) = (ret, changes, records', d')"
  shows "if ret = RET_SUCCESS
    then \<exists>cs. (\<forall>n \<in> set names. \<exists>c \<in> set cs. TransferPermissionToOpcode tbl n = Some c) \<and>
      (\<forall>c \<in> set cs. \<exists>r. map_of records c = Some r \<and> ur_controllerToken r = caller) \<and>
      (\<forall>c. map_of records' c = (if c \<in> set cs then None else map_of records c))
    else records' = records"
proof -
  obtain e cs where v: "ValidateClearUserPolicy tbl records names caller = (e, cs)" by fastforce
  obtain "next" chs dels where l: "clear_loop tbl cs records [] [] = (next, chs, dels)"
    using prod_cases3 by blast
  have "\<forall>c. map_of next c = (if c \<in> set cs then None else map_of records c)"
    using clear_loop_result [OF ok l] by blast
  moreover have "(\<forall>n \<in> set names. \<exists>c \<in> set cs. TransferPermissionToOpcode tbl n = Some c) \<and>
      (\<forall>c \<in> set cs. \<exists>r. map_of records c = Some r \<and> ur_controllerToken r = caller)" if "e = RET_SUCCESS"
    using validate_clear_loop_ok [of tbl records caller names "[]" cs] v that
    by (fastforce simp: ValidateClearUserPolicy_def list_all2_conv_all_nth in_set_conv_nth)
  moreover have "(ret = RET_SUCCESS \<and> e = RET_SUCCESS \<and> records' = next) \<or> (ret \<noteq> RET_SUCCESS \<and> records' = records)"
    using run v l by (auto simp: ClearUserPolicy_def Let_def split: if_splits prod.splits)
  ultimately show ?thesis by (cases "ret = RET_SUCCESS") (simp, blast, simp)
qed

lemma DatabaseUpdate_failed:
  assumes "rdb_laws ops sabs tabs" and "UpdateUserPolicyDatabase ops tbl records changes next d = (ret, d')"
    and "ret \<noteq> RET_SUCCESS"
  shows "sabs (db_store d') = sabs (db_store d)"
  using assms(2,3) DeleteAndInsertValues_atomic [OF assms(1)]
  by (auto simp: UpdateUserPolicyDatabase_def Let_def split: if_splits prod.splits)

lemma ClearUserPolicy_failed:
  assumes laws: "rdb_laws ops sabs tabs"
    and run: "ClearUserPolicy ops tbl names caller (records, d) = (ret, changes, records', d')" and "ret \<noteq> RET_SUCCESS"
  shows "records' = records \<and> sabs (db_store d') = sabs (db_store d)"
proof -
  obtain e cs where v: "ValidateClearUserPolicy tbl records names caller = (e, cs)" by fastforce
  obtain "next" chs dels where l: "clear_loop tbl cs records [] [] = (next, chs, dels)" using prod_cases3 by blast
  obtain e2 d2 where del: "DeleteAndInsertValues ops dels [] d = (e2, d2)" by fastforce
  show ?thesis
    using run \<open>ret \<noteq> RET_SUCCESS\<close> v l del DeleteAndInsertValues_atomic [OF laws del]
    by (simp add: ClearUserPolicy_def split: if_splits)
qed

lemma RemoveToken_failed:
  assumes laws: "rdb_laws ops sabs tabs"
    and run: "RemoveTokenFromPolicyWhiteList ops tbl t (records, d) = (ret, records', d')" and "ret \<noteq> RET_SUCCESS"
  shows "records' = records \<and> sabs (db_store d') = sabs (db_store d)"
proof -
  let ?pers = "filter (\<lambda>(c, r). ur_isPersist r) (filter (\<lambda>(c, r). t \<in> ur_whiteList r) records)"
  obtain e2 d2 where del: "DeleteAndInsertValues ops (map (\<lambda>(c, r). policy_del tbl c) ?pers)
      (map (\<lambda>(c, r). policy_add tbl c (r\<lparr>ur_whiteList := ur_whiteList r - {t}\<rparr>)) ?pers) d = (e2, d2)" by fastforce
  show ?thesis
    using run \<open>ret \<noteq> RET_SUCCESS\<close> DeleteAndInsertValues_atomic [OF laws del]
    unfolding RemoveTokenFromPolicyWhiteList_def Let_def del case_prod_conv
    by (simp only: split: if_splits) simp_all
qed

section \<open>Properties\<close>

text \<open>C17. A successful \<open>SetUserPolicy\<close> does exactly what was asked: afterwards a user is restricted in
  the use of a named permission if the last request for this user says so, and as before if the request
  does not mention the user, except for tokens on the whitelist; permissions that are not named keep
  their restrictions; and every restriction that changed is reported in the list of changes.\<close>

theorem set_user_policy_effect:
  assumes "perm_table_ok tbl" and "records_ok tbl records"
    and "SetUserPolicy ops tbl ps caller (records, d) = (RET_SUCCESS, changes, records', d')"
  shows "(\<forall>p \<in> set ps. \<exists>c. TransferPermissionToOpcode tbl (pp_permissionName p) = Some c \<and>
      (\<forall>t u. IsPermissionRestricted records' t u c \<longleftrightarrow> \<not> exempt records t c \<and>
        (case request (pp_userPolicyList p) u of Some b \<Rightarrow> b | None \<Rightarrow> IsPermissionRestricted records t u c))) \<and>
    (\<forall>c t u. IsPermissionRestricted records' t u c \<noteq> IsPermissionRestricted records t u c \<longrightarrow>
      (\<exists>p \<in> set ps. TransferPermissionToOpcode tbl (pp_permissionName p) = Some c) \<and>
      (\<exists>ch \<in> set changes. uc_permCode ch = c \<and> u \<in> uc_changedUserList ch))"
proof -
  obtain cs where up: "cache_updated tbl caller ps cs records records' changes" and "distinct cs"
    and fold: "fold (cache_policy caller) (zip ps cs) (records, []) = (records', changes)"
    using SetUserPolicy_success [OF assms] by blast
  have len: "length cs = length ps" using up by (simp add: cache_updated_def)
  have oko: "omap_ok records" using assms(2) by (simp add: records_ok_def)
  have d: "distinct (map snd (zip ps cs))" using len \<open>distinct cs\<close> by simp
  have at: "TransferPermissionToOpcode tbl (pp_permissionName p) = Some c"
    "map_of records' c = policy_result caller p (map_of records c)" if "(p, c) \<in> set (zip ps cs)" for p c
    using up that by (auto simp: cache_updated_def)
  have dist: "\<And>r. map_of records c = Some r \<Longrightarrow> distinct (ur_userList r)" for c
    using records_okD(4) [OF assms(2)] by blast
  have "\<exists>c. (p, c) \<in> set (zip ps cs)" if "p \<in> set ps" for p
    using that len by (metis in_set_impl_in_set_zip1)
  then have "\<forall>p \<in> set ps. \<exists>c. TransferPermissionToOpcode tbl (pp_permissionName p) = Some c \<and>
      (\<forall>t u. IsPermissionRestricted records' t u c \<longleftrightarrow> \<not> exempt records t c \<and>
        (case request (pp_userPolicyList p) u of Some b \<Rightarrow> b | None \<Rightarrow> IsPermissionRestricted records t u c))"
    using at restricted_after_policy(1) [OF dist] by meson
  moreover have "(\<exists>p \<in> set ps. TransferPermissionToOpcode tbl (pp_permissionName p) = Some c) \<and>
      (\<exists>ch \<in> set changes. uc_permCode ch = c \<and> u \<in> uc_changedUserList ch)"
    if ne: "IsPermissionRestricted records' t u c \<noteq> IsPermissionRestricted records t u c" for c t u
  proof -
    have "map_of records' c = map_of records c" if "c \<notin> set cs"
      using up that by (simp add: cache_updated_def)
    then have "c \<in> set cs" using restricted_unchanged [of records' c records t u] ne by blast
    then obtain p where p: "(p, c) \<in> set (zip ps cs)" using len by (metis in_set_impl_in_set_zip2)
    have u: "u \<in> fst (policy_users p (map_of records c))" by (rule restricted_after_policy(2) [OF dist at(2) [OF p] ne])
    with cache_fold_changes [OF oko d fold p]
    have "\<exists>ch \<in> set changes. uc_permCode ch = c \<and> u \<in> uc_changedUserList ch" by auto
    then show ?thesis using at(1) [OF p] p by (metis in_set_zipE)
  qed
  ultimately show ?thesis by blast
qed

text \<open>C18. A policy belongs to the token that set it: requests of another caller to set, clear or edit the
  whitelist of its permission are refused, and no request of another caller changes the record.\<close>

theorem foreign_policies_untouched:
  assumes "perm_table_ok tbl" and "records_ok tbl records"
    and "map_of records c = Some r" and "ur_controllerToken r \<noteq> caller"
  shows "(let (ret, changes, records', d') = SetUserPolicy ops tbl ps caller (records, d) in map_of records' c = Some r \<and>
      (ret = RET_SUCCESS \<longrightarrow> (\<forall>p \<in> set ps. TransferPermissionToOpcode tbl (pp_permissionName p) \<noteq> Some c))) \<and>
    (let (ret, changes, records', d') = ClearUserPolicy ops tbl names caller (records, d) in map_of records' c = Some r \<and>
      (ret = RET_SUCCESS \<longrightarrow> (\<forall>n \<in> set names. TransferPermissionToOpcode tbl n \<noteq> Some c))) \<and>
    (wl_callerToken cx = caller \<longrightarrow>
      (let (ret, persist, records', d') = UpdatePolicyWhiteList ops tbl cx (records, d) in map_of records' c = Some r \<and>
        (wl_permCode cx = c \<longrightarrow> ret \<noteq> RET_SUCCESS)))"
proof (intro conjI impI)
  obtain ret changes records' d' where run: "SetUserPolicy ops tbl ps caller (records, d) = (ret, changes, records', d')"
    using prod_cases4 by blast
  have "map_of records' c = Some r \<and>
      (ret = RET_SUCCESS \<longrightarrow> (\<forall>p \<in> set ps. TransferPermissionToOpcode tbl (pp_permissionName p) \<noteq> Some c))"
  proof (cases "ret = RET_SUCCESS")
    case True
    then obtain cs where up: "cache_updated tbl caller ps cs records records' changes"
      using SetUserPolicy_success [OF assms(1,2)] run by blast
    have no: "c' \<noteq> c" if "(p, c') \<in> set (zip ps cs)" for p c'
      using up that assms(3,4) by (auto simp: cache_updated_def)
    have len: "length cs = length ps" using up by (simp add: cache_updated_def)
    have "c \<notin> set cs" using no len by (metis in_set_impl_in_set_zip2)
    moreover have "TransferPermissionToOpcode tbl (pp_permissionName p) \<noteq> Some c" if p: "p \<in> set ps" for p
    proof -
      obtain c' where c': "(p, c') \<in> set (zip ps cs)" using p len by (metis in_set_impl_in_set_zip1)
      then have "TransferPermissionToOpcode tbl (pp_permissionName p) = Some c'"
        using up by (auto simp: cache_updated_def)
      then show ?thesis using no [OF c'] by simp
    qed
    ultimately show ?thesis using up assms(3) by (auto simp: cache_updated_def)
  next
    case False
    from run show ?thesis by (cases rule: SetUserPolicy_cases) (use False assms(3) in auto)
  qed
  then show "let (ret, changes, records', d') = SetUserPolicy ops tbl ps caller (records, d) in map_of records' c = Some r \<and>
      (ret = RET_SUCCESS \<longrightarrow> (\<forall>p \<in> set ps. TransferPermissionToOpcode tbl (pp_permissionName p) \<noteq> Some c))"
    by (simp add: run)
next
  have oko: "omap_ok records" using assms(2) by (simp add: records_ok_def)
  obtain ret changes records' d' where run: "ClearUserPolicy ops tbl names caller (records, d) = (ret, changes, records', d')"
    using prod_cases4 by blast
  show "let (ret, changes, records', d') = ClearUserPolicy ops tbl names caller (records, d) in map_of records' c = Some r \<and>
      (ret = RET_SUCCESS \<longrightarrow> (\<forall>n \<in> set names. TransferPermissionToOpcode tbl n \<noteq> Some c))"
  proof (cases "ret = RET_SUCCESS")
    case True
    then obtain cs where cs: "\<forall>n \<in> set names. \<exists>c \<in> set cs. TransferPermissionToOpcode tbl n = Some c"
      "\<forall>c \<in> set cs. \<exists>r. map_of records c = Some r \<and> ur_controllerToken r = caller"
      "\<forall>c. map_of records' c = (if c \<in> set cs then None else map_of records c)"
      using ClearUserPolicy_result [OF oko run] by auto
    have "c \<notin> set cs" using cs(2) assms(3,4) by auto
    then show ?thesis using cs assms(3) by (auto simp: run)
  qed (use ClearUserPolicy_result [OF oko run] assms(3) in \<open>simp add: run\<close>)
next
  assume caller: "wl_callerToken cx = caller"
  have oko: "omap_ok records" using assms(2) by (simp add: records_ok_def)
  obtain ret persist records' d' where run: "UpdatePolicyWhiteList ops tbl cx (records, d) = (ret, persist, records', d')"
    using prod_cases4 by blast
  have no: "wl_permCode cx \<noteq> c" if "ValidatePolicyWhiteListUpdateLocked records cx = (e, Some q)" for e q
    using ValidatePolicyWhiteListUpdate_ok(2,3) [OF that] assms(3,4) caller by auto
  from run have "map_of records' c = Some r"
    by (cases rule: UpdatePolicyWhiteList_cases) (use no assms(3) in \<open>auto simp: map_of_omap_insert [OF oko]\<close>)
  moreover have "ret \<noteq> RET_SUCCESS" if "wl_permCode cx = c"
  proof -
    have "ValidatePolicyWhiteListUpdateLocked records cx = (ERR_PERM_POLICY_ALREADY_SET_BY_OTHER, None)"
      using that assms(3,4) caller by (simp add: ValidatePolicyWhiteListUpdateLocked_def)
    then show ?thesis using run by (auto simp: UpdatePolicyWhiteList_def Let_def split: if_splits)
  qed
  ultimately show "let (ret, persist, records', d') = UpdatePolicyWhiteList ops tbl cx (records, d) in
      map_of records' c = Some r \<and> (wl_permCode cx = c \<longrightarrow> ret \<noteq> RET_SUCCESS)"
    by (simp add: run)
qed

text \<open>C19. A request that fails changes nothing: whatever the error of setting, clearing, editing a whitelist
  or removing a token, the cache and the contents of the database are those from before the call.\<close>

theorem failed_policy_request_changes_nothing:
  assumes "rdb_laws ops sabs tabs"
    and "(\<exists>ps caller changes. SetUserPolicy ops tbl ps caller (records, d) = (ret, changes, records', d')) \<or>
      (\<exists>names caller changes. ClearUserPolicy ops tbl names caller (records, d) = (ret, changes, records', d')) \<or>
      (\<exists>cx persist. UpdatePolicyWhiteList ops tbl cx (records, d) = (ret, persist, records', d')) \<or>
      (\<exists>t. RemoveTokenFromPolicyWhiteList ops tbl t (records, d) = (ret, records', d'))"
    and "ret \<noteq> RET_SUCCESS"
  shows "records' = records \<and> sabs (db_store d') = sabs (db_store d)"
  using assms(2)
proof (elim disjE exE)
  fix ps caller changes
  assume run: "SetUserPolicy ops tbl ps caller (records, d) = (ret, changes, records', d')"
  then show ?thesis
  proof (cases rule: SetUserPolicy_cases)
    case (failed cs "next" chs)
    then have "UpdateUserPolicyDatabase ops tbl records chs next d = (ret, d')" by simp
    then show ?thesis using DatabaseUpdate_failed [OF assms(1)] assms(3) failed(5) by blast
  qed (use assms(3) in auto)
next
  fix names caller changes
  assume "ClearUserPolicy ops tbl names caller (records, d) = (ret, changes, records', d')"
  then show ?thesis using ClearUserPolicy_failed [OF assms(1) _ assms(3)] by blast
next
  fix cx persist
  assume "UpdatePolicyWhiteList ops tbl cx (records, d) = (ret, persist, records', d')"
  then show ?thesis
  proof (cases rule: UpdatePolicyWhiteList_cases)
    case (stored r e)
    then show ?thesis using Modify_abs [OF assms(1) stored(3)] assms(3) by simp
  qed (use assms(3) in auto)
next
  fix t
  assume "RemoveTokenFromPolicyWhiteList ops tbl t (records, d) = (ret, records', d')"
  then show ?thesis using RemoveToken_failed [OF assms(1) _ assms(3)] by blast
qed

text \<open>C20. Every reachable policy is within bounds: its code is in the permission table, it restricts between
  1 and 1024 different users, whose ids are 32-bit integers, and its whitelist has at most 1024 tokens; so
  the text stored for it is read back as the same lists.\<close>

theorem policy_lists_bounded:
  assumes "rdb_laws ops sabs tabs" "query_laws ops sabs rows" "cursor_laws ops rows" and "perm_table_ok tbl"
    and "policy_reachable ops tbl sabs (records, d)" and "map_of records c = Some r"
  shows "unat c < length tbl \<and> distinct (ur_userList r) \<and> 1 \<le> length (ur_userList r) \<and>
    length (ur_userList r) \<le> 1024 \<and> card (ur_whiteList r) \<le> 1024 \<and>
    ParseUserList (SerializeList (ur_userList r)) = (True, ur_userList r) \<and>
    ParseWhiteTokenList (SerializeWhiteTokenList (ur_whiteList r)) = (True, ur_whiteList r)"
proof -
  have ok: "records_ok tbl records"
    using policy_reachable_inv [OF assms(1-5)] by (simp add: policy_inv_def)
  show ?thesis
    using records_okD [OF ok assms(6)] ParseUserList_SerializeList ParseWhiteTokenList_Serialize
    by (auto simp: IsUserPolicyRecordSizeValid_def Suc_le_eq)
qed

text \<open>C16. Persistent policies survive a restart: from any reachable state the load of the new process ends,
  leaves the contents of the database alone, and on success has exactly the persistent records, with users,
  whitelist and controller as they were. On failure it has none.\<close>

theorem user_policies_survive_restart:
  assumes "rdb_laws ops sabs tabs" "query_laws ops sabs rows" "cursor_laws ops rows" and "perm_table_ok tbl"
    and "policy_reachable ops tbl sabs (records, d)"
  shows "\<exists>ret records' d'. LoadPersistedPolicies ops tbl ([], d) = Some (ret, records', d') \<and>
    sabs (db_store d') = sabs (db_store d) \<and>
    records' = (if ret = RET_SUCCESS then filter (\<lambda>(c, r). ur_isPersist r) records else [])"
proof -
  have inv: "policy_inv tbl sabs (records, d)" by (rule policy_reachable_inv [OF assms])
  obtain ret records' d' where run: "LoadPersistedPolicies ops tbl ([], d) = Some (ret, records', d')"
    using LoadPersistedPolicies_returns [OF assms(3)] by blast
  show ?thesis
    using LoadPersistedPolicies_result [OF assms(1-4) inv omap_ok_Nil run] run
      load_keeps_inv(2) [OF assms(1-4) inv _ run] by auto
qed

definition sample_policy :: UserPermissionPolicy where
  "sample_policy = \<lparr>pp_permissionName = ''ohos.permission.CAMERA'',
     pp_userPolicyList = [\<lparr>up_userId = 100, up_isRestricted = True\<rparr>], pp_isPersist = True\<rparr>"

definition sample_record :: UserPolicyRecord where
  "sample_record = \<lparr>ur_userList = [100], ur_controllerToken = 7, ur_whiteList = {}, ur_isPersist = True\<rparr>"

definition empty_db :: "tables AccessTokenDb" where
  "empty_db = \<lparr>db_nonnull = True, db_store = \<lambda>_. []\<rparr>"

lemma sample_def_code: "GetPermissionBriefDefAndCode sample_table ''ohos.permission.CAMERA'' = Some (sample_def, 0)"
  using sample_opcode(1)
  by (simp add: GetPermissionBriefDefAndCode_def sample_table_def)

lemma sample_set:
  "\<exists>d. SetUserPolicy mem_rdb sample_table [sample_policy] 7 ([], empty_db) =
     (RET_SUCCESS, [\<lparr>uc_permCode = 0, uc_isPersist = True, uc_changedUserList = {100}\<rparr>], [(0, sample_record)], d)"
proof -
  have v: "ValidateSetUserPolicy sample_table [] [sample_policy] 7 = (RET_SUCCESS, [0])"
    by (simp add: ValidateSetUserPolicy_def sample_policy_def sample_def_code sample_def_def IsSupportedPolicyApl_def
        IsUserIdValid_def)
  have c: "UpdateUserPolicyCache [] [sample_policy] [0] 7 =
      ([(0, sample_record)], [\<lparr>uc_permCode = 0, uc_isPersist = True, uc_changedUserList = {100}\<rparr>])"
    by (simp add: UpdateUserPolicyCache_def cache_policy_def sample_policy_def sample_record_def new_record_def)
  have s: "IsUserPolicyRecordsSizeValid [(0, sample_record)]"
    by (simp add: IsUserPolicyRecordsSizeValid_def IsUserPolicyRecordSizeValid_def sample_record_def)
  have row: "ToRdbValueBucket (BuildUserPolicyValue ''ohos.permission.CAMERA'' sample_record) \<noteq> []"
    using policy_row_eq [of sample_table 0 sample_record] by (simp add: policy_row_def sample_name)
  have "ur_isPersist sample_record" by (simp add: sample_record_def)
  then have "\<exists>d. UpdateUserPolicyDatabase mem_rdb sample_table []
      [\<lparr>uc_permCode = 0, uc_isPersist = True, uc_changedUserList = {100}\<rparr>] [(0, sample_record)] empty_db = (RET_SUCCESS, d)"
    by (simp add: UpdateUserPolicyDatabase_def policy_add_def DeleteAndInsertValues_def
       DeleteAndInsertValuesInner_def GetRdb_def empty_db_def mem_rdb_def GetTableNameByType_def
       g_DateTypeToTableName_def ToRdbValueBuckets_def sample_name Let_def row)
  then obtain d where "UpdateUserPolicyDatabase mem_rdb sample_table [] [\<lparr>uc_permCode = 0, uc_isPersist = True, uc_changedUserList = {100}\<rparr>]
      [(0, sample_record)] empty_db = (RET_SUCCESS, d)" by blast
  then show ?thesis by (simp add: SetUserPolicy_def v c s)
qed

lemma sample_reachable: "\<exists>d. policy_reachable mem_rdb sample_table (\<lambda>s. s) ([(0, sample_record)], d)"
proof -
  have start: "policy_reachable mem_rdb sample_table (\<lambda>s. s) ([], empty_db)"
    by (rule policy_reachable.start) (simp add: empty_db_def)
  obtain d where run: "SetUserPolicy mem_rdb sample_table [sample_policy] 7 ([], empty_db) =
     (RET_SUCCESS, [\<lparr>uc_permCode = 0, uc_isPersist = True, uc_changedUserList = {100}\<rparr>], [(0, sample_record)], d)"
    using sample_set by blast
  have typed: "list_all typed_policy [sample_policy]"
    by (simp add: typed_policy_def sample_policy_def is_int32_def)
  show ?thesis by (rule exI) (rule policy_reachable.step [OF start policy_step.set_policy [OF run typed]])
qed

lemma sample_records_ok: "records_ok sample_table [(0, sample_record)]"
proof -
  obtain d where "policy_reachable mem_rdb sample_table (\<lambda>s. s) ([(0, sample_record)], d)" using sample_reachable by blast
  from policy_reachable_inv [OF mem_rdb_laws mem_rdb_query mem_rdb_cursor sample_table_ok this]
  show ?thesis by (simp add: policy_inv_def)
qed

theorem set_user_policy_effect_witness:
  "\<exists>records' d. SetUserPolicy mem_rdb sample_table [sample_policy] 7 ([], empty_db) =
      (RET_SUCCESS, [\<lparr>uc_permCode = 0, uc_isPersist = True, uc_changedUserList = {100}\<rparr>], records', d) \<and>
    IsPermissionRestricted records' 9 100 0 \<and> \<not> IsPermissionRestricted records' 9 101 0"
proof -
  obtain d where run: "SetUserPolicy mem_rdb sample_table [sample_policy] 7 ([], empty_db) =
     (RET_SUCCESS, [\<lparr>uc_permCode = 0, uc_isPersist = True, uc_changedUserList = {100}\<rparr>], [(0, sample_record)], d)"
    using sample_set by blast
  have "records_ok sample_table []" by (simp add: records_ok_def)
  from bspec [OF conjunct1 [OF set_user_policy_effect [OF sample_table_ok this run]], of sample_policy]
  obtain c where c: "TransferPermissionToOpcode sample_table (pp_permissionName sample_policy) = Some c"
    and eff: "\<forall>t u. IsPermissionRestricted [(0, sample_record)] t u c \<longleftrightarrow> \<not> exempt [] t c \<and>
        (case request (pp_userPolicyList sample_policy) u of Some b \<Rightarrow> b | None \<Rightarrow> IsPermissionRestricted [] t u c)"
    by auto
  have "c = 0" using c by (simp add: sample_policy_def sample_opcode)
  have "IsPermissionRestricted [(0, sample_record)] 9 100 0" "\<not> IsPermissionRestricted [(0, sample_record)] 9 101 0"
    unfolding eff [unfolded \<open>c = 0\<close>, rule_format]
    by (simp_all add: sample_policy_def request_Cons exempt_def IsPermissionRestricted_def)
  then show ?thesis using run by blast
qed

theorem foreign_policies_untouched_witness:
  "let (ret, changes, records', d') = ClearUserPolicy mem_rdb sample_table [''ohos.permission.CAMERA''] 8 ([(0, sample_record)], empty_db)
   in map_of records' 0 = Some sample_record \<and> ret \<noteq> RET_SUCCESS"
  using foreign_policies_untouched [OF sample_table_ok sample_records_ok, of 0 sample_record 8 mem_rdb "[]" empty_db
      "[''ohos.permission.CAMERA'']"]
  by (simp add: sample_record_def sample_opcode split: prod.splits)

theorem failed_policy_request_changes_nothing_witness:
  "let (ret, changes, records', d') = ClearUserPolicy mem_rdb sample_table [''ohos.permission.CAMERA''] 8 ([(0, sample_record)], empty_db)
   in ret = ERR_PERM_POLICY_ALREADY_SET_BY_OTHER \<and> records' = [(0, sample_record)] \<and> db_store d' = db_store empty_db"
proof -
  obtain d' where run: "ClearUserPolicy mem_rdb sample_table [''ohos.permission.CAMERA''] 8 ([(0, sample_record)], empty_db) =
      (ERR_PERM_POLICY_ALREADY_SET_BY_OTHER, [], [(0, sample_record)], d')"
    by (simp add: ClearUserPolicy_def ValidateClearUserPolicy_def sample_opcode sample_record_def)
  then have "\<exists>names caller changes. ClearUserPolicy mem_rdb sample_table names caller ([(0, sample_record)], empty_db) =
      (ERR_PERM_POLICY_ALREADY_SET_BY_OTHER, changes, [(0, sample_record)], d')" by blast
  with failed_policy_request_changes_nothing [OF mem_rdb_laws, of sample_table "[(0, sample_record)]" empty_db
      ERR_PERM_POLICY_ALREADY_SET_BY_OTHER "[(0, sample_record)]" d'] run
  show ?thesis by simp
qed

theorem policy_lists_bounded_witness:
  "unat (0 :: u32) < length sample_table \<and> length (ur_userList sample_record) \<le> 1024 \<and>
   ParseUserList (SerializeList (ur_userList sample_record)) = (True, [100])"
proof -
  obtain d where r: "policy_reachable mem_rdb sample_table (\<lambda>s. s) ([(0, sample_record)], d)" using sample_reachable by blast
  have "map_of [(0 :: u32, sample_record)] 0 = Some sample_record" by simp
  from policy_lists_bounded [OF mem_rdb_laws mem_rdb_query mem_rdb_cursor sample_table_ok r this]
  show ?thesis by (simp add: sample_record_def)
qed

theorem user_policies_survive_restart_witness:
  "\<exists>d d'. policy_reachable mem_rdb sample_table (\<lambda>s. s) ([(0, sample_record)], d) \<and>
    LoadPersistedPolicies mem_rdb sample_table ([], d) = Some (RET_SUCCESS, [(0, sample_record)], d')"
proof -
  obtain d where r: "policy_reachable mem_rdb sample_table (\<lambda>s. s) ([(0, sample_record)], d)" using sample_reachable by blast
  obtain res d1 where "Find mem_rdb ACCESSTOKEN_USER_POLICY [] d = Some (RET_SUCCESS, res, d1)"
    using mem_find_succeeds by blast
  with user_policies_survive_restart [OF mem_rdb_laws mem_rdb_query mem_rdb_cursor sample_table_ok r] r
  show ?thesis by (auto simp: sample_record_def LoadPersistedPolicies_def)
qed

end
