(* ===== verification/Hap_Policy.thy ===== *)
theory Hap_Policy
  imports Permission_Data_Brief
begin

text \<open>
  What an application may request. \<open>DlpPermissionSetManager\<close> restricts the permissions of applications
  in the data-protection sandbox, \<open>PermissionConstraintCheck\<close> checks a requested permission against the
  level and the signature of the application and repairs stored permission lists, and
  \<open>InitPermissionList\<close> of \<^verbatim>\<open>permission_manager.cpp\<close> builds the first permission states at install time.
  The configuration is \<open>SUPPORT_SANDBOX_APP\<close> and \<open>IS_SUPPORT_HAP_RUNNING\<close>, without \<open>X86_EMULATOR_MODE\<close>.

  The application signature library and the system parameters are arguments (\<open>hap_env\<close>): the numbers
  of two distribution types, the printing of a distribution type, and the parameter
  \<^verbatim>\<open>accesstoken.enterprise_normal_check\<close>. Log and event output is not modelled.
\<close>

section \<open>Types\<close>

abbreviation DLP_COMMON :: int where "DLP_COMMON \<equiv> 0"
abbreviation DLP_READ :: int where "DLP_READ \<equiv> 1"
abbreviation DLP_FULL_CONTROL :: int where "DLP_FULL_CONTROL \<equiv> 2"
abbreviation DLP_READ_PERM :: int where "DLP_READ_PERM \<equiv> 3"
abbreviation DLP_FULL_PERM :: int where "DLP_FULL_PERM \<equiv> 4"

abbreviation DLP_PERM_ALL :: int where "DLP_PERM_ALL \<equiv> 0"
abbreviation DLP_PERM_FULL_CONTROL :: int where "DLP_PERM_FULL_CONTROL \<equiv> 1"
abbreviation DLP_PERM_NONE :: int where "DLP_PERM_NONE \<equiv> 2"

record PermissionDlpMode =
  dm_permissionName :: string
  dm_dlpMode :: int

record PreAuthorizationInfo =
  pa_permissionName :: string
  pa_userCancelable :: bool

datatype HapPolicyCheckIgnore = NONE | ACL_IGNORE_CHECK

record HapPolicy =
  hp_apl :: ATokenAplEnum
  hp_domain :: string
  hp_permList :: "PermissionDef list"
  hp_permStateList :: "PermissionStatus list"
  hp_aclRequestedList :: "string list"
  hp_preAuthorizationInfo :: "PreAuthorizationInfo list"
  hp_checkIgnore :: HapPolicyCheckIgnore
  hp_aclExtendedMap :: "(string, string) omap"
  hp_isDebugGrant :: bool

record BundleParam =
  pr_bundleName :: string
  pr_appId :: string
  pr_appIdentifier :: u64
  pr_idType :: u32
  pr_apiVersion :: int
  pr_distributionType :: int
  pr_isSystem :: bool
  pr_isAtomicService :: bool
  pr_isDebug :: bool
  pr_isSideloadApp :: bool

record BundleInfoInner =
  bi_permCodeList :: "u16 list"
  bi_tokenIds :: "token_id list"

datatype PermissionRulesEnum = PERMISSION_EDM_RULE | PERMISSION_ACL_RULE | PERMISSION_ENTERPRISE_NORMAL_RULE

text \<open>\<open>HapInfoCheckResult\<close> has the single field \<open>permCheckResult\<close>.\<close>

record HapInfoCheckResult =
  cr_permissionName :: string
  cr_rule :: PermissionRulesEnum

record hap_env =
  he_ENTERPRISE_MDM :: int
  he_ENTERPRISE_NORMAL :: int
  he_AppDistTypeToString :: "int \<Rightarrow> string"
  he_enterprise_normal_check :: bool

section \<open>Data-protection modes\<close>

definition ProcessDlpPermInfos :: "PermissionDlpMode list \<Rightarrow> (string, int) omap \<Rightarrow> (string, int) omap" where
  "ProcessDlpPermInfos dlpPermInfos m =
     foldl (\<lambda>m i. if map_of m (dm_permissionName i) \<noteq> None then m
                  else omap_insert (dm_permissionName i) (dm_dlpMode i) m) m dlpPermInfos"

definition GetPermDlpMode :: "(string, int) omap \<Rightarrow> string \<Rightarrow> int" where
  "GetPermDlpMode m permissionName =
     (case map_of m permissionName of None \<Rightarrow> DLP_PERM_ALL | Some mode \<Rightarrow> mode)"

definition IsPermDlpModeAvailableToDlpHap :: "int \<Rightarrow> int \<Rightarrow> bool" where
  "IsPermDlpModeAvailableToDlpHap hapDlpType permDlpMode =
     (if hapDlpType = DLP_COMMON \<or> permDlpMode = DLP_PERM_ALL then True
      else if hapDlpType = DLP_READ_PERM then permDlpMode \<noteq> DLP_PERM_FULL_CONTROL
      else if hapDlpType = DLP_FULL_PERM then True
      else if permDlpMode = DLP_PERM_FULL_CONTROL \<and> hapDlpType = DLP_FULL_CONTROL then True
      else False)"

definition UpdatePermStateWithDlpInfo ::
    "(string, int) omap \<Rightarrow> int \<Rightarrow> PermissionStatus list \<Rightarrow> PermissionStatus list" where
  "UpdatePermStateWithDlpInfo m hapDlpType permStateList =
     map (\<lambda>s. if ps_grantStatus s = PERMISSION_DENIED then s
              else if \<not> IsPermDlpModeAvailableToDlpHap hapDlpType (GetPermDlpMode m (ps_permissionName s))
              then s\<lparr>ps_grantStatus := PERMISSION_DENIED\<rparr> else s) permStateList"

definition IsPermissionAvailableToDlpHap :: "(string, int) omap \<Rightarrow> int \<Rightarrow> string \<Rightarrow> bool" where
  "IsPermissionAvailableToDlpHap m hapDlpType permissionName =
     IsPermDlpModeAvailableToDlpHap hapDlpType (GetPermDlpMode m permissionName)"

text \<open>The overload by code.\<close>

definition IsPermCodeAvailableToDlpHap :: "perm_table \<Rightarrow> (string, int) omap \<Rightarrow> int \<Rightarrow> u32 \<Rightarrow> bool" where
  "IsPermCodeAvailableToDlpHap tbl m hapDlpType permCode =
     (let permissionName = TransferOpcodeToPermission tbl permCode in
      if permissionName = [] then False else IsPermissionAvailableToDlpHap m hapDlpType permissionName)"

section \<open>Constraints on a requested permission\<close>

definition IsSideloadAclExempt :: "bool \<Rightarrow> PermissionBriefDef \<Rightarrow> bool" where
  "IsSideloadAclExempt isSideloadApp briefDef \<longleftrightarrow>
     isSideloadApp \<and> bd_provisionEnable briefDef \<and> bd_provisionBypassForSideload briefDef"

definition IsAclSatisfied :: "bool \<Rightarrow> PermissionBriefDef \<Rightarrow> HapPolicy \<Rightarrow> bool" where
  "IsAclSatisfied isSideloadApp briefDef policy =
     (if apl_value (hp_apl policy) < apl_value (bd_availableLevel briefDef)
      then
        if \<not> bd_provisionEnable briefDef then False
        else if IsSideloadAclExempt isSideloadApp briefDef then True
        else
          (let isAclExist =
             (if bd_hasValue briefDef
              then list_ex (\<lambda>perm. bd_permissionName briefDef = fst perm) (hp_aclExtendedMap policy)
              else list_ex (\<lambda>perm. bd_permissionName briefDef = perm) (hp_aclRequestedList policy)) in
           if \<not> isAclExist then False else True)
      else True)"

text \<open>The second component is the out parameter \<open>rule\<close>.\<close>

definition IsPermAvailableRangeSatisfied ::
    "hap_env \<Rightarrow> BundleParam \<Rightarrow> PermissionBriefDef \<Rightarrow> PermissionRulesEnum \<Rightarrow> bool \<times> PermissionRulesEnum" where
  "IsPermAvailableRangeSatisfied env param briefDef rule =
     (if bd_availableType briefDef = MDM \<and> pr_isDebug param then (True, rule)
      else if bd_availableType briefDef = MDM \<and> pr_distributionType param \<noteq> he_ENTERPRISE_MDM env
      then (False, PERMISSION_EDM_RULE)
      else if bd_availableType briefDef = ENTERPRISE_NORMAL
      then
        if pr_distributionType param = he_ENTERPRISE_MDM env \<or>
           pr_distributionType param = he_ENTERPRISE_NORMAL env \<or> pr_isSystem param \<or> pr_isDebug param
        then (True, rule)
        else if he_enterprise_normal_check env then (False, PERMISSION_ENTERPRISE_NORMAL_RULE)
        else (True, PERMISSION_ENTERPRISE_NORMAL_RULE)
      else (True, rule))"

definition AclAndEdmCheck ::
    "hap_env \<Rightarrow> BundleParam \<Rightarrow> PermissionBriefDef \<Rightarrow> HapPolicy \<Rightarrow> HapInfoCheckResult \<Rightarrow>
      bool \<times> HapInfoCheckResult" where
  "AclAndEdmCheck env param briefDef policy result =
     (if \<not> IsAclSatisfied (pr_isSideloadApp param) briefDef policy
      then (False, result\<lparr>cr_permissionName := bd_permissionName briefDef, cr_rule := PERMISSION_ACL_RULE\<rparr>)
      else
        (let (ok, rule) = IsPermAvailableRangeSatisfied env param briefDef PERMISSION_ACL_RULE in
         if ok then (True, result)
         else (False, result\<lparr>cr_permissionName := bd_permissionName briefDef, cr_rule := rule\<rparr>)))"

definition BuildIdType :: "BundleParam \<Rightarrow> HapPolicy \<Rightarrow> int" where
  "BuildIdType param policy =
     (if pr_isDebug param then 3
      else if pr_appIdentifier param = 0 then 5
      else if list_ex (\<lambda>s. ps_permissionName s = ''TEMPJITALLOW'') (hp_permStateList policy) then 10
      else 2)"

section \<open>Repair of a stored permission list\<close>

text \<open>\<open>initPermData\<close> for one missing code.\<close>

definition init_perm_data :: "u16 \<Rightarrow> PermissionBriefDef \<Rightarrow> BriefPermData" where
  "init_perm_data permCode briefDef =
     (if bd_grantMode briefDef = SYSTEM_GRANT
      then \<lparr>bp_status = PERMISSION_GRANTED, bp_type = 0, bp_permCode = permCode, bp_flag = PERMISSION_SYSTEM_FIXED\<rparr>
      else \<lparr>bp_status = PERMISSION_DENIED, bp_type = 0, bp_permCode = permCode, bp_flag = PERMISSION_DEFAULT_FLAG\<rparr>)"

text \<open>The last loop; \<open>None\<close> is a read of the permission table out of its bounds.\<close>

fun add_missing ::
    "perm_table \<Rightarrow> u16 set \<Rightarrow> u16 set \<Rightarrow> u16 list \<Rightarrow> BriefPermData list \<Rightarrow> bool \<Rightarrow>
      (BriefPermData list \<times> bool) option" where
  "add_missing tbl expected current [] data isFixed = Some (data, isFixed)"
| "add_missing tbl expected current (permCode # codes) data isFixed =
     (if permCode \<notin> expected then add_missing tbl expected current codes data isFixed
      else if permCode \<in> current then add_missing tbl expected current codes data isFixed
      else case GetPermissionBriefDefByCode tbl (ucast permCode) of
        None \<Rightarrow> None
      | Some briefDef \<Rightarrow>
          if \<not> bd_isEnable briefDef then add_missing tbl expected current codes data isFixed
          else add_missing tbl expected current codes (data @ [init_perm_data permCode briefDef]) True)"

definition FixBriefPermData ::
    "perm_table \<Rightarrow> (string, int) omap \<Rightarrow> BundleInfoInner \<Rightarrow> int \<Rightarrow> BriefPermData list \<Rightarrow>
      (BriefPermData list \<times> bool) option" where
  "FixBriefPermData tbl dlpModes infoInner dlpType data =
     (let expectedPermCodes = set (filter (\<lambda>permCode.
            \<not> (dlpType \<noteq> DLP_COMMON \<and> \<not> IsPermCodeAvailableToDlpHap tbl dlpModes dlpType (ucast permCode)))
            (bi_permCodeList infoInner));
          kept = filter (\<lambda>item. bp_permCode item \<in> expectedPermCodes) data;
          isFixed = (length kept \<noteq> length data);
          currentPermCodes = bp_permCode ` set kept in
      add_missing tbl expectedPermCodes currentPermCodes (bi_permCodeList infoInner) kept isFixed)"

section \<open>The permission states of a new application\<close>

text \<open>The out parameter \<open>userCancelable\<close> is written only when the permission is in the list.\<close>

definition IsUserGrantPermPreAuthorized ::
    "PreAuthorizationInfo list \<Rightarrow> string \<Rightarrow> bool \<Rightarrow> bool \<times> bool" where
  "IsUserGrantPermPreAuthorized l permissionName userCancelable =
     (case find (\<lambda>info. pa_permissionName info = permissionName) l of
        None \<Rightarrow> (False, userCancelable)
      | Some info \<Rightarrow> (True, pa_userCancelable info))"

definition FillUndefinedPermVector ::
    "string \<Rightarrow> string \<Rightarrow> HapPolicy \<Rightarrow> GenericValues list \<Rightarrow> GenericValues list" where
  "FillUndefinedPermVector permissionName appDistributionType policy undefValues =
     (let v0 = PutString FIELD_PERMISSION_NAME permissionName [];
          v1 = PutString FIELD_APP_DISTRIBUTION_TYPE appDistributionType v0;
          v2 = PutInt FIELD_ACL (if permissionName \<in> set (hp_aclRequestedList policy) then 1 else 0) v1;
          v3 = (case find (\<lambda>item. permissionName = fst item) (hp_aclExtendedMap policy) of
                  None \<Rightarrow> v2 | Some item \<Rightarrow> PutString FIELD_VALUE (snd item) v2) in
      undefValues @ [v3])"

definition InitPermState :: "HapPolicy \<Rightarrow> PermissionBriefDef \<Rightarrow> bool \<Rightarrow> PermissionStatus \<Rightarrow> PermissionStatus" where
  "InitPermState policy briefDef needGrantForDebug state =
     (if bd_grantMode briefDef = SYSTEM_GRANT
      then state\<lparr>ps_grantFlag := PERMISSION_SYSTEM_FIXED, ps_grantStatus := PERMISSION_GRANTED\<rparr>
      else if hp_preAuthorizationInfo policy = [] \<and> \<not> needGrantForDebug then state
      else
        (let (pre, userCancelable) =
           IsUserGrantPermPreAuthorized (hp_preAuthorizationInfo policy) (ps_permissionName state) True in
         if pre
         then state\<lparr>ps_grantFlag :=
                (if userCancelable then PERMISSION_PRE_AUTHORIZED_CANCELABLE else PERMISSION_SYSTEM_FIXED),
                ps_grantStatus := PERMISSION_GRANTED\<rparr>
         else if needGrantForDebug
         then state\<lparr>ps_grantFlag := PERMISSION_USER_FIXED, ps_grantStatus := PERMISSION_GRANTED\<rparr>
         else state))"

text \<open>The loop of \<open>InitPermissionList\<close> over the requested states; the accumulators are the out
  parameters \<open>initializedList\<close>, \<open>result\<close> and \<open>undefValues\<close>.\<close>

fun init_perm_loop ::
    "hap_env \<Rightarrow> perm_table \<Rightarrow> BundleParam \<Rightarrow> HapPolicy \<Rightarrow> bool \<Rightarrow> PermissionStatus list \<Rightarrow>
      PermissionStatus list \<Rightarrow> HapInfoCheckResult \<Rightarrow> GenericValues list \<Rightarrow>
      bool \<times> PermissionStatus list \<times> HapInfoCheckResult \<times> GenericValues list" where
  "init_perm_loop env tbl param policy dataRefresh [] initializedList result undefValues =
     (True, initializedList, result, undefValues)"
| "init_perm_loop env tbl param policy dataRefresh (state # states) initializedList result undefValues =
     (let undefined_after =
        FillUndefinedPermVector (ps_permissionName state)
          (he_AppDistTypeToString env (pr_distributionType param)) policy undefValues in
      case GetPermissionBriefDef tbl (ps_permissionName state) of
        None \<Rightarrow> init_perm_loop env tbl param policy dataRefresh states initializedList result undefined_after
      | Some briefDef \<Rightarrow>
          if \<not> bd_isEnable briefDef
          then init_perm_loop env tbl param policy dataRefresh states initializedList result undefined_after
          else
            (let (ok, result') =
               AclAndEdmCheck env param briefDef policy (result\<lparr>cr_permissionName := ps_permissionName state\<rparr>) in
             if \<not> ok
             then if dataRefresh
               then init_perm_loop env tbl param policy dataRefresh states initializedList result' undefined_after
               else (False, initializedList, result', undefValues)
             else
               init_perm_loop env tbl param policy dataRefresh states
                 (initializedList @
                   [InitPermState policy briefDef (pr_isDebug param \<and> hp_isDebugGrant policy)
                      (state\<lparr>ps_grantFlag := PERMISSION_DEFAULT_FLAG, ps_grantStatus := PERMISSION_DENIED\<rparr>)])
                 result' undefValues))"

definition InitPermissionList ::
    "hap_env \<Rightarrow> perm_table \<Rightarrow> BundleParam \<Rightarrow> HapPolicy \<Rightarrow> bool \<Rightarrow> PermissionStatus list \<Rightarrow> HapInfoCheckResult \<Rightarrow>
      GenericValues list \<Rightarrow> bool \<times> PermissionStatus list \<times> HapInfoCheckResult \<times> GenericValues list" where
  "InitPermissionList env tbl param policy dataRefresh initializedList result undefValues =
     init_perm_loop env tbl param policy dataRefresh (hp_permStateList policy) initializedList result undefValues"

section \<open>Permission features\<close>

definition IsSupportFeature :: "string set \<Rightarrow> PermissionStatus \<Rightarrow> bool" where
  "IsSupportFeature features status = (if ps_feature status = [] then True else ps_feature status \<in> features)"

end
