(* ===== verification/Hap_Policy_Laws.thy ===== *)
theory Hap_Policy_Laws
  imports Hap_Policy Permission_Brief_Laws
begin

text \<open>
  Laws of the install-time checks: which permissions a new application gets and in which state, and
  what the repair of a stored permission list does.
\<close>

section \<open>The first permission states\<close>

text \<open>A requested permission passes when it is defined, enabled, and allowed by both checks.\<close>

definition passes :: "hap_env \<Rightarrow> BundleParam \<Rightarrow> HapPolicy \<Rightarrow> PermissionBriefDef \<Rightarrow> bool" where
  "passes env param policy d \<longleftrightarrow>
     IsAclSatisfied (pr_isSideloadApp param) d policy \<and> fst (IsPermAvailableRangeSatisfied env param d PERMISSION_ACL_RULE)"

definition requestable :: "perm_table \<Rightarrow> string \<Rightarrow> PermissionBriefDef \<Rightarrow> bool" where
  "requestable tbl name d \<longleftrightarrow> GetPermissionBriefDef tbl name = Some d \<and> bd_isEnable d"

definition accepted :: "hap_env \<Rightarrow> perm_table \<Rightarrow> BundleParam \<Rightarrow> HapPolicy \<Rightarrow> PermissionStatus \<Rightarrow> bool" where
  "accepted env tbl param policy s \<longleftrightarrow>
     (\<exists>d. requestable tbl (ps_permissionName s) d \<and> passes env param policy d)"

definition first_state :: "perm_table \<Rightarrow> BundleParam \<Rightarrow> HapPolicy \<Rightarrow> PermissionStatus \<Rightarrow> PermissionStatus" where
  "first_state tbl param policy s =
     InitPermState policy (the (GetPermissionBriefDef tbl (ps_permissionName s))) (pr_isDebug param \<and> hp_isDebugGrant policy)
       (s\<lparr>ps_grantFlag := PERMISSION_DEFAULT_FLAG, ps_grantStatus := PERMISSION_DENIED\<rparr>)"

lemma AclAndEdmCheck_passes: "fst (AclAndEdmCheck env param d policy r) = passes env param policy d"
  by (simp add: AclAndEdmCheck_def passes_def split: prod.split)

lemma AclAndEdmCheck_names:
  "\<not> passes env param policy d \<Longrightarrow> cr_permissionName (snd (AclAndEdmCheck env param d policy r)) = bd_permissionName d"
  by (auto simp: AclAndEdmCheck_def passes_def split: prod.split)

lemma FillUndefinedPermVector_name:
  "map (\<lambda>v. GetString v FIELD_PERMISSION_NAME) (FillUndefinedPermVector name ty policy vs) =
     map (\<lambda>v. GetString v FIELD_PERMISSION_NAME) vs @ [name]"
  by (simp add: FillUndefinedPermVector_def PutString_def PutInt_def omap_emplace_def get_defs Let_def split: option.split)

lemma init_perm_loop_result:
  assumes "init_perm_loop env tbl param policy dataRefresh states l r u = (ok, l', r', u')"
  shows "if ok
    then l' = l @ map (first_state tbl param policy) (filter (accepted env tbl param policy) states) \<and>
      map (\<lambda>v. GetString v FIELD_PERMISSION_NAME) u' = map (\<lambda>v. GetString v FIELD_PERMISSION_NAME) u @
        map ps_permissionName (filter (\<lambda>s. \<not> accepted env tbl param policy s) states) \<and>
      (dataRefresh \<or> (\<forall>s \<in> set states. \<forall>d. requestable tbl (ps_permissionName s) d \<longrightarrow> passes env param policy d))
    else \<not> dataRefresh \<and> (\<exists>s \<in> set states. \<exists>d. requestable tbl (ps_permissionName s) d \<and> \<not> passes env param policy d \<and>
      r' = snd (AclAndEdmCheck env param d policy r'))"
  using assms
proof (induction states arbitrary: l r u)
  case (Cons s states)
  let ?undef = "FillUndefinedPermVector (ps_permissionName s) (he_AppDistTypeToString env (pr_distributionType param)) policy u"
  consider (skip) "\<nexists>d. requestable tbl (ps_permissionName s) d"
    | (found) d where "requestable tbl (ps_permissionName s) d" by blast
  then show ?case
  proof cases
    case skip
    then have "init_perm_loop env tbl param policy dataRefresh states l r ?undef = (ok, l', r', u')"
      using Cons.prems by (auto simp: requestable_def Let_def split: option.splits if_splits)
    from Cons.IH [OF this] show ?thesis
      using skip by (auto simp: accepted_def FillUndefinedPermVector_name split: if_splits)
  next
    case (found d)
    let ?r = "r\<lparr>cr_permissionName := ps_permissionName s\<rparr>"
    obtain b r1 where chk: "AclAndEdmCheck env param d policy ?r = (b, r1)" by fastforce
    then have b: "b = passes env param policy d" using AclAndEdmCheck_passes [of env param d policy ?r] by simp
    have d: "GetPermissionBriefDef tbl (ps_permissionName s) = Some d" "bd_isEnable d" using found by (auto simp: requestable_def)
    have acc: "accepted env tbl param policy s = b" using d b by (auto simp: accepted_def requestable_def)
    show ?thesis
    proof (cases b)
      case True
      then have "init_perm_loop env tbl param policy dataRefresh states (l @ [first_state tbl param policy s]) r1 u = (ok, l', r', u')"
        using Cons.prems d chk by (simp add: Let_def first_state_def)
      from Cons.IH [OF this] show ?thesis using True acc d b by (auto simp: requestable_def split: if_splits)
    next
      case False
      show ?thesis
      proof (cases dataRefresh)
        case True
        then have "init_perm_loop env tbl param policy dataRefresh states l r1 ?undef = (ok, l', r', u')"
          using Cons.prems d chk False by (simp add: Let_def)
        from Cons.IH [OF this] show ?thesis
          using True False acc by (auto simp: FillUndefinedPermVector_name split: if_splits)
      next
        case no: False
        then have "ok = False" "r' = r1" using Cons.prems d chk False by (simp_all add: Let_def)
        moreover have "r1 = snd (AclAndEdmCheck env param d policy r1)"
          using chk False by (auto simp: AclAndEdmCheck_def split: if_splits prod.splits)
        ultimately show ?thesis using no found b False by auto
      qed
    qed
  qed
qed simp

lemma pre_authorized: "fst (IsUserGrantPermPreAuthorized l name b) \<longleftrightarrow> name \<in> pa_permissionName ` set l"
  by (induction l) (auto simp: IsUserGrantPermPreAuthorized_def split: option.splits)

lemma first_state_granted:
  "ps_grantStatus (first_state tbl param policy s) = PERMISSION_GRANTED \<longleftrightarrow>
     bd_grantMode (the (GetPermissionBriefDef tbl (ps_permissionName s))) = SYSTEM_GRANT \<or>
     ps_permissionName s \<in> pa_permissionName ` set (hp_preAuthorizationInfo policy) \<or>
     pr_isDebug param \<and> hp_isDebugGrant policy"
  using pre_authorized [of "hp_preAuthorizationInfo policy" "ps_permissionName s" True]
  by (auto simp: first_state_def InitPermState_def Let_def split: prod.splits)

lemma first_state_name: "ps_permissionName (first_state tbl param policy s) = ps_permissionName s"
  by (simp add: first_state_def InitPermState_def split: prod.split)

section \<open>The repair of a stored list\<close>

definition expected_codes :: "perm_table \<Rightarrow> (string, int) omap \<Rightarrow> BundleInfoInner \<Rightarrow> int \<Rightarrow> u16 list" where
  "expected_codes tbl dlpModes info dlpType =
     filter (\<lambda>c. \<not> (dlpType \<noteq> DLP_COMMON \<and> \<not> IsPermCodeAvailableToDlpHap tbl dlpModes dlpType (ucast c)))
       (bi_permCodeList info)"

definition missing_data :: "perm_table \<Rightarrow> u16 set \<Rightarrow> u16 set \<Rightarrow> u16 list \<Rightarrow> BriefPermData list" where
  "missing_data tbl expected current codes =
     map (\<lambda>c. init_perm_data c (tbl ! unat c))
       (filter (\<lambda>c. c \<in> expected \<and> c \<notin> current \<and> bd_isEnable (tbl ! unat c)) codes)"

lemma nothing_missing:
  "(\<And>c. c \<in> expected \<Longrightarrow> bd_isEnable (tbl ! unat c) \<Longrightarrow> c \<in> current) \<Longrightarrow> missing_data tbl expected current codes = []"
  by (auto simp: missing_data_def filter_empty_conv)

lemma add_missing_eq:
  assumes "\<forall>c \<in> set codes. unat c < length tbl"
  shows "add_missing tbl expected current codes data isFixed =
    Some (data @ missing_data tbl expected current codes, isFixed \<or> missing_data tbl expected current codes \<noteq> [])"
  using assms
  by (induction codes arbitrary: data isFixed)
    (auto simp: missing_data_def GetPermissionBriefDefByCode_def)

lemma init_perm_data_code [simp]: "bp_permCode (init_perm_data c d) = c"
  by (simp add: init_perm_data_def)

lemma FixBriefPermData_eq:
  fixes tbl :: perm_table and dlpModes :: "(string, int) omap" and info :: BundleInfoInner and dlpType :: int
  assumes "\<forall>c \<in> set (bi_permCodeList info). unat c < length tbl"
  defines "expected \<equiv> set (expected_codes tbl dlpModes info dlpType)"
  defines "kept \<equiv> \<lambda>data. filter (\<lambda>d. bp_permCode d \<in> expected) data"
  defines "missing \<equiv> \<lambda>data. missing_data tbl expected (bp_permCode ` set (kept data)) (bi_permCodeList info)"
  shows "FixBriefPermData tbl dlpModes info dlpType data =
    Some (kept data @ missing data, kept data @ missing data \<noteq> data)"
proof -
  have full: "kept data = data" if "length (kept data) = length data"
    using that unfolding kept_def by (metis filter_True less_irrefl length_filter_less)
  have "length (kept data) \<noteq> length data \<or> missing data \<noteq> [] \<longleftrightarrow> kept data @ missing data \<noteq> data"
  proof
    assume "length (kept data) \<noteq> length data \<or> missing data \<noteq> []"
    then show "kept data @ missing data \<noteq> data"
    proof (cases "length (kept data) = length data")
      case True
      then show ?thesis using \<open>length (kept data) \<noteq> length data \<or> missing data \<noteq> []\<close>
        by (auto dest!: arg_cong [where f = length])
    next
      case False
      then have "\<exists>d \<in> set data. bp_permCode d \<notin> expected"
        unfolding kept_def by (metis filter_True)
      moreover have "\<forall>d \<in> set (kept data @ missing data). bp_permCode d \<in> expected"
        by (auto simp: kept_def missing_def missing_data_def)
      ultimately show ?thesis by metis
    qed
  qed (use full in auto)
  then show ?thesis
    unfolding FixBriefPermData_def Let_def add_missing_eq [OF assms(1)]
    by (simp add: kept_def missing_def expected_def expected_codes_def)
qed

text \<open>An entry the repair adds has no type bits, also for a permission with kernel effect or with a value,
  for which \<open>GetPermissionBriefData\<close> sets them.\<close>

lemma repaired_entry_has_no_type: "bp_type (init_perm_data c d) = 0"
  by (simp add: init_perm_data_def)

definition sample_env :: hap_env where
  "sample_env = \<lparr>he_ENTERPRISE_MDM = 4, he_ENTERPRISE_NORMAL = 3, he_AppDistTypeToString = (\<lambda>_. ''os_integration''),
     he_enterprise_normal_check = False\<rparr>"

definition sample_param :: BundleParam where
  "sample_param = \<lparr>pr_bundleName = ''com.example.app'', pr_appId = ''app'', pr_appIdentifier = 1, pr_idType = 0,
     pr_apiVersion = 12, pr_distributionType = 0, pr_isSystem = False, pr_isAtomicService = False,
     pr_isDebug = False, pr_isSideloadApp = False\<rparr>"

definition requested :: "string \<Rightarrow> PermissionStatus" where
  "requested name = \<lparr>ps_tokenID = 0, ps_permissionName = name, ps_feature = [], ps_grantStatus = PERMISSION_GRANTED,
     ps_grantFlag = 0, ps_timestamp = 0\<rparr>"

definition sample_hap_policy :: HapPolicy where
  "sample_hap_policy = \<lparr>hp_apl = APL_NORMAL, hp_domain = ''test'', hp_permList = [],
     hp_permStateList = [requested ''ohos.permission.CAMERA'', requested ''ohos.permission.NONE''],
     hp_aclRequestedList = [], hp_preAuthorizationInfo = [], hp_checkIgnore = NONE, hp_aclExtendedMap = [],
     hp_isDebugGrant = False\<rparr>"

section \<open>Properties\<close>



text \<open>C6. The repair of a stored permission list: when the codes of the application are in the table, it
  always succeeds, removes exactly the entries of codes the application does not have (or may not have in
  the sandbox), appends a fresh entry for each enabled code without one, reports a change exactly if
  there is one, and has nothing left to do when run again.\<close>

theorem fix_brief_perm_data_repairs:
  assumes "\<forall>c \<in> set (bi_permCodeList info). unat c < length tbl"
  shows "\<exists>data'. FixBriefPermData tbl dlpModes info dlpType data = Some (data', data' \<noteq> data) \<and>
    FixBriefPermData tbl dlpModes info dlpType data' = Some (data', False) \<and>
    (\<forall>d \<in> set data. d \<in> set data' \<longleftrightarrow> bp_permCode d \<in> set (expected_codes tbl dlpModes info dlpType)) \<and>
    (\<forall>c \<in> set (expected_codes tbl dlpModes info dlpType). bd_isEnable (tbl ! unat c) \<longrightarrow> c \<in> bp_permCode ` set data') \<and>
    (\<forall>d \<in> set data' - set data. bp_permCode d \<notin> bp_permCode ` set data \<and>
       d = init_perm_data (bp_permCode d) (tbl ! unat (bp_permCode d)))"
proof -
  let ?E = "set (expected_codes tbl dlpModes info dlpType)"
  let ?kept = "\<lambda>data. filter (\<lambda>d. bp_permCode d \<in> ?E) data"
  let ?miss = "\<lambda>data. missing_data tbl ?E (bp_permCode ` set (?kept data)) (bi_permCodeList info)"
  let ?data' = "?kept data @ ?miss data"
  note eq = FixBriefPermData_eq [OF assms, of dlpModes dlpType]
  have sub: "?E \<subseteq> set (bi_permCodeList info)" by (auto simp: expected_codes_def)
  have all: "?kept ?data' = ?data'" by (auto simp: missing_data_def intro!: filter_True)
  have has: "c \<in> bp_permCode ` set ?data'" if c: "c \<in> ?E" "bd_isEnable (tbl ! unat c)" for c
  proof (cases "c \<in> bp_permCode ` set (?kept data)")
    case False
    then have "init_perm_data c (tbl ! unat c) \<in> set (?miss data)" using c sub by (auto simp: missing_data_def)
    then have "bp_permCode (init_perm_data c (tbl ! unat c)) \<in> bp_permCode ` set ?data'" by (intro imageI) simp
    then show ?thesis by simp
  qed (simp only: set_append image_Un UnI1)
  have miss: "?miss ?data' = []"
    unfolding all by (rule nothing_missing) (use has in blast)
  have again: "?kept ?data' @ ?miss ?data' = ?data'" by (subst miss, subst all) simp
  have fresh: "bp_permCode d \<notin> bp_permCode ` set data \<and> d = init_perm_data (bp_permCode d) (tbl ! unat (bp_permCode d))"
    if "d \<in> set ?data' - set data" for d
    using that by (auto simp: missing_data_def)
  have mem: "d \<in> set ?data' \<longleftrightarrow> bp_permCode d \<in> ?E" if "d \<in> set data" for d
    using that by (auto simp: missing_data_def)
  have first: "FixBriefPermData tbl dlpModes info dlpType data = Some (?data', ?data' \<noteq> data)" by (rule eq)
  have second: "FixBriefPermData tbl dlpModes info dlpType ?data' = Some (?data', False)"
    using eq [of ?data'] unfolding again by simp
  show ?thesis
    by (rule exI [of _ ?data'], intro conjI ballI impI first second) (use mem has fresh in blast)+
qed

theorem fix_brief_perm_data_repairs_witness:
  "\<exists>data'. FixBriefPermData sample_table [] \<lparr>bi_permCodeList = [0, 1], bi_tokenIds = []\<rparr> DLP_COMMON
      [sample_entry 0 0, (sample_entry 0 0)\<lparr>bp_permCode := 5\<rparr>] = Some (data', True) \<and>
    sample_entry 0 0 \<in> set data' \<and> (sample_entry 0 0)\<lparr>bp_permCode := 5\<rparr> \<notin> set data' \<and> 1 \<in> bp_permCode ` set data'"
proof -
  let ?info = "\<lparr>bi_permCodeList = [0, 1], bi_tokenIds = []\<rparr>"
  let ?bad = "(sample_entry 0 0)\<lparr>bp_permCode := 5\<rparr>"
  have codes: "\<forall>c \<in> set (bi_permCodeList ?info). unat c < length sample_table" by (simp add: sample_table_def)
  have exp: "set (expected_codes sample_table [] ?info DLP_COMMON) = {0, 1}" by (simp add: expected_codes_def)
  have en: "bd_isEnable (sample_table ! unat (1 :: u16))" by (simp add: sample_table_def sample_def_def)
  from fix_brief_perm_data_repairs [OF codes, of "[]" DLP_COMMON "[sample_entry 0 0, ?bad]"]
  obtain data' where d: "FixBriefPermData sample_table [] ?info DLP_COMMON [sample_entry 0 0, ?bad] =
      Some (data', data' \<noteq> [sample_entry 0 0, ?bad])"
    and mem: "\<forall>d \<in> set [sample_entry 0 0, ?bad]. d \<in> set data' \<longleftrightarrow> bp_permCode d \<in> {0, 1}"
    and add: "\<forall>c \<in> {0, 1}. bd_isEnable (sample_table ! unat c) \<longrightarrow> c \<in> bp_permCode ` set data'"
    unfolding exp by blast
  have "sample_entry 0 0 \<in> set data'" "?bad \<notin> set data'" using mem by (simp_all add: sample_entry_def)
  then show ?thesis using d add en by force
qed

end
