(* ===== verification/Table_Items.thy ===== *)
theory Table_Items
  imports Permission_Data_Brief
begin

text \<open>
  The rows of the bundle and token tables as structures (\<^verbatim>\<open>table_item.cpp\<close>, built with
  \<open>SPM_DATA_ENABLE\<close>). Fields of enumeration type are the integers that are cast to and from the
  columns. The laws say that the rows of a structure, stored and read back, give the structure.
\<close>

section \<open>Definitions\<close>

record ModuleInfoItem =
  mi_moduleName :: string
  mi_path :: string
  mi_bundleType :: int
  mi_persistData :: "u8 list"

record BundleInfoItems =
  bis_bundleName :: string
  bis_isPreInstalled :: bool
  bis_moduleInfoItems :: "ModuleInfoItem list"

record HapTokenInfoItem =
  ti_tokenId :: token_id
  ti_userId :: u32
  ti_bundleName :: string
  ti_instIndex :: u32
  ti_dlpType :: int
  ti_appId :: string
  ti_deviceId :: string
  ti_apl :: int
  ti_version :: u32
  ti_tokenAttr :: u32
  ti_apiVersion :: int
  ti_permDialogCapState :: bool
  ti_uid :: int
  ti_migrated :: bool
  ti_reserved :: int
  ti_isSideload :: bool

definition ModuleBuildAddValue :: "ModuleInfoItem \<Rightarrow> GenericValues list \<Rightarrow> GenericValues list" where
  "ModuleBuildAddValue m adds =
     adds @ [PutBlob FIELD_PERSIST_DATA (mi_persistData m)
                   (PutInt FIELD_BUNDLE_TYPE (mi_bundleType m)
                     (PutString FIELD_PATH (mi_path m) (PutString FIELD_MODULE_NAME (mi_moduleName m) [])))]"

definition BundleBuildAddValue :: "BundleInfoItems \<Rightarrow> GenericValues list \<Rightarrow> GenericValues list" where
  "BundleBuildAddValue b adds =
     foldl (\<lambda>acc m.
       foldl (\<lambda>acc v. acc @ [PutInt FIELD_IS_PREINSTALLED (of_bool_int (bis_isPreInstalled b))
                               (PutString FIELD_BUNDLE_NAME (bis_bundleName b) v)])
         acc (ModuleBuildAddValue m []))
       adds (bis_moduleInfoItems b)"

definition BundleBuildDeleteValues :: "BundleInfoItems \<Rightarrow> GenericValues \<Rightarrow> GenericValues" where
  "BundleBuildDeleteValues b deleteValue = PutString FIELD_BUNDLE_NAME (bis_bundleName b) deleteValue"

definition BundleBuildUpdateValues ::
    "BundleInfoItems \<Rightarrow> GenericValues \<Rightarrow> GenericValues list \<Rightarrow> GenericValues \<times> GenericValues list" where
  "BundleBuildUpdateValues b deleteValue adds =
     (BundleBuildDeleteValues b deleteValue, BundleBuildAddValue b adds)"

definition BundleBuildFindValues :: "BundleInfoItems \<Rightarrow> GenericValues \<Rightarrow> GenericValues" where
  "BundleBuildFindValues b findValue = PutString FIELD_BUNDLE_NAME (bis_bundleName b) findValue"

definition module_of_row :: "GenericValues \<Rightarrow> ModuleInfoItem" where
  "module_of_row v =
     \<lparr>mi_moduleName = GetString v FIELD_MODULE_NAME, mi_path = GetString v FIELD_PATH,
      mi_bundleType = GetInt v FIELD_BUNDLE_TYPE, mi_persistData = GetBlob v FIELD_PERSIST_DATA\<rparr>"

text \<open>The body of the loop of \<open>LoadFromDB\<close>: the items so far and the index of each bundle name.\<close>

definition load_bundle_row ::
    "GenericValues \<Rightarrow> BundleInfoItems list \<times> (string, nat) omap \<Rightarrow> BundleInfoItems list \<times> (string, nat) omap" where
  "load_bundle_row v acc =
     (let (items, index) = acc; bundleName = GetString v FIELD_BUNDLE_NAME;
          (items1, index1, i) =
            (case map_of index bundleName of
               Some i \<Rightarrow> (items, index, i)
             | None \<Rightarrow>
                 (items @ [\<lparr>bis_bundleName = bundleName,
                            bis_isPreInstalled = (GetInt v FIELD_IS_PREINSTALLED \<noteq> 0),
                            bis_moduleInfoItems = []\<rparr>],
                  omap_emplace bundleName (length items) index, length items)) in
      (items1[i := (items1 ! i)\<lparr>bis_moduleInfoItems := bis_moduleInfoItems (items1 ! i) @ [module_of_row v]\<rparr>], index1))"

definition BundleLoadFromDB :: "GenericValues list \<Rightarrow> BundleInfoItems list" where
  "BundleLoadFromDB values = fst (fold load_bundle_row values ([], []))"

definition BundleGenerateAddList :: "GenericValues list \<Rightarrow> AddInfo list \<Rightarrow> AddInfo list" where
  "BundleGenerateAddList values addInfoVec =
     addInfoVec @ [\<lparr>addType = ACCESSTOKEN_HAP_PACKAGE_INFO, addValues = values\<rparr>]"

definition BundleGenerateDelList :: "GenericValues list \<Rightarrow> DelInfo \<Rightarrow> DelInfo" where
  "BundleGenerateDelList values delInfo =
     (let d = delInfo\<lparr>delType := ACCESSTOKEN_HAP_PACKAGE_INFO\<rparr> in
      case values of [] \<Rightarrow> d | v # vs \<Rightarrow> d\<lparr>delValue := v\<rparr>)"

definition hap_item_row :: "HapTokenInfoItem \<Rightarrow> GenericValues" where
  "hap_item_row t =
     PutInt FIELD_IS_SIDELOAD (of_bool_int (ti_isSideload t))
    (PutInt FIELD_RESERVED (ti_reserved t)
    (PutInt FIELD_MIGRATED (of_bool_int (ti_migrated t))
    (PutInt FIELD_UID (ti_uid t)
    (PutInt FIELD_FORBID_PERM_DIALOG (of_bool_int (ti_permDialogCapState t))
    (PutInt FIELD_API_VERSION (ti_apiVersion t)
    (PutInt FIELD_TOKEN_ATTR (sint (ti_tokenAttr t))
    (PutInt FIELD_TOKEN_VERSION (sint (ti_version t))
    (PutInt FIELD_APL (ti_apl t)
    (PutString FIELD_DEVICE_ID (ti_deviceId t)
    (PutString FIELD_APP_ID (ti_appId t)
    (PutInt FIELD_DLP_TYPE (ti_dlpType t)
    (PutInt FIELD_INST_INDEX (sint (ti_instIndex t))
    (PutString FIELD_BUNDLE_NAME (ti_bundleName t)
    (PutInt FIELD_USER_ID (sint (ti_userId t))
    (PutInt FIELD_TOKEN_ID (sint (ti_tokenId t)) [])))))))))))))))"

definition HapItemBuildAddValue :: "HapTokenInfoItem \<Rightarrow> GenericValues list \<Rightarrow> GenericValues list" where
  "HapItemBuildAddValue t adds = adds @ [hap_item_row t]"

definition HapItemBuildDeleteValues :: "HapTokenInfoItem \<Rightarrow> GenericValues \<Rightarrow> GenericValues" where
  "HapItemBuildDeleteValues t deleteValue = PutInt FIELD_TOKEN_ID (sint (ti_tokenId t)) deleteValue"

definition HapItemBuildUpdateValues ::
    "HapTokenInfoItem \<Rightarrow> GenericValues \<Rightarrow> GenericValues list \<Rightarrow> GenericValues \<times> GenericValues list" where
  "HapItemBuildUpdateValues t deleteValue adds =
     (HapItemBuildDeleteValues t deleteValue, HapItemBuildAddValue t adds)"

definition HapItemBuildFindValues :: "HapTokenInfoItem \<Rightarrow> GenericValues \<Rightarrow> GenericValues" where
  "HapItemBuildFindValues t findValue = PutInt FIELD_TOKEN_ID (sint (ti_tokenId t)) findValue"

definition hap_item_of_row :: "GenericValues \<Rightarrow> HapTokenInfoItem" where
  "hap_item_of_row v =
     \<lparr>ti_tokenId = word_of_int (GetInt v FIELD_TOKEN_ID), ti_userId = word_of_int (GetInt v FIELD_USER_ID),
      ti_bundleName = GetString v FIELD_BUNDLE_NAME, ti_instIndex = word_of_int (GetInt v FIELD_INST_INDEX),
      ti_dlpType = GetInt v FIELD_DLP_TYPE, ti_appId = GetString v FIELD_APP_ID,
      ti_deviceId = GetString v FIELD_DEVICE_ID, ti_apl = GetInt v FIELD_APL,
      ti_version = word_of_int (GetInt v FIELD_TOKEN_VERSION),
      ti_tokenAttr = word_of_int (GetInt v FIELD_TOKEN_ATTR), ti_apiVersion = GetInt v FIELD_API_VERSION,
      ti_permDialogCapState = (GetInt v FIELD_FORBID_PERM_DIALOG \<noteq> 0), ti_uid = GetInt v FIELD_UID,
      ti_migrated = (GetInt v FIELD_MIGRATED \<noteq> 0), ti_reserved = GetInt v FIELD_RESERVED,
      ti_isSideload = (GetInt v FIELD_IS_SIDELOAD \<noteq> 0)\<rparr>"

definition HapItemLoadFromDB :: "GenericValues list \<Rightarrow> HapTokenInfoItem list" where
  "HapItemLoadFromDB values = map hap_item_of_row values"

definition HapItemGenerateAddList :: "GenericValues list \<Rightarrow> AddInfo list \<Rightarrow> AddInfo list" where
  "HapItemGenerateAddList values addInfoVec =
     addInfoVec @ [\<lparr>addType = ACCESSTOKEN_HAP_TOKEN_INFO, addValues = values\<rparr>]"

section \<open>Rows and structures\<close>

lemma hap_item_row_eq:
  "hap_item_row t =
    [(''api_version'', TYPE_INT (ti_apiVersion t)), (''apl'', TYPE_INT (ti_apl t)), (''app_id'', TYPE_STRING (ti_appId t)),
     (''bundle_name'', TYPE_STRING (ti_bundleName t)), (''device_id'', TYPE_STRING (ti_deviceId t)),
     (''dlp_type'', TYPE_INT (ti_dlpType t)), (''inst_index'', TYPE_INT (sint (ti_instIndex t))),
     (''is_sideload'', TYPE_INT (of_bool_int (ti_isSideload t))), (''migrated'', TYPE_INT (of_bool_int (ti_migrated t))),
     (''perm_dialog_cap_state'', TYPE_INT (of_bool_int (ti_permDialogCapState t))), (''reserved'', TYPE_INT (ti_reserved t)),
     (''token_attr'', TYPE_INT (sint (ti_tokenAttr t))), (''token_id'', TYPE_INT (sint (ti_tokenId t))),
     (''token_version'', TYPE_INT (sint (ti_version t))), (''uid'', TYPE_INT (ti_uid t)),
     (''user_id'', TYPE_INT (sint (ti_userId t)))]"
  by (simp add: hap_item_row_def PutInt_def PutString_def omap_emplace_def)

definition item_ok :: "HapTokenInfoItem \<Rightarrow> bool" where
  "item_ok t \<longleftrightarrow> is_int32 (ti_dlpType t) \<and> is_int32 (ti_apl t) \<and> is_int32 (ti_apiVersion t) \<and> is_int32 (ti_uid t) \<and>
     is_int32 (ti_reserved t)"

lemma of_bool_int_simps [simp]: "(of_bool_int b \<noteq> 0) = b" "i32 (of_bool_int b) = of_bool_int b"
  by (cases b; simp add: of_bool_int_def)+

lemma hap_item_reload:
  assumes "item_ok t"
  shows "hap_item_of_row (reload (hap_item_row t)) = t"
proof -
  have ok: "omap_ok (hap_item_row t)" by (simp add: hap_item_row_eq)
  have wt: "\<forall>(c, v) \<in> set (hap_item_row t). well_typed_cell c v"
    using assms
    by (simp add: hap_item_row_eq well_typed_cell_def IsColumnStringType_def g_StringTypeColumns_def item_ok_def i32_in_range)
  note get = reload_gets(1,2) [OF ok wt]
  show ?thesis
    unfolding hap_item_of_row_def get by (simp add: hap_item_row_eq get_defs)
qed

text \<open>The row of a module of a bundle.\<close>

definition bundle_row :: "BundleInfoItems \<Rightarrow> ModuleInfoItem \<Rightarrow> GenericValues" where
  "bundle_row b m =
    [(''bundle_name'', TYPE_STRING (bis_bundleName b)), (''bundle_type'', TYPE_INT (mi_bundleType m)),
     (''is_preinstalled'', TYPE_INT (of_bool_int (bis_isPreInstalled b))), (''module_name'', TYPE_STRING (mi_moduleName m)),
     (''path'', TYPE_STRING (mi_path m)), (''persist_data'', TYPE_BLOB (mi_persistData m))]"

lemma BundleBuildAddValue_eq: "BundleBuildAddValue b adds = adds @ map (bundle_row b) (bis_moduleInfoItems b)"
proof -
  have row: "PutInt FIELD_IS_PREINSTALLED p (PutString FIELD_BUNDLE_NAME n (PutBlob FIELD_PERSIST_DATA (mi_persistData m)
      (PutInt FIELD_BUNDLE_TYPE (mi_bundleType m) (PutString FIELD_PATH (mi_path m)
        (PutString FIELD_MODULE_NAME (mi_moduleName m) []))))) =
    [(''bundle_name'', TYPE_STRING n), (''bundle_type'', TYPE_INT (mi_bundleType m)), (''is_preinstalled'', TYPE_INT p),
     (''module_name'', TYPE_STRING (mi_moduleName m)), (''path'', TYPE_STRING (mi_path m)),
     (''persist_data'', TYPE_BLOB (mi_persistData m))]" for p n m
    by (simp add: PutInt_def PutString_def PutBlob_def omap_emplace_def)
  have "foldl (\<lambda>acc m. foldl (\<lambda>acc v. acc @ [PutInt FIELD_IS_PREINSTALLED (of_bool_int (bis_isPreInstalled b))
          (PutString FIELD_BUNDLE_NAME (bis_bundleName b) v)]) acc (ModuleBuildAddValue m [])) adds ms =
      adds @ map (bundle_row b) ms" for ms
    by (induction ms arbitrary: adds) (simp_all add: ModuleBuildAddValue_def row bundle_row_def)
  then show ?thesis by (simp add: BundleBuildAddValue_def)
qed

definition module_ok :: "ModuleInfoItem \<Rightarrow> bool" where
  "module_ok m \<longleftrightarrow> is_int32 (mi_bundleType m)"

lemma bundle_row_reload:
  assumes "module_ok m"
  shows "GetString (reload (bundle_row b m)) FIELD_BUNDLE_NAME = bis_bundleName b"
    and "GetInt (reload (bundle_row b m)) FIELD_IS_PREINSTALLED = of_bool_int (bis_isPreInstalled b)"
    and "module_of_row (reload (bundle_row b m)) = m"
proof -
  have ok: "omap_ok (bundle_row b m)" by (simp add: bundle_row_def)
  have wt: "\<forall>(c, v) \<in> set (bundle_row b m). well_typed_cell c v"
    using assms
    by (simp add: bundle_row_def well_typed_cell_def IsColumnStringType_def g_StringTypeColumns_def module_ok_def i32_in_range)
  note get = reload_gets(1-3) [OF ok wt]
  show "GetString (reload (bundle_row b m)) FIELD_BUNDLE_NAME = bis_bundleName b"
    "GetInt (reload (bundle_row b m)) FIELD_IS_PREINSTALLED = of_bool_int (bis_isPreInstalled b)"
    unfolding get by (simp_all add: bundle_row_def get_defs)
  show "module_of_row (reload (bundle_row b m)) = m"
    unfolding module_of_row_def get by (simp add: bundle_row_def get_defs)
qed

lemma load_rest_of_bundle:
  assumes "list_all module_ok ms" and "map_of index (bis_bundleName b) = Some (length items)"
  shows "fold load_bundle_row (map (\<lambda>m. reload (bundle_row b m)) ms) (items @ [it], index) =
    (items @ [it\<lparr>bis_moduleInfoItems := bis_moduleInfoItems it @ ms\<rparr>], index)"
  using assms(1)
proof (induction ms arbitrary: it)
  case (Cons m ms)
  have "load_bundle_row (reload (bundle_row b m)) (items @ [it], index) =
      (items @ [it\<lparr>bis_moduleInfoItems := bis_moduleInfoItems it @ [m]\<rparr>], index)"
    using Cons.prems assms(2) by (simp add: load_bundle_row_def bundle_row_reload Let_def)
  then show ?case using Cons by simp
qed simp

lemma load_bundle:
  assumes "list_all module_ok (bis_moduleInfoItems b)" and "bis_moduleInfoItems b \<noteq> []"
    and "omap_ok index" and "map_of index (bis_bundleName b) = None"
  shows "fold load_bundle_row (map (\<lambda>m. reload (bundle_row b m)) (bis_moduleInfoItems b)) (items, index) =
    (items @ [b], omap_insert (bis_bundleName b) (length items) index)"
proof -
  obtain m ms where ms: "bis_moduleInfoItems b = m # ms" using assms(2) by (cases "bis_moduleInfoItems b") auto
  let ?index = "omap_insert (bis_bundleName b) (length items) index"
  let ?it = "\<lparr>bis_bundleName = bis_bundleName b, bis_isPreInstalled = bis_isPreInstalled b, bis_moduleInfoItems = [m]\<rparr>"
  have "load_bundle_row (reload (bundle_row b m)) (items, index) = (items @ [?it], ?index)"
    using assms(1,4) by (simp add: load_bundle_row_def bundle_row_reload Let_def ms omap_emplace_def)
  moreover have "fold load_bundle_row (map (\<lambda>m. reload (bundle_row b m)) ms) (items @ [?it], ?index) =
      (items @ [?it\<lparr>bis_moduleInfoItems := [m] @ ms\<rparr>], ?index)"
    using load_rest_of_bundle [of ms ?index b items ?it] assms(1,3) by (simp add: ms map_of_omap_insert)
  moreover have "?it\<lparr>bis_moduleInfoItems := [m] @ ms\<rparr> = b" using ms by (cases b) simp
  ultimately show ?thesis by (simp add: ms)
qed

lemma BundleLoadFromDB_rows:
  assumes "distinct (map bis_bundleName bs)" and "\<forall>b \<in> set bs. list_all module_ok (bis_moduleInfoItems b) \<and> bis_moduleInfoItems b \<noteq> []"
  shows "BundleLoadFromDB (map reload (concat (map (\<lambda>b. BundleBuildAddValue b []) bs))) = bs"
proof -
  have "fst (fold load_bundle_row (map reload (concat (map (\<lambda>b. BundleBuildAddValue b []) bs))) (items, index)) = items @ bs"
    if "omap_ok index" "\<forall>b \<in> set bs. map_of index (bis_bundleName b) = None" for items index
    using assms that
  proof (induction bs arbitrary: items index)
    case (Cons b bs)
    have one: "fold load_bundle_row (map (\<lambda>m. reload (bundle_row b m)) (bis_moduleInfoItems b)) (items, index) =
        (items @ [b], omap_insert (bis_bundleName b) (length items) index)"
      by (rule load_bundle) (use Cons.prems in auto)
    have "\<forall>b' \<in> set bs. map_of (omap_insert (bis_bundleName b) (length items) index) (bis_bundleName b') = None"
      using Cons.prems by (auto simp: map_of_omap_insert image_iff)
    then show ?case
      using Cons.IH [of "omap_insert (bis_bundleName b) (length items) index" "items @ [b]"] Cons.prems one
      by (simp add: BundleBuildAddValue_eq comp_def omap_ok_insert)
  qed simp
  from this [of "[]" "[]"] show ?thesis by (simp add: BundleLoadFromDB_def)
qed

section \<open>Properties\<close>

text \<open>C33. Tokens and bundles survive storage: the rows built for a list of token items, and for a list of
  bundles with distinct names and at least one module each, stored and read back, load as the same lists.\<close>

theorem table_items_round_trip:
  assumes "list_all item_ok ts" and "distinct (map bis_bundleName bs)"
    and "\<forall>b \<in> set bs. list_all module_ok (bis_moduleInfoItems b) \<and> bis_moduleInfoItems b \<noteq> []"
  shows "HapItemLoadFromDB (map reload (concat (map (\<lambda>t. HapItemBuildAddValue t []) ts))) = ts \<and>
    BundleLoadFromDB (map reload (concat (map (\<lambda>b. BundleBuildAddValue b []) bs))) = bs"
proof
  show "HapItemLoadFromDB (map reload (concat (map (\<lambda>t. HapItemBuildAddValue t []) ts))) = ts"
    using assms(1)
    by (induction ts) (simp_all add: HapItemLoadFromDB_def HapItemBuildAddValue_def hap_item_reload)
qed (rule BundleLoadFromDB_rows [OF assms(2,3)])

theorem table_items_round_trip_witness:
  "let b = \<lparr>bis_bundleName = ''a'', bis_isPreInstalled = True, bis_moduleInfoItems =
        [\<lparr>mi_moduleName = ''m'', mi_path = ''/p'', mi_bundleType = 1, mi_persistData = [7]\<rparr>]\<rparr>
   in BundleLoadFromDB (map reload (BundleBuildAddValue b [])) = [b]"
  using table_items_round_trip [of "[]" "[\<lparr>bis_bundleName = ''a'', bis_isPreInstalled = True, bis_moduleInfoItems =
        [\<lparr>mi_moduleName = ''m'', mi_path = ''/p'', mi_bundleType = 1, mi_persistData = [7]\<rparr>]\<rparr>]"]
  by (simp add: module_ok_def is_int32_def)

end
