(* ===== verification/Hap_Token_Info.thy ===== *)
theory Hap_Token_Info
  imports Hap_Policy Table_Items Text_Codec
begin

text \<open>
  \<open>HapTokenInfoInner\<close> (\<^verbatim>\<open>hap_token_info_inner.cpp\<close>, built with \<open>SUPPORT_SANDBOX_APP\<close> and
  \<open>SPM_DATA_ENABLE\<close>): the attributes of one application token. Its permissions live in the permission
  store, so a constructor, an update or the destructor also changes that store, and a status change is
  written to the database. The state is the object, the store (\<open>PermissionDataBrief\<close>) and the database;
  \<open>now\<close> is the clock. The lock of an object is held for a whole operation. \<open>ToString\<close> is not modelled.
\<close>

section \<open>Types\<close>

record HapTokenInfo =
  ht_ver :: int
  ht_userID :: int
  ht_bundleName :: string
  ht_apiVersion :: int
  ht_instIndex :: int
  ht_dlpType :: int
  ht_tokenID :: token_id
  ht_tokenAttr :: u32
  ht_uid :: int

record HapInfoParams =
  ip_userID :: int
  ip_bundleName :: string
  ip_instIndex :: int
  ip_dlpType :: int
  ip_appIDDesc :: string
  ip_apiVersion :: int
  ip_isSystemApp :: bool
  ip_appDistributionType :: string
  ip_isRestore :: bool
  ip_tokenID :: token_id
  ip_isAtomicService :: bool
  ip_appProvisionType :: string
  ip_isSkillHap :: bool
  ip_isSideloadApp :: bool

record UpdateHapInfoParams =
  uh_appIDDesc :: string
  uh_apiVersion :: int
  uh_isSystemApp :: bool
  uh_appDistributionType :: string
  uh_isAtomicService :: bool
  uh_dataRefresh :: bool
  uh_appProvisionType :: string
  uh_isSkillHap :: bool
  uh_isSideloadApp :: bool

record HapTokenInfoInner =
  hi_basic :: HapTokenInfo
  hi_isRemote :: bool
  hi_isPermDialogForbidden :: bool
  hi_isMigrated :: bool
  hi_isSideloadApp :: bool
  hi_permUpdateTimestamp :: u64

abbreviation DEFAULT_HAP_VERSION :: int where "DEFAULT_HAP_VERSION \<equiv> 1"
abbreviation INVALID_UID :: int where "INVALID_UID \<equiv> - 1"
abbreviation SYSTEM_APP_FLAG :: u32 where "SYSTEM_APP_FLAG \<equiv> 1"
abbreviation ATOMIC_SERVICE_FLAG :: u32 where "ATOMIC_SERVICE_FLAG \<equiv> 2"
abbreviation TOKEN_RESERVED_FLAG :: u32 where "TOKEN_RESERVED_FLAG \<equiv> 4"
abbreviation DEBUG_APP_FLAG :: u32 where "DEBUG_APP_FLAG \<equiv> 8"

section \<open>Construction\<close>

text \<open>\<open>DEFAULT_HAP_VERSION\<close> is \<open>DEFAULT_TOKEN_VERSION\<close> as a \<open>char\<close>. \<open>std::atoi\<close> of three digits has no overflow, so \<open>atoll\<close> gives its value.\<close>

definition GetApiVersion :: "int \<Rightarrow> int" where
  "GetApiVersion apiVersion =
     (let apiStr = to_string apiVersion in
      if length apiStr \<le> 3 then apiVersion else atoll (drop (length apiStr - 3) apiStr))"

definition set_attr :: "bool \<Rightarrow> u32 \<Rightarrow> u32 \<Rightarrow> u32" where
  "set_attr b flag attr = (if b then attr OR flag else attr AND NOT flag)"

definition set_provision_attr :: "string \<Rightarrow> u32 \<Rightarrow> u32" where
  "set_provision_attr appProvisionType attr =
     (if appProvisionType = ''release'' then attr AND NOT DEBUG_APP_FLAG
      else if appProvisionType = ''debug'' then attr OR DEBUG_APP_FLAG else attr)"

definition HapTokenInfoInner_new :: HapTokenInfoInner where
  "HapTokenInfoInner_new =
     \<lparr>hi_basic = \<lparr>ht_ver = DEFAULT_HAP_VERSION, ht_userID = 0, ht_bundleName = [], ht_apiVersion = 0,
                    ht_instIndex = 0, ht_dlpType = 0, ht_tokenID = 0, ht_tokenAttr = 0, ht_uid = INVALID_UID\<rparr>,
      hi_isRemote = False, hi_isPermDialogForbidden = False, hi_isMigrated = False, hi_isSideloadApp = False,
      hi_permUpdateTimestamp = 0\<rparr>"

definition HapTokenInfoInner_params ::
    "perm_table \<Rightarrow> token_id \<Rightarrow> HapInfoParams \<Rightarrow> HapPolicy \<Rightarrow> PermissionDataBrief \<Rightarrow>
      HapTokenInfoInner \<times> PermissionDataBrief" where
  "HapTokenInfoInner_params tbl i info policy st =
     (let attr0 = (if ip_isSystemApp info then SYSTEM_APP_FLAG else 0);
          attr1 = (if ip_isAtomicService info then attr0 OR ATOMIC_SERVICE_FLAG else attr0);
          attr2 = set_provision_attr (ip_appProvisionType info) attr1 in
      (\<lparr>hi_basic = \<lparr>ht_ver = DEFAULT_HAP_VERSION, ht_userID = ip_userID info, ht_bundleName = ip_bundleName info,
                     ht_apiVersion = GetApiVersion (ip_apiVersion info), ht_instIndex = ip_instIndex info,
                     ht_dlpType = ip_dlpType info, ht_tokenID = i, ht_tokenAttr = attr2, ht_uid = INVALID_UID\<rparr>,
        hi_isRemote = False, hi_isPermDialogForbidden = False, hi_isMigrated = False,
        hi_isSideloadApp = ip_isSideloadApp info, hi_permUpdateTimestamp = 0\<rparr>,
       AddPermToBriefPermission tbl i (hp_permStateList policy) (hp_aclExtendedMap policy) True st))"

definition HapTokenInfoInner_info ::
    "perm_table \<Rightarrow> token_id \<Rightarrow> HapTokenInfo \<Rightarrow> PermissionStatus list \<Rightarrow> PermissionDataBrief \<Rightarrow>
      HapTokenInfoInner \<times> PermissionDataBrief" where
  "HapTokenInfoInner_info tbl i info permStateList st =
     (\<lparr>hi_basic = info, hi_isRemote = False, hi_isPermDialogForbidden = False, hi_isMigrated = False,
       hi_isSideloadApp = False, hi_permUpdateTimestamp = 0\<rparr>,
      AddPermToBriefPermission tbl i permStateList [] True st)"

definition HapTokenInfoInner_item :: "HapTokenInfoItem \<Rightarrow> HapTokenInfoInner" where
  "HapTokenInfoInner_item item =
     \<lparr>hi_basic = \<lparr>ht_ver = DEFAULT_HAP_VERSION, ht_userID = sint (ti_userId item),
                    ht_bundleName = ti_bundleName item, ht_apiVersion = ti_apiVersion item,
                    ht_instIndex = sint (ti_instIndex item), ht_dlpType = ti_dlpType item,
                    ht_tokenID = ti_tokenId item, ht_tokenAttr = ti_tokenAttr item, ht_uid = ti_uid item\<rparr>,
      hi_isRemote = False, hi_isPermDialogForbidden = ti_permDialogCapState item,
      hi_isMigrated = ti_migrated item, hi_isSideloadApp = ti_isSideload item, hi_permUpdateTimestamp = 0\<rparr>"

definition HapTokenInfoInner_sync ::
    "perm_table \<Rightarrow> token_id \<Rightarrow> HapTokenInfo \<Rightarrow> PermissionStatus list \<Rightarrow> PermissionDataBrief \<Rightarrow>
      HapTokenInfoInner \<times> PermissionDataBrief" where
  "HapTokenInfoInner_sync tbl i baseInfo permStateList st =
     (\<lparr>hi_basic = baseInfo, hi_isRemote = True, hi_isPermDialogForbidden = False, hi_isMigrated = False,
       hi_isSideloadApp = False, hi_permUpdateTimestamp = 0\<rparr>,
      AddPermToBriefPermission tbl i permStateList [] False st)"

definition HapTokenInfoInner_destroy :: "HapTokenInfoInner \<Rightarrow> PermissionDataBrief \<Rightarrow> PermissionDataBrief" where
  "HapTokenInfoInner_destroy info st = snd (DeleteBriefPermDataByTokenId (ht_tokenID (hi_basic info)) st)"

section \<open>Attributes\<close>

text \<open>The getters are the selectors of the record.\<close>

definition SetUid :: "int \<Rightarrow> HapTokenInfoInner \<Rightarrow> HapTokenInfoInner" where
  "SetUid uid h = h\<lparr>hi_basic := (hi_basic h)\<lparr>ht_uid := uid\<rparr>\<rparr>"

definition SetTokenBaseInfo :: "HapTokenInfo \<Rightarrow> HapTokenInfoInner \<Rightarrow> HapTokenInfoInner" where
  "SetTokenBaseInfo baseInfo h = h\<lparr>hi_basic := baseInfo\<rparr>"

definition SetRemote :: "bool \<Rightarrow> HapTokenInfoInner \<Rightarrow> HapTokenInfoInner" where
  "SetRemote isRemote h = h\<lparr>hi_isRemote := isRemote\<rparr>"

definition SetPermDialogForbidden :: "bool \<Rightarrow> HapTokenInfoInner \<Rightarrow> HapTokenInfoInner" where
  "SetPermDialogForbidden isForbidden h = h\<lparr>hi_isPermDialogForbidden := isForbidden\<rparr>"

definition SetMigrated :: "bool \<Rightarrow> HapTokenInfoInner \<Rightarrow> HapTokenInfoInner" where
  "SetMigrated isMigrated h = h\<lparr>hi_isMigrated := isMigrated\<rparr>"

section \<open>Update\<close>

definition HapUpdate ::
    "perm_table \<Rightarrow> UpdateHapInfoParams \<Rightarrow> PermissionStatus list \<Rightarrow> HapPolicy \<Rightarrow>
      HapTokenInfoInner \<times> PermissionDataBrief \<Rightarrow> HapTokenInfoInner \<times> PermissionDataBrief" where
  "HapUpdate tbl info permStateList hapPolicy hs =
     (let (h, st) = hs; basic = hi_basic h;
          attr1 = set_attr (uh_isSystemApp info) SYSTEM_APP_FLAG (ht_tokenAttr basic);
          attr2 = set_attr (uh_isAtomicService info) ATOMIC_SERVICE_FLAG attr1;
          isDebugProvision = (uh_appProvisionType info = ''debug'');
          needUpdatePermByProvision =
            (isDebugProvision \<and> hp_isDebugGrant hapPolicy \<or>
             \<not> isDebugProvision \<and> attr2 AND DEBUG_APP_FLAG \<noteq> 0);
          st' = Update tbl (ht_tokenID basic) permStateList (hp_aclExtendedMap hapPolicy) needUpdatePermByProvision st in
      (h\<lparr>hi_basic := basic\<lparr>ht_apiVersion := GetApiVersion (uh_apiVersion info),
                           ht_tokenAttr := set_provision_attr (uh_appProvisionType info) attr2\<rparr>,
         hi_isSideloadApp := uh_isSideloadApp info\<rparr>, st'))"

definition UpdateRemoteHapTokenInfo ::
    "perm_table \<Rightarrow> HapTokenInfo \<Rightarrow> PermissionStatus list \<Rightarrow>
      HapTokenInfoInner \<times> PermissionDataBrief \<Rightarrow> HapTokenInfoInner \<times> PermissionDataBrief" where
  "UpdateRemoteHapTokenInfo tbl baseInfo permStateList hs =
     ((fst hs)\<lparr>hi_basic := baseInfo\<rparr>,
      AddPermToBriefPermission tbl (ht_tokenID baseInfo) permStateList [] False (snd hs))"

section \<open>Rows\<close>

definition HapTranslationIntoGenericValues :: "HapTokenInfoInner \<Rightarrow> GenericValues \<Rightarrow> GenericValues" where
  "HapTranslationIntoGenericValues h outGenericValues =
     (let b = hi_basic h in
       PutInt FIELD_MIGRATED (if hi_isMigrated h then 1 else 0)
      (PutInt FIELD_RESERVED (of_bool_int (ht_tokenAttr b AND TOKEN_RESERVED_FLAG \<noteq> 0))
      (PutInt FIELD_UID (ht_uid b)
      (PutInt FIELD_IS_SIDELOAD (if hi_isSideloadApp h then 1 else 0)
      (PutInt FIELD_FORBID_PERM_DIALOG (of_bool_int (hi_isPermDialogForbidden h))
      (PutInt FIELD_TOKEN_ATTR (sint (ht_tokenAttr b))
      (PutInt FIELD_TOKEN_VERSION (ht_ver b)
      (PutInt FIELD_DLP_TYPE (ht_dlpType b)
      (PutInt FIELD_INST_INDEX (ht_instIndex b)
      (PutInt FIELD_API_VERSION (ht_apiVersion b)
      (PutString FIELD_BUNDLE_NAME (ht_bundleName b)
      (PutInt FIELD_USER_ID (ht_userID b)
      (PutInt FIELD_TOKEN_ID (sint (ht_tokenID b)) outGenericValues)))))))))))))"

text \<open>The casts: \<open>(char)\<close> keeps the low eight bits, \<open>(uint32_t)\<close> the value modulo \<open>2^32\<close>.\<close>

definition RestoreHapTokenBasicInfo :: "GenericValues \<Rightarrow> HapTokenInfoInner \<Rightarrow> ret \<times> HapTokenInfoInner" where
  "RestoreHapTokenBasicInfo v h =
     (let b1 = (hi_basic h)\<lparr>ht_userID := GetInt v FIELD_USER_ID, ht_bundleName := GetString v FIELD_BUNDLE_NAME\<rparr> in
      if \<not> IsBundleNameValid (ht_bundleName b1) then (ERR_PARAM_INVALID, h\<lparr>hi_basic := b1\<rparr>)
      else
        (let b2 = b1\<lparr>ht_apiVersion := GetApiVersion (GetInt v FIELD_API_VERSION),
                     ht_instIndex := GetInt v FIELD_INST_INDEX, ht_dlpType := GetInt v FIELD_DLP_TYPE,
                     ht_ver := sint (word_of_int (GetInt v FIELD_TOKEN_VERSION) :: u8)\<rparr> in
         if ht_ver b2 \<noteq> DEFAULT_HAP_VERSION then (ERR_PARAM_INVALID, h\<lparr>hi_basic := b2\<rparr>)
         else
           (RET_SUCCESS,
            h\<lparr>hi_basic := b2\<lparr>ht_tokenAttr := word_of_int (GetInt v FIELD_TOKEN_ATTR), ht_uid := GetInt v FIELD_UID\<rparr>,
              hi_isPermDialogForbidden := (GetInt v FIELD_FORBID_PERM_DIALOG \<noteq> 0),
              hi_isSideloadApp := (GetInt v FIELD_IS_SIDELOAD \<noteq> 0),
              hi_isMigrated := (GetInt v FIELD_MIGRATED \<noteq> 0)\<rparr>)))"

definition RestoreHapTokenInfo ::
    "perm_table \<Rightarrow> token_id \<Rightarrow> GenericValues \<Rightarrow> (token_id \<Rightarrow> GenericValues list option) \<Rightarrow>
      (token_id \<Rightarrow> GenericValues list option) \<Rightarrow> HapTokenInfoInner \<times> PermissionDataBrief \<Rightarrow>
      ret \<times> HapTokenInfoInner \<times> PermissionDataBrief" where
  "RestoreHapTokenInfo tbl tokenId tokenValue permStateRes extendedPermRes hs =
     (let (h, st) = hs;
          (ret, h') = RestoreHapTokenBasicInfo tokenValue (h\<lparr>hi_basic := (hi_basic h)\<lparr>ht_tokenID := tokenId\<rparr>\<rparr>) in
      if ret \<noteq> RET_SUCCESS then (ret, h', st)
      else (RET_SUCCESS, h', RestorePermissionBriefData tbl tokenId permStateRes extendedPermRes st))"

definition GenerateHapInfoValues ::
    "HapTokenInfoInner \<Rightarrow> string \<Rightarrow> ATokenAplEnum \<Rightarrow> GenericValues list \<Rightarrow> GenericValues list" where
  "GenerateHapInfoValues h appId apl valueList =
     (if hi_isRemote h then valueList
      else valueList @ [PutString FIELD_DEVICE_ID ''0''
                         (PutInt FIELD_APL (apl_value apl)
                           (PutString FIELD_APP_ID appId (HapTranslationIntoGenericValues h [])))])"

definition GeneratePermStateValues ::
    "perm_table \<Rightarrow> int \<Rightarrow> HapTokenInfoInner \<Rightarrow> PermissionDataBrief \<Rightarrow> GenericValues list \<Rightarrow>
      GenericValues list \<Rightarrow> GenericValues list" where
  "GeneratePermStateValues tbl now h st oldPermStateValues permStateValues =
     (if hi_isRemote h then permStateValues
      else snd (BuildPermissionStateValues tbl now st (ht_tokenID (hi_basic h)) oldPermStateValues permStateValues))"

definition GetReqPermissionSize :: "HapTokenInfoInner \<Rightarrow> PermissionDataBrief \<Rightarrow> u32" where
  "GetReqPermissionSize h st =
     (let (ret, l) = GetBriefPermDataByTokenId st (ht_tokenID (hi_basic h)) [] in
      if ret \<noteq> RET_SUCCESS then 0 else of_nat (length l))"

section \<open>Permission states\<close>

definition IsShortGrantPermission :: "string \<Rightarrow> bool" where
  "IsShortGrantPermission permissionName \<longleftrightarrow>
     permissionName \<in> set [''ohos.permission.SHORT_TERM_WRITE_IMAGEVIDEO'']"

text \<open>The results are the return code, the out parameter \<open>statusChanged\<close> (its initial value when the
  call fails first), the object, the store and the database. The result of \<open>Modify\<close> is ignored.\<close>

definition HapUpdatePermissionStatus ::
    "('s, 't, 'r) rdb_ops \<Rightarrow> perm_table \<Rightarrow> int \<Rightarrow> string \<Rightarrow> bool \<Rightarrow> u32 \<Rightarrow> bool \<Rightarrow>
      HapTokenInfoInner \<times> PermissionDataBrief \<times> 's AccessTokenDb \<Rightarrow>
      ret \<times> bool \<times> HapTokenInfoInner \<times> PermissionDataBrief \<times> 's AccessTokenDb" where
  "HapUpdatePermissionStatus ops tbl now permissionName isGranted flag statusChanged0 hsd =
     (let (h, st, d) = hsd; t = ht_tokenID (hi_basic h);
          (ret, ch, st') = UpdatePermissionStatus tbl t permissionName isGranted flag st;
          changeType = (case ch of None \<Rightarrow> NO_CHANGE | Some c \<Rightarrow> c);
          statusChanged = (changeType = STATUS_ONLY \<or> changeType = STATUS_AND_FLAG) in
      if ret \<noteq> RET_SUCCESS then (ret, statusChanged0, h, st', d)
      else if IsShortGrantPermission permissionName then (RET_SUCCESS, statusChanged, h, st', d)
      else if hi_isRemote h then (RET_SUCCESS, statusChanged, h, st', d)
      else if changeType = NO_CHANGE then (RET_SUCCESS, statusChanged, h, st', d)
      else
        (let (ret, permStateValues) = BuildPermissionStateValues tbl now st' t [] [] in
         if ret \<noteq> RET_SUCCESS then (ret, statusChanged, h, st', d)
         else
           (let rows = filter (\<lambda>v. GetString v FIELD_PERMISSION_NAME = permissionName) permStateValues;
                conditions = PutString FIELD_PERMISSION_NAME permissionName (PutInt FIELD_TOKEN_ID (sint t) []);
                d' = foldl (\<lambda>d v. snd (Modify ops ACCESSTOKEN_PERMISSION_STATE v conditions d)) d rows in
            (RET_SUCCESS, statusChanged,
             if rows = [] then h else h\<lparr>hi_permUpdateTimestamp := word_of_int now\<rparr>, st', d'))))"

definition GetPermissionStateListInner ::
    "perm_table \<Rightarrow> HapTokenInfoInner \<Rightarrow> PermissionDataBrief \<Rightarrow> PermissionStatus list \<Rightarrow>
      ret \<times> PermissionStatus list" where
  "GetPermissionStateListInner tbl h st permList =
     (let (ret, l) = GetBriefPermDataByTokenId st (ht_tokenID (hi_basic h)) [] in
      if ret \<noteq> RET_SUCCESS then (ret, permList)
      else (RET_SUCCESS,
            permList @ map (\<lambda>p. \<lparr>ps_tokenID = 0, ps_permissionName = TransferOpcodeToPermission tbl (ucast (bp_permCode p)),
                                 ps_feature = [], ps_grantStatus = bp_status p, ps_grantFlag = bp_flag p,
                                 ps_timestamp = 0\<rparr>) l))"

definition GetPermissionStateList ::
    "perm_table \<Rightarrow> HapTokenInfoInner \<Rightarrow> PermissionDataBrief \<Rightarrow> PermissionStatus list \<Rightarrow>
      ret \<times> PermissionStatus list" where
  "GetPermissionStateList tbl h st permList = GetPermissionStateListInner tbl h st permList"

fun UpdateStatesToDB ::
    "('s, 't, 'r) rdb_ops \<Rightarrow> token_id \<Rightarrow> PermissionStatus list \<Rightarrow> 's AccessTokenDb \<Rightarrow> bool \<times> 's AccessTokenDb" where
  "UpdateStatesToDB ops tokenID [] d = (True, d)"
| "UpdateStatesToDB ops tokenID (state # states) d =
     (let modifyValue = PutInt64 FIELD_TIMESTAMP (sint (ps_timestamp state))
            (PutInt FIELD_GRANT_FLAG (sint (ps_grantFlag state)) (PutInt FIELD_GRANT_STATE (ps_grantStatus state) []));
          conditionValue = PutString FIELD_PERMISSION_NAME (ps_permissionName state)
            (PutInt FIELD_TOKEN_ID (sint tokenID) []);
          (res, d') = Modify ops ACCESSTOKEN_PERMISSION_STATE modifyValue conditionValue d in
      if res \<noteq> 0 then (False, d') else UpdateStatesToDB ops tokenID states d')"

definition HapResetUserGrantPermissionStatus ::
    "('s, 't, 'r) rdb_ops \<Rightarrow> perm_table \<Rightarrow> (string, int) omap \<Rightarrow> int \<Rightarrow>
      HapTokenInfoInner \<times> PermissionDataBrief \<times> 's AccessTokenDb \<Rightarrow>
      ret \<times> PermissionDataBrief \<times> 's AccessTokenDb" where
  "HapResetUserGrantPermissionStatus ops tbl dlpModes now hsd =
     (let (h, st, d) = hsd; t = ht_tokenID (hi_basic h);
          (ret, st1) = ResetUserGrantPermissionStatus t st in
      if ret \<noteq> RET_SUCCESS then (ret, st1, d)
      else
        (let (ret, permListOfHap) = GetPermissionStateListInner tbl h st1 [] in
         if ret \<noteq> RET_SUCCESS then (ret, st1, d)
         else
           (let perms = UpdatePermStateWithDlpInfo dlpModes (ht_dlpType (hi_basic h)) permListOfHap;
                aclExtendedMap = foldl (\<lambda>m e. omap_insert (fst e) (snd e) m) [] (GetExtendedValueList tbl st1 t []);
                st2 = Update tbl t perms aclExtendedMap False st1;
                stamped = map (\<lambda>p. p\<lparr>ps_timestamp := word_of_int now\<rparr>) perms;
                (ok, d') = UpdateStatesToDB ops t stamped d in
            if \<not> ok then (ERR_DATABASE_OPERATE_FAILED, st2, d') else (RET_SUCCESS, st2, d'))))"

definition HapGetPermissionUsedType ::
    "perm_table \<Rightarrow> PermissionDataBrief \<Rightarrow> token_id \<Rightarrow> string \<Rightarrow> PermUsedTypeEnum" where
  "HapGetPermissionUsedType tbl st tokenID permissionName =
     (case TransferPermissionToOpcode tbl permissionName of
        None \<Rightarrow> INVALID_USED_TYPE
      | Some code \<Rightarrow> GetPermissionUsedType st tokenID (sint code))"

text \<open>The calls \<open>SetPermissionToKernel(token, code, false)\<close> are the first result.\<close>

definition HapClearAllSecCompGrantedPerm ::
    "PermissionDataBrief \<Rightarrow> (token_id \<times> u32 \<times> bool) list \<times> PermissionDataBrief" where
  "HapClearAllSecCompGrantedPerm st =
     (let (cleared, st') = ClearAllSecCompGrantedPerm st in
      (map (\<lambda>s. (sc_tokenId s, ucast (sc_permCode s), False)) cleared, st'))"

end
