(* ===== verification/Hap_Token_Laws.thy ===== *)
theory Hap_Token_Laws
  imports Hap_Token_Info Permission_Brief_Laws
begin

text \<open>
  Laws of the application token (\<^verbatim>\<open>hap_token_info_inner.cpp\<close>): its row restores the token, all its rows
  are well typed, and a permission change that the store accepts is what the database holds afterwards.
\<close>

section \<open>The API version\<close>

lemma nat_digits_step: "10 \<le> n \<Longrightarrow> nat_digits n = nat_digits (n div 10) @ [digit_char (n mod 10)]"
  by (subst nat_digits.simps) simp

lemma nat_digits_three:
  assumes "1000 \<le> n"
  shows "nat_digits n = nat_digits (n div 1000) @ [digit_char (n div 100 mod 10), digit_char (n div 10 mod 10), digit_char (n mod 10)]"
proof -
  have "10 \<le> n" "10 \<le> n div 10" "10 \<le> n div 10 div 10" using assms by auto
  then show ?thesis
    using nat_digits_step [of n] nat_digits_step [of "n div 10"] nat_digits_step [of "n div 10 div 10"]
    by (simp add: div_mult2_eq [symmetric])
qed

lemma nat_digits_short: "n < 1000 \<Longrightarrow> length (nat_digits n) \<le> 3"
  by (subst nat_digits.simps, subst nat_digits.simps, subst nat_digits.simps) auto

lemma atoll_digits:
  assumes "list_all is_digit s" and "s \<noteq> []"
  shows "atoll s = decimal_prefix s 0"
proof -
  have "c \<noteq> CHR 0x00 \<and> \<not> is_space c \<and> c \<noteq> CHR ''-'' \<and> c \<noteq> CHR ''+''" if "is_digit c" for c
  proof -
    have "(of_char c :: nat) \<ge> 48" using that by (simp add: is_digit_def)
    then show ?thesis by (auto simp: is_space_def)
  qed
  then have "CHR 0x00 \<notin> set s" "\<not> is_space (hd s)" "hd s \<noteq> CHR ''-''" "hd s \<noteq> CHR ''+''"
    using assms by (auto simp: list_all_iff)
  then show ?thesis using assms(2) by (cases s) (simp_all add: atoll_def)
qed

lemma GetApiVersion_mod:
  assumes "0 \<le> v"
  shows "GetApiVersion v = v mod 1000"
proof (cases "v < 1000")
  case True
  then have "length (to_string v) \<le> 3" using assms nat_digits_short [of "nat v"] by (simp add: to_string_def)
  then show ?thesis using assms True by (simp add: GetApiVersion_def)
next
  case False
  let ?n = "nat v"
  let ?ds = "[digit_char (?n div 100 mod 10), digit_char (?n div 10 mod 10), digit_char (?n mod 10)]"
  have eq: "to_string v = nat_digits (?n div 1000) @ ?ds"
    using assms False nat_digits_three [of ?n] by (simp add: to_string_def)
  have "nat_digits (?n div 1000) \<noteq> []" using nat_digits_props [of "?n div 1000"] by simp
  then have len: "\<not> length (to_string v) \<le> 3" by (simp add: eq)
  have dig: "list_all is_digit ?ds" using digit_char_props(1) by simp
  have "atoll ?ds = int (?n mod 1000)"
  proof -
    have "?n mod 1000 = 100 * (?n div 100 mod 10) + 10 * (?n div 10 mod 10) + ?n mod 10"
      using mod_mult2_eq [of ?n 10 100] mod_mult2_eq [of "?n div 10" 10 10] by (simp add: div_mult2_eq [symmetric])
    then show ?thesis using atoll_digits [OF dig] by (simp add: digit_char_props(1,2))
  qed
  then show ?thesis using len assms by (simp add: GetApiVersion_def eq Let_def zmod_int)
qed

section \<open>Storage of the attributes\<close>

definition hap_ok :: "HapTokenInfoInner \<Rightarrow> bool" where
  "hap_ok h \<longleftrightarrow> IsBundleNameValid (ht_bundleName (hi_basic h)) \<and> ht_ver (hi_basic h) = DEFAULT_HAP_VERSION \<and>
     0 \<le> ht_apiVersion (hi_basic h) \<and> ht_apiVersion (hi_basic h) < 1000 \<and> is_int32 (ht_userID (hi_basic h)) \<and>
     is_int32 (ht_instIndex (hi_basic h)) \<and> is_int32 (ht_dlpType (hi_basic h)) \<and> is_int32 (ht_uid (hi_basic h)) \<and>
     \<not> hi_isRemote h"

definition hap_row :: "HapTokenInfoInner \<Rightarrow> string \<Rightarrow> ATokenAplEnum \<Rightarrow> GenericValues" where
  "hap_row h appId apl =
    [(''api_version'', TYPE_INT (ht_apiVersion (hi_basic h))), (''apl'', TYPE_INT (apl_value apl)),
     (''app_id'', TYPE_STRING appId), (''bundle_name'', TYPE_STRING (ht_bundleName (hi_basic h))),
     (''device_id'', TYPE_STRING ''0''), (''dlp_type'', TYPE_INT (ht_dlpType (hi_basic h))),
     (''inst_index'', TYPE_INT (ht_instIndex (hi_basic h))), (''is_sideload'', TYPE_INT (of_bool_int (hi_isSideloadApp h))),
     (''migrated'', TYPE_INT (of_bool_int (hi_isMigrated h))),
     (''perm_dialog_cap_state'', TYPE_INT (of_bool_int (hi_isPermDialogForbidden h))),
     (''reserved'', TYPE_INT (of_bool_int (ht_tokenAttr (hi_basic h) AND TOKEN_RESERVED_FLAG \<noteq> 0))),
     (''token_attr'', TYPE_INT (sint (ht_tokenAttr (hi_basic h)))), (''token_id'', TYPE_INT (sint (ht_tokenID (hi_basic h)))),
     (''token_version'', TYPE_INT (ht_ver (hi_basic h))), (''uid'', TYPE_INT (ht_uid (hi_basic h))),
     (''user_id'', TYPE_INT (ht_userID (hi_basic h)))]"

lemma GenerateHapInfoValues_row:
  "\<not> hi_isRemote h \<Longrightarrow> GenerateHapInfoValues h appId apl vs = vs @ [hap_row h appId apl]"
  by (simp add: GenerateHapInfoValues_def HapTranslationIntoGenericValues_def hap_row_def of_bool_int_def
      PutInt_def PutString_def omap_emplace_def Let_def)

lemma hap_row_typed:
  assumes "hap_ok h"
  shows "omap_ok (hap_row h appId apl)" and "\<forall>(c, v) \<in> set (hap_row h appId apl). well_typed_cell c v"
proof -
  have "i32 (apl_value apl) = apl_value apl" by (cases apl) simp_all
  then show "\<forall>(c, v) \<in> set (hap_row h appId apl). well_typed_cell c v"
    using assms
    by (simp add: hap_row_def well_typed_cell_def IsColumnStringType_def g_StringTypeColumns_def hap_ok_def i32_in_range)
qed (simp add: hap_row_def)

lemma Restore_hap_row:
  assumes ok: "hap_ok h"
  shows "RestoreHapTokenBasicInfo (reload (hap_row h appId apl))
      (h0\<lparr>hi_basic := (hi_basic h0)\<lparr>ht_tokenID := ht_tokenID (hi_basic h)\<rparr>\<rparr>) =
    (RET_SUCCESS, h\<lparr>hi_isRemote := hi_isRemote h0, hi_permUpdateTimestamp := hi_permUpdateTimestamp h0\<rparr>)"
proof -
  let ?v = "reload (hap_row h appId apl)"
  note get = reload_gets(1,2) [OF hap_row_typed [OF ok]]
  have api: "GetApiVersion (ht_apiVersion (hi_basic h)) = ht_apiVersion (hi_basic h)"
    using ok GetApiVersion_mod [of "ht_apiVersion (hi_basic h)"] by (simp add: hap_ok_def)
  have vals: "GetInt ?v FIELD_USER_ID = ht_userID (hi_basic h)" "GetString ?v FIELD_BUNDLE_NAME = ht_bundleName (hi_basic h)"
    "GetInt ?v FIELD_API_VERSION = ht_apiVersion (hi_basic h)" "GetInt ?v FIELD_INST_INDEX = ht_instIndex (hi_basic h)"
    "GetInt ?v FIELD_DLP_TYPE = ht_dlpType (hi_basic h)" "GetInt ?v FIELD_TOKEN_VERSION = ht_ver (hi_basic h)"
    "GetInt ?v FIELD_TOKEN_ATTR = sint (ht_tokenAttr (hi_basic h))" "GetInt ?v FIELD_UID = ht_uid (hi_basic h)"
    "GetInt ?v FIELD_FORBID_PERM_DIALOG = of_bool_int (hi_isPermDialogForbidden h)"
    "GetInt ?v FIELD_IS_SIDELOAD = of_bool_int (hi_isSideloadApp h)"
    "GetInt ?v FIELD_MIGRATED = of_bool_int (hi_isMigrated h)"
    unfolding get by (simp_all add: hap_row_def get_defs)
  show ?thesis
    using ok by (simp add: RestoreHapTokenBasicInfo_def vals hap_ok_def api Let_def)
qed

section \<open>A status change in the database\<close>

lemma update_first_same: "update_first P (\<lambda>x. x) xs = xs"
  by (induction xs) auto

lemma filter_map_where:
  "\<forall>x \<in> set xs. P x \<longrightarrow> P (f x) \<Longrightarrow> filter P (map (\<lambda>x. if P x then f x else x) xs) = map f (filter P xs)"
  by (induction xs) auto

text \<open>A successful update rewrites the first entry of the permission, keeps its code and leaves a valid
  status; when it reports no change, an entry that is not restricted by an administrator is as before.\<close>

lemma UpdatePermissionStatus_list:
  assumes "perm_table_ok tbl" and "omap_ok (requestedPermData st)"
    and c: "TransferPermissionToOpcode tbl name = Some c"
    and u: "UpdatePermissionStatus tbl t name g f st = (RET_SUCCESS, ct, st')"
    and ds: "map_of (requestedPermData st) t = Some ds"
  obtains F where "\<And>d. bp_permCode (F d) = bp_permCode d"
    and "\<And>d. bp_status (F d) \<in> {bp_status d, PERMISSION_GRANTED, PERMISSION_DENIED}"
    and "\<And>d. \<not> bit (bp_flag d) 9 \<Longrightarrow> bp_flag (F d) = bp_flag d \<Longrightarrow>
          GetEffectivePermissionStatus (F d) = GetEffectivePermissionStatus d \<Longrightarrow> F d = d"
    and "map_of (requestedPermData st') t = Some (update_first (code_is c) F ds)"
proof (cases "bit f 4")
  case False
  let ?s = "\<lambda>d. if bit f 8 then bp_status d else if g then PERMISSION_GRANTED else PERMISSION_DENIED"
  have l: "UpdatePermStateList t c g f st = (RET_SUCCESS, st')"
    using UpdatePermissionStatus_cases [OF u c] False by simp
  obtain d where d: "find (code_is c) ds = Some d"
    using l by (auto simp: UpdatePermStateList_def ds split: option.splits)
  have "st' = set_token_list t (update_first (code_is c)
      (\<lambda>e. e\<lparr>bp_status := ?s d, bp_flag := UpdateWithNewFlag (bp_flag e) f\<rparr>) ds) st"
    using l by (simp add: UpdatePermStateList_def ds d Let_def flag_simps split: if_split_asm)
  then have e: "map_of (requestedPermData st') t = Some (update_first (code_is c)
      (\<lambda>e. e\<lparr>bp_status := ?s d, bp_flag := UpdateWithNewFlag (bp_flag e) f\<rparr>) ds)"
    using assms(2) by (simp add: set_token_list_def map_of_omap_insert)
  also have "update_first (code_is c) (\<lambda>e. e\<lparr>bp_status := ?s d, bp_flag := UpdateWithNewFlag (bp_flag e) f\<rparr>) ds =
      update_first (code_is c) (\<lambda>e. e\<lparr>bp_status := ?s e, bp_flag := UpdateWithNewFlag (bp_flag e) f\<rparr>) ds"
    using d by (induction ds) (auto split: if_split_asm)
  finally show thesis
  proof (rule that [rotated 3])
    fix e
    assume "\<not> bit (bp_flag e) 9" "bp_flag (e\<lparr>bp_status := ?s e, bp_flag := UpdateWithNewFlag (bp_flag e) f\<rparr>) = bp_flag e"
      "GetEffectivePermissionStatus (e\<lparr>bp_status := ?s e, bp_flag := UpdateWithNewFlag (bp_flag e) f\<rparr>) =
       GetEffectivePermissionStatus e"
    moreover from this(2) have "\<not> bit (bp_flag e) 4"
      using bit_new_flag [of "bp_flag e" f 4] False by simp
    ultimately show "e\<lparr>bp_status := ?s e, bp_flag := UpdateWithNewFlag (bp_flag e) f\<rparr> = e"
      by (simp add: effective_status split: if_split_asm)
  qed auto
next
  case True
  have l: "UpdateSecCompGrantedPermList tbl t c g st = (RET_SUCCESS, st')"
    using UpdatePermissionStatus_cases [OF u c] True by simp
  then show thesis
  proof (cases rule: UpdateSecComp_cases)
    case unchanged
    then show ?thesis
      using ds by (intro that [of "\<lambda>d. d"]) (auto simp: update_first_same)
  next
    case (changed a)
    then show ?thesis
      using ds assms(2) opcode_back [OF assms(1) c]
      by (intro that [of "\<lambda>d. d\<lparr>bp_flag := (if a then bp_flag d OR PERMISSION_COMPONENT_SET
                                 else bp_flag d AND NOT PERMISSION_COMPONENT_SET)\<rparr>"])
        (auto simp: SecCompGrantedPermListUpdated_def Let_def set_token_list_def map_of_omap_insert)
  qed
qed

lemma UpdatePermissionStatus_no_change:
  assumes "TransferPermissionToOpcode tbl name = Some c"
    and "UpdatePermissionStatus tbl t name g f st = (r, Some NO_CHANGE, st')"
    and "entry st t c = Some d" and "entry st' t c = Some d'"
  shows "GetEffectivePermissionStatus d' = GetEffectivePermissionStatus d \<and> bp_flag d' = bp_flag d"
proof -
  have q: "QueryPermissionStatusAndFlagInner s t c out = (RET_SUCCESS, GetEffectivePermissionStatus e, bp_flag e)"
    if "entry s t c = Some e" for s e out
    using that by (auto simp: entry_def QueryPermissionStatusAndFlagInner_def split: option.splits)
  have v: "VerifyPermissionStatusByCode s t c = GetEffectivePermissionStatus e" if "entry s t c = Some e" for s e
    using that by (simp add: Verify_entry)
  show ?thesis
    using assms(2) v [OF assms(3)] v [OF assms(4)] q [OF assms(3)] q [OF assms(4)]
    by (auto simp: UpdatePermissionStatus_def assms(1) Let_def split: prod.splits if_split_asm)
qed

lemma UpdatePermissionStatus_reports:
  "TransferPermissionToOpcode tbl name = Some c \<Longrightarrow> UpdatePermissionStatus tbl t name g f st = (r, ct, st') \<Longrightarrow>
   \<exists>x. ct = Some x"
  by (auto simp: UpdatePermissionStatus_def Let_def split: prod.splits)

text \<open>The rows of a permission of a token, and that they hold an entry.\<close>

abbreviation state_condition :: "token_id \<Rightarrow> string \<Rightarrow> GenericValues" where
  "state_condition t name \<equiv> PutString FIELD_PERMISSION_NAME name (PutInt FIELD_TOKEN_ID (sint t) [])"

definition state_rows :: "token_id \<Rightarrow> string \<Rightarrow> tables \<Rightarrow> ValuesBucket list" where
  "state_rows t name db =
     selected_rows (GetTableNameByType ACCESSTOKEN_PERMISSION_STATE, ToRdbPredicates (state_condition t name)) db"

definition row_holds :: "BriefPermData \<Rightarrow> ValuesBucket \<Rightarrow> bool" where
  "row_holds d row \<longleftrightarrow> omap_ok row \<and> map_of row FIELD_GRANT_STATE = Some (VO_INT (bp_status d)) \<and>
     map_of row FIELD_GRANT_FLAG = Some (VO_INT (sint (bp_flag d)))"

lemma ToRdbPredicates_state:
  "ToRdbPredicates (state_condition t name) =
     [EqualTo FIELD_PERMISSION_NAME (VO_STRING name), EqualTo FIELD_TOKEN_ID (VO_INT (sint t))]"
  by (simp add: ToRdbPredicates_def GetAllKeys_def PutString_def PutInt_def omap_emplace_def IsColumnStringType_def
      g_StringTypeColumns_def get_defs)

lemma overwritten_columns:
  assumes "omap_ok row" and "distinct (map fst b)"
  shows "omap_ok (foldl (\<lambda>r (k, v). omap_insert k v r) row b)"
    and "map_of (foldl (\<lambda>r (k, v). omap_insert k v r) row b) k = (case map_of b k of None \<Rightarrow> map_of row k | Some v \<Rightarrow> Some v)"
  using assms
proof (induction b arbitrary: row)
  case (Cons kv b)
  obtain k' v where kv: "kv = (k', v)" by (cases kv)
  { case 1
    with Cons.IH(1) [of "omap_insert k' v row"] show ?case by (simp add: kv omap_ok_insert) }
  { case 2
    then have "map_of b k' = None" by (simp add: kv map_of_eq_None_iff)
    with 2 Cons.IH(2) [of "omap_insert k' v row"] show ?case
      by (auto simp: kv omap_ok_insert map_of_omap_insert split: option.split) }
qed simp_all

lemma bucket_cell:
  assumes "omap_ok m"
  shows "map_of (ToRdbValueBucket m) k = map_option (rdb_value k) (map_of m k)"
  by (simp add: ToRdbValueBucket_eq [OF assms] map_of_map_cells)

lemma state_rows_updated:
  assumes m: "omap_ok m" and name: "map_of m FIELD_PERMISSION_NAME = Some (TYPE_STRING name)"
    and tok: "map_of m FIELD_TOKEN_ID = Some (TYPE_INT (sint (t :: token_id)))"
    and state: "map_of m FIELD_GRANT_STATE = Some (TYPE_INT (bp_status d))"
    and flag: "map_of m FIELD_GRANT_FLAG = Some (TYPE_INT (sint (bp_flag d)))"
    and old: "\<forall>row \<in> set (state_rows t name db). omap_ok row"
  defines "db' \<equiv> update_rows (ToRdbValueBucket m)
    (GetTableNameByType ACCESSTOKEN_PERMISSION_STATE, ToRdbPredicates (state_condition t name)) db"
  shows "length (state_rows t name db') = length (state_rows t name db) \<and>
    (\<forall>row \<in> set (state_rows t name db'). row_holds d row)"
proof -
  let ?p = "ToRdbPredicates (state_condition t name)" and ?n = "GetTableNameByType ACCESSTOKEN_PERMISSION_STATE"
  let ?b = "ToRdbValueBucket m"
  define upd where "upd r = foldl (\<lambda>r (k, v). omap_insert k v r) r ?b" for r
  have b: "distinct (map fst ?b)"
    unfolding ToRdbValueBucket_def by (intro omap_ok_distinct insert_columns(1) omap_ok_Nil)
  have cells: "map_of ?b FIELD_GRANT_STATE = Some (VO_INT (bp_status d))"
    "map_of ?b FIELD_GRANT_FLAG = Some (VO_INT (sint (bp_flag d)))"
    "map_of ?b FIELD_PERMISSION_NAME = Some (VO_STRING name)" "map_of ?b FIELD_TOKEN_ID = Some (VO_INT (sint t))"
    by (simp_all add: bucket_cell [OF m] name tok state flag rdb_value_def IsColumnStringType_def g_StringTypeColumns_def)
  have u: "row_holds d (upd r) \<and> (\<forall>c \<in> set ?p. cond_holds (upd r) c)" if "omap_ok r" for r
    using overwritten_columns [OF that b] cells
    by (simp add: row_holds_def upd_def ToRdbPredicates_state cond_holds_def)
  have "state_rows t name db' = map upd (state_rows t name db)"
  proof -
    have "\<forall>r \<in> set (db ?n). (\<forall>c \<in> set ?p. cond_holds r c) \<longrightarrow> (\<forall>c \<in> set ?p. cond_holds (upd r) c)"
      using old u by (auto simp: state_rows_def selected_rows_def)
    then have "filter (\<lambda>row. \<forall>c \<in> set ?p. cond_holds row c)
        (map (\<lambda>row. if \<forall>c \<in> set ?p. cond_holds row c then upd row else row) (db ?n)) =
      map upd (filter (\<lambda>row. \<forall>c \<in> set ?p. cond_holds row c) (db ?n))"
      by (rule filter_map_where)
    moreover have "db' = db(?n := map (\<lambda>row. if \<forall>c \<in> set ?p. cond_holds row c then upd row else row) (db ?n))"
      by (simp only: db'_def update_rows_def upd_def fst_conv snd_conv)
    ultimately show ?thesis by (simp add: state_rows_def selected_rows_def)
  qed
  then show ?thesis using u old by auto
qed

lemma filter_single:
  assumes "distinct (map k xs)" and "x \<in> set xs" and "\<And>y. y \<in> set xs \<Longrightarrow> P y \<longleftrightarrow> k y = k x"
  shows "filter P xs = [x]"
  using assms
proof (induction xs)
  case (Cons y ys)
  show ?case
  proof (cases "k y = k x")
    case True
    then have n: "k z \<noteq> k x" if "z \<in> set ys" for z 
      using Cons.prems(1) imageI [OF that, of k] by auto
    then have "x = y" using Cons.prems(2) by auto
    moreover have "filter P ys = []" using n Cons.prems(3) by (auto simp: filter_empty_conv)
    ultimately show ?thesis using Cons.prems(3) by simp
  next
    case False
    then show ?thesis using Cons by auto
  qed
qed simp

lemma opcode_name:
  "perm_table_ok tbl \<Longrightarrow> TransferPermissionToOpcode tbl n = Some c \<Longrightarrow> CHR 0x00 \<notin> set n \<Longrightarrow>
   TransferOpcodeToPermission tbl c = n"
  by (simp add: TransferPermissionToOpcode_iff TransferOpcodeToPermission_def)

lemma state_row_token: "map_of (state_row tbl now t [] d) FIELD_TOKEN_ID = Some (TYPE_INT (sint t))"
  by (simp add: state_row_def Let_def PermissionStatusIntoGenericValues_def GetPermissionStatus_def puts_as_Put
      map_of_Put omap_ok_Put)

text \<open>The row of the permission among the rows of the token.\<close>

lemma rows_of_permission:
  assumes tbl: "perm_table_ok tbl" and c: "TransferPermissionToOpcode tbl name = Some c" and nul: "CHR 0x00 \<notin> set name"
    and ds: "\<forall>d \<in> set ds. unat (bp_permCode d) < length tbl \<and> IsGrantStatusValid (bp_status d)"
    and dist: "distinct (map bp_permCode ds)" and d: "find (code_is c) ds = Some d"
  shows "filter (\<lambda>v. GetString v FIELD_PERMISSION_NAME = name) (map (state_row tbl now t []) ds) = [state_row tbl now t [] d]"
proof -
  have nm: "GetString (state_row tbl now t [] e) FIELD_PERMISSION_NAME = TransferOpcodeToPermission tbl (ucast (bp_permCode e))"
    if "e \<in> set ds" for e
    using state_row_cells(2) [of e tbl now t "[]"] ds that by (simp add: GetString_def)
  have op: "TransferPermissionToOpcode tbl (TransferOpcodeToPermission tbl (ucast (bp_permCode e))) = Some (ucast (bp_permCode e))"
    if "e \<in> set ds" for e
    using ds that opcode_of_index [OF tbl, of "ucast (bp_permCode e)"] code_index [of "bp_permCode e" tbl] by simp
  have in_ds: "d \<in> set ds" and cd: "ucast (bp_permCode d) = c"
    using d by (auto simp: find_Some_iff code_is_def)
  have "TransferOpcodeToPermission tbl (ucast (bp_permCode e)) = name \<longleftrightarrow> bp_permCode e = bp_permCode d" if e: "e \<in> set ds" for e
  proof
    assume "TransferOpcodeToPermission tbl (ucast (bp_permCode e)) = name"
    then have "(ucast (bp_permCode e) :: u32) = ucast (bp_permCode d)" using op [OF e] c cd by simp
    then show "bp_permCode e = bp_permCode d" by (metis unat_code word_unat_eq_iff)
  next
    assume "bp_permCode e = bp_permCode d"
    then show "TransferOpcodeToPermission tbl (ucast (bp_permCode e)) = name"
      using opcode_name [OF tbl c nul] cd by simp
  qed
  then have "filter (\<lambda>e. GetString (state_row tbl now t [] e) FIELD_PERMISSION_NAME = name) ds = [d]"
    using nm by (intro filter_single [OF dist in_ds]) auto
  then show ?thesis by (simp add: filter_map comp_def)
qed

text \<open>The list and the entry after a successful update.\<close>

lemma updated_entries:
  assumes tbl: "perm_table_ok tbl" and ok: "omap_ok (requestedPermData st)"
    and c: "TransferPermissionToOpcode tbl name = Some c"
    and u: "UpdatePermissionStatus tbl t name g f st = (RET_SUCCESS, Some x, st')"
    and ds: "map_of (requestedPermData st) t = Some ds" and dist: "distinct (map bp_permCode ds)"
    and val: "\<forall>d \<in> set ds. unat (bp_permCode d) < length tbl \<and> IsGrantStatusValid (bp_status d)"
    and d: "entry st t c = Some d" and unrestricted: "\<not> bit (bp_flag d) 9"
  obtains ds' d' where "map_of (requestedPermData st') t = Some ds'" and "find (code_is c) ds' = Some d'"
    and "distinct (map bp_permCode ds')"
    and "\<forall>d \<in> set ds'. unat (bp_permCode d) < length tbl \<and> IsGrantStatusValid (bp_status d)"
    and "x = NO_CHANGE \<Longrightarrow> d' = d"
proof -
  obtain F where F: "\<And>d. bp_permCode (F d) = bp_permCode d"
    "\<And>d. bp_status (F d) \<in> {bp_status d, PERMISSION_GRANTED, PERMISSION_DENIED}"
    "\<And>d. \<not> bit (bp_flag d) 9 \<Longrightarrow> bp_flag (F d) = bp_flag d \<Longrightarrow>
          GetEffectivePermissionStatus (F d) = GetEffectivePermissionStatus d \<Longrightarrow> F d = d"
    "map_of (requestedPermData st') t = Some (update_first (code_is c) F ds)"
    by (rule UpdatePermissionStatus_list [OF tbl ok c u ds]) blast
  let ?ds' = "update_first (code_is c) F ds"
  have fd: "find (code_is c) ds = Some d" using d ds by (simp add: entry_def)
  have fd': "find (code_is c) ?ds' = Some (F d)"
    using find_update_first_same [of "code_is c" F ds] fd F(1) by (simp add: code_is_def)
  have d': "entry st' t c = Some (F d)" using F(4) fd' by (simp add: entry_def)
  have m: "map bp_permCode ?ds' = map bp_permCode ds" using F(1) by (rule map_update_first)
  have "\<forall>d \<in> set ?ds'. unat (bp_permCode d) < length tbl \<and> IsGrantStatusValid (bp_status d)"
  proof
    fix e assume "e \<in> set ?ds'"
    then obtain e0 where "e0 \<in> set ds" "e = e0 \<or> e = F e0" using set_update_first [of "code_is c" F ds] by blast
    then show "unat (bp_permCode e) < length tbl \<and> IsGrantStatusValid (bp_status e)"
      using val F(1) [of e0] F(2) [of e0] by (auto simp: IsGrantStatusValid_def)
  qed
  moreover have "F d = d" if "x = NO_CHANGE"
    using UpdatePermissionStatus_no_change [OF c u [unfolded that] d d'] F(3) [OF unrestricted] by blast
  ultimately show thesis using that [OF F(4) fd'] dist m by simp
qed

text \<open>What \<open>UpdatePermissionStatus\<close> of the token does to the database when the store reports a change.\<close>

lemma HapUpdatePermissionStatus_writes:
  assumes tbl: "perm_table_ok tbl" and c: "TransferPermissionToOpcode tbl name = Some c" and nul: "CHR 0x00 \<notin> set name"
    and "\<not> IsShortGrantPermission name" and "\<not> hi_isRemote h" and "t = ht_tokenID (hi_basic h)" and "x \<noteq> NO_CHANGE"
    and us: "UpdatePermissionStatus tbl t name g f st = (RET_SUCCESS, Some x, st1)"
    and ds': "map_of (requestedPermData st1) t = Some ds'" and d': "find (code_is c) ds' = Some d'"
    and dist: "distinct (map bp_permCode ds')"
    and val: "\<forall>d \<in> set ds'. unat (bp_permCode d) < length tbl \<and> IsGrantStatusValid (bp_status d)"
    and u: "HapUpdatePermissionStatus ops tbl now name g f ch (h, st, db) = (RET_SUCCESS, ch', h', st', db')"
  shows "db' = snd (Modify ops ACCESSTOKEN_PERMISSION_STATE (state_row tbl now t [] d') (state_condition t name) db)"
  using u us assms(4-7) ds' rows_of_permission [OF tbl c nul val dist d', of now t]
  by (simp add: HapUpdatePermissionStatus_def Let_def BuildPermissionStateValues_def GetBriefPermDataByTokenIdInner_def)

lemma HapUpdatePermissionStatus_store:
  assumes "HapUpdatePermissionStatus ops tbl now name g f ch (h, st, db) = (RET_SUCCESS, ch', h', st', db')"
    and c: "TransferPermissionToOpcode tbl name = Some c" and "t = ht_tokenID (hi_basic h)"
  obtains x where "UpdatePermissionStatus tbl t name g f st = (RET_SUCCESS, Some x, st')"
proof -
  obtain r ct st1 where us: "UpdatePermissionStatus tbl t name g f st = (r, ct, st1)"
    by (cases "UpdatePermissionStatus tbl t name g f st")
  moreover obtain x where "ct = Some x" using UpdatePermissionStatus_reports [OF c us] by blast
  moreover have "r = RET_SUCCESS \<and> st1 = st'"
    using assms us by (auto simp: HapUpdatePermissionStatus_def Let_def split: if_split_asm prod.splits)
  ultimately show thesis using that by simp
qed

section \<open>Properties\<close>

text \<open>C4. A permission change reaches the database. Take an application token of this device, a permission
  that is not a short-term one and not restricted by an administrator, and a database whose rows of that
  permission hold its stored entry. When \<open>UpdatePermissionStatus\<close> succeeds and the database accepts the
  update, those rows (as many as before) hold the new stored entry: what a restart loads is the state the
  caller was answered with, also when the update was reported as no change and wrote nothing.\<close>

theorem permission_change_is_persisted:
  assumes tbl: "perm_table_ok tbl" and laws: "rdb_laws ops sabs tabs" and inv: "brief_inv st"
    and c: "TransferPermissionToOpcode tbl name = Some c" and nul: "CHR 0x00 \<notin> set name"
    and short: "\<not> IsShortGrantPermission name" and here: "\<not> hi_isRemote h" and t: "t = ht_tokenID (hi_basic h)"
    and ds: "map_of (requestedPermData st) t = Some ds" and dist: "distinct (map bp_permCode ds)"
    and val: "\<forall>d \<in> set ds. unat (bp_permCode d) < length tbl \<and> IsGrantStatusValid (bp_status d)"
    and d: "entry st t c = Some d" and unrestricted: "\<not> bit (bp_flag d) 9"
    and rows: "\<forall>row \<in> set (state_rows t name (sabs (db_store db))). row_holds d row"
    and accepts: "\<forall>v cond. ToRdbValueBucket v \<noteq> [] \<longrightarrow> fst (Modify ops ACCESSTOKEN_PERMISSION_STATE v cond db) = RET_SUCCESS"
    and u: "HapUpdatePermissionStatus ops tbl now name g f ch (h, st, db) = (RET_SUCCESS, ch', h', st', db')"
  shows "\<exists>d'. entry st' t c = Some d' \<and>
    length (state_rows t name (sabs (db_store db'))) = length (state_rows t name (sabs (db_store db))) \<and>
    (\<forall>row \<in> set (state_rows t name (sabs (db_store db'))). row_holds d' row)"
proof -
  have ok: "omap_ok (requestedPermData st)" using inv by (simp add: brief_inv_def)
  obtain x where us: "UpdatePermissionStatus tbl t name g f st = (RET_SUCCESS, Some x, st')"
    by (rule HapUpdatePermissionStatus_store [OF u c t])
  obtain ds' d' where ds': "map_of (requestedPermData st') t = Some ds'" and d': "find (code_is c) ds' = Some d'"
    and dist': "distinct (map bp_permCode ds')"
    and val': "\<forall>d \<in> set ds'. unat (bp_permCode d) < length tbl \<and> IsGrantStatusValid (bp_status d)"
    and same: "x = NO_CHANGE \<Longrightarrow> d' = d"
    by (rule updated_entries [OF tbl ok c us ds dist val d unrestricted]) blast
  have e': "entry st' t c = Some d'" using ds' d' by (simp add: entry_def)
  show ?thesis
  proof (cases "x = NO_CHANGE")
    case True
    have "db' = db"
      using u us t True short here by (simp add: HapUpdatePermissionStatus_def Let_def)
    then show ?thesis using e' rows same [OF True] by auto
  next
    case False
    let ?row = "state_row tbl now t [] d'"
    have "d' \<in> set ds'" "ucast (bp_permCode d') = c" using d' by (auto simp: find_Some_iff code_is_def)
    then have v: "IsGrantStatusValid (bp_status d')" and nm: "TransferOpcodeToPermission tbl (ucast (bp_permCode d')) = name"
      using val' opcode_name [OF tbl c nul] by auto
    note cells = state_row_cells [OF v, of tbl now t "[]", unfolded nm]
    have "ToRdbValueBucket ?row \<noteq> []"
      using bucket_cell [OF row_ok_omap [OF cells(1)], of FIELD_PERMISSION_NAME] cells(2) by auto
    then have "Modify ops ACCESSTOKEN_PERMISSION_STATE ?row (state_condition t name) db = (RET_SUCCESS, db')"
      using HapUpdatePermissionStatus_writes [OF tbl c nul short here t False us ds' d' dist' val' u] accepts
      by (metis prod.collapse)
    note upd = Modify_abs [OF laws this]
    have "\<forall>row \<in> set (state_rows t name (sabs (db_store db))). omap_ok row" using rows by (auto simp: row_holds_def)
    from state_rows_updated [OF row_ok_omap [OF cells(1)] cells(2) state_row_token cells(4,3) this]
    show ?thesis using e' upd by simp
  qed
qed

definition sample_hap :: HapTokenInfoInner where
  "sample_hap = \<lparr>hi_basic = \<lparr>ht_ver = 1, ht_userID = 100, ht_bundleName = ''com.example.app'', ht_apiVersion = 12,
       ht_instIndex = 0, ht_dlpType = 0, ht_tokenID = 0x20000001, ht_tokenAttr = 1, ht_uid = 20000100\<rparr>,
     hi_isRemote = False, hi_isPermDialogForbidden = False, hi_isMigrated = True, hi_isSideloadApp = False,
     hi_permUpdateTimestamp = 0\<rparr>"

definition sample_state_db :: "BriefPermData \<Rightarrow> tables AccessTokenDb" where
  "sample_state_db d = \<lparr>db_nonnull = True,
     db_store = (\<lambda>n. if n = GetTableNameByType ACCESSTOKEN_PERMISSION_STATE
                     then [ToRdbValueBucket (state_row sample_table 0 0x20000001 [] d)] else [])\<rparr>"

text \<open>While an administrator restricts the permission, the stored status changes and the row does not: the
  user revokes a granted permission with the same flags, the update succeeds, the stored entry becomes denied
  and the database keeps it granted.\<close>

lemma restricted_revocation_not_persisted:
  "HapUpdatePermissionStatus mem_rdb sample_table 5 ''ohos.permission.CAMERA'' False PERMISSION_USER_FIXED False
     (sample_hap, sample_store PERMISSION_GRANTED (PERMISSION_USER_FIXED OR PERMISSION_RESTRICTED_BY_ADMIN), db) =
   (RET_SUCCESS, False, sample_hap, sample_store PERMISSION_DENIED (PERMISSION_USER_FIXED OR PERMISSION_RESTRICTED_BY_ADMIN), db)"
proof -
  have l: "UpdatePermStateList 0x20000001 0 False 2 (sample_store PERMISSION_GRANTED 514) =
     (RET_SUCCESS, sample_store PERMISSION_DENIED 514)"
    by (simp add: UpdatePermStateList_def sample_lookup Let_def)
      (simp add: sample_entry_def sample_store_def set_token_list_def IsRestrictedPermission_def UpdateWithNewFlag_def)
  have v: "VerifyPermissionStatusByCode (sample_store s 514) 0x20000001 0 = PERMISSION_DENIED" for s
    by (simp add: VerifyPermissionStatusByCode_def sample_lookup effective_status) (simp add: sample_entry_def)
  have q: "QueryPermissionStatusAndFlagInner (sample_store s 514) 0x20000001 0 out = (RET_SUCCESS, PERMISSION_DENIED, 514)" for s out
    by (simp add: QueryPermissionStatusAndFlagInner_def sample_lookup effective_status) (simp add: sample_entry_def)
  have "UpdatePermissionStatus sample_table 0x20000001 ''ohos.permission.CAMERA'' False 2 (sample_store PERMISSION_GRANTED 514) =
     (RET_SUCCESS, Some NO_CHANGE, sample_store PERMISSION_DENIED 514)"
    by (simp add: UpdatePermissionStatus_def sample_opcode(1) v q l Let_def sec_comp_flag [of 2, simplified])
  then show ?thesis
    by (simp add: HapUpdatePermissionStatus_def sample_hap_def Let_def IsShortGrantPermission_def)
qed

lemma sample_revocation:
  "UpdatePermissionStatus sample_table 0x20000001 ''ohos.permission.CAMERA'' False 2 (sample_store PERMISSION_GRANTED 2) =
     (RET_SUCCESS, Some STATUS_ONLY, sample_store PERMISSION_DENIED 2)"
proof -
  have l: "UpdatePermStateList 0x20000001 0 False 2 (sample_store PERMISSION_GRANTED 2) =
     (RET_SUCCESS, sample_store PERMISSION_DENIED 2)"
    by (simp add: UpdatePermStateList_def sample_lookup Let_def)
      (simp add: sample_entry_def sample_store_def set_token_list_def IsRestrictedPermission_def UpdateWithNewFlag_def)
  have v: "VerifyPermissionStatusByCode (sample_store s 2) 0x20000001 0 = s" for s
    by (simp add: VerifyPermissionStatusByCode_def sample_lookup effective_status) (simp add: sample_entry_def)
  have q: "QueryPermissionStatusAndFlagInner (sample_store s 2) 0x20000001 0 out = (RET_SUCCESS, s, 2)" for s out
    by (simp add: QueryPermissionStatusAndFlagInner_def sample_lookup effective_status) (simp add: sample_entry_def)
  show ?thesis
    by (simp add: UpdatePermissionStatus_def sample_opcode(1) v q l Let_def sec_comp_flag [of 2, simplified])
qed

lemma sample_entry_facts:
  "bp_permCode (sample_entry s f) = 0" "bp_status (sample_entry s f) = s" "bp_flag (sample_entry s f) = f"
  by (simp_all add: sample_entry_def)

lemma sample_state_rows:
  assumes "IsGrantStatusValid s"
  shows "state_rows 0x20000001 ''ohos.permission.CAMERA'' (db_store (sample_state_db (sample_entry s f))) =
      [ToRdbValueBucket (state_row sample_table 0 0x20000001 [] (sample_entry s f))]"
    and "row_holds (sample_entry s f) (ToRdbValueBucket (state_row sample_table 0 0x20000001 [] (sample_entry s f)))"
proof -
  let ?m = "state_row sample_table 0 0x20000001 [] (sample_entry s f)"
  note cells = state_row_cells [of "sample_entry s f" sample_table 0 "0x20000001" "[]", unfolded sample_entry_facts, OF assms]
  have ok: "omap_ok ?m" using cells(1) by (rule row_ok_omap)
  note b = bucket_cell [OF ok]
  show "row_holds (sample_entry s f) (ToRdbValueBucket ?m)"
    using cells insert_columns(1) [OF omap_ok_Nil]
    by (simp add: row_holds_def b rdb_value_def IsColumnStringType_def g_StringTypeColumns_def sample_entry_facts)
      (simp add: ToRdbValueBucket_def insert_columns(1))
  show "state_rows 0x20000001 ''ohos.permission.CAMERA'' (db_store (sample_state_db (sample_entry s f))) = [ToRdbValueBucket ?m]"
    using cells(2) state_row_token [of sample_table 0 "0x20000001" "sample_entry s f"]
    unfolding state_rows_def selected_rows_def ToRdbPredicates_state
    by (simp add: sample_state_db_def cond_holds_def b rdb_value_def
        IsColumnStringType_def g_StringTypeColumns_def sample_name)
qed

lemma mem_modify_accepts:
  "db_nonnull d \<Longrightarrow> ToRdbValueBucket v \<noteq> [] \<Longrightarrow> fst (Modify mem_rdb ACCESSTOKEN_PERMISSION_STATE v c d) = RET_SUCCESS"
  by (simp add: Modify_def Let_def GetRdb_def mem_rdb_def GetTableNameByType_def g_DateTypeToTableName_def)

theorem permission_change_is_persisted_witness:
  "case HapUpdatePermissionStatus mem_rdb sample_table 5 ''ohos.permission.CAMERA'' False PERMISSION_USER_FIXED False
     (sample_hap, sample_store PERMISSION_GRANTED PERMISSION_USER_FIXED,
      sample_state_db (sample_entry PERMISSION_GRANTED PERMISSION_USER_FIXED)) of
     (r, ch, h, st, db) \<Rightarrow> r = RET_SUCCESS \<and> length (state_rows 0x20000001 ''ohos.permission.CAMERA'' (db_store db)) = 1 \<and>
       list_all (row_holds (sample_entry PERMISSION_DENIED PERMISSION_USER_FIXED))
         (state_rows 0x20000001 ''ohos.permission.CAMERA'' (db_store db))"
proof -
  let ?db = "sample_state_db (sample_entry PERMISSION_GRANTED PERMISSION_USER_FIXED)"
  let ?st = "sample_store PERMISSION_GRANTED PERMISSION_USER_FIXED" and ?n = "''ohos.permission.CAMERA''"
  obtain r ch h st db where u: "HapUpdatePermissionStatus mem_rdb sample_table 5 ?n False PERMISSION_USER_FIXED False
     (sample_hap, ?st, ?db) = (r, ch, h, st, db)" by (metis prod_cases5)
  have r: "r = RET_SUCCESS" "st = sample_store PERMISSION_DENIED PERMISSION_USER_FIXED"
    using u by (auto simp: HapUpdatePermissionStatus_def sample_hap_def Let_def sample_revocation
        BuildPermissionStateValues_def GetBriefPermDataByTokenIdInner_def sample_lookup split: if_split_asm)
  have g: "IsGrantStatusValid PERMISSION_GRANTED" by (simp add: IsGrantStatusValid_def)
  have acc: "\<forall>v cond. ToRdbValueBucket v \<noteq> [] \<longrightarrow> fst (Modify mem_rdb ACCESSTOKEN_PERMISSION_STATE v cond ?db) = RET_SUCCESS"
    using mem_modify_accepts [of ?db] by (simp add: sample_state_db_def)
  have rows: "\<forall>row \<in> set (state_rows 0x20000001 ?n (db_store ?db)). row_holds (sample_entry PERMISSION_GRANTED PERMISSION_USER_FIXED) row"
    using sample_state_rows [OF g] by simp
  have "\<exists>d'. entry st 0x20000001 0 = Some d' \<and>
    length (state_rows 0x20000001 ?n (db_store db)) = length (state_rows 0x20000001 ?n (db_store ?db)) \<and>
    (\<forall>row \<in> set (state_rows 0x20000001 ?n (db_store db)). row_holds d' row)"
    by (rule permission_change_is_persisted [OF sample_table_ok mem_rdb_laws sample_inv sample_opcode(1) _ _ _ _
          sample_lookup(1) _ _ sample_store_entry _ rows acc u [unfolded r(1)]])
      (simp_all add: IsShortGrantPermission_def sample_hap_def sample_entry_facts sample_table_def g)
  then show ?thesis
    using u r sample_state_rows(1) [OF g] by (simp add: sample_store_entry list_all_iff)
qed

lemma sint_word_of_int32: "is_int32 v \<Longrightarrow> sint (word_of_int v :: u32) = v"
  using i32_in_range [of v] by (simp add: i32_def)

text \<open>C11. An application token survives a restart: the row built for it, stored and read back, is restored as
  the same token, both by \<open>RestoreHapTokenInfo\<close> and through a \<open>HapTokenInfoItem\<close>; only the
  time of the last permission change is not stored.\<close>

theorem hap_token_survives_restart:
  assumes "hap_ok h"
  shows "\<exists>v. GenerateHapInfoValues h appId apl [] = [v] \<and>
    (\<forall>h0 st. \<not> hi_isRemote h0 \<longrightarrow>
      RestoreHapTokenInfo tbl (ht_tokenID (hi_basic h)) (reload v) permStates values (h0, st) =
      (RET_SUCCESS, h\<lparr>hi_permUpdateTimestamp := hi_permUpdateTimestamp h0\<rparr>,
       RestorePermissionBriefData tbl (ht_tokenID (hi_basic h)) permStates values st)) \<and>
    HapTokenInfoInner_item (hap_item_of_row (reload v)) = h\<lparr>hi_permUpdateTimestamp := 0\<rparr>"
proof (intro exI conjI allI impI)
  let ?v = "hap_row h appId apl"
  have here: "\<not> hi_isRemote h" using assms by (simp add: hap_ok_def)
  then show "GenerateHapInfoValues h appId apl [] = [?v]" by (simp add: GenerateHapInfoValues_row)
  show "RestoreHapTokenInfo tbl (ht_tokenID (hi_basic h)) (reload ?v) permStates values (h0, st) =
      (RET_SUCCESS, h\<lparr>hi_permUpdateTimestamp := hi_permUpdateTimestamp h0\<rparr>,
       RestorePermissionBriefData tbl (ht_tokenID (hi_basic h)) permStates values st)" if "\<not> hi_isRemote h0" for h0 st
    using Restore_hap_row [OF assms, of appId apl h0] that here by (simp add: RestoreHapTokenInfo_def Let_def)
  show "HapTokenInfoInner_item (hap_item_of_row (reload ?v)) = h\<lparr>hi_permUpdateTimestamp := 0\<rparr>"
    unfolding HapTokenInfoInner_item_def hap_item_of_row_def reload_gets(1,2) [OF hap_row_typed [OF assms]]
    using assms by (simp add: hap_row_def get_defs hap_ok_def sint_word_of_int32)
qed

theorem hap_token_survives_restart_witness:
  "hap_ok sample_hap \<and> HapTokenInfoInner_item (hap_item_of_row (reload
     (hd (GenerateHapInfoValues sample_hap ''id'' APL_NORMAL [])))) = sample_hap"
proof
  show ok: "hap_ok sample_hap"
    by (simp add: hap_ok_def sample_hap_def is_int32_def IsBundleNameValid_def)
  show "HapTokenInfoInner_item (hap_item_of_row (reload (hd (GenerateHapInfoValues sample_hap ''id'' APL_NORMAL [])))) = sample_hap"
  proof -
    obtain v where "GenerateHapInfoValues sample_hap ''id'' APL_NORMAL [] = [v]"
      "HapTokenInfoInner_item (hap_item_of_row (reload v)) = sample_hap\<lparr>hi_permUpdateTimestamp := 0\<rparr>"
      using hap_token_survives_restart [OF ok, of "''id''" APL_NORMAL sample_table "\<lambda>_. None" "\<lambda>_. None"] by blast
    then show ?thesis by (simp add: sample_hap_def)
  qed
qed



end
