(* ===== verification/Kernel_Permissions.thy ===== *)
theory Kernel_Permissions
  imports Permission_Data_Brief
begin

text \<open>
  The permission bitmaps of the kernel: the ioctl wrappers (\<^verbatim>\<open>perm_setproc_c.cpp\<close>,
  \<^verbatim>\<open>perm_setproc.cpp\<close>), the C view of the permission table (\<^verbatim>\<open>permission_map_c.cpp\<close>) and
  \<open>PermissionKernelUtils\<close> (\<^verbatim>\<open>permission_kernel_utils.cpp\<close>). The device is the parameter
  \<open>perm_kernel\<close>: opening it and its requests, each with the result of \<open>ioctl\<close> and \<open>errno\<close>.
  A buffer of \<open>uint32_t\<close> is a list, a null pointer is \<open>None\<close>. The file descriptor itself, its
  owner tag and its closing are left out.
\<close>

unbundle bit_operations_syntax

section \<open>The device\<close>

abbreviation ACCESS_TOKEN_OK :: int where "ACCESS_TOKEN_OK \<equiv> 0"
abbreviation ACCESS_TOKEN_PARAM_INVALID :: int where "ACCESS_TOKEN_PARAM_INVALID \<equiv> - 1"
abbreviation ACCESS_TOKEN_OPEN_ERROR :: int where "ACCESS_TOKEN_OPEN_ERROR \<equiv> - 2"
abbreviation MAX_PERM_BIT_MAP_SIZE :: nat where "MAX_PERM_BIT_MAP_SIZE \<equiv> 64"
abbreviation UINT32_T_BITS :: nat where "UINT32_T_BITS \<equiv> 32"
abbreviation ENOTSUP :: int where "ENOTSUP \<equiv> 95"
abbreviation ERANGE :: int where "ERANGE \<equiv> 34"

record 'k perm_kernel =
  pk_open :: "'k \<Rightarrow> bool \<times> 'k"
  pk_add_permissions :: "token_id \<Rightarrow> u32 list \<Rightarrow> 'k \<Rightarrow> int \<times> int \<times> 'k"
  pk_remove_permissions :: "token_id \<Rightarrow> 'k \<Rightarrow> int \<times> int \<times> 'k"
  pk_get_permission :: "token_id \<Rightarrow> u32 \<Rightarrow> 'k \<Rightarrow> int \<times> int \<times> 'k"
  pk_set_permission :: "token_id \<Rightarrow> u32 \<Rightarrow> bool \<Rightarrow> 'k \<Rightarrow> int \<times> int \<times> 'k"
  pk_get_all_permissions :: "token_id \<Rightarrow> 'k \<Rightarrow> int \<times> int \<times> u32 list \<times> 'k"
  pk_get_spm_version :: "'k \<Rightarrow> int \<times> int \<times> 'k"
  pk_get_hap_ptokenid :: "token_id \<Rightarrow> 'k \<Rightarrow> int \<times> int \<times> u64 \<times> 'k"

section \<open>The C wrappers\<close>

definition c_AddPermissionToKernel ::
    "'k perm_kernel \<Rightarrow> token_id \<Rightarrow> u32 list option \<Rightarrow> u32 \<Rightarrow> 'k \<Rightarrow> int \<times> 'k" where
  "c_AddPermissionToKernel pk tokenId perms permsSize k =
     (if perms = None \<or> permsSize = 0 \<or> permsSize mod 4 \<noteq> 0 \<or> unat (permsSize div 4) > MAX_PERM_BIT_MAP_SIZE
      then (ACCESS_TOKEN_PARAM_INVALID, k)
      else
        (let bitmapSize = unat (permsSize div 4);
             perm = map ((!) (the perms)) [0..<bitmapSize] @ replicate (MAX_PERM_BIT_MAP_SIZE - bitmapSize) 0;
             (opened, k1) = pk_open pk k in
         if \<not> opened then (ACCESS_TOKEN_OPEN_ERROR, k1)
         else
           (let (ret, err, k2) = pk_add_permissions pk tokenId perm k1 in
            (if ret \<noteq> ACCESS_TOKEN_OK then err else ACCESS_TOKEN_OK, k2))))"

definition c_RemovePermissionFromKernel :: "'k perm_kernel \<Rightarrow> token_id \<Rightarrow> 'k \<Rightarrow> int \<times> 'k" where
  "c_RemovePermissionFromKernel pk tokenID k =
     (let (opened, k1) = pk_open pk k in
      if \<not> opened then (ACCESS_TOKEN_OPEN_ERROR, k1)
      else
        (let (ret, err, k2) = pk_remove_permissions pk tokenID k1 in
         (if ret \<noteq> ACCESS_TOKEN_OK then err else ACCESS_TOKEN_OK, k2)))"

definition c_SetPermissionToKernel :: "'k perm_kernel \<Rightarrow> token_id \<Rightarrow> int \<Rightarrow> bool \<Rightarrow> 'k \<Rightarrow> int \<times> 'k" where
  "c_SetPermissionToKernel pk tokenID opCode st k =
     (let (opened, k1) = pk_open pk k in
      if \<not> opened then (ACCESS_TOKEN_OPEN_ERROR, k1)
      else
        (let (ret, err, k2) = pk_set_permission pk tokenID (word_of_int opCode) st k1 in
         (if ret \<noteq> ACCESS_TOKEN_OK then err else ACCESS_TOKEN_OK, k2)))"

text \<open>The out parameter \<open>isGranted\<close> is the second result; every caller passes one.\<close>

definition c_GetPermissionFromKernel :: "'k perm_kernel \<Rightarrow> token_id \<Rightarrow> int \<Rightarrow> 'k \<Rightarrow> int \<times> bool \<times> 'k" where
  "c_GetPermissionFromKernel pk tokenID opCode k =
     (let (opened, k1) = pk_open pk k in
      if \<not> opened then (ACCESS_TOKEN_OPEN_ERROR, False, k1)
      else
        (let (ret, err, k2) = pk_get_permission pk tokenID (word_of_int opCode) k1 in
         if ret < 0 then (err, False, k2) else (ACCESS_TOKEN_OK, ret = 1, k2)))"

definition c_GetPermissionsFromKernel ::
    "'k perm_kernel \<Rightarrow> token_id \<Rightarrow> u32 list option \<Rightarrow> u32 \<Rightarrow> 'k \<Rightarrow> int \<times> u32 list option \<times> 'k" where
  "c_GetPermissionsFromKernel pk tokenId perms permsSize k =
     (if perms = None \<or> unat permsSize < MAX_PERM_BIT_MAP_SIZE then (ACCESS_TOKEN_PARAM_INVALID, perms, k)
      else
        (let (opened, k1) = pk_open pk k in
         if \<not> opened then (ACCESS_TOKEN_OPEN_ERROR, perms, k1)
         else
           (let (ret, err, data, k2) = pk_get_all_permissions pk tokenId k1 in
            if ret < 0 then (err, perms, k2)
            else (ACCESS_TOKEN_OK,
                  Some (map ((!) data) [0..<MAX_PERM_BIT_MAP_SIZE] @ drop MAX_PERM_BIT_MAP_SIZE (the perms)), k2))))"

definition SpmGetVersion :: "'k perm_kernel \<Rightarrow> 'k \<Rightarrow> int \<times> 'k" where
  "SpmGetVersion pk k =
     (let (opened, k1) = pk_open pk k in
      if \<not> opened then (ACCESS_TOKEN_OPEN_ERROR, k1)
      else
        (let (ret, err, k2) = pk_get_spm_version pk k1 in
         (if ret \<noteq> 0 then err else ACCESS_TOKEN_OK, k2)))"

definition GetParentHapTokenID :: "'k perm_kernel \<Rightarrow> token_id \<Rightarrow> u64 \<Rightarrow> 'k \<Rightarrow> int \<times> u64 \<times> 'k" where
  "GetParentHapTokenID pk bin parent k =
     (if bin = 0 then (ACCESS_TOKEN_PARAM_INVALID, parent, k)
      else
        (let (opened, k1) = pk_open pk k in
         if \<not> opened then (ACCESS_TOKEN_OPEN_ERROR, parent, k1)
         else
           (let (ret, err, p, k2) = pk_get_hap_ptokenid pk bin k1 in
            if ret \<noteq> 0 then (err, parent, k2) else (ACCESS_TOKEN_OK, p, k2))))"

section \<open>The C++ wrappers\<close>

fun set_perm_bits :: "u32 list \<Rightarrow> u32 list \<Rightarrow> u32 list option" where
  "set_perm_bits [] perms = Some perms"
| "set_perm_bits (opCode # opCodeList) perms =
     (let idx = unat opCode div UINT32_T_BITS; bitIdx = unat opCode mod UINT32_T_BITS in
      if idx \<ge> MAX_PERM_BIT_MAP_SIZE then None
      else set_perm_bits opCodeList (perms[idx := perms ! idx OR push_bit bitIdx 1]))"

definition AddPermissionToKernel :: "'k perm_kernel \<Rightarrow> token_id \<Rightarrow> u32 list \<Rightarrow> 'k \<Rightarrow> int \<times> 'k" where
  "AddPermissionToKernel pk tokenID opCodeList k =
     (case set_perm_bits opCodeList (replicate MAX_PERM_BIT_MAP_SIZE 0) of
        None \<Rightarrow> (ACCESS_TOKEN_PARAM_INVALID, k)
      | Some perms \<Rightarrow> c_AddPermissionToKernel pk tokenID (Some perms) 256 k)"

definition RemovePermissionFromKernel :: "'k perm_kernel \<Rightarrow> token_id \<Rightarrow> 'k \<Rightarrow> int \<times> 'k" where
  "RemovePermissionFromKernel pk tokenID k = c_RemovePermissionFromKernel pk tokenID k"

definition SetPermissionToKernel :: "'k perm_kernel \<Rightarrow> token_id \<Rightarrow> int \<Rightarrow> bool \<Rightarrow> 'k \<Rightarrow> int \<times> 'k" where
  "SetPermissionToKernel pk tokenID opCode st k = c_SetPermissionToKernel pk tokenID opCode st k"

definition GetPermissionFromKernel :: "'k perm_kernel \<Rightarrow> token_id \<Rightarrow> int \<Rightarrow> 'k \<Rightarrow> int \<times> bool \<times> 'k" where
  "GetPermissionFromKernel pk tokenID opCode k = c_GetPermissionFromKernel pk tokenID opCode k"

definition codes_of_bitmap :: "u32 list \<Rightarrow> u32 list" where
  "codes_of_bitmap perms =
     concat (map (\<lambda>i. if perms ! i = 0 then []
                     else map (\<lambda>j. of_nat (i * UINT32_T_BITS + j))
                            (filter (\<lambda>j. perms ! i AND push_bit j 1 \<noteq> 0) [0..<UINT32_T_BITS]))
               [0..<MAX_PERM_BIT_MAP_SIZE])"

definition GetPermissionsFromKernel :: "'k perm_kernel \<Rightarrow> token_id \<Rightarrow> 'k \<Rightarrow> int \<times> u32 list \<times> 'k" where
  "GetPermissionsFromKernel pk tokenID k =
     (let (ret, perms, k') =
        c_GetPermissionsFromKernel pk tokenID (Some (replicate MAX_PERM_BIT_MAP_SIZE 0)) (of_nat MAX_PERM_BIT_MAP_SIZE) k in
      if ret \<noteq> ACCESS_TOKEN_OK then (ret, [], k') else (ACCESS_TOKEN_OK, codes_of_bitmap (the perms), k'))"

section \<open>The permission table for C programs\<close>

definition c_TransferPermissionToOpcode :: "perm_table \<Rightarrow> string option \<Rightarrow> u32 option" where
  "c_TransferPermissionToOpcode tbl permissionName =
     (case permissionName of None \<Rightarrow> None | Some s \<Rightarrow> TransferPermissionToOpcode tbl (c_str s))"

text \<open>The text written to the buffer of \<open>nameSize\<close> bytes. \<open>strcpy_s\<close> fails only when the text and
  its terminator do not fit.\<close>

definition c_TransferOpCodeToPermission :: "perm_table \<Rightarrow> u32 \<Rightarrow> u32 \<Rightarrow> string option" where
  "c_TransferOpCodeToPermission tbl opCode nameSize =
     (if nameSize \<le> 1 then None
      else
        (let s = TransferOpcodeToPermission tbl opCode in
         if s = [] then None
         else if length s > unat (nameSize - 1) then None
         else Some s))"

text \<open>The codes with a kernel effect, in order; more than \<open>permSize\<close> of them stop the scan with
  \<open>ERANGE\<close>, and the buffer then holds the first \<open>permSize\<close>.\<close>

definition kernel_codes :: "perm_table \<Rightarrow> u32 list \<Rightarrow> u16 list" where
  "kernel_codes tbl perms =
     map ucast (filter (\<lambda>code. unat code < length tbl \<and> bd_isKernelEffect (tbl ! unat code)) (codes_of_bitmap perms))"

definition FilterKernelPermissions ::
    "perm_table \<Rightarrow> u32 list option \<Rightarrow> u16 list option \<Rightarrow> u32 option \<Rightarrow> int \<times> u16 list option \<times> u32 option" where
  "FilterKernelPermissions tbl perms kernelPerms permSize =
     (if perms = None \<or> permSize = None \<or> permSize = Some 0 \<or> kernelPerms = None
      then (ACCESS_TOKEN_PARAM_INVALID, kernelPerms, permSize)
      else
        (let found = kernel_codes tbl (the perms); size = unat (the permSize);
             out = take size found @ drop (length (take size found)) (the kernelPerms) in
         if length found > size then (ERANGE, Some out, permSize)
         else (ACCESS_TOKEN_OK, Some out, Some (of_nat (length found)))))"

section \<open>PermissionKernelUtils\<close>

definition AddHapPermToKernel :: "'k perm_kernel \<Rightarrow> token_id \<Rightarrow> u32 list \<Rightarrow> 'k \<Rightarrow> int \<times> 'k" where
  "AddHapPermToKernel pk tokenID opCodeList k =
     (let (ret, k1) = AddPermissionToKernel pk tokenID opCodeList k in
      if ret \<noteq> ACCESS_TOKEN_OK then AddPermissionToKernel pk tokenID opCodeList k1 else (ret, k1))"

definition AddNativePermToKernel :: "'k perm_kernel \<Rightarrow> token_id \<Rightarrow> u32 list \<Rightarrow> bool list \<Rightarrow> 'k \<Rightarrow> int \<times> 'k" where
  "AddNativePermToKernel pk tokenID opCodeList statusList k =
     (if length opCodeList \<noteq> length statusList then (ERR_PARAM_INVALID, k)
      else
        (let grantedPermList = map fst (filter snd (zip opCodeList statusList));
             (ret, k1) = AddPermissionToKernel pk tokenID grantedPermList k in
         if ret \<noteq> ACCESS_TOKEN_OK then AddPermissionToKernel pk tokenID grantedPermList k1 else (ret, k1)))"

definition AddHapPermDataToKernel :: "'k perm_kernel \<Rightarrow> token_id \<Rightarrow> BriefPermData list \<Rightarrow> 'k \<Rightarrow> int \<times> 'k" where
  "AddHapPermDataToKernel pk tokenID permBriefDataList k =
     AddHapPermToKernel pk tokenID
       (map (\<lambda>d. ucast (bp_permCode d)) (filter (\<lambda>d. bp_status d = PERMISSION_GRANTED) permBriefDataList)) k"

definition GetPermFromKernel :: "'k perm_kernel \<Rightarrow> token_id \<Rightarrow> u32 \<Rightarrow> 'k \<Rightarrow> int \<times> bool \<times> 'k" where
  "GetPermFromKernel pk tokenID permCode k = GetPermissionFromKernel pk tokenID (sint permCode) k"

definition RemovePermFromKernel :: "'k perm_kernel \<Rightarrow> token_id \<Rightarrow> 'k \<Rightarrow> int \<times> 'k" where
  "RemovePermFromKernel pk tokenID k =
     (let (ret, k1) = RemovePermissionFromKernel pk tokenID k in
      if ret = RET_SUCCESS then (ret, k1) else RemovePermissionFromKernel pk tokenID k1)"

definition SetPermToKernel :: "'k perm_kernel \<Rightarrow> perm_table \<Rightarrow> token_id \<Rightarrow> string \<Rightarrow> bool \<Rightarrow> 'k \<Rightarrow> 'k" where
  "SetPermToKernel pk tbl tokenID permissionName isGranted k =
     (case TransferPermissionToOpcode tbl permissionName of
        None \<Rightarrow> k
      | Some code \<Rightarrow> snd (SetPermissionToKernel pk tokenID (sint code) isGranted k))"

text \<open>The two static flags: whether the answer of the kernel is known, and the answer.\<close>

definition IsKernelSupportSpm :: "'k perm_kernel \<Rightarrow> bool \<times> bool \<Rightarrow> 'k \<Rightarrow> bool \<times> (bool \<times> bool) \<times> 'k" where
  "IsKernelSupportSpm pk cached k =
     (let (hasChecked, isSupportSpm) = cached in
      if hasChecked then (isSupportSpm, cached, k)
      else
        (let (ret, k1) = SpmGetVersion pk k; isSupported = (ret = RET_SUCCESS) in
         if ret \<noteq> RET_SUCCESS \<and> ret \<noteq> ENOTSUP then (isSupported, cached, k1)
         else (isSupported, (True, isSupported), k1)))"

end
