(* ===== verification/Kernel_Laws.thy ===== *)
theory Kernel_Laws
  imports Kernel_Permissions
begin

text \<open>
  What the kernel promises about the permission bitmaps (\<open>kernel_laws\<close>, over an abstraction of its state to
  the granted codes of each token), that a list of codes and its bitmap determine each other, and what each
  operation of \<open>PermissionKernelUtils\<close> does to the abstract kernel. \<open>mem_kernel\<close> is a device that keeps the
  promises.
\<close>

section \<open>What the kernel promises\<close>

text \<open>For an abstraction \<open>kabs\<close> of the kernel, the granted codes of each token: a request that returns an
  error sets \<open>errno\<close> and leaves the bitmaps alone, the other requests do what their names say.\<close>

definition ioctl_result :: "int \<Rightarrow> int \<Rightarrow> bool" where
  "ioctl_result ret err \<longleftrightarrow> (ret \<noteq> 0 \<longrightarrow> err \<noteq> 0)"

definition kernel_laws :: "'k perm_kernel \<Rightarrow> ('k \<Rightarrow> token_id \<Rightarrow> u32 \<Rightarrow> bool) \<Rightarrow> bool" where
  "kernel_laws pk kabs \<longleftrightarrow>
     (\<forall>k. kabs (snd (pk_open pk k)) = kabs k) \<and>
     (\<forall>t perm k ret err k'. pk_add_permissions pk t perm k = (ret, err, k') \<longrightarrow> ioctl_result ret err \<and>
        kabs k' = (if ret = 0 then (kabs k)(t := \<lambda>c. unat c < 2048 \<and> bit (perm ! (unat c div 32)) (unat c mod 32))
                   else kabs k)) \<and>
     (\<forall>t k ret err k'. pk_remove_permissions pk t k = (ret, err, k') \<longrightarrow> ioctl_result ret err \<and>
        kabs k' = (if ret = 0 then (kabs k)(t := \<lambda>_. False) else kabs k)) \<and>
     (\<forall>t c g k ret err k'. pk_set_permission pk t c g k = (ret, err, k') \<longrightarrow> ioctl_result ret err \<and>
        kabs k' = (if ret = 0 then (kabs k)(t := (kabs k t)(c := g)) else kabs k)) \<and>
     (\<forall>t c k ret err k'. pk_get_permission pk t c k = (ret, err, k') \<longrightarrow> ioctl_result ret err \<and>
        kabs k' = kabs k \<and> (0 \<le> ret \<longrightarrow> (ret = 1 \<longleftrightarrow> kabs k t c))) \<and>
     (\<forall>t k ret err data k'. pk_get_all_permissions pk t k = (ret, err, data, k') \<longrightarrow> ioctl_result ret err \<and>
        kabs k' = kabs k \<and>
        (0 \<le> ret \<longrightarrow> (\<forall>i < 64. \<forall>j < 32. bit (data ! i) j \<longleftrightarrow> kabs k t (of_nat (i * 32 + j))))) \<and>
     (\<forall>k. kabs (snd (snd (pk_get_spm_version pk k))) = kabs k) \<and>
     (\<forall>t k. kabs (snd (snd (snd (pk_get_hap_ptokenid pk t k)))) = kabs k)"

text \<open>The laws one by one.\<close>

lemma kernel_open: "kernel_laws pk kabs \<Longrightarrow> kabs (snd (pk_open pk k)) = kabs k"
  by (simp add: kernel_laws_def)

lemma kernel_add:
  assumes "kernel_laws pk kabs" and "pk_add_permissions pk t perm k = (ret, err, k')"
  shows "ioctl_result ret err \<and>
    kabs k' = (if ret = 0 then (kabs k)(t := \<lambda>c. unat c < 2048 \<and> bit (perm ! (unat c div 32)) (unat c mod 32)) else kabs k)"
  using assms(1) [unfolded kernel_laws_def, THEN conjunct2, THEN conjunct1, THEN spec, THEN spec, THEN spec, THEN spec, THEN spec, THEN spec, THEN mp, OF assms(2)] .

lemma kernel_remove:
  assumes "kernel_laws pk kabs" and "pk_remove_permissions pk t k = (ret, err, k')"
  shows "ioctl_result ret err \<and> kabs k' = (if ret = 0 then (kabs k)(t := \<lambda>_. False) else kabs k)"
  using assms(1) [unfolded kernel_laws_def, THEN conjunct2, THEN conjunct2, THEN conjunct1, THEN spec, THEN spec, THEN spec, THEN spec, THEN spec, THEN mp, OF assms(2)] .

lemma kernel_set:
  assumes "kernel_laws pk kabs" and "pk_set_permission pk t c g k = (ret, err, k')"
  shows "ioctl_result ret err \<and> kabs k' = (if ret = 0 then (kabs k)(t := (kabs k t)(c := g)) else kabs k)"
  using assms(1) [unfolded kernel_laws_def, THEN conjunct2, THEN conjunct2, THEN conjunct2, THEN conjunct1, THEN spec, THEN spec, THEN spec, THEN spec, THEN spec, THEN spec, THEN spec, THEN mp, OF assms(2)] .

lemma kernel_get:
  assumes "kernel_laws pk kabs" and "pk_get_permission pk t c k = (ret, err, k')"
  shows "ioctl_result ret err \<and> kabs k' = kabs k \<and> (0 \<le> ret \<longrightarrow> (ret = 1 \<longleftrightarrow> kabs k t c))"
  using assms(1) [unfolded kernel_laws_def, THEN conjunct2, THEN conjunct2, THEN conjunct2, THEN conjunct2, THEN conjunct1, THEN spec, THEN spec, THEN spec, THEN spec, THEN spec, THEN spec, THEN mp, OF assms(2)] .

lemma kernel_get_all:
  assumes "kernel_laws pk kabs" and "pk_get_all_permissions pk t k = (ret, err, data, k')"
  shows "ioctl_result ret err \<and> kabs k' = kabs k \<and>
    (0 \<le> ret \<longrightarrow> (\<forall>i < 64. \<forall>j < 32. bit (data ! i) j \<longleftrightarrow> kabs k t (of_nat (i * 32 + j))))"
  using assms(1) [unfolded kernel_laws_def, THEN conjunct2, THEN conjunct2, THEN conjunct2, THEN conjunct2, THEN conjunct2, THEN conjunct1, THEN spec, THEN spec, THEN spec, THEN spec, THEN spec, THEN spec, THEN mp, OF assms(2)] .

lemma kernel_queries:
  assumes "kernel_laws pk kabs"
  shows "kabs (snd (snd (pk_get_spm_version pk k))) = kabs k" and "kabs (snd (snd (snd (pk_get_hap_ptokenid pk t k)))) = kabs k"
  using assms [unfolded kernel_laws_def, THEN conjunct2, THEN conjunct2, THEN conjunct2, THEN conjunct2, THEN conjunct2,
      THEN conjunct2] by simp_all

section \<open>Bitmaps\<close>

lemma bit_push_one: "j < 32 \<Longrightarrow> bit (2 ^ j :: u32) n \<longleftrightarrow> n = j"
  by (auto simp: bit_exp_iff)

lemma test_bit: "(w :: u32) AND 2 ^ j = 0 \<longleftrightarrow> \<not> bit w j"
  by (rule and_exp_eq_0_iff_not_bit)

lemma code_split:
  assumes "j < 32"
  shows "n = i * 32 + j \<longleftrightarrow> n div 32 = i \<and> n mod 32 = (j :: nat)"
proof
  assume "n div 32 = i \<and> n mod 32 = j"
  then show "n = i * 32 + j" using div_mult_mod_eq [of n 32] by simp
qed (use assms in simp)

lemma unat_code_of: "i < 64 \<Longrightarrow> j < 32 \<Longrightarrow> unat (of_nat (i * 32 + j) :: u32) = i * 32 + j"
  by (simp only: unsigned_of_nat of_nat_id) (rule take_bit_nat_eq_self, simp)

lemma set_perm_bits_result:
  assumes "length ps = 64"
  shows "case set_perm_bits cs ps of
      None \<Rightarrow> \<exists>c \<in> set cs. \<not> unat c < 2048
    | Some ps' \<Rightarrow> length ps' = 64 \<and> (\<forall>c \<in> set cs. unat c < 2048) \<and>
        (\<forall>i < 64. \<forall>j < 32. bit (ps' ! i) j \<longleftrightarrow> bit (ps ! i) j \<or> (\<exists>c \<in> set cs. unat c = i * 32 + j))"
  using assms
proof (induction cs arbitrary: ps)
  case (Cons c cs)
  let ?i = "unat c div 32" and ?j = "unat c mod 32"
  show ?case
  proof (cases "?i \<ge> 64")
    case False
    let ?ps = "ps[?i := ps ! ?i OR push_bit ?j 1]"
    have b: "bit (?ps ! i) j \<longleftrightarrow> bit (ps ! i) j \<or> unat c = i * 32 + j" if "i < 64" "j < 32" for i j
      using that False Cons.prems by (auto simp: nth_list_update bit_or_iff bit_push_one code_split)
    show ?thesis
      using Cons.IH [of ?ps] False Cons.prems b
      by (auto simp: Let_def split: option.split_asm option.split)
  qed auto
qed simp

lemma in_codes_of_bitmap:
  "c \<in> set (codes_of_bitmap perms) \<longleftrightarrow> (\<exists>i < 64. \<exists>j < 32. bit (perms ! i) j \<and> c = of_nat (i * 32 + j))"
proof -
  have "perms ! i \<noteq> 0" if "bit (perms ! i) j" for i j using that by auto
  then show ?thesis
    unfolding codes_of_bitmap_def
    by (auto simp: test_bit image_iff simp del: of_nat_add of_nat_mult split: if_split_asm)
qed

lemma codes_of_bitmap_set:
  "set (codes_of_bitmap perms) = {c. unat c < 2048 \<and> bit (perms ! (unat c div 32)) (unat c mod 32)}"
proof (intro set_eqI iffI)
  fix c :: u32
  assume "c \<in> set (codes_of_bitmap perms)"
  then obtain i j where ij: "i < 64" "j < 32" "bit (perms ! i) j" "c = of_nat (i * 32 + j)"
    unfolding in_codes_of_bitmap by blast
  then have "unat c = i * 32 + j" by (simp only: unat_code_of)
  with ij show "c \<in> {c. unat c < 2048 \<and> bit (perms ! (unat c div 32)) (unat c mod 32)}" by simp
next
  fix c :: u32
  assume "c \<in> {c. unat c < 2048 \<and> bit (perms ! (unat c div 32)) (unat c mod 32)}"
  then have "unat c div 32 < 64" "bit (perms ! (unat c div 32)) (unat c mod 32)" by auto
  moreover have "c = of_nat (unat c div 32 * 32 + unat c mod 32)"
    by (simp only: div_mult_mod_eq of_nat_unat ucast_id)
  moreover have "unat c mod 32 < 32" by simp
  ultimately show "c \<in> set (codes_of_bitmap perms)"
    unfolding in_codes_of_bitmap by blast
qed

lemma sorted_blocks:
  assumes "\<And>i. sorted_wrt (<) (f i)" and "\<And>i x. x \<in> set (f i) \<Longrightarrow> i * 32 \<le> x \<and> x < i * 32 + (32 :: nat)"
  shows "sorted_wrt (<) (concat (map f [0..<n])) \<and> (\<forall>x \<in> set (concat (map f [0..<n])). x < n * 32)"
proof (induction n)
  case (Suc n)
  have "x < y" if "x < n * 32" and "y \<in> set (f n)" for x y
    using that assms(2) [OF that(2)] by linarith
  moreover have "x < Suc n * 32" if "x \<in> set (f n)" for x
    using assms(2) [OF that] by simp
  moreover have "x < Suc n * 32" if "x < n * 32" for x
    using that by simp
  moreover have "concat (map f [0..<Suc n]) = concat (map f [0..<n]) @ f n" by simp
  ultimately show ?case
    using Suc assms(1) [of n] by (simp only: sorted_wrt_append set_append Un_iff ball_Un) blast
qed simp

lemma codes_of_bitmap_sorted: "sorted_wrt (<) (map unat (codes_of_bitmap perms))"
proof -
  define f where "f i = (if perms ! i = 0 then []
      else map (\<lambda>j. i * 32 + j) (filter (\<lambda>j. perms ! i AND push_bit j 1 \<noteq> 0) [0..<32]))" for i
  have inner: "map (\<lambda>j. unat (of_nat (i * 32 + j) :: u32)) (filter P [0..<32]) = map (\<lambda>j. i * 32 + j) (filter P [0..<32])"
    if "i < 64" for i P
    using that by (auto simp del: of_nat_add of_nat_mult intro!: unat_code_of)
  have "map unat (codes_of_bitmap perms) = concat (map f [0..<64])"
    unfolding codes_of_bitmap_def map_concat map_map comp_def if_distrib [of "map unat"] f_def
    by (rule arg_cong [where f = concat], rule map_cong [OF refl]) (simp only: inner set_upt atLeastLessThan_iff list.map split: if_split)
  moreover have "sorted_wrt (<) (f i)" for i
    unfolding f_def sorted_wrt_map by (simp add: sorted_wrt_map sorted_wrt_filter)
  moreover have "i * 32 \<le> x \<and> x < i * 32 + 32" if "x \<in> set (f i)" for i x
    using that by (auto simp: f_def split: if_split_asm)
  ultimately show ?thesis using sorted_blocks [of f 64] by simp
qed

section \<open>The wrappers on the abstract kernel\<close>

lemma replicate_bits: "i < 64 \<Longrightarrow> \<not> bit (replicate 64 (0 :: u32) ! i) j"
  by simp

lemma c_add_abs:
  assumes "kernel_laws pk kabs" and "length perms = 64"
    and "c_AddPermissionToKernel pk t (Some perms) 256 k = (ret, k')"
  shows "kabs k' = (if ret = 0
    then (kabs k)(t := \<lambda>c. unat c < 2048 \<and> bit (perms ! (unat c div 32)) (unat c mod 32)) else kabs k)"
proof -
  have p: "map ((!) perms) [0..<64] = perms" using map_nth [of perms] assms(2) by simp
  obtain opened k1 where o: "pk_open pk k = (opened, k1)" by fastforce
  have k1: "kabs k1 = kabs k" using kernel_open [OF assms(1), of k] o by simp
  obtain r e k2 where a: "pk_add_permissions pk t perms k1 = (r, e, k2)" using prod_cases3 by blast
  show ?thesis
    using assms(3) kernel_add [OF assms(1) a] k1 p
    by (auto simp: c_AddPermissionToKernel_def o a Let_def ioctl_result_def split: if_split_asm)
qed

lemma AddPermissionToKernel_abs:
  assumes "kernel_laws pk kabs" and "AddPermissionToKernel pk t codes k = (ret, k')"
  shows "ret = 0 \<Longrightarrow> list_all (\<lambda>c. unat c < 2048) codes \<and> kabs k' = (kabs k)(t := \<lambda>c. c \<in> set codes)"
    and "ret \<noteq> 0 \<Longrightarrow> kabs k' = kabs k"
proof -
  note r = set_perm_bits_result [of "replicate 64 0" codes]
  have "(ret = 0 \<longrightarrow> list_all (\<lambda>c. unat c < 2048) codes \<and> kabs k' = (kabs k)(t := \<lambda>c. c \<in> set codes)) \<and>
    (ret \<noteq> 0 \<longrightarrow> kabs k' = kabs k)"
  proof (cases "set_perm_bits codes (replicate 64 0)")
    case None
    then show ?thesis using assms(2) by (auto simp: AddPermissionToKernel_def)
  next
    case (Some ps)
    have ps: "length ps = 64" and lt: "\<forall>c \<in> set codes. unat c < 2048"
      and b: "\<And>i j. i < 64 \<Longrightarrow> j < 32 \<Longrightarrow> bit (ps ! i) j \<longleftrightarrow> (\<exists>c \<in> set codes. unat c = i * 32 + j)"
      using r Some by auto
    have "(unat c < 2048 \<and> bit (ps ! (unat c div 32)) (unat c mod 32)) = (c \<in> set codes)" for c
    proof -
      have "bit (ps ! (unat c div 32)) (unat c mod 32) \<longleftrightarrow> (\<exists>d \<in> set codes. unat d = unat c)" if "unat c < 2048"
        using b [of "unat c div 32" "unat c mod 32"] that by (simp add: div_mult_mod_eq)
      then show ?thesis using lt by (auto dest: unsigned_word_eqI)
    qed
    then show ?thesis
      using assms(2) Some c_add_abs [OF assms(1) ps, of t k ret k'] lt
      by (auto simp: AddPermissionToKernel_def list_all_iff)
  qed
  then show "ret = 0 \<Longrightarrow> list_all (\<lambda>c. unat c < 2048) codes \<and> kabs k' = (kabs k)(t := \<lambda>c. c \<in> set codes)"
    and "ret \<noteq> 0 \<Longrightarrow> kabs k' = kabs k" by simp_all
qed

text \<open>The second attempt after a failure changes nothing in the contract.\<close>

lemma AddHapPermToKernel_abs:
  assumes "kernel_laws pk kabs" and "AddHapPermToKernel pk t codes k = (ret, k')"
  shows "ret = 0 \<Longrightarrow> list_all (\<lambda>c. unat c < 2048) codes \<and> kabs k' = (kabs k)(t := \<lambda>c. c \<in> set codes)"
    and "ret \<noteq> 0 \<Longrightarrow> kabs k' = kabs k"
proof -
  obtain r k1 where a: "AddPermissionToKernel pk t codes k = (r, k1)" by fastforce
  obtain r2 k2 where b: "AddPermissionToKernel pk t codes k1 = (r2, k2)" by fastforce
  note ab = AddPermissionToKernel_abs [OF assms(1) a] AddPermissionToKernel_abs [OF assms(1) b]
  show "ret = 0 \<Longrightarrow> list_all (\<lambda>c. unat c < 2048) codes \<and> kabs k' = (kabs k)(t := \<lambda>c. c \<in> set codes)"
    and "ret \<noteq> 0 \<Longrightarrow> kabs k' = kabs k"
    using assms(2) ab by (auto simp: AddHapPermToKernel_def a b split: if_split_asm)
qed

lemma RemovePermissionFromKernel_abs:
  assumes "kernel_laws pk kabs" and "RemovePermissionFromKernel pk t k = (ret, k')"
  shows "kabs k' = (if ret = 0 then (kabs k)(t := \<lambda>_. False) else kabs k)"
proof -
  obtain opened k1 where o: "pk_open pk k = (opened, k1)" by fastforce
  have k1: "kabs k1 = kabs k" using kernel_open [OF assms(1), of k] o by simp
  obtain r e k2 where a: "pk_remove_permissions pk t k1 = (r, e, k2)" using prod_cases3 by blast
  show ?thesis
    using assms(2) kernel_remove [OF assms(1) a] k1
    by (auto simp: RemovePermissionFromKernel_def c_RemovePermissionFromKernel_def o a ioctl_result_def split: if_split_asm)
qed

lemma RemovePermFromKernel_abs:
  assumes "kernel_laws pk kabs" and "RemovePermFromKernel pk t k = (ret, k')"
  shows "kabs k' = (if ret = 0 then (kabs k)(t := \<lambda>_. False) else kabs k)"
proof -
  obtain r k1 where a: "RemovePermissionFromKernel pk t k = (r, k1)" by fastforce
  obtain r2 k2 where b: "RemovePermissionFromKernel pk t k1 = (r2, k2)" by fastforce
  show ?thesis
    using assms(2) RemovePermissionFromKernel_abs [OF assms(1) a] RemovePermissionFromKernel_abs [OF assms(1) b]
    by (auto simp: RemovePermFromKernel_def a b split: if_split_asm)
qed

lemma SetPermissionToKernel_abs:
  assumes "kernel_laws pk kabs" and "SetPermissionToKernel pk t (sint code) g k = (ret, k')"
  shows "kabs k' = (if ret = 0 then (kabs k)(t := (kabs k t)(code := g)) else kabs k)"
proof -
  obtain opened k1 where o: "pk_open pk k = (opened, k1)" by fastforce
  have k1: "kabs k1 = kabs k" using kernel_open [OF assms(1), of k] o by simp
  obtain r e k2 where a: "pk_set_permission pk t code g k1 = (r, e, k2)" using prod_cases3 by blast
  show ?thesis
    using assms(2) kernel_set [OF assms(1) a] k1
    by (auto simp: SetPermissionToKernel_def c_SetPermissionToKernel_def o a ioctl_result_def split: if_split_asm)
qed

lemma GetPermFromKernel_abs:
  assumes "kernel_laws pk kabs" and "GetPermFromKernel pk t code k = (ret, granted, k')"
  shows "kabs k' = kabs k" and "ret = 0 \<Longrightarrow> granted = kabs k t code"
proof -
  obtain opened k1 where o: "pk_open pk k = (opened, k1)" by fastforce
  have k1: "kabs k1 = kabs k" using kernel_open [OF assms(1), of k] o by simp
  obtain r e k2 where a: "pk_get_permission pk t code k1 = (r, e, k2)" using prod_cases3 by blast
  show "kabs k' = kabs k" and "ret = 0 \<Longrightarrow> granted = kabs k t code"
    using assms(2) kernel_get [OF assms(1) a] k1
    by (auto simp: GetPermFromKernel_def GetPermissionFromKernel_def c_GetPermissionFromKernel_def o a ioctl_result_def
        split: if_split_asm)
qed

lemma GetPermissionsFromKernel_abs:
  assumes "kernel_laws pk kabs" and "GetPermissionsFromKernel pk t k = (ret, codes, k')"
  shows "kabs k' = kabs k" and "ret = 0 \<Longrightarrow> set codes = {c. unat c < 2048 \<and> kabs k t c}"
    and "sorted_wrt (<) (map unat codes)"
proof -
  obtain opened k1 where o: "pk_open pk k = (opened, k1)" by fastforce
  have k1: "kabs k1 = kabs k" using kernel_open [OF assms(1), of k] o by simp
  obtain r e d k2 where a: "pk_get_all_permissions pk t k1 = (r, e, d, k2)" using prod_cases4 by blast
  note g = kernel_get_all [OF assms(1) a]
  have m: "map ((!) d) [0..<64] ! i = d ! i" if "i < 64" for i using that by (simp del: upt_rec_numeral)
  have s: "set (codes_of_bitmap (map ((!) d) [0..<64])) = {c. unat c < 2048 \<and> kabs k t c}" if "0 \<le> r"
  proof -
    have "bit (d ! (unat c div 32)) (unat c mod 32) \<longleftrightarrow> kabs k t c" if "unat c < 2048" for c :: u32
    proof -
      have "of_nat (unat c div 32 * 32 + unat c mod 32) = c"
        by (simp only: div_mult_mod_eq of_nat_unat ucast_id)
      moreover have "bit (d ! (unat c div 32)) (unat c mod 32)
          \<longleftrightarrow> kabs k1 t (of_nat (unat c div 32 * 32 + unat c mod 32))"
        using g \<open>0 \<le> r\<close> that by (simp del: of_nat_add of_nat_mult)
      ultimately show ?thesis using k1 by simp
    qed
    then show ?thesis unfolding codes_of_bitmap_set using m by auto
  qed
  show "kabs k' = kabs k" and "ret = 0 \<Longrightarrow> set codes = {c. unat c < 2048 \<and> kabs k t c}"
    and "sorted_wrt (<) (map unat codes)"
    using assms(2) g k1 s codes_of_bitmap_sorted
    by (auto simp: GetPermissionsFromKernel_def c_GetPermissionsFromKernel_def o a ioctl_result_def
        simp del: upt_rec_numeral split: if_split_asm)
qed

lemma AddPermissionToKernel_out_of_range:
  "\<not> list_all (\<lambda>c. unat c < 2048) codes \<Longrightarrow> AddPermissionToKernel pk t codes k = (ACCESS_TOKEN_PARAM_INVALID, k)"
  using set_perm_bits_result [of "replicate 64 0" codes]
  by (auto simp: AddPermissionToKernel_def list_all_iff split: option.split)

section \<open>A kernel in memory\<close>

type_synonym mem_perm_kernel = "token_id \<Rightarrow> u32 \<Rightarrow> bool"

definition mem_kernel :: "mem_perm_kernel perm_kernel" where
  "mem_kernel = \<lparr>
     pk_open = (\<lambda>k. (True, k)),
     pk_add_permissions = (\<lambda>t perm k. (0, 0, k(t := \<lambda>c. unat c < 2048 \<and> bit (perm ! (unat c div 32)) (unat c mod 32)))),
     pk_remove_permissions = (\<lambda>t k. (0, 0, k(t := \<lambda>_. False))),
     pk_get_permission = (\<lambda>t c k. (if k t c then 1 else 0, 1, k)),
     pk_set_permission = (\<lambda>t c g k. if unat c < 2048 then (0, 0, k(t := (k t)(c := g))) else (- 1, 22, k)),
     pk_get_all_permissions = (\<lambda>t k. (0, 0,
        map (\<lambda>i. horner_sum of_bool 2 (map (\<lambda>j. k t (of_nat (i * 32 + j))) [0..<32])) [0..<64], k)),
     pk_get_spm_version = (\<lambda>k. (- 1, ENOTSUP, k)),
     pk_get_hap_ptokenid = (\<lambda>t k. (- 1, ENOTSUP, 0, k)) \<rparr>"

lemma mem_kernel_bit:
  "j < 32 \<Longrightarrow> bit (horner_sum of_bool 2 (map (\<lambda>j. k t (of_nat (i * 32 + j))) [0..<32]) :: u32) j
     \<longleftrightarrow> k t (of_nat (i * 32 + j))"
  by (simp add: bit_horner_sum_bit_word_iff del: upt_rec_numeral of_nat_add of_nat_mult)

lemma mem_kernel_laws: "kernel_laws mem_kernel (\<lambda>k. k)"
  unfolding kernel_laws_def
  by (intro conjI allI impI)
    (simp_all add: mem_kernel_def ioctl_result_def mem_kernel_bit del: upt_rec_numeral of_nat_add of_nat_mult split: if_split_asm)

text \<open>C21. Writing the granted permissions of a token to the kernel and reading them back
  (\<open>AddHapPermToKernel\<close>, \<open>GetPermissionsFromKernel\<close>). When the write reports success the kernel holds exactly the
  given codes for that token, whatever it held before, and the read returns them once each in increasing order.
  The codes of every other token are untouched. A code that the bitmap of 64 words cannot hold makes the write fail
  with \<open>ACCESS_TOKEN_PARAM_INVALID\<close> before the kernel is called, and no failed write changes what the kernel holds.\<close>

theorem kernel_permissions_round_trip:
  assumes "kernel_laws pk kabs"
    and "AddHapPermToKernel pk t codes k = (ret, k1)"
    and "GetPermissionsFromKernel pk t' k1 = (ACCESS_TOKEN_OK, out, k2)"
  shows "sorted_wrt (<) (map unat out) \<and>
         set out = (if ret = ACCESS_TOKEN_OK \<and> t' = t then set codes else {c. unat c < 2048 \<and> kabs k t' c}) \<and>
         (\<not> list_all (\<lambda>c. unat c < 2048) codes \<longrightarrow> ret = ACCESS_TOKEN_PARAM_INVALID \<and> k1 = k) \<and>
         (ret \<noteq> ACCESS_TOKEN_OK \<longrightarrow> kabs k1 = kabs k)"
proof (intro conjI impI)
  note g = GetPermissionsFromKernel_abs [OF assms(1,3)]
  note a = AddHapPermToKernel_abs [OF assms(1,2)]
  show "sorted_wrt (<) (map unat out)" by (rule g(3))
  show "set out = (if ret = ACCESS_TOKEN_OK \<and> t' = t then set codes else {c. unat c < 2048 \<and> kabs k t' c})"
  proof (cases "ret = ACCESS_TOKEN_OK")
    case True
    then show ?thesis using a(1) g(2) by (auto simp: list_all_iff fun_upd_def)
  next
    case False
    then show ?thesis using a(2) g(2) by simp
  qed
  assume out: "\<not> list_all (\<lambda>c. unat c < 2048) codes"
  show "ret = ACCESS_TOKEN_PARAM_INVALID" "k1 = k"
    using assms(2) by (simp_all add: AddHapPermToKernel_def AddPermissionToKernel_out_of_range [OF out])
next
  show "kabs k1 = kabs k" if "ret \<noteq> ACCESS_TOKEN_OK" using AddHapPermToKernel_abs(2) [OF assms(1,2) that] .
qed

theorem kernel_permissions_round_trip_witness:
  "set (fst (snd (GetPermissionsFromKernel mem_kernel 7
     (snd (AddHapPermToKernel mem_kernel 7 [40, 3, 2047] (\<lambda>_ _. False)))))) = {3, 40, 2047 :: u32}"
proof -
  have a: "AddHapPermToKernel mem_kernel 7 [40, 3, 2047] k
      = (ACCESS_TOKEN_OK, snd (AddHapPermToKernel mem_kernel 7 [40, 3, 2047] k))" for k
    by (simp add: AddHapPermToKernel_def AddPermissionToKernel_def c_AddPermissionToKernel_def mem_kernel_def Let_def
        del: upt_rec_numeral)
  have b: "GetPermissionsFromKernel mem_kernel 7 k
      = (ACCESS_TOKEN_OK, fst (snd (GetPermissionsFromKernel mem_kernel 7 k)), k)" for k
    by (simp add: GetPermissionsFromKernel_def c_GetPermissionsFromKernel_def mem_kernel_def del: upt_rec_numeral)
  show ?thesis
    using kernel_permissions_round_trip [OF mem_kernel_laws a [of "\<lambda>_ _. False"] b] by auto
qed

end
