(* ===== verification/Access_Monitor.thy ===== *)
theory Access_Monitor
  imports Hap_Token_Info
begin

text \<open>
  \<open>VerifyAccessTokenMonitor\<close> (\<^verbatim>\<open>verify_accesstoken_monitor.cpp\<close>): the record of callers that ask about the
  permissions of tokens that do not exist, and the time for which such a caller is denied. \<open>now\<close> is the clock in
  milliseconds. The worker thread of \<open>ReportSecurityInfoAsync\<close> keeps the lock, so its work is one step; the report
  to the security guard service is left out.
\<close>

section \<open>State\<close>

record VerifyAccessTokenRecord =
  vr_tokenID :: token_id
  vr_permissionCode :: u32
  vr_timestamp :: int

record HapTokenMonitoredInfo =
  mo_bundleName :: string
  mo_tokenAttr :: u32
  mo_isOverThreshold :: bool
  mo_lastOverThresholdTime :: int
  mo_reportNum :: int
  mo_verifyTokenRecords :: "VerifyAccessTokenRecord list"

record VerifyAccessTokenMonitor =
  monitoredHapTokenMap :: "(token_id, HapTokenMonitoredInfo) omap"
  lastReportTime :: int
  isNeedReport :: bool

definition init_monitor :: VerifyAccessTokenMonitor where
  "init_monitor = \<lparr>monitoredHapTokenMap = [], lastReportTime = 0, isNeedReport = False\<rparr>"

abbreviation VERIFY_THRESHOLD :: nat where "VERIFY_THRESHOLD \<equiv> 50"
abbreviation REPORT_THRESHOLD :: int where "REPORT_THRESHOLD \<equiv> 5"
abbreviation REPORT_TIME_WINDOW :: int where "REPORT_TIME_WINDOW \<equiv> 60 * 60 * 1000"
abbreviation MONITOR_TIME_WINDOW :: int where "MONITOR_TIME_WINDOW \<equiv> 60 * 1000"
abbreviation DENIED_TIME_WINDOW :: int where "DENIED_TIME_WINDOW \<equiv> 30 * 60 * 1000"
abbreviation MAX_RECORD_HAP_NUM_MAX :: nat where "MAX_RECORD_HAP_NUM_MAX \<equiv> 512"
abbreviation MAX_RECORD_TOKENID_NUM_MAX :: nat where "MAX_RECORD_TOKENID_NUM_MAX \<equiv> 80"

section \<open>Operations\<close>

definition IsOverThresholdByRecords :: "VerifyAccessTokenRecord list \<Rightarrow> int \<Rightarrow> bool" where
  "IsOverThresholdByRecords records currentTimeStamp =
     (if length records < VERIFY_THRESHOLD then False
      else if currentTimeStamp - vr_timestamp (records ! (length records - VERIFY_THRESHOLD)) > MONITOR_TIME_WINDOW
      then False else True)"

definition IsInPunishingTime ::
    "int \<Rightarrow> token_id \<Rightarrow> VerifyAccessTokenMonitor \<Rightarrow> bool \<times> VerifyAccessTokenMonitor" where
  "IsInPunishingTime now callerTokenId m =
     (case map_of (monitoredHapTokenMap m) callerTokenId of
        None \<Rightarrow> (False, m)
      | Some info \<Rightarrow>
          if mo_isOverThreshold info then
            (if now - mo_lastOverThresholdTime info \<le> DENIED_TIME_WINDOW then (True, m)
             else (False, m\<lparr>monitoredHapTokenMap :=
                    omap_insert callerTokenId (info\<lparr>mo_isOverThreshold := False\<rparr>) (monitoredHapTokenMap m)\<rparr>))
          else (False, m))"

definition ClearReportedRecords :: "int \<Rightarrow> HapTokenMonitoredInfo \<Rightarrow> HapTokenMonitoredInfo" where
  "ClearReportedRecords currentTimeStamp info =
     info\<lparr>mo_verifyTokenRecords :=
       dropWhile (\<lambda>r. currentTimeStamp - MONITOR_TIME_WINDOW > vr_timestamp r) (mo_verifyTokenRecords info)\<rparr>"

definition ReportSecurityInfoAsync :: "int \<Rightarrow> VerifyAccessTokenMonitor \<Rightarrow> VerifyAccessTokenMonitor" where
  "ReportSecurityInfoAsync currentTimeStamp m =
     (let cleared = map (\<lambda>(t, info). (t, ClearReportedRecords currentTimeStamp (info\<lparr>mo_reportNum := 0\<rparr>)))
                      (monitoredHapTokenMap m);
          kept = filter (\<lambda>(t, info). mo_verifyTokenRecords info \<noteq> []) cleared in
      m\<lparr>monitoredHapTokenMap := drop (length kept - (MAX_RECORD_HAP_NUM_MAX - 1)) kept,
        lastReportTime := currentTimeStamp, isNeedReport := False\<rparr>)"

text \<open>The code of an unknown permission stays 0.\<close>

definition RecordExceptionalBehavior ::
    "perm_table \<Rightarrow> int \<Rightarrow> HapTokenInfo \<Rightarrow> token_id \<Rightarrow> string \<Rightarrow> VerifyAccessTokenMonitor \<Rightarrow>
      VerifyAccessTokenMonitor" where
  "RecordExceptionalBehavior tbl now callerHapTokenInfo targetTokenID permissionName m =
     (let caller = ht_tokenID callerHapTokenInfo;
          permissionCode = (case TransferPermissionToOpcode tbl permissionName of None \<Rightarrow> 0 | Some c \<Rightarrow> c);
          rec = \<lparr>vr_tokenID = targetTokenID, vr_permissionCode = permissionCode, vr_timestamp = now\<rparr> in
      case map_of (monitoredHapTokenMap m) caller of
        None \<Rightarrow>
          (let info = \<lparr>mo_bundleName = ht_bundleName callerHapTokenInfo, mo_tokenAttr = ht_tokenAttr callerHapTokenInfo,
                       mo_isOverThreshold = False, mo_lastOverThresholdTime = 0, mo_reportNum = 1,
                       mo_verifyTokenRecords = [rec]\<rparr>;
               m1 = m\<lparr>monitoredHapTokenMap := omap_insert caller info (monitoredHapTokenMap m)\<rparr> in
           if length (monitoredHapTokenMap m1) \<ge> MAX_RECORD_HAP_NUM_MAX then ReportSecurityInfoAsync now m1 else m1)
      | Some info \<Rightarrow>
          (let records = mo_verifyTokenRecords info;
               full = length records \<ge> MAX_RECORD_TOKENID_NUM_MAX;
               records1 = (if full then drop 1 records else records);
               reportNum1 = (if full \<and> vr_timestamp (hd records) \<ge> lastReportTime m
                             then mo_reportNum info - 1 else mo_reportNum info);
               records2 = records1 @ [rec];
               info1 = info\<lparr>mo_verifyTokenRecords := records2, mo_reportNum := reportNum1 + 1\<rparr>;
               info2 = (if IsOverThresholdByRecords records2 now
                        then info1\<lparr>mo_isOverThreshold := True, mo_lastOverThresholdTime := now\<rparr> else info1) in
           m\<lparr>monitoredHapTokenMap := omap_insert caller info2 (monitoredHapTokenMap m),
             isNeedReport := (isNeedReport m \<or> mo_reportNum info2 \<ge> REPORT_THRESHOLD)\<rparr>))"

definition ReportExceptionalAccessTokenUsage :: "int \<Rightarrow> VerifyAccessTokenMonitor \<Rightarrow> VerifyAccessTokenMonitor" where
  "ReportExceptionalAccessTokenUsage now m =
     (if \<not> isNeedReport m \<or> now - lastReportTime m < REPORT_TIME_WINDOW \<or> monitoredHapTokenMap m = [] then m
      else ReportSecurityInfoAsync now m)"

section \<open>Bounded records\<close>

definition monitor_ok :: "VerifyAccessTokenMonitor \<Rightarrow> bool" where
  "monitor_ok m \<longleftrightarrow>
     omap_ok (monitoredHapTokenMap m) \<and> length (monitoredHapTokenMap m) < MAX_RECORD_HAP_NUM_MAX \<and>
     (\<forall>(t, info) \<in> set (monitoredHapTokenMap m). mo_verifyTokenRecords info \<noteq> [] \<and>
        length (mo_verifyTokenRecords info) \<le> MAX_RECORD_TOKENID_NUM_MAX)"

end
