(* ===== verification/Atm_State.thy ===== *)
theory Atm_State
  imports Id_Manager User_Policy Kernel_Permissions Access_Monitor
begin

text \<open>
  The state of the token service and what a call to it sees of its surroundings. \<open>atm\<close> holds the containers of
  \<open>AccessTokenInfoManager\<close>, \<open>AccessTokenRemoteTokenManager\<close>, \<open>TempPermissionObserver\<close> and \<open>ShortGrantManager\<close>, the
  stores of the other components, the database, the kernel, the delayed tasks and the notifications sent so far.
  Its first map is keyed by \<open>int\<close> in the source: a token id is converted to a signed number. The objects behind
  shared pointers are values of the maps; a local pointer is a copy that is written back, and the destructor runs
  where the last pointer goes out of scope. A call runs without interference.

  \<open>atm_env\<close> is the environment of one call: the database driver, the permission table, the kernel device, the
  permissions with a DLP mode, the clock (in milliseconds, and in seconds for short grants), the random numbers, the
  caller, what the application, form and background-task services answer, and whether the service is built with
  \<open>TEMP_PERMISSION_BACKGROUND_REVOKE_CAMERA_MIC_ENABLE\<close>. The utilities of
  \<^verbatim>\<open>accesstoken_info_utils.cpp\<close> and the mapping of remote tokens
  (\<^verbatim>\<open>accesstoken_remote_token_manager.cpp\<close>) are here too.
\<close>

section \<open>State\<close>

abbreviation ERR_TOKEN_MAP_FAILED :: ret where "ERR_TOKEN_MAP_FAILED \<equiv> 12100003"
abbreviation ERR_DEVICE_NOT_EXIST :: ret where "ERR_DEVICE_NOT_EXIST \<equiv> 12100014"
abbreviation ERR_BUNDLE_NOT_EXIST :: ret where "ERR_BUNDLE_NOT_EXIST \<equiv> 12100047"
abbreviation ERR_IOCTL_UNSUPPORT :: ret where "ERR_IOCTL_UNSUPPORT \<equiv> 12100301"

record NativeTokenInfoBase =
  nb_apl :: ATokenAplEnum
  nb_ver :: u8
  nb_uid :: int
  nb_processName :: string
  nb_dcap :: "string list"
  nb_tokenID :: token_id
  nb_tokenAttr :: u32
  nb_nativeAcls :: "string list"
  nb_permStateList :: "PermissionStatus list"

record NativeTokenInfoCache =
  nc_apl :: ATokenAplEnum
  nc_processName :: string
  nc_opCodeList :: "u16 list"

record TempPermissionObserver =
  tempPermTokenMap :: "(token_id, bool \<times> bool) omap"
  tempPermPermissionMap :: "(token_id, string set) omap"
  continuousTaskIdMap :: "(token_id, (int, u32 list) omap) omap"
  formTokenMap :: "(string, token_id) omap"
  cancelTimes :: int

record PermTimerData =
  pt_tokenID :: token_id
  pt_permissionName :: string
  pt_firstGrantTimes :: u32
  pt_revokeTimes :: u32

record revoke_task =
  rt_name :: string
  rt_tokenID :: token_id
  rt_permissionName :: string
  rt_delay :: int

datatype atm_event =
    ExecuteCallbackAsync token_id string bool
  | ParamUpdate string u32 bool
  | ParamFlagUpdate
  | NotifyTokenModify token_id
  | NotifyTokenDelete token_id
  | KillProcessForPermissionUpdate token_id

record ('s, 'k) atm =
  hapTokenInfoMap :: "(int, HapTokenInfoInner) omap"
  hapTokenIdMap :: "(string, token_id) omap"
  bundleInfoMap :: "(string, BundleInfoInner) omap"
  reservedHapTokenIdMap :: "(string, token_id) omap"
  nativeTokenInfoMap :: "(token_id, NativeTokenInfoCache) omap"
  remoteDeviceMap :: "(string, (token_id, token_id) omap) omap"
  brief :: PermissionDataBrief
  ids :: IdManager
  policies :: UserPolicyRecords
  monitor :: VerifyAccessTokenMonitor
  tempObserver :: TempPermissionObserver
  tempTasks :: "revoke_task list"
  shortGrantData :: "PermTimerData list"
  shortTasks :: "revoke_task list"
  database :: "'s AccessTokenDb"
  kernel :: 'k
  spmChecked :: "bool \<times> bool"
  events :: "atm_event list"

record continuous_task =
  ct_fullTokenId :: u64
  ct_taskId :: int
  ct_typeIds :: "u32 list"

record ('s, 't, 'r, 'k) atm_env =
  ae_ops :: "('s, 't, 'r) rdb_ops"
  ae_table :: perm_table
  ae_kernel :: "'k perm_kernel"
  ae_dlpModes :: "(string, int) omap"
  ae_now :: int
  ae_seconds :: u32
  ae_random :: "nat \<Rightarrow> u32"
  ae_callingFullTokenID :: u64
  ae_callingUid :: int
  ae_foreground :: "token_id list"
  ae_formVisible :: "token_id \<Rightarrow> bool"
  ae_continuousTasks :: "continuous_task list"
  ae_revokeCameraMic :: bool

abbreviation notify :: "atm_event \<Rightarrow> ('s, 'k) atm \<Rightarrow> ('s, 'k) atm" where
  "notify e w \<equiv> w\<lparr>events := events w @ [e]\<rparr>"

text \<open>\<open>AccessTokenDbOperator\<close>: the reading loop of \<open>Find\<close> ends for every finite result, see \<open>find_reads_all_rows\<close>.\<close>

definition DbFind ::
    "('s, 't, 'r, 'k) atm_env \<Rightarrow> AtmDataType \<Rightarrow> GenericValues \<Rightarrow> ('s, 'k) atm \<Rightarrow>
      int \<times> GenericValues list \<times> ('s, 'k) atm" where
  "DbFind E type conditionValue w =
     (let (res, results, d) = the (Find (ae_ops E) type conditionValue (database w)) in (res, results, w\<lparr>database := d\<rparr>))"

definition DbFindIn ::
    "('s, 't, 'r, 'k) atm_env \<Rightarrow> AtmDataType \<Rightarrow> string \<Rightarrow> VariantValue list \<Rightarrow> ('s, 'k) atm \<Rightarrow>
      int \<times> GenericValues list \<times> ('s, 'k) atm" where
  "DbFindIn E type column vs w =
     (let (res, results, d) = the (FindIn (ae_ops E) type column vs (database w)) in (res, results, w\<lparr>database := d\<rparr>))"

definition DbModify ::
    "('s, 't, 'r, 'k) atm_env \<Rightarrow> AtmDataType \<Rightarrow> GenericValues \<Rightarrow> GenericValues \<Rightarrow> ('s, 'k) atm \<Rightarrow>
      ret \<times> ('s, 'k) atm" where
  "DbModify E type modifyValue conditionValue w =
     (let (res, d) = Modify (ae_ops E) type modifyValue conditionValue (database w) in (res, w\<lparr>database := d\<rparr>))"

definition DbDeleteAndInsertValues ::
    "('s, 't, 'r, 'k) atm_env \<Rightarrow> DelInfo list \<Rightarrow> AddInfo list \<Rightarrow> ('s, 'k) atm \<Rightarrow> ret \<times> ('s, 'k) atm" where
  "DbDeleteAndInsertValues E delInfoVec addInfoVec w =
     (let (res, d) = DeleteAndInsertValues (ae_ops E) delInfoVec addInfoVec (database w) in (res, w\<lparr>database := d\<rparr>))"

section \<open>Utilities\<close>

definition IsSystemResource :: "string \<Rightarrow> bool" where
  "IsSystemResource bundleName \<longleftrightarrow> ''ohos.global.systemres'' = bundleName"

definition CheckSpecifiedFlag :: "u32 \<Rightarrow> u32 \<Rightarrow> bool" where
  "CheckSpecifiedFlag tokenAttr flag \<longleftrightarrow> tokenAttr AND flag \<noteq> 0"

definition GetHapUniqueStr :: "int \<Rightarrow> string \<Rightarrow> int \<Rightarrow> string" where
  "GetHapUniqueStr userID bundleName instIndex =
     bundleName @ ''&'' @ to_string userID @ ''&'' @ to_string instIndex"

definition hap_unique_str :: "HapTokenInfoInner \<Rightarrow> string" where
  "hap_unique_str info =
     GetHapUniqueStr (ht_userID (hi_basic info)) (ht_bundleName (hi_basic info)) (ht_instIndex (hi_basic info))"

definition GenerateAddInfoToVec :: "AtmDataType \<Rightarrow> GenericValues list \<Rightarrow> AddInfo list \<Rightarrow> AddInfo list" where
  "GenerateAddInfoToVec type vs addInfoVec = addInfoVec @ [\<lparr>addType = type, addValues = vs\<rparr>]"

definition GenerateDelInfoToVec :: "AtmDataType \<Rightarrow> GenericValues \<Rightarrow> DelInfo list \<Rightarrow> DelInfo list" where
  "GenerateDelInfoToVec type v delInfoVec = delInfoVec @ [\<lparr>delType = type, delValue = v\<rparr>]"

definition AddTokenIdToUndefValues :: "token_id \<Rightarrow> GenericValues list \<Rightarrow> GenericValues list" where
  "AddTokenIdToUndefValues tokenId undefValues = map (PutInt FIELD_TOKEN_ID (sint tokenId)) undefValues"

text \<open>\<open>ReservedType\<close> is kept as its number, \<open>NONE\<close> is 0 (built with \<open>SPM_DATA_ENABLE\<close>).\<close>

definition GetReservedTokenTypeDBValue :: "GenericValues \<Rightarrow> int" where
  "GetReservedTokenTypeDBValue vs = GetInt vs FIELD_RESERVED"

section \<open>Remote tokens\<close>

definition MapRemoteDeviceTokenToLocal ::
    "('s, 't, 'r, 'k) atm_env \<Rightarrow> string \<Rightarrow> token_id \<Rightarrow> ('s, 'k) atm \<Rightarrow> token_id \<times> ('s, 'k) atm" where
  "MapRemoteDeviceTokenToLocal E deviceID remoteID w =
     (if \<not> IsDeviceIdValid deviceID \<or> \<not> IsTokenIDValid remoteID then (0, w)
      else
        (let tokeType = GetTokenIdTypeEnum remoteID in
         if tokeType = TOKEN_INVALID \<or> tokeType = TOKEN_TYPE_BUTT then (0, w)
         else
           (let device = (case map_of (remoteDeviceMap w) deviceID of None \<Rightarrow> [] | Some m \<Rightarrow> m) in
            case map_of device remoteID of
              Some mapID \<Rightarrow> (mapID, w)
            | None \<Rightarrow>
                (let (mapID, ids') = CreateAndRegisterTokenId (ae_random E) tokeType (GetTokenIdDlpFlag remoteID)
                       (GetTokenIdCloneFlag remoteID) (if IsToolTokenId remoteID then 1 else 0) (ids w);
                     device' = (if mapID = 0 then device else omap_emplace remoteID mapID device) in
                 (mapID, w\<lparr>ids := ids', remoteDeviceMap := omap_insert deviceID device' (remoteDeviceMap w)\<rparr>)))))"

definition GetDeviceAllRemoteTokenID :: "string \<Rightarrow> ('s, 'k) atm \<Rightarrow> ret \<times> token_id list" where
  "GetDeviceAllRemoteTokenID deviceID w =
     (if \<not> IsDeviceIdValid deviceID then (ERR_PARAM_INVALID, [])
      else (case map_of (remoteDeviceMap w) deviceID of
              None \<Rightarrow> (ERR_DEVICE_NOT_EXIST, [])
            | Some device \<Rightarrow> (RET_SUCCESS, map fst device)))"

definition GetDeviceMappingTokenID :: "string \<Rightarrow> token_id \<Rightarrow> ('s, 'k) atm \<Rightarrow> token_id" where
  "GetDeviceMappingTokenID deviceID remoteID w =
     (if \<not> IsDeviceIdValid deviceID \<or> \<not> IsTokenIDValid remoteID then 0
      else (case map_of (remoteDeviceMap w) deviceID of
              None \<Rightarrow> 0
            | Some device \<Rightarrow> (case map_of device remoteID of None \<Rightarrow> 0 | Some mapID \<Rightarrow> mapID)))"

definition RemoveDeviceMappingTokenID :: "string \<Rightarrow> token_id \<Rightarrow> ('s, 'k) atm \<Rightarrow> ret \<times> ('s, 'k) atm" where
  "RemoveDeviceMappingTokenID deviceID remoteID w =
     (if \<not> IsDeviceIdValid deviceID \<or> \<not> IsTokenIDValid remoteID then (ERR_PARAM_INVALID, w)
      else
        (case map_of (remoteDeviceMap w) deviceID of
           None \<Rightarrow> (ERR_TOKEN_MAP_FAILED, w)
         | Some device \<Rightarrow>
             (case map_of device remoteID of
                None \<Rightarrow> (ERR_TOKEN_MAP_FAILED, w)
              | Some mapID \<Rightarrow>
                  (let device' = omap_erase remoteID device in
                   (RET_SUCCESS,
                    w\<lparr>ids := ReleaseTokenId mapID (ids w),
                      remoteDeviceMap :=
                        (if device' = [] then omap_erase deviceID (remoteDeviceMap w)
                         else omap_insert deviceID device' (remoteDeviceMap w))\<rparr>)))))"

end
