(* ===== verification/Info_Manager.thy ===== *)
theory Info_Manager
  imports Atm_State
begin

text \<open>
  The life cycle of tokens in \<open>AccessTokenInfoManager\<close> (\<^verbatim>\<open>accesstoken_info_manager.cpp\<close>): the caches and
  their restoration from the database, creation, update and removal of application tokens, reserved ids, native
  tokens. Reports to the event log, the start-up sequence around the configuration loader and the check for an empty
  database file are left out.
\<close>

section \<open>Caches\<close>

definition hap_at :: "('s, 'k) atm \<Rightarrow> token_id \<Rightarrow> HapTokenInfoInner option" where
  "hap_at w t = map_of (hapTokenInfoMap w) (sint t)"

definition put_hap :: "token_id \<Rightarrow> HapTokenInfoInner \<Rightarrow> ('s, 'k) atm \<Rightarrow> ('s, 'k) atm" where
  "put_hap t h w = w\<lparr>hapTokenInfoMap := omap_insert (sint t) h (hapTokenInfoMap w)\<rparr>"

definition destroy_hap :: "HapTokenInfoInner \<Rightarrow> ('s, 'k) atm \<Rightarrow> ('s, 'k) atm" where
  "destroy_hap h w = w\<lparr>brief := HapTokenInfoInner_destroy h (brief w)\<rparr>"

text \<open>Assignment of a new object to a map entry ends the life of the old one.\<close>

definition assign_hap :: "token_id \<Rightarrow> HapTokenInfoInner \<Rightarrow> ('s, 'k) atm \<Rightarrow> ('s, 'k) atm" where
  "assign_hap t h w = put_hap t h (case hap_at w t of None \<Rightarrow> w | Some old \<Rightarrow> destroy_hap old w)"

definition GetBundleInfoInner :: "string \<Rightarrow> ('s, 'k) atm \<Rightarrow> BundleInfoInner option" where
  "GetBundleInfoInner bundleName w = (if bundleName = [] then None else map_of (bundleInfoMap w) bundleName)"

definition UpsertBundleInfoInnerCache :: "string \<Rightarrow> BundleInfoInner option \<Rightarrow> ('s, 'k) atm \<Rightarrow> ('s, 'k) atm" where
  "UpsertBundleInfoInnerCache bundleName bundleInfo w =
     (case bundleInfo of
        None \<Rightarrow> w
      | Some b \<Rightarrow> if bundleName = [] then w
                  else w\<lparr>bundleInfoMap := omap_insert bundleName b (bundleInfoMap w)\<rparr>)"

definition AddTokenIdToBundleInfoInner :: "token_id \<Rightarrow> BundleInfoInner \<Rightarrow> BundleInfoInner" where
  "AddTokenIdToBundleInfoInner tokenId b =
     (if tokenId \<in> set (bi_tokenIds b) then b else b\<lparr>bi_tokenIds := bi_tokenIds b @ [tokenId]\<rparr>)"

definition RemoveTokenIdFromBundleInfoInner :: "token_id \<Rightarrow> BundleInfoInner \<Rightarrow> BundleInfoInner" where
  "RemoveTokenIdFromBundleInfoInner tokenId b = b\<lparr>bi_tokenIds := filter (\<lambda>t. t \<noteq> tokenId) (bi_tokenIds b)\<rparr>"

definition BuildBundleInfoWithoutToken :: "BundleInfoInner option \<Rightarrow> token_id \<Rightarrow> BundleInfoInner option" where
  "BuildBundleInfoWithoutToken bundleInfo tokenId =
     map_option (\<lambda>b. b\<lparr>bi_tokenIds := filter (\<lambda>t. t \<noteq> tokenId) (bi_tokenIds b)\<rparr>) bundleInfo"

definition erase_unique_key :: "HapTokenInfoInner \<Rightarrow> token_id \<Rightarrow> ('s, 'k) atm \<Rightarrow> ('s, 'k) atm" where
  "erase_unique_key h tokenID w =
     (if map_of (hapTokenIdMap w) (hap_unique_str h) = Some tokenID
      then w\<lparr>hapTokenIdMap := omap_erase (hap_unique_str h) (hapTokenIdMap w)\<rparr> else w)"

record HapTokenRestoreData =
  rd_hapTokenInfoItem :: HapTokenInfoItem
  rd_requestedPermData :: "BriefPermData list"
  rd_extendedPermList :: "PermissionWithValue list"

definition restore_one :: "('s, 't, 'r, 'k) atm_env \<Rightarrow> HapTokenRestoreData \<Rightarrow> ('s, 'k) atm \<Rightarrow> ('s, 'k) atm" where
  "restore_one E d w =
     (let t = ti_tokenId (rd_hapTokenInfoItem d); h = HapTokenInfoInner_item (rd_hapTokenInfoItem d);
          w1 = assign_hap t h w;
          w2 = w1\<lparr>hapTokenIdMap := omap_insert (hap_unique_str h) t (hapTokenIdMap w1)\<rparr> in
      w2\<lparr>brief := ReplaceBriefPermDataByTokenId (ae_table E) t (rd_requestedPermData d) (rd_extendedPermList d)
                   (brief w2)\<rparr>)"

definition RestoreHapCache ::
    "('s, 't, 'r, 'k) atm_env \<Rightarrow> string \<Rightarrow> BundleInfoInner option \<Rightarrow> HapTokenRestoreData list \<Rightarrow>
      ('s, 'k) atm \<Rightarrow> ('s, 'k) atm" where
  "RestoreHapCache E bundleName bundleInfo tokenRestoreDataList w =
     UpsertBundleInfoInnerCache bundleName bundleInfo (foldl (\<lambda>w d. restore_one E d w) w tokenRestoreDataList)"

text \<open>Where the bundle entry passed in is the object already in the map, merging its own token ids changes nothing.\<close>

definition CommitCreateHapCache ::
    "('s, 't, 'r, 'k) atm_env \<Rightarrow> HapTokenInfo \<Rightarrow> BriefPermData list \<Rightarrow> PermissionWithValue list \<Rightarrow>
      BundleInfoInner option \<Rightarrow> ('s, 'k) atm \<Rightarrow> ('s, 'k) atm" where
  "CommitCreateHapCache E hapInfo briefPermData aclExtendedList bundleInfo w =
     (let t = ht_tokenID hapInfo;
          (h, st) = HapTokenInfoInner_info (ae_table E) t hapInfo [] (brief w);
          w1 = assign_hap t h (w\<lparr>brief := st\<rparr>);
          w2 = w1\<lparr>hapTokenIdMap := omap_insert (hap_unique_str h) t (hapTokenIdMap w1)\<rparr>;
          w3 = w2\<lparr>brief := ReplaceBriefPermDataByTokenId (ae_table E) t briefPermData aclExtendedList (brief w2)\<rparr> in
      case bundleInfo of
        None \<Rightarrow> w3
      | Some b \<Rightarrow>
          (let old = (case map_of (bundleInfoMap w3) (ht_bundleName hapInfo) of None \<Rightarrow> [] | Some o' \<Rightarrow> bi_tokenIds o');
               b1 = foldl (\<lambda>b t. AddTokenIdToBundleInfoInner t b) b old in
           UpsertBundleInfoInnerCache (ht_bundleName hapInfo) (Some (AddTokenIdToBundleInfoInner t b1)) w3))"

definition CommitUpdateHapCache ::
    "('s, 't, 'r, 'k) atm_env \<Rightarrow> HapTokenInfo \<Rightarrow> BriefPermData list \<Rightarrow> PermissionWithValue list \<Rightarrow>
      BundleInfoInner option \<Rightarrow> ('s, 'k) atm \<Rightarrow> ('s, 'k) atm" where
  "CommitUpdateHapCache E hapInfo briefPermData aclExtendedList bundleInfo w =
     (let t = ht_tokenID hapInfo in
      case hap_at w t of
        None \<Rightarrow> w
      | Some old \<Rightarrow>
          (let w1 = (if \<not> hi_isRemote old then erase_unique_key old t w else w);
               h = SetTokenBaseInfo hapInfo old;
               w2 = put_hap t h w1;
               w3 = (if \<not> hi_isRemote h
                     then w2\<lparr>hapTokenIdMap := omap_insert (hap_unique_str h) t (hapTokenIdMap w2)\<rparr> else w2);
               w4 = w3\<lparr>brief := ReplaceBriefPermDataByTokenId (ae_table E) t briefPermData aclExtendedList (brief w3)\<rparr> in
           case bundleInfo of
             None \<Rightarrow> w4
           | Some b \<Rightarrow>
               (let b1 = (case map_of (bundleInfoMap w4) (ht_bundleName hapInfo) of
                            None \<Rightarrow> b | Some o' \<Rightarrow> b\<lparr>bi_tokenIds := bi_tokenIds o'\<rparr>) in
                UpsertBundleInfoInnerCache (ht_bundleName hapInfo) (Some (AddTokenIdToBundleInfoInner t b1)) w4)))"

definition CommitDeleteHapCache :: "token_id \<Rightarrow> string \<Rightarrow> ('s, 'k) atm \<Rightarrow> ('s, 'k) atm" where
  "CommitDeleteHapCache tokenID bundleName w =
     (let old = hap_at w tokenID;
          w1 = (case old of Some h \<Rightarrow> if \<not> hi_isRemote h then erase_unique_key h tokenID w else w | None \<Rightarrow> w);
          w2 = w1\<lparr>hapTokenInfoMap := omap_erase (sint tokenID) (hapTokenInfoMap w1),
                  brief := snd (DeleteBriefPermDataByTokenId tokenID (brief w1))\<rparr>;
          bundleInfo = BuildBundleInfoWithoutToken (map_of (bundleInfoMap w2) bundleName) tokenID;
          w3 = (case bundleInfo of
                  Some b \<Rightarrow> if bi_tokenIds b = [] then w2\<lparr>bundleInfoMap := omap_erase bundleName (bundleInfoMap w2)\<rparr>
                            else UpsertBundleInfoInnerCache bundleName (Some b) w2
                | None \<Rightarrow> w2\<lparr>bundleInfoMap := omap_erase bundleName (bundleInfoMap w2)\<rparr>) in
      case old of None \<Rightarrow> w3 | Some h \<Rightarrow> destroy_hap h w3)"

section \<open>Reserved ids\<close>

definition RemoveReservedHapTokenId :: "int \<Rightarrow> string \<Rightarrow> int \<Rightarrow> ('s, 'k) atm \<Rightarrow> ('s, 'k) atm" where
  "RemoveReservedHapTokenId userID bundleName instIndex w =
     (let hapUniqueKey = GetHapUniqueStr userID bundleName instIndex in
      case map_of (reservedHapTokenIdMap w) hapUniqueKey of
        None \<Rightarrow> w
      | Some t \<Rightarrow> w\<lparr>ids := RemoveReservedTokenId t (ids w),
                    reservedHapTokenIdMap := omap_erase hapUniqueKey (reservedHapTokenIdMap w)\<rparr>)"

definition GetReservedHapTokenId :: "int \<Rightarrow> string \<Rightarrow> int \<Rightarrow> ('s, 'k) atm \<Rightarrow> token_id" where
  "GetReservedHapTokenId userID bundleName instIndex w =
     (case map_of (reservedHapTokenIdMap w) (GetHapUniqueStr userID bundleName instIndex) of None \<Rightarrow> 0 | Some t \<Rightarrow> t)"

definition AddReservedHapTokenId :: "int \<Rightarrow> string \<Rightarrow> int \<Rightarrow> token_id \<Rightarrow> ('s, 'k) atm \<Rightarrow> ('s, 'k) atm" where
  "AddReservedHapTokenId userID bundleName instIndex tokenID w =
     (let hapUniqueKey = GetHapUniqueStr userID bundleName instIndex in
      case map_of (reservedHapTokenIdMap w) hapUniqueKey of
        Some _ \<Rightarrow> w
      | None \<Rightarrow> w\<lparr>reservedHapTokenIdMap := omap_insert hapUniqueKey tokenID (reservedHapTokenIdMap w),
                   ids := AddReservedTokenId tokenID (ids w)\<rparr>)"

definition AddReservedHapInfoFromDbValues :: "GenericValues \<Rightarrow> ('s, 'k) atm \<Rightarrow> bool \<times> ('s, 'k) atm" where
  "AddReservedHapInfoFromDbValues tokenValue w =
     (let tokenId = word_of_int (GetInt tokenValue FIELD_TOKEN_ID) in
      if GetReservedTokenTypeDBValue tokenValue \<noteq> 0 then (True, w\<lparr>ids := AddReservedTokenId tokenId (ids w)\<rparr>)
      else (False, w))"

section \<open>Rows\<close>

definition ClearNonPersistedUserPolicyFlags ::
    "perm_table \<Rightarrow> UserPolicyRecords \<Rightarrow> GenericValues list \<Rightarrow> GenericValues list" where
  "ClearNonPersistedUserPolicyFlags tbl records permStateValues =
     map (\<lambda>v. case TransferPermissionToOpcode tbl (GetString v FIELD_PERMISSION_NAME) of
                None \<Rightarrow> v
              | Some permCode \<Rightarrow>
                  if IsPolicyPersisted records permCode then v
                  else PutInt FIELD_GRANT_FLAG
                         (sint (GetFlagWithoutSpecifiedElement (word_of_int (GetInt v FIELD_GRANT_FLAG))
                                  PERMISSION_RESTRICTED_BY_ADMIN))
                         (Remove FIELD_GRANT_FLAG v)) permStateValues"

definition GroupValuesByTokenId :: "GenericValues list \<Rightarrow> token_id \<Rightarrow> GenericValues list option" where
  "GroupValuesByTokenId vs t =
     (let l = filter (\<lambda>v. word_of_int (GetInt v FIELD_TOKEN_ID) = t) vs in if l = [] then None else Some l)"

definition GeneratePermExtendValues ::
    "token_id \<Rightarrow> PermissionWithValue list \<Rightarrow> GenericValues list \<Rightarrow> GenericValues list" where
  "GeneratePermExtendValues tokenID kernelPermList permExtendValues =
     permExtendValues @
     map (\<lambda>e. PutString FIELD_VALUE (snd e) (PutString FIELD_PERMISSION_NAME (fst e)
                (PutInt FIELD_TOKEN_ID (sint tokenID) []))) kernelPermList"

definition GetUserGrantPermFromDef ::
    "PermissionDef list \<Rightarrow> token_id \<Rightarrow> GenericValues list \<Rightarrow> GenericValues list" where
  "GetUserGrantPermFromDef permList tokenID permDefValues =
     permDefValues @ map (\<lambda>d. snd (PermissionDefIntoGenericValues d (PutInt FIELD_TOKEN_ID (sint tokenID) []))) permList"

record HapTokenDbContext =
  hc_appId :: string
  hc_policy :: HapPolicy
  hc_undefValues :: "GenericValues list"
  hc_oldPermStateValues :: "GenericValues list"
  hc_isUpdate :: bool

definition hap_add_infos ::
    "('s, 't, 'r, 'k) atm_env \<Rightarrow> HapTokenInfoInner \<Rightarrow> HapTokenDbContext \<Rightarrow> ('s, 'k) atm \<Rightarrow> AddInfo list" where
  "hap_add_infos E hapInfo context w =
     (let t = ht_tokenID (hi_basic hapInfo); tbl = ae_table E;
          permStateValues = ClearNonPersistedUserPolicyFlags tbl (policies w)
            (GeneratePermStateValues tbl (ae_now E) hapInfo (brief w) (hc_oldPermStateValues context) []);
          addInfoVec =
            GenerateAddInfoToVec ACCESSTOKEN_PERMISSION_EXTEND_VALUE
              (GeneratePermExtendValues t (GetExtendedValueList tbl (brief w) t []) [])
           (GenerateAddInfoToVec ACCESSTOKEN_PERMISSION_STATE permStateValues
           (GenerateAddInfoToVec ACCESSTOKEN_HAP_TOKEN_INFO
              (GenerateHapInfoValues hapInfo (hc_appId context) (hp_apl (hc_policy context)) [])
           (GenerateAddInfoToVec ACCESSTOKEN_HAP_UNDEFINE_INFO
              (AddTokenIdToUndefValues t (hc_undefValues context)) []))) in
      if IsSystemResource (ht_bundleName (hi_basic hapInfo))
      then GenerateAddInfoToVec ACCESSTOKEN_PERMISSION_DEF
             (GetUserGrantPermFromDef (hp_permList (hc_policy context)) t []) addInfoVec
      else addInfoVec)"

definition AddHapTokenInfoToDb ::
    "('s, 't, 'r, 'k) atm_env \<Rightarrow> HapTokenInfoInner \<Rightarrow> HapTokenDbContext \<Rightarrow> ('s, 'k) atm \<Rightarrow>
      ret \<times> ('s, 'k) atm" where
  "AddHapTokenInfoToDb E hapInfo context w =
     (if hi_isRemote hapInfo then (ERR_TOKENID_NOT_EXIST, w)
      else
        (let info = hi_basic hapInfo; t = ht_tokenID info;
             addInfoVec = hap_add_infos E hapInfo context w;
             reservedTokenId = GetReservedHapTokenId (ht_userID info) (ht_bundleName info) (ht_instIndex info) w;
             delInfoVec = (if reservedTokenId \<noteq> INVALID_TOKENID
               then GenerateDelInfoToVec ACCESSTOKEN_HAP_TOKEN_INFO (PutInt FIELD_TOKEN_ID (sint reservedTokenId) []) []
               else []);
             v = PutInt FIELD_TOKEN_ID (sint t) [];
             delInfoVec' = (if hc_isUpdate context
               then foldl (\<lambda>ds a. GenerateDelInfoToVec (addType a) v ds) delInfoVec addInfoVec else delInfoVec) in
         DbDeleteAndInsertValues E delInfoVec' addInfoVec w))"

definition RemoveHapTokenInfoFromDb ::
    "('s, 't, 'r, 'k) atm_env \<Rightarrow> HapTokenInfoInner \<Rightarrow> bool \<Rightarrow> token_id \<Rightarrow> ('s, 'k) atm \<Rightarrow> ret \<times> ('s, 'k) atm" where
  "RemoveHapTokenInfoFromDb E info isTokenReserved reservedTokenId w =
     (let t = ht_tokenID (hi_basic info);
          condition = PutInt FIELD_TOKEN_ID (sint t) [];
          dels = GenerateDelInfoToVec ACCESSTOKEN_HAP_UNDEFINE_INFO condition
                (GenerateDelInfoToVec ACCESSTOKEN_PERMISSION_EXTEND_VALUE condition
                (GenerateDelInfoToVec ACCESSTOKEN_PERMISSION_STATE condition
                (GenerateDelInfoToVec ACCESSTOKEN_HAP_TOKEN_INFO condition [])));
          delInfoVec = (if IsSystemResource (ht_bundleName (hi_basic info))
                        then GenerateDelInfoToVec ACCESSTOKEN_PERMISSION_DEF condition dels else dels);
          rows = (if isTokenReserved then GenerateHapInfoValues info [] APL_INVALID [] else []);
          addInfoVec =
            (case rows of
               [] \<Rightarrow> []
             | v # rest \<Rightarrow>
                 (let v1 = PutInt FIELD_TOKEN_ATTR (sint (ht_tokenAttr (hi_basic info) OR TOKEN_RESERVED_FLAG))
                             (Remove FIELD_TOKEN_ATTR v);
                      v2 = (if reservedTokenId \<noteq> t
                            then PutInt FIELD_TOKEN_ID (sint reservedTokenId) (Remove FIELD_TOKEN_ID v1) else v1) in
                  GenerateAddInfoToVec ACCESSTOKEN_HAP_TOKEN_INFO (v2 # rest) [])) in
      DbDeleteAndInsertValues E delInfoVec addInfoVec w)"

section \<open>Adding and removing application tokens\<close>

definition AddGrantedHapPermsToKernel :: "('s, 't, 'r, 'k) atm_env \<Rightarrow> token_id \<Rightarrow> ('s, 'k) atm \<Rightarrow> ('s, 'k) atm" where
  "AddGrantedHapPermsToKernel E tokenId w =
     w\<lparr>kernel := snd (AddHapPermToKernel (ae_kernel E) tokenId (GetGrantedPermCodeList (brief w) tokenId []) (kernel w))\<rparr>"

definition RemoveHapTokenInfoInner ::
    "('s, 't, 'r, 'k) atm_env \<Rightarrow> token_id \<Rightarrow> bool \<Rightarrow> ('s, 'k) atm \<Rightarrow>
      ret \<times> HapTokenInfoInner option \<times> ('s, 'k) atm" where
  "RemoveHapTokenInfoInner E i isTokenReserved w =
     (case hap_at w i of
        None \<Rightarrow> (ERR_TOKENID_NOT_EXIST, None, w)
      | Some info \<Rightarrow>
          if hi_isRemote info then (ERR_IDENTITY_CHECK_FAILED, Some info, w)
          else
            (let b = hi_basic info;
                 w1 = w\<lparr>kernel := snd (RemovePermFromKernel (ae_kernel E) i (kernel w)), ids := ReleaseTokenId i (ids w)\<rparr>;
                 w2 = erase_unique_key info i w1;
                 w3 = (if isTokenReserved
                       then AddReservedHapTokenId (ht_userID b) (ht_bundleName b) (ht_instIndex b) i w2 else w2) in
             (RET_SUCCESS, Some info, w3\<lparr>hapTokenInfoMap := omap_erase (sint i) (hapTokenInfoMap w3)\<rparr>)))"

definition notify_removed :: "('s, 't, 'r, 'k) atm_env \<Rightarrow> token_id \<Rightarrow> ('s, 'k) atm \<Rightarrow> ('s, 'k) atm" where
  "notify_removed E i w =
     (let permissionList = GetGrantedPermList (ae_table E) (brief w) i [];
          w1 = (case permissionList of [] \<Rightarrow> w | perm # _ \<Rightarrow> notify (ParamUpdate perm 0 True) w) in
      notify (NotifyTokenDelete i) (foldl (\<lambda>w perm. notify (ExecuteCallbackAsync i perm False) w) w1 permissionList))"

text \<open>The removed object lives until the end of the call.\<close>

definition RemoveHapTokenInfo ::
    "('s, 't, 'r, 'k) atm_env \<Rightarrow> token_id \<Rightarrow> bool \<Rightarrow> ('s, 'k) atm \<Rightarrow> ret \<times> ('s, 'k) atm" where
  "RemoveHapTokenInfo E i isTokenReserved w =
     (if GetTokenIdType (ids w) i \<noteq> TOKEN_HAP then (ERR_PARAM_INVALID, w)
      else
        (let (ret, info, w1) = RemoveHapTokenInfoInner E i isTokenReserved w in
         if ret \<noteq> RET_SUCCESS then (ret, w1)
         else
           (let (_, w2) = RemoveHapTokenInfoFromDb E (the info) isTokenReserved i w1 in
            (RET_SUCCESS, destroy_hap (the info) (notify_removed E i w2)))))"

text \<open>The second result is the out parameter \<open>oriTokenId\<close>, which every caller passes as 0.\<close>

definition AddHapTokenInfo ::
    "('s, 't, 'r, 'k) atm_env \<Rightarrow> HapTokenInfoInner \<Rightarrow> ('s, 'k) atm \<Rightarrow> ret \<times> token_id \<times> ('s, 'k) atm" where
  "AddHapTokenInfo E info w =
     (let i = ht_tokenID (hi_basic info) in
      if hap_at w i \<noteq> None then (ERR_TOKENID_HAS_EXISTED, 0, w)
      else
        (let idRemoved = (if hi_isRemote info then INVALID_TOKENID
                          else case map_of (hapTokenIdMap w) (hap_unique_str info) of
                                 None \<Rightarrow> INVALID_TOKENID | Some t \<Rightarrow> t);
             w1 = (if hi_isRemote info then w
                   else w\<lparr>hapTokenIdMap := omap_insert (hap_unique_str info) i (hapTokenIdMap w)\<rparr>);
             w2 = put_hap i info w1;
             w3 = (if idRemoved \<noteq> INVALID_TOKENID then snd (RemoveHapTokenInfo E idRemoved False w2) else w2) in
         (RET_SUCCESS, idRemoved, AddGrantedHapPermsToKernel E i w3)))"

definition RemoveNativeTokenInfo :: "('s, 't, 'r, 'k) atm_env \<Rightarrow> token_id \<Rightarrow> ('s, 'k) atm \<Rightarrow> ret \<times> ('s, 'k) atm" where
  "RemoveNativeTokenInfo E i w =
     (let type = GetTokenIdType (ids w) i in
      if type \<noteq> TOKEN_NATIVE \<and> type \<noteq> TOKEN_SHELL then (ERR_PARAM_INVALID, w)
      else if map_of (nativeTokenInfoMap w) i = None then (ERR_TOKENID_NOT_EXIST, w)
      else (RET_SUCCESS,
            w\<lparr>kernel := snd (RemovePermFromKernel (ae_kernel E) i (kernel w)),
              nativeTokenInfoMap := omap_erase i (nativeTokenInfoMap w),
              ids := ReleaseTokenId i (ids w)\<rparr>))"

section \<open>Restoration from the database\<close>

definition RestoreReservedHapTokenToCache :: "GenericValues \<Rightarrow> ('s, 'k) atm \<Rightarrow> ret \<times> ('s, 'k) atm" where
  "RestoreReservedHapTokenToCache v w =
     (RET_SUCCESS,
      AddReservedHapTokenId (GetInt v FIELD_USER_ID) (GetString v FIELD_BUNDLE_NAME) (GetInt v FIELD_INST_INDEX)
        (word_of_int (GetInt v FIELD_TOKEN_ID)) w)"

definition RestoreActiveHapTokenToCache ::
    "('s, 't, 'r, 'k) atm_env \<Rightarrow> GenericValues \<Rightarrow> (token_id \<Rightarrow> GenericValues list option) \<Rightarrow>
      (token_id \<Rightarrow> GenericValues list option) \<Rightarrow> ('s, 'k) atm \<Rightarrow> ret \<times> ('s, 'k) atm" where
  "RestoreActiveHapTokenToCache E tokenValue permStateRes extendedPermRes w =
     (let tokenId = word_of_int (GetInt tokenValue FIELD_TOKEN_ID);
          (res, ids1) = RegisterTokenId tokenId TOKEN_HAP (ids w);
          w1 = w\<lparr>ids := ids1\<rparr> in
      if res \<noteq> RET_SUCCESS then (res, w1)
      else
        (let (res, hap, st) = RestoreHapTokenInfo (ae_table E) tokenId tokenValue permStateRes extendedPermRes
               (HapTokenInfoInner_new, brief w1);
             w2 = w1\<lparr>brief := st\<rparr> in
         if res \<noteq> RET_SUCCESS then (res, destroy_hap hap (w2\<lparr>ids := ReleaseTokenId tokenId (ids w2)\<rparr>))
         else
           (let (res, _, w3) = AddHapTokenInfo E hap w2 in
            if res \<noteq> RET_SUCCESS then (res, destroy_hap hap (w3\<lparr>ids := ReleaseTokenId tokenId (ids w3)\<rparr>))
            else (RET_SUCCESS, w3))))"

definition AddHapInfoToCache ::
    "('s, 't, 'r, 'k) atm_env \<Rightarrow> GenericValues \<Rightarrow> (token_id \<Rightarrow> GenericValues list option) \<Rightarrow>
      (token_id \<Rightarrow> GenericValues list option) \<Rightarrow> ('s, 'k) atm \<Rightarrow> ret \<times> ('s, 'k) atm" where
  "AddHapInfoToCache E tokenValue permStateRes extendedPermRes w =
     (if CheckSpecifiedFlag (word_of_int (GetInt tokenValue FIELD_TOKEN_ATTR)) TOKEN_RESERVED_FLAG
      then RestoreReservedHapTokenToCache tokenValue w
      else RestoreActiveHapTokenToCache E tokenValue permStateRes extendedPermRes w)"

text \<open>The loop over the rows: the count, the map from token ids to level and system flag, the state.\<close>

fun init_hap_rows ::
    "('s, 't, 'r, 'k) atm_env \<Rightarrow> (token_id \<Rightarrow> GenericValues list option) \<Rightarrow> (token_id \<Rightarrow> GenericValues list option) \<Rightarrow>
      GenericValues list \<Rightarrow> u32 \<times> (int, int \<times> bool) omap \<times> ('s, 'k) atm \<Rightarrow>
      u32 \<times> (int, int \<times> bool) omap \<times> ('s, 'k) atm" where
  "init_hap_rows E permStateMap extendedPermMap [] acc = acc"
| "init_hap_rows E permStateMap extendedPermMap (v # vs) (hapSize, apls, w) =
     (let info = (GetInt v FIELD_APL, CheckSpecifiedFlag (word_of_int (GetInt v FIELD_TOKEN_ATTR)) SYSTEM_APP_FLAG);
          (ret, w') = AddHapInfoToCache E v permStateMap extendedPermMap w in
      init_hap_rows E permStateMap extendedPermMap vs
        (if ret \<noteq> RET_SUCCESS then (hapSize, apls, w')
         else (hapSize + 1, omap_insert (GetInt v FIELD_TOKEN_ID) info apls, w')))"

definition InitHapTokenInfos ::
    "('s, 't, 'r, 'k) atm_env \<Rightarrow> u32 \<times> (int, int \<times> bool) omap \<times> ('s, 'k) atm \<Rightarrow>
      u32 \<times> (int, int \<times> bool) omap \<times> ('s, 'k) atm" where
  "InitHapTokenInfos E acc =
     (let (hapSize, apls, w) = acc; (ret, hapTokenRes, w1) = DbFind E ACCESSTOKEN_HAP_TOKEN_INFO [] w in
      if ret \<noteq> RET_SUCCESS then (hapSize, apls, w1)
      else
        (let (ret, permStateRes, w2) = DbFind E ACCESSTOKEN_PERMISSION_STATE [] w1 in
         if ret \<noteq> RET_SUCCESS then (hapSize, apls, w2)
         else
           (let (ret, extendedPermRes, w3) = DbFind E ACCESSTOKEN_PERMISSION_EXTEND_VALUE [] w2 in
            if ret \<noteq> RET_SUCCESS then (hapSize, apls, w3)
            else init_hap_rows E (GroupValuesByTokenId permStateRes) (GroupValuesByTokenId extendedPermRes)
                   hapTokenRes (hapSize, apls, w3))))"

definition GetHapTokenInfoInnerFromDb ::
    "('s, 't, 'r, 'k) atm_env \<Rightarrow> token_id \<Rightarrow> ('s, 'k) atm \<Rightarrow> HapTokenInfoInner option \<times> ('s, 'k) atm" where
  "GetHapTokenInfoInnerFromDb E i w =
     (let conditionValue = PutInt FIELD_TOKEN_ID (sint i) [];
          (ret, hapTokenResults, w1) = DbFind E ACCESSTOKEN_HAP_TOKEN_INFO conditionValue w in
      if ret \<noteq> RET_SUCCESS \<or> hapTokenResults = [] then (None, w1)
      else
        (let (isReserved, w2) = AddReservedHapInfoFromDbValues (hd hapTokenResults) w1 in
         if isReserved then (None, w2)
         else
           (let (ret, permStateRes, w3) = DbFind E ACCESSTOKEN_PERMISSION_STATE conditionValue w2 in
            if ret \<noteq> RET_SUCCESS then (None, w3)
            else
              (let (ret, extendedPermRes, w4) = DbFind E ACCESSTOKEN_PERMISSION_EXTEND_VALUE conditionValue w3 in
               if ret \<noteq> RET_SUCCESS then (None, w4)
               else
                 (let (ret, hap, st) = RestoreHapTokenInfo (ae_table E) i (hd hapTokenResults)
                        (GroupValuesByTokenId permStateRes) (GroupValuesByTokenId extendedPermRes)
                        (HapTokenInfoInner_new, brief w4);
                      w5 = w4\<lparr>brief := st\<rparr> in
                  if ret \<noteq> RET_SUCCESS then (None, destroy_hap hap w5)
                  else
                    (case hap_at w5 i of
                       Some h \<Rightarrow> (Some h, destroy_hap hap w5)
                     | None \<Rightarrow>
                         (let w6 = w5\<lparr>ids := snd (RegisterTokenId i TOKEN_HAP (ids w5)),
                                      hapTokenIdMap := omap_insert (hap_unique_str hap) i (hapTokenIdMap w5)\<rparr> in
                          (Some hap, AddGrantedHapPermsToKernel E i (put_hap i hap w6)))))))))"

definition GetHapTokenInfoInner ::
    "('s, 't, 'r, 'k) atm_env \<Rightarrow> token_id \<Rightarrow> ('s, 'k) atm \<Rightarrow> HapTokenInfoInner option \<times> ('s, 'k) atm" where
  "GetHapTokenInfoInner E i w =
     (case hap_at w i of
        Some h \<Rightarrow> (Some h, w)
      | None \<Rightarrow>
          (let (ret, st) = GetTokenIdStatus (ids w) i in
           if ret = RET_SUCCESS \<and> (st = Some RESERVED \<or> st = Some UNTRUSTED) then (None, w)
           else GetHapTokenInfoInnerFromDb E i w))"

section \<open>Creation and update\<close>

definition CheckHapInfoParam :: "perm_table \<Rightarrow> HapInfoParams \<Rightarrow> HapPolicy \<Rightarrow> ret" where
  "CheckHapInfoParam tbl info policy =
     (if \<not> IsUserIdValid (ip_userID info) \<or> \<not> IsBundleNameValid (ip_bundleName info) \<or>
         \<not> IsAppIDDescValid (ip_appIDDesc info) \<or> \<not> IsDomainValid (hp_domain policy) \<or>
         \<not> IsAplNumValid (apl_value (hp_apl policy)) \<or> \<not> IsDlpTypeValid (ip_dlpType info) \<or>
         ip_isRestore info \<and> ip_tokenID info = INVALID_TOKENID \<or>
         \<not> IsAclExtendedMapSizeValid (hp_aclExtendedMap policy) \<or>
         \<not> IsAppProvisionTypeValid (ip_appProvisionType info)
      then ERR_PARAM_INVALID
      else if list_ex (\<lambda>(name, v). IsDefinedPermissionInner tbl name \<and> \<not> IsAclExtendedMapContentValid name v)
                (hp_aclExtendedMap policy)
      then ERR_PARAM_INVALID else RET_SUCCESS)"

text \<open>\<open>%\<close> truncates; only the test against 0 is used.\<close>

definition InfoRegisterTokenId ::
    "('s, 't, 'r, 'k) atm_env \<Rightarrow> HapInfoParams \<Rightarrow> ('s, 'k) atm \<Rightarrow> ret \<times> token_id \<times> ('s, 'k) atm" where
  "InfoRegisterTokenId E info w =
     (if ip_isRestore info then
        (let (res, ids') = RegisterTokenId (ip_tokenID info) TOKEN_HAP (ids w) in
         if res \<noteq> RET_SUCCESS then (res, 0, w\<lparr>ids := ids'\<rparr>) else (res, ip_tokenID info, w\<lparr>ids := ids'\<rparr>))
      else
        (let dlpFlag = (if ip_dlpType info > DLP_COMMON then 1 else 0);
             cloneFlag = (if dlpFlag = 0 \<and> \<not> 10000 dvd ip_instIndex info then 1 else 0);
             (tokenId, ids') = CreateAndRegisterTokenId (ae_random E) TOKEN_HAP dlpFlag cloneFlag 0 (ids w) in
         if tokenId = 0 then (ERR_TOKENID_CREATE_FAILED, 0, w\<lparr>ids := ids'\<rparr>)
         else (RET_SUCCESS, tokenId, w\<lparr>ids := ids'\<rparr>)))"

text \<open>An extended token id is the pair of its two halves.\<close>

definition AllocAccessTokenIDEx :: "HapInfoParams \<Rightarrow> token_id \<Rightarrow> token_id \<times> u32 \<Rightarrow> token_id \<times> u32" where
  "AllocAccessTokenIDEx info tokenId tokenIdEx =
     (let a0 = snd tokenIdEx;
          a1 = (if ip_isSystemApp info then a0 OR SYSTEM_APP_FLAG else a0);
          a2 = (if ip_isAtomicService info then a1 OR ATOMIC_SERVICE_FLAG else a1);
          a3 = (if ip_appProvisionType info = ''debug'' then a2 OR DEBUG_APP_FLAG else a2) in
      (tokenId, a3))"

definition create_policy ::
    "('s, 't, 'r, 'k) atm_env \<Rightarrow> HapInfoParams \<Rightarrow> HapPolicy \<Rightarrow> token_id \<Rightarrow> ('s, 'k) atm \<Rightarrow> HapPolicy" where
  "create_policy E info policy tokenId w =
     (let states = (if ip_dlpType info \<noteq> DLP_COMMON
                    then UpdatePermStateWithDlpInfo (ae_dlpModes E) (ip_dlpType info) (hp_permStateList policy)
                    else hp_permStateList policy) in
      policy\<lparr>hp_permStateList :=
        UpdatePermissionStatusListForUserPolicy (ae_table E) (policies w) tokenId (ip_userID info) states\<rparr>)"

definition CreateHapTokenInfo ::
    "('s, 't, 'r, 'k) atm_env \<Rightarrow> HapInfoParams \<Rightarrow> HapPolicy \<Rightarrow> token_id \<times> u32 \<Rightarrow> GenericValues list \<Rightarrow> ('s, 'k) atm \<Rightarrow>
      ret \<times> (token_id \<times> u32) \<times> ('s, 'k) atm" where
  "CreateHapTokenInfo E info policy tokenIdEx undefValues w =
     (if CheckHapInfoParam (ae_table E) info policy \<noteq> RET_SUCCESS then (ERR_PARAM_INVALID, tokenIdEx, w)
      else
        (let (ret, tokenId, w1) = InfoRegisterTokenId E info w in
         if ret \<noteq> RET_SUCCESS then (ret, tokenIdEx, w1)
         else
           (let policyNew = create_policy E info policy tokenId w1;
                (tokenInfo, st) = HapTokenInfoInner_params (ae_table E) tokenId info policyNew (brief w1);
                context = \<lparr>hc_appId = ip_appIDDesc info, hc_policy = policyNew, hc_undefValues = undefValues,
                           hc_oldPermStateValues = [], hc_isUpdate = False\<rparr>;
                (ret, w2) = AddHapTokenInfoToDb E tokenInfo context (w1\<lparr>brief := st\<rparr>) in
            if ret \<noteq> RET_SUCCESS
            then (ret, tokenIdEx, destroy_hap tokenInfo (w2\<lparr>ids := ReleaseTokenId tokenId (ids w2)\<rparr>))
            else
              (let (ret, oriTokenID, w3) = AddHapTokenInfo E tokenInfo w2 in
               if ret \<noteq> RET_SUCCESS then
                 (let w4 = w3\<lparr>ids := ReleaseTokenId tokenId (ids w3)\<rparr>;
                      reservedTokenId = GetReservedHapTokenId (ip_userID info) (ip_bundleName info) (ip_instIndex info) w4;
                      (_, w5) = RemoveHapTokenInfoFromDb E tokenInfo True reservedTokenId w4 in
                  (ret, tokenIdEx, destroy_hap tokenInfo w5))
               else
                 (RET_SUCCESS, AllocAccessTokenIDEx info tokenId tokenIdEx,
                  RemoveReservedHapTokenId (ip_userID info) (ip_bundleName info) (ip_instIndex info) w3)))))"

definition GetHapTokenID :: "int \<Rightarrow> string \<Rightarrow> int \<Rightarrow> ('s, 'k) atm \<Rightarrow> token_id \<times> u32" where
  "GetHapTokenID userID bundleName instIndex w =
     (case map_of (hapTokenIdMap w) (GetHapUniqueStr userID bundleName instIndex) of
        None \<Rightarrow> (0, 0)
      | Some tokenId \<Rightarrow>
          (case hap_at w tokenId of
             None \<Rightarrow> (0, 0)
           | Some h \<Rightarrow> (ht_tokenID (hi_basic h), ht_tokenAttr (hi_basic h))))"

definition UpdateTokenAttr :: "UpdateHapInfoParams \<Rightarrow> token_id \<times> u32 \<Rightarrow> token_id \<times> u32" where
  "UpdateTokenAttr info tokenIdEx =
     (let a1 = set_attr (uh_isSystemApp info) SYSTEM_APP_FLAG (snd tokenIdEx);
          a2 = set_attr (uh_isAtomicService info) ATOMIC_SERVICE_FLAG a1 in
      (fst tokenIdEx, set_provision_attr (uh_appProvisionType info) a2))"

definition UpdateHapToken ::
    "('s, 't, 'r, 'k) atm_env \<Rightarrow> token_id \<times> u32 \<Rightarrow> UpdateHapInfoParams \<Rightarrow> PermissionStatus list \<Rightarrow> HapPolicy \<Rightarrow>
      GenericValues list \<Rightarrow> ('s, 'k) atm \<Rightarrow> ret \<times> (token_id \<times> u32) \<times> ('s, 'k) atm" where
  "UpdateHapToken E tokenIdEx info permStateList hapPolicy undefValues w =
     (let tokenID = fst tokenIdEx in
      if \<not> IsAppIDDescValid (uh_appIDDesc info) then (ERR_PARAM_INVALID, tokenIdEx, w)
      else
        (let (infoPtr, w1) = GetHapTokenInfoInner E tokenID w in
         case infoPtr of
           None \<Rightarrow> (ERR_TOKENID_NOT_EXIST, tokenIdEx, w1)
         | Some h \<Rightarrow>
             if hi_isRemote h then (ERR_IDENTITY_CHECK_FAILED, tokenIdEx, w1)
             else
               (let tokenIdEx' = UpdateTokenAttr info tokenIdEx;
                    (ret, oldPermStateValues, w2) =
                      DbFind E ACCESSTOKEN_PERMISSION_STATE (PutInt FIELD_TOKEN_ID (sint tokenID) []) w1 in
                if ret \<noteq> RET_SUCCESS then (ret, tokenIdEx', w2)
                else
                  (let adjusted = UpdatePermissionStatusListForUserPolicy (ae_table E) (policies w2) tokenID
                         (ht_userID (hi_basic h)) permStateList;
                       (h', st) = HapUpdate (ae_table E) info adjusted hapPolicy (h, brief w2);
                       w3 = put_hap tokenID h' (w2\<lparr>brief := st\<rparr>);
                       context = \<lparr>hc_appId = uh_appIDDesc info, hc_policy = hapPolicy, hc_undefValues = undefValues,
                                  hc_oldPermStateValues = oldPermStateValues, hc_isUpdate = True\<rparr>;
                       (ret, w4) = AddHapTokenInfoToDb E h' context w3 in
                   if ret \<noteq> RET_SUCCESS then (ret, tokenIdEx', w4)
                   else (RET_SUCCESS, tokenIdEx',
                         AddGrantedHapPermsToKernel E tokenID (notify (NotifyTokenModify tokenID) w4))))))"

section \<open>Native tokens\<close>

definition GetNativePermissionList :: "perm_table \<Rightarrow> NativeTokenInfoBase \<Rightarrow> u32 list \<times> bool list" where
  "GetNativePermissionList tbl native =
     (let found = List.map_filter (\<lambda>state.
            case GetPermissionBriefDefAndCode tbl (ps_permissionName state) of
              None \<Rightarrow> None
            | Some (briefDef, code) \<Rightarrow>
                if \<not> bd_isEnable briefDef then None
                else if apl_value (nb_apl native) < apl_value (bd_availableLevel briefDef) \<and>
                        ps_permissionName state \<notin> set (nb_nativeAcls native) then None
                else Some (code, ps_grantStatus state = PERMISSION_GRANTED)) (nb_permStateList native) in
      (map fst found, map snd found))"

definition init_native :: "('s, 't, 'r, 'k) atm_env \<Rightarrow> NativeTokenInfoBase \<Rightarrow> ('s, 'k) atm \<Rightarrow> ('s, 'k) atm" where
  "init_native E info w =
     (let tokenId = nb_tokenID info;
          (res, ids') = RegisterTokenId tokenId (GetTokenIdTypeEnum tokenId) (ids w);
          w1 = w\<lparr>ids := ids'\<rparr> in
      if res \<noteq> RET_SUCCESS \<and> res \<noteq> ERR_TOKENID_HAS_EXISTED then w1
      else
        (let (opCodeList, statusList) = GetNativePermissionList (ae_table E) info;
             (isSpm, spm, k1) = IsKernelSupportSpm (ae_kernel E) (spmChecked w1) (kernel w1);
             cache = \<lparr>nc_apl = nb_apl info, nc_processName = nb_processName info,
                      nc_opCodeList = (if \<not> isSpm then map ucast opCodeList else [])\<rparr>;
             (_, k2) = AddNativePermToKernel (ae_kernel E) tokenId opCodeList statusList k1 in
         w1\<lparr>nativeTokenInfoMap := omap_insert tokenId cache (nativeTokenInfoMap w1), spmChecked := spm, kernel := k2\<rparr>))"

definition InitNativeTokenInfos ::
    "('s, 't, 'r, 'k) atm_env \<Rightarrow> NativeTokenInfoBase list \<Rightarrow> ('s, 'k) atm \<Rightarrow> ('s, 'k) atm" where
  "InitNativeTokenInfos E tokenInfos w = foldl (\<lambda>w info. init_native E info w) w tokenInfos"

end
