(* ===== verification/Info_Queries.thy ===== *)
theory Info_Queries
  imports Info_Manager
begin

text \<open>
  The queries and the permission-related operations of \<open>AccessTokenInfoManager\<close>
  (\<^verbatim>\<open>accesstoken_info_manager.cpp\<close>): token information, permission verification, the restriction of
  permissions by user policies with its rollback, the reset of user grants, and tokens of other devices. Sets of
  token ids that the source keeps in a hash set are lists in the order of the token map.
\<close>

section \<open>Token information\<close>

abbreviation BUTT_DLP_TYPE :: int where "BUTT_DLP_TYPE \<equiv> 5"

definition GetHapTokenDlpType :: "token_id \<Rightarrow> ('s, 'k) atm \<Rightarrow> int" where
  "GetHapTokenDlpType i w = (case hap_at w i of Some h \<Rightarrow> ht_dlpType (hi_basic h) | None \<Rightarrow> BUTT_DLP_TYPE)"

definition IsTokenIdExist :: "token_id \<Rightarrow> ('s, 'k) atm \<Rightarrow> bool" where
  "IsTokenIdExist i w =
     (if hap_at w i \<noteq> None then True else if map_of (nativeTokenInfoMap w) i \<noteq> None then True else False)"

definition GetTokenIDByUserID :: "int \<Rightarrow> ('s, 'k) atm \<Rightarrow> token_id list" where
  "GetTokenIDByUserID userID w =
     map (\<lambda>(_, h). ht_tokenID (hi_basic h)) (filter (\<lambda>(_, h). ht_userID (hi_basic h) = userID) (hapTokenInfoMap w))"

definition GetAllHapTokenId :: "('s, 'k) atm \<Rightarrow> token_id list" where
  "GetAllHapTokenId w = map (\<lambda>(_, h). ht_tokenID (hi_basic h)) (hapTokenInfoMap w)"

definition GetHapTokenIdListByBundleName :: "string \<Rightarrow> ('s, 'k) atm \<Rightarrow> ret \<times> token_id list" where
  "GetHapTokenIdListByBundleName bundleName w =
     (let tokenIdList = map (\<lambda>(_, h). ht_tokenID (hi_basic h))
            (filter (\<lambda>(_, h). \<not> hi_isRemote h \<and> ht_bundleName (hi_basic h) = bundleName) (hapTokenInfoMap w)) in
      if tokenIdList = [] then (ERR_BUNDLE_NOT_EXIST, []) else (RET_SUCCESS, tokenIdList))"

definition ResolveQueryTokenID ::
    "('s, 't, 'r, 'k) atm_env \<Rightarrow> token_id \<Rightarrow> ('s, 'k) atm \<Rightarrow> ret \<times> token_id \<times> ('s, 'k) atm" where
  "ResolveQueryTokenID E tokenID w =
     (if \<not> IsBinTokenId tokenID then (RET_SUCCESS, tokenID, w)
      else
        (let (ret, parent, k') = GetParentHapTokenID (ae_kernel E) tokenID (ucast INVALID_TOKENID) (kernel w);
             w' = w\<lparr>kernel := k'\<rparr> in
         if ret = ENOTSUP then (ERR_IOCTL_UNSUPPORT, tokenID, w')
         else if ret \<noteq> ACCESS_TOKEN_OK then (ERR_TOKENID_NOT_EXIST, tokenID, w')
         else if parent = ucast INVALID_TOKENID then (ERR_TOKENID_NOT_EXIST, tokenID, w')
         else (RET_SUCCESS, ex_tokenID parent, w')))"

definition GetHapTokenInfo ::
    "('s, 't, 'r, 'k) atm_env \<Rightarrow> token_id \<Rightarrow> ('s, 'k) atm \<Rightarrow> ret \<times> HapTokenInfo option \<times> ('s, 'k) atm" where
  "GetHapTokenInfo E tokenID w =
     (let (ret, queryTokenID, w1) = ResolveQueryTokenID E tokenID w in
      if ret \<noteq> RET_SUCCESS then (ERR_TOKENID_NOT_EXIST, None, w1)
      else
        (let (infoPtr, w2) = GetHapTokenInfoInner E queryTokenID w1 in
         case infoPtr of
           None \<Rightarrow> (ERR_TOKENID_NOT_EXIST, None, w2)
         | Some h \<Rightarrow> (RET_SUCCESS, Some (hi_basic h), w2)))"

definition GetNativeTokenInfo :: "token_id \<Rightarrow> ('s, 'k) atm \<Rightarrow> ret \<times> (ATokenAplEnum \<times> string) option" where
  "GetNativeTokenInfo tokenID w =
     (case map_of (nativeTokenInfoMap w) tokenID of
        None \<Rightarrow> (ERR_TOKENID_NOT_EXIST, None)
      | Some c \<Rightarrow> (RET_SUCCESS, Some (nc_apl c, nc_processName c)))"

definition GetNativeTokenId :: "string \<Rightarrow> ('s, 'k) atm \<Rightarrow> token_id" where
  "GetNativeTokenId processName w =
     (case find (\<lambda>(_, c). nc_processName c = processName) (nativeTokenInfoMap w) of
        None \<Rightarrow> INVALID_TOKENID | Some (t, _) \<Rightarrow> t)"

definition GetHapAppIdByTokenId ::
    "('s, 't, 'r, 'k) atm_env \<Rightarrow> token_id \<Rightarrow> ('s, 'k) atm \<Rightarrow> ret \<times> string option \<times> ('s, 'k) atm" where
  "GetHapAppIdByTokenId E tokenID w =
     (let (ret, hapTokenResults, w1) =
            DbFind E ACCESSTOKEN_HAP_TOKEN_INFO (PutInt FIELD_TOKEN_ID (sint tokenID) []) w in
      if ret \<noteq> RET_SUCCESS then (ret, None, w1)
      else if hapTokenResults = [] then (ERR_TOKENID_NOT_EXIST, None, w1)
      else
        (let result = GetString (hd hapTokenResults) FIELD_APP_ID in
         if \<not> IsAppIDDescValid result then (ERR_PARAM_INVALID, None, w1) else (RET_SUCCESS, Some result, w1)))"

definition GetRelatedSandBoxHapList :: "token_id \<Rightarrow> ('s, 'k) atm \<Rightarrow> token_id list" where
  "GetRelatedSandBoxHapList tokenId w =
     (case hap_at w tokenId of
        None \<Rightarrow> []
      | Some h \<Rightarrow>
          (let b = hi_basic h in
           if ht_dlpType b = DLP_COMMON \<and> ht_instIndex b \<noteq> 0 then []
           else map (\<lambda>(_, o'). ht_tokenID (hi_basic o'))
                  (filter (\<lambda>(_, o'). ht_bundleName b = ht_bundleName (hi_basic o') \<and> ht_userID b = ht_userID (hi_basic o') \<and>
                              tokenId \<noteq> ht_tokenID (hi_basic o') \<and>
                              \<not> (ht_dlpType (hi_basic o') = DLP_COMMON \<and> ht_instIndex (hi_basic o') \<noteq> 0))
                     (hapTokenInfoMap w))))"

definition UpdateCapStateToDatabase ::
    "('s, 't, 'r, 'k) atm_env \<Rightarrow> token_id \<Rightarrow> bool \<Rightarrow> ('s, 'k) atm \<Rightarrow> bool \<times> ('s, 'k) atm" where
  "UpdateCapStateToDatabase E tokenID enable w =
     (let (res, w') = DbModify E ACCESSTOKEN_HAP_TOKEN_INFO (PutInt FIELD_FORBID_PERM_DIALOG (of_bool_int enable) [])
            (PutInt FIELD_TOKEN_ID (sint tokenID) []) w in
      (res = 0, w'))"

definition SetPermDialogCap ::
    "('s, 't, 'r, 'k) atm_env \<Rightarrow> token_id \<Rightarrow> bool \<Rightarrow> ('s, 'k) atm \<Rightarrow> ret \<times> ('s, 'k) atm" where
  "SetPermDialogCap E tokenID enable w =
     (case hap_at w tokenID of
        None \<Rightarrow> (ERR_TOKENID_NOT_EXIST, w)
      | Some h \<Rightarrow>
          (let (ok, w') = UpdateCapStateToDatabase E tokenID enable w in
           if \<not> ok then (ERR_DATABASE_OPERATE_FAILED, w')
           else (RET_SUCCESS, put_hap tokenID (SetPermDialogForbidden enable h) w')))"

definition GetPermDialogCap :: "token_id \<Rightarrow> ('s, 'k) atm \<Rightarrow> bool" where
  "GetPermDialogCap tokenID w =
     (if tokenID = INVALID_TOKENID then True
      else (case hap_at w tokenID of None \<Rightarrow> True | Some h \<Rightarrow> hi_isPermDialogForbidden h))"

section \<open>Verification\<close>

definition IsCallerNormalApp :: "u64 \<Rightarrow> bool" where
  "IsCallerNormalApp fulltokenID =
     (if GetTokenIdTypeEnum (ucast fulltokenID) \<noteq> TOKEN_HAP then False else \<not> IsSystemApp fulltokenID)"

text \<open>\<open>None\<close>: the kernel did not answer.\<close>

definition GetPermissionFromKernelCache ::
    "('s, 't, 'r, 'k) atm_env \<Rightarrow> token_id \<Rightarrow> string \<Rightarrow> ('s, 'k) atm \<Rightarrow> int option \<times> ('s, 'k) atm" where
  "GetPermissionFromKernelCache E tokenID permissionName w =
     (if \<not> IsDefinedPermissionInner (ae_table E) permissionName then (Some PERMISSION_DENIED, w)
      else
        (let code = (case TransferPermissionToOpcode (ae_table E) permissionName of None \<Rightarrow> 0 | Some c \<Rightarrow> c);
             (ret, isGranted, k') = GetPermissionFromKernel (ae_kernel E) tokenID (sint code) (kernel w);
             w' = w\<lparr>kernel := k'\<rparr> in
         if ret \<noteq> RET_SUCCESS then (None, w')
         else (Some (if isGranted then PERMISSION_GRANTED else PERMISSION_DENIED), w')))"

definition VerifyNativeAccessToken ::
    "('s, 't, 'r, 'k) atm_env \<Rightarrow> token_id \<Rightarrow> string \<Rightarrow> ('s, 'k) atm \<Rightarrow> int \<times> ('s, 'k) atm" where
  "VerifyNativeAccessToken E tokenID permissionName w =
     (if \<not> IsDefinedPermissionInner (ae_table E) permissionName then (PERMISSION_DENIED, w)
      else
        (case TransferPermissionToOpcode (ae_table E) permissionName of
           None \<Rightarrow> (PERMISSION_DENIED, w)
         | Some code \<Rightarrow>
             (case map_of (nativeTokenInfoMap w) tokenID of
                None \<Rightarrow> (PERMISSION_DENIED, w)
              | Some cache \<Rightarrow>
                  (let (isSpm, spm, k') = IsKernelSupportSpm (ae_kernel E) (spmChecked w) (kernel w) in
                   (if \<not> isSpm \<and> list_ex (\<lambda>c. code = ucast c) (nc_opCodeList cache)
                    then PERMISSION_GRANTED else PERMISSION_DENIED,
                    w\<lparr>spmChecked := spm, kernel := k'\<rparr>)))))"

definition VerifyAccessToken ::
    "('s, 't, 'r, 'k) atm_env \<Rightarrow> token_id \<Rightarrow> string \<Rightarrow> ('s, 'k) atm \<Rightarrow> int \<times> ('s, 'k) atm" where
  "VerifyAccessToken E tokenID permissionName w =
     (if tokenID = INVALID_TOKENID then (PERMISSION_DENIED, w)
      else if \<not> IsPermissionNameValid permissionName then (PERMISSION_DENIED, w)
      else
        (let callertokenID = ucast (ae_callingFullTokenID E) :: token_id;
             tokenType = GetTokenIdType (ids w) tokenID;
             suspicious = (IsCallerNormalApp (ae_callingFullTokenID E) \<and> tokenID \<noteq> callertokenID);
             w1 = (if suspicious then w\<lparr>monitor := ReportExceptionalAccessTokenUsage (ae_now E) (monitor w)\<rparr> else w) in
         if suspicious \<and> tokenType = TOKEN_INVALID then
           (let (hap, w2) = GetHapTokenInfoInner E callertokenID w1 in
            case hap of
              None \<Rightarrow> (PERMISSION_DENIED, w2)
            | Some h \<Rightarrow> (PERMISSION_DENIED,
                w2\<lparr>monitor := RecordExceptionalBehavior (ae_table E) (ae_now E) (hi_basic h) tokenID permissionName
                                (monitor w2)\<rparr>))
         else
           (let (punished, m) = (if suspicious then IsInPunishingTime (ae_now E) callertokenID (monitor w1)
                                 else (False, monitor w1));
                w2 = w1\<lparr>monitor := m\<rparr> in
            if punished then (PERMISSION_DENIED, w2)
            else
              (let (res, w3) = GetPermissionFromKernelCache E tokenID permissionName w2 in
               case res of
                 Some r \<Rightarrow> (r, w3)
               | None \<Rightarrow>
                   if tokenType = TOKEN_NATIVE \<or> tokenType = TOKEN_SHELL
                   then VerifyNativeAccessToken E tokenID permissionName w3
                   else if tokenType = TOKEN_HAP
                   then (VerifyPermissionStatus (ae_table E) (brief w3) tokenID permissionName, w3)
                   else (PERMISSION_DENIED, w3)))))"

section \<open>Restriction by user policies\<close>

datatype UserPolicyRefreshTarget = HAP | TOOL

record UserPolicyRefreshSnapshot =
  sn_target :: UserPolicyRefreshTarget
  sn_tokenId :: token_id
  sn_permCode :: u32
  sn_originalStatus :: int
  sn_originalFlag :: u32

definition RollbackRestrictedFlag :: "token_id \<Rightarrow> u32 \<Rightarrow> bool \<Rightarrow> ('s, 'k) atm \<Rightarrow> ('s, 'k) atm" where
  "RollbackRestrictedFlag tokenId permCode isRestricted w =
     w\<lparr>brief := snd (snd (UpdatePermissionFlag tokenId permCode PERMISSION_RESTRICTED_BY_ADMIN (\<not> isRestricted) (brief w)))\<rparr>"

definition UpdateRestrictedFlagToDb ::
    "('s, 't, 'r, 'k) atm_env \<Rightarrow> token_id \<Rightarrow> u32 \<Rightarrow> ('s, 'k) atm \<Rightarrow> ret \<times> ('s, 'k) atm" where
  "UpdateRestrictedFlagToDb E tokenId permCode w =
     (let permissionName = TransferOpcodeToPermission (ae_table E) permCode;
          (ret, permStateValues) = BuildPermissionStateValues (ae_table E) (ae_now E) (brief w) tokenId [] [] in
      if ret \<noteq> RET_SUCCESS then (ret, w)
      else
        (case find (\<lambda>v. GetString v FIELD_PERMISSION_NAME = permissionName) permStateValues of
           None \<Rightarrow> (ERR_PERMISSION_NOT_EXIST, w)
         | Some v \<Rightarrow>
             (let (ret, w') = DbModify E ACCESSTOKEN_PERMISSION_STATE v
                    (PutString FIELD_PERMISSION_NAME permissionName (PutInt FIELD_TOKEN_ID (sint tokenId) [])) w in
              (if ret \<noteq> RET_SUCCESS then ERR_DATABASE_OPERATE_FAILED else RET_SUCCESS, w'))))"

text \<open>The second result is the out parameter \<open>hasFlagChanged\<close>.\<close>

definition UpdateRestrictedFlag ::
    "('s, 't, 'r, 'k) atm_env \<Rightarrow> token_id \<Rightarrow> u32 \<Rightarrow> bool \<Rightarrow> bool \<Rightarrow> ('s, 'k) atm \<Rightarrow> ret \<times> bool \<times> ('s, 'k) atm" where
  "UpdateRestrictedFlag E tokenId permCode isRestricted isPersist w =
     (let (ret, changeType, st) =
            UpdatePermissionFlag tokenId permCode PERMISSION_RESTRICTED_BY_ADMIN isRestricted (brief w);
          w1 = w\<lparr>brief := st\<rparr> in
      if ret \<noteq> RET_SUCCESS then (ret, False, w1)
      else
        (let hasFlagChanged = (changeType \<noteq> None \<and> changeType \<noteq> Some NO_CHANGE) in
         if \<not> hasFlagChanged \<or> \<not> isPersist then (RET_SUCCESS, hasFlagChanged, w1)
         else
           (let (ret, w2) = UpdateRestrictedFlagToDb E tokenId permCode w1 in
            (ret, hasFlagChanged,
             if ret \<noteq> RET_SUCCESS then RollbackRestrictedFlag tokenId permCode isRestricted w2 else w2))))"

definition kernel_status :: "int \<Rightarrow> u32 \<Rightarrow> bool" where
  "kernel_status st flag \<longleftrightarrow> flag AND PERMISSION_RESTRICTED_BY_ADMIN = 0 \<and> st = PERMISSION_GRANTED"

definition set_kernel :: "('s, 't, 'r, 'k) atm_env \<Rightarrow> token_id \<Rightarrow> string \<Rightarrow> bool \<Rightarrow> ('s, 'k) atm \<Rightarrow> ('s, 'k) atm" where
  "set_kernel E tokenId permissionName isGranted w =
     w\<lparr>kernel := SetPermToKernel (ae_kernel E) (ae_table E) tokenId permissionName isGranted (kernel w)\<rparr>"

definition UpdateRestrictedFlagAndRefreshKernel ::
    "('s, 't, 'r, 'k) atm_env \<Rightarrow> token_id \<Rightarrow> u32 \<Rightarrow> bool \<Rightarrow> bool \<Rightarrow> ('s, 'k) atm \<Rightarrow> ret \<times> ('s, 'k) atm" where
  "UpdateRestrictedFlagAndRefreshKernel E tokenId permCode isRestricted isPersist w =
     (let (ret, originalStatus, originalFlag) =
            QueryStoredPermissionStatusAndFlag (brief w) tokenId permCode (PERMISSION_DENIED, 0) in
      if ret \<noteq> RET_SUCCESS then (ret, w)
      else
        (let (ret, isFlagChanged, w1) = UpdateRestrictedFlag E tokenId permCode isRestricted isPersist w in
         if ret \<noteq> RET_SUCCESS then (ret, w1)
         else
           (let permissionName = TransferOpcodeToPermission (ae_table E) permCode;
                kernelStatusBefore = kernel_status originalStatus originalFlag;
                kernelStatusAfter = (\<not> isRestricted \<and> originalStatus = PERMISSION_GRANTED);
                w2 = (if isFlagChanged then notify ParamFlagUpdate w1 else w1);
                w3 = (if kernelStatusBefore \<noteq> kernelStatusAfter
                      then notify (ExecuteCallbackAsync tokenId permissionName kernelStatusAfter)
                             (set_kernel E tokenId permissionName kernelStatusAfter w2)
                      else w2) in
            (RET_SUCCESS, w3))))"

fun refresh_tokens ::
    "('s, 't, 'r, 'k) atm_env \<Rightarrow> int \<Rightarrow> UserPolicyChange \<Rightarrow> token_id list \<Rightarrow> UserPolicyRefreshSnapshot list \<Rightarrow> ('s, 'k) atm \<Rightarrow>
      ret \<times> UserPolicyRefreshSnapshot list \<times> ('s, 'k) atm" where
  "refresh_tokens E userId policy [] snaps w = (RET_SUCCESS, snaps, w)"
| "refresh_tokens E userId policy (tokenId # tokenIds) snaps w =
     (let permCode = uc_permCode policy;
          isRestricted = IsPermissionRestricted (policies w) tokenId userId permCode;
          (ret, originalStatus, originalFlag) =
            QueryStoredPermissionStatusAndFlag (brief w) tokenId permCode (PERMISSION_DENIED, 0) in
      if ret = ERR_PERMISSION_NOT_EXIST then refresh_tokens E userId policy tokenIds snaps w
      else if ret \<noteq> RET_SUCCESS then (ret, snaps, w)
      else
        (let (ret, w') = UpdateRestrictedFlagAndRefreshKernel E tokenId permCode isRestricted (uc_isPersist policy) w in
         if ret = ERR_PERMISSION_NOT_EXIST then refresh_tokens E userId policy tokenIds snaps w'
         else if ret \<noteq> RET_SUCCESS then (ret, snaps, w')
         else refresh_tokens E userId policy tokenIds
                (snaps @ [\<lparr>sn_target = HAP, sn_tokenId = tokenId, sn_permCode = permCode,
                           sn_originalStatus = originalStatus, sn_originalFlag = originalFlag\<rparr>]) w'))"

definition RefreshUserPolicyFlagForUser ::
    "('s, 't, 'r, 'k) atm_env \<Rightarrow> int \<Rightarrow> UserPolicyChange \<Rightarrow> UserPolicyRefreshSnapshot list \<Rightarrow> ('s, 'k) atm \<Rightarrow>
      ret \<times> UserPolicyRefreshSnapshot list \<times> ('s, 'k) atm" where
  "RefreshUserPolicyFlagForUser E userId policy snaps w =
     refresh_tokens E userId policy (GetTokenIDByUserID userId w) snaps w"

fun refresh_users ::
    "('s, 't, 'r, 'k) atm_env \<Rightarrow> UserPolicyChange \<Rightarrow> int list \<Rightarrow> UserPolicyRefreshSnapshot list \<Rightarrow> ('s, 'k) atm \<Rightarrow>
      ret \<times> UserPolicyRefreshSnapshot list \<times> ('s, 'k) atm" where
  "refresh_users E policy [] snaps w = (RET_SUCCESS, snaps, w)"
| "refresh_users E policy (userId # userIds) snaps w =
     (let (ret, snaps', w') = RefreshUserPolicyFlagForUser E userId policy snaps w in
      if ret \<noteq> RET_SUCCESS then (ret, snaps', w') else refresh_users E policy userIds snaps' w')"

text \<open>\<open>changedUserList\<close> is a set in the model of the policies; its members are visited in increasing order.\<close>

fun RefreshUserPolicyFlag ::
    "('s, 't, 'r, 'k) atm_env \<Rightarrow> UserPolicyChange list \<Rightarrow> UserPolicyRefreshSnapshot list \<Rightarrow> ('s, 'k) atm \<Rightarrow>
      ret \<times> UserPolicyRefreshSnapshot list \<times> ('s, 'k) atm" where
  "RefreshUserPolicyFlag E [] snaps w = (RET_SUCCESS, snaps, w)"
| "RefreshUserPolicyFlag E (policy # changed) snaps w =
     (let (ret, snaps', w') = refresh_users E policy (sorted_list_of_set (uc_changedUserList policy)) snaps w in
      if ret \<noteq> RET_SUCCESS then (ret, snaps', w') else RefreshUserPolicyFlag E changed snaps' w')"

definition RestoreRestrictedFlag :: "token_id \<Rightarrow> u32 \<Rightarrow> u32 \<Rightarrow> ('s, 'k) atm \<Rightarrow> ret \<times> ('s, 'k) atm" where
  "RestoreRestrictedFlag tokenId permCode originalFlag w =
     (let (ret, _, currentFlag) = QueryStoredPermissionStatusAndFlag (brief w) tokenId permCode (PERMISSION_DENIED, 0) in
      if ret \<noteq> RET_SUCCESS then (ret, w)
      else
        (let currentRestricted = (currentFlag AND PERMISSION_RESTRICTED_BY_ADMIN \<noteq> 0);
             originalRestricted = (originalFlag AND PERMISSION_RESTRICTED_BY_ADMIN \<noteq> 0) in
         if currentRestricted = originalRestricted then (RET_SUCCESS, w)
         else
           (let (ret, _, st) =
                  UpdatePermissionFlag tokenId permCode PERMISSION_RESTRICTED_BY_ADMIN originalRestricted (brief w) in
            (ret, w\<lparr>brief := st\<rparr>))))"

definition RestoreKernelPermissionState ::
    "('s, 't, 'r, 'k) atm_env \<Rightarrow> token_id \<Rightarrow> u32 \<Rightarrow> int \<Rightarrow> u32 \<Rightarrow> ('s, 'k) atm \<Rightarrow> ('s, 'k) atm" where
  "RestoreKernelPermissionState E tokenId permCode originalStatus originalFlag w =
     set_kernel E tokenId (TransferOpcodeToPermission (ae_table E) permCode)
       (kernel_status originalStatus originalFlag) w"

definition rollback_one ::
    "('s, 't, 'r, 'k) atm_env \<Rightarrow> UserPolicyRefreshSnapshot \<Rightarrow> ('s, 'k) atm \<Rightarrow> ('s, 'k) atm" where
  "rollback_one E s w =
     (if sn_target s \<noteq> HAP then w
      else
        (let w1 = snd (RestoreRestrictedFlag (sn_tokenId s) (sn_permCode s) (sn_originalFlag s) w);
             w2 = snd (UpdateRestrictedFlagToDb E (sn_tokenId s) (sn_permCode s) w1) in
         RestoreKernelPermissionState E (sn_tokenId s) (sn_permCode s) (sn_originalStatus s) (sn_originalFlag s) w2))"

definition RollbackUserPolicyFlag ::
    "('s, 't, 'r, 'k) atm_env \<Rightarrow> UserPolicyRefreshSnapshot list \<Rightarrow> ('s, 'k) atm \<Rightarrow> ('s, 'k) atm" where
  "RollbackUserPolicyFlag E appliedSnapshots w = foldl (\<lambda>w s. rollback_one E s w) w (rev appliedSnapshots)"

end
