(* ===== verification/Info_Remote.thy ===== *)
theory Info_Remote
  imports Info_Queries
begin

text \<open>
  The rest of \<open>AccessTokenInfoManager\<close> (\<^verbatim>\<open>accesstoken_info_manager.cpp\<close>): the reset of user grants, tokens
  of other devices, and the queries over many tokens. The lookup of the device id of a network id and the request to
  the other device in \<open>AllocLocalTokenID\<close> are calls of other services and left out.
\<close>

section \<open>Reset of user grants\<close>

definition NotifyUpdatedPermList ::
    "string list \<Rightarrow> string list \<Rightarrow> token_id \<Rightarrow> ('s, 'k) atm \<Rightarrow> ('s, 'k) atm" where
  "NotifyUpdatedPermList grantedPermListBefore grantedPermListAfter tokenID w =
     (let w1 = foldl (\<lambda>w p. notify (ParamUpdate p 0 True) (notify (ExecuteCallbackAsync tokenID p False) w)) w
                 (filter (\<lambda>p. p \<notin> set grantedPermListAfter) grantedPermListBefore) in
      foldl (\<lambda>w p. notify (ParamUpdate p 0 False) (notify (ExecuteCallbackAsync tokenID p True) w)) w1
        (filter (\<lambda>p. p \<notin> set grantedPermListBefore) grantedPermListAfter))"

definition ClearUserGrantedPermission ::
    "('s, 't, 'r, 'k) atm_env \<Rightarrow> token_id \<Rightarrow> ('s, 'k) atm \<Rightarrow> ret \<times> ('s, 'k) atm" where
  "ClearUserGrantedPermission E i w =
     (let (infoPtr, w1) = GetHapTokenInfoInner E i w in
      case infoPtr of
        None \<Rightarrow> (ERR_PARAM_INVALID, w1)
      | Some h \<Rightarrow>
          if hi_isRemote h then (ERR_IDENTITY_CHECK_FAILED, w1)
          else
            (let before = GetGrantedPermList (ae_table E) (brief w1) i [];
                 (ret, st, d) = HapResetUserGrantPermissionStatus (ae_ops E) (ae_table E) (ae_dlpModes E) (ae_now E)
                   (h, brief w1, database w1);
                 w2 = w1\<lparr>brief := st, database := d\<rparr> in
             if ret \<noteq> RET_SUCCESS then (ret, w2)
             else
               (let opCodeList = GetGrantedPermCodeList (brief w2) i [];
                    w3 = w2\<lparr>kernel := snd (AddHapPermToKernel (ae_kernel E) i opCodeList (kernel w2))\<rparr> in
                (RET_SUCCESS,
                 NotifyUpdatedPermList before (map (TransferOpcodeToPermission (ae_table E)) opCodeList) i w3))))"

definition ClearUserGrantedPermissionState ::
    "('s, 't, 'r, 'k) atm_env \<Rightarrow> token_id \<Rightarrow> ('s, 'k) atm \<Rightarrow> ret \<times> ('s, 'k) atm" where
  "ClearUserGrantedPermissionState E tokenID w =
     (let (ret, w1) = ClearUserGrantedPermission E tokenID w in
      if ret \<noteq> RET_SUCCESS then (ret, w1)
      else (ret, foldl (\<lambda>w i. snd (ClearUserGrantedPermission E i w)) w1 (GetRelatedSandBoxHapList tokenID w1)))"

section \<open>Tokens of other devices\<close>

record HapTokenInfoForSync =
  hs_baseInfo :: HapTokenInfo
  hs_permStateList :: "PermissionStatus list"

definition GetHapTokenSync ::
    "('s, 't, 'r, 'k) atm_env \<Rightarrow> token_id \<Rightarrow> ('s, 'k) atm \<Rightarrow> ret \<times> HapTokenInfoForSync option \<times> ('s, 'k) atm" where
  "GetHapTokenSync E tokenID w =
     (let (infoPtr, w1) = GetHapTokenInfoInner E tokenID w in
      case infoPtr of
        None \<Rightarrow> (ERR_IDENTITY_CHECK_FAILED, None, w1)
      | Some h \<Rightarrow>
          if hi_isRemote h then (ERR_IDENTITY_CHECK_FAILED, None, w1)
          else
            (let (ret, states) = GetPermissionStateList (ae_table E) h (brief w1) [] in
             (ret, Some \<lparr>hs_baseInfo = hi_basic h, hs_permStateList = states\<rparr>, w1)))"

definition InfoUpdateRemoteHapTokenInfo ::
    "('s, 't, 'r, 'k) atm_env \<Rightarrow> token_id \<Rightarrow> HapTokenInfoForSync \<Rightarrow> ('s, 'k) atm \<Rightarrow> ret \<times> ('s, 'k) atm" where
  "InfoUpdateRemoteHapTokenInfo E mapID hapSync w =
     (let (infoPtr, w1) = GetHapTokenInfoInner E mapID w in
      case infoPtr of
        None \<Rightarrow> (ERR_IDENTITY_CHECK_FAILED, w1)
      | Some h \<Rightarrow>
          if \<not> hi_isRemote h then (ERR_IDENTITY_CHECK_FAILED, w1)
          else
            (let (h', st) = UpdateRemoteHapTokenInfo (ae_table E) (hs_baseInfo hapSync) (hs_permStateList hapSync)
                   (h, brief w1) in
             (RET_SUCCESS, AddGrantedHapPermsToKernel E mapID (put_hap mapID h' (w1\<lparr>brief := st\<rparr>)))))"

definition CreateRemoteHapTokenInfo ::
    "('s, 't, 'r, 'k) atm_env \<Rightarrow> token_id \<Rightarrow> HapTokenInfoForSync \<Rightarrow> ('s, 'k) atm \<Rightarrow> ret \<times> ('s, 'k) atm" where
  "CreateRemoteHapTokenInfo E mapID hapSync w =
     (let (h0, st) = HapTokenInfoInner_sync (ae_table E) mapID (hs_baseInfo hapSync) (hs_permStateList hapSync) (brief w);
          hap = SetRemote True h0;
          (ret, _, w1) = AddHapTokenInfo E hap (w\<lparr>brief := st\<rparr>) in
      if ret \<noteq> RET_SUCCESS then (ret, destroy_hap hap w1) else (RET_SUCCESS, w1))"

definition IsRemoteHapTokenValid :: "string \<Rightarrow> HapTokenInfoForSync \<Rightarrow> bool" where
  "IsRemoteHapTokenValid deviceID hapSync =
     (let b = hs_baseInfo hapSync in
      if \<not> IsDeviceIdValid deviceID then False
      else if \<not> IsUserIdValid (ht_userID b) then False
      else if \<not> IsBundleNameValid (ht_bundleName b) then False
      else if \<not> IsTokenIDValid (ht_tokenID b) then False
      else if \<not> IsDlpTypeValid (ht_dlpType b) then False
      else if ht_ver b \<noteq> DEFAULT_HAP_VERSION then False
      else if GetTokenIdTypeEnum (ht_tokenID b) \<noteq> TOKEN_HAP then False
      else True)"

definition SetRemoteHapTokenInfo ::
    "('s, 't, 'r, 'k) atm_env \<Rightarrow> string \<Rightarrow> HapTokenInfoForSync \<Rightarrow> ('s, 'k) atm \<Rightarrow> ret \<times> ('s, 'k) atm" where
  "SetRemoteHapTokenInfo E deviceID hapSync w =
     (if \<not> IsRemoteHapTokenValid deviceID hapSync then (ERR_IDENTITY_CHECK_FAILED, w)
      else
        (let remoteID = ht_tokenID (hs_baseInfo hapSync);
             mapID = GetDeviceMappingTokenID deviceID remoteID w;
             with_id = (\<lambda>t. hapSync\<lparr>hs_baseInfo := (hs_baseInfo hapSync)\<lparr>ht_tokenID := t\<rparr>\<rparr>) in
         if mapID \<noteq> 0 then InfoUpdateRemoteHapTokenInfo E mapID (with_id mapID) w
         else
           (let (mapID, w1) = MapRemoteDeviceTokenToLocal E deviceID remoteID w in
            if mapID = 0 then (ERR_TOKEN_MAP_FAILED, w1)
            else
              (let (ret, w2) = CreateRemoteHapTokenInfo E mapID (with_id mapID) w1 in
               if ret \<noteq> RET_SUCCESS then (ret, snd (RemoveDeviceMappingTokenID deviceID mapID w2))
               else (RET_SUCCESS, w2)))))"

definition DeleteRemoteToken ::
    "('s, 't, 'r, 'k) atm_env \<Rightarrow> string \<Rightarrow> token_id \<Rightarrow> ('s, 'k) atm \<Rightarrow> ret \<times> ('s, 'k) atm" where
  "DeleteRemoteToken E deviceID tokenID w =
     (if \<not> IsDeviceIdValid deviceID then (ERR_PARAM_INVALID, w)
      else
        (let mapID = GetDeviceMappingTokenID deviceID tokenID w; type = GetTokenIdTypeEnum mapID in
         if mapID = 0 then (ERR_TOKEN_MAP_FAILED, w)
         else if type = TOKEN_HAP then
           (case hap_at w mapID of
              None \<Rightarrow> (ERR_TOKEN_INVALID, w)
            | Some h \<Rightarrow>
                (let w1 = destroy_hap h (w\<lparr>hapTokenInfoMap := omap_erase (sint mapID) (hapTokenInfoMap w)\<rparr>);
                     w2 = w1\<lparr>kernel := snd (RemovePermFromKernel (ae_kernel E) mapID (kernel w1)),
                             brief := snd (DeleteBriefPermDataByTokenId mapID (brief w1))\<rparr> in
                 RemoveDeviceMappingTokenID deviceID tokenID w2))
         else if type = TOKEN_NATIVE \<or> type = TOKEN_SHELL then
           (if map_of (nativeTokenInfoMap w) mapID = None then (ERR_TOKEN_INVALID, w)
            else RemoveDeviceMappingTokenID deviceID tokenID
                   (w\<lparr>nativeTokenInfoMap := omap_erase mapID (nativeTokenInfoMap w),
                      kernel := snd (RemovePermFromKernel (ae_kernel E) mapID (kernel w))\<rparr>))
         else RemoveDeviceMappingTokenID deviceID tokenID w))"

text \<open>The result of the last deletion is the result.\<close>

definition DeleteRemoteDeviceTokens ::
    "('s, 't, 'r, 'k) atm_env \<Rightarrow> string \<Rightarrow> ('s, 'k) atm \<Rightarrow> ret \<times> ('s, 'k) atm" where
  "DeleteRemoteDeviceTokens E deviceID w =
     (if \<not> IsDeviceIdValid deviceID then (ERR_PARAM_INVALID, w)
      else
        (let (ret, remoteTokens) = GetDeviceAllRemoteTokenID deviceID w in
         if ret \<noteq> RET_SUCCESS then (ret, w)
         else foldl (\<lambda>rw remoteID. DeleteRemoteToken E deviceID remoteID (snd rw)) (ret, w) remoteTokens))"

definition GetRemoteNativeTokenID :: "string \<Rightarrow> token_id \<Rightarrow> ('s, 'k) atm \<Rightarrow> token_id" where
  "GetRemoteNativeTokenID deviceID tokenID w =
     (if \<not> IsDeviceIdValid deviceID \<or> tokenID = 0 \<or>
         GetTokenIdTypeEnum tokenID \<noteq> TOKEN_NATIVE \<and> GetTokenIdTypeEnum tokenID \<noteq> TOKEN_SHELL then 0
      else GetDeviceMappingTokenID deviceID tokenID w)"

section \<open>Queries over many tokens\<close>

record PermissionStatusIdl =
  pi_tokenID :: token_id
  pi_permCode :: u32
  pi_grantStatus :: int
  pi_grantFlag :: u32
  pi_timestamp :: u64

definition GetPermissionTimestamp :: "GenericValues \<Rightarrow> u64" where
  "GetPermissionTimestamp stateValue =
     (let timestamp = GetInt64 stateValue FIELD_TIMESTAMP in if timestamp \<le> 0 then 0 else word_of_int timestamp)"

fun ValidateQueryTokenIdList :: "token_id list \<Rightarrow> token_id list \<Rightarrow> ('s, 'k) atm \<Rightarrow> ret \<times> token_id list" where
  "ValidateQueryTokenIdList [] uniqueTokenIDs w = (RET_SUCCESS, uniqueTokenIDs)"
| "ValidateQueryTokenIdList (tokenID # tokenIDs) uniqueTokenIDs w =
     (if tokenID \<in> set uniqueTokenIDs then ValidateQueryTokenIdList tokenIDs uniqueTokenIDs w
      else if tokenID = 0 then (ERR_PARAM_INVALID, uniqueTokenIDs)
      else if \<not> IsTokenIdExist tokenID w then (ERR_TOKENID_NOT_EXIST, uniqueTokenIDs)
      else if GetTokenIdTypeEnum tokenID \<noteq> TOKEN_HAP then (ERR_PARAM_INVALID, uniqueTokenIDs)
      else ValidateQueryTokenIdList tokenIDs (uniqueTokenIDs @ [tokenID]) w)"

definition GetHapPermissionsFromCache ::
    "perm_table \<Rightarrow> PermissionStatus list \<Rightarrow> token_id \<Rightarrow> PermissionStatusIdl list \<Rightarrow> PermissionStatusIdl list" where
  "GetHapPermissionsFromCache tbl permStateList tokenID permissionInfoList =
     permissionInfoList @ List.map_filter (\<lambda>s.
       case TransferPermissionToOpcode tbl (ps_permissionName s) of
         None \<Rightarrow> None
       | Some permCode \<Rightarrow> Some \<lparr>pi_tokenID = tokenID, pi_permCode = permCode, pi_grantStatus = ps_grantStatus s,
                                pi_grantFlag = ps_grantFlag s, pi_timestamp = 0\<rparr>) permStateList"

fun query_cache_loop ::
    "perm_table \<Rightarrow> (token_id \<times> HapTokenInfoInner) list \<Rightarrow> PermissionDataBrief \<Rightarrow> PermissionStatusIdl list \<Rightarrow>
      ret \<times> PermissionStatusIdl list" where
  "query_cache_loop tbl [] st out = (RET_SUCCESS, out)"
| "query_cache_loop tbl ((t, h) # haps) st out =
     (let (ret, states) = GetPermissionStateList tbl h st [] in
      if ret \<noteq> RET_SUCCESS then (ret, out)
      else query_cache_loop tbl haps st (GetHapPermissionsFromCache tbl states t out))"

definition QueryStatusByTokenIdFromCache ::
    "perm_table \<Rightarrow> token_id list \<Rightarrow> ('s, 'k) atm \<Rightarrow> PermissionStatusIdl list \<Rightarrow> ret \<times> PermissionStatusIdl list" where
  "QueryStatusByTokenIdFromCache tbl uniqueTokenIDs w out =
     (if list_ex (\<lambda>t. hap_at w t = None) uniqueTokenIDs then (ERR_TOKENID_NOT_EXIST, out)
      else query_cache_loop tbl (map (\<lambda>t. (t, the (hap_at w t))) uniqueTokenIDs) (brief w) out)"

definition FindPermissionByTokenIdFromDb ::
    "('s, 't, 'r, 'k) atm_env \<Rightarrow> token_id list \<Rightarrow> ('s, 'k) atm \<Rightarrow> int \<times> GenericValues list \<times> ('s, 'k) atm" where
  "FindPermissionByTokenIdFromDb E uniqueTokenIDs w =
     DbFindIn E ACCESSTOKEN_PERMISSION_STATE FIELD_TOKEN_ID (map (\<lambda>t. TYPE_INT (sint t)) uniqueTokenIDs) w"

definition status_of_row ::
    "PermissionDataBrief \<Rightarrow> GenericValues \<Rightarrow> u32 \<Rightarrow> PermissionStatusIdl" where
  "status_of_row st v permCode =
     (let tokenID = word_of_int (GetInt v FIELD_TOKEN_ID);
          (_, stat, flag) = QueryEffectivePermissionStatusAndFlag st tokenID permCode (PERMISSION_DENIED, 0) in
      \<lparr>pi_tokenID = tokenID, pi_permCode = permCode, pi_grantStatus = stat, pi_grantFlag = flag,
       pi_timestamp = GetPermissionTimestamp v\<rparr>)"

definition QueryStatusByTokenID ::
    "('s, 't, 'r, 'k) atm_env \<Rightarrow> token_id list \<Rightarrow> bool \<Rightarrow> ('s, 'k) atm \<Rightarrow>
      ret \<times> PermissionStatusIdl list \<times> ('s, 'k) atm" where
  "QueryStatusByTokenID E tokenIDList needTimestamp w =
     (let (ret, uniqueTokenIDs) = ValidateQueryTokenIdList tokenIDList [] w in
      if ret \<noteq> RET_SUCCESS then (ret, [], w)
      else if \<not> needTimestamp then
        (let (ret, out) = QueryStatusByTokenIdFromCache (ae_table E) uniqueTokenIDs w [] in (ret, out, w))
      else
        (let (ret, rows, w1) = FindPermissionByTokenIdFromDb E uniqueTokenIDs w in
         if ret \<noteq> RET_SUCCESS then (ret, [], w1)
         else (RET_SUCCESS,
               List.map_filter (\<lambda>v. map_option (status_of_row (brief w1) v)
                 (TransferPermissionToOpcode (ae_table E) (GetString v FIELD_PERMISSION_NAME))) rows, w1)))"

end
