(* ===== verification/Temp_Permission.thy ===== *)
theory Temp_Permission
  imports Info_Queries
begin

text \<open>
  \<open>TempPermissionObserver\<close> (\<^verbatim>\<open>temp_permission_observer.cpp\<close>), first part: the records of permissions granted
  for this time only, the decision whether such a grant is allowed, and the delayed revocation tasks. The observer is
  built with \<open>BGTASKMGR_CONTINUOUS_TASK_ENABLE\<close> and \<open>EVENTHANDLER_ENABLE\<close>; the event handler is the list of posted
  tasks. Registration of callbacks with the other services is left out. The second part, which revokes permissions,
  is in \<open>Temp_Revocation\<close>.
\<close>

section \<open>Permission and task types\<close>

datatype TempPermissionType =
    INVALID_TYPE | LOCATION_TYPE | PASTEBOARD_TYPE | CAMERA_TYPE | MICROPHONE_TYPE | SCREEN_CAPTURE_TYPE

abbreviation MODE_AUDIO_RECORDING :: u32 where "MODE_AUDIO_RECORDING \<equiv> 3"
abbreviation MODE_LOCATION :: u32 where "MODE_LOCATION \<equiv> 4"
abbreviation MODE_VOIP :: u32 where "MODE_VOIP \<equiv> 8"

definition g_permissionTypeMap :: "(string \<times> TempPermissionType) list" where
  "g_permissionTypeMap =
     [(''ohos.permission.READ_PASTEBOARD'', PASTEBOARD_TYPE),
      (''ohos.permission.APPROXIMATELY_LOCATION'', LOCATION_TYPE),
      (''ohos.permission.LOCATION'', LOCATION_TYPE),
      (''ohos.permission.LOCATION_IN_BACKGROUND'', LOCATION_TYPE),
      (''ohos.permission.CAMERA'', CAMERA_TYPE),
      (''ohos.permission.MICROPHONE'', MICROPHONE_TYPE),
      (''ohos.permission.CUSTOM_SCREEN_CAPTURE'', SCREEN_CAPTURE_TYPE)]"

definition g_tempPermission :: "string list" where
  "g_tempPermission =
     [''ohos.permission.READ_PASTEBOARD'', ''ohos.permission.APPROXIMATELY_LOCATION'', ''ohos.permission.LOCATION'',
      ''ohos.permission.LOCATION_IN_BACKGROUND'', ''ohos.permission.CAMERA'', ''ohos.permission.MICROPHONE'',
      ''ohos.permission.CUSTOM_SCREEN_CAPTURE'']"

definition GetTempPermissionTaskName :: "token_id \<Rightarrow> string \<Rightarrow> string" where
  "GetTempPermissionTaskName tokenID permissionName =
     ''atm_permission_manager_temp_permission'' @ to_string (uint tokenID) @ ''#'' @ permissionName"

definition ContainsTypeId :: "u32 list \<Rightarrow> u32 \<Rightarrow> bool" where
  "ContainsTypeId typeIds type \<longleftrightarrow> type \<in> set typeIds"

text \<open>Called only when the service is built with the background revocation of camera and microphone, \<open>mic\<close>.\<close>

definition HasAudioTaskType :: "u32 list \<Rightarrow> bool" where
  "HasAudioTaskType typeIds \<longleftrightarrow> ContainsTypeId typeIds MODE_AUDIO_RECORDING \<or> ContainsTypeId typeIds MODE_VOIP"

definition IsMatchedTaskType :: "bool \<Rightarrow> TempPermissionType \<Rightarrow> u32 list \<Rightarrow> bool" where
  "IsMatchedTaskType mic permissionType typeIds =
     (if permissionType = LOCATION_TYPE then ContainsTypeId typeIds MODE_LOCATION
      else if mic \<and> permissionType = MICROPHONE_TYPE then HasAudioTaskType typeIds
      else False)"

definition GetPermissionType :: "string \<Rightarrow> TempPermissionType" where
  "GetPermissionType permissionName =
     (case map_of g_permissionTypeMap permissionName of None \<Rightarrow> INVALID_TYPE | Some t \<Rightarrow> t)"

section \<open>Records\<close>

text \<open>The two flags of a token: in the foreground, with a visible form.\<close>

definition GetAppStateListByTokenID :: "token_id \<Rightarrow> TempPermissionObserver \<Rightarrow> (bool \<times> bool) option" where
  "GetAppStateListByTokenID tokenID ob = map_of (tempPermTokenMap ob) tokenID"

definition ModifyAppState :: "token_id \<Rightarrow> int \<Rightarrow> bool \<Rightarrow> TempPermissionObserver \<Rightarrow> TempPermissionObserver" where
  "ModifyAppState tokenID index flag ob =
     (case map_of (tempPermTokenMap ob) tokenID of
        None \<Rightarrow> ob
      | Some (fg, form) \<Rightarrow>
          ob\<lparr>tempPermTokenMap :=
            omap_insert tokenID (if index = 0 then (flag, form) else (fg, flag)) (tempPermTokenMap ob)\<rparr>)"

definition GetTokenIDByBundle :: "string \<Rightarrow> TempPermissionObserver \<Rightarrow> token_id option" where
  "GetTokenIDByBundle bundleName ob = map_of (formTokenMap ob) bundleName"

definition UpsertContinuousTask ::
    "token_id \<Rightarrow> int \<Rightarrow> u32 list \<Rightarrow> TempPermissionObserver \<Rightarrow> TempPermissionObserver" where
  "UpsertContinuousTask tokenID continuousTaskId typeIds ob =
     (let tasks = (case map_of (continuousTaskIdMap ob) tokenID of None \<Rightarrow> [] | Some m \<Rightarrow> m) in
      ob\<lparr>continuousTaskIdMap :=
        omap_insert tokenID (omap_insert continuousTaskId typeIds tasks) (continuousTaskIdMap ob)\<rparr>)"

definition RemoveContinuousTask :: "token_id \<Rightarrow> int \<Rightarrow> TempPermissionObserver \<Rightarrow> TempPermissionObserver" where
  "RemoveContinuousTask tokenID continuousTaskId ob =
     (case map_of (continuousTaskIdMap ob) tokenID of
        None \<Rightarrow> ob
      | Some tasks \<Rightarrow>
          (let tasks' = omap_erase continuousTaskId tasks in
           ob\<lparr>continuousTaskIdMap :=
             (if tasks' = [] then omap_erase tokenID (continuousTaskIdMap ob)
              else omap_insert tokenID tasks' (continuousTaskIdMap ob))\<rparr>))"

definition FindContinuousTask :: "bool \<Rightarrow> token_id \<Rightarrow> TempPermissionType \<Rightarrow> TempPermissionObserver \<Rightarrow> bool" where
  "FindContinuousTask mic tokenID type ob =
     (case map_of (continuousTaskIdMap ob) tokenID of
        None \<Rightarrow> False
      | Some tasks \<Rightarrow> list_ex (\<lambda>(_, typeIds). IsMatchedTaskType mic type typeIds) tasks)"

definition HasLocationTask :: "bool \<Rightarrow> token_id \<Rightarrow> TempPermissionObserver \<Rightarrow> bool" where
  "HasLocationTask mic tokenID ob = FindContinuousTask mic tokenID LOCATION_TYPE ob"

definition HasAudioRecordingOrVoipTask :: "bool \<Rightarrow> token_id \<Rightarrow> TempPermissionObserver \<Rightarrow> bool" where
  "HasAudioRecordingOrVoipTask mic tokenID ob = FindContinuousTask mic tokenID MICROPHONE_TYPE ob"

definition GetContinuousTaskTypeIds :: "token_id \<Rightarrow> int \<Rightarrow> TempPermissionObserver \<Rightarrow> u32 list option" where
  "GetContinuousTaskTypeIds tokenID continuousTaskId ob =
     (case map_of (continuousTaskIdMap ob) tokenID of None \<Rightarrow> None | Some tasks \<Rightarrow> map_of tasks continuousTaskId)"

definition GetTempPermissionNames :: "token_id \<Rightarrow> TempPermissionObserver \<Rightarrow> string set option" where
  "GetTempPermissionNames tokenID ob = map_of (tempPermPermissionMap ob) tokenID"

definition HasTempPermissionType :: "token_id \<Rightarrow> TempPermissionType \<Rightarrow> TempPermissionObserver \<Rightarrow> bool" where
  "HasTempPermissionType tokenID type ob =
     (case GetTempPermissionNames tokenID ob of
        None \<Rightarrow> False | Some names \<Rightarrow> (\<exists>name \<in> names. GetPermissionType name = type))"

definition AssociateContinuousTaskIfNeeded ::
    "bool \<Rightarrow> token_id \<Rightarrow> int \<Rightarrow> u32 list \<Rightarrow> TempPermissionObserver \<Rightarrow> bool \<times> TempPermissionObserver" where
  "AssociateContinuousTaskIfNeeded mic tokenID continuousTaskId typeIds ob =
     (let shouldAssociate =
            (ContainsTypeId typeIds MODE_LOCATION \<and> HasTempPermissionType tokenID LOCATION_TYPE ob \<or>
             mic \<and> HasAudioTaskType typeIds \<and> HasTempPermissionType tokenID MICROPHONE_TYPE ob) in
      if \<not> shouldAssociate then (False, ob)
      else (True, UpsertContinuousTask tokenID continuousTaskId typeIds ob))"

definition AddTempPermTokenToList ::
    "token_id \<Rightarrow> string \<Rightarrow> string \<Rightarrow> bool \<times> bool \<Rightarrow> TempPermissionObserver \<Rightarrow> TempPermissionObserver" where
  "AddTempPermTokenToList tokenID bundleName permissionName flags ob =
     (let names = (case map_of (tempPermPermissionMap ob) tokenID of None \<Rightarrow> {} | Some s \<Rightarrow> s) in
      ob\<lparr>tempPermTokenMap := omap_insert tokenID flags (tempPermTokenMap ob),
         tempPermPermissionMap := omap_insert tokenID (insert permissionName names) (tempPermPermissionMap ob),
         formTokenMap := omap_insert bundleName tokenID (formTokenMap ob)\<rparr>)"

text \<open>Results: whether a record was found, \<open>clearTaskState\<close>, the observer.\<close>

definition RemoveTempPermissionRecord ::
    "token_id \<Rightarrow> string \<Rightarrow> TempPermissionObserver \<Rightarrow> bool \<times> bool \<times> TempPermissionObserver" where
  "RemoveTempPermissionRecord tokenID permissionName ob =
     (case map_of (tempPermPermissionMap ob) tokenID of
        None \<Rightarrow> (False, False, ob)
      | Some names \<Rightarrow>
          (let names' = names - {permissionName} in
           if names' \<noteq> {}
           then (True, False, ob\<lparr>tempPermPermissionMap := omap_insert tokenID names' (tempPermPermissionMap ob)\<rparr>)
           else (True, True, ob\<lparr>tempPermPermissionMap := omap_erase tokenID (tempPermPermissionMap ob),
                                tempPermTokenMap := omap_erase tokenID (tempPermTokenMap ob)\<rparr>)))"

definition SetCancelTime :: "int \<Rightarrow> TempPermissionObserver \<Rightarrow> TempPermissionObserver" where
  "SetCancelTime cancelTime ob = (if cancelTime \<noteq> 0 then ob\<lparr>cancelTimes := cancelTime\<rparr> else ob)"

section \<open>Whether a grant for this time is allowed\<close>

definition CollectContinuousTaskState :: "('s, 't, 'r, 'k) atm_env \<Rightarrow> token_id \<Rightarrow> bool \<times> bool" where
  "CollectContinuousTaskState E tokenID =
     (let own = filter (\<lambda>info. ucast (ct_fullTokenId info) = tokenID) (ae_continuousTasks E) in
      (list_ex (\<lambda>info. ContainsTypeId (ct_typeIds info) MODE_LOCATION) own,
       ae_revokeCameraMic E \<and> list_ex (\<lambda>info. HasAudioTaskType (ct_typeIds info)) own))"

definition AssociateGrantedPermissionTasks ::
    "('s, 't, 'r, 'k) atm_env \<Rightarrow> token_id \<Rightarrow> TempPermissionType \<Rightarrow> TempPermissionObserver \<Rightarrow> TempPermissionObserver" where
  "AssociateGrantedPermissionTasks E tokenID permissionType ob =
     foldl (\<lambda>ob info.
       if ucast (ct_fullTokenId info) \<noteq> tokenID then ob
       else if permissionType = LOCATION_TYPE \<and> ContainsTypeId (ct_typeIds info) MODE_LOCATION
       then snd (AssociateContinuousTaskIfNeeded (ae_revokeCameraMic E) tokenID (ct_taskId info) (ct_typeIds info) ob)
       else if ae_revokeCameraMic E \<and> permissionType = MICROPHONE_TYPE \<and> HasAudioTaskType (ct_typeIds info)
       then snd (AssociateContinuousTaskIfNeeded (ae_revokeCameraMic E) tokenID (ct_taskId info) (ct_typeIds info) ob)
       else ob) ob (ae_continuousTasks E)"

definition IsPrivilegedCalling :: "('s, 't, 'r, 'k) atm_env \<Rightarrow> bool" where
  "IsPrivilegedCalling E \<longleftrightarrow> ae_callingUid E = 0"

text \<open>The arguments: in the foreground, with a visible form, with a location task, with an audio task.\<close>

definition CheckTempPermissionByType :: "string \<Rightarrow> bool \<Rightarrow> bool \<Rightarrow> bool \<Rightarrow> bool \<Rightarrow> bool" where
  "CheckTempPermissionByType permissionName isForeground isFormVisible hasLocationTask hasAudioTask =
     (case GetPermissionType permissionName of
        CAMERA_TYPE \<Rightarrow> isForeground
      | MICROPHONE_TYPE \<Rightarrow> isForeground \<or> hasAudioTask
      | SCREEN_CAPTURE_TYPE \<Rightarrow> True
      | PASTEBOARD_TYPE \<Rightarrow> isForeground \<or> isFormVisible
      | LOCATION_TYPE \<Rightarrow> isForeground \<or> isFormVisible \<or> hasLocationTask
      | INVALID_TYPE \<Rightarrow> False)"

definition CheckPermissionState ::
    "('s, 't, 'r, 'k) atm_env \<Rightarrow> token_id \<Rightarrow> string \<Rightarrow> string \<Rightarrow> TempPermissionObserver \<Rightarrow>
      bool \<times> TempPermissionObserver" where
  "CheckPermissionState E tokenID permissionName bundleName ob =
     (let isForeground = (tokenID \<in> set (ae_foreground E));
          (hasLocationTask, hasAudioTask) = CollectContinuousTaskState E tokenID;
          isFormVisible = ae_formVisible E tokenID;
          ob' = AddTempPermTokenToList tokenID bundleName permissionName (isForeground, isFormVisible) ob in
      if IsPrivilegedCalling E then (True, ob')
      else if \<not> CheckTempPermissionByType permissionName isForeground isFormVisible hasLocationTask hasAudioTask
      then (False, ob)
      else (True, AssociateGrantedPermissionTasks E tokenID (GetPermissionType permissionName) ob'))"

definition IsAllowGrantTempPermission ::
    "('s, 't, 'r, 'k) atm_env \<Rightarrow> token_id \<Rightarrow> string \<Rightarrow> ('s, 'k) atm \<Rightarrow> bool \<times> ('s, 'k) atm" where
  "IsAllowGrantTempPermission E tokenID permissionName w =
     (let (ret, tokenInfo, w1) = GetHapTokenInfo E tokenID w in
      if ret \<noteq> RET_SUCCESS then (False, w1)
      else if permissionName \<notin> set g_tempPermission then (False, w1)
      else
        (let (ok, ob) = CheckPermissionState E tokenID permissionName (ht_bundleName (the tokenInfo)) (tempObserver w1) in
         (ok, w1\<lparr>tempObserver := ob\<rparr>)))"

section \<open>Delayed revocation\<close>

definition DelayRevokePermission :: "token_id \<Rightarrow> string \<Rightarrow> string \<Rightarrow> ('s, 'k) atm \<Rightarrow> ('s, 'k) atm" where
  "DelayRevokePermission tokenID permissionName taskName w =
     w\<lparr>tempTasks := tempTasks w @ [\<lparr>rt_name = taskName, rt_tokenID = tokenID, rt_permissionName = permissionName,
                                    rt_delay = cancelTimes (tempObserver w)\<rparr>]\<rparr>"

definition CancelTaskOfPermissionRevoking :: "string \<Rightarrow> ('s, 'k) atm \<Rightarrow> ('s, 'k) atm" where
  "CancelTaskOfPermissionRevoking taskName w = w\<lparr>tempTasks := filter (\<lambda>t. rt_name t \<noteq> taskName) (tempTasks w)\<rparr>"

text \<open>A \<open>std::set\<close> of names is visited in increasing order.\<close>

definition temp_names :: "token_id \<Rightarrow> ('s, 'k) atm \<Rightarrow> string list" where
  "temp_names tokenID w =
     (case GetTempPermissionNames tokenID (tempObserver w) of None \<Rightarrow> [] | Some names \<Rightarrow> sorted_list_of_set names)"

definition CancelDelayedTasks :: "token_id \<Rightarrow> ('s, 'k) atm \<Rightarrow> ('s, 'k) atm" where
  "CancelDelayedTasks tokenID w =
     foldl (\<lambda>w name. CancelTaskOfPermissionRevoking (GetTempPermissionTaskName tokenID name) w) w (temp_names tokenID w)"

definition CancelDelayedTasksOfType :: "token_id \<Rightarrow> TempPermissionType \<Rightarrow> ('s, 'k) atm \<Rightarrow> ('s, 'k) atm" where
  "CancelDelayedTasksOfType tokenID type w =
     foldl (\<lambda>w name. CancelTaskOfPermissionRevoking (GetTempPermissionTaskName tokenID name) w) w
       (filter (\<lambda>name. GetPermissionType name = type) (temp_names tokenID w))"

definition DelayRevokePermissionsByType :: "token_id \<Rightarrow> TempPermissionType \<Rightarrow> ('s, 'k) atm \<Rightarrow> ('s, 'k) atm" where
  "DelayRevokePermissionsByType tokenID type w =
     foldl (\<lambda>w name. DelayRevokePermission tokenID name (GetTempPermissionTaskName tokenID name) w) w
       (filter (\<lambda>name. GetPermissionType name = type) (temp_names tokenID w))"

definition HandleBackgroundState ::
    "('s, 't, 'r, 'k) atm_env \<Rightarrow> token_id \<Rightarrow> bool \<times> bool \<Rightarrow> ('s, 'k) atm \<Rightarrow> ('s, 'k) atm" where
  "HandleBackgroundState E tokenID flags w =
     (let mic = ae_revokeCameraMic E; form = snd flags;
          w1 = (if mic then DelayRevokePermissionsByType tokenID CAMERA_TYPE w else w);
          w2 = (if mic \<and> \<not> HasAudioRecordingOrVoipTask mic tokenID (tempObserver w1)
                then DelayRevokePermissionsByType tokenID MICROPHONE_TYPE w1 else w1);
          w3 = (if \<not> form then DelayRevokePermissionsByType tokenID PASTEBOARD_TYPE w2 else w2) in
      if \<not> form \<and> \<not> HasLocationTask mic tokenID (tempObserver w3)
      then DelayRevokePermissionsByType tokenID LOCATION_TYPE w3 else w3)"

definition HandleFormInvisibleState ::
    "('s, 't, 'r, 'k) atm_env \<Rightarrow> token_id \<Rightarrow> bool \<times> bool \<Rightarrow> ('s, 'k) atm \<Rightarrow> ('s, 'k) atm" where
  "HandleFormInvisibleState E tokenID flags w =
     (if fst flags then w
      else
        (let w1 = DelayRevokePermissionsByType tokenID PASTEBOARD_TYPE w in
         if HasLocationTask (ae_revokeCameraMic E) tokenID (tempObserver w1) then w1
         else DelayRevokePermissionsByType tokenID LOCATION_TYPE w1))"

definition HandleContinuousTaskStop ::
    "('s, 't, 'r, 'k) atm_env \<Rightarrow> token_id \<Rightarrow> TempPermissionType \<Rightarrow> bool \<times> bool \<Rightarrow> ('s, 'k) atm \<Rightarrow> ('s, 'k) atm" where
  "HandleContinuousTaskStop E tokenID type flags w =
     (let found = FindContinuousTask (ae_revokeCameraMic E) tokenID type (tempObserver w) in
      if type = LOCATION_TYPE then
        (if found \<or> fst flags \<or> snd flags then w else DelayRevokePermissionsByType tokenID type w)
      else if type = MICROPHONE_TYPE then
        (if found \<or> fst flags then w else DelayRevokePermissionsByType tokenID type w)
      else w)"

section \<open>Events\<close>

text \<open>The states \<open>APP_STATE_FOREGROUND\<close>, \<open>APP_STATE_BACKGROUND\<close> and \<open>APP_STATE_TERMINATED\<close> are 2, 4 and 5.\<close>

definition OnAppStateChanged ::
    "('s, 't, 'r, 'k) atm_env \<Rightarrow> token_id \<Rightarrow> int \<Rightarrow> ('s, 'k) atm \<Rightarrow> ('s, 'k) atm" where
  "OnAppStateChanged E tokenID state w =
     (case GetAppStateListByTokenID tokenID (tempObserver w) of
        None \<Rightarrow> w
      | Some flags \<Rightarrow>
          if state = 2
          then CancelDelayedTasks tokenID (w\<lparr>tempObserver := ModifyAppState tokenID 0 True (tempObserver w)\<rparr>)
          else if state = 4
          then HandleBackgroundState E tokenID flags
                 (w\<lparr>tempObserver := ModifyAppState tokenID 0 False (tempObserver w)\<rparr>)
          else w)"

text \<open>One form instance: bundle name and visibility (1 visible, 2 invisible).\<close>

definition form_event :: "('s, 't, 'r, 'k) atm_env \<Rightarrow> string \<times> int \<Rightarrow> ('s, 'k) atm \<Rightarrow> ('s, 'k) atm" where
  "form_event E form w =
     (case GetTokenIDByBundle (fst form) (tempObserver w) of
        None \<Rightarrow> w
      | Some tokenID \<Rightarrow>
          (case GetAppStateListByTokenID tokenID (tempObserver w) of
             None \<Rightarrow> w
           | Some flags \<Rightarrow>
               if snd form = 1
               then CancelDelayedTasksOfType tokenID LOCATION_TYPE
                      (w\<lparr>tempObserver := ModifyAppState tokenID 1 True (tempObserver w)\<rparr>)
               else if snd form = 2
               then HandleFormInvisibleState E tokenID flags
                      (w\<lparr>tempObserver := ModifyAppState tokenID 1 False (tempObserver w)\<rparr>)
               else w))"

definition NotifyWhetherFormsVisible ::
    "('s, 't, 'r, 'k) atm_env \<Rightarrow> (string \<times> int) list \<Rightarrow> ('s, 'k) atm \<Rightarrow> ret \<times> ('s, 'k) atm" where
  "NotifyWhetherFormsVisible E formInstances w = (RET_SUCCESS, foldl (\<lambda>w form. form_event E form w) w formInstances)"

definition OnContinuousTaskStart ::
    "('s, 't, 'r, 'k) atm_env \<Rightarrow> continuous_task \<Rightarrow> ('s, 'k) atm \<Rightarrow> ('s, 'k) atm" where
  "OnContinuousTaskStart E info w =
     (let tokenID = ucast (ct_fullTokenId info); mic = ae_revokeCameraMic E in
      case GetAppStateListByTokenID tokenID (tempObserver w) of
        None \<Rightarrow> w
      | Some _ \<Rightarrow>
          (let (associated, ob) =
                 AssociateContinuousTaskIfNeeded mic tokenID (ct_taskId info) (ct_typeIds info) (tempObserver w) in
           if \<not> associated then w\<lparr>tempObserver := ob\<rparr>
           else
             (let w1 = w\<lparr>tempObserver := ob\<rparr>;
                  w2 = (if ContainsTypeId (ct_typeIds info) MODE_LOCATION
                        then CancelDelayedTasksOfType tokenID LOCATION_TYPE w1 else w1) in
              if mic \<and> HasAudioTaskType (ct_typeIds info)
              then CancelDelayedTasksOfType tokenID MICROPHONE_TYPE w2 else w2)))"

definition OnContinuousTaskUpdate ::
    "('s, 't, 'r, 'k) atm_env \<Rightarrow> continuous_task \<Rightarrow> ('s, 'k) atm \<Rightarrow> ('s, 'k) atm" where
  "OnContinuousTaskUpdate E info w =
     (let tokenID = ucast (ct_fullTokenId info); mic = ae_revokeCameraMic E; taskId = ct_taskId info;
          newTypeIds = ct_typeIds info in
      case GetAppStateListByTokenID tokenID (tempObserver w) of
        None \<Rightarrow> w
      | Some flags \<Rightarrow>
          (let old = GetContinuousTaskTypeIds tokenID taskId (tempObserver w);
               oldTypeIds = (case old of None \<Rightarrow> [] | Some ts \<Rightarrow> ts);
               (associated, ob) =
                 (if old \<noteq> None then (True, UpsertContinuousTask tokenID taskId newTypeIds (tempObserver w))
                  else AssociateContinuousTaskIfNeeded mic tokenID taskId newTypeIds (tempObserver w));
               w1 = w\<lparr>tempObserver := ob\<rparr> in
           if \<not> associated then w1
           else
             (let w2 = (if ContainsTypeId newTypeIds MODE_LOCATION
                        then CancelDelayedTasksOfType tokenID LOCATION_TYPE w1
                        else if ContainsTypeId oldTypeIds MODE_LOCATION
                        then HandleContinuousTaskStop E tokenID LOCATION_TYPE flags w1 else w1) in
              if \<not> mic then w2
              else if HasAudioTaskType newTypeIds then CancelDelayedTasksOfType tokenID MICROPHONE_TYPE w2
              else if HasAudioTaskType oldTypeIds then HandleContinuousTaskStop E tokenID MICROPHONE_TYPE flags w2
              else w2)))"

definition OnContinuousTaskStop ::
    "('s, 't, 'r, 'k) atm_env \<Rightarrow> continuous_task \<Rightarrow> ('s, 'k) atm \<Rightarrow> ('s, 'k) atm" where
  "OnContinuousTaskStop E info w =
     (let tokenID = ucast (ct_fullTokenId info); mic = ae_revokeCameraMic E in
      case GetAppStateListByTokenID tokenID (tempObserver w) of
        None \<Rightarrow> w
      | Some flags \<Rightarrow>
          (let old = GetContinuousTaskTypeIds tokenID (ct_taskId info) (tempObserver w);
               w1 = w\<lparr>tempObserver := RemoveContinuousTask tokenID (ct_taskId info) (tempObserver w)\<rparr> in
           case old of
             None \<Rightarrow> w1
           | Some oldTypeIds \<Rightarrow>
               (let w2 = (if ContainsTypeId oldTypeIds MODE_LOCATION
                          then HandleContinuousTaskStop E tokenID LOCATION_TYPE flags w1 else w1) in
                if mic \<and> HasAudioTaskType oldTypeIds
                then HandleContinuousTaskStop E tokenID MICROPHONE_TYPE flags w2 else w2)))"

end
