(* ===== verification/Permission_Manager.thy ===== *)
theory Permission_Manager
  imports Temp_Permission
begin

text \<open>
  \<open>PermissionManager\<close> (\<^verbatim>\<open>permission_manager.cpp\<close>, built with \<open>SUPPORT_SANDBOX_APP\<close> and
  \<open>TOKEN_SYNC_ENABLE\<close>): granting and revoking permissions of a token and of the sandbox tokens that share its
  permissions, the state shown before a permission dialog, and the rules for location permissions. Reports to the
  event log and to the grant-event statistics, and the settings page, are left out. The checks at installation are in
  \<open>Hap_Policy\<close>.
\<close>

section \<open>The state before a dialog\<close>

datatype PermissionOper = SETTING_OPER | PASS_OPER | DYNAMIC_OPER | INVALID_OPER | FORBIDDEN_OPER | BUTT_OPER

datatype PermissionErrorReason =
    REQ_SUCCESS | PERM_INVALID | PERM_NOT_DECLEARED | CONDITIONS_NOT_MET | PRIVACY_STATEMENT_NOT_AGREED
  | UNABLE_POP_UP | MANUAL_SETTING_PERM | SERVICE_ABNORMAL

record PermissionListState =
  pl_permissionName :: string
  pl_state :: PermissionOper
  pl_errorReason :: PermissionErrorReason

abbreviation VAGUE_LOCATION_PERMISSION_NAME :: string where
  "VAGUE_LOCATION_PERMISSION_NAME \<equiv> ''ohos.permission.APPROXIMATELY_LOCATION''"
abbreviation ACCURATE_LOCATION_PERMISSION_NAME :: string where
  "ACCURATE_LOCATION_PERMISSION_NAME \<equiv> ''ohos.permission.LOCATION''"
abbreviation BACKGROUND_LOCATION_PERMISSION_NAME :: string where
  "BACKGROUND_LOCATION_PERMISSION_NAME \<equiv> ''ohos.permission.LOCATION_IN_BACKGROUND''"
abbreviation ACCURATE_LOCATION_API_VERSION :: int where "ACCURATE_LOCATION_API_VERSION \<equiv> 9"
abbreviation BACKGROUND_LOCATION_API_VERSION :: int where "BACKGROUND_LOCATION_API_VERSION \<equiv> 11"

definition g_notDisplayedPerms :: "string list" where
  "g_notDisplayedPerms =
     [''ohos.permission.ANSWER_CALL'', ''ohos.permission.MANAGE_VOICEMAIL'', ''ohos.permission.READ_CELL_MESSAGES'',
      ''ohos.permission.RECEIVE_MMS'', ''ohos.permission.RECEIVE_SMS'', ''ohos.permission.RECEIVE_WAP_MESSAGES'',
      ''ohos.permission.SEND_MESSAGES'', ''ohos.permission.WRITE_CALL_LOG'',
      ''ohos.permission.SHORT_TERM_WRITE_IMAGEVIDEO'']"

definition PmGetPermissionUsedType ::
    "perm_table \<Rightarrow> PermissionDataBrief \<Rightarrow> token_id \<Rightarrow> string \<Rightarrow> PermUsedTypeEnum" where
  "PmGetPermissionUsedType tbl st tokenID permissionName =
     (if tokenID = INVALID_TOKENID \<or> TOKEN_HAP \<noteq> GetTokenIdTypeEnum tokenID then INVALID_USED_TYPE
      else if IsBinTokenId tokenID then NORMAL_TYPE
      else HapGetPermissionUsedType tbl st tokenID permissionName)"

definition GetReqPermissions ::
    "('s, 't, 'r, 'k) atm_env \<Rightarrow> token_id \<Rightarrow> PermissionStatus list \<Rightarrow> bool \<Rightarrow> ('s, 'k) atm \<Rightarrow>
      ret \<times> PermissionStatus list \<times> ('s, 'k) atm" where
  "GetReqPermissions E tokenID reqPermList isSystemGrant w =
     (let (infoPtr, w1) = GetHapTokenInfoInner E tokenID w in
      case infoPtr of
        None \<Rightarrow> (ERR_TOKENID_NOT_EXIST, reqPermList, w1)
      | Some h \<Rightarrow>
          (let (ret, tmpList) = GetPermissionStateList (ae_table E) h (brief w1) [] in
           if ret \<noteq> RET_SUCCESS then (ret, reqPermList, w1)
           else (RET_SUCCESS,
                 reqPermList @ filter (\<lambda>perm.
                   case GetPermissionBriefDef (ae_table E) (ps_permissionName perm) of
                     None \<Rightarrow> False
                   | Some d \<Rightarrow> isSystemGrant \<and> bd_grantMode d = SYSTEM_GRANT \<or>
                               \<not> isSystemGrant \<and> bd_grantMode d \<noteq> SYSTEM_GRANT) tmpList, w1)))"

text \<open>\<open>Inl\<close> the reason of a refusal, \<open>Inr\<close> the status and flag found.\<close>

definition IsPermissionRequestedInHap ::
    "perm_table \<Rightarrow> PermissionStatus list \<Rightarrow> string \<Rightarrow> PermissionErrorReason + int \<times> u32" where
  "IsPermissionRequestedInHap tbl permsList permission =
     (if \<not> IsPermissionValidForHap tbl permission then Inl PERM_INVALID
      else (case find (\<lambda>perm. permission = ps_permissionName perm) permsList of
              None \<Rightarrow> Inl PERM_NOT_DECLEARED
            | Some p \<Rightarrow> Inr (ps_grantStatus p, ps_grantFlag p)))"

definition IsPermissionRestrictedByRules :: "('s, 't, 'r, 'k) atm_env \<Rightarrow> string \<Rightarrow> ('s, 'k) atm \<Rightarrow> bool" where
  "IsPermissionRestrictedByRules E permission w =
     (if permission \<in> set g_notDisplayedPerms then True
      else
        (let dlpType = GetHapTokenDlpType (ucast (ae_callingFullTokenID E)) w in
         if dlpType \<noteq> DLP_COMMON \<and> \<not> IsPermissionAvailableToDlpHap (ae_dlpModes E) dlpType permission then True
         else False))"

definition HandlePermissionDeniedCase :: "perm_table \<Rightarrow> u32 \<Rightarrow> PermissionListState \<Rightarrow> bool \<times> PermissionListState" where
  "HandlePermissionDeniedCase tbl goalGrantFlag permState =
     (if (case GetPermissionBriefDef tbl (pl_permissionName permState) of
            None \<Rightarrow> False | Some d \<Rightarrow> bd_grantMode d = MANUAL_SETTINGS)
      then (True, permState\<lparr>pl_state := INVALID_OPER, pl_errorReason := MANUAL_SETTING_PERM\<rparr>)
      else if goalGrantFlag AND PERMISSION_FIXED_BY_ADMIN_POLICY \<noteq> 0
      then (True, permState\<lparr>pl_state := FORBIDDEN_OPER, pl_errorReason := UNABLE_POP_UP\<rparr>)
      else if goalGrantFlag AND PERMISSION_ADMIN_POLICIES_CANCEL \<noteq> 0
      then (True, permState\<lparr>pl_state := SETTING_OPER, pl_errorReason := REQ_SUCCESS\<rparr>)
      else if goalGrantFlag AND PERMISSION_FIXED_FOR_SECURITY_POLICY \<noteq> 0
      then (True, permState\<lparr>pl_state := SETTING_OPER, pl_errorReason := REQ_SUCCESS\<rparr>)
      else if goalGrantFlag = PERMISSION_DEFAULT_FLAG \<or> goalGrantFlag AND PERMISSION_USER_SET \<noteq> 0 \<or>
              goalGrantFlag AND PERMISSION_COMPONENT_SET \<noteq> 0 \<or> goalGrantFlag AND PERMISSION_ALLOW_THIS_TIME \<noteq> 0
      then (True, permState\<lparr>pl_state := DYNAMIC_OPER, pl_errorReason := REQ_SUCCESS\<rparr>)
      else if goalGrantFlag AND PERMISSION_USER_FIXED \<noteq> 0
      then (True, permState\<lparr>pl_state := SETTING_OPER, pl_errorReason := REQ_SUCCESS\<rparr>)
      else (False, permState))"

definition GetSelfPermissionState ::
    "('s, 't, 'r, 'k) atm_env \<Rightarrow> PermissionStatus list \<Rightarrow> int \<Rightarrow> ('s, 'k) atm \<Rightarrow> PermissionListState \<Rightarrow>
      PermissionListState" where
  "GetSelfPermissionState E permsList apiVersion w permState =
     (let permission = pl_permissionName permState in
      if permission = VAGUE_LOCATION_PERMISSION_NAME \<and> apiVersion < ACCURATE_LOCATION_API_VERSION
      then permState\<lparr>pl_state := INVALID_OPER, pl_errorReason := CONDITIONS_NOT_MET\<rparr>
      else
        (case IsPermissionRequestedInHap (ae_table E) permsList permission of
           Inl reason \<Rightarrow> permState\<lparr>pl_state := INVALID_OPER, pl_errorReason := reason\<rparr>
         | Inr (goalGrantStatus, goalGrantFlag) \<Rightarrow>
             if IsPermissionRestrictedByRules E permission w
             then permState\<lparr>pl_state := INVALID_OPER, pl_errorReason := UNABLE_POP_UP\<rparr>
             else
               (let (handled, permState') = HandlePermissionDeniedCase (ae_table E) goalGrantFlag permState in
                if goalGrantStatus = PERMISSION_DENIED \<and> handled then permState'
                else permState\<lparr>pl_state := PASS_OPER, pl_errorReason := REQ_SUCCESS\<rparr>)))"

definition GetPermissionFlag :: "perm_table \<Rightarrow> token_id \<Rightarrow> string \<Rightarrow> PermissionDataBrief \<Rightarrow> u32 \<Rightarrow> ret \<times> u32" where
  "GetPermissionFlag tbl tokenID permissionName st flag =
     (if \<not> IsPermissionNameValid permissionName then (ERR_PARAM_INVALID, flag)
      else if \<not> IsDefinedPermissionInner tbl permissionName then (ERR_PERMISSION_NOT_EXIST, flag)
      else (case TransferPermissionToOpcode tbl permissionName of
              None \<Rightarrow> (ERR_PERMISSION_NOT_EXIST, flag)
            | Some opCode \<Rightarrow>
                (let (ret, _, f) = QueryEffectivePermissionStatusAndFlag st tokenID opCode (PERMISSION_DENIED, flag) in
                 (ret, f))))"

section \<open>Location permissions\<close>

record LocationIndex =
  li_vague :: "nat option"
  li_accurate :: "nat option"
  li_back :: "nat option"

fun location_index :: "PermissionListState list \<Rightarrow> nat \<Rightarrow> LocationIndex \<Rightarrow> bool \<Rightarrow> bool \<times> LocationIndex" where
  "location_index [] index li hasFound = (hasFound, li)"
| "location_index (perm # perms) index li hasFound =
     (let name = pl_permissionName perm;
          (li', found) =
            (if name = VAGUE_LOCATION_PERMISSION_NAME then (li\<lparr>li_vague := Some index\<rparr>, True)
             else if name = ACCURATE_LOCATION_PERMISSION_NAME then (li\<lparr>li_accurate := Some index\<rparr>, True)
             else if name = BACKGROUND_LOCATION_PERMISSION_NAME then (li\<lparr>li_back := Some index\<rparr>, True)
             else (li, hasFound)) in
      if li_vague li' \<noteq> None \<and> li_accurate li' \<noteq> None \<and> li_back li' \<noteq> None then (found, li')
      else location_index perms (Suc index) li' found)"

definition GetLocationPermissionIndex :: "PermissionListState list \<Rightarrow> bool \<times> LocationIndex" where
  "GetLocationPermissionIndex reqPermList =
     location_index reqPermList 0 \<lparr>li_vague = None, li_accurate = None, li_back = None\<rparr> False"

definition at_index :: "nat option \<Rightarrow> (PermissionListState \<Rightarrow> PermissionListState) \<Rightarrow> PermissionListState list \<Rightarrow>
      PermissionListState list" where
  "at_index i f l = (case i of None \<Rightarrow> l | Some n \<Rightarrow> l[n := f (l ! n)])"

definition not_met :: "PermissionListState \<Rightarrow> PermissionListState" where
  "not_met p = p\<lparr>pl_state := INVALID_OPER, pl_errorReason := CONDITIONS_NOT_MET\<rparr>"

definition dynamic_at :: "nat option \<Rightarrow> PermissionListState list \<Rightarrow> bool" where
  "dynamic_at i l = (case i of None \<Rightarrow> False | Some n \<Rightarrow> pl_state (l ! n) = DYNAMIC_OPER)"

definition GetLocationPermissionState ::
    "('s, 't, 'r, 'k) atm_env \<Rightarrow> token_id \<Rightarrow> PermissionListState list \<Rightarrow> PermissionStatus list \<Rightarrow> int \<Rightarrow> LocationIndex \<Rightarrow>
      ('s, 'k) atm \<Rightarrow> bool \<times> PermissionListState list" where
  "GetLocationPermissionState E tokenID reqPermList permsList apiVersion li w =
     (let self = GetSelfPermissionState E permsList apiVersion w;
          l1 = at_index (li_vague li) self reqPermList;
          needVagueDynamic = dynamic_at (li_vague li) l1;
          isVagueGranted =
            (VerifyPermissionStatus (ae_table E) (brief w) tokenID VAGUE_LOCATION_PERMISSION_NAME = PERMISSION_GRANTED);
          l2 = at_index (li_accurate li) self l1;
          accurateDynamic = dynamic_at (li_accurate li) l2;
          refused = (accurateDynamic \<and> \<not> needVagueDynamic \<and> \<not> isVagueGranted);
          l3 = (if refused then at_index (li_accurate li) not_met l2 else l2);
          needAccurateDynamic = (accurateDynamic \<and> \<not> refused) in
      if li_back li = None then (needVagueDynamic \<or> needAccurateDynamic, l3)
      else if apiVersion \<ge> BACKGROUND_LOCATION_API_VERSION
      then (False, at_index (li_back li) not_met (at_index (li_accurate li) not_met (at_index (li_vague li) not_met l3)))
      else
        (let l4 = at_index (li_back li) self l3;
             l5 = (if \<not> dynamic_at (li_back li) l4 then l4
                   else if needAccurateDynamic \<or> needVagueDynamic
                   then at_index (li_back li) (\<lambda>p. p\<lparr>pl_state := SETTING_OPER, pl_errorReason := REQ_SUCCESS\<rparr>) l4
                   else at_index (li_back li) not_met l4) in
         (needVagueDynamic \<or> needAccurateDynamic, l5)))"

definition LocationPermissionSpecialHandle ::
    "('s, 't, 'r, 'k) atm_env \<Rightarrow> token_id \<Rightarrow> PermissionListState list \<Rightarrow> PermissionStatus list \<Rightarrow> int \<Rightarrow> ('s, 'k) atm \<Rightarrow>
      bool \<times> PermissionListState list" where
  "LocationPermissionSpecialHandle E tokenID reqPermList permsList apiVersion w =
     (let (found, li) = GetLocationPermissionIndex reqPermList in
      if \<not> found then (False, reqPermList)
      else GetLocationPermissionState E tokenID reqPermList permsList apiVersion li w)"

section \<open>Grant and revoke\<close>

definition NotifyWhenPermissionStateUpdated ::
    "('s, 't, 'r, 'k) atm_env \<Rightarrow> string \<Rightarrow> bool \<Rightarrow> u32 \<Rightarrow> HapTokenInfoInner \<Rightarrow> ('s, 'k) atm \<Rightarrow> ('s, 'k) atm" where
  "NotifyWhenPermissionStateUpdated E permissionName isGranted flag infoPtr w =
     (let tokenID = ht_tokenID (hi_basic infoPtr);
          permCode = (case TransferPermissionToOpcode (ae_table E) permissionName of None \<Rightarrow> 0 | Some c \<Rightarrow> c);
          (ret, isGrantedBefore, k) = GetPermFromKernel (ae_kernel E) tokenID permCode (kernel w);
          w1 = w\<lparr>kernel := k\<rparr>;
          isRestricted = IsPermissionRestricted (policies w1) tokenID (ht_userID (hi_basic infoPtr)) permCode;
          effectiveGranted = (isGranted \<and> \<not> isRestricted);
          w2 = (if ret \<noteq> RET_SUCCESS then set_kernel E tokenID permissionName effectiveGranted w1
                else if isGrantedBefore \<noteq> effectiveGranted
                then notify (ExecuteCallbackAsync tokenID permissionName effectiveGranted)
                       (set_kernel E tokenID permissionName effectiveGranted w1)
                else w1) in
      notify (ParamUpdate permissionName flag False) w2)"

definition update_status ::
    "('s, 't, 'r, 'k) atm_env \<Rightarrow> HapTokenInfoInner \<Rightarrow> string \<Rightarrow> bool \<Rightarrow> u32 \<Rightarrow> ('s, 'k) atm \<Rightarrow>
      ret \<times> bool \<times> HapTokenInfoInner \<times> ('s, 'k) atm" where
  "update_status E h permission isGranted flag w =
     (let (ret, statusChanged, h', st, d) =
            HapUpdatePermissionStatus (ae_ops E) (ae_table E) (ae_now E) permission isGranted flag False
              (h, brief w, database w) in
      (ret, statusChanged, h', put_hap (ht_tokenID (hi_basic h)) h' (w\<lparr>brief := st, database := d\<rparr>)))"

definition after_update ::
    "('s, 't, 'r, 'k) atm_env \<Rightarrow> HapTokenInfoInner \<Rightarrow> token_id \<Rightarrow> string \<Rightarrow> bool \<Rightarrow> u32 \<Rightarrow> bool \<Rightarrow> bool \<Rightarrow>
      ('s, 'k) atm \<Rightarrow> ('s, 'k) atm" where
  "after_update E h tokenID permission isGranted flag needKill isSecCompGrantedBefore w =
     (let w1 = NotifyWhenPermissionStateUpdated E permission isGranted flag h w in
      if needKill \<and> \<not> isGranted \<and> \<not> isSecCompGrantedBefore
      then notify (KillProcessForPermissionUpdate tokenID) w1 else w1)"

text \<open>The overload with the token object, which need not be the one of \<open>tokenID\<close>.\<close>

definition UpdateInfoPermissionState ::
    "('s, 't, 'r, 'k) atm_env \<Rightarrow> HapTokenInfoInner \<Rightarrow> token_id \<Rightarrow> string \<Rightarrow> bool \<Rightarrow> u32 \<Rightarrow> bool \<Rightarrow> ('s, 'k) atm \<Rightarrow>
      ret \<times> HapTokenInfoInner \<times> ('s, 'k) atm" where
  "UpdateInfoPermissionState E h tokenID permission isGranted flag needKill w =
     (let before = IsPermissionGrantedWithSecComp (ae_table E) (brief w) tokenID permission;
          (ret, statusChanged, h', w1) = update_status E h permission isGranted flag w in
      if ret \<noteq> RET_SUCCESS then (ret, h', w1)
      else (RET_SUCCESS, h',
            if statusChanged then after_update E h' tokenID permission isGranted flag needKill before w1 else w1))"

definition UpdateTokenPermissionStateCheck ::
    "('s, 't, 'r, 'k) atm_env \<Rightarrow> HapTokenInfoInner \<Rightarrow> token_id \<Rightarrow> string \<Rightarrow> bool \<Rightarrow> u32 \<Rightarrow> ('s, 'k) atm \<Rightarrow>
      ret \<times> ('s, 'k) atm" where
  "UpdateTokenPermissionStateCheck E h i permission isGranted flag w =
     (if hi_isRemote h then (ERR_IDENTITY_CHECK_FAILED, w)
      else
        (let (allowed, w1) = (if flag = PERMISSION_ALLOW_THIS_TIME \<and> isGranted
                              then IsAllowGrantTempPermission E i permission w else (True, w));
             hapDlpType = ht_dlpType (hi_basic h) in
         if \<not> allowed then (ERR_IDENTITY_CHECK_FAILED, w1)
         else if hapDlpType \<noteq> DLP_COMMON \<and>
                 \<not> IsPermDlpModeAvailableToDlpHap hapDlpType (GetPermDlpMode (ae_dlpModes E) permission)
         then (ERR_IDENTITY_CHECK_FAILED, w1)
         else (RET_SUCCESS, w1)))"

definition UpdateTokenPermissionState ::
    "('s, 't, 'r, 'k) atm_env \<Rightarrow> token_id \<Rightarrow> string \<Rightarrow> bool \<Rightarrow> u32 \<Rightarrow> bool \<Rightarrow> ('s, 'k) atm \<Rightarrow> ret \<times> ('s, 'k) atm" where
  "UpdateTokenPermissionState E i permission isGranted flag needKill w =
     (let (infoPtr, w1) = GetHapTokenInfoInner E i w in
      case infoPtr of
        None \<Rightarrow> (ERR_TOKENID_NOT_EXIST, w1)
      | Some h \<Rightarrow>
          (let (ret, w2) = UpdateTokenPermissionStateCheck E h i permission isGranted flag w1 in
           if ret \<noteq> RET_SUCCESS then (ret, w2)
           else
             (let before = IsPermissionGrantedWithSecComp (ae_table E) (brief w2) i permission;
                  (ret, statusChanged, h', w3) = update_status E h permission isGranted flag w2 in
              if ret \<noteq> RET_SUCCESS then (ret, w3)
              else
                (let w4 = notify ParamFlagUpdate w3;
                     w5 = (if statusChanged then after_update E h' i permission isGranted flag needKill before w4 else w4) in
                 (RET_SUCCESS, notify (NotifyTokenModify i) w5)))))"

definition UpdatePermission ::
    "('s, 't, 'r, 'k) atm_env \<Rightarrow> token_id \<Rightarrow> string \<Rightarrow> bool \<Rightarrow> u32 \<Rightarrow> bool \<Rightarrow> ('s, 'k) atm \<Rightarrow> ret \<times> ('s, 'k) atm" where
  "UpdatePermission E tokenID permissionName isGranted flag needKill w =
     (let (ret, w1) = UpdateTokenPermissionState E tokenID permissionName isGranted flag needKill w in
      if ret \<noteq> RET_SUCCESS then (ret, w1)
      else (RET_SUCCESS,
            foldl (\<lambda>w i. snd (UpdateTokenPermissionState E i permissionName isGranted flag needKill w)) w1
              (GetRelatedSandBoxHapList tokenID w1)))"

definition CheckPermissionParams :: "perm_table \<Rightarrow> string \<Rightarrow> u32 \<Rightarrow> ret" where
  "CheckPermissionParams tbl permissionName flag =
     (if \<not> IsPermissionNameValid permissionName then ERR_PARAM_INVALID
      else if \<not> IsDefinedPermissionInner tbl permissionName then ERR_PERMISSION_NOT_EXIST
      else if \<not> IsPermissionFlagValid flag \<or> IsAdminPermissionFlag flag then ERR_PARAM_INVALID
      else RET_SUCCESS)"

definition CheckAndUpdatePermission ::
    "('s, 't, 'r, 'k) atm_env \<Rightarrow> token_id \<Rightarrow> string \<Rightarrow> bool \<Rightarrow> u32 \<Rightarrow> bool \<Rightarrow> ('s, 'k) atm \<Rightarrow> ret \<times> ('s, 'k) atm" where
  "CheckAndUpdatePermission E tokenID permissionName isGranted flag killProcess w =
     (let needKill = (if \<not> isGranted \<and> flag \<noteq> PERMISSION_COMPONENT_SET then killProcess else False) in
      UpdatePermission E tokenID permissionName isGranted flag needKill w)"

definition CheckAndUpdatePermissionInner ::
    "('s, 't, 'r, 'k) atm_env \<Rightarrow> token_id \<Rightarrow> string \<Rightarrow> bool \<Rightarrow> u32 \<Rightarrow> bool \<Rightarrow> ('s, 'k) atm \<Rightarrow> ret \<times> ('s, 'k) atm" where
  "CheckAndUpdatePermissionInner E tokenID permissionName isGranted flag killProcess w =
     (let ret = CheckPermissionParams (ae_table E) permissionName flag in
      if ret \<noteq> RET_SUCCESS then (ret, w)
      else
        (let (ret, _, w1) = GetHapTokenInfo E tokenID w in
         if ret \<noteq> RET_SUCCESS then (ERR_TOKENID_NOT_EXIST, w1)
         else CheckAndUpdatePermission E tokenID permissionName isGranted flag killProcess w1))"

text \<open>The flag \<open>operable\<close>: the caller may also change permissions of the mode \<open>MANUAL_SETTINGS\<close>.\<close>

definition is_manual :: "perm_table \<Rightarrow> string \<Rightarrow> bool" where
  "is_manual tbl permissionName =
     (case GetPermissionBriefDef tbl permissionName of None \<Rightarrow> False | Some d \<Rightarrow> bd_grantMode d = MANUAL_SETTINGS)"

definition GrantPermission ::
    "('s, 't, 'r, 'k) atm_env \<Rightarrow> token_id \<Rightarrow> string \<Rightarrow> u32 \<Rightarrow> bool \<Rightarrow> ('s, 'k) atm \<Rightarrow> ret \<times> ('s, 'k) atm" where
  "GrantPermission E tokenID permissionName flag operable w =
     (if \<not> operable \<and> is_manual (ae_table E) permissionName then (ERR_PERMISSION_NOT_EXIST, w)
      else CheckAndUpdatePermissionInner E tokenID permissionName True flag True w)"

definition RevokePermission ::
    "('s, 't, 'r, 'k) atm_env \<Rightarrow> token_id \<Rightarrow> string \<Rightarrow> u32 \<Rightarrow> bool \<Rightarrow> bool \<Rightarrow> ('s, 'k) atm \<Rightarrow> ret \<times> ('s, 'k) atm" where
  "RevokePermission E tokenID permissionName flag operable killProcess w =
     (if \<not> operable \<and> is_manual (ae_table E) permissionName then (ERR_PERMISSION_NOT_EXIST, w)
      else CheckAndUpdatePermissionInner E tokenID permissionName False flag killProcess w)"

section \<open>Several permissions at once\<close>

fun multi_update ::
    "('s, 't, 'r, 'k) atm_env \<Rightarrow> HapTokenInfoInner \<Rightarrow> token_id \<Rightarrow> string list \<Rightarrow> bool \<Rightarrow> u32 \<Rightarrow> bool \<Rightarrow> bool \<Rightarrow> ('s, 'k) atm \<Rightarrow>
      ret \<times> bool \<times> HapTokenInfoInner \<times> ('s, 'k) atm" where
  "multi_update E h tokenID [] isGranted flag needKill updated w = (RET_SUCCESS, updated, h, w)"
| "multi_update E h tokenID (p # ps) isGranted flag needKill updated w =
     (let (ret, h', w') = UpdateInfoPermissionState E h tokenID p isGranted flag needKill w in
      if ret \<noteq> RET_SUCCESS then (ret, updated, h', w')
      else multi_update E h' tokenID ps isGranted flag needKill True w')"

definition UpdateMultiTokenPermissionState ::
    "('s, 't, 'r, 'k) atm_env \<Rightarrow> HapTokenInfoInner \<Rightarrow> token_id \<Rightarrow> string list \<Rightarrow> bool \<Rightarrow> u32 \<Rightarrow> bool \<Rightarrow> ('s, 'k) atm \<Rightarrow>
      ret \<times> HapTokenInfoInner \<times> ('s, 'k) atm" where
  "UpdateMultiTokenPermissionState E h tokenID permissionList isGranted flag needKill w =
     (let (ret, _, w1) = GetHapTokenInfo E tokenID w in
      if ret \<noteq> RET_SUCCESS then (ERR_TOKENID_NOT_EXIST, h, w1)
      else
        (let (ret, updated, h', w2) = multi_update E h tokenID permissionList isGranted flag needKill False w1 in
         (ret, h', if updated then notify (NotifyTokenModify tokenID) (notify ParamFlagUpdate w2) else w2)))"

definition UpdateMultiTokenPermissionStateCheck ::
    "('s, 't, 'r, 'k) atm_env \<Rightarrow> HapTokenInfoInner \<Rightarrow> string list \<Rightarrow> ret" where
  "UpdateMultiTokenPermissionStateCheck E h permissionList =
     (let hapDlpType = ht_dlpType (hi_basic h) in
      if hi_isRemote h then ERR_IDENTITY_CHECK_FAILED
      else if hapDlpType = DLP_COMMON then RET_SUCCESS
      else if list_ex (\<lambda>p. \<not> IsPermDlpModeAvailableToDlpHap hapDlpType (GetPermDlpMode (ae_dlpModes E) p)) permissionList
      then ERR_IDENTITY_CHECK_FAILED else RET_SUCCESS)"

text \<open>The object of the first token is passed on for every related sandbox token.\<close>

definition UpdateMultiPermissionStatus ::
    "('s, 't, 'r, 'k) atm_env \<Rightarrow> token_id \<Rightarrow> string list \<Rightarrow> int \<Rightarrow> u32 \<Rightarrow> ('s, 'k) atm \<Rightarrow> ret \<times> ('s, 'k) atm" where
  "UpdateMultiPermissionStatus E tokenID permissionList stat flag w =
     (let isGranted = (stat = PERMISSION_GRANTED); needKill = (\<not> isGranted);
          (infoPtr, w1) = GetHapTokenInfoInner E tokenID w in
      case infoPtr of
        None \<Rightarrow> (ERR_TOKENID_NOT_EXIST, w1)
      | Some h \<Rightarrow>
          (let ret = UpdateMultiTokenPermissionStateCheck E h permissionList in
           if ret \<noteq> RET_SUCCESS then (ret, w1)
           else
             (let (ret, h', w2) = UpdateMultiTokenPermissionState E h tokenID permissionList isGranted flag needKill w1 in
              if ret \<noteq> RET_SUCCESS then (ret, w2)
              else (RET_SUCCESS,
                    snd (foldl (\<lambda>(h, w) i. snd (UpdateMultiTokenPermissionState E h i permissionList isGranted flag needKill w))
                           (h', w2) (GetRelatedSandBoxHapList tokenID w2))))))"

definition CheckMultiPermissionStatus :: "perm_table \<Rightarrow> string list \<Rightarrow> int \<Rightarrow> u32 \<Rightarrow> ret" where
  "CheckMultiPermissionStatus tbl permissionList stat flag =
     (if \<not> IsPermissionStatusValid stat then ERR_PARAM_INVALID
      else if \<not> IsPermissionFlagValidForAdmin flag then ERR_PARAM_INVALID
      else if \<not> IsGrantStatusValid stat then ERR_PARAM_INVALID
      else (case find (\<lambda>p. \<not> IsPermissionNameValid p \<or> \<not> IsDefinedPermissionInner tbl p \<or> \<not> IsUserGrantPermission tbl p)
                   permissionList of
              None \<Rightarrow> RET_SUCCESS
            | Some p \<Rightarrow> if \<not> IsPermissionNameValid p then ERR_PARAM_INVALID
                        else if \<not> IsDefinedPermissionInner tbl p then ERR_PERMISSION_NOT_EXIST
                        else ERR_PARAM_INVALID))"

definition CheckAndUpdateMultiPermissionStatus ::
    "('s, 't, 'r, 'k) atm_env \<Rightarrow> token_id \<Rightarrow> string list \<Rightarrow> int \<Rightarrow> u32 \<Rightarrow> ('s, 'k) atm \<Rightarrow> ret \<times> ('s, 'k) atm" where
  "CheckAndUpdateMultiPermissionStatus E tokenID permissionList stat flag w =
     (let ret = CheckMultiPermissionStatus (ae_table E) permissionList stat flag in
      if ret \<noteq> RET_SUCCESS then (ret, w)
      else UpdateMultiPermissionStatus E tokenID permissionList stat flag w)"

definition SetPermissionStatusWithPolicy ::
    "('s, 't, 'r, 'k) atm_env \<Rightarrow> token_id \<Rightarrow> string list \<Rightarrow> int \<Rightarrow> u32 \<Rightarrow> ('s, 'k) atm \<Rightarrow> ret \<times> ('s, 'k) atm" where
  "SetPermissionStatusWithPolicy E tokenID permissionList stat flag w =
     CheckAndUpdateMultiPermissionStatus E tokenID permissionList stat flag w"

section \<open>Other operations\<close>

fun keep_first :: "('a \<Rightarrow> bool) \<Rightarrow> 'a list \<Rightarrow> 'a set \<Rightarrow> 'a list" where
  "keep_first P [] seen = []"
| "keep_first P (x # xs) seen =
     (if P x \<and> x \<notin> seen then x # keep_first P xs (insert x seen) else keep_first P xs seen)"

definition ScopeFilter ::
    "perm_table \<Rightarrow> token_id list \<times> string list \<Rightarrow> ('s, 'k) atm \<Rightarrow> ret \<times> token_id list \<times> string list" where
  "ScopeFilter tbl scopeSrc w =
     (let tokenIDs = keep_first (\<lambda>t. IsTokenIdExist t w) (fst scopeSrc) {};
          permList = keep_first (IsDefinedPermissionInner tbl) (snd scopeSrc) {} in
      if tokenIDs = [] \<and> fst scopeSrc \<noteq> [] then (ERR_PARAM_INVALID, tokenIDs, permList)
      else if permList = [] \<and> snd scopeSrc \<noteq> [] then (ERR_PARAM_INVALID, tokenIDs, permList)
      else (RET_SUCCESS, tokenIDs, permList))"

definition IsPermissionVaild :: "perm_table \<Rightarrow> string \<Rightarrow> bool" where
  "IsPermissionVaild tbl permissionName =
     (if \<not> IsPermissionNameValid permissionName then False
      else if \<not> IsDefinedPermissionInner tbl permissionName then False else True)"

definition GetMasterAppUndValues ::
    "('s, 't, 'r, 'k) atm_env \<Rightarrow> token_id \<Rightarrow> GenericValues list \<Rightarrow> ('s, 'k) atm \<Rightarrow>
      GenericValues list \<times> ('s, 'k) atm" where
  "GetMasterAppUndValues E tokenId undefValues w =
     (let (res, results, w1) = DbFind E ACCESSTOKEN_HAP_UNDEFINE_INFO (PutInt FIELD_TOKEN_ID (sint tokenId) []) w in
      if res \<noteq> 0 then (undefValues, w1) else (undefValues @ map (Remove FIELD_TOKEN_ID) results, w1))"

definition InitDlpPermissionList ::
    "('s, 't, 'r, 'k) atm_env \<Rightarrow> HapInfoParams \<Rightarrow> PermissionStatus list \<Rightarrow> GenericValues list \<Rightarrow> ('s, 'k) atm \<Rightarrow>
      bool \<times> PermissionStatus list \<times> GenericValues list \<times> ('s, 'k) atm" where
  "InitDlpPermissionList E info initializedList undefValues w =
     (let tokenId = fst (GetHapTokenID (ip_userID info) (ip_bundleName info) 0 w);
          (infoPtr, w1) = GetHapTokenInfoInner E tokenId w in
      case infoPtr of
        None \<Rightarrow> (False, initializedList, undefValues, w1)
      | Some h \<Rightarrow>
          (let states = snd (GetPermissionStateList (ae_table E) h (brief w1) initializedList);
               (undefs, w2) = GetMasterAppUndValues E tokenId undefValues w1 in
           (True, states, undefs, w2)))"

end
