(* ===== verification/Temp_Revocation.thy ===== *)
theory Temp_Revocation
  imports Permission_Manager
begin

text \<open>
  The parts of \<open>TempPermissionObserver\<close> (\<^verbatim>\<open>temp_permission_observer.cpp\<close>) that revoke permissions granted for
  this time, and \<open>ShortGrantManager\<close> (\<^verbatim>\<open>short_grant_manager.cpp\<close>), which grants a permission for a few minutes.
  \<open>run_temp_task\<close> and \<open>run_short_task\<close> are the event handlers running a posted task. Times of short grants are in
  seconds, as \<open>uint32_t\<close>.
\<close>

section \<open>Revocation of permissions granted for this time\<close>

definition GetPermissionState ::
    "('s, 't, 'r, 'k) atm_env \<Rightarrow> token_id \<Rightarrow> ('s, 'k) atm \<Rightarrow> PermissionStatus list option \<times> ('s, 'k) atm" where
  "GetPermissionState E tokenID w =
     (let (infoPtr, w1) = GetHapTokenInfoInner E tokenID w in
      case infoPtr of
        None \<Rightarrow> (None, w1)
      | Some h \<Rightarrow>
          if hi_isRemote h then (None, w1)
          else
            (let (ret, states) = GetPermissionStateList (ae_table E) h (brief w1) [] in
             (if ret \<noteq> RET_SUCCESS then None else Some states, w1)))"

text \<open>The loop of \<open>RevokeAllTempPermission\<close>: false when an update failed and the call returns.\<close>

fun revoke_loop ::
    "('s, 't, 'r, 'k) atm_env \<Rightarrow> token_id \<Rightarrow> PermissionStatus list \<Rightarrow> ('s, 'k) atm \<Rightarrow> bool \<times> ('s, 'k) atm" where
  "revoke_loop E tokenID [] w = (True, w)"
| "revoke_loop E tokenID (s # states) w =
     (if ps_grantFlag s AND PERMISSION_ALLOW_THIS_TIME = 0 then revoke_loop E tokenID states w
      else
        (let (ret, w1) = UpdatePermission E tokenID (ps_permissionName s) False PERMISSION_ALLOW_THIS_TIME False w in
         if ret \<noteq> RET_SUCCESS then (False, w1)
         else revoke_loop E tokenID states
                (CancelTaskOfPermissionRevoking (GetTempPermissionTaskName tokenID (ps_permissionName s)) w1)))"

definition RevokeAllTempPermission ::
    "('s, 't, 'r, 'k) atm_env \<Rightarrow> token_id \<Rightarrow> ('s, 'k) atm \<Rightarrow> ('s, 'k) atm" where
  "RevokeAllTempPermission E tokenID w =
     (case GetAppStateListByTokenID tokenID (tempObserver w) of
        None \<Rightarrow> w
      | Some _ \<Rightarrow>
          (let (states, w1) = GetPermissionState E tokenID w in
           case states of
             None \<Rightarrow> w1
           | Some tmpList \<Rightarrow>
               (let (ok, w2) = revoke_loop E tokenID tmpList w1; ob = tempObserver w2 in
                if \<not> ok then w2
                else w2\<lparr>tempObserver := ob\<lparr>continuousTaskIdMap := omap_erase tokenID (continuousTaskIdMap ob),
                                           tempPermTokenMap := omap_erase tokenID (tempPermTokenMap ob),
                                           tempPermPermissionMap := omap_erase tokenID (tempPermPermissionMap ob)\<rparr>\<rparr>)))"

definition RevokeTempPermission ::
    "('s, 't, 'r, 'k) atm_env \<Rightarrow> token_id \<Rightarrow> string \<Rightarrow> ('s, 'k) atm \<Rightarrow> ('s, 'k) atm" where
  "RevokeTempPermission E tokenID permissionName w =
     (let (states, w1) = GetPermissionState E tokenID w in
      case states of
        None \<Rightarrow> w1
      | Some tmpList \<Rightarrow>
          (case find (\<lambda>s. ps_permissionName s = permissionName) tmpList of
             None \<Rightarrow> w1
           | Some s \<Rightarrow>
               if ps_grantFlag s AND PERMISSION_ALLOW_THIS_TIME = 0 then w1
               else
                 (let (ret, w2) = UpdatePermission E tokenID permissionName False PERMISSION_ALLOW_THIS_TIME False w1 in
                  if ret \<noteq> RET_SUCCESS then w2
                  else
                    (let (_, clearTaskState, ob) = RemoveTempPermissionRecord tokenID permissionName (tempObserver w2);
                         ob' = (if clearTaskState
                                then ob\<lparr>continuousTaskIdMap := omap_erase tokenID (continuousTaskIdMap ob)\<rparr> else ob) in
                     CancelTaskOfPermissionRevoking (GetTempPermissionTaskName tokenID permissionName)
                       (w2\<lparr>tempObserver := ob'\<rparr>)))))"

definition run_temp_task :: "('s, 't, 'r, 'k) atm_env \<Rightarrow> revoke_task \<Rightarrow> ('s, 'k) atm \<Rightarrow> ('s, 'k) atm" where
  "run_temp_task E t w =
     RevokeTempPermission E (rt_tokenID t) (rt_permissionName t) (w\<lparr>tempTasks := remove1 t (tempTasks w)\<rparr>)"

definition OnAppStopped :: "('s, 't, 'r, 'k) atm_env \<Rightarrow> token_id \<Rightarrow> int \<Rightarrow> ('s, 'k) atm \<Rightarrow> ('s, 'k) atm" where
  "OnAppStopped E tokenID state w =
     (if state = 5 then RevokeAllTempPermission E tokenID (CancelDelayedTasks tokenID w) else w)"

definition OnAppCacheStateChanged :: "('s, 't, 'r, 'k) atm_env \<Rightarrow> token_id \<Rightarrow> ('s, 'k) atm \<Rightarrow> ('s, 'k) atm" where
  "OnAppCacheStateChanged E tokenID w = RevokeAllTempPermission E tokenID (CancelDelayedTasks tokenID w)"

definition remote_died_token :: "('s, 't, 'r, 'k) atm_env \<Rightarrow> token_id \<Rightarrow> ('s, 'k) atm \<Rightarrow> ('s, 'k) atm" where
  "remote_died_token E tokenId w =
     (let (states, w1) = GetPermissionState E tokenId w;
          temps = filter (\<lambda>s. ps_grantFlag s AND PERMISSION_ALLOW_THIS_TIME \<noteq> 0)
                    (case states of None \<Rightarrow> [] | Some l \<Rightarrow> l);
          w2 = foldl (\<lambda>w s. snd (RevokePermission E tokenId (ps_permissionName s) PERMISSION_ALLOW_THIS_TIME False True w))
                 w1 temps in
      CancelDelayedTasks tokenId w2)"

definition OnAppMgrRemoteDiedHandle :: "('s, 't, 'r, 'k) atm_env \<Rightarrow> ('s, 'k) atm \<Rightarrow> ('s, 'k) atm" where
  "OnAppMgrRemoteDiedHandle E w =
     (let w1 = foldl (\<lambda>w t. remote_died_token E t w) w (map fst (tempPermTokenMap (tempObserver w))) in
      w1\<lparr>tempObserver := (tempObserver w1)\<lparr>tempPermTokenMap := [], tempPermPermissionMap := [], continuousTaskIdMap := []\<rparr>\<rparr>)"

section \<open>Short grants\<close>

abbreviation DEFAULT_MAX_TIME_MILLISECONDS :: u32 where "DEFAULT_MAX_TIME_MILLISECONDS \<equiv> 1800"
abbreviation DEFAULT_MAX_ONCE_TIME_MILLISECONDS :: u32 where "DEFAULT_MAX_ONCE_TIME_MILLISECONDS \<equiv> 300"

definition short_task_name :: "token_id \<Rightarrow> string \<Rightarrow> string" where
  "short_task_name tokenID permission = ''atm_permission_manager_short_grant'' @ to_string (uint tokenID) @ permission"

definition ShortCancelTask :: "string \<Rightarrow> ('s, 'k) atm \<Rightarrow> ('s, 'k) atm" where
  "ShortCancelTask taskName w = w\<lparr>shortTasks := filter (\<lambda>t. rt_name t \<noteq> taskName) (shortTasks w)\<rparr>"

text \<open>The delay is a \<open>uint32_t\<close> product.\<close>

definition ScheduleRevokeTask :: "token_id \<Rightarrow> string \<Rightarrow> string \<Rightarrow> u32 \<Rightarrow> ('s, 'k) atm \<Rightarrow> ('s, 'k) atm" where
  "ScheduleRevokeTask tokenID permission taskName grantTime w =
     w\<lparr>shortTasks := shortTasks w @ [\<lparr>rt_name = taskName, rt_tokenID = tokenID, rt_permissionName = permission,
                                      rt_delay = uint (grantTime * 1000)\<rparr>]\<rparr>"

definition timer_is :: "token_id \<Rightarrow> string \<Rightarrow> PermTimerData \<Rightarrow> bool" where
  "timer_is tokenID permission d \<longleftrightarrow> pt_tokenID d = tokenID \<and> pt_permissionName d = permission"

definition RefreshPermission ::
    "('s, 't, 'r, 'k) atm_env \<Rightarrow> token_id \<Rightarrow> string \<Rightarrow> u32 \<Rightarrow> ('s, 'k) atm \<Rightarrow> ret \<times> ('s, 'k) atm" where
  "RefreshPermission E tokenID permission onceTime w =
     (let maxTime = DEFAULT_MAX_TIME_MILLISECONDS; now = ae_seconds E; taskName = short_task_name tokenID permission in
      if tokenID = 0 \<or> onceTime = 0 \<or> onceTime > DEFAULT_MAX_ONCE_TIME_MILLISECONDS \<or> onceTime > maxTime
      then (ERR_PARAM_INVALID, w)
      else
        (case find (timer_is tokenID permission) (shortGrantData w) of
           None \<Rightarrow>
             if \<not> IsShortGrantPermission permission then (ERR_PARAM_INVALID, w)
             else
               (let data = \<lparr>pt_tokenID = tokenID, pt_permissionName = permission, pt_firstGrantTimes = now,
                            pt_revokeTimes = now + onceTime\<rparr>;
                    (ret, w1) = GrantPermission E tokenID permission PERMISSION_USER_FIXED False w in
                if ret \<noteq> RET_SUCCESS then (ret, w1)
                else (RET_SUCCESS, ScheduleRevokeTask tokenID permission taskName onceTime
                        (w1\<lparr>shortGrantData := shortGrantData w1 @ [data]\<rparr>)))
         | Some d \<Rightarrow>
             (let elapsed = now - pt_firstGrantTimes d;
                  maxRemainedTime = (if maxTime > elapsed then maxTime - elapsed else 0);
                  currRemainedTime = (if pt_revokeTimes d > now then pt_revokeTimes d - now else 0);
                  grantTime = (if maxRemainedTime > onceTime then onceTime else maxRemainedTime) in
              if grantTime > currRemainedTime then
                (let w1 = ShortCancelTask taskName
                       (w\<lparr>shortGrantData := update_first (timer_is tokenID permission)
                            (\<lambda>d. d\<lparr>pt_revokeTimes := now + grantTime\<rparr>) (shortGrantData w)\<rparr>);
                     (ret, w2) = GrantPermission E tokenID permission PERMISSION_USER_FIXED False w1 in
                 if ret \<noteq> RET_SUCCESS then (ret, w2)
                 else (RET_SUCCESS, ScheduleRevokeTask tokenID permission taskName grantTime w2))
              else (RET_SUCCESS, w))))"

definition GrantPermissionForSpecifiedTime ::
    "('s, 't, 'r, 'k) atm_env \<Rightarrow> token_id \<Rightarrow> string \<Rightarrow> u32 \<Rightarrow> ('s, 'k) atm \<Rightarrow> ret \<times> ('s, 'k) atm" where
  "GrantPermissionForSpecifiedTime E tokenID permissionName onceTime w =
     RefreshPermission E tokenID permissionName onceTime w"

definition ClearShortPermissionData ::
    "('s, 't, 'r, 'k) atm_env \<Rightarrow> token_id \<Rightarrow> string \<Rightarrow> ('s, 'k) atm \<Rightarrow> ('s, 'k) atm" where
  "ClearShortPermissionData E tokenID permission w =
     (case find (timer_is tokenID permission) (shortGrantData w) of
        None \<Rightarrow> w
      | Some _ \<Rightarrow>
          (let (ret, w1) = UpdatePermission E tokenID permission False PERMISSION_USER_FIXED False w in
           if ret \<noteq> RET_SUCCESS then w1
           else w1\<lparr>shortGrantData := erase_first (timer_is tokenID permission) (shortGrantData w1)\<rparr>))"

definition run_short_task :: "('s, 't, 'r, 'k) atm_env \<Rightarrow> revoke_task \<Rightarrow> ('s, 'k) atm \<Rightarrow> ('s, 'k) atm" where
  "run_short_task E t w =
     ClearShortPermissionData E (rt_tokenID t) (rt_permissionName t) (w\<lparr>shortTasks := remove1 t (shortTasks w)\<rparr>)"

text \<open>The loop over the entries: \<open>kept\<close> are those already passed, in order. A failed update returns at once.\<close>

fun clear_short_loop ::
    "('s, 't, 'r, 'k) atm_env \<Rightarrow> token_id \<Rightarrow> PermTimerData list \<Rightarrow> PermTimerData list \<Rightarrow> ('s, 'k) atm \<Rightarrow> ('s, 'k) atm" where
  "clear_short_loop E tokenID kept [] w = w\<lparr>shortGrantData := kept\<rparr>"
| "clear_short_loop E tokenID kept (d # ds) w =
     (if pt_tokenID d \<noteq> tokenID then clear_short_loop E tokenID (kept @ [d]) ds w
      else
        (let (ret, w1) = UpdatePermission E tokenID (pt_permissionName d) False PERMISSION_USER_FIXED False w in
         if ret \<noteq> RET_SUCCESS then w1\<lparr>shortGrantData := kept @ d # ds\<rparr>
         else clear_short_loop E tokenID kept ds
                (ShortCancelTask (short_task_name tokenID (pt_permissionName d)) w1)))"

definition ClearShortPermissionByTokenID ::
    "('s, 't, 'r, 'k) atm_env \<Rightarrow> token_id \<Rightarrow> ('s, 'k) atm \<Rightarrow> ('s, 'k) atm" where
  "ClearShortPermissionByTokenID E tokenID w = clear_short_loop E tokenID [] (shortGrantData w) w"

definition ShortOnAppStopped :: "('s, 't, 'r, 'k) atm_env \<Rightarrow> token_id \<Rightarrow> int \<Rightarrow> ('s, 'k) atm \<Rightarrow> ('s, 'k) atm" where
  "ShortOnAppStopped E tokenID state w = (if state = 5 then ClearShortPermissionByTokenID E tokenID w else w)"

definition ShortOnAppMgrRemoteDiedHandle :: "('s, 't, 'r, 'k) atm_env \<Rightarrow> ('s, 'k) atm \<Rightarrow> ('s, 'k) atm" where
  "ShortOnAppMgrRemoteDiedHandle E w =
     (foldl (\<lambda>w d. ShortCancelTask (short_task_name (pt_tokenID d) (pt_permissionName d))
               (snd (UpdatePermission E (pt_tokenID d) (pt_permissionName d) False PERMISSION_USER_FIXED False w)))
        w (shortGrantData w))\<lparr>shortGrantData := []\<rparr>"

end
