(* ===== verification/Frame_Laws.thy ===== *)
theory Frame_Laws
  imports Temp_Revocation
begin

text \<open>
  What the operations on tokens and permissions leave alone. Only the observer of temporary permissions changes its
  records and tasks, and only the manager of short grants changes the timers. Each lemma says for one operation that the
  two managers call that the part of the state they own is the same afterwards.
\<close>

definition timers :: "('s, 'k) atm \<Rightarrow> revoke_task list \<times> PermTimerData list \<times> revoke_task list" where
  "timers w = (tempTasks w, shortGrantData w, shortTasks w)"

definition observer_view ::
    "('s, 'k) atm \<Rightarrow> TempPermissionObserver \<times> revoke_task list \<times> PermTimerData list \<times> revoke_task list" where
  "observer_view w = (tempObserver w, timers w)"

lemma timers_simps:
  "timers w' = timers w \<Longrightarrow> tempTasks w' = tempTasks w"
  "timers w' = timers w \<Longrightarrow> shortGrantData w' = shortGrantData w"
  "timers w' = timers w \<Longrightarrow> shortTasks w' = shortTasks w"
  by (simp_all add: timers_def)

lemma observer_view_parts:
  "observer_view w' = observer_view w \<longleftrightarrow> tempObserver w' = tempObserver w \<and> timers w' = timers w"
  by (auto simp: observer_view_def)

lemma view_updates [simp]:
  "observer_view (w\<lparr>brief := b\<rparr>) = observer_view w"
  "observer_view (w\<lparr>ids := i\<rparr>) = observer_view w"
  "observer_view (w\<lparr>database := d\<rparr>) = observer_view w"
  "observer_view (w\<lparr>kernel := k\<rparr>) = observer_view w"
  "observer_view (w\<lparr>events := e\<rparr>) = observer_view w"
  "observer_view (w\<lparr>hapTokenInfoMap := h\<rparr>) = observer_view w"
  "observer_view (w\<lparr>hapTokenIdMap := u\<rparr>) = observer_view w"
  "timers (w\<lparr>tempObserver := ob\<rparr>) = timers w"
  "timers (w\<lparr>events := e\<rparr>) = timers w"
  by (simp_all add: observer_view_def timers_def)

lemma view_put [simp]:
  "observer_view (put_hap t h w) = observer_view w"
  "observer_view (destroy_hap h w) = observer_view w"
  "observer_view (set_kernel E t p g w) = observer_view w"
  "observer_view (AddGrantedHapPermsToKernel E t w) = observer_view w"
  by (simp_all add: put_hap_def destroy_hap_def set_kernel_def AddGrantedHapPermsToKernel_def)

lemma DbFind_view: "DbFind E type c w = (ret, results, w') \<Longrightarrow> observer_view w' = observer_view w"
  by (auto simp: DbFind_def Let_def split: prod.splits)

lemma AddReserved_view: "AddReservedHapInfoFromDbValues v w = (r, w') \<Longrightarrow> observer_view w' = observer_view w"
  by (auto simp: AddReservedHapInfoFromDbValues_def Let_def split: if_splits)

lemma FromDb_view: "GetHapTokenInfoInnerFromDb E i w = (h, w') \<Longrightarrow> observer_view w' = observer_view w"
  unfolding GetHapTokenInfoInnerFromDb_def Let_def
  by (auto split: prod.splits if_splits option.splits dest!: DbFind_view AddReserved_view)

lemma GetHapTokenInfoInner_view: "GetHapTokenInfoInner E i w = (h, w') \<Longrightarrow> observer_view w' = observer_view w"
  by (auto simp: GetHapTokenInfoInner_def Let_def split: option.splits prod.splits if_splits dest: FromDb_view)

lemma GetHapTokenInfo_view: "GetHapTokenInfo E i w = (ret, info, w') \<Longrightarrow> observer_view w' = observer_view w"
  by (auto simp: GetHapTokenInfo_def ResolveQueryTokenID_def Let_def split: option.splits prod.splits if_splits
      dest!: GetHapTokenInfoInner_view)

lemma update_status_view: "update_status E h p g f w = (ret, c, h', w') \<Longrightarrow> observer_view w' = observer_view w"
  by (auto simp: update_status_def Let_def split: prod.splits)

lemma after_update_view [simp]: "observer_view (after_update E h t p g f k b w) = observer_view w"
  by (simp add: after_update_def NotifyWhenPermissionStateUpdated_def Let_def split: prod.splits)

lemma after_update_parts [simp]:
  "timers (after_update E h t p g f k b w) = timers w"
  "tempObserver (after_update E h t p g f k b w) = tempObserver w"
  using after_update_view [unfolded observer_view_parts] by blast+

text \<open>Only a grant for this time touches the records of the observer, and no grant touches a task.\<close>

lemma IsAllowGrantTempPermission_timers:
  "IsAllowGrantTempPermission E t p w = (ok, w') \<Longrightarrow> timers w' = timers w"
  by (auto simp: IsAllowGrantTempPermission_def Let_def observer_view_parts split: prod.splits if_splits
      dest!: GetHapTokenInfo_view)

lemma UpdateTokenPermissionStateCheck_timers:
  "UpdateTokenPermissionStateCheck E h t p g f w = (ret, w') \<Longrightarrow> timers w' = timers w"
  by (auto simp: UpdateTokenPermissionStateCheck_def Let_def split: prod.splits if_splits
      dest!: IsAllowGrantTempPermission_timers)

lemma UpdateTokenPermissionStateCheck_view:
  "UpdateTokenPermissionStateCheck E h t p g f w = (ret, w') \<Longrightarrow> \<not> (g \<and> f = PERMISSION_ALLOW_THIS_TIME) \<Longrightarrow>
   observer_view w' = observer_view w"
  by (auto simp: UpdateTokenPermissionStateCheck_def Let_def split: prod.splits if_splits)

lemma UpdateTokenPermissionState_timers:
  "UpdateTokenPermissionState E t p g f k w = (ret, w') \<Longrightarrow> timers w' = timers w"
  by (auto simp: UpdateTokenPermissionState_def Let_def observer_view_parts split: prod.splits if_splits option.splits
      dest!: UpdateTokenPermissionStateCheck_timers GetHapTokenInfoInner_view update_status_view)

lemma UpdateTokenPermissionState_view:
  "UpdateTokenPermissionState E t p g f k w = (ret, w') \<Longrightarrow> \<not> (g \<and> f = PERMISSION_ALLOW_THIS_TIME) \<Longrightarrow>
   observer_view w' = observer_view w"
  by (auto simp: UpdateTokenPermissionState_def Let_def split: prod.splits if_splits option.splits
      dest!: UpdateTokenPermissionStateCheck_view GetHapTokenInfoInner_view update_status_view)

lemma foldl_keeps:
  assumes "\<And>w x. v (f w x) = v w"
  shows "v (foldl f w xs) = v w"
  by (induction xs arbitrary: w) (simp_all add: assms)

lemma UpdatePermission_timers:
  assumes "UpdatePermission E t p g f k w = (ret, w')"
  shows "timers w' = timers w"
proof -
  have "timers (snd (UpdateTokenPermissionState E i p g f k w)) = timers w" for i w
    by (rule UpdateTokenPermissionState_timers [OF prod.collapse [symmetric]])
  then show ?thesis
    using assms UpdateTokenPermissionState_timers [of E t p g f k w]
    by (auto simp: UpdatePermission_def Let_def foldl_keeps [where v = timers] split: prod.splits if_splits)
qed

lemma UpdatePermission_view:
  assumes "UpdatePermission E t p g f k w = (ret, w')" "\<not> (g \<and> f = PERMISSION_ALLOW_THIS_TIME)"
  shows "observer_view w' = observer_view w"
proof -
  have "observer_view (snd (UpdateTokenPermissionState E i p g f k w)) = observer_view w" for i w
    by (rule UpdateTokenPermissionState_view [OF prod.collapse [symmetric] assms(2)])
  then show ?thesis
    using assms(1) UpdateTokenPermissionState_view [OF _ assms(2), of E t p k w]
    by (auto simp: UpdatePermission_def Let_def foldl_keeps [where v = observer_view] split: prod.splits if_splits)
qed

lemma CheckAndUpdatePermissionInner_timers:
  "CheckAndUpdatePermissionInner E t p g f k w = (ret, w') \<Longrightarrow> timers w' = timers w"
  by (auto simp: CheckAndUpdatePermissionInner_def CheckAndUpdatePermission_def Let_def observer_view_parts
      split: prod.splits if_splits dest!: UpdatePermission_timers GetHapTokenInfo_view)

lemma CheckAndUpdatePermissionInner_view:
  "CheckAndUpdatePermissionInner E t p g f k w = (ret, w') \<Longrightarrow> \<not> (g \<and> f = PERMISSION_ALLOW_THIS_TIME) \<Longrightarrow>
   observer_view w' = observer_view w"
  by (auto simp: CheckAndUpdatePermissionInner_def CheckAndUpdatePermission_def Let_def
      split: prod.splits if_splits dest!: UpdatePermission_view GetHapTokenInfo_view)

lemma GrantPermission_timers: "GrantPermission E t p f op w = (ret, w') \<Longrightarrow> timers w' = timers w"
  by (auto simp: GrantPermission_def split: if_splits dest: CheckAndUpdatePermissionInner_timers)

lemma RevokePermission_view: "RevokePermission E t p f op k w = (ret, w') \<Longrightarrow> observer_view w' = observer_view w"
  by (auto simp: RevokePermission_def split: if_splits dest: CheckAndUpdatePermissionInner_view)

end
