(* ===== verification/Grant_Laws.thy ===== *)
theory Grant_Laws
  imports Frame_Laws Hap_Token_Laws Kernel_Laws
begin

text \<open>
  Laws of granting and revoking (\<open>PermissionManager\<close>): the permission bits of the kernel stay in step with the
  store, over the changes of a token and of the sandbox tokens that follow it.
\<close>

section \<open>What one change does to the store\<close>

lemma UpdateSecComp_changed:
  assumes "UpdateSecCompGrantedPermList tbl t c g st = (r, st')"
  shows "st' = st \<or> st' = SecCompGrantedPermListUpdated tbl t (TransferOpcodeToPermission tbl c) g st \<and> r = RET_SUCCESS"
  using assms by (auto simp: UpdateSecCompGrantedPermList_def Let_def split: if_split_asm prod.splits)

lemma Verify_granted:
  "VerifyPermissionStatusByCode st t c = PERMISSION_GRANTED \<longleftrightarrow>
     (case entry st t c of
        Some d \<Rightarrow> \<not> bit (bp_flag d) 9 \<and> (bit (bp_flag d) 4 \<or> bp_status d = PERMISSION_GRANTED)
      | None \<Rightarrow> t \<in> tokens st \<and> sec_granted st t c)"
  by (simp add: Verify_entry effective_status split: option.split)

lemma sec_granted_after:
  assumes "perm_table_ok tbl" "distinct (secCompList st)" "TransferPermissionToOpcode tbl name = Some c" "t \<in> tokens st"
  shows "sec_granted (SecCompGrantedPermListUpdated tbl t name a st) t c \<longleftrightarrow> a"
proof -
  obtain ds where ds: "map_of (requestedPermData st) t = Some ds"
    using assms(4) by (cases "map_of (requestedPermData st) t") (auto simp: tokens_def map_of_eq_None_iff)
  have c: "ucast (ucast c :: u16) = c" by (rule ucast_code_back [OF opcode_bound [OF assms(1,3)]])
  have uniq: "s = s'" if "sec_comp_is t c s" "sec_comp_is t c s'" for s s'
    using that by (cases s; cases s') (auto simp: sec_comp_is_def)
  have gone: "\<not> (\<exists>s \<in> set (erase_first (sec_comp_is t c) l). sec_comp_is t c s)" if "distinct l" for l
    using that by (induction l) (auto dest: uniq)
  show ?thesis
    using gone [OF assms(2)] c
    by (auto simp: SecCompGrantedPermListUpdated_def assms(3) ds sec_granted_def Let_def find_None_iff sec_comp_is_def)
qed

text \<open>A change of the status that verification answers always goes to the status asked for.\<close>

lemma UpdatePermissionStatus_effect:
  assumes tbl: "perm_table_ok tbl" and inv: "brief_inv st"
    and c: "TransferPermissionToOpcode tbl name = Some c"
    and u: "UpdatePermissionStatus tbl t name g f st = (r, ct, st')" and f: "\<not> bit f 8" "\<not> bit f 9"
    and ch: "VerifyPermissionStatusByCode st' t c \<noteq> VerifyPermissionStatusByCode st t c"
  shows "VerifyPermissionStatusByCode st' t c = PERMISSION_GRANTED \<longleftrightarrow> g"
proof -
  have ok: "omap_ok (requestedPermData st)" and dist: "distinct (secCompList st)" using inv by (simp_all add: brief_inv_def)
  show ?thesis using UpdatePermissionStatus_cases [OF u c]
proof
  assume "\<not> bit f 4 \<and> UpdatePermStateList t c g f st = (r, st')"
  then show ?thesis
    using UpdatePermStateList_entry [OF ok, of t c g f r st'] f ch
    by (auto simp: Verify_entry effective_status bit_new_flag split: if_split_asm)
next
  assume "bit f 4 \<and> UpdateSecCompGrantedPermList tbl t c g st = (r, st')"
  then have "st' = SecCompGrantedPermListUpdated tbl t (TransferOpcodeToPermission tbl c) g st"
    using UpdateSecComp_changed [of tbl t c g st r st'] ch by auto
  note st' = this
  note bk = opcode_back [OF tbl c]
  show ?thesis
  proof (cases "entry st t c")
    case None
    then show ?thesis
      using ch st' SecComp_entry [OF ok bk] sec_granted_after [OF tbl dist bk] only_changes_sec_comp [OF tbl ok bk]
      by (auto simp: Verify_entry only_changes_def split: if_split_asm)
  next
    case (Some d)
    then show ?thesis
      using ch st' SecComp_entry [OF ok bk]
      by (auto simp: Verify_entry effective_status component_set_bits split: if_split_asm)
  qed
qed
qed

text \<open>Restrictions by an administrator stay as they are.\<close>

lemma UpdatePermissionStatus_restricted:
  assumes tbl: "perm_table_ok tbl" and ok: "omap_ok (requestedPermData st)"
    and c: "TransferPermissionToOpcode tbl name = Some c"
    and u: "UpdatePermissionStatus tbl t name g f st = (r, ct, st')" and f: "\<not> bit f 9"
  shows "restricted st' t' c' \<longleftrightarrow> restricted st t' c'"
proof (cases "(t', c') = (t, c)")
  case False
  then show ?thesis
    using UpdatePermissionStatus_local [OF tbl ok c u] by (auto simp: only_changes_def restricted_def)
next
  case True
  show ?thesis using UpdatePermissionStatus_cases [OF u c]
  proof
    assume "\<not> bit f 4 \<and> UpdatePermStateList t c g f st = (r, st')"
    then show ?thesis
      using UpdatePermStateList_entry [OF ok, of t c g f r st'] f True by (auto simp: restricted_def bit_new_flag)
  next
    assume "bit f 4 \<and> UpdateSecCompGrantedPermList tbl t c g st = (r, st')"
    then have "st' = st \<or> st' = SecCompGrantedPermListUpdated tbl t (TransferOpcodeToPermission tbl c) g st"
      using UpdateSecComp_changed by blast
    then show ?thesis
      using True SecComp_entry [OF ok opcode_back [OF tbl c]]
      by (auto simp: restricted_def component_set_bits split: if_split_asm if_split)
  qed
qed

text \<open>What the reported kind of change says.\<close>

lemma UpdatePermissionStatus_kind:
  assumes "TransferPermissionToOpcode tbl name = Some c" and "UpdatePermissionStatus tbl t name g f st = (r, ct, st')"
  shows "(case ct of None \<Rightarrow> False | Some x \<Rightarrow> x = STATUS_ONLY \<or> x = STATUS_AND_FLAG) \<longleftrightarrow>
           VerifyPermissionStatusByCode st' t c \<noteq> VerifyPermissionStatusByCode st t c"
  using assms by (auto simp: UpdatePermissionStatus_def Let_def split: prod.splits if_split_asm)

lemma HapUpdatePermissionStatus_effect:
  assumes "HapUpdatePermissionStatus ops tbl now name g f False (h, st, db) = (r, ch, h', st', db')"
    and c: "TransferPermissionToOpcode tbl name = Some c" and t: "t = ht_tokenID (hi_basic h)"
    and tbl: "perm_table_ok tbl" and ok: "omap_ok (requestedPermData st)"
  shows "hi_basic h' = hi_basic h" "hi_isRemote h' = hi_isRemote h"
    and "\<exists>r1 ct. UpdatePermissionStatus tbl t name g f st = (r1, ct, st')"
    and "r = RET_SUCCESS \<Longrightarrow> ch \<longleftrightarrow> VerifyPermissionStatusByCode st' t c \<noteq> VerifyPermissionStatusByCode st t c"
    and "r \<noteq> RET_SUCCESS \<Longrightarrow> st' = st"
proof -
  obtain r1 ct st1 where us: "UpdatePermissionStatus tbl t name g f st = (r1, ct, st1)" using prod_cases3 by blast
  note kind = UpdatePermissionStatus_kind [OF c us]
  note loc = UpdatePermissionStatus_local [OF tbl ok c us]
  have known: "map_of (requestedPermData st1) t \<noteq> None" if "st1 \<noteq> st" "r1 = RET_SUCCESS"
    using UpdatePermissionStatus_cases [OF us c]
  proof
    assume "\<not> bit f 4 \<and> UpdatePermStateList t c g f st = (r1, st1)"
    then show ?thesis
      using UpdatePermStateList_entry [OF ok, of t c g f r1 st1] that by (auto simp: entry_def split: option.splits)
  next
    assume "bit f 4 \<and> UpdateSecCompGrantedPermList tbl t c g st = (r1, st1)"
    then have "st1 = SecCompGrantedPermListUpdated tbl t (TransferOpcodeToPermission tbl c) g st"
      using UpdateSecComp_changed [of tbl t c g st r1 st1] that by auto
    then show ?thesis
      using that ok opcode_back [OF tbl c]
      by (auto simp: SecCompGrantedPermListUpdated_def set_token_list_def map_of_omap_insert Let_def split: option.splits)
  qed
  have res: "st' = st1 \<and> (r1 \<noteq> RET_SUCCESS \<longrightarrow> r \<noteq> RET_SUCCESS) \<and> hi_basic h' = hi_basic h \<and> hi_isRemote h' = hi_isRemote h \<and>
      (r = RET_SUCCESS \<longrightarrow> (ch \<longleftrightarrow> (case ct of None \<Rightarrow> False | Some x \<Rightarrow> x = STATUS_ONLY \<or> x = STATUS_AND_FLAG))) \<and>
      (r \<noteq> RET_SUCCESS \<longrightarrow> r1 \<noteq> RET_SUCCESS \<or> map_of (requestedPermData st1) t = None)"
    using assms(1) us t
    by (auto simp: HapUpdatePermissionStatus_def Let_def BuildPermissionStateValues_def GetBriefPermDataByTokenIdInner_def
        split: prod.splits if_split_asm option.splits)
  show "hi_basic h' = hi_basic h" "hi_isRemote h' = hi_isRemote h" using res by auto
  show "\<exists>r1 ct. UpdatePermissionStatus tbl t name g f st = (r1, ct, st')" using us res by blast
  show "ch \<longleftrightarrow> VerifyPermissionStatusByCode st' t c \<noteq> VerifyPermissionStatusByCode st t c" if "r = RET_SUCCESS"
    using that res kind by blast
  show "st' = st" if "r \<noteq> RET_SUCCESS" using that res known loc by blast
qed

section \<open>Kernel and store\<close>

definition in_step :: "('k \<Rightarrow> token_id \<Rightarrow> u32 \<Rightarrow> bool) \<Rightarrow> ('s, 'k) atm \<Rightarrow> bool" where
  "in_step kabs w \<longleftrightarrow> (\<forall>t c. kabs (kernel w) t c \<longleftrightarrow> VerifyPermissionStatusByCode (brief w) t c = PERMISSION_GRANTED)"

text \<open>Every token object is stored under its own id, which is the id of an application.\<close>

definition cache_ok :: "('s, 'k) atm \<Rightarrow> bool" where
  "cache_ok w \<longleftrightarrow> omap_ok (hapTokenInfoMap w) \<and>
     (\<forall>e \<in> set (hapTokenInfoMap w). fst e = sint (ht_tokenID (hi_basic (snd e))) \<and> \<not> IsBinTokenId (ht_tokenID (hi_basic (snd e))))"

text \<open>The policies that restrict a permission are visible in the flags of the store.\<close>

definition policy_seen :: "u32 \<Rightarrow> ('s, 'k) atm \<Rightarrow> bool" where
  "policy_seen c w \<longleftrightarrow>
     (\<forall>e \<in> set (hapTokenInfoMap w). let b = hi_basic (snd e) in
        IsPermissionRestricted (policies w) (ht_tokenID b) (ht_userID b) c \<longrightarrow> restricted (brief w) (ht_tokenID b) c)"

definition kernel_accepts :: "'k perm_kernel \<Rightarrow> bool" where
  "kernel_accepts pk \<longleftrightarrow> (\<forall>t (c :: u32) g k. unat c < 2048 \<longrightarrow> fst (SetPermissionToKernel pk t (sint c) g k) = 0)"

definition grant_inv :: "('k \<Rightarrow> token_id \<Rightarrow> u32 \<Rightarrow> bool) \<Rightarrow> u32 \<Rightarrow> ('s, 'k) atm \<Rightarrow> bool" where
  "grant_inv kabs c w \<longleftrightarrow> in_step kabs w \<and> cache_ok w \<and> policy_seen c w \<and> brief_inv (brief w)"

lemma cached_member:
  assumes "cache_ok w" "hap_at w t = Some h"
  shows "(sint t, h) \<in> set (hapTokenInfoMap w)" "ht_tokenID (hi_basic h) = t" "\<not> IsBinTokenId t"
proof -
  show m: "(sint t, h) \<in> set (hapTokenInfoMap w)" using assms(2) by (simp add: hap_at_def map_of_SomeD)
  then have "sint (ht_tokenID (hi_basic h)) = sint t" "\<not> IsBinTokenId (ht_tokenID (hi_basic h))"
    using assms(1) by (fastforce simp: cache_ok_def)+
  moreover from this(1) have "ht_tokenID (hi_basic h) = t" by (rule signed_word_eqI)
  ultimately show "ht_tokenID (hi_basic h) = t" "\<not> IsBinTokenId t" by simp_all
qed

lemma member_cached:
  assumes "cache_ok w" "(k, h) \<in> set (hapTokenInfoMap w)"
  shows "hap_at w (ht_tokenID (hi_basic h)) = Some h"
  using assms omap_ok_distinct by (fastforce simp: cache_ok_def hap_at_def intro: map_of_is_SomeI)

lemma cached_lookup: "hap_at w t = Some h \<Longrightarrow> GetHapTokenInfoInner E t w = (Some h, w)"
  by (simp add: GetHapTokenInfoInner_def)

lemma cached_info:
  "cache_ok w \<Longrightarrow> hap_at w t = Some h \<Longrightarrow> GetHapTokenInfo E t w = (RET_SUCCESS, Some (hi_basic h), w)"
  using cached_member(3) [of w t h]
  by (simp add: GetHapTokenInfo_def ResolveQueryTokenID_def cached_lookup)

lemma set_kernel_abs:
  assumes "kernel_laws (ae_kernel E) kabs" "kernel_accepts (ae_kernel E)"
    and "TransferPermissionToOpcode (ae_table E) p = Some c" "unat c < 2048"
  shows "kabs (kernel (set_kernel E t p g w)) = (kabs (kernel w))(t := (kabs (kernel w) t)(c := g))"
proof -
  obtain ret k' where s: "SetPermissionToKernel (ae_kernel E) t (sint c) g (kernel w) = (ret, k')" by fastforce
  have "ret = 0" using assms(2,4) s by (metis fst_conv kernel_accepts_def)
  then show ?thesis
    using SetPermissionToKernel_abs [OF assms(1) s] assms(3) s by (simp add: set_kernel_def SetPermToKernel_def)
qed

lemma set_kernel_frame [simp]:
  "brief (set_kernel E t p g w) = brief w" "policies (set_kernel E t p g w) = policies w"
  "hapTokenInfoMap (set_kernel E t p g w) = hapTokenInfoMap w"
  by (simp_all add: set_kernel_def)

lemma Notify_kernel:
  assumes "kernel_laws (ae_kernel E) kabs" "kernel_accepts (ae_kernel E)"
    and "TransferPermissionToOpcode (ae_table E) p = Some c" "unat c < 2048" "t = ht_tokenID (hi_basic h)"
  shows "kabs (kernel (NotifyWhenPermissionStateUpdated E p g f h w)) =
           (kabs (kernel w))(t := (kabs (kernel w) t)
              (c := g \<and> \<not> IsPermissionRestricted (policies w) t (ht_userID (hi_basic h)) c))"
proof -
  obtain ret before k where q: "GetPermFromKernel (ae_kernel E) t c (kernel w) = (ret, before, k)" using prod_cases3 by blast
  note a = GetPermFromKernel_abs [OF assms(1) q]
  show ?thesis
    using a q assms(3,5) set_kernel_abs [OF assms(1,2,3,4)]
    by (cases "ret = 0") (auto simp: NotifyWhenPermissionStateUpdated_def Let_def fun_upd_idem)
qed

lemma Notify_frame [simp]:
  "brief (NotifyWhenPermissionStateUpdated E p g f h w) = brief w"
  "policies (NotifyWhenPermissionStateUpdated E p g f h w) = policies w"
  "hapTokenInfoMap (NotifyWhenPermissionStateUpdated E p g f h w) = hapTokenInfoMap w"
  by (simp_all add: NotifyWhenPermissionStateUpdated_def Let_def split: prod.splits)

text \<open>A changed object with the same base data leaves the caches as they are.\<close>

lemma put_hap_frame [simp]:
  "brief (put_hap t h w) = brief w" "policies (put_hap t h w) = policies w" "kernel (put_hap t h w) = kernel w"
  by (simp_all add: put_hap_def)

lemma map_insert_present:
  assumes "omap_ok m" "map_of m k = Some v" "g (k, v') = g (k, v)"
  shows "map g (omap_insert k v' m) = map g m"
  using assms by (induction m rule: omap_insert.induct) (auto simp: omap_ok_def dest!: map_of_SomeD, fastforce)

text \<open>The part of the token objects that granting and revoking depend on.\<close>

definition tokens_view :: "('s, 'k) atm \<Rightarrow> (int \<times> HapTokenInfo \<times> bool) list" where
  "tokens_view w = map (\<lambda>(k, h). (k, hi_basic h, hi_isRemote h)) (hapTokenInfoMap w)"

lemma put_hap_view:
  assumes "cache_ok w" "hap_at w t = Some h" "hi_basic h' = hi_basic h" "hi_isRemote h' = hi_isRemote h"
  shows "tokens_view (put_hap t h' w) = tokens_view w" "omap_ok (hapTokenInfoMap (put_hap t h' w))"
  using assms map_insert_present [of "hapTokenInfoMap w" "sint t" h "\<lambda>(k, h). (k, hi_basic h, hi_isRemote h)" h']
  by (auto simp: tokens_view_def put_hap_def hap_at_def cache_ok_def)

lemma view_of_set:
  "(\<forall>e \<in> set (hapTokenInfoMap w). P (fst e) (hi_basic (snd e))) \<longleftrightarrow> (\<forall>(k, b, r) \<in> set (tokens_view w). P k b)"
  by (force simp: tokens_view_def)

lemma cache_ok_view:
  assumes "tokens_view w' = tokens_view w" "omap_ok (hapTokenInfoMap w')"
  shows "cache_ok w \<Longrightarrow> cache_ok w'"
  using assms view_of_set [of w "\<lambda>k b. k = sint (ht_tokenID b) \<and> \<not> IsBinTokenId (ht_tokenID b)"]
    view_of_set [of w' "\<lambda>k b. k = sint (ht_tokenID b) \<and> \<not> IsBinTokenId (ht_tokenID b)"]
  by (simp add: cache_ok_def)

lemma policy_seen_view:
  assumes "tokens_view w' = tokens_view w" "policies w' = policies w"
    and "\<And>t. restricted (brief w') t c \<longleftrightarrow> restricted (brief w) t c"
  shows "policy_seen c w' \<longleftrightarrow> policy_seen c w"
  using assms view_of_set [of w "\<lambda>k b. IsPermissionRestricted (policies w) (ht_tokenID b) (ht_userID b) c \<longrightarrow>
      restricted (brief w) (ht_tokenID b) c"]
    view_of_set [of w' "\<lambda>k b. IsPermissionRestricted (policies w) (ht_tokenID b) (ht_userID b) c \<longrightarrow>
      restricted (brief w) (ht_tokenID b) c"]
  by (simp add: policy_seen_def Let_def)

lemma view_hap_at:
  assumes "tokens_view w' = tokens_view w" "hap_at w t = Some h"
  shows "\<exists>h'. hap_at w' t = Some h' \<and> hi_basic h' = hi_basic h \<and> hi_isRemote h' = hi_isRemote h"
proof -
  have m: "map_of (map (\<lambda>(k, h). (k, hi_basic h, hi_isRemote h)) m) k = map_option (\<lambda>h. (hi_basic h, hi_isRemote h)) (map_of m k)"
    for m :: "(int \<times> HapTokenInfoInner) list" and k
    by (induction m) auto
  have "map_of (tokens_view w') (sint t) = map_of (tokens_view w) (sint t)" by (simp add: assms(1))
  then show ?thesis using assms(2) by (auto simp: tokens_view_def m hap_at_def)
qed

lemma Check_cached:
  assumes "cache_ok w" "hap_at w t = Some h" "UpdateTokenPermissionStateCheck E h' t p g f w = (ret, w')"
  shows "\<exists>ob. w' = w\<lparr>tempObserver := ob\<rparr>"
proof -
  have "\<exists>ok ob. IsAllowGrantTempPermission E t p w = (ok, w\<lparr>tempObserver := ob\<rparr>)"
    by (auto simp: IsAllowGrantTempPermission_def cached_info [OF assms(1,2)] split: prod.splits)
      (metis atm.surjective atm.update_convs(11))
  moreover have "\<exists>ob. w = w\<lparr>tempObserver := ob\<rparr>" by (metis atm.surjective atm.update_convs(11))
  ultimately show ?thesis
    using assms(3) by (auto simp: UpdateTokenPermissionStateCheck_def Let_def split: if_split_asm prod.splits)
qed

text \<open>The outcomes of a change of one token: refused, without a change that verification sees, with one.\<close>

lemma UpdateTokenPermissionState_cases:
  assumes ok: "cache_ok w" and cached: "hap_at w t = Some h" and bo: "omap_ok (requestedPermData (brief w))"
    and tbl: "perm_table_ok (ae_table E)" and c: "TransferPermissionToOpcode (ae_table E) p = Some c"
    and u: "UpdateTokenPermissionState E t p g f k w = (ret, w')"
  shows "tokens_view w' = tokens_view w \<and> omap_ok (hapTokenInfoMap w') \<and> policies w' = policies w \<and>
    (ret \<noteq> RET_SUCCESS \<and> brief w' = brief w \<and> kernel w' = kernel w \<or>
     ret = RET_SUCCESS \<and> (\<exists>ct. UpdatePermissionStatus (ae_table E) t p g f (brief w) = (RET_SUCCESS, ct, brief w')) \<and>
     (if VerifyPermissionStatusByCode (brief w') t c = VerifyPermissionStatusByCode (brief w) t c
      then kernel w' = kernel w
      else \<exists>h' w4. kernel w' = kernel (NotifyWhenPermissionStateUpdated E p g f h' w4) \<and> kernel w4 = kernel w \<and>
             policies w4 = policies w \<and> hi_basic h' = hi_basic h))"
proof -
  note m = cached_member [OF ok cached]
  obtain ret2 w2 where ch: "UpdateTokenPermissionStateCheck E h t p g f w = (ret2, w2)" by fastforce
  obtain ob where w2: "w2 = w\<lparr>tempObserver := ob\<rparr>" using Check_cached [OF ok cached ch] by blast
  obtain ret3 changed h' st d where hu: "HapUpdatePermissionStatus (ae_ops E) (ae_table E) (ae_now E) p g f False
      (h, brief w, database w) = (ret3, changed, h', st, d)" by (metis prod_cases5)
  note eff = HapUpdatePermissionStatus_effect [OF hu c m(2) [symmetric] tbl bo]
  have us: "\<exists>ct. UpdatePermissionStatus (ae_table E) t p g f (brief w) = (RET_SUCCESS, ct, st)" if "ret3 = RET_SUCCESS"
    using HapUpdatePermissionStatus_store [OF hu [unfolded that] c m(2) [symmetric]] by metis
  define w3 where "w3 = put_hap t h' (w2\<lparr>brief := st, database := d\<rparr>)"
  have view3: "tokens_view w3 = tokens_view w" "omap_ok (hapTokenInfoMap w3)" "policies w3 = policies w" "brief w3 = st"
    "kernel w3 = kernel w"
    using put_hap_view [of "w2\<lparr>brief := st, database := d\<rparr>" t h h'] ok cached eff(1,2)
    by (auto simp: w3_def w2 tokens_view_def hap_at_def cache_ok_def)
  have upd: "update_status E h p g f w2 = (ret3, changed, h', w3)"
    using hu m(2) by (simp add: update_status_def w2 w3_def)
  have w: "omap_ok (hapTokenInfoMap w)" using ok by (simp add: cache_ok_def)
  consider (early) "ret \<noteq> RET_SUCCESS" "w' = w2" | (late) "ret \<noteq> RET_SUCCESS" "ret3 \<noteq> RET_SUCCESS" "w' = w3"
    | (quiet) "ret = RET_SUCCESS" "ret3 = RET_SUCCESS" "\<not> changed" "kernel w' = kernel w3" "brief w' = st"
        "hapTokenInfoMap w' = hapTokenInfoMap w3" "policies w' = policies w3"
    | (told) "ret = RET_SUCCESS" "ret3 = RET_SUCCESS" changed
        "kernel w' = kernel (NotifyWhenPermissionStateUpdated E p g f h' (notify ParamFlagUpdate w3))"
        "brief w' = st" "hapTokenInfoMap w' = hapTokenInfoMap w3" "policies w' = policies w3"
    using u cached_lookup [OF cached, of E] ch upd view3(4)
    by (auto simp: UpdateTokenPermissionState_def Let_def after_update_def tokens_view_def split: if_split_asm)
  then show ?thesis
  proof cases
    case early
    then show ?thesis using w w2 by (simp add: tokens_view_def)
  next
    case late
    then show ?thesis using eff(5) view3 by simp
  next
    case quiet
    then show ?thesis using eff(4) view3 us by (simp add: tokens_view_def)
  next
    case told
    have "\<exists>h' w4. kernel w' = kernel (NotifyWhenPermissionStateUpdated E p g f h' w4) \<and> kernel w4 = kernel w \<and>
        policies w4 = policies w \<and> hi_basic h' = hi_basic h"
      using told(4) view3 eff(1) by (intro exI [of _ h'] exI [of _ "notify ParamFlagUpdate w3"]) simp
    then show ?thesis using told eff(4) view3 us by (simp add: tokens_view_def)
  qed
qed

text \<open>One change of one token keeps the kernel in step.\<close>

lemma UpdateTokenPermissionState_step:
  assumes laws: "kernel_laws (ae_kernel E) kabs" "kernel_accepts (ae_kernel E)"
    and tbl: "perm_table_ok (ae_table E)" and c: "TransferPermissionToOpcode (ae_table E) p = Some c" "unat c < 2048"
    and inv: "grant_inv kabs c w" and cached: "hap_at w t = Some h"
    and f: "\<not> bit f 8" "\<not> bit f 9"
    and u: "UpdateTokenPermissionState E t p g f k w = (ret, w')"
  shows "grant_inv kabs c w'" "tokens_view w' = tokens_view w" "only_changes t c (brief w) (brief w')"
    and "restricted (brief w') t' c' \<longleftrightarrow> restricted (brief w) t' c'"
    and "ret = RET_SUCCESS \<Longrightarrow> \<not> bit f 4 \<Longrightarrow>
      VerifyPermissionStatusByCode (brief w') t c = (if g \<and> \<not> restricted (brief w) t c then PERMISSION_GRANTED else PERMISSION_DENIED)"
proof -
  have ok: "cache_ok w" and b: "brief_inv (brief w)" and sync: "in_step kabs w" and pol: "policy_seen c w"
    using inv by (simp_all add: grant_inv_def)
  have bo: "omap_ok (requestedPermData (brief w))" using b by (simp add: brief_inv_def)
  note m = cached_member [OF ok cached]
  note cs = UpdateTokenPermissionState_cases [OF ok cached bo tbl c(1) u]
  have us: "brief w' = brief w \<or> (\<exists>ct. UpdatePermissionStatus (ae_table E) t p g f (brief w) = (RET_SUCCESS, ct, brief w'))"
    using cs by blast
  show only: "only_changes t c (brief w) (brief w')"
    using us UpdatePermissionStatus_local [OF tbl bo c(1)] by auto
  have res: "restricted (brief w') t' c' \<longleftrightarrow> restricted (brief w) t' c'" for t' c'
    using us UpdatePermissionStatus_restricted [OF tbl bo c(1) _ f(2)] by metis
  then show "restricted (brief w') t' c' \<longleftrightarrow> restricted (brief w) t' c'" .
  show view: "tokens_view w' = tokens_view w" using cs by blast
  have binv: "brief_inv (brief w')" using us b UpdatePermissionStatus_inv [OF tbl b] by metis
  have others: "VerifyPermissionStatusByCode (brief w') t' c' = VerifyPermissionStatusByCode (brief w) t' c'"
    if "(t', c') \<noteq> (t, c)" for t' c'
    using only that only_changes_Verify by blast
  have "in_step kabs w'"
  proof (cases "VerifyPermissionStatusByCode (brief w') t c = VerifyPermissionStatusByCode (brief w) t c")
    case True
    then have "VerifyPermissionStatusByCode (brief w') = VerifyPermissionStatusByCode (brief w)"
      using others by (intro ext) (metis prod.inject)
    then show ?thesis using cs True sync by (auto simp: in_step_def)
  next
    case False
    then obtain ct h' w4 where st: "UpdatePermissionStatus (ae_table E) t p g f (brief w) = (RET_SUCCESS, ct, brief w')"
      and k4: "kernel w' = kernel (NotifyWhenPermissionStateUpdated E p g f h' w4)" "kernel w4 = kernel w"
        "policies w4 = policies w" "hi_basic h' = hi_basic h"
      using cs by (auto split: if_split_asm)
    have ver: "VerifyPermissionStatusByCode (brief w') t c = PERMISSION_GRANTED \<longleftrightarrow> g"
      by (rule UpdatePermissionStatus_effect [OF tbl b c(1) st f False])
    have "IsPermissionRestricted (policies w) t (ht_userID (hi_basic h)) c \<Longrightarrow> restricted (brief w') t c"
      using pol m res by (fastforce simp: policy_seen_def Let_def)
    then have "g \<Longrightarrow> \<not> IsPermissionRestricted (policies w) t (ht_userID (hi_basic h)) c"
      using ver restricted_denied by fastforce
    moreover have "kabs (kernel w') = (kabs (kernel w))(t := (kabs (kernel w) t)
        (c := g \<and> \<not> IsPermissionRestricted (policies w) t (ht_userID (hi_basic h)) c))"
      using Notify_kernel [OF laws c, of t h' g f w4] m(2) k4 by simp
    ultimately show ?thesis using sync others ver by (auto simp: in_step_def)
  qed
  then show "grant_inv kabs c w'"
    using cs binv cache_ok_view [of w' w] ok policy_seen_view [of w' w c] res pol by (simp add: grant_inv_def)
  assume "ret = RET_SUCCESS" "\<not> bit f 4"
  then obtain ct where "UpdatePermissionStatus (ae_table E) t p g f (brief w) = (RET_SUCCESS, ct, brief w')" using cs by blast
  then have "UpdatePermStateList t c g f (brief w) = (RET_SUCCESS, brief w')"
    using UpdatePermissionStatus_cases c(1) \<open>\<not> bit f 4\<close> by blast
  then show "VerifyPermissionStatusByCode (brief w') t c =
      (if g \<and> \<not> restricted (brief w) t c then PERMISSION_GRANTED else PERMISSION_DENIED)"
    using UpdatePermStateList_entry [OF bo, of t c g f RET_SUCCESS "brief w'"] f \<open>\<not> bit f 4\<close>
    by (auto simp: Verify_entry effective_status bit_new_flag restricted_def)
qed

section \<open>A token and its sandbox tokens\<close>

lemma related_cached:
  assumes "cache_ok w" "i \<in> set (GetRelatedSandBoxHapList t w)"
  shows "i \<noteq> t" "hap_at w i \<noteq> None"
  using assms member_cached [OF assms(1)]
  by (auto simp: GetRelatedSandBoxHapList_def Let_def split: option.splits if_split_asm)

lemma UpdatePermission_step:
  assumes laws: "kernel_laws (ae_kernel E) kabs" "kernel_accepts (ae_kernel E)"
    and tbl: "perm_table_ok (ae_table E)" and c: "TransferPermissionToOpcode (ae_table E) p = Some c" "unat c < 2048"
    and inv: "grant_inv kabs c w" and cached: "hap_at w t = Some h"
    and f: "\<not> bit f 8" "\<not> bit f 9"
    and u: "UpdatePermission E t p g f k w = (ret, w')"
  shows "grant_inv kabs c w'"
    and "ret = RET_SUCCESS \<Longrightarrow> \<not> bit f 4 \<Longrightarrow>
      VerifyPermissionStatusByCode (brief w') t c = (if g \<and> \<not> restricted (brief w) t c then PERMISSION_GRANTED else PERMISSION_DENIED)"
proof -
  let ?f = "\<lambda>w i. snd (UpdateTokenPermissionState E i p g f k w)"
  note step = UpdateTokenPermissionState_step [OF laws tbl c _ _ f]
  have fold: "grant_inv kabs c (foldl ?f w is) \<and>
      VerifyPermissionStatusByCode (brief (foldl ?f w is)) t c = VerifyPermissionStatusByCode (brief w) t c"
    if "grant_inv kabs c w" "\<forall>i \<in> set is. i \<noteq> t \<and> hap_at w i \<noteq> None" for "is" w
    using that
  proof (induction "is" arbitrary: w)
    case (Cons i "is")
    obtain h1 where h1: "hap_at w i = Some h1" using Cons.prems(2) by auto
    note s = step [OF Cons.prems(1) h1 prod.collapse [symmetric], of g k]
    have "hap_at (?f w i) j \<noteq> None" if "hap_at w j \<noteq> None" for j
      using view_hap_at [OF s(2)] that by (metis not_None_eq)
    moreover have "VerifyPermissionStatusByCode (brief (?f w i)) t c = VerifyPermissionStatusByCode (brief w) t c"
      using only_changes_Verify [OF s(3), of t c] Cons.prems(2) by auto
    ultimately show ?case using Cons.IH [of "?f w i"] s(1) Cons.prems(2) by simp
  qed simp
  obtain ret1 w1 where u1: "UpdateTokenPermissionState E t p g f k w = (ret1, w1)" by fastforce
  note s1 = step [OF inv cached u1]
  have ok1: "cache_ok w1" using s1(1) by (simp add: grant_inv_def)
  have "\<forall>i \<in> set (GetRelatedSandBoxHapList t w1). i \<noteq> t \<and> hap_at w1 i \<noteq> None"
    using related_cached [OF ok1] by blast
  note f1 = fold [OF s1(1) this]
  show "grant_inv kabs c w'" using u u1 s1(1) f1 by (auto simp: UpdatePermission_def split: if_split_asm)
  assume "ret = RET_SUCCESS" "\<not> bit f 4"
  then show "VerifyPermissionStatusByCode (brief w') t c =
      (if g \<and> \<not> restricted (brief w) t c then PERMISSION_GRANTED else PERMISSION_DENIED)"
    using u u1 s1(5) f1 by (auto simp: UpdatePermission_def split: if_split_asm)
qed

lemma kernel_cache_answer:
  assumes "kernel_laws (ae_kernel E) kabs" "in_step kabs w"
    and "GetPermissionFromKernelCache E t p w = (Some r, w')"
  shows "r = PERMISSION_GRANTED \<longleftrightarrow>
    IsDefinedPermissionInner (ae_table E) p \<and> VerifyPermissionStatus (ae_table E) (brief w) t p = PERMISSION_GRANTED"
proof (cases "TransferPermissionToOpcode (ae_table E) p")
  case None
  then have "\<not> IsDefinedPermissionInner (ae_table E) p"
    by (simp add: TransferPermissionToOpcode_def IsDefinedPermissionInner_def)
  then show ?thesis using assms(3) by (auto simp: GetPermissionFromKernelCache_def)
next
  case (Some c)
  obtain ret before k where q: "GetPermFromKernel (ae_kernel E) t c (kernel w) = (ret, before, k)" using prod_cases3 by blast
  show ?thesis
    using assms(2,3) Some q GetPermFromKernel_abs [OF assms(1) q]
    by (auto simp: GetPermissionFromKernelCache_def VerifyPermissionStatus_def GetPermFromKernel_def in_step_def Let_def
        split: if_split_asm)
qed

lemma admin_flag_bits: "IsAdminPermissionFlag f \<longleftrightarrow> bit f 7 \<or> bit f 8"
proof -
  have "f AND (PERMISSION_FIXED_BY_ADMIN_POLICY OR PERMISSION_ADMIN_POLICIES_CANCEL) =
      (f AND PERMISSION_FIXED_BY_ADMIN_POLICY) OR (f AND PERMISSION_ADMIN_POLICIES_CANCEL)" by (rule bit.conj_disj_distrib)
  then show ?thesis unfolding IsAdminPermissionFlag_def by (simp add: or_eq_0_iff flag_simps)
qed

section \<open>When a change is accepted\<close>

lemma UpdatePermStateList_accepts:
  assumes "entry st t c = Some d" "\<not> bit (bp_flag d) 2" "\<not> IsRestrictedPermission (bp_flag d) f" "\<not> bit f 8"
  shows "fst (UpdatePermStateList t c g f st) = RET_SUCCESS"
  using assms by (auto simp: UpdatePermStateList_def entry_def Let_def flag_simps split: option.splits)

lemma UpdatePermissionStatus_accepts:
  assumes "TransferPermissionToOpcode tbl p = Some c" "entry st t c = Some d" "\<not> bit (bp_flag d) 2"
    and "\<not> IsRestrictedPermission (bp_flag d) f" "\<not> bit f 8" "\<not> bit f 4"
  shows "fst (UpdatePermissionStatus tbl t p g f st) = RET_SUCCESS"
  using assms UpdatePermStateList_accepts [OF assms(2-5), of g]
  by (simp add: UpdatePermissionStatus_def Let_def sec_comp_flag split_beta)

lemma UpdateTokenPermissionState_accepts:
  assumes "cache_ok w" and cached: "hap_at w t = Some h" and "\<not> hi_isRemote h" "ht_dlpType (hi_basic h) = DLP_COMMON"
    and temp: "f = PERMISSION_ALLOW_THIS_TIME \<Longrightarrow> g \<Longrightarrow> \<exists>ob. IsAllowGrantTempPermission E t p w = (True, w\<lparr>tempObserver := ob\<rparr>)"
    and tbl: "perm_table_ok (ae_table E)" and "brief_inv (brief w)"
    and c: "TransferPermissionToOpcode (ae_table E) p = Some c" and "entry (brief w) t c = Some d"
    and "\<not> bit (bp_flag d) 2" "\<not> IsRestrictedPermission (bp_flag d) f" "\<not> bit f 8" "\<not> bit f 4"
  shows "fst (UpdateTokenPermissionState E t p g f k w) = RET_SUCCESS"
proof -
  have t: "ht_tokenID (hi_basic h) = t" by (rule cached_member(2) [OF assms(1,2)])
  obtain r1 ct st where us: "UpdatePermissionStatus (ae_table E) t p g f (brief w) = (r1, ct, st)" using prod_cases3 by blast
  have r1: "r1 = RET_SUCCESS" using UpdatePermissionStatus_accepts [OF c assms(9-13)] us by (metis fst_conv)
  have bo: "omap_ok (requestedPermData (brief w))" using assms(7) by (simp add: brief_inv_def)
  have "entry st t c \<noteq> None"
    using UpdatePermissionStatus_cases [OF us c] assms(9,13) UpdatePermStateList_entry [OF bo, of t c g f r1 st] r1 by auto
  then have "map_of (requestedPermData st) t \<noteq> None" by (auto simp: entry_def split: option.splits)
  then have "fst (HapUpdatePermissionStatus (ae_ops E) (ae_table E) (ae_now E) p g f False (h, brief w, db)) = RET_SUCCESS" for db
    using us r1 t
    by (auto simp: HapUpdatePermissionStatus_def Let_def BuildPermissionStateValues_def GetBriefPermDataByTokenIdInner_def)
  then have u: "\<exists>ch h' w3. update_status E h p g f (w\<lparr>tempObserver := ob\<rparr>) = (RET_SUCCESS, ch, h', w3)" for ob
    by (auto simp: update_status_def Let_def split: prod.splits) (metis fst_conv)
  obtain ob where "UpdateTokenPermissionStateCheck E h t p g f w = (RET_SUCCESS, w\<lparr>tempObserver := ob\<rparr>)"
  proof (cases "f = PERMISSION_ALLOW_THIS_TIME \<and> g")
    case True
    then show ?thesis using assms(3,4) temp that by (auto simp: UpdateTokenPermissionStateCheck_def Let_def)
  next
    case False
    then show ?thesis using assms(3,4) that [of "tempObserver w"] by (auto simp: UpdateTokenPermissionStateCheck_def Let_def)
  qed
  then show ?thesis
    using u [of ob] by (auto simp: UpdateTokenPermissionState_def cached_lookup [OF cached] Let_def)
qed

lemma GrantPermission_accepts:
  assumes "cache_ok w" "hap_at w t = Some h" "\<not> hi_isRemote h" "ht_dlpType (hi_basic h) = DLP_COMMON"
    and "f = PERMISSION_ALLOW_THIS_TIME \<Longrightarrow> \<exists>ob. IsAllowGrantTempPermission E t p w = (True, w\<lparr>tempObserver := ob\<rparr>)"
    and "perm_table_ok (ae_table E)" "brief_inv (brief w)"
    and "TransferPermissionToOpcode (ae_table E) p = Some c" "entry (brief w) t c = Some d"
    and "\<not> bit (bp_flag d) 2" "\<not> bit (bp_flag d) 7" "\<not> bit f 4"
    and "CheckPermissionParams (ae_table E) p f = RET_SUCCESS" "\<not> is_manual (ae_table E) p"
  shows "fst (GrantPermission E t p f op w) = RET_SUCCESS"
proof -
  have f8: "\<not> bit f 8" using assms(13) by (auto simp: CheckPermissionParams_def admin_flag_bits split: if_split_asm)
  have r: "\<not> IsRestrictedPermission (bp_flag d) f" using assms(11) by (simp add: IsRestricted_bits)
  have "fst (UpdateTokenPermissionState E t p True f False w) = RET_SUCCESS"
    by (rule UpdateTokenPermissionState_accepts [OF assms(1-4) _ assms(6-10) r f8 assms(12)]) (use assms(5) in simp)
  then show ?thesis
    using assms(13,14) cached_info [OF assms(1,2), of E]
    by (auto simp: GrantPermission_def CheckAndUpdatePermissionInner_def CheckAndUpdatePermission_def UpdatePermission_def
        split: prod.splits)
qed

end
