(* ===== verification/Sample_World.thy ===== *)
theory Sample_World
  imports Grant_Laws User_Policy_Reach
begin

text \<open>
  One concrete state of the service and one environment, over the database and the kernel held in memory: an
  application in the foreground that requested the camera, the location and a permission for short grants.
\<close>

definition world_table :: perm_table where
  "world_table = [sample_def, sample_def\<lparr>bd_permissionName := ''ohos.permission.LOCATION''\<rparr>,
     sample_def\<lparr>bd_permissionName := ''ohos.permission.SHORT_TERM_WRITE_IMAGEVIDEO''\<rparr>]"

definition world_env :: "(tables, tables, string list \<times> ValueObject list list, mem_perm_kernel) atm_env" where
  "world_env = \<lparr>ae_ops = mem_rdb, ae_table = world_table, ae_kernel = mem_kernel, ae_dlpModes = [], ae_now = 5000,
     ae_seconds = 1000, ae_random = (\<lambda>n. of_nat n), ae_callingFullTokenID = 0x28000001, ae_callingUid = 1000,
     ae_foreground = [0x20000001], ae_formVisible = (\<lambda>_. False), ae_continuousTasks = [], ae_revokeCameraMic = True\<rparr>"

definition world_perm :: "u16 \<Rightarrow> BriefPermData" where
  "world_perm c = \<lparr>bp_status = PERMISSION_DENIED, bp_type = 0, bp_permCode = c, bp_flag = PERMISSION_DEFAULT_FLAG\<rparr>"

definition world :: "(tables, mem_perm_kernel) atm" where
  "world = \<lparr>hapTokenInfoMap = [(0x20000001, sample_hap)], hapTokenIdMap = [(''com.example.app&100&0'', 0x20000001)],
     bundleInfoMap = [], reservedHapTokenIdMap = [], nativeTokenInfoMap = [], remoteDeviceMap = [],
     brief = \<lparr>requestedPermData = [(0x20000001, [world_perm 0, world_perm 1, world_perm 2])], extendedValue = [], secCompList = []\<rparr>,
     ids = init_id_manager\<lparr>tokenIdSet := {0x20000001}\<rparr>, policies = [], monitor = init_monitor,
     tempObserver = \<lparr>tempPermTokenMap = [], tempPermPermissionMap = [], continuousTaskIdMap = [], formTokenMap = [],
                     cancelTimes = 10000\<rparr>,
     tempTasks = [], shortGrantData = [], shortTasks = [], database = empty_db, kernel = (\<lambda>_ _. False),
     spmChecked = (False, False), events = []\<rparr>"

lemma world_hap: "hap_at world 0x20000001 = Some sample_hap"
  by (simp add: world_def hap_at_def)

lemma world_table_ok: "perm_table_ok world_table"
  by (simp add: perm_table_ok_def world_table_def sample_def_def)

lemma world_code:
  "TransferPermissionToOpcode world_table ''ohos.permission.CAMERA'' = Some 0"
  "TransferPermissionToOpcode world_table ''ohos.permission.LOCATION'' = Some 1"
  "TransferPermissionToOpcode world_table ''ohos.permission.SHORT_TERM_WRITE_IMAGEVIDEO'' = Some 2"
  by (simp_all add: TransferPermissionToOpcode_iff [OF world_table_ok]) (simp_all add: world_table_def sample_def_def)

lemma world_entry:
  "entry (brief world) 0x20000001 0 = Some (world_perm 0)" "entry (brief world) 0x20000001 1 = Some (world_perm 1)"
  "entry (brief world) 0x20000001 2 = Some (world_perm 2)"
  by (simp_all add: entry_def world_def code_is_def world_perm_def)

lemma world_brief: "brief_inv (brief world)"
  by (simp add: world_def brief_inv_def tokens_def value_tokens_def sec_comp_tokens_def)

lemma world_cache: "cache_ok world"
  by (simp add: cache_ok_def world_def sample_hap_def) (simp add: IsBinTokenId_def of_token_id_def)

lemma world_entries: "entry (brief world) t c = Some d \<Longrightarrow> bp_status d = PERMISSION_DENIED \<and> bp_flag d = 0"
  by (auto simp: entry_def world_def world_perm_def split: if_split_asm)

lemma world_in_step: "in_step (\<lambda>k. k) world"
proof -
  have "VerifyPermissionStatusByCode (brief world) t c = PERMISSION_DENIED" for t c
    using world_entries [of t c] by (auto simp: Verify_entry effective_status sec_granted_def world_def split: option.split)
  then show ?thesis by (simp add: in_step_def world_def)
qed

lemma world_policy: "policy_seen c world"
  by (simp add: policy_seen_def world_def IsPermissionRestricted_def)

lemma mem_kernel_accepts: "kernel_accepts mem_kernel"
  by (simp add: kernel_accepts_def SetPermissionToKernel_def c_SetPermissionToKernel_def mem_kernel_def)

lemma world_params:
  "CheckPermissionParams world_table ''ohos.permission.CAMERA'' PERMISSION_USER_FIXED = RET_SUCCESS"
  "CheckPermissionParams world_table ''ohos.permission.CAMERA'' PERMISSION_ALLOW_THIS_TIME = RET_SUCCESS"
  "CheckPermissionParams world_table ''ohos.permission.SHORT_TERM_WRITE_IMAGEVIDEO'' PERMISSION_USER_FIXED = RET_SUCCESS"
  "\<not> is_manual world_table ''ohos.permission.CAMERA''" "\<not> is_manual world_table ''ohos.permission.SHORT_TERM_WRITE_IMAGEVIDEO''"
  by code_simp+

lemma world_allows: "\<exists>ob. IsAllowGrantTempPermission world_env 0x20000001 ''ohos.permission.CAMERA'' world = (True, world\<lparr>tempObserver := ob\<rparr>)"
  unfolding IsAllowGrantTempPermission_def cached_info [OF world_cache world_hap]
  by (simp add: g_tempPermission_def CheckPermissionState_def CollectContinuousTaskState_def Let_def CheckTempPermissionByType_def
      GetPermissionType_def g_permissionTypeMap_def world_env_def IsPrivilegedCalling_def)
    (rule exI, rule refl)

lemma world_common: "\<not> hi_isRemote sample_hap" "ht_dlpType (hi_basic sample_hap) = DLP_COMMON"
  by (simp_all add: sample_hap_def)

lemmas world_facts = world_cache world_hap world_common world_brief world_table_ok world_code world_entry world_params world_perm_def

lemma world_env_table [simp]: "ae_table world_env = world_table" "ae_kernel world_env = mem_kernel"
  by (simp_all add: world_env_def)

lemma world_grants_camera:
  "fst (GrantPermission world_env 0x20000001 ''ohos.permission.CAMERA'' PERMISSION_USER_FIXED False world) = RET_SUCCESS"
  by (rule GrantPermission_accepts [where h = sample_hap and c = 0 and d = "world_perm 0"]) (simp_all add: world_facts)

lemma world_grants_short:
  "fst (GrantPermission world_env 0x20000001 ''ohos.permission.SHORT_TERM_WRITE_IMAGEVIDEO'' PERMISSION_USER_FIXED False world) = RET_SUCCESS"
  by (rule GrantPermission_accepts [where h = sample_hap and c = 2 and d = "world_perm 2"]) (simp_all add: world_facts)

lemma world_grants_once:
  "fst (GrantPermission world_env 0x20000001 ''ohos.permission.CAMERA'' PERMISSION_ALLOW_THIS_TIME False world) = RET_SUCCESS"
  by (rule GrantPermission_accepts [where h = sample_hap and c = 0 and d = "world_perm 0"]) (simp_all add: world_facts world_allows)

end
