(* ===== verification/Short_Grant_Laws.thy ===== *)
theory Short_Grant_Laws
  imports Frame_Laws
begin

text \<open>
  Laws of \<open>ShortGrantManager\<close>: an invariant of the timer records and revocation tasks that every sequence of calls
  and callbacks keeps, and the bounds it gives on how long a short grant lasts.
\<close>

section \<open>Names of tasks\<close>

lemma to_string_inject: "to_string a = to_string b \<longleftrightarrow> a = b"
proof
  assume eq: "to_string a = to_string b"
  let ?n = "\<bar>a\<bar> + \<bar>b\<bar>"
  have "from_chars (- ?n) ?n (to_string a) = Some a" by (rule from_chars_to_string) linarith+
  moreover have "from_chars (- ?n) ?n (to_string b) = Some b" by (rule from_chars_to_string) linarith+
  ultimately show "a = b" using eq by simp
qed simp

lemma short_task_name_inject:
  assumes "IsShortGrantPermission p" "IsShortGrantPermission p'"
  shows "short_task_name t p = short_task_name t' p' \<longleftrightarrow> t = t' \<and> p = p'"
  using assms by (auto simp: IsShortGrantPermission_def short_task_name_def to_string_inject unsigned_word_eqI)

section \<open>The invariant\<close>

definition timer_key :: "PermTimerData \<Rightarrow> token_id \<times> string" where
  "timer_key d = (pt_tokenID d, pt_permissionName d)"

text \<open>One record for a token and permission, for 30 minutes at most from the first grant on; one task for a record at
  most, which runs within 5 minutes.\<close>

definition record_bounded :: "PermTimerData \<Rightarrow> bool" where
  "record_bounded d \<longleftrightarrow> IsShortGrantPermission (pt_permissionName d) \<and> unat (pt_revokeTimes d - pt_firstGrantTimes d) \<le> 1800"

definition task_for :: "(token_id \<times> string) set \<Rightarrow> revoke_task \<Rightarrow> bool" where
  "task_for keys x \<longleftrightarrow>
     rt_name x = short_task_name (rt_tokenID x) (rt_permissionName x) \<and> 0 < rt_delay x \<and> rt_delay x \<le> 300000 \<and>
     (rt_tokenID x, rt_permissionName x) \<in> keys"

definition timers_ok :: "PermTimerData list \<Rightarrow> revoke_task list \<Rightarrow> bool" where
  "timers_ok ds xs \<longleftrightarrow>
     distinct (map timer_key ds) \<and> list_all record_bounded ds \<and> distinct (map rt_name xs) \<and>
     list_all (task_for (timer_key ` set ds)) xs"

definition short_ok :: "('s, 'k) atm \<Rightarrow> bool" where
  "short_ok w \<longleftrightarrow> timers_ok (shortGrantData w) (shortTasks w)"

lemma short_ok_timers: "timers w' = timers w \<Longrightarrow> short_ok w' \<longleftrightarrow> short_ok w"
  by (simp add: short_ok_def timers_def)

lemma timer_is_key: "timer_is t p d \<longleftrightarrow> timer_key d = (t, p)"
  by (auto simp: timer_is_def timer_key_def)

lemma timer_is_fun: "timer_is t p = (\<lambda>d. timer_key d = (t, p))"
  by (simp add: fun_eq_iff timer_is_key)

lemma key_short: "list_all record_bounded ds \<Longrightarrow> (t, p) \<in> timer_key ` set ds \<Longrightarrow> IsShortGrantPermission p"
  by (auto simp: list_all_iff record_bounded_def timer_key_def)

lemma cancel_no_task:
  assumes "timers_ok ds xs" "(t, p) \<in> timer_key ` set ds"
  shows "timers_ok ds (filter (\<lambda>x. rt_name x \<noteq> short_task_name t p) xs)"
  using assms by (auto simp: timers_ok_def list_all_iff distinct_map inj_on_def)

lemma post_task:
  assumes "timers_ok ds xs" "(t, p) \<in> timer_key ` set ds" "0 < delay" "delay \<le> 300000"
    and "short_task_name t p \<notin> rt_name ` set xs"
  shows "timers_ok ds (xs @ [\<lparr>rt_name = short_task_name t p, rt_tokenID = t, rt_permissionName = p, rt_delay = delay\<rparr>])"
  using assms by (auto simp: timers_ok_def list_all_iff task_for_def)

lemma no_task_without_record:
  assumes "timers_ok ds xs" "IsShortGrantPermission p" "(t, p) \<notin> timer_key ` set ds"
  shows "short_task_name t p \<notin> rt_name ` set xs"
proof
  assume "short_task_name t p \<in> rt_name ` set xs"
  then obtain x where x: "x \<in> set xs" "rt_name x = short_task_name t p" by force
  have f: "task_for (timer_key ` set ds) x" using assms(1) x(1) by (simp add: timers_ok_def list_all_iff)
  have "IsShortGrantPermission (rt_permissionName x)"
    using f assms(1) key_short [of ds "rt_tokenID x"] by (auto simp: task_for_def timers_ok_def)
  then have "(rt_tokenID x, rt_permissionName x) = (t, p)"
    using f x(2) short_task_name_inject [OF _ assms(2)] by (metis task_for_def)
  then show False using f assms(3) by (simp add: task_for_def)
qed

lemma add_record:
  assumes "timers_ok ds xs" "record_bounded d" "timer_key d \<notin> timer_key ` set ds"
  shows "timers_ok (ds @ [d]) xs"
  using assms by (auto simp: timers_ok_def list_all_iff task_for_def)

lemma update_record:
  assumes "timers_ok ds xs" "\<And>d. timer_is t p d \<Longrightarrow> d \<in> set ds \<Longrightarrow> record_bounded (f d)" "\<And>d. timer_key (f d) = timer_key d"
  shows "timers_ok (update_first (timer_is t p) f ds) xs"
proof -
  have keys: "map timer_key (update_first (timer_is t p) f ds) = map timer_key ds"
    by (rule map_update_first) (rule assms(3))
  have "timer_key ` set (update_first (timer_is t p) f ds) = timer_key ` set ds"
    using keys by (metis set_map)
  moreover have "list_all record_bounded (update_first (timer_is t p) f ds)"
    using assms(1,2) set_update_first [of "timer_is t p" f ds] by (fastforce simp: timers_ok_def list_all_iff)
  ultimately show ?thesis using assms(1) keys by (simp add: timers_ok_def)
qed

text \<open>A record goes away only after its task.\<close>

lemma drop_record:
  assumes "timers_ok ds xs" "IsShortGrantPermission p" "short_task_name t p \<notin> rt_name ` set xs"
    and "timer_key ` set ds \<subseteq> insert (t, p) (timer_key ` set ds')"
    and "distinct (map timer_key ds')" "set ds' \<subseteq> set ds"
  shows "timers_ok ds' xs"
proof -
  have "task_for (timer_key ` set ds') x" if x: "x \<in> set xs" for x
  proof -
    have f: "task_for (timer_key ` set ds) x" using assms(1) x by (simp add: timers_ok_def list_all_iff)
    then have "rt_name x \<noteq> short_task_name t p" using assms(3) x by force
    then have "(rt_tokenID x, rt_permissionName x) \<noteq> (t, p)" using f by (auto simp: task_for_def)
    then show ?thesis using f assms(4) by (auto simp: task_for_def)
  qed
  then show ?thesis using assms(1,5,6) by (auto simp: timers_ok_def list_all_iff)
qed

section \<open>Arithmetic of a refresh\<close>

lemma delay_bound:
  fixes s :: u32
  assumes "s \<noteq> 0" "s \<le> 300"
  shows "uint (s * 1000) = 1000 * uint s" "0 < uint (s * 1000)" "uint (s * 1000) \<le> 300000"
proof -
  have s: "0 < uint s" "uint s \<le> 300"
    using assms uint_0_iff [of s] uint_ge_0 [of s] by (simp_all add: word_le_def order_less_le)
  have "uint (s * 1000) = (uint s * 1000) mod 2 ^ 32" by (simp add: uint_word_ariths)
  also have "\<dots> = uint s * 1000" using s by (intro mod_pos_pos_trivial) auto
  finally show "uint (s * 1000) = 1000 * uint s" "0 < uint (s * 1000)" "uint (s * 1000) \<le> 300000" using s by auto
qed

lemma refresh_within_limit:
  fixes elapsed s :: u32
  assumes "s \<le> (if 1800 > elapsed then 1800 - elapsed else 0)" "s \<noteq> 0"
  shows "unat (elapsed + s) \<le> 1800"
proof -
  have e: "elapsed < 1800" using assms by (auto split: if_splits)
  then have "unat (1800 - elapsed) = 1800 - unat elapsed" by (simp add: unat_sub word_less_nat_alt word_le_nat_alt)
  moreover have "unat elapsed < 1800" using e by (simp add: word_less_nat_alt)
  moreover have "unat s \<le> unat (1800 - elapsed)" using assms(1) e by (simp add: word_le_nat_alt)
  moreover have "unat (elapsed + s) \<le> unat elapsed + unat s" by (simp add: unat_word_ariths)
  ultimately show ?thesis by linarith
qed

text \<open>The two ways a call succeeds with a new task, and the way it succeeds without one.\<close>

lemma RefreshPermission_cases:
  assumes "RefreshPermission E t p s w = (ret, w')"
  obtains (refused) "timers w' = timers w" "ret \<noteq> RET_SUCCESS"
    | (fresh) "ret = RET_SUCCESS" "s \<noteq> 0" "s \<le> 300" "IsShortGrantPermission p"
        "(t, p) \<notin> timer_key ` set (shortGrantData w)"
        "shortGrantData w' = shortGrantData w @ [\<lparr>pt_tokenID = t, pt_permissionName = p,
           pt_firstGrantTimes = ae_seconds E, pt_revokeTimes = ae_seconds E + s\<rparr>]"
        "shortTasks w' = shortTasks w @ [\<lparr>rt_name = short_task_name t p, rt_tokenID = t, rt_permissionName = p,
           rt_delay = uint (s * 1000)\<rparr>]"
    | (extended) d r where "find (timer_is t p) (shortGrantData w) = Some d" "r \<noteq> 0" "r \<le> s" "s \<le> 300"
        "r \<le> (if 1800 > ae_seconds E - pt_firstGrantTimes d then 1800 - (ae_seconds E - pt_firstGrantTimes d) else 0)"
        "shortGrantData w' = update_first (timer_is t p) (\<lambda>d. d\<lparr>pt_revokeTimes := ae_seconds E + r\<rparr>) (shortGrantData w)"
        "shortTasks w' = filter (\<lambda>x. rt_name x \<noteq> short_task_name t p) (shortTasks w) @
           (if ret = RET_SUCCESS then [\<lparr>rt_name = short_task_name t p, rt_tokenID = t, rt_permissionName = p,
              rt_delay = uint (r * 1000)\<rparr>] else [])"
    | (kept) d where "ret = RET_SUCCESS" "w' = w" "find (timer_is t p) (shortGrantData w) = Some d"
        "s \<noteq> 0" "s \<le> 300"
proof (cases "t = 0 \<or> s = 0 \<or> s > 300 \<or> s > 1800")
  case True
  then show ?thesis using assms refused by (auto simp: RefreshPermission_def Let_def)
next
  case False
  then have s: "s \<noteq> 0" "s \<le> 300" by auto
  show ?thesis
  proof (cases "find (timer_is t p) (shortGrantData w)")
    case None
    then have k: "(t, p) \<notin> timer_key ` set (shortGrantData w)" by (simp add: timer_is_fun find_map_key)
    obtain ret1 w1 where g: "GrantPermission E t p PERMISSION_USER_FIXED False w = (ret1, w1)" by fastforce
    note t1 = GrantPermission_timers [OF g]
    consider "IsShortGrantPermission p" "ret1 = RET_SUCCESS" | "\<not> IsShortGrantPermission p" | "ret1 \<noteq> RET_SUCCESS" by blast
    then show ?thesis
    proof cases
      case 1
      then show ?thesis
        using assms None False g s k timers_simps [OF t1]
        by (intro fresh) (auto simp: RefreshPermission_def Let_def ScheduleRevokeTask_def)
    qed (use assms None False g t1 refused in \<open>auto simp: RefreshPermission_def Let_def split: if_splits\<close>)
  next
    case (Some d)
    define mx where "mx = (if 1800 > ae_seconds E - pt_firstGrantTimes d
      then 1800 - (ae_seconds E - pt_firstGrantTimes d) else 0)"
    define cur where "cur = (if pt_revokeTimes d > ae_seconds E then pt_revokeTimes d - ae_seconds E else 0)"
    define r where "r = (if mx > s then s else mx)"
    define w1 where "w1 = ShortCancelTask (short_task_name t p) (w\<lparr>shortGrantData :=
        update_first (timer_is t p) (\<lambda>d. d\<lparr>pt_revokeTimes := ae_seconds E + r\<rparr>) (shortGrantData w)\<rparr>)"
    obtain ret2 w2 where g: "GrantPermission E t p PERMISSION_USER_FIXED False w1 = (ret2, w2)" by fastforce
    have w1: "shortTasks w1 = filter (\<lambda>x. rt_name x \<noteq> short_task_name t p) (shortTasks w)"
      "shortGrantData w1 = update_first (timer_is t p) (\<lambda>d. d\<lparr>pt_revokeTimes := ae_seconds E + r\<rparr>) (shortGrantData w)"
      by (simp_all add: w1_def ShortCancelTask_def)
    have call: "RefreshPermission E t p s w =
        (if r > cur then if ret2 \<noteq> RET_SUCCESS then (ret2, w2)
           else (RET_SUCCESS, ScheduleRevokeTask t p (short_task_name t p) r w2) else (RET_SUCCESS, w))"
      unfolding RefreshPermission_def Let_def mx_def [symmetric] cur_def [symmetric]
      using False Some g by (simp only: option.case if_False mx_def [symmetric] cur_def [symmetric] r_def [symmetric]
          w1_def [symmetric] prod.case)
    have r: "r \<le> s" "r \<le> mx" by (auto simp: r_def)
    show ?thesis
    proof (cases "r > cur")
      case True
      then have "r \<noteq> 0" by (metis word_not_simps(1))
      then show ?thesis
        using assms call True s r w1 timers_simps [OF GrantPermission_timers [OF g]]
        by (intro extended [OF Some, of r]) (auto simp: ScheduleRevokeTask_def mx_def split: if_split_asm)
    next
      case False
      then show ?thesis using assms call s Some by (intro kept) auto
    qed
  qed
qed

section \<open>Every operation keeps the invariant\<close>

lemma RefreshPermission_ok:
  assumes ok: "short_ok w" and call: "RefreshPermission E t p s w = (ret, w')"
  shows "short_ok w'"
  using call
proof (cases rule: RefreshPermission_cases)
  case refused
  then show ?thesis using ok short_ok_timers by blast
next
  case fresh
  have "record_bounded \<lparr>pt_tokenID = t, pt_permissionName = p, pt_firstGrantTimes = ae_seconds E,
      pt_revokeTimes = ae_seconds E + s\<rparr>"
    using fresh(3,4) by (simp add: record_bounded_def word_le_nat_alt)
  then have "timers_ok (shortGrantData w') (shortTasks w)"
    unfolding fresh(6) using ok fresh(5) by (intro add_record) (simp_all add: short_ok_def timer_key_def)
  moreover have "short_task_name t p \<notin> rt_name ` set (shortTasks w)"
    using ok fresh(4,5) by (intro no_task_without_record) (simp_all add: short_ok_def)
  ultimately show ?thesis
    unfolding short_ok_def fresh(7) using fresh(6) delay_bound [OF fresh(2,3)]
    by (intro post_task) (simp_all add: timer_key_def)
next
  case (extended d r)
  have d: "d \<in> set (shortGrantData w)" "timer_key d = (t, p)"
    using find_Some_iff2 [OF extended(1)] by (simp_all add: timer_is_key)
  let ?ds = "shortGrantData w'" and ?xs = "filter (\<lambda>x. rt_name x \<noteq> short_task_name t p) (shortTasks w)"
  have b: "record_bounded (d'\<lparr>pt_revokeTimes := ae_seconds E + r\<rparr>)"
    if "timer_is t p d'" "d' \<in> set (shortGrantData w)" for d'
  proof -
    have "inj_on timer_key (set (shortGrantData w))" using ok by (simp add: short_ok_def timers_ok_def distinct_map)
    then have "d' = d" using that d by (metis inj_onD timer_is_key)
    moreover have "record_bounded d" using ok d(1) by (simp add: short_ok_def timers_ok_def list_all_iff)
    ultimately show ?thesis
      using refresh_within_limit [OF extended(5,2)] by (simp add: record_bounded_def diff_add_eq)
  qed
  have ds: "timers_ok ?ds (shortTasks w)"
    unfolding extended(6) using ok b by (intro update_record) (simp_all add: short_ok_def timer_key_def)
  have "map timer_key ?ds = map timer_key (shortGrantData w)"
    unfolding extended(6) by (rule map_update_first) (simp add: timer_key_def)
  then have "timer_key ` set ?ds = timer_key ` set (shortGrantData w)" by (metis set_map)
  then have k: "(t, p) \<in> timer_key ` set ?ds" using d by (metis imageI)
  note c = cancel_no_task [OF ds k]
  have "r \<le> 300" using extended(3,4) by (rule order_trans)
  then have "timers_ok ?ds (?xs @ [\<lparr>rt_name = short_task_name t p, rt_tokenID = t, rt_permissionName = p,
      rt_delay = uint (r * 1000)\<rparr>])"
    using delay_bound [OF extended(2)] by (intro post_task [OF c k]) auto
  then show ?thesis unfolding short_ok_def extended(7) using c by simp
next
  case (kept d)
  then show ?thesis using ok by simp
qed

lemma ClearShortPermissionData_ok:
  assumes ok: "timers_ok (shortGrantData w) (shortTasks w)" and no: "short_task_name t p \<notin> rt_name ` set (shortTasks w)"
  shows "short_ok (ClearShortPermissionData E t p w)"
proof (cases "find (timer_is t p) (shortGrantData w)")
  case None
  then show ?thesis using ok by (simp add: ClearShortPermissionData_def short_ok_def)
next
  case (Some d)
  obtain ret w1 where u: "UpdatePermission E t p False PERMISSION_USER_FIXED False w = (ret, w1)" by fastforce
  note same = timers_simps [OF UpdatePermission_timers [OF u]]
  let ?ds = "erase_first (timer_is t p) (shortGrantData w)"
  have dist: "distinct (map timer_key (shortGrantData w))" and all: "list_all record_bounded (shortGrantData w)"
    using ok by (simp_all add: timers_ok_def)
  have "(t, p) \<in> timer_key ` set (shortGrantData w)" using find_Some_iff2 [OF Some] by (force simp: timer_is_key)
  then have p: "IsShortGrantPermission p" using key_short [OF all] by blast
  have e: "distinct (map timer_key (erase_first P l)) \<and> timer_key ` set l \<subseteq> insert (t, p) (timer_key ` set (erase_first P l))"
    if "distinct (map timer_key l)" "P = timer_is t p" for P l
    using that set_erase_first by (induction l) (auto simp: timer_is_key, fastforce+)
  have "timers_ok ?ds (shortTasks w)"
    using e [OF dist refl] by (intro drop_record [OF ok p no]) (simp_all add: set_erase_first)
  then show ?thesis
    using Some u same ok by (simp add: ClearShortPermissionData_def short_ok_def)
qed

lemma run_short_task_ok:
  assumes ok: "short_ok w" and x: "x \<in> set (shortTasks w)"
  shows "short_ok (run_short_task E x w)"
proof -
  let ?w = "w\<lparr>shortTasks := remove1 x (shortTasks w)\<rparr>"
  have d: "distinct (map rt_name (shortTasks w))" and f: "task_for (timer_key ` set (shortGrantData w)) x"
    using ok x by (simp_all add: short_ok_def timers_ok_def list_all_iff)
  have dist: "distinct (shortTasks w)" using d by (simp add: distinct_map)
  then have s: "set (remove1 x (shortTasks w)) = set (shortTasks w) - {x}" by simp
  have "timers_ok (shortGrantData ?w) (shortTasks ?w)"
    using ok dist d s by (auto simp: short_ok_def timers_ok_def list_all_iff distinct_map inj_on_diff)
  moreover have "short_task_name (rt_tokenID x) (rt_permissionName x) \<notin> rt_name ` set (shortTasks ?w)"
    using d f x s by (auto simp: task_for_def distinct_map dest: inj_onD)
  ultimately show ?thesis unfolding run_short_task_def by (rule ClearShortPermissionData_ok)
qed

lemma clear_short_loop_ok:
  assumes "timers_ok (kept @ ds) (shortTasks w)"
  shows "short_ok (clear_short_loop E t kept ds w)"
  using assms
proof (induction ds arbitrary: kept w)
  case Nil
  then show ?case by (simp add: short_ok_def)
next
  case (Cons d ds)
  show ?case
  proof (cases "pt_tokenID d = t")
    case False
    then show ?thesis using Cons.IH [of "kept @ [d]" w] Cons.prems by simp
  next
    case True
    let ?n = "short_task_name t (pt_permissionName d)"
    obtain ret w1 where u: "UpdatePermission E t (pt_permissionName d) False PERMISSION_USER_FIXED False w = (ret, w1)"
      by fastforce
    note same = timers_simps [OF UpdatePermission_timers [OF u]]
    have k: "(t, pt_permissionName d) = timer_key d" using True by (simp add: timer_key_def)
    have p: "IsShortGrantPermission (pt_permissionName d)"
      using Cons.prems by (simp add: timers_ok_def record_bounded_def)
    have c: "timers_ok (kept @ d # ds) (filter (\<lambda>x. rt_name x \<noteq> ?n) (shortTasks w))"
      using Cons.prems by (rule cancel_no_task) (simp add: k)
    have "timers_ok (kept @ ds) (filter (\<lambda>x. rt_name x \<noteq> ?n) (shortTasks w))"
      using Cons.prems by (intro drop_record [OF c p, of t]) (auto simp: k timers_ok_def)
    then show ?thesis
      using Cons.IH [of kept "ShortCancelTask ?n w1"] Cons.prems u same True
      by (simp add: short_ok_def ShortCancelTask_def)
  qed
qed

lemma ShortOnAppMgrRemoteDiedHandle_ok:
  assumes "short_ok w"
  shows "short_ok (ShortOnAppMgrRemoteDiedHandle E w)"
proof -
  let ?f = "\<lambda>w d. ShortCancelTask (short_task_name (pt_tokenID d) (pt_permissionName d))
      (snd (UpdatePermission E (pt_tokenID d) (pt_permissionName d) False PERMISSION_USER_FIXED False w))"
  have step: "shortTasks (?f w d) = filter (\<lambda>x. rt_name x \<noteq> short_task_name (pt_tokenID d) (pt_permissionName d)) (shortTasks w)"
    for w :: "('a, 'b) atm" and d
    using timers_simps(3) [OF UpdatePermission_timers [OF prod.collapse [symmetric]],
        of E "pt_tokenID d" "pt_permissionName d" False PERMISSION_USER_FIXED False w]
    by (simp add: ShortCancelTask_def)
  have tasks: "shortTasks (foldl ?f w ds) =
      filter (\<lambda>x. \<forall>d \<in> set ds. rt_name x \<noteq> short_task_name (pt_tokenID d) (pt_permissionName d)) (shortTasks w)" for ds
    by (induction ds rule: rev_induct) (auto simp: step intro: filter_cong)
  have "shortTasks (foldl ?f w (shortGrantData w)) = []"
    unfolding tasks using assms by (force simp: short_ok_def timers_ok_def list_all_iff task_for_def timer_key_def filter_empty_conv)
  then show ?thesis by (simp add: ShortOnAppMgrRemoteDiedHandle_def short_ok_def timers_ok_def)
qed

section \<open>Runs of the manager\<close>

text \<open>The steps are the call of the service, the tasks of the event handler and the callbacks of the application manager;
  any other operation leaves the timers alone.\<close>

inductive short_reachable :: "('s, 't, 'r, 'k) atm_env set \<Rightarrow> ('s, 'k) atm \<Rightarrow> bool" for ES where
  start: "shortGrantData w = [] \<Longrightarrow> shortTasks w = [] \<Longrightarrow> short_reachable ES w"
| grant: "short_reachable ES w \<Longrightarrow> E \<in> ES \<Longrightarrow> short_reachable ES (snd (GrantPermissionForSpecifiedTime E t p s w))"
| run_task: "short_reachable ES w \<Longrightarrow> E \<in> ES \<Longrightarrow> x \<in> set (shortTasks w) \<Longrightarrow> short_reachable ES (run_short_task E x w)"
| app_stopped: "short_reachable ES w \<Longrightarrow> E \<in> ES \<Longrightarrow> short_reachable ES (ShortOnAppStopped E t state w)"
| app_manager_died: "short_reachable ES w \<Longrightarrow> E \<in> ES \<Longrightarrow> short_reachable ES (ShortOnAppMgrRemoteDiedHandle E w)"
| other: "short_reachable ES w \<Longrightarrow> shortGrantData w' = shortGrantData w \<Longrightarrow> shortTasks w' = shortTasks w \<Longrightarrow> short_reachable ES w'"

lemma ShortOnAppStopped_ok: "short_ok w \<Longrightarrow> short_ok (ShortOnAppStopped E t state w)"
  by (simp add: ShortOnAppStopped_def ClearShortPermissionByTokenID_def clear_short_loop_ok short_ok_def [of w])

theorem short_reachable_ok: "short_reachable ES w \<Longrightarrow> short_ok w"
proof (induction rule: short_reachable.induct)
  case (start w)
  then show ?case by (simp add: short_ok_def timers_ok_def)
next
  case (grant w E t p s)
  then show ?case
    using RefreshPermission_ok [OF _ prod.collapse [symmetric]] by (simp add: GrantPermissionForSpecifiedTime_def)
next
  case (other w w')
  then show ?case by (simp add: short_ok_def)
qed (simp_all add: run_short_task_ok ShortOnAppStopped_ok ShortOnAppMgrRemoteDiedHandle_ok)

lemma filter_unique: "distinct (map f xs) \<Longrightarrow> x \<in> set xs \<Longrightarrow> filter (\<lambda>y. f y = f x) xs = [x]"
proof (induction xs)
  case (Cons a xs)
  have "filter (\<lambda>y. f y = f a) xs = []" if "f a \<notin> f ` set xs"
    using that by (auto simp: filter_empty_conv) (metis imageI)
  then show ?case using Cons by auto
qed simp

lemma the_task:
  assumes ok: "timers_ok ds xs" and p: "IsShortGrantPermission p" and x: "x \<in> set xs" "rt_name x = short_task_name t p"
  shows "filter (\<lambda>x. rt_name x = short_task_name t p) xs = [x] \<and> rt_tokenID x = t \<and> rt_permissionName x = p"
proof -
  have inv: "list_all record_bounded ds" "distinct (map rt_name xs)" "task_for (timer_key ` set ds) x"
    using ok x(1) by (simp_all add: timers_ok_def list_all_iff)
  then have "IsShortGrantPermission (rt_permissionName x)" using key_short [OF inv(1)] by (auto simp: task_for_def)
  moreover have "short_task_name (rt_tokenID x) (rt_permissionName x) = short_task_name t p" using inv(3) x(2) by (simp add: task_for_def)
  ultimately have "rt_tokenID x = t \<and> rt_permissionName x = p" using short_task_name_inject [OF _ p] by blast
  then show ?thesis using filter_unique [OF inv(2) x(1)] x(2) by simp
qed

text \<open>After a success there is one record, and the task it asked for unless the grant already lasts longer.\<close>

lemma RefreshPermission_success:
  assumes ok: "short_ok w" and call: "RefreshPermission E t p s w = (RET_SUCCESS, w')"
  shows "s \<noteq> 0 \<and> s \<le> 300 \<and> (t, p) \<in> timer_key ` set (shortGrantData w') \<and>
    (w' = w \<or> (\<exists>r x d. r \<noteq> 0 \<and> r \<le> s \<and> x \<in> set (shortTasks w') \<and> rt_name x = short_task_name t p \<and>
       rt_delay x = 1000 * uint r \<and> d \<in> set (shortGrantData w') \<and> timer_key d = (t, p) \<and> pt_revokeTimes d = ae_seconds E + r))"
  using call
proof (cases rule: RefreshPermission_cases)
  case fresh
  let ?d = "\<lparr>pt_tokenID = t, pt_permissionName = p, pt_firstGrantTimes = ae_seconds E, pt_revokeTimes = ae_seconds E + s\<rparr>"
  have k: "timer_key ?d = (t, p)" "pt_revokeTimes ?d = ae_seconds E + s" by (simp_all add: timer_key_def)
  show ?thesis
    using fresh delay_bound(1) [OF fresh(2,3)] k
    by (intro conjI disjI2 exI [of _ s] exI [of _ ?d] exI [of _ "\<lparr>rt_name = short_task_name t p, rt_tokenID = t,
        rt_permissionName = p, rt_delay = uint (s * 1000)\<rparr>"]) auto
next
  case (extended d r)
  have d: "d \<in> set (shortGrantData w)" "timer_key d = (t, p)"
    using find_Some_iff2 [OF extended(1)] by (simp_all add: timer_is_key)
  have "find (timer_is t p) (shortGrantData w') = Some (d\<lparr>pt_revokeTimes := ae_seconds E + r\<rparr>)"
    unfolding extended(6) by (subst find_update_first_same) (simp_all add: timer_is_def extended(1))
  then have d': "d\<lparr>pt_revokeTimes := ae_seconds E + r\<rparr> \<in> set (shortGrantData w')" by (auto simp: find_Some_iff)
  have k: "timer_key (d\<lparr>pt_revokeTimes := ae_seconds E + r\<rparr>) = (t, p)" using d(2) by (simp add: timer_key_def)
  have r: "r \<le> 300" "s \<noteq> 0" using extended(2-4) by auto
  show ?thesis
    using extended(2-4,7) delay_bound(1) [OF extended(2) r(1)] r(2) d' k
    by (intro conjI disjI2 exI [of _ r] exI [of _ "d\<lparr>pt_revokeTimes := ae_seconds E + r\<rparr>"]
        exI [of _ "\<lparr>rt_name = short_task_name t p, rt_tokenID = t, rt_permissionName = p, rt_delay = uint (r * 1000)\<rparr>"])
      (auto intro: rev_image_eqI)
next
  case (kept d)
  then show ?thesis using find_Some_iff2 [OF kept(3)] by (force simp: timer_is_key)
qed simp

text \<open>A refresh that fails leaves the record with its new end, but the task that was to end it is gone.\<close>

lemma failed_refresh_unwatched:
  assumes "RefreshPermission E t p s w = (ret, w')" "ret \<noteq> RET_SUCCESS" "timers w' \<noteq> timers w"
  shows "(t, p) \<in> timer_key ` set (shortGrantData w') \<and> short_task_name t p \<notin> rt_name ` set (shortTasks w')"
  using assms(1)
proof (cases rule: RefreshPermission_cases)
  case (extended d r)
  have "map timer_key (shortGrantData w') = map timer_key (shortGrantData w)"
    unfolding extended(6) by (rule map_update_first) (simp add: timer_key_def)
  then have "timer_key ` set (shortGrantData w') = timer_key ` set (shortGrantData w)" by (metis set_map)
  moreover have "(t, p) \<in> timer_key ` set (shortGrantData w)" using find_Some_iff2 [OF extended(1)] by (force simp: timer_is_key)
  ultimately show ?thesis using extended(7) assms(2) by auto
qed (use assms in auto)

end
