(* ===== verification/Temp_Laws.thy ===== *)
theory Temp_Laws
  imports Short_Grant_Laws
begin

text \<open>
  Laws of \<open>TempPermissionObserver\<close>. The central one is an invariant: every recorded permission granted for this time
  either still meets the condition under which it was granted, or a revocation of it is waiting.
\<close>

section \<open>Pending revocations\<close>

lemma hash_not_digit: "CHR ''#'' \<notin> set (to_string (uint (t :: u32)))"
proof -
  have d: "list_all is_digit (to_string (uint t))" using nat_digits_props [of "nat (uint t)"] by (simp add: to_string_def)
  have "\<not> is_digit (CHR ''#'')" by (simp add: is_digit_def)
  then show ?thesis using d by (auto simp: list_all_iff)
qed

lemma temp_task_name_inject:
  "GetTempPermissionTaskName t p = GetTempPermissionTaskName t' p' \<longleftrightarrow> t = t' \<and> p = p'"
proof
  assume "GetTempPermissionTaskName t p = GetTempPermissionTaskName t' p'"
  then have "to_string (uint t) @ CHR ''#'' # p = to_string (uint t') @ CHR ''#'' # p'"
    by (simp add: GetTempPermissionTaskName_def)
  then have "(to_string (uint t), Some p) = (to_string (uint t'), Some p')"
    using next_item_join [OF hash_not_digit] by metis
  then show "t = t' \<and> p = p'" by (auto simp: to_string_inject intro: unsigned_word_eqI)
qed simp

definition pending :: "revoke_task list \<Rightarrow> (token_id \<times> string) set" where
  "pending xs = (\<lambda>x. (rt_tokenID x, rt_permissionName x)) `
     {x \<in> set xs. rt_name x = GetTempPermissionTaskName (rt_tokenID x) (rt_permissionName x)}"

lemma pending_cancel:
  "pending (tempTasks (CancelTaskOfPermissionRevoking (GetTempPermissionTaskName t p) w)) = pending (tempTasks w) - {(t, p)}"
  unfolding pending_def CancelTaskOfPermissionRevoking_def by (auto simp: temp_task_name_inject)

lemma pending_delay:
  "pending (tempTasks (DelayRevokePermission t p (GetTempPermissionTaskName t p) w)) = insert (t, p) (pending (tempTasks w))"
proof -
  let ?x = "\<lparr>rt_name = GetTempPermissionTaskName t p, rt_tokenID = t, rt_permissionName = p, rt_delay = cancelTimes (tempObserver w)\<rparr>"
  have "{x \<in> set (tempTasks w @ [?x]). rt_name x = GetTempPermissionTaskName (rt_tokenID x) (rt_permissionName x)} =
      insert ?x {x \<in> set (tempTasks w). rt_name x = GetTempPermissionTaskName (rt_tokenID x) (rt_permissionName x)}"
    by auto
  then show ?thesis unfolding pending_def DelayRevokePermission_def by simp
qed

lemma cancel_fold:
  "tempObserver (foldl (\<lambda>w name. CancelTaskOfPermissionRevoking (GetTempPermissionTaskName t name) w) w names) = tempObserver w"
  "pending (tempTasks (foldl (\<lambda>w name. CancelTaskOfPermissionRevoking (GetTempPermissionTaskName t name) w) w names)) =
     pending (tempTasks w) - {t} \<times> set names"
  by (induction names arbitrary: w) (auto simp: pending_cancel, simp_all add: CancelTaskOfPermissionRevoking_def)

lemma delay_fold:
  "tempObserver (foldl (\<lambda>w name. DelayRevokePermission t name (GetTempPermissionTaskName t name) w) w names) = tempObserver w"
  "pending (tempTasks (foldl (\<lambda>w name. DelayRevokePermission t name (GetTempPermissionTaskName t name) w) w names)) =
     pending (tempTasks w) \<union> {t} \<times> set names"
  by (induction names arbitrary: w) (auto simp: pending_delay, simp_all add: DelayRevokePermission_def)

section \<open>What the observer knows of a token\<close>

definition recorded :: "token_id \<Rightarrow> TempPermissionObserver \<Rightarrow> string set" where
  "recorded t ob = (case map_of (tempPermPermissionMap ob) t of None \<Rightarrow> {} | Some names \<Rightarrow> names)"

definition task_types :: "token_id \<Rightarrow> TempPermissionObserver \<Rightarrow> int \<Rightarrow> u32 list option" where
  "task_types t ob = (case map_of (continuousTaskIdMap ob) t of None \<Rightarrow> Map.empty | Some tasks \<Rightarrow> map_of tasks)"

definition has_task :: "bool \<Rightarrow> TempPermissionType \<Rightarrow> (int \<Rightarrow> u32 list option) \<Rightarrow> bool" where
  "has_task mic type m \<longleftrightarrow> (\<exists>i ty. m i = Some ty \<and> IsMatchedTaskType mic type ty)"

definition obs_maps :: "TempPermissionObserver \<Rightarrow> bool" where
  "obs_maps ob \<longleftrightarrow> omap_ok (tempPermTokenMap ob) \<and> omap_ok (tempPermPermissionMap ob) \<and> omap_ok (continuousTaskIdMap ob) \<and>
     (\<forall>e \<in> set (continuousTaskIdMap ob). omap_ok (snd e))"

lemma obs_maps_tasks: "obs_maps ob \<Longrightarrow> map_of (continuousTaskIdMap ob) t = Some m \<Longrightarrow> omap_ok m"
  unfolding obs_maps_def by (metis map_of_SomeD snd_conv)

lemma Find_iff: "obs_maps ob \<Longrightarrow> FindContinuousTask mic t type ob \<longleftrightarrow> has_task mic type (task_types t ob)"
proof (cases "map_of (continuousTaskIdMap ob) t")
  case (Some m)
  assume "obs_maps ob"
  then have "distinct (map fst m)" using obs_maps_tasks [OF _ Some] omap_ok_distinct by blast
  then show ?thesis
    using Some by (force simp: FindContinuousTask_def has_task_def task_types_def list_ex_iff dest: map_of_SomeD)
qed (simp add: FindContinuousTask_def has_task_def task_types_def)

text \<open>The condition for a grant of this time, over what the observer knows. Without the feature, camera and
  microphone are not revoked in the background.\<close>

definition kept :: "bool \<Rightarrow> TempPermissionObserver \<Rightarrow> token_id \<Rightarrow> string \<Rightarrow> bool" where
  "kept mic ob t p \<longleftrightarrow>
     (case map_of (tempPermTokenMap ob) t of
        None \<Rightarrow> False
      | Some (fg, form) \<Rightarrow>
          CheckTempPermissionByType p fg form (has_task mic LOCATION_TYPE (task_types t ob))
            (has_task mic MICROPHONE_TYPE (task_types t ob))) \<or>
     \<not> mic \<and> GetPermissionType p \<in> {CAMERA_TYPE, MICROPHONE_TYPE}"

definition obs_ok :: "bool \<Rightarrow> TempPermissionObserver \<Rightarrow> (token_id \<times> string) set \<Rightarrow> bool" where
  "obs_ok mic ob P \<longleftrightarrow> obs_maps ob \<and>
     (\<forall>t. \<forall>p \<in> recorded t ob. p \<in> set g_tempPermission \<and> map_of (tempPermTokenMap ob) t \<noteq> None \<and>
        (kept mic ob t p \<or> (t, p) \<in> P))"

definition temp_ok :: "bool \<Rightarrow> ('s, 'k) atm \<Rightarrow> bool" where
  "temp_ok mic w \<longleftrightarrow> obs_ok mic (tempObserver w) (pending (tempTasks w))"

lemma temp_ok_view: "observer_view w' = observer_view w \<Longrightarrow> temp_ok mic w' \<longleftrightarrow> temp_ok mic w"
  by (simp add: temp_ok_def observer_view_parts timers_def)

lemma temp_names_set: "temp_ok mic w \<Longrightarrow> set (temp_names t w) = recorded t (tempObserver w)"
proof -
  assume "temp_ok mic w"
  then have "recorded t (tempObserver w) \<subseteq> set g_tempPermission" by (auto simp: temp_ok_def obs_ok_def)
  then have "finite (recorded t (tempObserver w))" using finite_subset by blast
  then show ?thesis by (auto simp: temp_names_def GetTempPermissionNames_def recorded_def split: option.splits)
qed

text \<open>Types of the names that are recorded.\<close>

lemma temp_type: "p \<in> set g_tempPermission \<Longrightarrow> GetPermissionType p \<noteq> INVALID_TYPE"
  by (auto simp: g_tempPermission_def GetPermissionType_def g_permissionTypeMap_def)

text \<open>An event concerns one token: what holds for the others stays.\<close>

definition same_except :: "token_id \<Rightarrow> TempPermissionObserver \<Rightarrow> TempPermissionObserver \<Rightarrow> bool" where
  "same_except t ob ob' \<longleftrightarrow>
     (\<forall>t'. t' \<noteq> t \<longrightarrow> recorded t' ob' = recorded t' ob \<and> map_of (tempPermTokenMap ob') t' = map_of (tempPermTokenMap ob) t' \<and>
        task_types t' ob' = task_types t' ob)"

lemma obs_ok_recorded:
  assumes "obs_ok mic ob P" "p \<in> recorded t ob"
  shows "p \<in> set g_tempPermission" "\<exists>fg form. map_of (tempPermTokenMap ob) t = Some (fg, form)"
    "kept mic ob t p \<or> (t, p) \<in> P"
  using assms by (auto simp: obs_ok_def)

lemma obs_ok_change:
  assumes "obs_ok mic ob P" "obs_maps ob'" "same_except t ob ob'" "\<And>t' p. t' \<noteq> t \<Longrightarrow> (t', p) \<in> P \<Longrightarrow> (t', p) \<in> P'"
    and "\<And>p. p \<in> recorded t ob' \<Longrightarrow> p \<in> set g_tempPermission \<and> map_of (tempPermTokenMap ob') t \<noteq> None \<and>
           (kept mic ob' t p \<or> (t, p) \<in> P')"
  shows "obs_ok mic ob' P'"
  unfolding obs_ok_def
proof (intro conjI allI ballI)
  show "obs_maps ob'" by (rule assms(2))
  fix t' p assume p: "p \<in> recorded t' ob'"
  have "p \<in> set g_tempPermission \<and> map_of (tempPermTokenMap ob') t' \<noteq> None \<and> (kept mic ob' t' p \<or> (t', p) \<in> P')"
  proof (cases "t' = t")
    case False
    then have same: "recorded t' ob' = recorded t' ob" "map_of (tempPermTokenMap ob') t' = map_of (tempPermTokenMap ob) t'"
      "task_types t' ob' = task_types t' ob"
      using assms(3) by (auto simp: same_except_def)
    have "kept mic ob' t' p \<longleftrightarrow> kept mic ob t' p" unfolding kept_def same ..
    then show ?thesis using obs_ok_recorded [OF assms(1), of p t'] assms(4) False p same by auto
  qed (use assms(5) p in blast)
  then show "p \<in> set g_tempPermission" "map_of (tempPermTokenMap ob') t' \<noteq> None" "kept mic ob' t' p \<or> (t', p) \<in> P'" by auto
qed

lemma obs_ok_mono: "obs_ok mic ob P \<Longrightarrow> P \<subseteq> P' \<Longrightarrow> obs_ok mic ob P'"
  by (auto simp: obs_ok_def)

section \<open>Operations on the records\<close>

lemma ModifyAppState_props:
  assumes "obs_maps ob" "map_of (tempPermTokenMap ob) t = Some (fg, form)"
  shows "obs_maps (ModifyAppState t i b ob)" "same_except t ob (ModifyAppState t i b ob)"
    and "recorded t (ModifyAppState t i b ob) = recorded t ob" "task_types t (ModifyAppState t i b ob) = task_types t ob"
    and "map_of (tempPermTokenMap (ModifyAppState t i b ob)) t = Some (if i = 0 then (b, form) else (fg, b))"
  using assms
  by (auto simp: ModifyAppState_def obs_maps_def same_except_def recorded_def task_types_def map_of_omap_insert)

lemma kept_iff:
  assumes "map_of (tempPermTokenMap ob) t = Some (fg, form)"
  shows "kept mic ob t p \<longleftrightarrow>
    (case GetPermissionType p of
       CAMERA_TYPE \<Rightarrow> fg \<or> \<not> mic
     | MICROPHONE_TYPE \<Rightarrow> fg \<or> has_task mic MICROPHONE_TYPE (task_types t ob) \<or> \<not> mic
     | SCREEN_CAPTURE_TYPE \<Rightarrow> True
     | PASTEBOARD_TYPE \<Rightarrow> fg \<or> form
     | LOCATION_TYPE \<Rightarrow> fg \<or> form \<or> has_task mic LOCATION_TYPE (task_types t ob)
     | INVALID_TYPE \<Rightarrow> False)"
  using assms by (auto simp: kept_def CheckTempPermissionByType_def split: TempPermissionType.split)

section \<open>Application and form events\<close>

lemma cancel_all:
  assumes "temp_ok mic w"
  shows "tempObserver (CancelDelayedTasks t w) = tempObserver w"
    "pending (tempTasks (CancelDelayedTasks t w)) = pending (tempTasks w) - {t} \<times> recorded t (tempObserver w)"
  unfolding CancelDelayedTasks_def by (simp_all add: cancel_fold temp_names_set [OF assms])

text \<open>The set of recorded permissions of one type.\<close>

definition of_type :: "token_id \<Rightarrow> TempPermissionType \<Rightarrow> TempPermissionObserver \<Rightarrow> (token_id \<times> string) set" where
  "of_type t type ob = {t} \<times> {p \<in> recorded t ob. GetPermissionType p = type}"

text \<open>Names are finite in number whenever the records list known permissions only.\<close>

lemma names_of_type:
  assumes "recorded t (tempObserver w) \<subseteq> set g_tempPermission"
  shows "set (filter (\<lambda>name. GetPermissionType name = type) (temp_names t w)) =
    {p \<in> recorded t (tempObserver w). GetPermissionType p = type}"
proof -
  have "finite (recorded t (tempObserver w))" using assms finite_subset by blast
  then have "set (temp_names t w) = recorded t (tempObserver w)"
    by (auto simp: temp_names_def GetTempPermissionNames_def recorded_def split: option.splits)
  then show ?thesis by auto
qed

lemma cancel_type:
  assumes "recorded t (tempObserver w) \<subseteq> set g_tempPermission"
  shows "tempObserver (CancelDelayedTasksOfType t type w) = tempObserver w"
    "pending (tempTasks (CancelDelayedTasksOfType t type w)) = pending (tempTasks w) - of_type t type (tempObserver w)"
  unfolding CancelDelayedTasksOfType_def of_type_def by (simp_all add: cancel_fold names_of_type [OF assms] del: set_filter)

lemma delay_type:
  assumes "recorded t (tempObserver w) \<subseteq> set g_tempPermission"
  shows "tempObserver (DelayRevokePermissionsByType t type w) = tempObserver w"
    "pending (tempTasks (DelayRevokePermissionsByType t type w)) = pending (tempTasks w) \<union> of_type t type (tempObserver w)"
  unfolding DelayRevokePermissionsByType_def of_type_def by (simp_all add: delay_fold names_of_type [OF assms] del: set_filter)

lemma obs_ok_names: "obs_ok mic ob P \<Longrightarrow> recorded t ob \<subseteq> set g_tempPermission"
  by (auto simp: obs_ok_def)

lemma HandleBackgroundState_effect:
  assumes ok: "obs_maps (tempObserver w)" and names: "recorded t (tempObserver w) \<subseteq> set g_tempPermission"
    and mic: "ae_revokeCameraMic E = mic"
  shows "tempObserver (HandleBackgroundState E t flags w) = tempObserver w"
    and "pending (tempTasks (HandleBackgroundState E t flags w)) = pending (tempTasks w) \<union>
      (if mic then of_type t CAMERA_TYPE (tempObserver w) else {}) \<union>
      (if mic \<and> \<not> has_task mic MICROPHONE_TYPE (task_types t (tempObserver w)) then of_type t MICROPHONE_TYPE (tempObserver w) else {}) \<union>
      (if \<not> snd flags then of_type t PASTEBOARD_TYPE (tempObserver w) else {}) \<union>
      (if \<not> snd flags \<and> \<not> has_task mic LOCATION_TYPE (task_types t (tempObserver w)) then of_type t LOCATION_TYPE (tempObserver w) else {})"
  using assms Find_iff [OF ok]
  by (auto simp: HandleBackgroundState_def Let_def delay_type HasAudioRecordingOrVoipTask_def HasLocationTask_def)

lemma OnAppStateChanged_ok:
  assumes ok: "temp_ok mic w" and mic: "ae_revokeCameraMic E = mic"
  shows "temp_ok mic (OnAppStateChanged E t s w)"
proof (cases "map_of (tempPermTokenMap (tempObserver w)) t")
  case None
  then show ?thesis using ok by (simp add: OnAppStateChanged_def GetAppStateListByTokenID_def)
next
  case (Some flags)
  obtain fg form where flags: "flags = (fg, form)" by (cases flags)
  note o = ok [unfolded temp_ok_def]
  have maps: "obs_maps (tempObserver w)" using o by (simp add: obs_ok_def)
  note tracked = Some [unfolded flags]
  note M = ModifyAppState_props [OF maps tracked, of 0]
  have keep: "obs_ok mic (ModifyAppState t 0 b (tempObserver w)) P'"
    if "\<And>t' p. t' \<noteq> t \<Longrightarrow> (t', p) \<in> pending (tempTasks w) \<Longrightarrow> (t', p) \<in> P'"
      "\<And>p. p \<in> recorded t (tempObserver w) \<Longrightarrow> kept mic (ModifyAppState t 0 b (tempObserver w)) t p \<or> (t, p) \<in> P'" for b P'
    using that M obs_ok_recorded [OF o] by (intro obs_ok_change [OF o, of _ t]) auto
  consider "s = 2" | "s = 4" | "s \<noteq> 2" "s \<noteq> 4" by blast
  then show ?thesis
  proof cases
    case 1
    let ?w = "w\<lparr>tempObserver := ModifyAppState t 0 True (tempObserver w)\<rparr>"
    have k: "kept mic (ModifyAppState t 0 True (tempObserver w)) t p" if "p \<in> recorded t (tempObserver w)" for p
      using kept_iff [OF M(5) [of True, simplified]] temp_type [OF obs_ok_recorded(1) [OF o that]]
      by (auto split: TempPermissionType.split)
    have "temp_ok mic ?w" using keep [of "pending (tempTasks w)" True] k by (simp add: temp_ok_def)
    note c = cancel_all [OF this, of t]
    have "obs_ok mic (ModifyAppState t 0 True (tempObserver w)) (pending (tempTasks (CancelDelayedTasks t ?w)))"
      unfolding c(2) using k by (intro keep) auto
    then show ?thesis
      using 1 Some c(1) by (simp add: temp_ok_def OnAppStateChanged_def GetAppStateListByTokenID_def)
  next
    case 2
    let ?ob = "ModifyAppState t 0 False (tempObserver w)"
    let ?w = "w\<lparr>tempObserver := ?ob\<rparr>"
    have names: "recorded t (tempObserver ?w) \<subseteq> set g_tempPermission" using obs_ok_names [OF o] M(3) by simp
    have maps': "obs_maps (tempObserver ?w)" using M(1) by simp
    note e = HandleBackgroundState_effect [OF maps' names mic, of flags]
    have "kept mic ?ob t p \<or> (t, p) \<in> pending (tempTasks (HandleBackgroundState E t flags ?w))"
      if p: "p \<in> recorded t (tempObserver w)" for p
      using kept_iff [OF M(5) [of False, simplified], of mic p] temp_type [OF obs_ok_recorded(1) [OF o p]] p M(3,4)
      unfolding e(2) of_type_def by (cases "GetPermissionType p") (auto simp: flags)
    then have "obs_ok mic ?ob (pending (tempTasks (HandleBackgroundState E t flags ?w)))"
      by (intro keep) (auto simp: e(2))
    then show ?thesis
      using 2 Some e(1) by (simp add: temp_ok_def OnAppStateChanged_def GetAppStateListByTokenID_def)
  next
    case 3
    then show ?thesis using ok Some by (simp add: OnAppStateChanged_def GetAppStateListByTokenID_def)
  qed
qed

lemma HandleFormInvisibleState_effect:
  assumes ok: "obs_maps (tempObserver w)" and names: "recorded t (tempObserver w) \<subseteq> set g_tempPermission"
    and mic: "ae_revokeCameraMic E = mic"
  shows "tempObserver (HandleFormInvisibleState E t flags w) = tempObserver w"
    and "pending (tempTasks (HandleFormInvisibleState E t flags w)) = pending (tempTasks w) \<union>
      (if fst flags then {} else of_type t PASTEBOARD_TYPE (tempObserver w) \<union>
        (if has_task mic LOCATION_TYPE (task_types t (tempObserver w)) then {} else of_type t LOCATION_TYPE (tempObserver w)))"
  using assms Find_iff [OF ok]
  by (auto simp: HandleFormInvisibleState_def Let_def delay_type HasLocationTask_def)

lemma form_event_ok:
  assumes ok: "temp_ok mic w" and mic: "ae_revokeCameraMic E = mic"
  shows "temp_ok mic (form_event E form w)"
proof (cases "GetTokenIDByBundle (fst form) (tempObserver w)")
  case None
  then show ?thesis using ok by (simp add: form_event_def)
next
  case (Some t)
  note holder = this
  show ?thesis
  proof (cases "map_of (tempPermTokenMap (tempObserver w)) t")
    case None
    then show ?thesis using ok holder by (simp add: form_event_def GetAppStateListByTokenID_def)
  next
    case (Some flags)
    obtain fg vis where flags: "flags = (fg, vis)" by (cases flags)
    note o = ok [unfolded temp_ok_def]
    have maps: "obs_maps (tempObserver w)" using o by (simp add: obs_ok_def)
    note tracked = Some [unfolded flags]
    note M = ModifyAppState_props [OF maps tracked, of 1]
    have keep: "obs_ok mic (ModifyAppState t 1 b (tempObserver w)) P'"
      if "\<And>t' p. t' \<noteq> t \<Longrightarrow> (t', p) \<in> pending (tempTasks w) \<Longrightarrow> (t', p) \<in> P'"
        "\<And>p. p \<in> recorded t (tempObserver w) \<Longrightarrow> kept mic (ModifyAppState t 1 b (tempObserver w)) t p \<or> (t, p) \<in> P'" for b P'
      using that M obs_ok_recorded [OF o] by (intro obs_ok_change [OF o, of _ t]) auto
    have names: "recorded t (ModifyAppState t 1 b (tempObserver w)) \<subseteq> set g_tempPermission" for b
      using obs_ok_names [OF o] M(3) by simp
    consider "snd form = 1" | "snd form = 2" | "snd form \<noteq> 1" "snd form \<noteq> 2" by blast
    then show ?thesis
    proof cases
      case 1
      let ?ob = "ModifyAppState t 1 True (tempObserver w)"
      note c = cancel_type [of t "w\<lparr>tempObserver := ?ob\<rparr>" LOCATION_TYPE, simplified, OF names [of True]]
      have "kept mic ?ob t p \<or> (t, p) \<in> pending (tempTasks w) - of_type t LOCATION_TYPE ?ob" if p: "p \<in> recorded t (tempObserver w)" for p
        using obs_ok_recorded(3) [OF o p] kept_iff [OF tracked, of mic p] kept_iff [OF M(5) [of True, simplified], of mic p] M(4)
        by (cases "GetPermissionType p") (auto simp: of_type_def)
      then have "obs_ok mic ?ob (pending (tempTasks w) - of_type t LOCATION_TYPE ?ob)" by (intro keep) (auto simp: of_type_def)
      then show ?thesis
        using 1 Some holder c by (simp add: temp_ok_def form_event_def GetAppStateListByTokenID_def)
    next
      case 2
      let ?ob = "ModifyAppState t 1 False (tempObserver w)"
      have e: "tempObserver (HandleFormInvisibleState E t flags (w\<lparr>tempObserver := ?ob\<rparr>)) = ?ob"
        "pending (tempTasks (HandleFormInvisibleState E t flags (w\<lparr>tempObserver := ?ob\<rparr>))) = pending (tempTasks w) \<union>
          (if fg then {} else of_type t PASTEBOARD_TYPE ?ob \<union>
            (if has_task mic LOCATION_TYPE (task_types t ?ob) then {} else of_type t LOCATION_TYPE ?ob))"
        using HandleFormInvisibleState_effect [of "w\<lparr>tempObserver := ?ob\<rparr>" t E mic flags] M(1) names mic by (simp_all add: flags)
      have "kept mic ?ob t p \<or> (t, p) \<in> pending (tempTasks (HandleFormInvisibleState E t flags (w\<lparr>tempObserver := ?ob\<rparr>)))"
        if p: "p \<in> recorded t (tempObserver w)" for p
        using obs_ok_recorded(3) [OF o p] kept_iff [OF tracked, of mic p] kept_iff [OF M(5) [of False, simplified], of mic p] M(3,4) p
        unfolding e(2) by (cases "GetPermissionType p") (auto simp: of_type_def)
      then have "obs_ok mic ?ob (pending (tempTasks (HandleFormInvisibleState E t flags (w\<lparr>tempObserver := ?ob\<rparr>))))"
        by (intro keep) (auto simp: e(2))
      then show ?thesis
        using 2 Some holder e(1) by (simp add: temp_ok_def form_event_def GetAppStateListByTokenID_def)
    next
      case 3
      then show ?thesis using ok Some holder by (simp add: form_event_def GetAppStateListByTokenID_def)
    qed
  qed
qed

lemma foldl_preserves: "P w \<Longrightarrow> (\<And>w x. P w \<Longrightarrow> P (f w x)) \<Longrightarrow> P (foldl f w xs)"
  by (induction xs arbitrary: w) auto

lemma NotifyWhetherFormsVisible_ok:
  "temp_ok mic w \<Longrightarrow> ae_revokeCameraMic E = mic \<Longrightarrow> temp_ok mic (snd (NotifyWhetherFormsVisible E forms w))"
  unfolding NotifyWhetherFormsVisible_def by (auto intro: foldl_preserves form_event_ok)

end
