(* ===== verification/Temp_Task_Laws.thy ===== *)
theory Temp_Task_Laws
  imports Temp_Laws
begin

text \<open>
  Laws of \<open>TempPermissionObserver\<close>, continued: the continuous tasks of an application, which keep its location and
  microphone permissions in the background.
\<close>

section \<open>Continuous tasks\<close>

lemma Upsert_props:
  assumes "obs_maps ob"
  shows "obs_maps (UpsertContinuousTask t i ty ob)" "same_except t ob (UpsertContinuousTask t i ty ob)"
    and "recorded t (UpsertContinuousTask t i ty ob) = recorded t ob"
    and "task_types t (UpsertContinuousTask t i ty ob) = (task_types t ob)(i \<mapsto> ty)"
    and "tempPermTokenMap (UpsertContinuousTask t i ty ob) = tempPermTokenMap ob"
    and "tempPermPermissionMap (UpsertContinuousTask t i ty ob) = tempPermPermissionMap ob"
proof -
  let ?m = "case map_of (continuousTaskIdMap ob) t of None \<Rightarrow> [] | Some m \<Rightarrow> m"
  have m: "omap_ok ?m" using obs_maps_tasks [OF assms, of t] by (auto split: option.split)
  have c: "omap_ok (continuousTaskIdMap ob)" using assms by (simp add: obs_maps_def)
  note s = set_omap_insert [of t _ "continuousTaskIdMap ob"]
  show "obs_maps (UpsertContinuousTask t i ty ob)"
    using assms s omap_ok_insert [OF m] by (auto simp: obs_maps_def UpsertContinuousTask_def Let_def dest!: subsetD [OF s])
  show "task_types t (UpsertContinuousTask t i ty ob) = (task_types t ob)(i \<mapsto> ty)"
    using c m by (auto simp: UpsertContinuousTask_def Let_def task_types_def map_of_omap_insert split: option.split)
  show "same_except t ob (UpsertContinuousTask t i ty ob)" "recorded t (UpsertContinuousTask t i ty ob) = recorded t ob"
    "tempPermTokenMap (UpsertContinuousTask t i ty ob) = tempPermTokenMap ob"
    "tempPermPermissionMap (UpsertContinuousTask t i ty ob) = tempPermPermissionMap ob"
    using c by (auto simp: UpsertContinuousTask_def Let_def same_except_def recorded_def task_types_def map_of_omap_insert)
qed

lemma Remove_props:
  assumes "obs_maps ob"
  shows "obs_maps (RemoveContinuousTask t i ob)" "same_except t ob (RemoveContinuousTask t i ob)"
    and "recorded t (RemoveContinuousTask t i ob) = recorded t ob"
    and "task_types t (RemoveContinuousTask t i ob) = (task_types t ob)(i := None)"
    and "tempPermTokenMap (RemoveContinuousTask t i ob) = tempPermTokenMap ob"
proof -
  have c: "omap_ok (continuousTaskIdMap ob)" using assms by (simp add: obs_maps_def)
  note s = set_omap_insert [of t _ "continuousTaskIdMap ob"]
  have m: "omap_ok (omap_erase i x)" if "map_of (continuousTaskIdMap ob) t = Some x" for x
    using obs_maps_tasks [OF assms that] by blast
  show "obs_maps (RemoveContinuousTask t i ob)"
    using assms m s by (auto simp: obs_maps_def RemoveContinuousTask_def Let_def omap_erase_def split: option.split dest!: subsetD [OF s])
  show "task_types t (RemoveContinuousTask t i ob) = (task_types t ob)(i := None)"
  proof (cases "map_of (continuousTaskIdMap ob) t")
    case (Some x)
    have e: "map_of (omap_erase i x) = (map_of x)(i := None)" by (auto simp: map_of_omap_erase)
    then have "Map.empty = (map_of x)(i := None)" if "omap_erase i x = []" using that by simp
    then show ?thesis
      using Some c e by (auto simp: RemoveContinuousTask_def Let_def task_types_def map_of_omap_insert map_of_omap_erase)
  qed (simp add: RemoveContinuousTask_def task_types_def fun_upd_idem)
  show "same_except t ob (RemoveContinuousTask t i ob)" "recorded t (RemoveContinuousTask t i ob) = recorded t ob"
    "tempPermTokenMap (RemoveContinuousTask t i ob) = tempPermTokenMap ob"
    using c by (auto simp: RemoveContinuousTask_def Let_def same_except_def recorded_def task_types_def map_of_omap_insert
        map_of_omap_erase split: option.split)
qed

text \<open>What a change of the tasks has to do about one permission type: a task of the type is there, the application state
  allows the permission, all its revocations wait, or nothing was lost.\<close>

definition settled ::
    "bool \<Rightarrow> TempPermissionObserver \<Rightarrow> (token_id \<times> string) set \<Rightarrow> TempPermissionObserver \<Rightarrow> (token_id \<times> string) set \<Rightarrow>
      token_id \<Rightarrow> bool \<times> bool \<Rightarrow> TempPermissionType \<Rightarrow> bool" where
  "settled mic ob P ob' P' t flags type \<longleftrightarrow>
     has_task mic type (task_types t ob') \<or> fst flags \<or> type = LOCATION_TYPE \<and> snd flags \<or> of_type t type ob \<subseteq> P' \<or>
     (has_task mic type (task_types t ob) \<longrightarrow> has_task mic type (task_types t ob')) \<and> of_type t type ob \<inter> P \<subseteq> P'"

definition task_change :: "token_id \<Rightarrow> TempPermissionObserver \<Rightarrow> TempPermissionObserver \<Rightarrow> bool" where
  "task_change t ob ob' \<longleftrightarrow> obs_maps ob' \<and> same_except t ob ob' \<and> recorded t ob' = recorded t ob \<and>
     tempPermTokenMap ob' = tempPermTokenMap ob"

lemma task_change_ok:
  assumes o: "obs_ok mic ob P" and c: "task_change t ob ob'" and flags: "map_of (tempPermTokenMap ob) t = Some flags"
    and rest: "P - of_type t LOCATION_TYPE ob - of_type t MICROPHONE_TYPE ob \<subseteq> P'"
    and loc: "settled mic ob P ob' P' t flags LOCATION_TYPE" and aud: "mic \<Longrightarrow> settled mic ob P ob' P' t flags MICROPHONE_TYPE"
  shows "obs_ok mic ob' P'"
proof (rule obs_ok_change [OF o])
  show "obs_maps ob'" "same_except t ob ob'" using c by (simp_all add: task_change_def)
  show "(t', p) \<in> P'" if "t' \<noteq> t" "(t', p) \<in> P" for t' p using rest that by (auto simp: of_type_def)
  fix p assume "p \<in> recorded t ob'"
  then have p: "p \<in> recorded t ob" using c by (simp add: task_change_def)
  obtain fg form where f: "flags = (fg, form)" by (cases flags)
  have m: "map_of (tempPermTokenMap ob') t = Some (fg, form)" using flags c f by (simp add: task_change_def)
  note o' = obs_ok_recorded [OF o p]
  have member: "(t, p) \<in> of_type t type ob \<longleftrightarrow> GetPermissionType p = type" for type using p by (simp add: of_type_def)
  have other: "(t, p) \<in> P \<Longrightarrow> GetPermissionType p \<notin> {LOCATION_TYPE, MICROPHONE_TYPE} \<Longrightarrow> (t, p) \<in> P'"
    using rest member by blast
  have same: "settled mic ob P ob' P' t flags type \<Longrightarrow> GetPermissionType p = type \<Longrightarrow>
      (t, p) \<in> P' \<or> fg \<or> type = LOCATION_TYPE \<and> form \<or> has_task mic type (task_types t ob') \<or>
      (has_task mic type (task_types t ob) \<longrightarrow> has_task mic type (task_types t ob')) \<and> (t, p) \<notin> P" for type
    using member [of type] unfolding settled_def f by auto
  have "kept mic ob' t p \<or> (t, p) \<in> P'"
    using o'(3) unfolding kept_iff [OF flags [unfolded f]] kept_iff [OF m]
    using other same [OF loc] same [OF aud]
    by (cases "GetPermissionType p") auto
  then show "p \<in> set g_tempPermission \<and> map_of (tempPermTokenMap ob') t \<noteq> None \<and> (kept mic ob' t p \<or> (t, p) \<in> P')"
    using o'(1) m by simp
qed

lemma has_task_upd: "IsMatchedTaskType mic type ty \<Longrightarrow> has_task mic type (m(i \<mapsto> ty))"
  by (auto simp: has_task_def)

lemma has_task_mono:
  assumes "\<And>ty. m i = Some ty \<Longrightarrow> \<not> IsMatchedTaskType mic type ty" "has_task mic type m"
  shows "has_task mic type (m(i := x))"
proof -
  obtain j ty where j: "m j = Some ty" "IsMatchedTaskType mic type ty" using assms(2) by (auto simp: has_task_def)
  then have "j \<noteq> i" using assms(1) by blast
  then show ?thesis using j by (auto simp: has_task_def)
qed

lemma HandleContinuousTaskStop_effect:
  assumes ok: "obs_maps (tempObserver w)" and names: "recorded t (tempObserver w) \<subseteq> set g_tempPermission"
    and mic: "ae_revokeCameraMic E = mic" and type: "type \<in> {LOCATION_TYPE, MICROPHONE_TYPE}"
  shows "tempObserver (HandleContinuousTaskStop E t type flags w) = tempObserver w"
    and "pending (tempTasks (HandleContinuousTaskStop E t type flags w)) = pending (tempTasks w) \<union>
      (if has_task mic type (task_types t (tempObserver w)) \<or> fst flags \<or> type = LOCATION_TYPE \<and> snd flags then {}
       else of_type t type (tempObserver w))"
  using assms Find_iff [OF ok] by (auto simp: HandleContinuousTaskStop_def Let_def delay_type)

lemma of_type_disjoint: "type \<noteq> type' \<Longrightarrow> of_type t type ob \<inter> of_type t type' ob = {}"
  by (auto simp: of_type_def)

lemma of_type_recorded: "recorded t ob' = recorded t ob \<Longrightarrow> of_type t type ob' = of_type t type ob"
  by (simp add: of_type_def)

lemma Upsert_change: "obs_maps ob \<Longrightarrow> task_change t ob (UpsertContinuousTask t i ty ob)"
  by (simp add: task_change_def Upsert_props)

text \<open>The three events share one reaction: per type, a matching task cancels the revocations, a lost one settles them.\<close>

definition adjust ::
    "('s, 't, 'r, 'k) atm_env \<Rightarrow> token_id \<Rightarrow> u32 list \<Rightarrow> u32 list \<Rightarrow> bool \<times> bool \<Rightarrow> TempPermissionType \<Rightarrow>
      ('s, 'k) atm \<Rightarrow> ('s, 'k) atm" where
  "adjust E t old new flags type w =
     (let mic = ae_revokeCameraMic E in
      if IsMatchedTaskType mic type new then CancelDelayedTasksOfType t type w
      else if IsMatchedTaskType mic type old then HandleContinuousTaskStop E t type flags w
      else w)"

lemma adjust_effect:
  assumes ok: "obs_maps (tempObserver w)" and names: "recorded t (tempObserver w) \<subseteq> set g_tempPermission"
    and type: "type \<in> {LOCATION_TYPE, MICROPHONE_TYPE}"
  shows "tempObserver (adjust E t old new flags type w) = tempObserver w"
    and "pending (tempTasks (adjust E t old new flags type w)) - of_type t type (tempObserver w) =
      pending (tempTasks w) - of_type t type (tempObserver w)"
    and "\<not> IsMatchedTaskType (ae_revokeCameraMic E) type new \<Longrightarrow>
      pending (tempTasks w) \<subseteq> pending (tempTasks (adjust E t old new flags type w))"
    and "\<not> IsMatchedTaskType (ae_revokeCameraMic E) type new \<Longrightarrow> IsMatchedTaskType (ae_revokeCameraMic E) type old \<Longrightarrow>
      has_task (ae_revokeCameraMic E) type (task_types t (tempObserver w)) \<or> fst flags \<or> type = LOCATION_TYPE \<and> snd flags \<or>
      of_type t type (tempObserver w) \<subseteq> pending (tempTasks (adjust E t old new flags type w))"
  using cancel_type [OF names, of type] HandleContinuousTaskStop_effect [OF ok names refl type, of E flags]
  by (auto simp: adjust_def Let_def)

lemma adjust_settled:
  assumes maps: "obs_maps ob'" and names: "recorded t ob \<subseteq> set g_tempPermission" and same: "recorded t ob' = recorded t ob"
    and type: "type \<in> {LOCATION_TYPE, MICROPHONE_TYPE}" and w: "tempObserver w = ob'"
    and P: "P \<inter> of_type t type ob \<subseteq> pending (tempTasks w)"
    and old: "task_types t ob i = Some old \<or> task_types t ob i = None \<and> old = []"
    and x: "task_types t ob' = (task_types t ob)(i := x)" "x = Some new \<or> x = None \<and> new = []"
  shows "settled (ae_revokeCameraMic E) ob P ob' (pending (tempTasks (adjust E t old new flags type w))) t flags type"
proof -
  note e = adjust_effect [where w = w and t = t and type = type and E = E and old = old and new = new and flags = flags, unfolded w, OF maps names [folded same] type]
  consider "IsMatchedTaskType (ae_revokeCameraMic E) type new"
    | "\<not> IsMatchedTaskType (ae_revokeCameraMic E) type new" "IsMatchedTaskType (ae_revokeCameraMic E) type old"
    | "\<not> IsMatchedTaskType (ae_revokeCameraMic E) type new" "\<not> IsMatchedTaskType (ae_revokeCameraMic E) type old"
    by blast
  then show ?thesis
  proof cases
    case 1
    then have "x = Some new" using x(2) by (auto simp: IsMatchedTaskType_def ContainsTypeId_def HasAudioTaskType_def split: if_split_asm)
    then show ?thesis using 1 by (simp add: settled_def x(1) has_task_upd)
  next
    case 2
    then show ?thesis using e(4) [OF 2] of_type_recorded [OF same, of type] unfolding settled_def by auto
  next
    case 3
    then have "has_task (ae_revokeCameraMic E) type (task_types t ob) \<Longrightarrow> has_task (ae_revokeCameraMic E) type (task_types t ob')"
      unfolding x(1) using old by (intro has_task_mono) auto
    then show ?thesis using e(3) [OF 3(1)] P by (auto simp: settled_def)
  qed
qed

definition adjust_both ::
    "('s, 't, 'r, 'k) atm_env \<Rightarrow> token_id \<Rightarrow> u32 list \<Rightarrow> u32 list \<Rightarrow> bool \<times> bool \<Rightarrow> ('s, 'k) atm \<Rightarrow> ('s, 'k) atm" where
  "adjust_both E t old new flags w = adjust E t old new flags MICROPHONE_TYPE (adjust E t old new flags LOCATION_TYPE w)"

lemma adjust_both_ok:
  assumes ok: "temp_ok mic w" and mic: "ae_revokeCameraMic E = mic" and c: "task_change t (tempObserver w) ob'"
    and flags: "map_of (tempPermTokenMap (tempObserver w)) t = Some flags"
    and old: "task_types t (tempObserver w) i = Some old \<or> task_types t (tempObserver w) i = None \<and> old = []"
    and x: "task_types t ob' = (task_types t (tempObserver w))(i := x)" "x = Some new \<or> x = None \<and> new = []"
  shows "temp_ok mic (adjust_both E t old new flags (w\<lparr>tempObserver := ob'\<rparr>))"
proof -
  note o = ok [unfolded temp_ok_def]
  define w1 where "w1 = w\<lparr>tempObserver := ob'\<rparr>"
  define w2 where "w2 = adjust E t old new flags LOCATION_TYPE w1"
  define w3 where "w3 = adjust E t old new flags MICROPHONE_TYPE w2"
  have maps: "obs_maps ob'" and same: "recorded t ob' = recorded t (tempObserver w)" using c by (simp_all add: task_change_def)
  have names: "recorded t (tempObserver w) \<subseteq> set g_tempPermission" by (rule obs_ok_names [OF o])
  have w1: "tempObserver w1 = ob'" "pending (tempTasks w1) = pending (tempTasks w)" by (simp_all add: w1_def)
  note e2 = adjust_effect [where w = w1 and t = t and type = LOCATION_TYPE and E = E and old = old and new = new and flags = flags,
      folded w2_def, unfolded w1, OF maps names [folded same], simplified]
  note e3 = adjust_effect [where w = w2 and t = t and type = MICROPHONE_TYPE and E = E and old = old and new = new and flags = flags,
      folded w3_def, unfolded e2(1), OF maps names [folded same], simplified]
  note both = of_type_recorded [OF same]
  have disj: "of_type t LOCATION_TYPE (tempObserver w) \<inter> of_type t MICROPHONE_TYPE (tempObserver w) = {}"
    by (simp add: of_type_disjoint)
  have loc: "settled mic (tempObserver w) (pending (tempTasks w)) ob' (pending (tempTasks w2)) t flags LOCATION_TYPE"
    unfolding w2_def mic [symmetric] by (rule adjust_settled [OF maps names same _ _ _ old x]) (auto simp: w1)
  have "settled mic (tempObserver w) (pending (tempTasks w)) ob' (pending (tempTasks w3)) t flags LOCATION_TYPE"
    using loc e3(2) disj unfolding settled_def both by blast
  moreover have "settled mic (tempObserver w) (pending (tempTasks w)) ob' (pending (tempTasks w3)) t flags MICROPHONE_TYPE"
    unfolding w3_def mic [symmetric]
    by (rule adjust_settled [OF maps names same _ _ _ old x]) (use e2 disj in \<open>auto simp: both\<close>)
  moreover have "pending (tempTasks w) - of_type t LOCATION_TYPE (tempObserver w) - of_type t MICROPHONE_TYPE (tempObserver w)
      \<subseteq> pending (tempTasks w3)"
    using e2(2) e3(2) unfolding both by blast
  ultimately have "obs_ok mic ob' (pending (tempTasks w3))" by (intro task_change_ok [OF o c flags])
  then show ?thesis using e3(1) by (simp add: temp_ok_def adjust_both_def w1_def [symmetric] w2_def [symmetric] w3_def [symmetric])
qed

lemma GetContinuousTaskTypeIds_iff: "GetContinuousTaskTypeIds t i ob = task_types t ob i"
  by (simp add: GetContinuousTaskTypeIds_def task_types_def split: option.split)

lemma Remove_change: "obs_maps ob \<Longrightarrow> task_change t ob (RemoveContinuousTask t i ob)"
  by (simp add: task_change_def Remove_props)

lemma matched_simps:
  "IsMatchedTaskType mic LOCATION_TYPE ty \<longleftrightarrow> ContainsTypeId ty MODE_LOCATION"
  "IsMatchedTaskType mic MICROPHONE_TYPE ty \<longleftrightarrow> mic \<and> HasAudioTaskType ty"
  "\<not> ContainsTypeId [] m" "\<not> HasAudioTaskType []"
  by (auto simp: IsMatchedTaskType_def ContainsTypeId_def HasAudioTaskType_def)

lemmas task_event_defs = adjust_both_def adjust_def matched_simps GetAppStateListByTokenID_def GetContinuousTaskTypeIds_iff

lemma obs_maps_of: "temp_ok mic w \<Longrightarrow> obs_maps (tempObserver w)"
  by (simp add: temp_ok_def obs_ok_def)

lemma OnContinuousTaskStart_ok:
  assumes ok: "temp_ok mic w" and mic: "ae_revokeCameraMic E = mic"
    and fresh: "task_types (ucast (ct_fullTokenId info)) (tempObserver w) (ct_taskId info) \<in> {None, Some (ct_typeIds info)}"
  shows "temp_ok mic (OnContinuousTaskStart E info w)"
proof (cases "map_of (tempPermTokenMap (tempObserver w)) (ucast (ct_fullTokenId info))")
  case None
  then show ?thesis using ok by (simp add: OnContinuousTaskStart_def GetAppStateListByTokenID_def Let_def)
next
  case (Some flags)
  define t where "t = (ucast (ct_fullTokenId info) :: u32)"
  define old where "old = (case task_types t (tempObserver w) (ct_taskId info) of None \<Rightarrow> [] | Some ty \<Rightarrow> ty)"
  let ?ob = "UpsertContinuousTask t (ct_taskId info) (ct_typeIds info) (tempObserver w)"
  have "OnContinuousTaskStart E info w \<in> {w, adjust_both E t old (ct_typeIds info) flags (w\<lparr>tempObserver := ?ob\<rparr>)}"
    using Some fresh
    by (auto simp: OnContinuousTaskStart_def Let_def AssociateContinuousTaskIfNeeded_def task_event_defs old_def t_def)
  moreover have "temp_ok mic (adjust_both E t old (ct_typeIds info) flags (w\<lparr>tempObserver := ?ob\<rparr>))"
    using Some obs_maps_of [OF ok]
    by (intro adjust_both_ok [OF ok mic, where i = "ct_taskId info" and x = "Some (ct_typeIds info)"])
      (auto simp: Upsert_change Upsert_props t_def old_def split: option.split)
  ultimately show ?thesis using ok by auto
qed

lemma OnContinuousTaskUpdate_ok:
  assumes ok: "temp_ok mic w" and mic: "ae_revokeCameraMic E = mic"
  shows "temp_ok mic (OnContinuousTaskUpdate E info w)"
proof (cases "map_of (tempPermTokenMap (tempObserver w)) (ucast (ct_fullTokenId info))")
  case None
  then show ?thesis using ok by (simp add: OnContinuousTaskUpdate_def GetAppStateListByTokenID_def Let_def)
next
  case (Some flags)
  define t where "t = (ucast (ct_fullTokenId info) :: u32)"
  define old where "old = (case task_types t (tempObserver w) (ct_taskId info) of None \<Rightarrow> [] | Some ty \<Rightarrow> ty)"
  let ?ob = "UpsertContinuousTask t (ct_taskId info) (ct_typeIds info) (tempObserver w)"
  have "OnContinuousTaskUpdate E info w \<in> {w, adjust_both E t old (ct_typeIds info) flags (w\<lparr>tempObserver := ?ob\<rparr>)}"
    using Some
    by (auto simp: OnContinuousTaskUpdate_def Let_def AssociateContinuousTaskIfNeeded_def task_event_defs old_def t_def)
  moreover have "temp_ok mic (adjust_both E t old (ct_typeIds info) flags (w\<lparr>tempObserver := ?ob\<rparr>))"
    using Some obs_maps_of [OF ok]
    by (intro adjust_both_ok [OF ok mic, where i = "ct_taskId info" and x = "Some (ct_typeIds info)"])
      (auto simp: Upsert_change Upsert_props t_def old_def split: option.split)
  ultimately show ?thesis using ok by auto
qed

lemma OnContinuousTaskStop_ok:
  assumes ok: "temp_ok mic w" and mic: "ae_revokeCameraMic E = mic"
  shows "temp_ok mic (OnContinuousTaskStop E info w)"
proof (cases "map_of (tempPermTokenMap (tempObserver w)) (ucast (ct_fullTokenId info))")
  case None
  then show ?thesis using ok by (simp add: OnContinuousTaskStop_def GetAppStateListByTokenID_def Let_def)
next
  case (Some flags)
  define t where "t = (ucast (ct_fullTokenId info) :: u32)"
  define old where "old = (case task_types t (tempObserver w) (ct_taskId info) of None \<Rightarrow> [] | Some ty \<Rightarrow> ty)"
  let ?ob = "RemoveContinuousTask t (ct_taskId info) (tempObserver w)"
  have "OnContinuousTaskStop E info w = adjust_both E t old [] flags (w\<lparr>tempObserver := ?ob\<rparr>)"
    using Some
    by (auto simp: OnContinuousTaskStop_def Let_def task_event_defs old_def t_def split: option.split)
  then show ?thesis
    using Some obs_maps_of [OF ok]
    by (simp, intro adjust_both_ok [OF ok mic, where i = "ct_taskId info" and x = None])
      (auto simp: Remove_change Remove_props t_def old_def split: option.split)
qed

end
