(* ===== verification/Temp_Reach.thy ===== *)
theory Temp_Reach
  imports Temp_Task_Laws
begin

text \<open>
  Laws of \<open>TempPermissionObserver\<close>, last part: grants for this time, revocations, and the runs of the observer as a
  step relation.
\<close>

section \<open>Grants\<close>

text \<open>The tasks of an observer agree with a list: a known id has the types of the list.\<close>

definition types_agree :: "token_id \<Rightarrow> continuous_task list \<Rightarrow> TempPermissionObserver \<Rightarrow> bool" where
  "types_agree t infos ob \<longleftrightarrow>
     (\<forall>x \<in> set infos. ucast (ct_fullTokenId x) = t \<longrightarrow> task_types t ob (ct_taskId x) \<in> {None, Some (ct_typeIds x)})"

definition ids_distinct :: "continuous_task list \<Rightarrow> bool" where
  "ids_distinct infos \<longleftrightarrow> (\<forall>x \<in> set infos. \<forall>y \<in> set infos. ct_taskId x = ct_taskId y \<longrightarrow> ct_typeIds x = ct_typeIds y)"

text \<open>The observer has heard of the state that the other services report: the flags of a token it follows, and the types of
  the tasks it knows.\<close>

definition agrees :: "('s, 't, 'r, 'k) atm_env \<Rightarrow> token_id \<Rightarrow> TempPermissionObserver \<Rightarrow> bool" where
  "agrees E t ob \<longleftrightarrow>
     (\<forall>flags. map_of (tempPermTokenMap ob) t = Some flags \<longrightarrow> flags = (t \<in> set (ae_foreground E), ae_formVisible E t)) \<and>
     types_agree t (ae_continuousTasks E) ob"

lemma AddTemp_props:
  assumes "obs_maps ob"
  shows "obs_maps (AddTempPermTokenToList t b p flags ob)" "same_except t ob (AddTempPermTokenToList t b p flags ob)"
    and "recorded t (AddTempPermTokenToList t b p flags ob) = insert p (recorded t ob)"
    and "task_types t' (AddTempPermTokenToList t b p flags ob) = task_types t' ob"
    and "map_of (tempPermTokenMap (AddTempPermTokenToList t b p flags ob)) t = Some flags"
  using assms
  by (auto simp: AddTempPermTokenToList_def Let_def obs_maps_def same_except_def recorded_def task_types_def map_of_omap_insert
      split: option.split)

lemma HasTempPermissionType_iff: "HasTempPermissionType t type ob \<longleftrightarrow> (\<exists>p \<in> recorded t ob. GetPermissionType p = type)"
  by (auto simp: HasTempPermissionType_def GetTempPermissionNames_def recorded_def split: option.split)

lemma same_except_trans: "same_except t a b \<Longrightarrow> same_except t b c \<Longrightarrow> same_except t a c"
  by (simp add: same_except_def)

lemma task_change_refl: "obs_maps ob \<Longrightarrow> task_change t ob ob"
  by (simp add: task_change_def same_except_def)

lemma task_change_trans: "task_change t a b \<Longrightarrow> task_change t b c \<Longrightarrow> task_change t a c"
  by (auto simp: task_change_def intro: same_except_trans)

text \<open>The tasks associated with a granted permission: every matching task of the token, with its types.\<close>

definition wanted :: "bool \<Rightarrow> token_id \<Rightarrow> TempPermissionType \<Rightarrow> continuous_task \<Rightarrow> bool" where
  "wanted mic t type info \<longleftrightarrow> ucast (ct_fullTokenId info) = t \<and> IsMatchedTaskType mic type (ct_typeIds info)"

definition associate_one ::
    "bool \<Rightarrow> token_id \<Rightarrow> TempPermissionType \<Rightarrow> TempPermissionObserver \<Rightarrow> continuous_task \<Rightarrow> TempPermissionObserver" where
  "associate_one mic t type ob info =
     (if wanted mic t type info then UpsertContinuousTask t (ct_taskId info) (ct_typeIds info) ob else ob)"

lemma associate_one_change: "obs_maps ob \<Longrightarrow> task_change t ob (associate_one mic t type ob info)"
  by (simp add: associate_one_def Upsert_change task_change_refl)

lemma associate_one_types:
  "obs_maps ob \<Longrightarrow> task_types t (associate_one mic t type ob x) =
     (if wanted mic t type x then (task_types t ob)(ct_taskId x \<mapsto> ct_typeIds x) else task_types t ob)"
  by (simp add: associate_one_def Upsert_props(4))

lemma associate_one_agree:
  assumes "obs_maps ob" "types_agree t infos ob" "ids_distinct infos" "x \<in> set infos"
  shows "types_agree t infos (associate_one mic t type ob x)"
    and "task_types t ob \<subseteq>\<^sub>m task_types t (associate_one mic t type ob x)"
proof -
  show "types_agree t infos (associate_one mic t type ob x)"
    unfolding types_agree_def
  proof (intro ballI impI)
    fix y assume y: "y \<in> set infos" "ucast (ct_fullTokenId y) = t"
    have "ct_typeIds x = ct_typeIds y" if "ct_taskId x = ct_taskId y" 
      by (rule assms(3) [unfolded ids_distinct_def, rule_format, OF assms(4) y(1) that])
    moreover have "task_types t ob (ct_taskId y) \<in> {None, Some (ct_typeIds y)}" 
      by (rule assms(2) [unfolded types_agree_def, rule_format, OF y])
    ultimately show "task_types t (associate_one mic t type ob x) (ct_taskId y) \<in> {None, Some (ct_typeIds y)}"
      unfolding associate_one_types [OF assms(1)] by (cases "ct_taskId x = ct_taskId y") auto
  qed
  have "wanted mic t type x \<Longrightarrow> task_types t ob (ct_taskId x) \<in> {None, Some (ct_typeIds x)}"
    using assms(2) [unfolded types_agree_def, rule_format, OF assms(4)] unfolding wanted_def by simp
  then show "task_types t ob \<subseteq>\<^sub>m task_types t (associate_one mic t type ob x)"
    unfolding associate_one_types [OF assms(1)] map_le_def by (cases "wanted mic t type x") auto
qed

lemma associate_fold:
  fixes mic type
  assumes "obs_maps ob" "types_agree t infos ob" "ids_distinct infos" "set xs \<subseteq> set infos"
  defines "ob' \<equiv> foldl (associate_one mic t type) ob xs"
  shows "task_change t ob ob' \<and> types_agree t infos ob' \<and> task_types t ob \<subseteq>\<^sub>m task_types t ob' \<and>
    (\<forall>x \<in> set xs. wanted mic t type x \<longrightarrow> task_types t ob' (ct_taskId x) = Some (ct_typeIds x))"
  using assms(1,2,4) unfolding ob'_def
proof (induction xs arbitrary: ob)
  case Nil
  then show ?case by (simp add: task_change_refl map_le_def)
next
  case (Cons x xs)
  let ?ob = "associate_one mic t type ob x"
  have c: "task_change t ob ?ob" by (rule associate_one_change [OF Cons.prems(1)])
  then have maps: "obs_maps ?ob" by (simp add: task_change_def)
  have x: "x \<in> set infos" using Cons.prems(3) by simp
  note one = associate_one_agree [OF Cons.prems(1,2) assms(3) x, of mic type]
  note IH = Cons.IH [OF maps one(1)]
  have IH': "task_change t ?ob (foldl (associate_one mic t type) ?ob xs)" "types_agree t infos (foldl (associate_one mic t type) ?ob xs)"
    "task_types t ?ob \<subseteq>\<^sub>m task_types t (foldl (associate_one mic t type) ?ob xs)"
    "\<forall>x \<in> set xs. wanted mic t type x \<longrightarrow> task_types t (foldl (associate_one mic t type) ?ob xs) (ct_taskId x) = Some (ct_typeIds x)"
    using IH Cons.prems(3) by simp_all
  have "wanted mic t type x \<Longrightarrow> task_types t (foldl (associate_one mic t type) ?ob xs) (ct_taskId x) = Some (ct_typeIds x)"
    using IH'(3) by (simp add: associate_one_types [OF Cons.prems(1)] map_le_def)
  then show ?case
    using task_change_trans [OF c IH'(1)] IH'(2,4) map_le_trans [OF one(2) IH'(3)] by simp
qed

lemma Associate_fold:
  assumes p: "\<exists>p \<in> recorded t ob. GetPermissionType p = type" and ob: "obs_maps ob" and mic: "ae_revokeCameraMic E = mic"
  shows "AssociateGrantedPermissionTasks E t type ob = foldl (associate_one mic t type) ob (ae_continuousTasks E)"
proof -
  have "foldl (\<lambda>ob info.
       if ucast (ct_fullTokenId info) \<noteq> t then ob
       else if type = LOCATION_TYPE \<and> ContainsTypeId (ct_typeIds info) MODE_LOCATION
       then snd (AssociateContinuousTaskIfNeeded mic t (ct_taskId info) (ct_typeIds info) ob)
       else if mic \<and> type = MICROPHONE_TYPE \<and> HasAudioTaskType (ct_typeIds info)
       then snd (AssociateContinuousTaskIfNeeded mic t (ct_taskId info) (ct_typeIds info) ob)
       else ob) ob xs = foldl (associate_one mic t type) ob xs" if "obs_maps ob" "\<exists>p \<in> recorded t ob. GetPermissionType p = type" for xs
    using that
  proof (induction xs arbitrary: ob)
    case (Cons x xs)
    have c: "task_change t ob (associate_one mic t type ob x)" by (rule associate_one_change [OF Cons.prems(1)])
    have "(if ucast (ct_fullTokenId x) \<noteq> t then ob
       else if type = LOCATION_TYPE \<and> ContainsTypeId (ct_typeIds x) MODE_LOCATION
       then snd (AssociateContinuousTaskIfNeeded mic t (ct_taskId x) (ct_typeIds x) ob)
       else if mic \<and> type = MICROPHONE_TYPE \<and> HasAudioTaskType (ct_typeIds x)
       then snd (AssociateContinuousTaskIfNeeded mic t (ct_taskId x) (ct_typeIds x) ob)
       else ob) = associate_one mic t type ob x"
      using Cons.prems(2)
      by (auto simp: associate_one_def wanted_def IsMatchedTaskType_def AssociateContinuousTaskIfNeeded_def Let_def
          HasTempPermissionType_iff)
    then show ?case using Cons.IH [of "associate_one mic t type ob x"] Cons.prems c by (simp add: task_change_def)
  qed simp
  from this [OF ob p] show ?thesis by (simp only: AssociateGrantedPermissionTasks_def mic)
qed

text \<open>A grant that the observer allows is recorded, and its condition holds.\<close>

lemma CollectContinuousTaskState_wanted:
  "CollectContinuousTaskState E t = (l, a) \<Longrightarrow> ae_revokeCameraMic E = mic \<Longrightarrow>
   l = (\<exists>x \<in> set (ae_continuousTasks E). wanted mic t LOCATION_TYPE x) \<and>
   a = (\<exists>x \<in> set (ae_continuousTasks E). wanted mic t MICROPHONE_TYPE x)"
  by (simp add: CollectContinuousTaskState_def Let_def wanted_def matched_simps list_ex_iff) blast

lemma has_task_le: "has_task mic type m \<Longrightarrow> m \<subseteq>\<^sub>m m' \<Longrightarrow> has_task mic type m'"
proof -
  assume "has_task mic type m" and le: "m \<subseteq>\<^sub>m m'"
  then obtain i ty where i: "m i = Some ty" "IsMatchedTaskType mic type ty" by (auto simp: has_task_def)
  then have "m' i = Some ty" using le by (metis domI map_le_def)
  then show ?thesis using i(2) by (auto simp: has_task_def)
qed

definition calm :: "('s, 't, 'r, 'k) atm_env \<Rightarrow> bool" where
  "calm E \<longleftrightarrow> \<not> IsPrivilegedCalling E \<and> ids_distinct (ae_continuousTasks E)"

definition heard :: "('s, 't, 'r, 'k) atm_env \<Rightarrow> TempPermissionObserver \<Rightarrow> bool" where
  "heard E ob \<longleftrightarrow> (\<forall>t. agrees E t ob)"

lemma heard_change:
  assumes "heard E ob" "same_except t ob ob'" "map_of (tempPermTokenMap ob') t = Some (t \<in> set (ae_foreground E), ae_formVisible E t)"
    "types_agree t (ae_continuousTasks E) ob'"
  shows "heard E ob'"
  unfolding heard_def
proof
  fix t'
  show "agrees E t' ob'"
    using assms by (cases "t' = t") (auto simp: heard_def agrees_def same_except_def types_agree_def)
qed

lemma kept_mono:
  assumes "map_of (tempPermTokenMap ob') t = map_of (tempPermTokenMap ob) t" "task_types t ob \<subseteq>\<^sub>m task_types t ob'" "kept mic ob t p"
  shows "kept mic ob' t p"
  using assms(3) has_task_le [OF _ assms(2)] unfolding kept_def assms(1)
  by (auto simp: CheckTempPermissionByType_def split: option.splits TempPermissionType.splits)

lemma kept_allowed:
  assumes "map_of (tempPermTokenMap ob) t = Some (fg, form)" "CheckTempPermissionByType p fg form l a"
    "GetPermissionType p = LOCATION_TYPE \<Longrightarrow> l \<Longrightarrow> has_task mic LOCATION_TYPE (task_types t ob)"
    "GetPermissionType p = MICROPHONE_TYPE \<Longrightarrow> a \<Longrightarrow> has_task mic MICROPHONE_TYPE (task_types t ob)"
  shows "kept mic ob t p"
  using assms(2-4) unfolding kept_iff [OF assms(1)]
  by (auto simp: CheckTempPermissionByType_def split: TempPermissionType.splits)

lemma wanted_has_task:
  assumes "\<exists>x \<in> set xs. wanted mic t type x" "\<forall>x \<in> set xs. wanted mic t type x \<longrightarrow> task_types t ob (ct_taskId x) = Some (ct_typeIds x)"
  shows "has_task mic type (task_types t ob)"
proof -
  obtain x where x: "x \<in> set xs" "wanted mic t type x" using assms(1) by blast
  then have "task_types t ob (ct_taskId x) = Some (ct_typeIds x)" using assms(2) by blast
  then show ?thesis using x(2) by (auto simp: has_task_def wanted_def)
qed

lemma CheckPermissionState_ok:
  assumes o: "obs_ok mic ob P" and h: "heard E ob" and calm: "calm E" and mic: "ae_revokeCameraMic E = mic"
    and p: "p \<in> set g_tempPermission" and r: "CheckPermissionState E t p b ob = (ok, ob')"
  shows "obs_ok mic ob' P \<and> heard E ob' \<and> (ok \<longrightarrow> p \<in> recorded t ob') \<and> (\<forall>u. recorded u ob \<subseteq> recorded u ob')"
proof (cases ok)
  case False
  then show ?thesis using r o h by (auto simp: CheckPermissionState_def Let_def split: prod.splits if_splits)
next
  case True
  define fg form where "fg = (t \<in> set (ae_foreground E))" and "form = ae_formVisible E t"
  obtain l a where la: "CollectContinuousTaskState E t = (l, a)" by fastforce
  define ob1 where "ob1 = AddTempPermTokenToList t b p (fg, form) ob"
  have maps: "obs_maps ob" using o by (simp add: obs_ok_def)
  note A = AddTemp_props [OF maps, where t = t and b = b and p = p and flags = "(fg, form)", folded ob1_def]
  have cond: "CheckTempPermissionByType p fg form l a" and ob': "ob' = AssociateGrantedPermissionTasks E t (GetPermissionType p) ob1"
    using r True calm la by (auto simp: CheckPermissionState_def Let_def calm_def fg_def form_def ob1_def split: if_splits)
  have agree: "types_agree t (ae_continuousTasks E) ob1" using h A(4) by (simp add: heard_def agrees_def types_agree_def)
  have ob'': "ob' = foldl (associate_one mic t (GetPermissionType p)) ob1 (ae_continuousTasks E)"
    unfolding ob' by (rule Associate_fold [OF _ A(1) mic]) (use A(3) in blast)
  note F = associate_fold [OF A(1) agree calm [unfolded calm_def, THEN conjunct2] subset_refl, of mic "GetPermissionType p", folded ob'']
  have same: "same_except t ob ob'" using F same_except_trans [OF A(2)] by (simp add: task_change_def)
  have m: "map_of (tempPermTokenMap ob') t = Some (fg, form)" and rec: "recorded t ob' = insert p (recorded t ob)" and maps': "obs_maps ob'"
    using F A by (simp_all add: task_change_def)
  have le: "task_types t ob \<subseteq>\<^sub>m task_types t ob'" using F A(4) by simp
  note matched = wanted_has_task [of "ae_continuousTasks E" mic t "GetPermissionType p" ob', OF _ conjunct2 [OF conjunct2 [OF conjunct2 [OF F]]]]
  have new: "kept mic ob' t p"
    using CollectContinuousTaskState_wanted [OF la mic] matched by (intro kept_allowed [OF m cond]) auto
  have old: "kept mic ob' t q \<or> (t, q) \<in> P" if q: "q \<in> recorded t ob" for q
  proof -
    have "map_of (tempPermTokenMap ob) t = Some (fg, form)"
      using obs_ok_recorded(2) [OF o q] h by (auto simp: heard_def agrees_def fg_def form_def)
    then show ?thesis using kept_mono [OF _ le, of mic q] m obs_ok_recorded(3) [OF o q] by auto
  qed
  have "obs_ok mic ob' P"
    by (rule obs_ok_change [OF o maps' same]) (use p m rec new old obs_ok_recorded(1) [OF o] in auto)
  moreover have "heard E ob'" using heard_change [OF h same] m F by (simp add: fg_def form_def)
  moreover have "recorded u ob \<subseteq> recorded u ob'" for u using rec same by (cases "u = t") (auto simp: same_except_def)
  ultimately show ?thesis using rec by simp
qed

text \<open>Both together, over the state of the service. Records only grow while permissions are granted.\<close>

definition followed :: "bool \<Rightarrow> ('s, 't, 'r, 'k) atm_env \<Rightarrow> (token_id \<times> string) set \<Rightarrow> ('s, 'k) atm \<Rightarrow> bool" where
  "followed mic E R w \<longleftrightarrow> temp_ok mic w \<and> heard E (tempObserver w) \<and> (\<forall>t p. (t, p) \<in> R \<longrightarrow> p \<in> recorded t (tempObserver w))"

lemma followed_view: "observer_view w' = observer_view w \<Longrightarrow> followed mic E R w' \<longleftrightarrow> followed mic E R w"
  using temp_ok_view [of w' w mic] by (simp add: followed_def observer_view_parts)

lemma IsAllow_followed:
  assumes "followed mic E R w" "calm E" "ae_revokeCameraMic E = mic" "IsAllowGrantTempPermission E t p w = (ok, w')"
  shows "followed mic E (if ok then insert (t, p) R else R) w'"
proof -
  obtain ret info w1 where g: "GetHapTokenInfo E t w = (ret, info, w1)" using prod_cases3 by blast
  have f: "followed mic E R w1" using assms(1) followed_view [OF GetHapTokenInfo_view [OF g]] by blast
  show ?thesis
  proof (cases "ret = RET_SUCCESS \<and> p \<in> set g_tempPermission")
    case False
    then show ?thesis using assms(4) f g by (auto simp: IsAllowGrantTempPermission_def Let_def split: if_splits)
  next
    case True
    obtain ok' ob where c: "CheckPermissionState E t p (ht_bundleName (the info)) (tempObserver w1) = (ok', ob)" by fastforce
    have w': "ok' = ok" "w' = w1\<lparr>tempObserver := ob\<rparr>" using assms(4) g True c by (auto simp: IsAllowGrantTempPermission_def)
    have "obs_ok mic ob (pending (tempTasks w1)) \<and> heard E ob \<and> (ok \<longrightarrow> p \<in> recorded t ob) \<and>
        (\<forall>u. recorded u (tempObserver w1) \<subseteq> recorded u ob)"
      using CheckPermissionState_ok [OF _ _ assms(2,3) conjunct2 [OF True] c] f unfolding w' followed_def temp_ok_def by blast
    then show ?thesis using f by (auto simp: w' followed_def temp_ok_def)
  qed
qed

lemma UpdateTokenPermissionStateCheck_followed:
  assumes "followed mic E R w" "calm E" "ae_revokeCameraMic E = mic" "UpdateTokenPermissionStateCheck E h t p g f w = (ret, w')"
  shows "followed mic E R w'"
    and "ret = RET_SUCCESS \<Longrightarrow> g \<Longrightarrow> f = PERMISSION_ALLOW_THIS_TIME \<Longrightarrow> followed mic E (insert (t, p) R) w'"
proof -
  have "followed mic E R w' \<and> (ret = RET_SUCCESS \<longrightarrow> g \<longrightarrow> f = PERMISSION_ALLOW_THIS_TIME \<longrightarrow> followed mic E (insert (t, p) R) w')"
  proof (cases "g \<and> f = PERMISSION_ALLOW_THIS_TIME \<and> \<not> hi_isRemote h")
    case False
    then show ?thesis
      using assms(1,4) followed_view [OF UpdateTokenPermissionStateCheck_view [OF assms(4)]]
      by (auto simp: UpdateTokenPermissionStateCheck_def)
  next
    case True
    obtain ok w1 where a: "IsAllowGrantTempPermission E t p w = (ok, w1)" by fastforce
    note f = IsAllow_followed [OF assms(1-3) a]
    have "w' = w1" "ret = RET_SUCCESS \<longrightarrow> ok"
      using assms(4) True a by (auto simp: UpdateTokenPermissionStateCheck_def Let_def split: if_splits)
    then show ?thesis using f by (auto simp: followed_def split: if_splits)
  qed
  then show "followed mic E R w'"
    and "ret = RET_SUCCESS \<Longrightarrow> g \<Longrightarrow> f = PERMISSION_ALLOW_THIS_TIME \<Longrightarrow> followed mic E (insert (t, p) R) w'" by auto
qed

lemma UpdateTokenPermissionState_followed:
  assumes "followed mic E R w" "calm E" "ae_revokeCameraMic E = mic" "UpdateTokenPermissionState E t p g f k w = (ret, w')"
  shows "followed mic E R w'"
    and "ret = RET_SUCCESS \<Longrightarrow> g \<Longrightarrow> f = PERMISSION_ALLOW_THIS_TIME \<Longrightarrow> followed mic E (insert (t, p) R) w'"
proof -
  obtain info w1 where i: "GetHapTokenInfoInner E t w = (info, w1)" by fastforce
  have f1: "followed mic E R w1" using assms(1) followed_view [OF GetHapTokenInfoInner_view [OF i]] by blast
  have "followed mic E R w' \<and> (ret = RET_SUCCESS \<longrightarrow> g \<longrightarrow> f = PERMISSION_ALLOW_THIS_TIME \<longrightarrow> followed mic E (insert (t, p) R) w')"
  proof (cases info)
    case None
    then show ?thesis using assms(4) f1 i by (auto simp: UpdateTokenPermissionState_def)
  next
    case (Some h)
    obtain r2 w2 where c: "UpdateTokenPermissionStateCheck E h t p g f w1 = (r2, w2)" by fastforce
    note f2 = UpdateTokenPermissionStateCheck_followed [OF f1 assms(2,3) c]
    obtain r3 ch h' w3 where u: "update_status E h p g f w2 = (r3, ch, h', w3)" using prod_cases4 by blast
    have v: "observer_view w' = observer_view w2" and r2: "ret = RET_SUCCESS \<Longrightarrow> r2 = RET_SUCCESS"
      using assms(4) i Some c u update_status_view [OF u]
      by (simp_all add: UpdateTokenPermissionState_def Let_def split: if_split_asm) auto
    show ?thesis using f2 r2 unfolding followed_view [OF v] by simp
  qed
  then show "followed mic E R w'"
    and "ret = RET_SUCCESS \<Longrightarrow> g \<Longrightarrow> f = PERMISSION_ALLOW_THIS_TIME \<Longrightarrow> followed mic E (insert (t, p) R) w'" by auto
qed

lemma UpdatePermission_followed:
  assumes "followed mic E R w" "calm E" "ae_revokeCameraMic E = mic" "UpdatePermission E t p g f k w = (ret, w')"
  shows "followed mic E R w' \<and> (ret = RET_SUCCESS \<and> g \<and> f = PERMISSION_ALLOW_THIS_TIME \<longrightarrow> followed mic E (insert (t, p) R) w')"
proof -
  obtain r1 w1 where u: "UpdateTokenPermissionState E t p g f k w = (r1, w1)" by fastforce
  note f1 = UpdateTokenPermissionState_followed [OF assms(1-3) u]
  have fold: "followed mic E S (foldl (\<lambda>w i. snd (UpdateTokenPermissionState E i p g f k w)) w1 xs)" if "followed mic E S w1" for S xs
    by (rule foldl_preserves [where P = "followed mic E S", OF that])
      (rule UpdateTokenPermissionState_followed(1) [OF _ assms(2,3) prod.collapse [symmetric]])
  have w': "w' = (if r1 = RET_SUCCESS then foldl (\<lambda>w i. snd (UpdateTokenPermissionState E i p g f k w)) w1 (GetRelatedSandBoxHapList t w1)
      else w1)" "ret = r1"
    using assms(4) u by (simp_all add: UpdatePermission_def split: if_split_asm)
  show ?thesis using fold [OF f1(1)] fold [OF f1(2)] f1 unfolding w' by (cases "r1 = RET_SUCCESS") (simp_all split del: if_split)
qed

lemma GrantPermission_followed:
  assumes "followed mic E R w" "calm E" "ae_revokeCameraMic E = mic" "GrantPermission E t p f op w = (ret, w')"
  shows "followed mic E R w' \<and> (ret = RET_SUCCESS \<and> f = PERMISSION_ALLOW_THIS_TIME \<longrightarrow> followed mic E (insert (t, p) R) w')"
proof -
  obtain r info w1 where g: "GetHapTokenInfo E t w = (r, info, w1)" using prod_cases3 by blast
  have "followed mic E R w1" using assms(1) followed_view [OF GetHapTokenInfo_view [OF g]] by blast
  note f1 = UpdatePermission_followed [OF this assms(2,3)]
  have "UpdatePermission E t p True f False w1 = (ret, w') \<or> w' \<in> {w, w1} \<and> ret \<noteq> RET_SUCCESS"
    using assms(4) g
    by (auto simp: GrantPermission_def CheckAndUpdatePermissionInner_def CheckAndUpdatePermission_def Let_def split: if_split_asm)
  then show ?thesis using assms(1) \<open>followed mic E R w1\<close> f1 by blast
qed

section \<open>Revocations\<close>

lemma GetPermissionState_view: "GetPermissionState E t w = (states, w') \<Longrightarrow> observer_view w' = observer_view w"
  by (auto simp: GetPermissionState_def Let_def split: prod.splits option.splits if_splits dest!: GetHapTokenInfoInner_view)

lemma set_omap_erase: "e \<in> set (omap_erase k m) \<Longrightarrow> e \<in> set m"
  by (simp add: omap_erase_def)

lemma same_except_erase:
  assumes "obs_maps ob"
  shows "obs_maps (ob\<lparr>continuousTaskIdMap := omap_erase t (continuousTaskIdMap ob)\<rparr>)"
    "same_except t ob (ob\<lparr>continuousTaskIdMap := omap_erase t (continuousTaskIdMap ob)\<rparr>)"
    "recorded u (ob\<lparr>continuousTaskIdMap := omap_erase t (continuousTaskIdMap ob)\<rparr>) = recorded u ob"
  using assms by (auto simp: obs_maps_def same_except_def recorded_def task_types_def map_of_omap_erase dest: set_omap_erase)

lemma RemoveTempPermissionRecord_props:
  assumes "obs_maps ob" "RemoveTempPermissionRecord t p ob = (found, clear, ob')"
  shows "obs_maps ob'" "same_except t ob ob'" "recorded t ob' = recorded t ob - {p}" "task_types t ob' = task_types t ob"
    and "recorded t ob' \<noteq> {} \<Longrightarrow> \<not> clear \<and> map_of (tempPermTokenMap ob') t = map_of (tempPermTokenMap ob) t"
  using assms
  by (auto simp: RemoveTempPermissionRecord_def Let_def obs_maps_def same_except_def recorded_def task_types_def
      map_of_omap_insert map_of_omap_erase split: option.splits if_splits)

text \<open>A revocation that goes through forgets the record and its task; one that fails changes neither.\<close>

lemma remove_record_ok:
  assumes o: "obs_ok mic ob P" and r: "RemoveTempPermissionRecord t p ob = (found, clear, ob')"
    and e: "ob'' = (if clear then ob'\<lparr>continuousTaskIdMap := omap_erase t (continuousTaskIdMap ob')\<rparr> else ob')"
  shows "obs_ok mic ob'' (P - {(t, p)})"
proof -
  have maps: "obs_maps ob" using o by (simp add: obs_ok_def)
  note R = RemoveTempPermissionRecord_props [OF maps r]
  have "obs_maps ob''" "same_except t ob ob''" "recorded t ob'' = recorded t ob'"
    using R(1,2) same_except_erase [OF R(1)] same_except_trans [OF R(2)] by (auto simp: e)
  then show ?thesis
  proof (intro obs_ok_change [OF o])
    fix q assume "q \<in> recorded t ob''"
    then have q: "q \<in> recorded t ob'" using \<open>recorded t ob'' = recorded t ob'\<close> by simp
    then have clear: "\<not> clear" "map_of (tempPermTokenMap ob') t = map_of (tempPermTokenMap ob) t" using R(5) by auto
    have same: "kept mic ob' t q \<longleftrightarrow> kept mic ob t q" unfolding kept_def R(4) clear(2) ..
    have "q \<in> recorded t ob" "q \<noteq> p" using q R(3) by auto
    then show "q \<in> set g_tempPermission \<and> map_of (tempPermTokenMap ob'') t \<noteq> None \<and> (kept mic ob'' t q \<or> (t, q) \<in> P - {(t, p)})"
      using obs_ok_recorded [OF o, of q t] clear same by (auto simp: e)
  qed auto
qed

lemma RevokeTempPermission_cases:
  obtains "observer_view (RevokeTempPermission E t p w) = observer_view w"
  | w2 found clear ob where "observer_view w2 = observer_view w" "RemoveTempPermissionRecord t p (tempObserver w) = (found, clear, ob)"
      "RevokeTempPermission E t p w = CancelTaskOfPermissionRevoking (GetTempPermissionTaskName t p)
         (w2\<lparr>tempObserver := if clear then ob\<lparr>continuousTaskIdMap := omap_erase t (continuousTaskIdMap ob)\<rparr> else ob\<rparr>)"
proof -
  obtain states w1 where g: "GetPermissionState E t w = (states, w1)" by fastforce
  obtain r w2 where u: "UpdatePermission E t p False PERMISSION_ALLOW_THIS_TIME False w1 = (r, w2)" by fastforce
  obtain found clear ob where m: "RemoveTempPermissionRecord t p (tempObserver w2) = (found, clear, ob)" using prod_cases3 by blast
  have v1: "observer_view w1 = observer_view w" by (rule GetPermissionState_view [OF g])
  have v2: "observer_view w2 = observer_view w" using UpdatePermission_view [OF u] v1 by simp
  then have same: "tempObserver w2 = tempObserver w" by (simp add: observer_view_parts)
  have "RevokeTempPermission E t p w \<in> {w1, w2} \<or> RevokeTempPermission E t p w = CancelTaskOfPermissionRevoking (GetTempPermissionTaskName t p)
         (w2\<lparr>tempObserver := if clear then ob\<lparr>continuousTaskIdMap := omap_erase t (continuousTaskIdMap ob)\<rparr> else ob\<rparr>)"
    using g u m by (auto simp: RevokeTempPermission_def Let_def split: option.splits)
  then show thesis using that(1) that(2) [OF v2] v1 v2 m unfolding same by auto
qed

lemma cancel_observer [simp]: "tempObserver (CancelTaskOfPermissionRevoking n w) = tempObserver w"
  by (simp add: CancelTaskOfPermissionRevoking_def)

text \<open>The invariant may be broken for one permission while the task that ran for it is gone.\<close>

lemma RevokeTempPermission_ok:
  assumes o: "obs_ok mic (tempObserver w) (insert (t, p) (pending (tempTasks w)))"
    and gone: "p \<notin> recorded t (tempObserver (RevokeTempPermission E t p w))"
  shows "temp_ok mic (RevokeTempPermission E t p w)"
proof (rule RevokeTempPermission_cases [of E t p w])
  assume v: "observer_view (RevokeTempPermission E t p w) = observer_view w"
  then have same: "tempObserver (RevokeTempPermission E t p w) = tempObserver w" "tempTasks (RevokeTempPermission E t p w) = tempTasks w"
    by (simp_all add: observer_view_parts timers_def)
  have "obs_ok mic (tempObserver w) (pending (tempTasks w))" using o gone unfolding same obs_ok_def by auto
  then show ?thesis unfolding temp_ok_def same .
next
  fix w2 found clear ob
  assume v: "observer_view w2 = observer_view w" and m: "RemoveTempPermissionRecord t p (tempObserver w) = (found, clear, ob)"
    and r: "RevokeTempPermission E t p w = CancelTaskOfPermissionRevoking (GetTempPermissionTaskName t p)
         (w2\<lparr>tempObserver := if clear then ob\<lparr>continuousTaskIdMap := omap_erase t (continuousTaskIdMap ob)\<rparr> else ob\<rparr>)"
  have tasks: "tempTasks w2 = tempTasks w" using v by (simp add: observer_view_parts timers_def)
  have "obs_ok mic (if clear then ob\<lparr>continuousTaskIdMap := omap_erase t (continuousTaskIdMap ob)\<rparr> else ob)
      (insert (t, p) (pending (tempTasks w)) - {(t, p)})"
    by (rule remove_record_ok [OF o m refl])
  moreover have "insert (t, p) (pending (tempTasks w)) - {(t, p)} = pending (tempTasks w) - {(t, p)}" by blast
  ultimately show ?thesis by (simp add: r temp_ok_def pending_cancel tasks)
qed

lemma run_temp_task_ok:
  assumes "temp_ok mic w" "rt_permissionName x \<notin> recorded (rt_tokenID x) (tempObserver (run_temp_task E x w))"
  shows "temp_ok mic (run_temp_task E x w)"
proof -
  have "pending (tempTasks w) \<subseteq> insert (rt_tokenID x, rt_permissionName x) (pending (remove1 x (tempTasks w)))"
  proof
    fix e assume "e \<in> pending (tempTasks w)"
    then obtain y where y: "y \<in> set (tempTasks w)" "rt_name y = GetTempPermissionTaskName (rt_tokenID y) (rt_permissionName y)"
      "e = (rt_tokenID y, rt_permissionName y)" by (auto simp: pending_def)
    then show "e \<in> insert (rt_tokenID x, rt_permissionName x) (pending (remove1 x (tempTasks w)))"
      unfolding pending_def by (cases "y = x") (simp, rule insertI2, rule image_eqI [of _ _ y], simp_all)
  qed
  then have "obs_ok mic (tempObserver w) (insert (rt_tokenID x, rt_permissionName x) (pending (remove1 x (tempTasks w))))"
    using obs_ok_mono assms(1) unfolding temp_ok_def by blast
  then show ?thesis
    using assms(2) unfolding run_temp_task_def by (intro RevokeTempPermission_ok) simp_all
qed

lemma revoke_loop_effect:
  "revoke_loop E t states w = (ok, w') \<Longrightarrow> tempObserver w' = tempObserver w \<and>
     (\<forall>t' p. t' \<noteq> t \<longrightarrow> (t', p) \<in> pending (tempTasks w) \<longrightarrow> (t', p) \<in> pending (tempTasks w'))"
proof (induction E t states w rule: revoke_loop.induct)
  case (2 E t s states w)
  show ?case
  proof (cases "ps_grantFlag s AND PERMISSION_ALLOW_THIS_TIME = 0")
    case True
    then show ?thesis using 2 by simp
  next
    case False
    obtain r w1 where u: "UpdatePermission E t (ps_permissionName s) False PERMISSION_ALLOW_THIS_TIME False w = (r, w1)" by fastforce
    have v: "tempObserver w1 = tempObserver w" "tempTasks w1 = tempTasks w"
      using UpdatePermission_view [OF u] by (simp_all add: observer_view_parts timers_def)
    show ?thesis
    proof (cases "r = RET_SUCCESS")
      case True
      then have "revoke_loop E t states (CancelTaskOfPermissionRevoking (GetTempPermissionTaskName t (ps_permissionName s)) w1) = (ok, w')"
        using 2(3) False u by simp
      from 2(2) [OF False u [symmetric] refl _ this] True show ?thesis by (simp add: v pending_cancel)
    qed (use 2(3) False u v in auto)
  qed
qed simp

lemma RevokeAllTempPermission_ok:
  assumes o: "obs_ok mic (tempObserver w) (pending (tempTasks w) \<union> {t} \<times> S)"
    and gone: "map_of (tempPermTokenMap (tempObserver (RevokeAllTempPermission E t w))) t = None"
  shows "temp_ok mic (RevokeAllTempPermission E t w)"
proof (cases "map_of (tempPermTokenMap (tempObserver w)) t")
  case None
  then have "recorded t (tempObserver w) = {}" using o unfolding obs_ok_def by blast
  then show ?thesis using o None by (auto simp: RevokeAllTempPermission_def GetAppStateListByTokenID_def temp_ok_def obs_ok_def)
next
  case (Some flags)
  obtain states w1 where g: "GetPermissionState E t w = (states, w1)" by fastforce
  have v1: "tempObserver w1 = tempObserver w" "tempTasks w1 = tempTasks w"
    using GetPermissionState_view [OF g] by (simp_all add: observer_view_parts timers_def)
  then obtain ss where s: "states = Some ss"
    using gone Some g by (cases states) (auto simp: RevokeAllTempPermission_def GetAppStateListByTokenID_def)
  obtain ok w2 where l: "revoke_loop E t ss w1 = (ok, w2)" by fastforce
  note v2 = revoke_loop_effect [OF l, unfolded v1]
  have ok: "ok" using gone Some g s l v2 by (auto simp: RevokeAllTempPermission_def GetAppStateListByTokenID_def Let_def split: if_split_asm)
  define ob where "ob = (tempObserver w)\<lparr>continuousTaskIdMap := omap_erase t (continuousTaskIdMap (tempObserver w)),
     tempPermTokenMap := omap_erase t (tempPermTokenMap (tempObserver w)),
     tempPermPermissionMap := omap_erase t (tempPermPermissionMap (tempObserver w))\<rparr>"
  have w': "RevokeAllTempPermission E t w = w2\<lparr>tempObserver := ob\<rparr>"
    using Some g s l v2 ok by (simp add: RevokeAllTempPermission_def GetAppStateListByTokenID_def Let_def ob_def)
  have "obs_maps (tempObserver w)" using o by (simp add: obs_ok_def)
  then have "obs_maps ob" "same_except t (tempObserver w) ob" "recorded t ob = {}"
    by (auto simp: ob_def obs_maps_def same_except_def recorded_def task_types_def map_of_omap_erase dest: set_omap_erase)
  then have "obs_ok mic ob (pending (tempTasks w2))" using v2 by (intro obs_ok_change [OF o, of ob t]) auto
  then show ?thesis by (simp add: w' temp_ok_def)
qed

lemma cancel_all_left:
  assumes "temp_ok mic w"
  shows "obs_ok mic (tempObserver (CancelDelayedTasks t w)) (pending (tempTasks (CancelDelayedTasks t w)) \<union> {t} \<times> recorded t (tempObserver w))"
  using assms unfolding cancel_all [OF assms] temp_ok_def by (rule obs_ok_mono) auto

lemma OnAppStopped_ok:
  assumes "temp_ok mic w" "state = 5 \<Longrightarrow> map_of (tempPermTokenMap (tempObserver (OnAppStopped E t state w))) t = None"
  shows "temp_ok mic (OnAppStopped E t state w)"
  using assms RevokeAllTempPermission_ok [OF cancel_all_left [OF assms(1)], of E t] by (simp add: OnAppStopped_def)

lemma OnAppCacheStateChanged_ok:
  assumes "temp_ok mic w" "map_of (tempPermTokenMap (tempObserver (OnAppCacheStateChanged E t w))) t = None"
  shows "temp_ok mic (OnAppCacheStateChanged E t w)"
  using assms RevokeAllTempPermission_ok [OF cancel_all_left [OF assms(1)], of E t] by (simp add: OnAppCacheStateChanged_def)

lemma OnAppMgrRemoteDiedHandle_ok: "temp_ok mic (OnAppMgrRemoteDiedHandle E w)"
  by (simp add: OnAppMgrRemoteDiedHandle_def Let_def temp_ok_def obs_ok_def obs_maps_def recorded_def)

section \<open>Runs of the observer\<close>

text \<open>
  The steps are the callbacks of the other services, the grants and the tasks of the event handler. A grant is made by a
  caller without the root uid, at a time the observer has heard of what the other services report. A task that starts is
  new or known with its types. The task that runs, and the application that stops, have their revocations go through. Any
  other operation of the service leaves the observer and its tasks alone.
\<close>

inductive temp_reachable :: "bool \<Rightarrow> ('s, 't, 'r, 'k) atm_env set \<Rightarrow> ('s, 'k) atm \<Rightarrow> bool" for mic ES where
  start: "tempPermTokenMap (tempObserver w) = [] \<Longrightarrow> tempPermPermissionMap (tempObserver w) = [] \<Longrightarrow>
    continuousTaskIdMap (tempObserver w) = [] \<Longrightarrow> tempTasks w = [] \<Longrightarrow> temp_reachable mic ES w"
| grant: "temp_reachable mic ES w \<Longrightarrow> E \<in> ES \<Longrightarrow> ae_revokeCameraMic E = mic \<Longrightarrow> calm E \<Longrightarrow> heard E (tempObserver w) \<Longrightarrow>
    temp_reachable mic ES (snd (GrantPermission E t p f op w))"
| revoke: "temp_reachable mic ES w \<Longrightarrow> E \<in> ES \<Longrightarrow> temp_reachable mic ES (snd (RevokePermission E t p f op k w))"
| app_state: "temp_reachable mic ES w \<Longrightarrow> E \<in> ES \<Longrightarrow> ae_revokeCameraMic E = mic \<Longrightarrow>
    temp_reachable mic ES (OnAppStateChanged E t state w)"
| forms: "temp_reachable mic ES w \<Longrightarrow> E \<in> ES \<Longrightarrow> ae_revokeCameraMic E = mic \<Longrightarrow>
    temp_reachable mic ES (snd (NotifyWhetherFormsVisible E instances w))"
| task_start: "temp_reachable mic ES w \<Longrightarrow> E \<in> ES \<Longrightarrow> ae_revokeCameraMic E = mic \<Longrightarrow>
    task_types (ucast (ct_fullTokenId info)) (tempObserver w) (ct_taskId info) \<in> {None, Some (ct_typeIds info)} \<Longrightarrow>
    temp_reachable mic ES (OnContinuousTaskStart E info w)"
| task_update: "temp_reachable mic ES w \<Longrightarrow> E \<in> ES \<Longrightarrow> ae_revokeCameraMic E = mic \<Longrightarrow>
    temp_reachable mic ES (OnContinuousTaskUpdate E info w)"
| task_stop: "temp_reachable mic ES w \<Longrightarrow> E \<in> ES \<Longrightarrow> ae_revokeCameraMic E = mic \<Longrightarrow>
    temp_reachable mic ES (OnContinuousTaskStop E info w)"
| run_task: "temp_reachable mic ES w \<Longrightarrow> E \<in> ES \<Longrightarrow> x \<in> set (tempTasks w) \<Longrightarrow>
    rt_permissionName x \<notin> recorded (rt_tokenID x) (tempObserver (run_temp_task E x w)) \<Longrightarrow>
    temp_reachable mic ES (run_temp_task E x w)"
| app_stopped: "temp_reachable mic ES w \<Longrightarrow> E \<in> ES \<Longrightarrow>
    map_of (tempPermTokenMap (tempObserver (OnAppStopped E t 5 w))) t = None \<Longrightarrow> temp_reachable mic ES (OnAppStopped E t 5 w)"
| app_cached: "temp_reachable mic ES w \<Longrightarrow> E \<in> ES \<Longrightarrow>
    map_of (tempPermTokenMap (tempObserver (OnAppCacheStateChanged E t w))) t = None \<Longrightarrow>
    temp_reachable mic ES (OnAppCacheStateChanged E t w)"
| app_manager_died: "temp_reachable mic ES w \<Longrightarrow> E \<in> ES \<Longrightarrow> temp_reachable mic ES (OnAppMgrRemoteDiedHandle E w)"
| cancel_time: "temp_reachable mic ES w \<Longrightarrow> temp_reachable mic ES (w\<lparr>tempObserver := SetCancelTime n (tempObserver w)\<rparr>)"
| other: "temp_reachable mic ES w \<Longrightarrow> observer_view w' = observer_view w \<Longrightarrow> temp_reachable mic ES w'"

lemma temp_ok_SetCancelTime: "temp_ok mic w \<Longrightarrow> temp_ok mic (w\<lparr>tempObserver := SetCancelTime n (tempObserver w)\<rparr>)"
proof -
  have same: "task_types t (ob\<lparr>cancelTimes := n\<rparr>) = task_types t ob" "tempPermTokenMap (ob\<lparr>cancelTimes := n\<rparr>) = tempPermTokenMap ob"
    for t ob by (simp_all add: task_types_def)
  have "kept mic (ob\<lparr>cancelTimes := n\<rparr>) t p = kept mic ob t p" for t p ob unfolding kept_def same ..
  moreover assume "temp_ok mic w"
  ultimately show ?thesis by (simp add: temp_ok_def SetCancelTime_def obs_ok_def obs_maps_def recorded_def)
qed

lemma temp_ok_grant:
  assumes "temp_ok mic w" "calm E" "heard E (tempObserver w)" "ae_revokeCameraMic E = mic"
  shows "temp_ok mic (snd (GrantPermission E t p f op w))"
proof -
  have "followed mic E {} w" using assms by (simp add: followed_def)
  from GrantPermission_followed [OF this assms(2,4) prod.collapse [symmetric]] show ?thesis by (simp add: followed_def)
qed

theorem temp_reachable_ok: "temp_reachable mic ES w \<Longrightarrow> temp_ok mic w"
proof (induction rule: temp_reachable.induct)
  case (start w)
  then show ?case by (simp add: temp_ok_def obs_ok_def obs_maps_def recorded_def)
next
  case (revoke w E t p f op k)
  then show ?case using temp_ok_view [OF RevokePermission_view [OF prod.collapse [symmetric]]] by blast
next
  case (other w w')
  then show ?case using temp_ok_view by blast
qed (simp_all add: temp_ok_grant OnAppStateChanged_ok NotifyWhetherFormsVisible_ok OnContinuousTaskStart_ok
    OnContinuousTaskUpdate_ok OnContinuousTaskStop_ok run_temp_task_ok OnAppStopped_ok OnAppCacheStateChanged_ok
    OnAppMgrRemoteDiedHandle_ok temp_ok_SetCancelTime)

text \<open>What the invariant says of one permission.\<close>

lemma temp_ok_pending:
  assumes "temp_ok mic w" "p \<in> recorded t (tempObserver w)" "\<not> kept mic (tempObserver w) t p"
  shows "\<exists>x \<in> set (tempTasks w). rt_tokenID x = t \<and> rt_permissionName x = p \<and> rt_name x = GetTempPermissionTaskName t p"
proof -
  have "(t, p) \<in> pending (tempTasks w)" using obs_ok_recorded(3) [OF assms(1) [unfolded temp_ok_def] assms(2)] assms(3) by blast
  then show ?thesis unfolding pending_def by fastforce
qed

end
