(* ===== verification/Service_Laws.thy ===== *)
theory Service_Laws
  imports Sample_World Temp_Reach
begin

text \<open>
  Properties of the running service: grants, short grants and grants for this time, each with a run of the sample state.
\<close>

section \<open>Grant and revoke\<close>



section \<open>Short grants\<close>

text \<open>C9. A short grant is bounded (\<open>GrantPermissionForSpecifiedTime\<close>, \<open>RefreshPermission\<close>, in any state that calls,
  tasks and callbacks of the manager lead to). When the call succeeds, the permission is one of the short-grant
  permissions and the time asked for is at most 300 seconds. There is exactly one record for the token and permission, and
  its end is at most 1800 seconds after the first grant. At most one revocation task waits for it, to run within 300
  seconds. Unless the grant already lasts longer and nothing changes, the record ends at the current time plus some time,
  not zero and not more than asked for, and the task waits exactly that long.\<close>

theorem short_grant_bounded:
  assumes reach: "short_reachable ES w"
    and call: "GrantPermissionForSpecifiedTime E t p s w = (RET_SUCCESS, w')"
  shows "IsShortGrantPermission p \<and> s \<noteq> 0 \<and> s \<le> 300 \<and>
    (\<exists>d. filter (timer_is t p) (shortGrantData w') = [d] \<and> unat (pt_revokeTimes d - pt_firstGrantTimes d) \<le> 1800 \<and>
      (w' = w \<or> (\<exists>r x. r \<noteq> 0 \<and> r \<le> s \<and> pt_revokeTimes d = ae_seconds E + r \<and>
         filter (\<lambda>x. rt_name x = short_task_name t p) (shortTasks w') = [x] \<and>
         rt_tokenID x = t \<and> rt_permissionName x = p \<and> rt_delay x = 1000 * uint r))) \<and>
    length (filter (\<lambda>x. rt_name x = short_task_name t p) (shortTasks w')) \<le> 1 \<and>
    list_all (\<lambda>x. 0 < rt_delay x \<and> rt_delay x \<le> 300000) (shortTasks w')"
proof -
  note call = call [unfolded GrantPermissionForSpecifiedTime_def]
  note ok = short_reachable_ok [OF reach]
  note succ = RefreshPermission_success [OF ok call]
  have inv: "distinct (map timer_key (shortGrantData w'))" "list_all record_bounded (shortGrantData w')"
    "distinct (map rt_name (shortTasks w'))" "list_all (task_for (timer_key ` set (shortGrantData w'))) (shortTasks w')"
    using RefreshPermission_ok [OF ok call] by (simp_all add: short_ok_def timers_ok_def)
  obtain d where d: "d \<in> set (shortGrantData w')" "timer_key d = (t, p)" using succ by force
  have one: "filter (timer_is t p) (shortGrantData w') = [d]"
    using filter_unique [OF inv(1) d(1)] d(2) by (simp add: timer_is_fun)
  have b: "IsShortGrantPermission p" "unat (pt_revokeTimes d - pt_firstGrantTimes d) \<le> 1800"
    using inv(2) d by (auto simp: list_all_iff record_bounded_def timer_key_def)
  note task = the_task [OF RefreshPermission_ok [OF ok call, unfolded short_ok_def] b(1)]
  have le: "length (filter (\<lambda>x. rt_name x = short_task_name t p) (shortTasks w')) \<le> 1"
  proof (cases "\<exists>x \<in> set (shortTasks w'). rt_name x = short_task_name t p")
    case True
    then show ?thesis using task by fastforce
  qed (auto simp: filter_empty_conv)
  have "w' = w \<or> (\<exists>r x. r \<noteq> 0 \<and> r \<le> s \<and> pt_revokeTimes d = ae_seconds E + r \<and>
         filter (\<lambda>x. rt_name x = short_task_name t p) (shortTasks w') = [x] \<and>
         rt_tokenID x = t \<and> rt_permissionName x = p \<and> rt_delay x = 1000 * uint r)"
  proof (cases "w' = w")
    case False
    then obtain r x d' where r: "r \<noteq> 0" "r \<le> s" "x \<in> set (shortTasks w')" "rt_name x = short_task_name t p"
        "rt_delay x = 1000 * uint r" "d' \<in> set (shortGrantData w')" "timer_key d' = (t, p)" "pt_revokeTimes d' = ae_seconds E + r"
      using succ by auto
    have "d' = d" using inv(1) d r(6,7) by (metis distinct_map inj_onD)
    then show ?thesis using r task [OF r(3,4)] by auto
  qed simp
  moreover have "list_all (\<lambda>x. 0 < rt_delay x \<and> rt_delay x \<le> 300000) (shortTasks w')"
    using inv(4) by (auto simp: list_all_iff task_for_def)
  ultimately show ?thesis using succ one b le by blast
qed

theorem short_grant_bounded_witness:
  "\<exists>w' d x. GrantPermissionForSpecifiedTime world_env 0x20000001 ''ohos.permission.SHORT_TERM_WRITE_IMAGEVIDEO'' 120 world = (RET_SUCCESS, w') \<and>
     shortGrantData w' = [d] \<and> unat (pt_revokeTimes d - pt_firstGrantTimes d) \<le> 1800 \<and> shortTasks w' = [x] \<and> rt_delay x \<le> 300000"
proof -
  let ?p = "''ohos.permission.SHORT_TERM_WRITE_IMAGEVIDEO''"
  obtain w1 where g: "GrantPermission world_env 0x20000001 ?p PERMISSION_USER_FIXED False world = (RET_SUCCESS, w1)"
    using world_grants_short by (metis prod.collapse)
  have none: "shortGrantData world = []" "shortTasks world = []" by (simp_all add: world_def)
  have short: "IsShortGrantPermission ?p" by (simp add: IsShortGrantPermission_def)
  obtain w' where call: "GrantPermissionForSpecifiedTime world_env 0x20000001 ?p 120 world = (RET_SUCCESS, w')"
    and data: "length (shortGrantData w') = 1" "length (shortTasks w') = 1"
    using g none short timers_simps [OF GrantPermission_timers [OF g]]
    by (simp add: GrantPermissionForSpecifiedTime_def RefreshPermission_def Let_def ScheduleRevokeTask_def)
  have "short_reachable {world_env} world" using none by (rule short_reachable.start)
  note b = short_grant_bounded [OF this call]
  then obtain d where d: "filter (timer_is 0x20000001 ?p) (shortGrantData w') = [d]" "unat (pt_revokeTimes d - pt_firstGrantTimes d) \<le> 1800"
    by blast
  obtain d' x where one: "shortGrantData w' = [d']" "shortTasks w' = [x]" using data by (auto simp: length_Suc_conv)
  have "d' = d" using d(1) one(1) by (simp split: if_split_asm)
  then show ?thesis using call d(2) one b by auto
qed

section \<open>Grants for this time\<close>



end
