(* ===== verification/Privacy_Types.thy ===== *)
theory Privacy_Types
  imports Validators Generic_Values Text_Codec "HOL-Library.Product_Lexorder"
begin

text \<open>
  The data of the privacy manager (\<^verbatim>\<open>services/privacymanager\<close>): error codes and column names, the table of the
  permissions that are recorded (\<^verbatim>\<open>common/constant.cpp\<close>), the records of finished and of running uses and their
  comparisons (\<^verbatim>\<open>record/permission_record.cpp\<close>), and the operations on the ordered set of running uses
  (\<^verbatim>\<open>record/permission_record_set.cpp\<close>).
\<close>

section \<open>Constants\<close>

abbreviation PRIV_ERR_PARAM_INVALID :: ret where "PRIV_ERR_PARAM_INVALID \<equiv> 13100001"
abbreviation PRIV_ERR_TOKENID_NOT_EXIST :: ret where "PRIV_ERR_TOKENID_NOT_EXIST \<equiv> 13100002"
abbreviation PRIV_ERR_PERMISSION_NOT_EXIST :: ret where "PRIV_ERR_PERMISSION_NOT_EXIST \<equiv> 13100003"
abbreviation PRIV_ERR_CALLBACKS_EXCEED :: ret where "PRIV_ERR_CALLBACKS_EXCEED \<equiv> 13100004"
abbreviation PRIV_ERR_SERVICE_ABNORMAL :: ret where "PRIV_ERR_SERVICE_ABNORMAL \<equiv> 13100006"
abbreviation PRIV_ERR_MALLOC_FAILED :: ret where "PRIV_ERR_MALLOC_FAILED \<equiv> 13100007"
abbreviation PRIV_ERR_OVERSIZE :: ret where "PRIV_ERR_OVERSIZE \<equiv> 13100008"
abbreviation PRIV_ERR_ALREADY_START_USING :: ret where "PRIV_ERR_ALREADY_START_USING \<equiv> 13100014"
abbreviation PRIV_ERR_NOT_START_USING :: ret where "PRIV_ERR_NOT_START_USING \<equiv> 13100015"
abbreviation PRIV_ERR_EDM_POLICY :: ret where "PRIV_ERR_EDM_POLICY \<equiv> 13100018"
abbreviation PRIV_ERR_PRIVACY_POLICY :: ret where "PRIV_ERR_PRIVACY_POLICY \<equiv> 13100019"
abbreviation PRIV_ERR_FIRST_CALLER_NOT_EDM :: ret where "PRIV_ERR_FIRST_CALLER_NOT_EDM \<equiv> 13100021"
abbreviation PRIV_ERR_ADD_DEATH_RECIPIENT :: ret where "PRIV_ERR_ADD_DEATH_RECIPIENT \<equiv> 13100022"
abbreviation PRIV_ERR_TOGGLE_RESTRICTED :: ret where "PRIV_ERR_TOGGLE_RESTRICTED \<equiv> 13100023"
abbreviation PRIV_ERR_PERMISSION_NOT_SUPPORT :: ret where "PRIV_ERR_PERMISSION_NOT_SUPPORT \<equiv> 13100024"
abbreviation PRIV_ERR_DATABASE :: ret where "PRIV_ERR_DATABASE \<equiv> 13100025"
abbreviation PRIV_ERR_REMOTE_CONFLICT :: ret where "PRIV_ERR_REMOTE_CONFLICT \<equiv> 13100026"

abbreviation PERM_INACTIVE :: int where "PERM_INACTIVE \<equiv> 0"
abbreviation PERM_ACTIVE_IN_FOREGROUND :: int where "PERM_ACTIVE_IN_FOREGROUND \<equiv> 1"
abbreviation PERM_ACTIVE_IN_BACKGROUND :: int where "PERM_ACTIVE_IN_BACKGROUND \<equiv> 2"
abbreviation PERM_TEMPORARY_CALL :: int where "PERM_TEMPORARY_CALL \<equiv> 3"
abbreviation PERM_REMOTE_USING :: int where "PERM_REMOTE_USING \<equiv> 4"
abbreviation PERM_ADD :: int where "PERM_ADD \<equiv> 5"
abbreviation PERM_ACTIVE_IN_UNLOCKED :: int where "PERM_ACTIVE_IN_UNLOCKED \<equiv> 1"
abbreviation PERM_ACTIVE_IN_LOCKED :: int where "PERM_ACTIVE_IN_LOCKED \<equiv> 2"

abbreviation NORMAL_TYPE :: int where "NORMAL_TYPE \<equiv> 0"
abbreviation PICKER_TYPE :: int where "PICKER_TYPE \<equiv> 1"
abbreviation SECURITY_COMPONENT_TYPE :: int where "SECURITY_COMPONENT_TYPE \<equiv> 2"

abbreviation OP_INVALID :: int where "OP_INVALID \<equiv> - 1"
abbreviation OP_MICROPHONE :: int where "OP_MICROPHONE \<equiv> 7"
abbreviation OP_CAMERA :: int where "OP_CAMERA \<equiv> 18"
abbreviation OP_DVRCAMERA :: int where "OP_DVRCAMERA \<equiv> 120"

abbreviation PF_USER_ID :: string where "PF_USER_ID \<equiv> ''user_id''"
abbreviation PF_TOKEN_ID :: string where "PF_TOKEN_ID \<equiv> ''token_id''"
abbreviation PF_DEVICE_ID :: string where "PF_DEVICE_ID \<equiv> ''device_id''"
abbreviation PF_DEVICE_NAME :: string where "PF_DEVICE_NAME \<equiv> ''device_name''"
abbreviation PF_OP_CODE :: string where "PF_OP_CODE \<equiv> ''op_code''"
abbreviation PF_STATUS :: string where "PF_STATUS \<equiv> ''status''"
abbreviation PF_TIMESTAMP :: string where "PF_TIMESTAMP \<equiv> ''timestamp''"
abbreviation PF_ACCESS_DURATION :: string where "PF_ACCESS_DURATION \<equiv> ''access_duration''"
abbreviation PF_ACCESS_COUNT :: string where "PF_ACCESS_COUNT \<equiv> ''access_count''"
abbreviation PF_REJECT_COUNT :: string where "PF_REJECT_COUNT \<equiv> ''reject_count''"
abbreviation PF_TIMESTAMP_BEGIN :: string where "PF_TIMESTAMP_BEGIN \<equiv> ''timestamp_begin''"
abbreviation PF_TIMESTAMP_END :: string where "PF_TIMESTAMP_END \<equiv> ''timestamp_end''"
abbreviation PF_LOCKSCREEN_STATUS :: string where "PF_LOCKSCREEN_STATUS \<equiv> ''lockScreenStatus''"
abbreviation PF_PERMISSION_CODE :: string where "PF_PERMISSION_CODE \<equiv> ''permission_code''"
abbreviation PF_USED_TYPE :: string where "PF_USED_TYPE \<equiv> ''used_type''"
abbreviation PF_DISABLE_POLICY :: string where "PF_DISABLE_POLICY \<equiv> ''disable_policy''"
abbreviation PF_ENHANCED_IDENTITY :: string where "PF_ENHANCED_IDENTITY \<equiv> ''enhanced_identity''"
abbreviation PF_SUB_PROFILE_ID :: string where "PF_SUB_PROFILE_ID \<equiv> ''sub_profile_id''"

abbreviation CAMERA_PERMISSION_NAME :: string where "CAMERA_PERMISSION_NAME \<equiv> ''ohos.permission.CAMERA''"
abbreviation CAMERA_BACKGROUND_PERMISSION_NAME :: string
  where "CAMERA_BACKGROUND_PERMISSION_NAME \<equiv> ''ohos.permission.CAMERA_BACKGROUND''"
abbreviation MICROPHONE_PERMISSION_NAME :: string
  where "MICROPHONE_PERMISSION_NAME \<equiv> ''ohos.permission.MICROPHONE''"
abbreviation MICROPHONE_BACKGROUND_PERMISSION_NAME :: string
  where "MICROPHONE_BACKGROUND_PERMISSION_NAME \<equiv> ''ohos.permission.MICROPHONE_BACKGROUND''"

section \<open>Permissions with usage records\<close>

text \<open>The entries of \<open>PERMISSION_OPCODE_MAP\<close> in the order of the \<open>std::map\<close>, which is the order of the names.\<close>

definition PERMISSION_OPCODE_MAP :: "(string \<times> int) list" where
  "PERMISSION_OPCODE_MAP =
    [(''ohos.permission.ACCESS_BLUETOOTH'', 35),
     (''ohos.permission.ACCESS_NEARLINK'', 40),
     (''ohos.permission.ACCESS_USER_FULL_DISK'', 47),
     (''ohos.permission.ACCESS_USER_FULL_DISK_READ'', 112),
     (''ohos.permission.ACCESS_USER_FULL_DISK_WRITE'', 113),
     (''ohos.permission.ACTIVITY_MOTION'', 21),
     (''ohos.permission.AGENT_FILE_ACCESS'', 65),
     (''ohos.permission.AGENT_FILE_ACCESS_READ_AUDIO'', 116),
     (''ohos.permission.AGENT_FILE_ACCESS_READ_IMAGEVIDEO'', 114),
     (''ohos.permission.AGENT_FILE_ACCESS_READ_MEDIA'', 118),
     (''ohos.permission.AGENT_FILE_ACCESS_WRITE_AUDIO'', 117),
     (''ohos.permission.AGENT_FILE_ACCESS_WRITE_IMAGEVIDEO'', 115),
     (''ohos.permission.AGENT_FILE_ACCESS_WRITE_MEDIA'', 119),
     (''ohos.permission.ANSWER_CALL'', 0),
     (''ohos.permission.APPROXIMATELY_LOCATION'', 17),
     (''ohos.permission.APP_TRACKING_CONSENT'', 33),
     (''ohos.permission.CAMERA'', 18),
     (''ohos.permission.CAMERA_BACKGROUND'', 43),
     (''ohos.permission.CAPTURE_SCREEN'', 41),
     (''ohos.permission.CONTROL_DEVICE'', 48),
     (''ohos.permission.CUSTOM_SCREEN_CAPTURE'', 44),
     (''ohos.permission.CUSTOM_SCREEN_RECORDING'', 45),
     (''ohos.permission.DISTRIBUTED_DATASYNC'', 24),
     (''ohos.permission.DVRCAMERA'', 120),
     (''ohos.permission.FLOAT_VIEW'', 49),
     (''ohos.permission.GET_ALL_BUNDLE_INFO'', 68),
     (''ohos.permission.GET_INSTALLED_BUNDLE_LIST'', 34),
     (''ohos.permission.HOOK_KEY_EVENT'', 46),
     (''ohos.permission.LOCATION'', 15),
     (''ohos.permission.LOCATION_IN_BACKGROUND'', 14),
     (''ohos.permission.MANAGE_VOICEMAIL'', 23),
     (''ohos.permission.MEDIA_LOCATION'', 16),
     (''ohos.permission.MICROPHONE'', 7),
     (''ohos.permission.ONSCREEN_AWARENESS'', 66),
     (''ohos.permission.READ_AUDIO'', 26),
     (''ohos.permission.READ_CALENDAR'', 1),
     (''ohos.permission.READ_CALL_LOG'', 5),
     (''ohos.permission.READ_CELL_MESSAGES'', 6),
     (''ohos.permission.READ_CONTACTS'', 12),
     (''ohos.permission.READ_DOCUMENT'', 27),
     (''ohos.permission.READ_HEALTH_DATA'', 22),
     (''ohos.permission.READ_IMAGEVIDEO'', 25),
     (''ohos.permission.READ_MEDIA'', 19),
     (''ohos.permission.READ_MESSAGES'', 11),
     (''ohos.permission.READ_PASTEBOARD'', 36),
     (''ohos.permission.READ_WHOLE_CALENDAR'', 31),
     (''ohos.permission.READ_WRITE_DESKTOP_DIRECTORY'', 39),
     (''ohos.permission.READ_WRITE_DESKTOP_DIRECTORY_MEDIA_READ'', 108),
     (''ohos.permission.READ_WRITE_DESKTOP_DIRECTORY_MEDIA_WRITE'', 109),
     (''ohos.permission.READ_WRITE_DESKTOP_DIRECTORY_OTHER_READ'', 110),
     (''ohos.permission.READ_WRITE_DESKTOP_DIRECTORY_OTHER_WRITE'', 111),
     (''ohos.permission.READ_WRITE_DOCUMENTS_DIRECTORY'', 38),
     (''ohos.permission.READ_WRITE_DOCUMENTS_DIRECTORY_MEDIA_READ'', 104),
     (''ohos.permission.READ_WRITE_DOCUMENTS_DIRECTORY_MEDIA_WRITE'', 105),
     (''ohos.permission.READ_WRITE_DOCUMENTS_DIRECTORY_OTHER_READ'', 106),
     (''ohos.permission.READ_WRITE_DOCUMENTS_DIRECTORY_OTHER_WRITE'', 107),
     (''ohos.permission.READ_WRITE_DOWNLOAD_DIRECTORY'', 37),
     (''ohos.permission.READ_WRITE_DOWNLOAD_DIRECTORY_MEDIA_READ'', 100),
     (''ohos.permission.READ_WRITE_DOWNLOAD_DIRECTORY_MEDIA_WRITE'', 101),
     (''ohos.permission.READ_WRITE_DOWNLOAD_DIRECTORY_OTHER_READ'', 102),
     (''ohos.permission.READ_WRITE_DOWNLOAD_DIRECTORY_OTHER_WRITE'', 103),
     (''ohos.permission.RECEIVE_MMS'', 10),
     (''ohos.permission.RECEIVE_SMS'', 9),
     (''ohos.permission.RECEIVE_WAP_MESSAGES'', 8),
     (''ohos.permission.SEND_MESSAGES'', 3),
     (''ohos.permission.SHORT_TERM_WRITE_IMAGEVIDEO'', 42),
     (''ohos.permission.WRITE_AUDIO'', 29),
     (''ohos.permission.WRITE_CALENDAR'', 2),
     (''ohos.permission.WRITE_CALL_LOG'', 4),
     (''ohos.permission.WRITE_CONTACTS'', 13),
     (''ohos.permission.WRITE_DOCUMENT'', 30),
     (''ohos.permission.WRITE_IMAGEVIDEO'', 28),
     (''ohos.permission.WRITE_MEDIA'', 20),
     (''ohos.permission.WRITE_WHOLE_CALENDAR'', 32),
     (''ohos.permission.cli.BUNDLE_ACTIVE_INFO'', 51),
     (''ohos.permission.cli.CONTROL_LOCATION_SWITCH'', 50),
     (''ohos.permission.cli.GET_BUNDLE_INFO_PRIVILEGED'', 62),
     (''ohos.permission.cli.GET_HOTSPOT'', 56),
     (''ohos.permission.cli.INSTALL_BUNDLE'', 67),
     (''ohos.permission.cli.MANAGE_DISPOSED_APP_STATUS'', 64),
     (''ohos.permission.cli.MANAGE_NFC_SWITCH'', 57),
     (''ohos.permission.cli.MANAGE_WIFI_CONNECT'', 60),
     (''ohos.permission.cli.MANAGE_WIFI_SCAN'', 59),
     (''ohos.permission.cli.MANAGE_WIFI_TOGGLE'', 58),
     (''ohos.permission.cli.REMOVE_BUNDLE_DATA_AND_CACHE_FILES'', 63),
     (''ohos.permission.cli.SET_HOTSPOT'', 55),
     (''ohos.permission.cli.UNINSTALL_BUNDLE'', 61),
     (''ohos.permission.cli.WRITE_ACCESSIBILITY_CONFIG_ACTION'', 54),
     (''ohos.permission.cli.WRITE_ACCESSIBILITY_CONFIG_HEARING'', 53),
     (''ohos.permission.cli.WRITE_ACCESSIBILITY_CONFIG_VISION'', 52)]"

text \<open>The functions of \<open>Constant\<close> that have a namesake in the permission table carry a suffix.\<close>

definition TransferPermissionToOpcode_pr :: "string \<Rightarrow> int option" where
  "TransferPermissionToOpcode_pr permissionName = map_of PERMISSION_OPCODE_MAP permissionName"

definition TransferOpcodeToPermission_pr :: "int \<Rightarrow> string option" where
  "TransferOpcodeToPermission_pr opCode = map_option fst (find (\<lambda>item. snd item = opCode) PERMISSION_OPCODE_MAP)"

definition IsPrivacyPermission :: "string \<Rightarrow> bool" where
  "IsPrivacyPermission permissionName \<longleftrightarrow> map_of PERMISSION_OPCODE_MAP permissionName \<noteq> None"

definition IsCameraPermission :: "string \<Rightarrow> bool" where
  "IsCameraPermission permissionName \<longleftrightarrow>
     permissionName = CAMERA_PERMISSION_NAME \<or> permissionName = ''ohos.permission.DVRCAMERA''"

text \<open>\<open>AccessTokenKit::GetTokenTypeFlag\<close> reads the type bits of the id.\<close>

definition GetTokenTypeFlag :: "token_id \<Rightarrow> ATokenTypeEnum" where
  "GetTokenTypeFlag tokenID =
     (if tokenID = INVALID_TOKENID then TOKEN_INVALID else token_type_of (id_type (of_token_id tokenID)))"

text \<open>\<open>TimeUtil::IsTimeStampsSameMinute\<close>; C++ division rounds towards zero.\<close>

definition IsTimeStampsSameMinute :: "int \<Rightarrow> int \<Rightarrow> bool" where
  "IsTimeStampsSameMinute t1 t2 \<longleftrightarrow> sgn t1 * (\<bar>t1\<bar> div 60000) = sgn t2 * (\<bar>t2\<bar> div 60000)"

section \<open>Records of finished uses\<close>

record PermissionRecord =
  re_tokenId :: token_id
  re_opCode :: int
  re_status :: int
  re_timestamp :: int
  re_accessDuration :: int
  re_type :: int
  re_accessCount :: int
  re_rejectCount :: int
  re_lockScreenStatus :: int
  re_enhancedIdentity :: string

record PermissionRecordCache =
  pc_record :: PermissionRecord
  pc_needUpdateToDb :: bool

definition RecordIntoGenericValues :: "PermissionRecord \<Rightarrow> GenericValues" where
  "RecordIntoGenericValues r =
     PutString PF_ENHANCED_IDENTITY (re_enhancedIdentity r)
       (PutInt PF_LOCKSCREEN_STATUS (re_lockScreenStatus r)
         (PutInt PF_REJECT_COUNT (re_rejectCount r)
           (PutInt PF_ACCESS_COUNT (re_accessCount r)
             (PutInt PF_USED_TYPE (re_type r)
               (PutInt64 PF_ACCESS_DURATION (re_accessDuration r)
                 (PutInt64 PF_TIMESTAMP (re_timestamp r)
                   (PutInt PF_STATUS (re_status r)
                     (PutInt PF_OP_CODE (re_opCode r)
                       (PutInt PF_TOKEN_ID (sint (re_tokenId r)) [])))))))))"

definition TranslationIntoPermissionRecord :: "GenericValues \<Rightarrow> PermissionRecord" where
  "TranslationIntoPermissionRecord values =
     (let lockScreenStatus = GetInt values PF_LOCKSCREEN_STATUS in
      \<lparr>re_tokenId = word_of_int (GetInt values PF_TOKEN_ID), re_opCode = GetInt values PF_OP_CODE,
       re_status = GetInt values PF_STATUS, re_timestamp = GetInt64 values PF_TIMESTAMP,
       re_accessDuration = GetInt64 values PF_ACCESS_DURATION, re_type = GetInt values PF_USED_TYPE,
       re_accessCount = GetInt values PF_ACCESS_COUNT, re_rejectCount = GetInt values PF_REJECT_COUNT,
       re_lockScreenStatus =
         (if lockScreenStatus = DEFAULT_VALUE then PERM_ACTIVE_IN_UNLOCKED else lockScreenStatus),
       re_enhancedIdentity = GetString values PF_ENHANCED_IDENTITY\<rparr>)"

section \<open>Records of running uses\<close>

record ContinuousPermissionRecord =
  cr_tokenId :: token_id
  cr_opCode :: int
  cr_status :: int
  cr_pid :: int
  cr_callerPid :: int
  cr_usedType :: int
  cr_callertokenId :: token_id
  cr_enhancedIdentity :: string

text \<open>A value-initialised record (\<open>{0}\<close> or the default member initialisers).\<close>

definition null_record :: ContinuousPermissionRecord where
  "null_record = \<lparr>cr_tokenId = 0, cr_opCode = 0, cr_status = 0, cr_pid = 0, cr_callerPid = 0, cr_usedType = NORMAL_TYPE,
     cr_callertokenId = 0, cr_enhancedIdentity = []\<rparr>"

definition IsPidValid :: "int \<Rightarrow> bool" where
  "IsPidValid pid \<longleftrightarrow> pid > 0"

text \<open>\<open>operator <\<close>.\<close>

definition record_less :: "ContinuousPermissionRecord \<Rightarrow> ContinuousPermissionRecord \<Rightarrow> bool" where
  "record_less r other =
     (if cr_tokenId r \<noteq> cr_tokenId other then cr_tokenId r < cr_tokenId other
      else if cr_enhancedIdentity r \<noteq> cr_enhancedIdentity other then cr_enhancedIdentity r < cr_enhancedIdentity other
      else if cr_opCode r \<noteq> cr_opCode other then cr_opCode r < cr_opCode other
      else if cr_pid r \<noteq> cr_pid other then cr_pid r < cr_pid other
      else cr_callerPid r < cr_callerPid other)"

definition GetTokenIdAndPermCode :: "ContinuousPermissionRecord \<Rightarrow> u64" where
  "GetTokenIdAndPermCode r =
     push_bit 32 (ucast (cr_tokenId r)) OR (word_of_int (cr_opCode r) AND 0xFFFFFFFF)"

definition GetTokenIdAndPid :: "ContinuousPermissionRecord \<Rightarrow> u64" where
  "GetTokenIdAndPid r =
     (let tmpPid = (if cr_pid r \<le> 0 then 0 else word_of_int (cr_pid r) :: u32) in
      push_bit 32 (ucast tmpPid) OR (ucast (cr_tokenId r) AND 0xFFFFFFFF))"

definition IsEqualPermCode :: "ContinuousPermissionRecord \<Rightarrow> ContinuousPermissionRecord \<Rightarrow> bool" where
  "IsEqualPermCode record r \<longleftrightarrow> cr_opCode record = cr_opCode r"

definition IsEqualCallerPid :: "ContinuousPermissionRecord \<Rightarrow> ContinuousPermissionRecord \<Rightarrow> bool" where
  "IsEqualCallerPid record r \<longleftrightarrow> cr_callerPid record = cr_callerPid r"

definition IsEqualPid :: "ContinuousPermissionRecord \<Rightarrow> ContinuousPermissionRecord \<Rightarrow> bool" where
  "IsEqualPid record r \<longleftrightarrow> \<not> IsPidValid (cr_pid record) \<or> cr_pid record = cr_pid r"

definition IsEqualTokenIdAndPid :: "ContinuousPermissionRecord \<Rightarrow> ContinuousPermissionRecord \<Rightarrow> bool" where
  "IsEqualTokenIdAndPid record r \<longleftrightarrow> cr_tokenId r = cr_tokenId record \<and> IsEqualPid record r"

definition IsEqualBasicRecord :: "ContinuousPermissionRecord \<Rightarrow> ContinuousPermissionRecord \<Rightarrow> bool" where
  "IsEqualBasicRecord record r \<longleftrightarrow>
     IsEqualTokenIdAndPid record r \<and> IsEqualPermCode record r \<and> IsEqualCallerPid record r"

definition IsEqualRecord :: "ContinuousPermissionRecord \<Rightarrow> ContinuousPermissionRecord \<Rightarrow> bool" where
  "IsEqualRecord record r \<longleftrightarrow>
     IsEqualBasicRecord record r \<and> cr_enhancedIdentity r = cr_enhancedIdentity record"

definition IsEqualTokenIdAndIdentity :: "ContinuousPermissionRecord \<Rightarrow> ContinuousPermissionRecord \<Rightarrow> bool" where
  "IsEqualTokenIdAndIdentity record r \<longleftrightarrow>
     cr_tokenId r = cr_tokenId record \<and>
     (cr_enhancedIdentity record = [] \<or> cr_enhancedIdentity r = cr_enhancedIdentity record)"

text \<open>
  A \<open>std::set\<close> of records is the list of its elements in the order of \<open>operator <\<close>. \<open>emplace\<close> keeps the element that is
  already there; \<open>insert(first, last)\<close> emplaces one after the other. In the comparisons above the argument of the method
  comes first and the object second, so that a comparison with a fixed target is a predicate.
\<close>

type_synonym record_set = "ContinuousPermissionRecord list"

fun set_emplace :: "ContinuousPermissionRecord \<Rightarrow> record_set \<Rightarrow> record_set" where
  "set_emplace r [] = [r]"
| "set_emplace r (x # xs) =
     (if record_less r x then r # x # xs else if record_less x r then x # set_emplace r xs else x # xs)"

definition set_of_list :: "ContinuousPermissionRecord list \<Rightarrow> record_set" where
  "set_of_list rs = fold set_emplace rs []"

section \<open>Operations on the set\<close>

definition IsSameInActiveGroup :: "ContinuousPermissionRecord \<Rightarrow> ContinuousPermissionRecord \<Rightarrow> bool" where
  "IsSameInActiveGroup lhs rhs \<longleftrightarrow>
     cr_tokenId lhs = cr_tokenId rhs \<and> cr_opCode lhs = cr_opCode rhs \<and> cr_enhancedIdentity lhs = cr_enhancedIdentity rhs"

definition IsLessInActiveGroup :: "ContinuousPermissionRecord \<Rightarrow> ContinuousPermissionRecord \<Rightarrow> bool" where
  "IsLessInActiveGroup lhs rhs =
     (if cr_tokenId lhs \<noteq> cr_tokenId rhs then cr_tokenId lhs < cr_tokenId rhs
      else if cr_enhancedIdentity lhs \<noteq> cr_enhancedIdentity rhs then cr_enhancedIdentity lhs < cr_enhancedIdentity rhs
      else cr_opCode lhs < cr_opCode rhs)"

text \<open>\<open>RemoveByKey\<close> returns the remaining set and the removed records in order.\<close>

definition RemoveByKey ::
    "record_set \<Rightarrow> (ContinuousPermissionRecord \<Rightarrow> bool) \<Rightarrow> record_set \<times> ContinuousPermissionRecord list" where
  "RemoveByKey recordList isEqual = (filter (\<lambda>r. \<not> isEqual r) recordList, filter isEqual recordList)"

fun unique_removed :: "record_set \<Rightarrow> ContinuousPermissionRecord list \<Rightarrow> record_set" where
  "unique_removed uniqueRemovedList [] = uniqueRemovedList"
| "unique_removed uniqueRemovedList (record # removedList) =
     unique_removed
       (if uniqueRemovedList = [] \<or> \<not> IsSameInActiveGroup (last uniqueRemovedList) record
        then set_emplace record uniqueRemovedList else uniqueRemovedList) removedList"

text \<open>The walk with one iterator on the removed and one on the remaining records; the result is what stays of the former.\<close>

fun inactive_walk :: "record_set \<Rightarrow> record_set \<Rightarrow> record_set" where
  "inactive_walk [] remain = []"
| "inactive_walk removed [] = removed"
| "inactive_walk (r # removed) (m # remain) =
     (if IsLessInActiveGroup r m then r # inactive_walk removed (m # remain)
      else if IsLessInActiveGroup m r then inactive_walk (r # removed) remain
      else if cr_status m \<noteq> PERM_INACTIVE then inactive_walk removed (m # remain)
      else inactive_walk (r # removed) remain)"

definition GetInActiveUniqueRecord :: "record_set \<Rightarrow> record_set \<Rightarrow> record_set" where
  "GetInActiveUniqueRecord recordList removedList = inactive_walk (unique_removed [] removedList) recordList"

fun unique_cameras ::
    "int \<Rightarrow> u64 \<Rightarrow> ContinuousPermissionRecord list \<Rightarrow> ContinuousPermissionRecord list" where
  "unique_cameras filterOpCode lastUniqueKey [] = []"
| "unique_cameras filterOpCode lastUniqueKey (r # rs) =
     (if cr_opCode r \<noteq> filterOpCode \<or> lastUniqueKey = GetTokenIdAndPid r
      then unique_cameras filterOpCode lastUniqueKey rs
      else r # unique_cameras filterOpCode (GetTokenIdAndPid r) rs)"

fun unused_walk :: "ContinuousPermissionRecord list \<Rightarrow> record_set \<Rightarrow> ContinuousPermissionRecord list" where
  "unused_walk [] remain = []"
| "unused_walk removed [] = removed"
| "unused_walk (r # removed) (m # remain) =
     (if GetTokenIdAndPermCode r < GetTokenIdAndPermCode m then r # unused_walk removed (m # remain)
      else if GetTokenIdAndPermCode r = GetTokenIdAndPermCode m then
        (if IsEqualPid m r then unused_walk removed (m # remain)
         else if cr_pid r < cr_pid m then r # unused_walk removed (m # remain)
         else unused_walk (r # removed) remain)
      else unused_walk (r # removed) remain)"

definition GetUnusedCameraRecords ::
    "record_set \<Rightarrow> ContinuousPermissionRecord list \<Rightarrow> int \<Rightarrow> ContinuousPermissionRecord list" where
  "GetUnusedCameraRecords recordList removedList filterOpCode =
     (if removedList = [] then [] else unused_walk (unique_cameras filterOpCode 0 removedList) recordList)"

end
