(* ===== verification/Privacy_Db.thy ===== *)
theory Privacy_Db
  imports Privacy_Types
begin

text \<open>
  The store of the privacy manager: \<open>PermissionUsedRecordDb\<close>
  (\<^verbatim>\<open>services/privacymanager/src/database/permission_used_record_db.cpp\<close>) over \<open>SqliteHelper\<close> and \<open>Statement\<close>
  (\<^verbatim>\<open>services/common/database/src\<close>). SQLite itself is a parameter, \<open>sql_ops\<close>: it executes a command with the values
  bound to its parameters. A command is the structure of the text that the code assembles; \<open>sql_text\<close> is the
  text itself, up to blanks. What the code relies on is stated by the locale \<open>sql_store\<close> through the tables of the database, and
  \<open>mem_sql\<close> is an instance that keeps them in memory.
\<close>

section \<open>Commands and values\<close>

datatype sq_value = SQ_INTEGER int | SQ_TEXT string | SQ_NULL

text \<open>A condition of a \<open>where\<close> clause: a column equal to the parameter of its name, the timestamp at least or at most a
  parameter, a column in a list of numbers, or the operation code one of a list.\<close>

datatype sql_cond =
    Col_eq string
  | Time_ge string
  | Time_le string
  | Col_in string "int list"
  | Op_in "int list"

datatype sql =
    Sql_insert string "string list"
  | Sql_select string "sql_cond list"
  | Sql_latest string "sql_cond list" int
  | Sql_count string
  | Sql_delete string "sql_cond list"
  | Sql_update string "string list" "sql_cond list"
  | Sql_delete_times string "sql_cond list"
  | Sql_delete_tokens string "token_id list"
  | Sql_delete_oldest string u32
  | Sql_create string "(string \<times> string) list" "string list"
  | Sql_add_column string string sq_value
  | Sql_check string string sq_value
  | Sql_copy string string
  | Sql_drop string
  | Sql_rename string string
  | Sql_table_info string

type_synonym sql_binds = "(string \<times> sq_value) list"

type_synonym sql_row = "(string \<times> sq_value) list"

text \<open>The text that the code assembles for a command.\<close>

fun join :: "string \<Rightarrow> string list \<Rightarrow> string" where
  "join sep [] = []"
| "join sep [x] = x"
| "join sep (x # y # xs) = x @ sep @ join sep (y # xs)"

fun cond_text :: "sql_cond \<Rightarrow> string" where
  "cond_text (Col_eq c) = '' and '' @ c @ ''=:'' @ c"
| "cond_text (Time_ge c) = '' and timestamp >=:'' @ c"
| "cond_text (Time_le c) = '' and timestamp <=:'' @ c"
| "cond_text (Col_in c vs) = '' and '' @ c @ '' in ('' @ join '', '' (map to_string vs) @ '')''"
| "cond_text (Op_in vs) = '' and ('' @ concat (map (\<lambda>v. ''op_code = '' @ to_string v @ '' or '') vs) @ ''0)''"

abbreviation where_text :: "sql_cond list \<Rightarrow> string" where
  "where_text conds \<equiv> '' where 1 = 1'' @ concat (map cond_text conds)"

fun value_text :: "sq_value \<Rightarrow> string" where
  "value_text (SQ_INTEGER v) = to_string v"
| "value_text (SQ_TEXT s) = [CHR 0x27] @ s @ [CHR 0x27]"
| "value_text SQ_NULL = ''null''"

fun default_text :: "sq_value \<Rightarrow> string" where
  "default_text (SQ_INTEGER v) = '' integer default '' @ to_string v"
| "default_text v = '' text default '' @ value_text v"

fun sql_text :: "sql \<Rightarrow> string" where
  "sql_text (Sql_insert t cols) = ''insert into '' @ t @ '' values('' @ join '','' (map (\<lambda>c. CHR '':'' # c) cols) @ '')''"
| "sql_text (Sql_select t conds) = ''select * from '' @ t @ where_text conds"
| "sql_text (Sql_latest t conds n) =
     ''select * from '' @ t @ where_text conds @ '' order by timestamp desc limit '' @ to_string n"
| "sql_text (Sql_count t) = ''select count(*) from '' @ t"
| "sql_text (Sql_delete t conds) = ''delete from '' @ t @ where_text conds"
| "sql_text (Sql_update t cols conds) =
     ''update '' @ t @ '' set '' @ join '','' (map (\<lambda>c. c @ ''=:'' @ c) cols) @ (if conds = [] then [] else where_text conds)"
| "sql_text (Sql_delete_times t conds) =
     ''delete from '' @ t @ '' where timestamp in (select timestamp from '' @ t @ where_text conds @ '' )''"
| "sql_text (Sql_delete_tokens t tokens) =
     ''delete from '' @ t @ '' where token_id in ( '' @ join '', '' (map (\<lambda>i. to_string (uint i)) tokens) @ '' )''"
| "sql_text (Sql_delete_oldest t n) =
     ''delete from '' @ t @ '' where timestamp in (select timestamp from '' @ t @ '' order by timestamp limit '' @
       to_string (uint n) @ '' )''"
| "sql_text (Sql_create t cols key) =
     ''create table if not exists '' @ t @ '' ('' @ concat (map (\<lambda>(c, type). c @ type) cols) @ ''primary key('' @
       join '','' key @ ''))''"
| "sql_text (Sql_add_column t c v) = ''alter table '' @ t @ '' add column '' @ c @ default_text v"
| "sql_text (Sql_check t c v) = ''SELECT 1 FROM '' @ t @ '' WHERE '' @ c @ ''='' @ value_text v"
| "sql_text (Sql_copy new t) = ''insert into '' @ new @ '' select * from '' @ t"
| "sql_text (Sql_drop t) = ''drop table '' @ t"
| "sql_text (Sql_rename new t) = ''alter table '' @ new @ '' rename to '' @ t"
| "sql_text (Sql_table_info t) = ''pragma table_info('' @ t @ '')''"

text \<open>
  \<open>sq_step\<close> prepares a command, binds the values and steps once: whether the state is \<open>DONE\<close>. \<open>sq_rows\<close> gives the rows
  up to the first step that does not yield one. \<open>sq_corrupt\<close> is a last error code that tells a corrupt file,
  \<open>sq_integrity\<close> the negated result of the integrity check, \<open>sq_open\<close> opens the file (whether a handle exists after it)
  and \<open>sq_remove\<close> closes and removes it; \<open>sq_missing\<close> is the handle of a file that does not exist.
\<close>

record 's sql_ops =
  sq_begin :: "'s \<Rightarrow> 's"
  sq_commit :: "'s \<Rightarrow> 's"
  sq_rollback :: "'s \<Rightarrow> 's"
  sq_step :: "sql \<Rightarrow> sql_binds \<Rightarrow> 's \<Rightarrow> bool \<times> 's"
  sq_rows :: "sql \<Rightarrow> sql_binds \<Rightarrow> 's \<Rightarrow> sql_row list"
  sq_corrupt :: "'s \<Rightarrow> bool"
  sq_integrity :: "'s \<Rightarrow> bool"
  sq_version :: "'s \<Rightarrow> int"
  sq_set_version :: "int \<Rightarrow> 's \<Rightarrow> 's"
  sq_open :: "'s \<Rightarrow> bool \<times> 's"
  sq_remove :: "'s \<Rightarrow> 's"
  sq_missing :: 's

text \<open>\<open>Statement::Bind\<close>: a later value for the same parameter replaces the earlier one.\<close>

fun statement_Bind :: "string \<Rightarrow> VariantValue \<Rightarrow> sql_binds \<Rightarrow> sql_binds" where
  "statement_Bind name (TYPE_STRING s) binds = (name, SQ_TEXT s) # binds"
| "statement_Bind name (TYPE_INT v) binds = (name, SQ_INTEGER v) # binds"
| "statement_Bind name (TYPE_INT64 v) binds = (name, SQ_INTEGER v) # binds"
| "statement_Bind name _ binds = binds"

definition bind_all :: "GenericValues \<Rightarrow> sql_binds \<Rightarrow> sql_binds" where
  "bind_all values binds = fold (\<lambda>name. statement_Bind name (Get values name)) (GetAllKeys values) binds"

text \<open>\<open>Statement::GetValue\<close>.\<close>

fun statement_GetValue :: "bool \<Rightarrow> sq_value \<Rightarrow> VariantValue" where
  "statement_GetValue flagInt64 (SQ_INTEGER v) = (if flagInt64 then TYPE_INT64 v else TYPE_INT (i32 v))"
| "statement_GetValue flagInt64 (SQ_TEXT s) = TYPE_STRING (c_str s)"
| "statement_GetValue flagInt64 SQ_NULL = TYPE_NULL"

definition read_row :: "(string \<Rightarrow> bool) \<Rightarrow> sql_row \<Rightarrow> GenericValues" where
  "read_row int64 row = foldl (\<lambda>value (name, v). Put name (statement_GetValue (int64 name) v) value) [] row"

section \<open>The helper\<close>

definition ExecuteSql :: "'s sql_ops \<Rightarrow> sql \<Rightarrow> 's \<Rightarrow> int \<times> 's" where
  "ExecuteSql ops q s = (let (done, s1) = sq_step ops q [] s in (if done then 0 else - 1, s1))"

section \<open>The tables\<close>

datatype DataType =
    PERMISSION_RECORD
  | PERMISSION_USED_TYPE
  | PERMISSION_USED_RECORD_TOGGLE_STATUS
  | PERMISSION_DISABLE_POLICY

record SqliteTable =
  tableName :: string
  tableColumnNames :: "string list"

definition InitPermRecordTableInfo :: SqliteTable where
  "InitPermRecordTableInfo = \<lparr>tableName = ''permission_record_table'',
     tableColumnNames = [PF_TOKEN_ID, PF_OP_CODE, PF_STATUS, PF_TIMESTAMP, PF_ACCESS_DURATION, PF_ACCESS_COUNT,
       PF_REJECT_COUNT, PF_LOCKSCREEN_STATUS, PF_USED_TYPE, PF_ENHANCED_IDENTITY]\<rparr>"

definition InitPermUsedTypeTableInfo :: SqliteTable where
  "InitPermUsedTypeTableInfo = \<lparr>tableName = ''permission_used_type_table'',
     tableColumnNames = [PF_TOKEN_ID, PF_PERMISSION_CODE, PF_USED_TYPE]\<rparr>"

definition InitPermUsedRecordToggleStatusTableInfo :: SqliteTable where
  "InitPermUsedRecordToggleStatusTableInfo = \<lparr>tableName = ''permission_used_record_toggle_status_table'',
     tableColumnNames = [PF_USER_ID, PF_SUB_PROFILE_ID, PF_STATUS]\<rparr>"

definition InitPermDisablePolicyTableInfo :: SqliteTable where
  "InitPermDisablePolicyTableInfo = \<lparr>tableName = ''permission_disable_policy_table'',
     tableColumnNames = [PF_PERMISSION_CODE, PF_DISABLE_POLICY]\<rparr>"

text \<open>\<open>dataTypeToSqlTable_\<close> has an entry for every value of the enumeration, so a lookup never fails.\<close>

fun dataTypeToSqlTable :: "DataType \<Rightarrow> SqliteTable" where
  "dataTypeToSqlTable PERMISSION_RECORD = InitPermRecordTableInfo"
| "dataTypeToSqlTable PERMISSION_USED_TYPE = InitPermUsedTypeTableInfo"
| "dataTypeToSqlTable PERMISSION_USED_RECORD_TOGGLE_STATUS = InitPermUsedRecordToggleStatusTableInfo"
| "dataTypeToSqlTable PERMISSION_DISABLE_POLICY = InitPermDisablePolicyTableInfo"

abbreviation table_of :: "DataType \<Rightarrow> string" where
  "table_of type \<equiv> tableName (dataTypeToSqlTable type)"

section \<open>Assembling commands\<close>

definition CreateInsertPrepareSqlCmd :: "DataType \<Rightarrow> sql" where
  "CreateInsertPrepareSqlCmd type = Sql_insert (table_of type) (tableColumnNames (dataTypeToSqlTable type))"

definition CreateQueryPrepareSqlCmd :: "DataType \<Rightarrow> string list \<Rightarrow> sql" where
  "CreateQueryPrepareSqlCmd type conditionColumns = Sql_select (table_of type) (map Col_eq conditionColumns)"

definition CreateDeletePrepareSqlCmd :: "DataType \<Rightarrow> string list \<Rightarrow> sql" where
  "CreateDeletePrepareSqlCmd type columnNames = Sql_delete (table_of type) (map Col_eq columnNames)"

text \<open>An update of no column has no command.\<close>

definition CreateUpdatePrepareSqlCmd :: "DataType \<Rightarrow> string list \<Rightarrow> string list \<Rightarrow> sql option" where
  "CreateUpdatePrepareSqlCmd type modifyColumns conditionColumns =
     (if modifyColumns = [] then None
      else Some (Sql_update (table_of type) modifyColumns (map Col_eq conditionColumns)))"

definition CreateSelectByConditionPrepareSqlCmd ::
    "int \<Rightarrow> DataType \<Rightarrow> int list \<Rightarrow> string list \<Rightarrow> int \<Rightarrow> sql" where
  "CreateSelectByConditionPrepareSqlCmd tokenId type opCodeList andColumns databaseQueryCount =
     (let conds = concat (map (\<lambda>andColName.
            if andColName = PF_TIMESTAMP_BEGIN then [Time_ge andColName]
            else if andColName = PF_TIMESTAMP_END then [Time_le andColName]
            else if andColName = PF_TOKEN_ID then (if tokenId \<noteq> 0 then [Col_eq andColName] else [])
            else if andColName = PF_USED_TYPE then [Col_in PF_USED_TYPE [PICKER_TYPE, SECURITY_COMPONENT_TYPE]]
            else [Col_eq andColName]) andColumns);
          ops = (if opCodeList \<noteq> [] then [Op_in (filter (\<lambda>c. c \<noteq> OP_INVALID) opCodeList)] else []) in
      Sql_latest (table_of type) (conds @ ops) databaseQueryCount)"

definition CreateCountPrepareSqlCmd :: "DataType \<Rightarrow> sql" where
  "CreateCountPrepareSqlCmd type = Sql_count (table_of type)"

definition CreateDeleteExpireRecordsPrepareSqlCmd :: "DataType \<Rightarrow> string list \<Rightarrow> sql" where
  "CreateDeleteExpireRecordsPrepareSqlCmd type andColumns =
     Sql_delete_times (table_of type)
       (map (\<lambda>name. if name = PF_TIMESTAMP_BEGIN then Time_ge name
                    else if name = PF_TIMESTAMP_END then Time_le name else Col_eq name) andColumns)"

definition CreateDeleteHistoryRecordsPrepareSqlCmd :: "DataType \<Rightarrow> token_id list \<Rightarrow> sql" where
  "CreateDeleteHistoryRecordsPrepareSqlCmd type tokenIDList = Sql_delete_tokens (table_of type) tokenIDList"

definition CreateDeleteExcessiveRecordsPrepareSqlCmd :: "DataType \<Rightarrow> u32 \<Rightarrow> sql" where
  "CreateDeleteExcessiveRecordsPrepareSqlCmd type excessiveSize = Sql_delete_oldest (table_of type) excessiveSize"

section \<open>Creation and upgrade of the tables\<close>

abbreviation INTEGER_STR :: string where "INTEGER_STR \<equiv> '' integer not null,''"
abbreviation TEXT_NOT_NULL_DEFAULT_EMPTY_STR :: string
  where "TEXT_NOT_NULL_DEFAULT_EMPTY_STR \<equiv> '' text not null default '' @ [CHR 0x27, CHR 0x27] @ '',''"

definition CreatePermissionRecordTable :: sql where
  "CreatePermissionRecordTable =
     Sql_create (table_of PERMISSION_RECORD)
       (map (\<lambda>c. (c, INTEGER_STR)) [PF_TOKEN_ID, PF_OP_CODE, PF_STATUS, PF_TIMESTAMP, PF_ACCESS_DURATION,
          PF_ACCESS_COUNT, PF_REJECT_COUNT, PF_LOCKSCREEN_STATUS, PF_USED_TYPE] @
        [(PF_ENHANCED_IDENTITY, TEXT_NOT_NULL_DEFAULT_EMPTY_STR)])
       [PF_TOKEN_ID, PF_OP_CODE, PF_STATUS, PF_TIMESTAMP, PF_USED_TYPE, PF_ENHANCED_IDENTITY]"

definition CreatePermissionUsedTypeTable :: sql where
  "CreatePermissionUsedTypeTable =
     Sql_create (table_of PERMISSION_USED_TYPE)
       (map (\<lambda>c. (c, INTEGER_STR)) [PF_TOKEN_ID, PF_PERMISSION_CODE, PF_USED_TYPE])
       [PF_TOKEN_ID, PF_PERMISSION_CODE]"

definition CreatePermissionUsedRecordToggleStatusTable :: sql where
  "CreatePermissionUsedRecordToggleStatusTable =
     Sql_create (table_of PERMISSION_USED_RECORD_TOGGLE_STATUS)
       [(PF_USER_ID, INTEGER_STR), (PF_SUB_PROFILE_ID, '' integer default -1,''), (PF_STATUS, INTEGER_STR)]
       [PF_USER_ID, PF_SUB_PROFILE_ID]"

definition CreatePermissionDisablePolicyTable :: sql where
  "CreatePermissionDisablePolicyTable =
     Sql_create (table_of PERMISSION_DISABLE_POLICY)
       (map (\<lambda>c. (c, INTEGER_STR)) [PF_PERMISSION_CODE, PF_DISABLE_POLICY]) [PF_PERMISSION_CODE]"

definition OnCreate :: "'s sql_ops \<Rightarrow> 's \<Rightarrow> 's" where
  "OnCreate ops s =
     snd (ExecuteSql ops CreatePermissionDisablePolicyTable
       (snd (ExecuteSql ops CreatePermissionUsedRecordToggleStatusTable
         (snd (ExecuteSql ops CreatePermissionUsedTypeTable
           (snd (ExecuteSql ops CreatePermissionRecordTable s)))))))"

text \<open>The three functions that add a column check first whether the column is there: the check fails if not.\<close>

definition insert_column :: "'s sql_ops \<Rightarrow> string \<Rightarrow> sq_value \<Rightarrow> 's \<Rightarrow> 's" where
  "insert_column ops column v s =
     (let (checkResult, s1) = ExecuteSql ops (Sql_check (table_of PERMISSION_RECORD) column v) s in
      if checkResult \<noteq> - 1 then s1
      else snd (ExecuteSql ops (Sql_add_column (table_of PERMISSION_RECORD) column v) s1))"

definition InsertLockScreenStatusColumn :: "'s sql_ops \<Rightarrow> 's \<Rightarrow> 's" where
  "InsertLockScreenStatusColumn ops s = insert_column ops PF_LOCKSCREEN_STATUS (SQ_INTEGER PERM_ACTIVE_IN_UNLOCKED) s"

definition InsertPermissionUsedTypeColumn :: "'s sql_ops \<Rightarrow> 's \<Rightarrow> 's" where
  "InsertPermissionUsedTypeColumn ops s = insert_column ops PF_USED_TYPE (SQ_INTEGER NORMAL_TYPE) s"

definition InsertEnhancedIdentityColumn :: "'s sql_ops \<Rightarrow> 's \<Rightarrow> 's" where
  "InsertEnhancedIdentityColumn ops s = insert_column ops PF_ENHANCED_IDENTITY (SQ_TEXT []) s"

definition CreateNewPermissionRecordTable :: "string \<Rightarrow> bool \<Rightarrow> sql" where
  "CreateNewPermissionRecordTable newTableName withEnhancedIdentity =
     Sql_create newTableName
       (map (\<lambda>c. (c, INTEGER_STR)) [PF_TOKEN_ID, PF_OP_CODE, PF_STATUS, PF_TIMESTAMP, PF_ACCESS_DURATION,
          PF_ACCESS_COUNT, PF_REJECT_COUNT, PF_LOCKSCREEN_STATUS, PF_USED_TYPE] @
        (if withEnhancedIdentity then [(PF_ENHANCED_IDENTITY, TEXT_NOT_NULL_DEFAULT_EMPTY_STR)] else []))
       ([PF_TOKEN_ID, PF_OP_CODE, PF_STATUS, PF_TIMESTAMP, PF_USED_TYPE] @
        (if withEnhancedIdentity then [PF_ENHANCED_IDENTITY] else []))"

definition UpdatePermissionRecordTablePrimaryKey :: "'s sql_ops \<Rightarrow> bool \<Rightarrow> 's \<Rightarrow> ret \<times> 's" where
  "UpdatePermissionRecordTablePrimaryKey ops withEnhancedIdentity s =
     (let name = table_of PERMISSION_RECORD; newTableName = name @ ''_new'';
          (createNewRes, s1) = ExecuteSql ops (CreateNewPermissionRecordTable newTableName withEnhancedIdentity) s in
      if createNewRes \<noteq> 0 then (PRIV_ERR_DATABASE, sq_rollback ops s1)
      else
        (let (copyDataRes, s2) = ExecuteSql ops (Sql_copy newTableName name) s1 in
         if copyDataRes \<noteq> 0 then (PRIV_ERR_DATABASE, sq_rollback ops s2)
         else
           (let (dropOldRes, s3) = ExecuteSql ops (Sql_drop name) s2 in
            if dropOldRes \<noteq> 0 then (PRIV_ERR_DATABASE, sq_rollback ops s3)
            else
              (let (renameRes, s4) = ExecuteSql ops (Sql_rename newTableName name) s3 in
               if renameRes \<noteq> 0 then (PRIV_ERR_DATABASE, sq_rollback ops s4) else (RET_SUCCESS, s4)))))"

text \<open>The cases of the \<open>switch\<close> fall through: an upgrade from version \<open>v\<close> runs the steps from \<open>v\<close> on.\<close>

definition upgrade_steps :: "'s sql_ops \<Rightarrow> ('s \<Rightarrow> 's) list" where
  "upgrade_steps ops =
     [InsertLockScreenStatusColumn ops,
      \<lambda>s. snd (ExecuteSql ops CreatePermissionUsedTypeTable (InsertPermissionUsedTypeColumn ops s)),
      \<lambda>s. snd (UpdatePermissionRecordTablePrimaryKey ops False s),
      \<lambda>s. snd (ExecuteSql ops CreatePermissionUsedRecordToggleStatusTable s),
      \<lambda>s. snd (ExecuteSql ops CreatePermissionDisablePolicyTable s),
      \<lambda>s. snd (UpdatePermissionRecordTablePrimaryKey ops True (InsertEnhancedIdentityColumn ops s)),
      \<lambda>s. snd (ExecuteSql ops
                 (Sql_add_column (table_of PERMISSION_USED_RECORD_TOGGLE_STATUS) PF_SUB_PROFILE_ID (SQ_INTEGER (- 1))) s)]"

definition OnUpdate :: "'s sql_ops \<Rightarrow> int \<Rightarrow> 's \<Rightarrow> 's" where
  "OnUpdate ops ver s =
     (if 1 \<le> ver \<and> ver \<le> 7 then fold (\<lambda>f. f) (drop (nat ver - 1) (upgrade_steps ops)) s else s)"

text \<open>\<open>SqliteHelper\<close> is a base class: the version and the two virtual functions come from the derived class.\<close>

record 's sqlite_class =
  cl_version :: int
  cl_OnCreate :: "'s \<Rightarrow> 's"
  cl_OnUpdate :: "int \<Rightarrow> 's \<Rightarrow> 's"

definition PermissionUsedRecordDb :: "'s sql_ops \<Rightarrow> 's sqlite_class" where
  "PermissionUsedRecordDb ops = \<lparr>cl_version = 8, cl_OnCreate = OnCreate ops, cl_OnUpdate = OnUpdate ops\<rparr>"

text \<open>The part of \<open>SqliteHelper::Open\<close> in which the version decides between creation and upgrade.\<close>

definition open_version :: "'s sql_ops \<Rightarrow> 's sqlite_class \<Rightarrow> 's \<Rightarrow> 's" where
  "open_version ops cl s =
     (let ver = sq_version ops s in
      if ver = cl_version cl then s
      else
        (let s1 = sq_begin ops s;
             s2 = (if ver = 0 then cl_OnCreate cl s1
                   else if ver < cl_version cl then cl_OnUpdate cl ver s1 else s1) in
         sq_commit ops (sq_set_version ops (cl_version cl) s2)))"

text \<open>\<open>Rebuild\<close> calls \<open>Open\<close> without the checks.\<close>

definition Rebuild :: "'s sql_ops \<Rightarrow> 's sqlite_class \<Rightarrow> 's \<Rightarrow> int \<times> 's" where
  "Rebuild ops cl s =
     (let (opened, s1) = sq_open ops (sq_remove ops s) in
      if opened then (0, open_version ops cl s1) else (- 1, s1))"

definition Open_db :: "'s sql_ops \<Rightarrow> 's sqlite_class \<Rightarrow> 's \<Rightarrow> 's" where
  "Open_db ops cl s =
     (let (opened, s1) = sq_open ops s in
      if \<not> opened then (if sq_corrupt ops s1 then snd (Rebuild ops cl s1) else s1)
      else if sq_corrupt ops s1 \<or> sq_integrity ops s1 then snd (Rebuild ops cl s1)
      else if sq_version ops s1 = cl_version cl then s1
      else
        (let s2 = open_version ops cl s1 in
         if sq_corrupt ops s2 \<or> sq_integrity ops s2 then snd (Rebuild ops cl s2) else s2))"

section \<open>Operations\<close>

definition RetryOnCorrupt :: "'s sql_ops \<Rightarrow> 's sqlite_class \<Rightarrow> ('s \<Rightarrow> ret \<times> 's) \<Rightarrow> 's \<Rightarrow> ret \<times> 's" where
  "RetryOnCorrupt ops cl lockedAction s =
     (let attempt = (\<lambda>s. let (ret, s1) = lockedAction (sq_begin ops s) in
                         (ret, if ret = RET_SUCCESS then sq_commit ops s1 else sq_rollback ops s1));
          (ret, s1) = lockedAction (sq_begin ops s) in
      if ret = RET_SUCCESS then (ret, sq_commit ops s1)
      else
        (let corrupt = sq_corrupt ops s1; s2 = sq_rollback ops s1 in
         if \<not> corrupt then attempt s2
         else
           (let (rebuilt, s3) = Rebuild ops cl s2 in
            if rebuilt = RET_SUCCESS then attempt s3 else (ret, s3))))"

fun add_loop :: "'s sql_ops \<Rightarrow> sql \<Rightarrow> GenericValues list \<Rightarrow> sql_binds \<Rightarrow> bool \<Rightarrow> 's \<Rightarrow> bool \<times> 's" where
  "add_loop ops q [] binds ok s = (ok, s)"
| "add_loop ops q (value # values) binds ok s =
     (let binds1 = bind_all value binds; (done, s1) = sq_step ops q binds1 s in
      add_loop ops q values binds1 (ok \<and> done) s1)"

definition AddLocked :: "'s sql_ops \<Rightarrow> DataType \<Rightarrow> GenericValues list \<Rightarrow> 's \<Rightarrow> ret \<times> 's" where
  "AddLocked ops type values s =
     (let (isAddSuccessfully, s1) = add_loop ops (CreateInsertPrepareSqlCmd type) values [] True s in
      (if isAddSuccessfully then RET_SUCCESS else PRIV_ERR_DATABASE, s1))"

definition Add_db :: "'s sql_ops \<Rightarrow> DataType \<Rightarrow> GenericValues list \<Rightarrow> 's \<Rightarrow> ret \<times> 's" where
  "Add_db ops type values s = RetryOnCorrupt ops (PermissionUsedRecordDb ops) (AddLocked ops type values) s"

definition RemoveLocked :: "'s sql_ops \<Rightarrow> DataType \<Rightarrow> GenericValues \<Rightarrow> 's \<Rightarrow> ret \<times> 's" where
  "RemoveLocked ops type conditions s =
     (let (done, s1) = sq_step ops (CreateDeletePrepareSqlCmd type (GetAllKeys conditions)) (bind_all conditions []) s in
      (if done then RET_SUCCESS else PRIV_ERR_DATABASE, s1))"

definition Remove_db :: "'s sql_ops \<Rightarrow> DataType \<Rightarrow> GenericValues \<Rightarrow> 's \<Rightarrow> ret \<times> 's" where
  "Remove_db ops type conditions s = RetryOnCorrupt ops (PermissionUsedRecordDb ops) (RemoveLocked ops type conditions) s"

definition FindByConditions ::
    "'s sql_ops \<Rightarrow> DataType \<Rightarrow> int list \<Rightarrow> GenericValues \<Rightarrow> int \<Rightarrow> 's \<Rightarrow> ret \<times> GenericValues list" where
  "FindByConditions ops type opCodeList andConditions databaseQueryCount s =
     (let andColumns = GetAllKeys andConditions; tokenId = GetInt andConditions PF_TOKEN_ID;
          q = CreateSelectByConditionPrepareSqlCmd tokenId type opCodeList andColumns databaseQueryCount;
          binds = fold (\<lambda>name b. if name = PF_USED_TYPE then b else statement_Bind name (Get andConditions name) b)
                    andColumns [] in
      (RET_SUCCESS, map (read_row (\<lambda>name. name = PF_TIMESTAMP \<or> name = PF_ACCESS_DURATION)) (sq_rows ops q binds s)))"

definition Count_db :: "'s sql_ops \<Rightarrow> DataType \<Rightarrow> 's \<Rightarrow> int" where
  "Count_db ops type s =
     (case sq_rows ops (CreateCountPrepareSqlCmd type) [] s of
        ((name, v) # _) # _ \<Rightarrow> vv_GetInt (statement_GetValue False v)
      | _ \<Rightarrow> DEFAULT_VALUE)"

definition DeleteExpireRecordsLocked :: "'s sql_ops \<Rightarrow> DataType \<Rightarrow> GenericValues \<Rightarrow> 's \<Rightarrow> ret \<times> 's" where
  "DeleteExpireRecordsLocked ops type andConditions s =
     (if GetAllKeys andConditions \<noteq> [] then
        (let (done, s1) = sq_step ops (CreateDeleteExpireRecordsPrepareSqlCmd type (GetAllKeys andConditions))
               (bind_all andConditions []) s in
         (if done then RET_SUCCESS else PRIV_ERR_DATABASE, s1))
      else (RET_SUCCESS, s))"

definition DeleteExpireRecords :: "'s sql_ops \<Rightarrow> DataType \<Rightarrow> GenericValues \<Rightarrow> 's \<Rightarrow> ret \<times> 's" where
  "DeleteExpireRecords ops type andConditions s = RetryOnCorrupt ops (PermissionUsedRecordDb ops) (DeleteExpireRecordsLocked ops type andConditions) s"

fun DeleteHistoryRecordsInTablesLocked :: "'s sql_ops \<Rightarrow> DataType list \<Rightarrow> token_id list \<Rightarrow> 's \<Rightarrow> ret \<times> 's" where
  "DeleteHistoryRecordsInTablesLocked ops [] tokenIDList s = (RET_SUCCESS, s)"
| "DeleteHistoryRecordsInTablesLocked ops (type # dataTypes) tokenIDList s =
     (let (done, s1) = sq_step ops (CreateDeleteHistoryRecordsPrepareSqlCmd type tokenIDList) [] s in
      if \<not> done then (PRIV_ERR_DATABASE, s1) else DeleteHistoryRecordsInTablesLocked ops dataTypes tokenIDList s1)"

definition DeleteHistoryRecordsInTables :: "'s sql_ops \<Rightarrow> DataType list \<Rightarrow> token_id list \<Rightarrow> 's \<Rightarrow> ret \<times> 's" where
  "DeleteHistoryRecordsInTables ops dataTypes tokenIDList s =
     RetryOnCorrupt ops (PermissionUsedRecordDb ops) (DeleteHistoryRecordsInTablesLocked ops dataTypes tokenIDList) s"

definition DeleteExcessiveRecordsLocked :: "'s sql_ops \<Rightarrow> DataType \<Rightarrow> u32 \<Rightarrow> 's \<Rightarrow> ret \<times> 's" where
  "DeleteExcessiveRecordsLocked ops type excessiveSize s =
     (let (done, s1) = sq_step ops (CreateDeleteExcessiveRecordsPrepareSqlCmd type excessiveSize) [] s in
      (if done then RET_SUCCESS else PRIV_ERR_DATABASE, s1))"

definition DeleteExcessiveRecords :: "'s sql_ops \<Rightarrow> DataType \<Rightarrow> u32 \<Rightarrow> 's \<Rightarrow> ret \<times> 's" where
  "DeleteExcessiveRecords ops type excessiveSize s =
     RetryOnCorrupt ops (PermissionUsedRecordDb ops) (DeleteExcessiveRecordsLocked ops type excessiveSize) s"

definition UpdateLocked :: "'s sql_ops \<Rightarrow> DataType \<Rightarrow> GenericValues \<Rightarrow> GenericValues \<Rightarrow> 's \<Rightarrow> ret \<times> 's" where
  "UpdateLocked ops type modifyValue conditionValue s =
     (case CreateUpdatePrepareSqlCmd type (GetAllKeys modifyValue) (GetAllKeys conditionValue) of
        None \<Rightarrow> (PRIV_ERR_DATABASE, s)
      | Some q \<Rightarrow>
          (let (done, s1) = sq_step ops q (bind_all conditionValue (bind_all modifyValue [])) s in
           (if done then RET_SUCCESS else PRIV_ERR_DATABASE, s1)))"

definition Update_db :: "'s sql_ops \<Rightarrow> DataType \<Rightarrow> GenericValues \<Rightarrow> GenericValues \<Rightarrow> 's \<Rightarrow> ret \<times> 's" where
  "Update_db ops type modifyValue conditionValue s = RetryOnCorrupt ops (PermissionUsedRecordDb ops) (UpdateLocked ops type modifyValue conditionValue) s"

definition Query_db :: "'s sql_ops \<Rightarrow> DataType \<Rightarrow> GenericValues \<Rightarrow> 's \<Rightarrow> ret \<times> GenericValues list" where
  "Query_db ops type conditionValue s =
     (RET_SUCCESS, map (read_row (\<lambda>_. False))
        (sq_rows ops (CreateQueryPrepareSqlCmd type (GetAllKeys conditionValue)) (bind_all conditionValue []) s))"

end
