(* ===== verification/Privacy_Remote_Db.thy ===== *)
theory Privacy_Remote_Db
  imports Privacy_Db
begin

text \<open>
  The stores of the records of remote uses, one for each user:
  \<^verbatim>\<open>services/privacymanager/src/database/remote_permission_used_record_db.cpp\<close>. \<open>RemotePermissionUsedRecordDb\<close> is the
  access to one file and \<open>RemotePermUsedRecordDbManager\<close> opens the file of a user for each call. The files are a map from
  users to handles; whether the directory of a user exists is an argument.
\<close>

abbreviation PRIV_ERR_FILE_OPERATE_FAILED :: ret where "PRIV_ERR_FILE_OPERATE_FAILED \<equiv> 13100016"
abbreviation REMOTE_PERMISSION_RECORD_TABLE :: string where "REMOTE_PERMISSION_RECORD_TABLE \<equiv> ''remote_permission_record''"
abbreviation TEXT_STR :: string where "TEXT_STR \<equiv> '' text not null,''"
abbreviation LEGACY_SUBPROFILE_ID :: int where "LEGACY_SUBPROFILE_ID \<equiv> - 1"

definition g_tableColumnNames :: "string list" where
  "g_tableColumnNames = [PF_DEVICE_ID, PF_DEVICE_NAME, PF_OP_CODE, PF_TIMESTAMP, PF_ACCESS_COUNT, PF_REJECT_COUNT,
     PF_SUB_PROFILE_ID]"

section \<open>Commands\<close>

definition Remote_CreateInsertPrepareSqlCmd :: sql where
  "Remote_CreateInsertPrepareSqlCmd = Sql_insert REMOTE_PERMISSION_RECORD_TABLE g_tableColumnNames"

definition Remote_CreateDeletePrepareSqlCmd :: "string list \<Rightarrow> sql" where
  "Remote_CreateDeletePrepareSqlCmd columnNames = Sql_delete REMOTE_PERMISSION_RECORD_TABLE (map Col_eq columnNames)"

definition Remote_CreateUpdatePrepareSqlCmd :: "string list \<Rightarrow> string list \<Rightarrow> sql option" where
  "Remote_CreateUpdatePrepareSqlCmd modifyColumns conditionColumns =
     (if modifyColumns = [] then None
      else Some (Sql_update REMOTE_PERMISSION_RECORD_TABLE modifyColumns (map Col_eq conditionColumns)))"

definition Remote_CreateSelectByConditionPrepareSqlCmd :: "int list \<Rightarrow> string list \<Rightarrow> int \<Rightarrow> sql" where
  "Remote_CreateSelectByConditionPrepareSqlCmd opCodeList andColumns databaseQueryCount =
     (let conds = map (\<lambda>andColName. if andColName = PF_TIMESTAMP_BEGIN then Time_ge andColName
            else if andColName = PF_TIMESTAMP_END then Time_le andColName else Col_eq andColName) andColumns;
          ops = (if opCodeList \<noteq> [] then [Op_in (filter (\<lambda>c. c \<noteq> OP_INVALID) opCodeList)] else []) in
      Sql_latest REMOTE_PERMISSION_RECORD_TABLE (conds @ ops) databaseQueryCount)"

definition Remote_CreateCountPrepareSqlCmd :: sql where
  "Remote_CreateCountPrepareSqlCmd = Sql_count REMOTE_PERMISSION_RECORD_TABLE"

definition Remote_CreateDeleteExpireRecordsPrepareSqlCmd :: "string list \<Rightarrow> sql" where
  "Remote_CreateDeleteExpireRecordsPrepareSqlCmd andColumns =
     Sql_delete_times REMOTE_PERMISSION_RECORD_TABLE
       (map (\<lambda>name. if name = PF_TIMESTAMP_BEGIN then Time_ge name
                    else if name = PF_TIMESTAMP_END then Time_le name else Col_eq name) andColumns)"

definition Remote_CreateDeleteExcessiveRecordsPrepareSqlCmd :: "u32 \<Rightarrow> sql" where
  "Remote_CreateDeleteExcessiveRecordsPrepareSqlCmd excessiveSize =
     Sql_delete_oldest REMOTE_PERMISSION_RECORD_TABLE excessiveSize"

definition CreateRemotePermissionRecordTable :: sql where
  "CreateRemotePermissionRecordTable =
     Sql_create REMOTE_PERMISSION_RECORD_TABLE
       [(PF_DEVICE_ID, TEXT_STR), (PF_DEVICE_NAME, TEXT_STR), (PF_OP_CODE, INTEGER_STR), (PF_TIMESTAMP, INTEGER_STR),
        (PF_ACCESS_COUNT, INTEGER_STR), (PF_REJECT_COUNT, INTEGER_STR), (PF_SUB_PROFILE_ID, INTEGER_STR)]
       [PF_DEVICE_ID, PF_DEVICE_NAME, PF_OP_CODE, PF_TIMESTAMP]"

section \<open>One file\<close>

definition AddSubProfileIdColumn :: "'s sql_ops \<Rightarrow> 's \<Rightarrow> int \<times> 's" where
  "AddSubProfileIdColumn ops s =
     (if list_ex (\<lambda>row. 1 < length row \<and> snd (row ! 1) = SQ_TEXT PF_SUB_PROFILE_ID)
           (sq_rows ops (Sql_table_info REMOTE_PERMISSION_RECORD_TABLE) [] s)
      then (RET_SUCCESS, s)
      else ExecuteSql ops
             (Sql_add_column REMOTE_PERMISSION_RECORD_TABLE PF_SUB_PROFILE_ID (SQ_INTEGER LEGACY_SUBPROFILE_ID)) s)"

definition Remote_OnUpdate :: "'s sql_ops \<Rightarrow> int \<Rightarrow> 's \<Rightarrow> 's" where
  "Remote_OnUpdate ops ver s = (if ver = 1 then snd (AddSubProfileIdColumn ops s) else s)"

definition RemotePermissionUsedRecordDb :: "'s sql_ops \<Rightarrow> 's sqlite_class" where
  "RemotePermissionUsedRecordDb ops =
     \<lparr>cl_version = 2, cl_OnCreate = \<lambda>s. snd (ExecuteSql ops CreateRemotePermissionRecordTable s),
      cl_OnUpdate = Remote_OnUpdate ops\<rparr>"

definition Remote_RetryOnCorrupt :: "'s sql_ops \<Rightarrow> ('s \<Rightarrow> ret \<times> 's) \<Rightarrow> 's \<Rightarrow> ret \<times> 's" where
  "Remote_RetryOnCorrupt ops lockedAction s = RetryOnCorrupt ops (RemotePermissionUsedRecordDb ops) lockedAction s"

definition Remote_AddLocked :: "'s sql_ops \<Rightarrow> GenericValues list \<Rightarrow> 's \<Rightarrow> ret \<times> 's" where
  "Remote_AddLocked ops values s =
     (let (isAddSuccessfully, s1) = add_loop ops Remote_CreateInsertPrepareSqlCmd values [] True s in
      (if isAddSuccessfully then RET_SUCCESS else PRIV_ERR_DATABASE, s1))"

definition Remote_RemoveLocked :: "'s sql_ops \<Rightarrow> GenericValues \<Rightarrow> 's \<Rightarrow> ret \<times> 's" where
  "Remote_RemoveLocked ops conditions s =
     (let (done, s1) = sq_step ops (Remote_CreateDeletePrepareSqlCmd (GetAllKeys conditions)) (bind_all conditions []) s in
      (if done then RET_SUCCESS else PRIV_ERR_DATABASE, s1))"

definition Remote_UpdateLocked :: "'s sql_ops \<Rightarrow> GenericValues \<Rightarrow> GenericValues \<Rightarrow> 's \<Rightarrow> ret \<times> 's" where
  "Remote_UpdateLocked ops modifyValue conditionValue s =
     (case Remote_CreateUpdatePrepareSqlCmd (GetAllKeys modifyValue) (GetAllKeys conditionValue) of
        None \<Rightarrow> (PRIV_ERR_DATABASE, s)
      | Some q \<Rightarrow>
          (let (done, s1) = sq_step ops q (bind_all conditionValue (bind_all modifyValue [])) s in
           (if done then RET_SUCCESS else PRIV_ERR_DATABASE, s1)))"

definition Remote_FindByConditions :: "'s sql_ops \<Rightarrow> int list \<Rightarrow> GenericValues \<Rightarrow> int \<Rightarrow> 's \<Rightarrow> GenericValues list" where
  "Remote_FindByConditions ops opCodeList andConditions databaseQueryCount s =
     map (read_row (\<lambda>name. name = PF_TIMESTAMP \<or> name = PF_ACCESS_DURATION))
       (sq_rows ops
          (Remote_CreateSelectByConditionPrepareSqlCmd opCodeList (GetAllKeys andConditions) databaseQueryCount)
          (bind_all andConditions []) s)"

definition Remote_Count :: "'s sql_ops \<Rightarrow> 's \<Rightarrow> int" where
  "Remote_Count ops s =
     (case sq_rows ops Remote_CreateCountPrepareSqlCmd [] s of
        ((name, v) # _) # _ \<Rightarrow> vv_GetInt (statement_GetValue False v)
      | _ \<Rightarrow> DEFAULT_VALUE)"

definition Remote_DeleteExpireRecordsLocked :: "'s sql_ops \<Rightarrow> GenericValues \<Rightarrow> 's \<Rightarrow> ret \<times> 's" where
  "Remote_DeleteExpireRecordsLocked ops andConditions s =
     (if GetAllKeys andConditions \<noteq> [] then
        (let (done, s1) = sq_step ops (Remote_CreateDeleteExpireRecordsPrepareSqlCmd (GetAllKeys andConditions))
               (bind_all andConditions []) s in
         (if done then RET_SUCCESS else PRIV_ERR_DATABASE, s1))
      else (RET_SUCCESS, s))"

definition Remote_DeleteExcessiveRecordsLocked :: "'s sql_ops \<Rightarrow> u32 \<Rightarrow> 's \<Rightarrow> ret \<times> 's" where
  "Remote_DeleteExcessiveRecordsLocked ops excessiveSize s =
     (let (done, s1) = sq_step ops (Remote_CreateDeleteExcessiveRecordsPrepareSqlCmd excessiveSize) [] s in
      (if done then RET_SUCCESS else PRIV_ERR_DATABASE, s1))"

section \<open>The files of the users\<close>

type_synonym 's user_files = "(int, 's) omap"

text \<open>\<open>GetDatabase\<close> constructs the access object, which opens the file; without \<open>needCreate\<close> only a file that exists.\<close>

definition GetDatabase :: "'s sql_ops \<Rightarrow> (int \<Rightarrow> bool) \<Rightarrow> int \<Rightarrow> bool \<Rightarrow> 's user_files \<Rightarrow> 's option" where
  "GetDatabase ops dirExist userId needCreate files =
     (if \<not> dirExist userId then None
      else
        (case map_of files userId of
           None \<Rightarrow> if needCreate then Some (Open_db ops (RemotePermissionUsedRecordDb ops) (sq_missing ops)) else None
         | Some s \<Rightarrow> Some (Open_db ops (RemotePermissionUsedRecordDb ops) s)))"

definition Manager_Add ::
    "'s sql_ops \<Rightarrow> (int \<Rightarrow> bool) \<Rightarrow> int \<Rightarrow> GenericValues list \<Rightarrow> 's user_files \<Rightarrow> ret \<times> 's user_files" where
  "Manager_Add ops dirExist userId values files =
     (case GetDatabase ops dirExist userId True files of
        None \<Rightarrow> (PRIV_ERR_FILE_OPERATE_FAILED, files)
      | Some db \<Rightarrow> (let (ret, db1) = Remote_RetryOnCorrupt ops (Remote_AddLocked ops values) db in
          (ret, omap_insert userId db1 files)))"

definition Manager_Remove ::
    "'s sql_ops \<Rightarrow> (int \<Rightarrow> bool) \<Rightarrow> int \<Rightarrow> GenericValues \<Rightarrow> 's user_files \<Rightarrow> ret \<times> 's user_files" where
  "Manager_Remove ops dirExist userId conditions files =
     (case GetDatabase ops dirExist userId False files of
        None \<Rightarrow> (RET_SUCCESS, files)
      | Some db \<Rightarrow> (let (ret, db1) = Remote_RetryOnCorrupt ops (Remote_RemoveLocked ops conditions) db in
          (ret, omap_insert userId db1 files)))"

definition Manager_FindByConditions ::
    "'s sql_ops \<Rightarrow> (int \<Rightarrow> bool) \<Rightarrow> int \<Rightarrow> int list \<Rightarrow> GenericValues \<Rightarrow> int \<Rightarrow> 's user_files \<Rightarrow>
      GenericValues list \<times> 's user_files" where
  "Manager_FindByConditions ops dirExist userId opCodeList andConditions databaseQueryCount files =
     (case GetDatabase ops dirExist userId False files of
        None \<Rightarrow> ([], files)
      | Some db \<Rightarrow> (Remote_FindByConditions ops opCodeList andConditions databaseQueryCount db, omap_insert userId db files))"

definition Manager_Count :: "'s sql_ops \<Rightarrow> (int \<Rightarrow> bool) \<Rightarrow> int \<Rightarrow> 's user_files \<Rightarrow> int \<times> 's user_files" where
  "Manager_Count ops dirExist userId files =
     (case GetDatabase ops dirExist userId False files of
        None \<Rightarrow> (0, files)
      | Some db \<Rightarrow> (Remote_Count ops db, omap_insert userId db files))"

definition Manager_DeleteExpireRecords ::
    "'s sql_ops \<Rightarrow> (int \<Rightarrow> bool) \<Rightarrow> int \<Rightarrow> GenericValues \<Rightarrow> 's user_files \<Rightarrow> ret \<times> 's user_files" where
  "Manager_DeleteExpireRecords ops dirExist userId andConditions files =
     (case GetDatabase ops dirExist userId False files of
        None \<Rightarrow> (RET_SUCCESS, files)
      | Some db \<Rightarrow> (let (ret, db1) = Remote_RetryOnCorrupt ops (Remote_DeleteExpireRecordsLocked ops andConditions) db in
          (ret, omap_insert userId db1 files)))"

definition Manager_DeleteExcessiveRecords ::
    "'s sql_ops \<Rightarrow> (int \<Rightarrow> bool) \<Rightarrow> int \<Rightarrow> u32 \<Rightarrow> 's user_files \<Rightarrow> ret \<times> 's user_files" where
  "Manager_DeleteExcessiveRecords ops dirExist userId excessiveSize files =
     (case GetDatabase ops dirExist userId False files of
        None \<Rightarrow> (RET_SUCCESS, files)
      | Some db \<Rightarrow> (let (ret, db1) = Remote_RetryOnCorrupt ops (Remote_DeleteExcessiveRecordsLocked ops excessiveSize) db in
          (ret, omap_insert userId db1 files)))"

definition Manager_Update ::
    "'s sql_ops \<Rightarrow> (int \<Rightarrow> bool) \<Rightarrow> int \<Rightarrow> GenericValues \<Rightarrow> GenericValues \<Rightarrow> 's user_files \<Rightarrow> ret \<times> 's user_files" where
  "Manager_Update ops dirExist userId modifyValue conditionValue files =
     (case GetDatabase ops dirExist userId True files of
        None \<Rightarrow> (PRIV_ERR_FILE_OPERATE_FAILED, files)
      | Some db \<Rightarrow> (let (ret, db1) = Remote_RetryOnCorrupt ops (Remote_UpdateLocked ops modifyValue conditionValue) db in
          (ret, omap_insert userId db1 files)))"

end
