(* ===== verification/Privacy_State.thy ===== *)
theory Privacy_State
  imports Privacy_Remote_Db
begin

text \<open>
  The state of \<open>PermissionRecordManager\<close> (\<^verbatim>\<open>services/privacymanager/src/record/permission_record_manager.cpp\<close>) with
  the callback lists of \<open>ActiveStatusCallbackManager\<close> and \<open>DisablePolicyCbkManager\<close>, what the other services answer during
  a call, and the switches: mute states, the policy that disables camera or microphone, screen states, and the
  foreground reminder.

  The model is the build with remote records and the camera float window and without sub-profiles, bundle-based sessions
  and the external privacy service, which are the defaults of \<^verbatim>\<open>access_token.gni\<close>. Detached threads of the camera
  callbacks are taken to run at once; a task for registered callbacks is a notice in the state.
\<close>

section \<open>Data\<close>

record RemoteContinuousPermissionRecord =
  rr_opCode :: int
  rr_callerPid :: int

record RemotePermissionRecord =
  rp_deviceId :: string
  rp_deviceName :: string
  rp_opCode :: int
  rp_timestamp :: int
  rp_accessCount :: int
  rp_rejectCount :: int
  rp_userId :: int
  rp_subProfileId :: int

record RemotePermissionRecordCache =
  rc_record :: RemotePermissionRecord
  rc_needUpdateToDb :: bool

record ActiveChangeResponse =
  ac_callingTokenID :: token_id
  ac_tokenID :: token_id
  ac_permissionName :: string
  ac_type :: int
  ac_usedType :: int
  ac_pid :: int
  ac_isRemote :: bool
  ac_deviceId :: string
  ac_remoteDeviceName :: string
  ac_extra :: string
  ac_enhancedIdentity :: string
  ac_bundleName :: string

definition null_response :: ActiveChangeResponse where
  "null_response = \<lparr>ac_callingTokenID = INVALID_TOKENID, ac_tokenID = INVALID_TOKENID, ac_permissionName = [],
     ac_type = PERM_INACTIVE, ac_usedType = NORMAL_TYPE, ac_pid = - 1, ac_isRemote = False, ac_deviceId = [],
     ac_remoteDeviceName = [], ac_extra = [], ac_enhancedIdentity = [], ac_bundleName = []\<rparr>"

datatype CallbackRegisterType = CALLBACK_ALL | TOKEN_ONLY

text \<open>Remote objects are numbers; 0 is the null pointer.\<close>

type_synonym remote_object = nat

record CallbackData =
  cb_registerTokenId :: token_id
  cb_permList :: "string list"
  cb_callbackObject :: remote_object
  cb_registerType :: int

record DisableCallbackData =
  dc_registerTokenId :: token_id
  dc_permList :: "string list"
  dc_callbackObject :: remote_object

datatype privacy_notice =
    Active_change ActiveChangeResponse CallbackRegisterType
  | Disable_change string bool
  | Camera_closed token_id remote_object

record hap_view =
  hv_userID :: int
  hv_bundleName :: string

text \<open>
  What the other services and the system answer during a call: token information, running applications, the mute states
  kept by the audio and camera services, system parameters (result and value), the dialog, the registration of the
  observer, the caller, the clock, the current user, the directories of the users and the configuration (nothing if the
  library cannot be loaded; the sizes of the service and the customised switch where they are configured).
\<close>

record privacy_env =
  pe_hostToken :: "token_id \<Rightarrow> ret \<times> token_id"
  pe_parentToken :: "token_id \<Rightarrow> int \<times> u64"
  pe_verify :: "token_id \<Rightarrow> string \<Rightarrow> int"
  pe_flagEx :: "token_id \<Rightarrow> string \<Rightarrow> ret \<times> u32"
  pe_hapInfo :: "token_id \<Rightarrow> hap_view option"
  pe_tokensOfUser :: "int \<Rightarrow> token_id list option"
  pe_nativeTokenId :: "string \<Rightarrow> token_id"
  pe_foreground :: "(token_id \<times> int) list"
  pe_micMuted :: bool
  pe_cameraMuted :: bool
  pe_parameter :: "string \<Rightarrow> int \<times> string"
  pe_startAbility :: "string \<Rightarrow> bool"
  pe_registerObserver :: int
  pe_screenLocked :: bool
  pe_screenOn :: bool
  pe_isProxy :: "remote_object \<Rightarrow> bool"
  pe_addDeathRecipient :: "remote_object \<Rightarrow> bool"
  pe_callingTokenID :: token_id
  pe_callingPid :: int
  pe_now :: int
  pe_foregroundUser :: "int \<times> int"
  pe_dirExist :: "int \<Rightarrow> bool"
  pe_config :: "((int \<times> int) option \<times> bool option) option"

text \<open>\<open>edmTokenID\<close> is the static variable of \<open>SetMutePolicy\<close>. The remote records of a user are in a store of their own;
  there is none while the directory of the user does not exist.\<close>

record 's privacy =
  startRecordList :: record_set
  cameraCallbackMap :: "(u64, remote_object) omap"
  dvrCameraCallbackMap :: "(u64, remote_object) omap"
  isMicEdmMute :: bool
  isMicMixMute :: bool
  isCamEdmMute :: bool
  isCamMixMute :: bool
  edmTokenID :: "token_id option"
  appStateCallback :: bool
  appManagerDeathCallback :: bool
  lockScreenStatus :: int
  isScreenOn :: bool
  foreTokenIdList :: "token_id list"
  recordSizeMaximum :: int
  recordAgingTime :: int
  cameraPrivacyControlEnhanceEnable :: bool
  deleteTaskNum :: int
  permUsedRecList :: "PermissionRecordCache list"
  permUsedRecToggleStatusMap :: "(string, bool) omap"
  disablePolicyMap :: "(int, bool) omap"
  uniqueDeviceId :: string
  uniqueDeviceName :: string
  startRemoteRecordList :: "RemoteContinuousPermissionRecord list"
  remotePermUsedRecList :: "RemotePermissionRecordCache list"
  hasInited :: bool
  activeCallbacks :: "CallbackData list"
  policyCallbacks :: "DisableCallbackData list"
  privacyNotices :: "privacy_notice list"
  privacyDb :: 's
  remoteDb :: "(int, 's) omap"

definition post :: "privacy_notice \<Rightarrow> 's privacy \<Rightarrow> 's privacy" where
  "post n st = st\<lparr>privacyNotices := privacyNotices st @ [n]\<rparr>"

section \<open>Active status callbacks\<close>

abbreviation MAX_CALLBACK_SIZE :: nat where "MAX_CALLBACK_SIZE \<equiv> 1024"

definition Active_AddCallback ::
    "privacy_env \<Rightarrow> token_id \<Rightarrow> string list \<Rightarrow> remote_object \<Rightarrow> int \<Rightarrow> 's privacy \<Rightarrow> ret \<times> 's privacy" where
  "Active_AddCallback E registerTokenId permList callback registerType st =
     (if callback = 0 then (PRIV_ERR_PARAM_INVALID, st)
      else if length (activeCallbacks st) \<ge> MAX_CALLBACK_SIZE then (PRIV_ERR_CALLBACKS_EXCEED, st)
      else if pe_isProxy E callback \<and> \<not> pe_addDeathRecipient E callback then (PRIV_ERR_ADD_DEATH_RECIPIENT, st)
      else (RET_SUCCESS, st\<lparr>activeCallbacks := activeCallbacks st @
              [\<lparr>cb_registerTokenId = registerTokenId, cb_permList = permList, cb_callbackObject = callback,
                cb_registerType = registerType\<rparr>]\<rparr>))"

definition Active_RemoveCallback :: "remote_object \<Rightarrow> 's privacy \<Rightarrow> ret \<times> 's privacy" where
  "Active_RemoveCallback callback st =
     (if callback = 0 then (PRIV_ERR_PARAM_INVALID, st)
      else (RET_SUCCESS, st\<lparr>activeCallbacks := erase_first (\<lambda>d. callback = cb_callbackObject d) (activeCallbacks st)\<rparr>))"

definition NeedCalled :: "string list \<Rightarrow> string \<Rightarrow> bool" where
  "NeedCalled permList permName \<longleftrightarrow> permList = [] \<or> list_ex (\<lambda>perm. perm = permName) permList"

text \<open>The registered type is a number: 0 is \<open>ALL\<close>, 1 is \<open>TOKEN_ONLY\<close>.\<close>

definition NeedNotify :: "int \<Rightarrow> CallbackRegisterType \<Rightarrow> bool" where
  "NeedNotify registerType sourceType \<longleftrightarrow>
     registerType = 0 \<or> registerType = (case sourceType of CALLBACK_ALL \<Rightarrow> 0 | TOKEN_ONLY \<Rightarrow> 1)"

text \<open>The task of a notice: the objects whose proxies are called.\<close>

definition ActiveStatusChange ::
    "ActiveChangeResponse \<Rightarrow> CallbackRegisterType \<Rightarrow> 's privacy \<Rightarrow> remote_object list" where
  "ActiveStatusChange info sourceType st =
     map cb_callbackObject (filter (\<lambda>d. NeedNotify (cb_registerType d) sourceType \<and>
         NeedCalled (cb_permList d) (ac_permissionName info) \<and>
         \<not> (ac_isRemote info \<and> GetTokenTypeFlag (cb_registerTokenId d) \<noteq> TOKEN_NATIVE)) (activeCallbacks st))"

definition CallbackExecute ::
    "privacy_env \<Rightarrow> ContinuousPermissionRecord \<Rightarrow> string \<Rightarrow> int \<Rightarrow> 's privacy \<Rightarrow> 's privacy" where
  "CallbackExecute E record permissionName type st =
     post (Active_change (null_response\<lparr>ac_callingTokenID := pe_callingTokenID E, ac_tokenID := cr_tokenId record,
             ac_permissionName := permissionName, ac_deviceId := [], ac_type := cr_status record, ac_usedType := type,
             ac_pid := cr_pid record, ac_enhancedIdentity := cr_enhancedIdentity record\<rparr>) TOKEN_ONLY) st"

definition CallbackRemoteExecute :: "string \<Rightarrow> string \<Rightarrow> string \<Rightarrow> int \<Rightarrow> 's privacy \<Rightarrow> 's privacy" where
  "CallbackRemoteExecute remoteDeviceId remoteDeviceName permissionName type st =
     post (Active_change (null_response\<lparr>ac_permissionName := permissionName, ac_isRemote := True,
             ac_deviceId := remoteDeviceId, ac_remoteDeviceName := remoteDeviceName, ac_type := type,
             ac_callingTokenID := 0, ac_tokenID := 0, ac_usedType := NORMAL_TYPE, ac_pid := - 1\<rparr>) TOKEN_ONLY) st"

section \<open>Disable policy callbacks\<close>

definition Policy_AddCallback ::
    "privacy_env \<Rightarrow> token_id \<Rightarrow> string list \<Rightarrow> remote_object \<Rightarrow> 's privacy \<Rightarrow> ret \<times> 's privacy" where
  "Policy_AddCallback E registerTokenId permList callback st =
     (if callback = 0 then (PRIV_ERR_PARAM_INVALID, st)
      else if length (policyCallbacks st) \<ge> MAX_CALLBACK_SIZE then (PRIV_ERR_CALLBACKS_EXCEED, st)
      else if pe_isProxy E callback \<and> \<not> pe_addDeathRecipient E callback then (PRIV_ERR_ADD_DEATH_RECIPIENT, st)
      else (RET_SUCCESS, st\<lparr>policyCallbacks := policyCallbacks st @
              [\<lparr>dc_registerTokenId = registerTokenId, dc_permList = permList, dc_callbackObject = callback\<rparr>]\<rparr>))"

definition Policy_RemoveCallback :: "remote_object \<Rightarrow> 's privacy \<Rightarrow> ret \<times> 's privacy" where
  "Policy_RemoveCallback callback st =
     (if callback = 0 then (PRIV_ERR_PARAM_INVALID, st)
      else (RET_SUCCESS, st\<lparr>policyCallbacks := erase_first (\<lambda>d. callback = dc_callbackObject d) (policyCallbacks st)\<rparr>))"

definition PermDisablePolicyCallback :: "string \<Rightarrow> 's privacy \<Rightarrow> remote_object list" where
  "PermDisablePolicyCallback permissionName st =
     map dc_callbackObject (filter (\<lambda>d. NeedCalled (dc_permList d) permissionName) (policyCallbacks st))"

section \<open>The disable policy\<close>

definition GetCacheDisablePolicy :: "int \<Rightarrow> 's privacy \<Rightarrow> bool" where
  "GetCacheDisablePolicy opCode st = (case map_of (disablePolicyMap st) opCode of Some d \<Rightarrow> d | None \<Rightarrow> False)"

definition GetCacheDisablePolicyByName :: "string \<Rightarrow> 's privacy \<Rightarrow> bool" where
  "GetCacheDisablePolicyByName permissionName st =
     (case TransferPermissionToOpcode_pr permissionName of None \<Rightarrow> False | Some c \<Rightarrow> GetCacheDisablePolicy c st)"

definition UpdateDisablePolicyCache :: "int \<Rightarrow> bool \<Rightarrow> 's privacy \<Rightarrow> 's privacy" where
  "UpdateDisablePolicyCache opCode isDisable st =
     st\<lparr>disablePolicyMap := omap_insert opCode isDisable (disablePolicyMap st)\<rparr>"

definition IsCamOrMicroPerm :: "string \<Rightarrow> bool" where
  "IsCamOrMicroPerm permissionName \<longleftrightarrow>
     permissionName = CAMERA_PERMISSION_NAME \<or> permissionName = MICROPHONE_PERMISSION_NAME"

text \<open>The error, or the code of a permission that may be disabled.\<close>

definition IsPermValidForDisablePolicy :: "string \<Rightarrow> ret + int" where
  "IsPermValidForDisablePolicy permissionName =
     (case TransferPermissionToOpcode_pr permissionName of
        None \<Rightarrow> Inl PRIV_ERR_PERMISSION_NOT_EXIST
      | Some c \<Rightarrow> if \<not> IsCamOrMicroPerm permissionName then Inl PRIV_ERR_PERMISSION_NOT_SUPPORT else Inr c)"

definition InsertOrUpdateDisablePolicy :: "'s sql_ops \<Rightarrow> int \<Rightarrow> bool \<Rightarrow> 's privacy \<Rightarrow> ret \<times> 's privacy" where
  "InsertOrUpdateDisablePolicy ops opCode isDisable st =
     (let conditionValue = PutInt PF_PERMISSION_CODE opCode [];
          (queried, results) = Query_db ops PERMISSION_DISABLE_POLICY conditionValue (privacyDb st);
          v = PutInt PF_DISABLE_POLICY (if isDisable then 1 else 0) (PutInt PF_PERMISSION_CODE opCode []) in
      if queried \<noteq> RET_SUCCESS then (PRIV_ERR_DATABASE, st)
      else
        (let (written, s1) = (if results = [] then Add_db ops PERMISSION_DISABLE_POLICY [v] (privacyDb st)
                              else Update_db ops PERMISSION_DISABLE_POLICY v conditionValue (privacyDb st)) in
         (if written \<noteq> RET_SUCCESS then PRIV_ERR_DATABASE else RET_SUCCESS, st\<lparr>privacyDb := s1\<rparr>)))"

definition SetDisablePolicy :: "'s sql_ops \<Rightarrow> string \<Rightarrow> bool \<Rightarrow> 's privacy \<Rightarrow> ret \<times> 's privacy" where
  "SetDisablePolicy ops permissionName isDisable st =
     (case IsPermValidForDisablePolicy permissionName of
        Inl err \<Rightarrow> (err, st)
      | Inr opCode \<Rightarrow>
          (let (ret, st1) = InsertOrUpdateDisablePolicy ops opCode isDisable st in
           if ret \<noteq> RET_SUCCESS then (ret, st1)
           else
             (let needCallback = (isDisable \<noteq> GetCacheDisablePolicy opCode st1);
                  st2 = UpdateDisablePolicyCache opCode isDisable st1 in
              (RET_SUCCESS, if \<not> needCallback then st2 else post (Disable_change permissionName isDisable) st2))))"

definition GetDisablePolicy :: "string \<Rightarrow> 's privacy \<Rightarrow> ret + bool" where
  "GetDisablePolicy permissionName st =
     (case IsPermValidForDisablePolicy permissionName of
        Inl err \<Rightarrow> Inl err
      | Inr opCode \<Rightarrow> Inr (GetCacheDisablePolicy opCode st))"

text \<open>\<open>insert\<close> keeps an entry that is already there.\<close>

definition InitDisablePolicyFromDb :: "'s sql_ops \<Rightarrow> 's privacy \<Rightarrow> 's privacy" where
  "InitDisablePolicyFromDb ops st =
     (let (queried, results) = Query_db ops PERMISSION_DISABLE_POLICY [] (privacyDb st) in
      if queried \<noteq> RET_SUCCESS then st
      else st\<lparr>disablePolicyMap := foldl (\<lambda>m result.
                omap_emplace (GetInt result PF_PERMISSION_CODE) (GetInt result PF_DISABLE_POLICY = 1) m)
              (disablePolicyMap st) results\<rparr>)"

section \<open>Lists of permissions for callbacks\<close>

fun privacy_names :: "string list \<Rightarrow> string set \<Rightarrow> string list" where
  "privacy_names [] permSet = []"
| "privacy_names (perm # perms) permSet =
     (if IsPrivacyPermission perm \<and> perm \<notin> permSet then perm # privacy_names perms (insert perm permSet)
      else privacy_names perms permSet)"

definition PermissionListFilter :: "string list \<Rightarrow> ret \<times> string list" where
  "PermissionListFilter listSrc =
     (let listRes = privacy_names listSrc {} in
      (if listRes = [] \<and> listSrc \<noteq> [] then PRIV_ERR_PARAM_INVALID else RET_SUCCESS, listRes))"

fun PermListFilter :: "string list \<Rightarrow> string set \<Rightarrow> string list \<Rightarrow> ret + string list" where
  "PermListFilter [] permSet listRes = Inr listRes"
| "PermListFilter (perm # perms) permSet listRes =
     (if \<not> IsPrivacyPermission perm then Inl PRIV_ERR_PARAM_INVALID
      else if \<not> IsCamOrMicroPerm perm then Inl PRIV_ERR_PERMISSION_NOT_SUPPORT
      else if perm \<notin> permSet then PermListFilter perms (insert perm permSet) (listRes @ [perm])
      else PermListFilter perms permSet listRes)"

definition RegisterPermActiveStatusCallback ::
    "privacy_env \<Rightarrow> token_id \<Rightarrow> string list \<Rightarrow> remote_object \<Rightarrow> int \<Rightarrow> 's privacy \<Rightarrow> ret \<times> 's privacy" where
  "RegisterPermActiveStatusCallback E registerTokenId permList callback type st =
     (let (ret, permListRes) = PermissionListFilter permList in
      if ret \<noteq> RET_SUCCESS then (ret, st) else Active_AddCallback E registerTokenId permListRes callback type st)"

definition UnRegisterPermActiveStatusCallback :: "remote_object \<Rightarrow> 's privacy \<Rightarrow> ret \<times> 's privacy" where
  "UnRegisterPermActiveStatusCallback callback st = Active_RemoveCallback callback st"

definition RegisterPermDisablePolicyCallback ::
    "privacy_env \<Rightarrow> token_id \<Rightarrow> string list \<Rightarrow> remote_object \<Rightarrow> 's privacy \<Rightarrow> ret \<times> 's privacy" where
  "RegisterPermDisablePolicyCallback E registerTokenId permList callback st =
     (case PermListFilter permList {} [] of
        Inl err \<Rightarrow> (err, st)
      | Inr permListRes \<Rightarrow> Policy_AddCallback E registerTokenId permListRes callback st)"

definition UnRegisterPermDisablePolicyCallback :: "remote_object \<Rightarrow> 's privacy \<Rightarrow> ret \<times> 's privacy" where
  "UnRegisterPermDisablePolicyCallback callback st = Policy_RemoveCallback callback st"

section \<open>Mute states\<close>

abbreviation EDM :: int where "EDM \<equiv> 0"
abbreviation PRIVACY :: int where "PRIVACY \<equiv> 1"
abbreviation TEMPORARY :: int where "TEMPORARY \<equiv> 2"
abbreviation MIXED :: int where "MIXED \<equiv> 3"
abbreviation MICROPHONE :: int where "MICROPHONE \<equiv> 0"
abbreviation CAMERA :: int where "CAMERA \<equiv> 1"

definition ModifyMuteStatus :: "string \<Rightarrow> int \<Rightarrow> bool \<Rightarrow> 's privacy \<Rightarrow> 's privacy" where
  "ModifyMuteStatus permissionName index isMute st =
     (if permissionName = MICROPHONE_PERMISSION_NAME
      then (if index = EDM then st\<lparr>isMicEdmMute := isMute\<rparr> else st\<lparr>isMicMixMute := isMute\<rparr>)
      else if permissionName = CAMERA_PERMISSION_NAME
      then (if index = EDM then st\<lparr>isCamEdmMute := isMute\<rparr> else st\<lparr>isCamMixMute := isMute\<rparr>)
      else st)"

definition GetMuteStatus :: "string \<Rightarrow> int \<Rightarrow> 's privacy \<Rightarrow> bool" where
  "GetMuteStatus permissionName index st =
     (if permissionName = MICROPHONE_PERMISSION_NAME
      then (if index = EDM then isMicEdmMute st \<or> GetCacheDisablePolicy OP_MICROPHONE st else isMicMixMute st)
      else if permissionName = CAMERA_PERMISSION_NAME
      then (if index = EDM then isCamEdmMute st \<or> GetCacheDisablePolicy OP_CAMERA st else isCamMixMute st)
      else False)"

definition IsEdmMuteOrDisable :: "string \<Rightarrow> 's privacy \<Rightarrow> bool" where
  "IsEdmMuteOrDisable permissionName st \<longleftrightarrow>
     GetMuteStatus permissionName EDM st \<or> GetCacheDisablePolicyByName permissionName st"

definition GetGlobalSwitchStatus :: "string \<Rightarrow> 's privacy \<Rightarrow> bool" where
  "GetGlobalSwitchStatus permissionName st =
     (if permissionName = MICROPHONE_PERMISSION_NAME then \<not> isMicMixMute st
      else if permissionName = CAMERA_PERMISSION_NAME then \<not> isCamMixMute st
      else True)"

text \<open>No value when the parameter cannot be read.\<close>

definition GetMuteParameter :: "privacy_env \<Rightarrow> string \<Rightarrow> bool option" where
  "GetMuteParameter E key =
     (let (ret, value) = pe_parameter E key in if ret < 0 then None else Some (c_str value = ''true''))"

definition InitializeMuteState :: "privacy_env \<Rightarrow> string \<Rightarrow> 's privacy \<Rightarrow> 's privacy" where
  "InitializeMuteState E permissionName st =
     (if permissionName = MICROPHONE_PERMISSION_NAME then
        (let st1 = ModifyMuteStatus MICROPHONE_PERMISSION_NAME MIXED (pe_micMuted E) st in
         case GetMuteParameter E ''persist.edm.mic_disable'' of
           None \<Rightarrow> st1
         | Some isEdmMute \<Rightarrow> ModifyMuteStatus MICROPHONE_PERMISSION_NAME EDM isEdmMute st1)
      else if permissionName = CAMERA_PERMISSION_NAME then
        (let st1 = ModifyMuteStatus CAMERA_PERMISSION_NAME MIXED (pe_cameraMuted E) st in
         case GetMuteParameter E ''persist.edm.camera_disable'' of
           None \<Rightarrow> st1
         | Some isEdmMute \<Rightarrow> ModifyMuteStatus CAMERA_PERMISSION_NAME EDM isEdmMute st1)
      else st)"

section \<open>Screen, applications and reminders\<close>

definition SetLockScreenStatus :: "int \<Rightarrow> 's privacy \<Rightarrow> 's privacy" where
  "SetLockScreenStatus status st = st\<lparr>lockScreenStatus := status\<rparr>"

definition GetLockScreenStatus :: "privacy_env \<Rightarrow> bool \<Rightarrow> 's privacy \<Rightarrow> int" where
  "GetLockScreenStatus E isIpc st =
     (if isIpc then (if pe_screenLocked E then PERM_ACTIVE_IN_LOCKED else PERM_ACTIVE_IN_UNLOCKED)
      else lockScreenStatus st)"

definition SetScreenOn :: "bool \<Rightarrow> 's privacy \<Rightarrow> 's privacy" where
  "SetScreenOn on st = st\<lparr>isScreenOn := on\<rparr>"

definition IsScreenOn :: "privacy_env \<Rightarrow> bool \<Rightarrow> 's privacy \<Rightarrow> bool" where
  "IsScreenOn E isIpc st = (if isIpc then pe_screenOn E else isScreenOn st)"

definition GetAppStatus :: "privacy_env \<Rightarrow> token_id \<Rightarrow> int \<Rightarrow> int" where
  "GetAppStatus E tokenId pid =
     (if list_ex (\<lambda>(token, appPid). if pid = - 1 then token = tokenId else token = tokenId \<and> appPid = pid)
           (pe_foreground E)
      then PERM_ACTIVE_IN_FOREGROUND else PERM_ACTIVE_IN_BACKGROUND)"

definition SetHapWithFGReminder :: "token_id \<Rightarrow> bool \<Rightarrow> 's privacy \<Rightarrow> ret \<times> 's privacy" where
  "SetHapWithFGReminder tokenId isAllowed st =
     (if GetTokenTypeFlag tokenId \<noteq> TOKEN_HAP then (PRIV_ERR_PARAM_INVALID, st)
      else if tokenId \<notin> set (foreTokenIdList st) \<and> isAllowed
      then (RET_SUCCESS, st\<lparr>foreTokenIdList := foreTokenIdList st @ [tokenId]\<rparr>)
      else if tokenId \<in> set (foreTokenIdList st) \<and> \<not> isAllowed
      then (RET_SUCCESS, st\<lparr>foreTokenIdList := erase_first (\<lambda>t. t = tokenId) (foreTokenIdList st)\<rparr>)
      else (PRIV_ERR_PARAM_INVALID, st))"

definition VerifyNativeRecordPermission :: "privacy_env \<Rightarrow> string \<Rightarrow> token_id \<Rightarrow> bool" where
  "VerifyNativeRecordPermission E permissionName tokenId =
     (if permissionName = CAMERA_PERMISSION_NAME
      then pe_verify E tokenId CAMERA_BACKGROUND_PERMISSION_NAME = PERMISSION_GRANTED
      else if permissionName = MICROPHONE_PERMISSION_NAME
      then pe_verify E tokenId MICROPHONE_BACKGROUND_PERMISSION_NAME = PERMISSION_GRANTED
      else False)"

text \<open>The error, or the token of the application: the host of a tool, the parent of a binary.\<close>

definition NormalizeBinRecordTokenId :: "privacy_env \<Rightarrow> token_id \<Rightarrow> ret + token_id" where
  "NormalizeBinRecordTokenId E inputTokenId =
     (let (ret, parent) = pe_parentToken E inputTokenId in
      if ret \<noteq> 0 then Inl PRIV_ERR_TOKENID_NOT_EXIST
      else if parent = 0 then Inl PRIV_ERR_TOKENID_NOT_EXIST
      else Inr (ex_tokenID parent))"

definition NormalizeRecordTokenId :: "privacy_env \<Rightarrow> token_id \<Rightarrow> ret + token_id" where
  "NormalizeRecordTokenId E inputTokenId =
     (if IsToolTokenId inputTokenId then
        (let (ret, host) = pe_hostToken E inputTokenId in
         if ret \<noteq> RET_SUCCESS then Inl PRIV_ERR_PARAM_INVALID else Inr host)
      else if IsBinTokenId inputTokenId then NormalizeBinRecordTokenId E inputTokenId
      else Inr inputTokenId)"

definition IsAllowedUsingCamera :: "privacy_env \<Rightarrow> token_id \<Rightarrow> int \<Rightarrow> 's privacy \<Rightarrow> bool" where
  "IsAllowedUsingCamera E tokenId pid st =
     (if cameraPrivacyControlEnhanceEnable st \<and>
         (GetLockScreenStatus E False st = PERM_ACTIVE_IN_LOCKED \<or> \<not> IsScreenOn E False st)
      then False
      else if GetAppStatus E tokenId pid = PERM_ACTIVE_IN_FOREGROUND then True
      else pe_verify E tokenId CAMERA_BACKGROUND_PERMISSION_NAME = PERMISSION_GRANTED)"

definition IsAllowedUsingMicrophone :: "privacy_env \<Rightarrow> token_id \<Rightarrow> int \<Rightarrow> 's privacy \<Rightarrow> bool" where
  "IsAllowedUsingMicrophone E tokenId pid st =
     (if GetAppStatus E tokenId pid = PERM_ACTIVE_IN_FOREGROUND then True
      else if tokenId \<in> set (foreTokenIdList st) then True
      else pe_verify E tokenId MICROPHONE_BACKGROUND_PERMISSION_NAME = PERMISSION_GRANTED)"

definition IsAllowedUsingPermission :: "privacy_env \<Rightarrow> token_id \<Rightarrow> string \<Rightarrow> int \<Rightarrow> 's privacy \<Rightarrow> bool" where
  "IsAllowedUsingPermission E tokenId permissionName pid st =
     (case (if IsBinTokenId tokenId then map_sum id (\<lambda>t. (t, - 1)) (NormalizeBinRecordTokenId E tokenId)
            else Inr (tokenId, pid)) of
        Inl _ \<Rightarrow> False
      | Inr (normalizedTokenId, normalizedPid) \<Rightarrow>
          if GetTokenTypeFlag normalizedTokenId = TOKEN_NATIVE
          then VerifyNativeRecordPermission E permissionName normalizedTokenId
          else if GetTokenTypeFlag normalizedTokenId \<noteq> TOKEN_HAP then False
          else if IsCameraPermission permissionName then IsAllowedUsingCamera E normalizedTokenId normalizedPid st
          else if permissionName = MICROPHONE_PERMISSION_NAME
          then IsAllowedUsingMicrophone E normalizedTokenId normalizedPid st
          else False)"

end
