(* ===== verification/Privacy_Sessions.thy ===== *)
theory Privacy_Sessions
  imports Privacy_State
begin

text \<open>
  Running uses of permissions in \<open>PermissionRecordManager\<close>: starting and stopping, on this device and from a remote one,
  the changes that follow from application states and mute policies, and the queries.
\<close>

section \<open>Registration\<close>

definition Register :: "privacy_env \<Rightarrow> 's privacy \<Rightarrow> bool \<times> 's privacy" where
  "Register E st =
     (let st1 = st\<lparr>appManagerDeathCallback := True\<rparr> in
      if appStateCallback st1 then (True, st1)
      else if pe_registerObserver E \<noteq> 0 then (False, st1)
      else (True, st1\<lparr>appStateCallback := True\<rparr>))"

definition Unregister :: "'s privacy \<Rightarrow> 's privacy" where
  "Unregister st = st\<lparr>appStateCallback := False\<rparr>"

definition Privacy_OnAppMgrRemoteDiedHandle :: "'s privacy \<Rightarrow> 's privacy" where
  "Privacy_OnAppMgrRemoteDiedHandle st = st\<lparr>appStateCallback := False\<rparr>"

section \<open>Camera callbacks\<close>

definition GetUniqueId :: "token_id \<Rightarrow> int \<Rightarrow> u64" where
  "GetUniqueId tokenId pid =
     (let tmpPid = (if pid \<le> 0 then 0 else word_of_int pid :: u32) in
      push_bit 32 (ucast tmpPid) OR (ucast tokenId AND 0xFFFFFFFF))"

definition close_cameras :: "(token_id \<Rightarrow> bool) \<Rightarrow> (u64, remote_object) omap \<Rightarrow> 's privacy \<Rightarrow> 's privacy" where
  "close_cameras wanted m st =
     fold (\<lambda>(i, callback) st.
       let tokenId = ucast i in
       if wanted tokenId \<and> callback \<noteq> 0 then post (Camera_closed tokenId callback) st else st) m st"

definition ExecuteAllCameraExecuteCallback :: "'s privacy \<Rightarrow> 's privacy" where
  "ExecuteAllCameraExecuteCallback st =
     close_cameras (\<lambda>_. True) (dvrCameraCallbackMap st) (close_cameras (\<lambda>_. True) (cameraCallbackMap st) st)"

definition ExecuteCameraCallbackAsync :: "token_id \<Rightarrow> 's privacy \<Rightarrow> 's privacy" where
  "ExecuteCameraCallbackAsync callbackTokenId st =
     close_cameras (\<lambda>t. callbackTokenId = t) (dvrCameraCallbackMap st)
       (close_cameras (\<lambda>t. callbackTokenId = t) (cameraCallbackMap st) st)"

section \<open>Input\<close>

record PermissionUsedTypeInfo =
  ut_tokenId :: token_id
  ut_permissionName :: string
  ut_pid :: int
  ut_type :: int
  ut_enhancedIdentity :: string

record RemotePermissionUsedInfo =
  ri_permissionName :: string
  ri_remoteDeviceId :: string
  ri_remoteDeviceName :: string

section \<open>Starting\<close>

definition AddRecordToStartList ::
    "privacy_env \<Rightarrow> PermissionUsedTypeInfo \<Rightarrow> int \<Rightarrow> int \<Rightarrow> 's privacy \<Rightarrow> ret \<times> 's privacy" where
  "AddRecordToStartList E info status callerPid st =
     (case TransferPermissionToOpcode_pr (ut_permissionName info) of
        None \<Rightarrow> (PRIV_ERR_PERMISSION_NOT_EXIST, st)
      | Some opCode \<Rightarrow>
          (let newRecord = \<lparr>cr_tokenId = ut_tokenId info, cr_opCode = opCode, cr_status = status, cr_pid = ut_pid info,
                 cr_callerPid = callerPid, cr_usedType = ut_type info, cr_callertokenId = pe_callingTokenID E,
                 cr_enhancedIdentity = ut_enhancedIdentity info\<rparr> in
           if list_ex (IsEqualRecord newRecord) (startRecordList st) then (PRIV_ERR_ALREADY_START_USING, st)
           else (RET_SUCCESS, CallbackExecute E newRecord (ut_permissionName info) (ut_type info)
                   (st\<lparr>startRecordList := set_emplace newRecord (startRecordList st)\<rparr>))))"

definition ShowGlobalDialog :: "privacy_env \<Rightarrow> string \<Rightarrow> bool" where
  "ShowGlobalDialog E permissionName =
     (if permissionName = CAMERA_PERMISSION_NAME then pe_startAbility E ''camera''
      else if permissionName = MICROPHONE_PERMISSION_NAME then pe_startAbility E ''microphone''
      else True)"

text \<open>
  The common part of the two overloads, after the check of the token type: mute states, policies, registration and the
  status of the new record. The result is the status or an error.
\<close>

definition start_status ::
    "privacy_env \<Rightarrow> token_id \<Rightarrow> string \<Rightarrow> 's privacy \<Rightarrow> (ret + int) \<times> 's privacy" where
  "start_status E tokenId permissionName st =
     (let st1 = InitializeMuteState E permissionName st in
      if IsEdmMuteOrDisable permissionName st1 then (Inl PRIV_ERR_EDM_POLICY, st1)
      else
        (let (registered, st2) = Register E st1 in
         if \<not> registered then (Inl PRIV_ERR_MALLOC_FAILED, st2)
         else if \<not> GetGlobalSwitchStatus permissionName st2 then
           (if \<not> ShowGlobalDialog E permissionName then (Inl PRIV_ERR_SERVICE_ABNORMAL, st2)
            else (Inr PERM_INACTIVE, st2))
         else (Inr (GetAppStatus E tokenId (- 1)), st2)))"

definition StartUsingPermission ::
    "privacy_env \<Rightarrow> PermissionUsedTypeInfo \<Rightarrow> int \<Rightarrow> 's privacy \<Rightarrow> ret \<times> 's privacy" where
  "StartUsingPermission E info callerPid st =
     (case NormalizeRecordTokenId E (ut_tokenId info) of
        Inl err \<Rightarrow> (err, st)
      | Inr tokenId \<Rightarrow>
          if \<not> IsEnhancedIdentityValid (ut_enhancedIdentity info) then (PRIV_ERR_PARAM_INVALID, st)
          else if GetTokenTypeFlag tokenId = TOKEN_NATIVE
          then (if VerifyNativeRecordPermission E (ut_permissionName info) tokenId then RET_SUCCESS
                else PRIV_ERR_PARAM_INVALID, st)
          else if GetTokenTypeFlag tokenId \<noteq> TOKEN_HAP then (PRIV_ERR_PARAM_INVALID, st)
          else
            (case start_status E tokenId (ut_permissionName info) st of
               (Inl err, st1) \<Rightarrow> (err, st1)
             | (Inr status, st1) \<Rightarrow> AddRecordToStartList E (info\<lparr>ut_tokenId := tokenId\<rparr>) status callerPid st1))"

definition StartUsingPermissionCallback ::
    "privacy_env \<Rightarrow> PermissionUsedTypeInfo \<Rightarrow> remote_object \<Rightarrow> int \<Rightarrow> 's privacy \<Rightarrow> ret \<times> 's privacy" where
  "StartUsingPermissionCallback E info callback callerPid st =
     (case NormalizeRecordTokenId E (ut_tokenId info) of
        Inl err \<Rightarrow> (err, st)
      | Inr tokenId \<Rightarrow>
          if GetTokenTypeFlag tokenId = TOKEN_NATIVE
          then (if VerifyNativeRecordPermission E (ut_permissionName info) tokenId then RET_SUCCESS
                else PRIV_ERR_PARAM_INVALID, st)
          else if \<not> IsCameraPermission (ut_permissionName info) \<or> GetTokenTypeFlag tokenId \<noteq> TOKEN_HAP
          then (PRIV_ERR_PARAM_INVALID, st)
          else
            (case start_status E tokenId (ut_permissionName info) st of
               (Inl err, st1) \<Rightarrow> (err, st1)
             | (Inr status, st1) \<Rightarrow>
                 (let i = GetUniqueId tokenId (ut_pid info);
                      change = (\<lambda>f st. if ut_permissionName info = CAMERA_PERMISSION_NAME
                                then st\<lparr>cameraCallbackMap := f (cameraCallbackMap st)\<rparr>
                                else st\<lparr>dvrCameraCallbackMap := f (dvrCameraCallbackMap st)\<rparr>);
                      (ret, st2) = AddRecordToStartList E (info\<lparr>ut_tokenId := tokenId\<rparr>) status callerPid
                        (change (omap_insert i callback) st1) in
                  if ret \<noteq> RET_SUCCESS then (ret, change (omap_erase i) st2) else (ret, st2))))"

section \<open>Stopping\<close>

text \<open>The notices of the groups that became inactive; the name of the permission is declared outside the loop.\<close>

fun inactive_notices ::
    "privacy_env \<Rightarrow> string \<Rightarrow> ContinuousPermissionRecord list \<Rightarrow> 's privacy \<Rightarrow> 's privacy" where
  "inactive_notices E perm [] st = st"
| "inactive_notices E perm (record # records) st =
     (let perm1 = (case TransferOpcodeToPermission_pr (cr_opCode record) of Some p \<Rightarrow> p | None \<Rightarrow> perm);
          newRecord = null_record\<lparr>cr_tokenId := cr_tokenId record, cr_status := PERM_INACTIVE, cr_pid := cr_pid record,
            cr_callerPid := cr_callerPid record, cr_enhancedIdentity := cr_enhancedIdentity record\<rparr> in
      inactive_notices E perm1 records (CallbackExecute E newRecord perm1 NORMAL_TYPE st))"

definition erase_camera_callback :: "ContinuousPermissionRecord \<Rightarrow> 's privacy \<Rightarrow> 's privacy" where
  "erase_camera_callback record st =
     (let i = GetUniqueId (cr_tokenId record) (cr_pid record) in
      if cr_opCode record = OP_CAMERA then st\<lparr>cameraCallbackMap := omap_erase i (cameraCallbackMap st)\<rparr>
      else st\<lparr>dvrCameraCallbackMap := omap_erase i (dvrCameraCallbackMap st)\<rparr>)"

definition ToRemoveRecord ::
    "privacy_env \<Rightarrow> (ContinuousPermissionRecord \<Rightarrow> bool) \<Rightarrow> bool \<Rightarrow> 's privacy \<Rightarrow> bool \<times> 's privacy" where
  "ToRemoveRecord E isEqual needClearCamera st =
     (let (remaining, removeList) = RemoveByKey (startRecordList st) isEqual in
      if removeList = [] then (False, st\<lparr>startRecordList := remaining\<rparr>)
      else
        (let inactiveList = GetInActiveUniqueRecord remaining (set_of_list removeList);
             st1 = inactive_notices E [] inactiveList (st\<lparr>startRecordList := remaining\<rparr>) in
         if \<not> needClearCamera then (True, st1)
         else
           (let unusedCameraRecord = GetUnusedCameraRecords remaining removeList OP_CAMERA @
                  GetUnusedCameraRecords remaining removeList OP_DVRCAMERA in
            (True, fold erase_camera_callback unusedCameraRecord st1))))"

definition RemoveRecordFromStartList ::
    "privacy_env \<Rightarrow> token_id \<Rightarrow> int \<Rightarrow> string \<Rightarrow> int \<Rightarrow> string \<Rightarrow> 's privacy \<Rightarrow> ret \<times> 's privacy" where
  "RemoveRecordFromStartList E tokenId pid permissionName callerPid enhancedIdentity st =
     (case TransferPermissionToOpcode_pr permissionName of
        None \<Rightarrow> (PRIV_ERR_PERMISSION_NOT_EXIST, st)
      | Some opCode \<Rightarrow>
          (let record = null_record\<lparr>cr_tokenId := tokenId, cr_opCode := opCode, cr_pid := pid, cr_callerPid := callerPid,
                 cr_enhancedIdentity := enhancedIdentity\<rparr>;
               (removed, st1) = ToRemoveRecord E (IsEqualRecord record) True st in
           (if \<not> removed then PRIV_ERR_NOT_START_USING else RET_SUCCESS, st1)))"

definition RemoveRecordFromStartListByPid :: "privacy_env \<Rightarrow> token_id \<Rightarrow> int \<Rightarrow> 's privacy \<Rightarrow> 's privacy" where
  "RemoveRecordFromStartListByPid E tokenId pid st =
     snd (ToRemoveRecord E (IsEqualPid (null_record\<lparr>cr_tokenId := tokenId, cr_pid := pid\<rparr>)) True st)"

definition RemoveRecordFromStartListByTokenAndIdentity ::
    "privacy_env \<Rightarrow> token_id \<Rightarrow> string \<Rightarrow> 's privacy \<Rightarrow> 's privacy" where
  "RemoveRecordFromStartListByTokenAndIdentity E tokenId enhancedIdentity st =
     snd (ToRemoveRecord E (IsEqualTokenIdAndIdentity
            (null_record\<lparr>cr_tokenId := tokenId, cr_enhancedIdentity := enhancedIdentity\<rparr>)) True st)"

definition StopUsingPermission ::
    "privacy_env \<Rightarrow> token_id \<Rightarrow> int \<Rightarrow> string \<Rightarrow> int \<Rightarrow> string \<Rightarrow> 's privacy \<Rightarrow> ret \<times> 's privacy" where
  "StopUsingPermission E tokenId0 pid permissionName callerPid enhancedIdentity st =
     (if \<not> IsEnhancedIdentityValid enhancedIdentity then (PRIV_ERR_PARAM_INVALID, st)
      else
        (case NormalizeRecordTokenId E tokenId0 of
           Inl err \<Rightarrow> (err, st)
         | Inr tokenId \<Rightarrow>
             if GetTokenTypeFlag tokenId = TOKEN_NATIVE
             then (if VerifyNativeRecordPermission E permissionName tokenId then RET_SUCCESS
                   else PRIV_ERR_PARAM_INVALID, st)
             else if GetTokenTypeFlag tokenId \<noteq> TOKEN_HAP then (PRIV_ERR_PARAM_INVALID, st)
             else RemoveRecordFromStartList E tokenId pid permissionName callerPid enhancedIdentity st))"

section \<open>Uses from a remote device\<close>

text \<open>A \<open>std::multiset\<close> is a list in the order of \<open>operator <\<close>; \<open>emplace\<close> inserts behind equal elements.\<close>

definition remote_less :: "RemoteContinuousPermissionRecord \<Rightarrow> RemoteContinuousPermissionRecord \<Rightarrow> bool" where
  "remote_less r other =
     (if rr_opCode r \<noteq> rr_opCode other then rr_opCode r < rr_opCode other else rr_callerPid r < rr_callerPid other)"

fun multiset_emplace ::
    "RemoteContinuousPermissionRecord \<Rightarrow> RemoteContinuousPermissionRecord list \<Rightarrow> RemoteContinuousPermissionRecord list" where
  "multiset_emplace r [] = [r]"
| "multiset_emplace r (x # xs) = (if remote_less r x then r # x # xs else x # multiset_emplace r xs)"

definition AddRecordToStartRemoteList ::
    "RemotePermissionUsedInfo \<Rightarrow> int \<Rightarrow> int \<Rightarrow> 's privacy \<Rightarrow> ret \<times> 's privacy" where
  "AddRecordToStartRemoteList info type callerPid st =
     (case TransferPermissionToOpcode_pr (ri_permissionName info) of
        None \<Rightarrow> (PRIV_ERR_PERMISSION_NOT_EXIST, st)
      | Some opCode \<Rightarrow>
          if uniqueDeviceId st \<noteq> [] \<and> uniqueDeviceId st \<noteq> ri_remoteDeviceId info then (PRIV_ERR_REMOTE_CONFLICT, st)
          else
            (let deviceId = (if uniqueDeviceId st = [] then ri_remoteDeviceId info else uniqueDeviceId st) in
             (RET_SUCCESS, CallbackRemoteExecute deviceId (ri_remoteDeviceName info) (ri_permissionName info) type
                (st\<lparr>uniqueDeviceId := deviceId, uniqueDeviceName := ri_remoteDeviceName info,
                    startRemoteRecordList := multiset_emplace \<lparr>rr_opCode = opCode, rr_callerPid = callerPid\<rparr>
                      (startRemoteRecordList st)\<rparr>))))"

definition StartRemoteUsingPermission ::
    "privacy_env \<Rightarrow> RemotePermissionUsedInfo \<Rightarrow> int \<Rightarrow> 's privacy \<Rightarrow> ret \<times> 's privacy" where
  "StartRemoteUsingPermission E info callerPid st =
     (if \<not> IsPermissionNameValid (ri_permissionName info) \<or> \<not> IsDeviceIdValid (ri_remoteDeviceId info) \<or>
         \<not> IsDeviceNameValid (ri_remoteDeviceName info)
      then (PRIV_ERR_PARAM_INVALID, st)
      else
        (let st1 = InitializeMuteState E (ri_permissionName info) st in
         if IsEdmMuteOrDisable (ri_permissionName info) st1 then (PRIV_ERR_EDM_POLICY, st1)
         else
           (let (registered, st2) = Register E st1 in
            if \<not> registered then (PRIV_ERR_MALLOC_FAILED, st2)
            else AddRecordToStartRemoteList info
                   (if \<not> GetGlobalSwitchStatus (ri_permissionName info) st2 then PERM_INACTIVE else PERM_REMOTE_USING)
                   callerPid st2)))"

text \<open>The loop: the records that stay, whether one was removed, and the state with the notices.\<close>

fun remove_remote_loop ::
    "(RemoteContinuousPermissionRecord \<Rightarrow> bool) \<Rightarrow> bool \<Rightarrow> RemoteContinuousPermissionRecord list \<Rightarrow> 's privacy \<Rightarrow>
      RemoteContinuousPermissionRecord list \<times> bool \<times> 's privacy" where
  "remove_remote_loop isEqual allOfThem [] st = ([], False, st)"
| "remove_remote_loop isEqual allOfThem (r # rs) st =
     (if isEqual r then
        (let perm = (case TransferOpcodeToPermission_pr (rr_opCode r) of Some p \<Rightarrow> p | None \<Rightarrow> []);
             st1 = CallbackRemoteExecute (uniqueDeviceId st) (uniqueDeviceName st) perm PERM_INACTIVE st in
         if \<not> allOfThem then (rs, True, st1)
         else (let (stay, _, st2) = remove_remote_loop isEqual allOfThem rs st1 in (stay, True, st2)))
      else (let (stay, removed, st1) = remove_remote_loop isEqual allOfThem rs st in (r # stay, removed, st1)))"

definition ToRemoveRemoteRecord ::
    "(RemoteContinuousPermissionRecord \<Rightarrow> bool) \<Rightarrow> bool \<Rightarrow> 's privacy \<Rightarrow> bool \<times> 's privacy" where
  "ToRemoveRemoteRecord isEqual allOfThem st =
     (let (stay, removed, st1) = remove_remote_loop isEqual allOfThem (startRemoteRecordList st) st;
          st2 = st1\<lparr>startRemoteRecordList := stay\<rparr> in
      (removed, if stay = [] then st2\<lparr>uniqueDeviceId := []\<rparr> else st2))"

definition StopRemoteUsingPermission ::
    "string \<Rightarrow> string \<Rightarrow> string \<Rightarrow> int \<Rightarrow> 's privacy \<Rightarrow> ret \<times> 's privacy" where
  "StopRemoteUsingPermission remoteDeviceId remoteDeviceName permissionName callerPid st =
     (if \<not> IsDeviceIdValid remoteDeviceId \<or> \<not> IsDeviceNameValid remoteDeviceName then (PRIV_ERR_PARAM_INVALID, st)
      else
        (case TransferPermissionToOpcode_pr permissionName of
           None \<Rightarrow> (PRIV_ERR_PERMISSION_NOT_EXIST, st)
         | Some opCode \<Rightarrow>
             if uniqueDeviceId st = [] \<or> uniqueDeviceId st \<noteq> remoteDeviceId then (PRIV_ERR_NOT_START_USING, st)
             else
               (let (removed, st1) =
                      ToRemoveRemoteRecord (\<lambda>r. rr_opCode r = opCode \<and> rr_callerPid r = callerPid) False st in
                (if \<not> removed then PRIV_ERR_NOT_START_USING else RET_SUCCESS, st1))))"

definition RemoveRecordFromStartListByCallerPid :: "privacy_env \<Rightarrow> int \<Rightarrow> 's privacy \<Rightarrow> 's privacy" where
  "RemoveRecordFromStartListByCallerPid E callerPid st =
     (let st1 = snd (ToRemoveRecord E (IsEqualCallerPid (null_record\<lparr>cr_callerPid := callerPid\<rparr>)) True st) in
      snd (ToRemoveRemoteRecord (\<lambda>r. rr_callerPid r = callerPid) True st1))"

section \<open>Application states\<close>

text \<open>
  The loop of \<open>ExecuteAndUpdateRecord\<close>: the records that stay in place, the set of changed records, and whether a camera
  callback is due.
\<close>

fun update_status_loop ::
    "token_id \<Rightarrow> int \<Rightarrow> bool \<Rightarrow> 's privacy \<Rightarrow> record_set \<Rightarrow> record_set \<times> record_set \<times> bool" where
  "update_status_loop tokenId status hasCameraBackground st [] = ([], [], False)"
| "update_status_loop tokenId status hasCameraBackground st (r # rs) =
     (let (stay, updateList, camera) = update_status_loop tokenId status hasCameraBackground st rs;
          perm = (case TransferOpcodeToPermission_pr (cr_opCode r) of Some p \<Rightarrow> p | None \<Rightarrow> []) in
      if cr_tokenId r = tokenId \<and> cr_status r \<noteq> PERM_INACTIVE \<and> cr_status r \<noteq> status then
        (if GetMuteStatus perm EDM st \<or> \<not> GetGlobalSwitchStatus perm st then (r # stay, updateList, camera)
         else if IsCameraPermission perm \<and> status = PERM_ACTIVE_IN_BACKGROUND \<and> \<not> hasCameraBackground
         then (r # stay, updateList, True)
         else (stay, set_emplace (r\<lparr>cr_status := status\<rparr>) updateList, camera))
      else (r # stay, updateList, camera))"

definition ExecuteAndUpdateRecord :: "privacy_env \<Rightarrow> token_id \<Rightarrow> int \<Rightarrow> 's privacy \<Rightarrow> 's privacy" where
  "ExecuteAndUpdateRecord E tokenId status st =
     (let hasCameraBackground = (status = PERM_ACTIVE_IN_BACKGROUND \<and>
            pe_verify E tokenId CAMERA_BACKGROUND_PERMISSION_NAME = PERMISSION_GRANTED);
          (stay, updateList, camera) = update_status_loop tokenId status hasCameraBackground st (startRecordList st);
          st1 = st\<lparr>startRecordList := fold set_emplace updateList stay\<rparr> in
      if camera then ExecuteCameraCallbackAsync tokenId st1 else st1)"

definition NotifyAppStateChange :: "privacy_env \<Rightarrow> token_id \<Rightarrow> int \<Rightarrow> 's privacy \<Rightarrow> 's privacy" where
  "NotifyAppStateChange E tokenId status st =
     (if GetAppStatus E tokenId (- 1) = PERM_ACTIVE_IN_FOREGROUND then st else ExecuteAndUpdateRecord E tokenId status st)"

text \<open>Callbacks of the application manager. The states are 2 for foreground, 4 for background, 5 for terminated.\<close>

definition Privacy_OnAppStateChanged :: "privacy_env \<Rightarrow> token_id \<Rightarrow> int \<Rightarrow> 's privacy \<Rightarrow> 's privacy" where
  "Privacy_OnAppStateChanged E accessTokenId state st =
     NotifyAppStateChange E accessTokenId
       (if state = 2 then PERM_ACTIVE_IN_FOREGROUND else if state = 4 then PERM_ACTIVE_IN_BACKGROUND else PERM_INACTIVE) st"

definition Privacy_OnAppStopped :: "privacy_env \<Rightarrow> token_id \<Rightarrow> int \<Rightarrow> 's privacy \<Rightarrow> 's privacy" where
  "Privacy_OnAppStopped E accessTokenId state st =
     (if state = 5 then RemoveRecordFromStartListByTokenAndIdentity E accessTokenId [] st else st)"

definition Privacy_OnProcessDied :: "privacy_env \<Rightarrow> token_id \<Rightarrow> int \<Rightarrow> 's privacy \<Rightarrow> 's privacy" where
  "Privacy_OnProcessDied E accessTokenId pid st = RemoveRecordFromStartListByPid E accessTokenId pid st"

section \<open>Mute policies\<close>

definition UpdateStartUsingRecord :: "privacy_env \<Rightarrow> string \<Rightarrow> bool \<Rightarrow> 's privacy \<Rightarrow> 's privacy" where
  "UpdateStartUsingRecord E permissionName switchStatus st =
     (case TransferPermissionToOpcode_pr permissionName of
        None \<Rightarrow> st
      | Some opCode \<Rightarrow>
          (let updatedRecordList = set_of_list (map (\<lambda>r. r\<lparr>cr_status :=
                   (if switchStatus then GetAppStatus E (cr_tokenId r) (- 1) else PERM_INACTIVE)\<rparr>)
                 (filter (\<lambda>r. cr_opCode r = opCode) (startRecordList st)));
               stay = filter (\<lambda>r. cr_opCode r \<noteq> opCode) (startRecordList st) in
           fold (\<lambda>r. CallbackExecute E r permissionName NORMAL_TYPE) updatedRecordList
             (st\<lparr>startRecordList := fold set_emplace updatedRecordList stay\<rparr>)))"

definition UpdateStartRemoteUsingRecord :: "string \<Rightarrow> bool \<Rightarrow> 's privacy \<Rightarrow> 's privacy" where
  "UpdateStartRemoteUsingRecord permissionName switchStatus st =
     (if switchStatus then st
      else
        (let opCode = (case TransferPermissionToOpcode_pr permissionName of None \<Rightarrow> 0 | Some c \<Rightarrow> c);
             updatedRecordList = filter (\<lambda>r. rr_opCode r = opCode) (startRemoteRecordList st);
             stay = filter (\<lambda>r. rr_opCode r \<noteq> opCode) (startRemoteRecordList st);
             st1 = fold (\<lambda>_ st. CallbackRemoteExecute (uniqueDeviceId st) (uniqueDeviceName st) permissionName
                       PERM_INACTIVE st) updatedRecordList (st\<lparr>startRemoteRecordList := stay\<rparr>) in
         if stay = [] then st1\<lparr>uniqueDeviceId := []\<rparr> else st1))"

definition ExecuteAndUpdateRecordByPerm :: "privacy_env \<Rightarrow> string \<Rightarrow> bool \<Rightarrow> 's privacy \<Rightarrow> 's privacy" where
  "ExecuteAndUpdateRecordByPerm E permissionName switchStatus st =
     UpdateStartRemoteUsingRecord permissionName switchStatus (UpdateStartUsingRecord E permissionName switchStatus st)"

definition SetEdmMutePolicy :: "privacy_env \<Rightarrow> string \<Rightarrow> bool \<Rightarrow> 's privacy \<Rightarrow> ret \<times> 's privacy" where
  "SetEdmMutePolicy E permissionName isMute st =
     (if isMute
      then (RET_SUCCESS, ExecuteAndUpdateRecordByPerm E permissionName False
              (ModifyMuteStatus permissionName MIXED isMute (ModifyMuteStatus permissionName EDM isMute st)))
      else
        (let st1 = ModifyMuteStatus permissionName EDM isMute st in
         (if GetMuteStatus permissionName MIXED st1 then PRIV_ERR_PRIVACY_POLICY else RET_SUCCESS, st1)))"

definition SetPrivacyMutePolicy :: "privacy_env \<Rightarrow> string \<Rightarrow> bool \<Rightarrow> 's privacy \<Rightarrow> ret \<times> 's privacy" where
  "SetPrivacyMutePolicy E permissionName isMute st =
     (if \<not> isMute \<and> GetMuteStatus permissionName EDM st then (PRIV_ERR_EDM_POLICY, st)
      else (RET_SUCCESS, ExecuteAndUpdateRecordByPerm E permissionName (\<not> isMute)
              (ModifyMuteStatus permissionName MIXED isMute st)))"

definition SetTempMutePolicy :: "privacy_env \<Rightarrow> string \<Rightarrow> bool \<Rightarrow> 's privacy \<Rightarrow> ret \<times> 's privacy" where
  "SetTempMutePolicy E permissionName isMute st =
     (if isMute then (RET_SUCCESS, st)
      else if GetMuteStatus permissionName EDM st then (PRIV_ERR_EDM_POLICY, st)
      else if GetMuteStatus permissionName MIXED st
      then (PRIV_ERR_PRIVACY_POLICY, CallbackExecute E (null_record\<lparr>cr_tokenId := pe_callingTokenID E,
              cr_status := PERM_TEMPORARY_CALL, cr_pid := - 1, cr_callerPid := - 1\<rparr>) permissionName NORMAL_TYPE st)
      else (RET_SUCCESS, st))"

definition SetMutePolicy :: "privacy_env \<Rightarrow> int \<Rightarrow> int \<Rightarrow> bool \<Rightarrow> token_id \<Rightarrow> 's privacy \<Rightarrow> ret \<times> 's privacy" where
  "SetMutePolicy E policyType callerType isMute tokenID st =
     (if callerType \<noteq> MICROPHONE \<and> callerType \<noteq> CAMERA then (PRIV_ERR_PARAM_INVALID, st)
      else
        (let permissionName =
               (if callerType = MICROPHONE then MICROPHONE_PERMISSION_NAME else CAMERA_PERMISSION_NAME) in
         if policyType = EDM then
           (let edm = (case edmTokenID st of Some t \<Rightarrow> t | None \<Rightarrow> pe_nativeTokenId E ''edm'');
                st1 = st\<lparr>edmTokenID := Some edm\<rparr> in
            if edm \<noteq> tokenID then (PRIV_ERR_FIRST_CALLER_NOT_EDM, st1) else SetEdmMutePolicy E permissionName isMute st1)
         else if policyType = PRIVACY then SetPrivacyMutePolicy E permissionName isMute st
         else if policyType = TEMPORARY then SetTempMutePolicy E permissionName isMute st
         else (PRIV_ERR_PARAM_INVALID, st)))"

section \<open>Queries\<close>

type_synonym CurrUsingPermInfo = ActiveChangeResponse

definition GetCurrUsingPermInfo :: "'s privacy \<Rightarrow> CurrUsingPermInfo list" where
  "GetCurrUsingPermInfo st =
     (let name = (\<lambda>c. case TransferOpcodeToPermission_pr c of Some p \<Rightarrow> p | None \<Rightarrow> []) in
      map (\<lambda>r. null_response\<lparr>ac_callingTokenID := cr_callertokenId r, ac_tokenID := cr_tokenId r,
                ac_permissionName := name (cr_opCode r), ac_type := cr_status r, ac_usedType := cr_usedType r,
                ac_pid := cr_pid r, ac_enhancedIdentity := cr_enhancedIdentity r\<rparr>) (startRecordList st) @
      map (\<lambda>r. null_response\<lparr>ac_permissionName := name (rr_opCode r), ac_type := PERM_REMOTE_USING, ac_isRemote := True,
                ac_deviceId := uniqueDeviceId st, ac_remoteDeviceName := uniqueDeviceName st\<rparr>)
        (startRemoteRecordList st))"

definition CheckPermissionInUse :: "string \<Rightarrow> 's privacy \<Rightarrow> ret + bool" where
  "CheckPermissionInUse permissionName st =
     (case TransferPermissionToOpcode_pr permissionName of
        None \<Rightarrow> Inl PRIV_ERR_PERMISSION_NOT_EXIST
      | Some opCode \<Rightarrow>
          Inr (list_ex (\<lambda>r. cr_opCode r = opCode \<and> cr_status r \<noteq> PERM_INACTIVE) (startRecordList st) \<or>
               list_ex (\<lambda>r. rr_opCode r = opCode) (startRemoteRecordList st)))"

definition HasCallerInStartList :: "int \<Rightarrow> 's privacy \<Rightarrow> bool" where
  "HasCallerInStartList callerPid st \<longleftrightarrow>
     list_ex (\<lambda>r. cr_callerPid r = callerPid) (startRecordList st) \<or>
     list_ex (\<lambda>r. rr_callerPid r = callerPid) (startRemoteRecordList st)"

end
