(* ===== verification/Privacy_Records.thy ===== *)
theory Privacy_Records
  imports Privacy_Sessions
begin

text \<open>
  Usage records in \<open>PermissionRecordManager\<close>: adding with the cache that merges the records of a minute, writing the
  cache to the database, the toggles per user, removal and ageing, and the start of the manager.
\<close>

section \<open>Data\<close>

abbreviation ONE_MINUTE_MILLISECONDS :: int where "ONE_MINUTE_MILLISECONDS \<equiv> 60 * 1000"
abbreviation ONE_DAY_MILLISECONDS :: int where "ONE_DAY_MILLISECONDS \<equiv> 24 * 60 * 60 * 1000"
abbreviation MAX_USER_ID :: int where "MAX_USER_ID \<equiv> 10736"
abbreviation MAX_ACCESS_RECORD_SIZE :: int where "MAX_ACCESS_RECORD_SIZE \<equiv> 500"
abbreviation MAX_PERMISSION_USED_TYPE_SIZE :: nat where "MAX_PERMISSION_USED_TYPE_SIZE \<equiv> 2000"
abbreviation MAX_PERMISSION_USED_RECORD_EXTRA_LENGTH :: nat where "MAX_PERMISSION_USED_RECORD_EXTRA_LENGTH \<equiv> 48 * 1024"
abbreviation DEFAULT_PERMISSION_USED_RECORD_SIZE_MAXIMUM :: int
  where "DEFAULT_PERMISSION_USED_RECORD_SIZE_MAXIMUM \<equiv> 500000"
abbreviation DEFAULT_PERMISSION_USED_RECORD_AGING_TIME :: int where "DEFAULT_PERMISSION_USED_RECORD_AGING_TIME \<equiv> 7"

record AddPermParamInfo =
  ap_tokenId :: token_id
  ap_permissionName :: string
  ap_successCount :: int
  ap_failCount :: int
  ap_type :: int
  ap_extra :: string
  ap_enhancedIdentity :: string

record PermissionUsedRequest =
  rq_tokenId :: token_id
  rq_isRemote :: bool
  rq_permissionList :: "string list"
  rq_beginTimeMillis :: int
  rq_endTimeMillis :: int
  rq_flag :: u32

record UsedRecordDetail =
  ud_status :: int
  ud_lockScreenStatus :: int
  ud_timestamp :: int
  ud_accessDuration :: int
  ud_count :: int
  ud_type :: int

record PermissionUsedRecord =
  ur_permissionName :: string
  ur_enhancedIdentity :: string
  ur_accessCount :: int
  ur_secAccessCount :: int
  ur_rejectCount :: int
  ur_lastAccessTime :: int
  ur_lastRejectTime :: int
  ur_lastAccessDuration :: int
  ur_accessRecords :: "UsedRecordDetail list"
  ur_rejectRecords :: "UsedRecordDetail list"

record BundleUsedRecord =
  bu_tokenId :: token_id
  bu_isRemote :: bool
  bu_deviceId :: string
  bu_deviceName :: string
  bu_bundleName :: string
  bu_permissionRecords :: "PermissionUsedRecord list"

record PermissionUsedResult =
  pr_beginTimeMillis :: int
  pr_endTimeMillis :: int
  pr_bundleRecords :: "BundleUsedRecord list"

definition null_used :: PermissionUsedRecord where
  "null_used = \<lparr>ur_permissionName = [], ur_enhancedIdentity = [], ur_accessCount = 0, ur_secAccessCount = 0,
     ur_rejectCount = 0, ur_lastAccessTime = 0, ur_lastRejectTime = 0, ur_lastAccessDuration = 0, ur_accessRecords = [],
     ur_rejectRecords = []\<rparr>"

definition null_bundle :: BundleUsedRecord where
  "null_bundle = \<lparr>bu_tokenId = 0, bu_isRemote = False, bu_deviceId = [], bu_deviceName = [], bu_bundleName = [],
     bu_permissionRecords = []\<rparr>"

section \<open>The cache of the last minute\<close>

definition RecordMergeCheck :: "PermissionRecord \<Rightarrow> PermissionRecord \<Rightarrow> bool" where
  "RecordMergeCheck record1 record2 =
     (if \<not> IsTimeStampsSameMinute (re_timestamp record1) (re_timestamp record2) then False
      else if re_tokenId record1 \<noteq> re_tokenId record2 \<or> re_opCode record1 \<noteq> re_opCode record2 \<or>
        re_status record1 \<noteq> re_status record2 \<or> re_lockScreenStatus record1 \<noteq> re_lockScreenStatus record2 \<or>
        re_type record1 \<noteq> re_type record2 \<or> re_enhancedIdentity record1 \<noteq> re_enhancedIdentity record2
      then False
      else if (re_accessCount record1 > 0 \<and> re_accessCount record2 = 0) \<or>
        (re_accessCount record1 = 0 \<and> re_accessCount record2 > 0)
      then False
      else if (re_rejectCount record1 > 0 \<and> re_rejectCount record2 = 0) \<or>
        (re_rejectCount record1 = 0 \<and> re_rejectCount record2 > 0)
      then False
      else True)"

definition merge_into :: "PermissionRecord \<Rightarrow> PermissionRecordCache \<Rightarrow> PermissionRecordCache" where
  "merge_into record c =
     c\<lparr>pc_record := (pc_record c)\<lparr>re_accessCount := i32 (re_accessCount (pc_record c) + re_accessCount record),
                                  re_rejectCount := i32 (re_rejectCount (pc_record c) + re_rejectCount record)\<rparr>,
       pc_needUpdateToDb := True\<rparr>"

text \<open>\<open>AddRecToCacheAndValueVec\<close>: the new cache and the rows to insert.\<close>

definition AddRecToCacheAndValueVec ::
    "PermissionRecord \<Rightarrow> PermissionRecordCache list \<Rightarrow> PermissionRecordCache list \<times> GenericValues list" where
  "AddRecToCacheAndValueVec record cache =
     (cache @ [\<lparr>pc_record = record, pc_needUpdateToDb = False\<rparr>], [RecordIntoGenericValues record])"

definition MergeOrInsertRecord :: "'s sql_ops \<Rightarrow> PermissionRecord \<Rightarrow> 's privacy \<Rightarrow> ret \<times> 's privacy" where
  "MergeOrInsertRecord ops record st =
     (let mergeable = (\<lambda>c. RecordMergeCheck (pc_record c) record);
          (cache, insertRecords) =
            (if list_ex mergeable (permUsedRecList st)
             then (update_first mergeable (merge_into record) (permUsedRecList st), [])
             else AddRecToCacheAndValueVec record (permUsedRecList st));
          st1 = st\<lparr>permUsedRecList := cache\<rparr> in
      if insertRecords = [] then (RET_SUCCESS, st1)
      else (let (ret, s1) = Add_db ops PERMISSION_RECORD insertRecords (privacyDb st1) in
            (ret, st1\<lparr>privacyDb := s1\<rparr>)))"

definition used_key_values :: "PermissionRecord \<Rightarrow> GenericValues" where
  "used_key_values record =
     PutString PF_ENHANCED_IDENTITY (re_enhancedIdentity record)
       (PutInt PF_USED_TYPE (re_type record)
         (PutInt64 PF_TIMESTAMP (re_timestamp record)
           (PutInt PF_STATUS (re_status record)
             (PutInt PF_OP_CODE (re_opCode record)
               (PutInt PF_TOKEN_ID (sint (re_tokenId record)) [])))))"

definition UpdatePermissionUsedRecordToDb :: "'s sql_ops \<Rightarrow> PermissionRecord \<Rightarrow> 's privacy \<Rightarrow> ret \<times> 's privacy" where
  "UpdatePermissionUsedRecordToDb ops record st =
     (let modifyValue = PutInt PF_REJECT_COUNT (re_rejectCount record) (PutInt PF_ACCESS_COUNT (re_accessCount record) []);
          (ret, s1) = Update_db ops PERMISSION_RECORD modifyValue (used_key_values record) (privacyDb st) in
      (ret, st\<lparr>privacyDb := s1\<rparr>))"

text \<open>The loop of \<open>AddRecord\<close> over the cache: the entries that stay and the state after the updates.\<close>

fun flush_loop ::
    "'s sql_ops \<Rightarrow> int \<Rightarrow> int \<Rightarrow> PermissionRecordCache list \<Rightarrow> 's privacy \<Rightarrow> PermissionRecordCache list \<times> 's privacy" where
  "flush_loop ops updateStamp opCode [] st = ([], st)"
| "flush_loop ops updateStamp opCode (c # cs) st =
     (if re_timestamp (pc_record c) > updateStamp \<or> re_opCode (pc_record c) \<noteq> opCode
      then (let (stay, st1) = flush_loop ops updateStamp opCode cs st in (c # stay, st1))
      else flush_loop ops updateStamp opCode cs
             (if pc_needUpdateToDb c then snd (UpdatePermissionUsedRecordToDb ops (pc_record c) st) else st))"

definition AddRecord :: "'s sql_ops \<Rightarrow> PermissionRecord \<Rightarrow> 's privacy \<Rightarrow> ret \<times> 's privacy" where
  "AddRecord ops record st =
     (let (ret, st1) = MergeOrInsertRecord ops record st in
      if ret \<noteq> RET_SUCCESS then (ret, st1)
      else
        (let (stay, st2) = flush_loop ops (re_timestamp record - ONE_MINUTE_MILLISECONDS) (re_opCode record)
               (permUsedRecList st1) st1 in
         (RET_SUCCESS, st2\<lparr>permUsedRecList := stay\<rparr>)))"

text \<open>The first block of \<open>UpdatePermRecImmediately\<close>; the cache stays as it is.\<close>

definition update_local_cache :: "'s sql_ops \<Rightarrow> 's privacy \<Rightarrow> 's privacy" where
  "update_local_cache ops st =
     foldl (\<lambda>st c. if pc_needUpdateToDb c then snd (UpdatePermissionUsedRecordToDb ops (pc_record c) st) else st)
       st (permUsedRecList st)"

section \<open>Adding\<close>

definition GetPermissionRecord ::
    "privacy_env \<Rightarrow> AddPermParamInfo \<Rightarrow> 's privacy \<Rightarrow> ret + PermissionRecord" where
  "GetPermissionRecord E info st =
     (if GetTokenTypeFlag (ap_tokenId info) \<noteq> TOKEN_HAP then Inl PRIV_ERR_PARAM_INVALID
      else
        (case TransferPermissionToOpcode_pr (ap_permissionName info) of
           None \<Rightarrow> Inl PRIV_ERR_PERMISSION_NOT_EXIST
         | Some opCode \<Rightarrow>
             Inr \<lparr>re_tokenId = ap_tokenId info, re_opCode = opCode,
                  re_status = (if IsEdmMuteOrDisable (ap_permissionName info) st then PERM_INACTIVE
                               else GetAppStatus E (ap_tokenId info) (- 1)),
                  re_timestamp = pe_now E, re_accessDuration = 0, re_type = ap_type info,
                  re_accessCount = ap_successCount info, re_rejectCount = ap_failCount info,
                  re_lockScreenStatus = GetLockScreenStatus E False st,
                  re_enhancedIdentity = ap_enhancedIdentity info\<rparr>))"

definition TransformEnumToBitValue :: "int \<Rightarrow> u32" where
  "TransformEnumToBitValue type =
     (if type = NORMAL_TYPE then 1 else if type = PICKER_TYPE then 2 else if type = SECURITY_COMPONENT_TYPE then 4 else 0)"

definition AddOrUpdateUsedTypeIfNeeded ::
    "'s sql_ops \<Rightarrow> token_id \<Rightarrow> int \<Rightarrow> int \<Rightarrow> 's privacy \<Rightarrow> ret \<times> 's privacy" where
  "AddOrUpdateUsedTypeIfNeeded ops tokenId opCode type st =
     (let inputType = TransformEnumToBitValue type;
          conditionValue = PutInt PF_PERMISSION_CODE opCode (PutInt PF_TOKEN_ID (sint tokenId) []);
          (queried, results) = Query_db ops PERMISSION_USED_TYPE conditionValue (privacyDb st) in
      if queried \<noteq> RET_SUCCESS then (queried, st)
      else
        (case results of
           [] \<Rightarrow>
             (let recordValue = PutInt PF_USED_TYPE (sint inputType) conditionValue;
                  (ret, s1) = Add_db ops PERMISSION_USED_TYPE [recordValue] (privacyDb st) in
              (ret, st\<lparr>privacyDb := s1\<rparr>))
         | result # _ \<Rightarrow>
             (let dbType = word_of_int (GetInt result PF_USED_TYPE) :: u32 in
              if dbType AND inputType = inputType then (RET_SUCCESS, st)
              else
                (let newValue = PutInt PF_USED_TYPE (sint (dbType OR inputType)) [];
                     (ret, s1) = Update_db ops PERMISSION_USED_TYPE newValue (Remove PF_USED_TYPE result) (privacyDb st) in
                 (ret, st\<lparr>privacyDb := s1\<rparr>)))))"

text \<open>Keys and status of the toggles. A missing entry means that recording is on.\<close>

definition BuildToggleStatusKey :: "int \<Rightarrow> int \<Rightarrow> string" where
  "BuildToggleStatusKey userID subProfileId = to_string userID"

definition NormalizeToggleSubProfileId :: "int \<Rightarrow> int" where
  "NormalizeToggleSubProfileId subProfileId = LEGACY_SUBPROFILE_ID"

definition GetCachedToggleStatus :: "(string, bool) omap \<Rightarrow> int \<Rightarrow> int \<Rightarrow> bool" where
  "GetCachedToggleStatus m userID subProfileId =
     (case map_of m (BuildToggleStatusKey userID subProfileId) of Some status \<Rightarrow> status | None \<Rightarrow> True)"

definition CheckPermissionUsedRecordToggleStatus :: "int \<Rightarrow> int \<Rightarrow> 's privacy \<Rightarrow> bool" where
  "CheckPermissionUsedRecordToggleStatus userID subProfileId st =
     GetCachedToggleStatus (permUsedRecToggleStatusMap st) userID subProfileId"

definition IsPermAddCallbackSupported :: "string \<Rightarrow> bool" where
  "IsPermAddCallbackSupported permissionName \<longleftrightarrow>
     permissionName \<in> {''ohos.permission.READ_IMAGEVIDEO'', ''ohos.permission.WRITE_IMAGEVIDEO''}"

definition ExecutePermAddCallbackAsync ::
    "AddPermParamInfo \<Rightarrow> token_id \<Rightarrow> int \<Rightarrow> 's privacy \<Rightarrow> 's privacy" where
  "ExecutePermAddCallbackAsync info callingTokenID callingPid st =
     post (Active_change (null_response\<lparr>ac_callingTokenID := callingTokenID, ac_tokenID := ap_tokenId info,
             ac_permissionName := ap_permissionName info, ac_type := PERM_ADD, ac_usedType := ap_type info,
             ac_pid := callingPid, ac_extra := ap_extra info, ac_enhancedIdentity := ap_enhancedIdentity info\<rparr>)
             TOKEN_ONLY) st"

definition AddPermissionUsedRecordInner ::
    "'s sql_ops \<Rightarrow> privacy_env \<Rightarrow> AddPermParamInfo \<Rightarrow> token_id \<Rightarrow> int \<Rightarrow> 's privacy \<Rightarrow> ret \<times> 's privacy" where
  "AddPermissionUsedRecordInner ops E info callingTokenID callingPid st =
     (case pe_hapInfo E (ap_tokenId info) of
        None \<Rightarrow> (PRIV_ERR_TOKENID_NOT_EXIST, st)
      | Some tokenInfo \<Rightarrow>
          if \<not> CheckPermissionUsedRecordToggleStatus (hv_userID tokenInfo) LEGACY_SUBPROFILE_ID st
          then (PRIV_ERR_TOGGLE_RESTRICTED, st)
          else if ap_successCount info = 0 \<and> ap_failCount info = 0 then (PRIV_ERR_PARAM_INVALID, st)
          else
            (case GetPermissionRecord E info st of
               Inl err \<Rightarrow> (err, st)
             | Inr record \<Rightarrow>
                 if \<not> GetGlobalSwitchStatus (ap_permissionName info) st then (RET_SUCCESS, st)
                 else
                   (let (ret, st1) = AddRecord ops record st in
                    if ret \<noteq> RET_SUCCESS then (ret, st1)
                    else
                      (let (ret2, st2) = AddOrUpdateUsedTypeIfNeeded ops (ap_tokenId info) (re_opCode record)
                             (ap_type info) st1 in
                       if ret2 \<noteq> RET_SUCCESS then (ret2, st2)
                       else (RET_SUCCESS,
                         if ap_extra info \<noteq> [] \<and> IsPermAddCallbackSupported (ap_permissionName info)
                         then ExecutePermAddCallbackAsync info callingTokenID callingPid st2 else st2)))))"

definition AddPermissionUsedRecord ::
    "'s sql_ops \<Rightarrow> privacy_env \<Rightarrow> AddPermParamInfo \<Rightarrow> 's privacy \<Rightarrow> ret \<times> 's privacy" where
  "AddPermissionUsedRecord ops E info st =
     (if length (ap_extra info) > MAX_PERMISSION_USED_RECORD_EXTRA_LENGTH \<or>
         \<not> IsEnhancedIdentityValid (ap_enhancedIdentity info) \<or> ap_successCount info < 0 \<or> ap_failCount info < 0
      then (PRIV_ERR_PARAM_INVALID, st)
      else
        (case NormalizeRecordTokenId E (ap_tokenId info) of
           Inl err \<Rightarrow> (err, st)
         | Inr tokenId \<Rightarrow>
             (let normalizedInfo = info\<lparr>ap_tokenId := tokenId\<rparr> in
              if GetTokenTypeFlag tokenId = TOKEN_NATIVE
              then (if VerifyNativeRecordPermission E (ap_permissionName info) tokenId then RET_SUCCESS
                    else PRIV_ERR_PARAM_INVALID, st)
              else
                (let (ret, flag) = pe_flagEx E tokenId (ap_permissionName info);
                     inner = AddPermissionUsedRecordInner ops E normalizedInfo (pe_callingTokenID E) (pe_callingPid E) st in
                 if ret = RET_SUCCESS \<and> flag AND PERMISSION_FIXED_BY_ADMIN_POLICY \<noteq> 0 then (RET_SUCCESS, st)
                 else if ret = RET_SUCCESS \<and> flag = PERMISSION_SYSTEM_FIXED \<and>
                   ap_permissionName info = CAMERA_PERMISSION_NAME
                 then (RET_SUCCESS, snd inner)
                 else inner))))"

section \<open>Removal\<close>

definition RemoveHistoryPermissionUsedRecords :: "'s sql_ops \<Rightarrow> token_id list \<Rightarrow> 's privacy \<Rightarrow> 's privacy" where
  "RemoveHistoryPermissionUsedRecords ops tokenIDList st =
     (let (_, s1) = DeleteHistoryRecordsInTables ops [PERMISSION_RECORD, PERMISSION_USED_TYPE] tokenIDList (privacyDb st) in
      st\<lparr>privacyDb := s1,
         permUsedRecList := filter (\<lambda>c. re_tokenId (pc_record c) \<notin> set tokenIDList) (permUsedRecList st)\<rparr>)"

definition RemovePermissionUsedRecords ::
    "'s sql_ops \<Rightarrow> privacy_env \<Rightarrow> token_id \<Rightarrow> string \<Rightarrow> 's privacy \<Rightarrow> ret \<times> 's privacy" where
  "RemovePermissionUsedRecords ops E tokenId enhancedIdentity st =
     (if \<not> IsEnhancedIdentityValid enhancedIdentity then (PRIV_ERR_PARAM_INVALID, st)
      else
        (let cache = filter (\<lambda>c. \<not> (re_tokenId (pc_record c) = tokenId \<and>
                 (enhancedIdentity = [] \<or> re_enhancedIdentity (pc_record c) = enhancedIdentity))) (permUsedRecList st);
             byToken = PutInt PF_TOKEN_ID (sint tokenId) [];
             conditions = (if enhancedIdentity \<noteq> [] then PutString PF_ENHANCED_IDENTITY enhancedIdentity byToken
                           else byToken);
             s1 = snd (Remove_db ops PERMISSION_RECORD conditions (privacyDb st));
             s2 = snd (Remove_db ops PERMISSION_USED_TYPE conditions s1) in
         (RET_SUCCESS, RemoveRecordFromStartListByTokenAndIdentity E tokenId enhancedIdentity
            (st\<lparr>permUsedRecList := cache, privacyDb := s2\<rparr>))))"

definition DeletePermissionRecord :: "'s sql_ops \<Rightarrow> privacy_env \<Rightarrow> int \<Rightarrow> 's privacy \<Rightarrow> ret \<times> 's privacy" where
  "DeletePermissionRecord ops E days st =
     (let interval = days * ONE_DAY_MILLISECONDS; total = Count_db ops PERMISSION_RECORD (privacyDb st);
          (ret, s1) = (if total > recordSizeMaximum st
             then DeleteExcessiveRecords ops PERMISSION_RECORD (word_of_int total - word_of_int (recordSizeMaximum st))
                    (privacyDb st)
             else (RET_SUCCESS, privacyDb st)) in
      if ret \<noteq> RET_SUCCESS then (RET_FAILED, st\<lparr>privacyDb := s1\<rparr>)
      else
        (let (ret2, s2) = DeleteExpireRecords ops PERMISSION_RECORD
               (PutInt64 PF_TIMESTAMP_END (pe_now E - interval) []) s1 in
         (if ret2 \<noteq> RET_SUCCESS then RET_FAILED else RET_SUCCESS, st\<lparr>privacyDb := s2\<rparr>)))"

section \<open>Toggles\<close>

definition UpdatePermUsedRecToggleStatusMap :: "int \<Rightarrow> int \<Rightarrow> bool \<Rightarrow> 's privacy \<Rightarrow> bool \<times> 's privacy" where
  "UpdatePermUsedRecToggleStatusMap userID subProfileId status st =
     (let key = BuildToggleStatusKey userID subProfileId; m = permUsedRecToggleStatusMap st in
      if map_of m key = Some status then (False, st)
      else (True, st\<lparr>permUsedRecToggleStatusMap := omap_insert key status m\<rparr>))"

definition toggle_key_values :: "int \<Rightarrow> int \<Rightarrow> GenericValues" where
  "toggle_key_values userID subProfileId = PutInt PF_SUB_PROFILE_ID subProfileId (PutInt PF_USER_ID userID [])"

definition DeletePermUsedRecToggleStatus :: "'s sql_ops \<Rightarrow> int \<Rightarrow> int \<Rightarrow> 's privacy \<Rightarrow> ret \<times> 's privacy" where
  "DeletePermUsedRecToggleStatus ops userID subProfileId st =
     (let (ret, s1) = Remove_db ops PERMISSION_USED_RECORD_TOGGLE_STATUS (toggle_key_values userID subProfileId)
            (privacyDb st) in
      if ret \<noteq> RET_SUCCESS then (ret, st\<lparr>privacyDb := s1\<rparr>)
      else (ret, st\<lparr>privacyDb := s1, permUsedRecToggleStatusMap :=
              omap_erase (BuildToggleStatusKey userID subProfileId) (permUsedRecToggleStatusMap st)\<rparr>))"

definition AddOrUpdateUsedStatusIfNeeded :: "'s sql_ops \<Rightarrow> int \<Rightarrow> int \<Rightarrow> bool \<Rightarrow> 's privacy \<Rightarrow> ret \<times> 's privacy" where
  "AddOrUpdateUsedStatusIfNeeded ops userID subProfileId status st =
     (let conditionValue = toggle_key_values userID subProfileId;
          (queried, results) = Query_db ops PERMISSION_USED_RECORD_TOGGLE_STATUS conditionValue (privacyDb st);
          v = (if status then 1 else 0) in
      if queried \<noteq> RET_SUCCESS then (queried, st)
      else
        (let (ret, s1) = (if results = []
               then Add_db ops PERMISSION_USED_RECORD_TOGGLE_STATUS [PutInt PF_STATUS v conditionValue] (privacyDb st)
               else Update_db ops PERMISSION_USED_RECORD_TOGGLE_STATUS (PutInt PF_STATUS v []) conditionValue
                      (privacyDb st)) in
         (ret, st\<lparr>privacyDb := s1\<rparr>)))"

definition Privacy_IsUserIdValid :: "int \<Rightarrow> bool" where
  "Privacy_IsUserIdValid userID \<longleftrightarrow> userID \<ge> 0 \<and> userID \<le> MAX_USER_ID"

definition SetPermissionUsedRecordToggleStatus ::
    "'s sql_ops \<Rightarrow> privacy_env \<Rightarrow> int \<Rightarrow> bool \<Rightarrow> int \<Rightarrow> 's privacy \<Rightarrow> ret \<times> 's privacy" where
  "SetPermissionUsedRecordToggleStatus ops E userID status subProfile st =
     (if \<not> Privacy_IsUserIdValid userID then (PRIV_ERR_PARAM_INVALID, st)
      else
        (let subProfileId = NormalizeToggleSubProfileId subProfile in
         if status then DeletePermUsedRecToggleStatus ops userID subProfileId st
         else
           (case pe_tokensOfUser E userID of
              None \<Rightarrow> (PRIV_ERR_SERVICE_ABNORMAL, st)
            | Some tokenIDList \<Rightarrow>
                (let st1 = (if tokenIDList \<noteq> [] then RemoveHistoryPermissionUsedRecords ops tokenIDList st else st);
                     toggleKey = BuildToggleStatusKey userID subProfileId;
                     st2 = st1\<lparr>remotePermUsedRecList := filter (\<lambda>c. BuildToggleStatusKey (rp_userId (rc_record c))
                         (rp_subProfileId (rc_record c)) \<noteq> toggleKey) (remotePermUsedRecList st1)\<rparr>;
                     (_, files) = Manager_Remove ops (pe_dirExist E) userID (PutInt PF_SUB_PROFILE_ID subProfileId [])
                       (remoteDb st2);
                     (changed, st3) = UpdatePermUsedRecToggleStatusMap userID subProfileId status
                       (st2\<lparr>remoteDb := files\<rparr>) in
                 if \<not> changed then (RET_SUCCESS, st3)
                 else AddOrUpdateUsedStatusIfNeeded ops userID subProfileId status st3))))"

definition GetPermissionUsedRecordToggleStatus :: "int \<Rightarrow> int \<Rightarrow> 's privacy \<Rightarrow> ret + bool" where
  "GetPermissionUsedRecordToggleStatus userID subProfile st =
     (if \<not> Privacy_IsUserIdValid userID then Inl PRIV_ERR_PARAM_INVALID
      else Inr (GetCachedToggleStatus (permUsedRecToggleStatusMap st) userID (NormalizeToggleSubProfileId subProfile)))"

definition UpdatePermUsedRecToggleStatusMapFromDb :: "'s sql_ops \<Rightarrow> 's privacy \<Rightarrow> 's privacy" where
  "UpdatePermUsedRecToggleStatusMapFromDb ops st =
     (let (queried, rows) = Query_db ops PERMISSION_USED_RECORD_TOGGLE_STATUS [] (privacyDb st) in
      if queried \<noteq> RET_SUCCESS then st
      else foldl (\<lambda>st row.
             let status = (GetInt row PF_STATUS \<noteq> 0) in
             if \<not> status
             then snd (UpdatePermUsedRecToggleStatusMap (GetInt row PF_USER_ID) (GetInt row PF_SUB_PROFILE_ID) status st)
             else st) st rows)"

section \<open>Start\<close>

definition GetConfigValue :: "privacy_env \<Rightarrow> 's privacy \<Rightarrow> 's privacy" where
  "GetConfigValue E st =
     (case pe_config E of
        None \<Rightarrow> st
      | Some (service, custom) \<Rightarrow>
          (let st1 = (case service of
                 Some (sizeMaxImum, agingTime) \<Rightarrow>
                   st\<lparr>recordSizeMaximum := (if sizeMaxImum = 0 then DEFAULT_PERMISSION_USED_RECORD_SIZE_MAXIMUM
                        else sizeMaxImum),
                      recordAgingTime := (if agingTime = 0 then DEFAULT_PERMISSION_USED_RECORD_AGING_TIME
                        else agingTime)\<rparr>
               | None \<Rightarrow>
                   st\<lparr>recordSizeMaximum := DEFAULT_PERMISSION_USED_RECORD_SIZE_MAXIMUM,
                      recordAgingTime := DEFAULT_PERMISSION_USED_RECORD_AGING_TIME\<rparr>) in
           case custom of
             None \<Rightarrow> st1
           | Some enable \<Rightarrow> st1\<lparr>cameraPrivacyControlEnhanceEnable := enable\<rparr>))"

definition Init :: "'s sql_ops \<Rightarrow> privacy_env \<Rightarrow> 's privacy \<Rightarrow> 's privacy" where
  "Init ops E st =
     (if hasInited st then st
      else GetConfigValue E (InitDisablePolicyFromDb ops
             (UpdatePermUsedRecToggleStatusMapFromDb ops (st\<lparr>hasInited := True\<rparr>))))"

text \<open>The object of a new process, before \<open>Init\<close>, over the files it finds.\<close>

definition new_manager :: "privacy_env \<Rightarrow> 's \<Rightarrow> 's user_files \<Rightarrow> 's privacy" where
  "new_manager E db files =
     \<lparr>startRecordList = [], cameraCallbackMap = [], dvrCameraCallbackMap = [],
      isMicEdmMute = (GetMuteParameter E ''persist.edm.mic_disable'' = Some True), isMicMixMute = False,
      isCamEdmMute = False, isCamMixMute = False, edmTokenID = None, appStateCallback = False,
      appManagerDeathCallback = False, lockScreenStatus = PERM_ACTIVE_IN_UNLOCKED, isScreenOn = True,
      foreTokenIdList = [], recordSizeMaximum = 0, recordAgingTime = 0, cameraPrivacyControlEnhanceEnable = False,
      deleteTaskNum = 0, permUsedRecList = [], permUsedRecToggleStatusMap = [], disablePolicyMap = [],
      uniqueDeviceId = [], uniqueDeviceName = [], startRemoteRecordList = [], remotePermUsedRecList = [],
      hasInited = False, activeCallbacks = [], policyCallbacks = [], privacyNotices = [], privacyDb = db,
      remoteDb = files\<rparr>"

end
