(* ===== verification/Privacy_Queries.thy ===== *)
theory Privacy_Queries
  imports Privacy_Records
begin

text \<open>
  Queries of usage records in \<open>PermissionRecordManager\<close> with \<^verbatim>\<open>database/data_translator.cpp\<close>, the records of
  remote uses, and the system events that reach the privacy manager
  (\<^verbatim>\<open>common/privacy_common_event_subscriber.cpp\<close>).
\<close>

section \<open>Requests and rows\<close>

abbreviation FLAG_PERMISSION_USAGE_SUMMARY :: u32 where "FLAG_PERMISSION_USAGE_SUMMARY \<equiv> 0"
abbreviation FLAG_PERMISSION_USAGE_DETAIL :: u32 where "FLAG_PERMISSION_USAGE_DETAIL \<equiv> 1"
abbreviation FLAG_PERMISSION_SECURITY_ACCESS_DETAIL :: u32 where "FLAG_PERMISSION_SECURITY_ACCESS_DETAIL \<equiv> 6"
abbreviation LATEST_RECORD_TIME :: int where "LATEST_RECORD_TIME \<equiv> 7 * ONE_DAY_MILLISECONDS"

text \<open>The time range of a request as conditions: the last seven days when no time is given.\<close>

definition time_conditions :: "int \<Rightarrow> int \<Rightarrow> int \<Rightarrow> GenericValues \<Rightarrow> GenericValues" where
  "time_conditions now begin0 end0 values =
     (let (first, last) = (if begin0 = 0 \<and> end0 = 0
            then (if now - LATEST_RECORD_TIME < 0 then 0 else now - LATEST_RECORD_TIME, now) else (begin0, end0));
          values1 = (if first \<noteq> 0 then PutInt64 PF_TIMESTAMP_BEGIN first values else values) in
      if last \<noteq> 0 then PutInt64 PF_TIMESTAMP_END last values1 else values1)"

definition RequestIntoGenericValues :: "int \<Rightarrow> PermissionUsedRequest \<Rightarrow> GenericValues option" where
  "RequestIntoGenericValues now request =
     (if rq_beginTimeMillis request < 0 \<or> rq_endTimeMillis request < 0 \<or>
         rq_beginTimeMillis request > rq_endTimeMillis request
      then None
      else
        (let values = time_conditions now (rq_beginTimeMillis request) (rq_endTimeMillis request)
               (PutInt PF_TOKEN_ID (sint (rq_tokenId request)) []);
             flag = rq_flag request in
         if \<not> IsPermissionUsedFlagValid flag then None
         else Some
           (if flag = 2 then PutInt PF_LOCKSCREEN_STATUS PERM_ACTIVE_IN_LOCKED values
            else if flag = 3 then PutInt PF_LOCKSCREEN_STATUS PERM_ACTIVE_IN_UNLOCKED values
            else if flag = 4 then PutInt PF_STATUS PERM_ACTIVE_IN_BACKGROUND values
            else if flag = 5 then PutInt PF_STATUS PERM_ACTIVE_IN_FOREGROUND values
            else if flag = FLAG_PERMISSION_SECURITY_ACCESS_DETAIL then PutInt PF_USED_TYPE NORMAL_TYPE values
            else values)))"

definition GenericValuesIntoPermissionUsedRecord :: "u32 \<Rightarrow> GenericValues \<Rightarrow> PermissionUsedRecord option" where
  "GenericValuesIntoPermissionUsedRecord flag values =
     (let accessCount = GetInt values PF_ACCESS_COUNT; rejectCount = GetInt values PF_REJECT_COUNT;
          timestamp = GetInt64 values PF_TIMESTAMP; type = GetInt values PF_USED_TYPE in
      case TransferOpcodeToPermission_pr (GetInt values PF_OP_CODE) of
        None \<Rightarrow> None
      | Some permission \<Rightarrow>
          (let r0 = null_used\<lparr>ur_permissionName := permission,
                 ur_enhancedIdentity := GetString values PF_ENHANCED_IDENTITY\<rparr>;
               r1 = (if accessCount \<noteq> 0
                     then r0\<lparr>ur_accessCount := accessCount,
                             ur_secAccessCount := (if type = PICKER_TYPE \<or> type = SECURITY_COMPONENT_TYPE
                               then accessCount else ur_secAccessCount r0),
                             ur_lastAccessTime := timestamp,
                             ur_lastAccessDuration := GetInt64 values PF_ACCESS_DURATION\<rparr> else r0);
               r2 = (if rejectCount \<noteq> 0 then r1\<lparr>ur_rejectCount := rejectCount, ur_lastRejectTime := timestamp\<rparr> else r1) in
           if flag = FLAG_PERMISSION_USAGE_SUMMARY then Some r2
           else
             (let lockScreen = GetInt values PF_LOCKSCREEN_STATUS;
                  detail = (\<lambda>time count. \<lparr>ud_status = GetInt values PF_STATUS,
                    ud_lockScreenStatus = (if lockScreen = DEFAULT_VALUE then PERM_ACTIVE_IN_UNLOCKED else lockScreen),
                    ud_timestamp = time, ud_accessDuration = GetInt64 values PF_ACCESS_DURATION, ud_count = count,
                    ud_type = type\<rparr>);
                  r3 = (if ur_lastAccessTime r2 > 0
                        then r2\<lparr>ur_accessRecords := [detail (ur_lastAccessTime r2) accessCount]\<rparr> else r2) in
              Some (if ur_lastRejectTime r3 > 0
                    then r3\<lparr>ur_rejectRecords := [detail (ur_lastRejectTime r3) rejectCount]\<rparr> else r3))))"

section \<open>Merging\<close>

definition TransferToOpcode :: "string list \<Rightarrow> int list" where
  "TransferToOpcode permissionList =
     sort (remdups (map (\<lambda>permission. case TransferPermissionToOpcode_pr permission of Some c \<Rightarrow> c | None \<Rightarrow> OP_INVALID)
       permissionList))"

definition GetMergedRecordsFromCache :: "'s privacy \<Rightarrow> PermissionRecord list" where
  "GetMergedRecordsFromCache st = map pc_record (filter pc_needUpdateToDb (permUsedRecList st))"

definition replace_counts :: "int \<Rightarrow> int \<Rightarrow> GenericValues \<Rightarrow> GenericValues" where
  "replace_counts accessCount rejectCount values =
     PutInt PF_REJECT_COUNT rejectCount (Remove PF_REJECT_COUNT
       (PutInt PF_ACCESS_COUNT accessCount (Remove PF_ACCESS_COUNT values)))"

definition InsteadMergedRecIfNecessary :: "GenericValues \<Rightarrow> PermissionRecord list \<Rightarrow> GenericValues" where
  "InsteadMergedRecIfNecessary queryValue mergedRecords =
     (case find (\<lambda>record. word_of_int (GetInt queryValue PF_TOKEN_ID) = re_tokenId record \<and>
            GetInt queryValue PF_OP_CODE = re_opCode record \<and> GetInt queryValue PF_STATUS = re_status record \<and>
            GetInt64 queryValue PF_TIMESTAMP = re_timestamp record \<and> GetInt queryValue PF_USED_TYPE = re_type record \<and>
            GetString queryValue PF_ENHANCED_IDENTITY = re_enhancedIdentity record) mergedRecords of
        None \<Rightarrow> queryValue
      | Some record \<Rightarrow> replace_counts (re_accessCount record) (re_rejectCount record) queryValue)"

text \<open>
  The last access time is updated before it is compared for the duration. A detail is appended only for requests with
  details, in which a record with a time has one.
\<close>

definition MergeSamePermission :: "u32 \<Rightarrow> PermissionUsedRecord \<Rightarrow> PermissionUsedRecord \<Rightarrow> PermissionUsedRecord" where
  "MergeSamePermission flag inRecord outRecord =
     (let o1 = outRecord\<lparr>ur_accessCount := i32 (ur_accessCount outRecord + ur_accessCount inRecord),
            ur_secAccessCount := i32 (ur_secAccessCount outRecord + ur_secAccessCount inRecord),
            ur_rejectCount := i32 (ur_rejectCount outRecord + ur_rejectCount inRecord)\<rparr>;
          o2 = o1\<lparr>ur_lastAccessTime := (if ur_lastAccessTime inRecord > ur_lastAccessTime o1
            then ur_lastAccessTime inRecord else ur_lastAccessTime o1)\<rparr>;
          o3 = o2\<lparr>ur_lastAccessDuration := (if ur_lastAccessTime inRecord > ur_lastAccessTime o2
            then ur_lastAccessDuration inRecord else ur_lastAccessDuration o2)\<rparr>;
          o4 = o3\<lparr>ur_lastRejectTime := (if ur_lastRejectTime inRecord > ur_lastRejectTime o3
            then ur_lastRejectTime inRecord else ur_lastRejectTime o3)\<rparr> in
      if flag = FLAG_PERMISSION_USAGE_SUMMARY then o4
      else
        (let o5 = (if ur_lastAccessTime inRecord > 0
                   then o4\<lparr>ur_accessRecords := ur_accessRecords o4 @ take 1 (ur_accessRecords inRecord)\<rparr> else o4) in
         if ur_lastRejectTime inRecord > 0
         then o5\<lparr>ur_rejectRecords := ur_rejectRecords o5 @ take 1 (ur_rejectRecords inRecord)\<rparr> else o5))"

definition FillPermissionUsedRecords ::
    "PermissionUsedRecord \<Rightarrow> u32 \<Rightarrow> PermissionUsedRecord list \<Rightarrow> PermissionUsedRecord list" where
  "FillPermissionUsedRecords record flag permissionRecords =
     (let same = (\<lambda>r. ur_permissionName record = ur_permissionName r) in
      if list_ex same permissionRecords
      then update_first same (MergeSamePermission flag record) permissionRecords
      else permissionRecords @ [record])"

definition widen_times :: "int \<Rightarrow> PermissionUsedResult \<Rightarrow> PermissionUsedResult" where
  "widen_times timestamp result =
     result\<lparr>pr_beginTimeMillis := (if pr_beginTimeMillis result = 0 \<or> timestamp < pr_beginTimeMillis result
              then timestamp else pr_beginTimeMillis result),
            pr_endTimeMillis := (if timestamp > pr_endTimeMillis result then timestamp else pr_endTimeMillis result)\<rparr>"

section \<open>The query\<close>

text \<open>The locals of \<open>GetRecordsFromLocalDB\<close>: the keys seen, the records of the bundles and the result.\<close>

type_synonym bundle_acc = "string set \<times> (string, BundleUsedRecord) omap \<times> PermissionUsedResult"

definition BuildBundleMapKey :: "token_id \<Rightarrow> string \<Rightarrow> string" where
  "BuildBundleMapKey tokenId enhancedIdentity = to_string (uint tokenId) @ ''_'' @ enhancedIdentity"

definition CreateBundleUsedRecord :: "privacy_env \<Rightarrow> token_id \<Rightarrow> BundleUsedRecord option" where
  "CreateBundleUsedRecord E tokenId =
     (case pe_hapInfo E tokenId of
        None \<Rightarrow> None
      | Some tokenInfo \<Rightarrow> Some (null_bundle\<lparr>bu_tokenId := tokenId, bu_isRemote := False, bu_deviceId := [],
          bu_bundleName := hv_bundleName tokenInfo\<rparr>))"

definition CreateBundleUsedRecordIfNeeded ::
    "privacy_env \<Rightarrow> token_id \<Rightarrow> string \<Rightarrow> string set \<Rightarrow> (string, BundleUsedRecord) omap \<Rightarrow>
      bool \<times> string set \<times> (string, BundleUsedRecord) omap" where
  "CreateBundleUsedRecordIfNeeded E tokenId bundleKey bundleKeySet bundles =
     (if bundleKey \<in> bundleKeySet then (True, bundleKeySet, bundles)
      else
        (case CreateBundleUsedRecord E tokenId of
           None \<Rightarrow> (False, insert bundleKey bundleKeySet, bundles)
         | Some bundleRecord \<Rightarrow> (True, insert bundleKey bundleKeySet, omap_insert bundleKey bundleRecord bundles)))"

text \<open>\<open>operator []\<close> of the map of bundles creates an empty record for a key that is not there.\<close>

definition FillBundleUsedRecord ::
    "GenericValues \<Rightarrow> u32 \<Rightarrow> (string, BundleUsedRecord) omap \<Rightarrow> PermissionUsedResult \<Rightarrow>
      (string, BundleUsedRecord) omap \<times> PermissionUsedResult" where
  "FillBundleUsedRecord value flag bundles result =
     (case GenericValuesIntoPermissionUsedRecord flag value of
        None \<Rightarrow> (bundles, result)
      | Some record \<Rightarrow>
          (let key = BuildBundleMapKey (word_of_int (GetInt value PF_TOKEN_ID)) (GetString value PF_ENHANCED_IDENTITY);
               old = (case map_of bundles key of Some b \<Rightarrow> b | None \<Rightarrow> null_bundle) in
           (omap_insert key (old\<lparr>bu_permissionRecords :=
              FillPermissionUsedRecords record flag (bu_permissionRecords old)\<rparr>) bundles,
            widen_times (GetInt64 value PF_TIMESTAMP) result)))"

definition local_row ::
    "privacy_env \<Rightarrow> u32 \<Rightarrow> PermissionRecord list \<Rightarrow> bundle_acc \<Rightarrow> GenericValues \<Rightarrow> bundle_acc" where
  "local_row E flag mergedRecords acc recordValue =
     (let (bundleKeySet, bundles, result) = acc;
          value = InsteadMergedRecIfNecessary recordValue mergedRecords;
          tokenId = word_of_int (GetInt value PF_TOKEN_ID);
          bundleKey = BuildBundleMapKey tokenId (GetString value PF_ENHANCED_IDENTITY);
          (ok, keys1, bundles1) = CreateBundleUsedRecordIfNeeded E tokenId bundleKey bundleKeySet bundles in
      if \<not> ok then (keys1, bundles1, result)
      else (let (bundles2, result1) = FillBundleUsedRecord value flag bundles1 result in (keys1, bundles2, result1)))"

definition GetRecordsFromLocalDB ::
    "'s sql_ops \<Rightarrow> privacy_env \<Rightarrow> PermissionUsedRequest \<Rightarrow> PermissionUsedResult \<Rightarrow> 's privacy \<Rightarrow>
      ret \<times> PermissionUsedResult" where
  "GetRecordsFromLocalDB ops E request result st =
     (case RequestIntoGenericValues (pe_now E) request of
        None \<Rightarrow> (PRIV_ERR_PARAM_INVALID, result)
      | Some andConditionValues \<Rightarrow>
          (let dataLimitNum = (if rq_flag request = FLAG_PERMISSION_USAGE_DETAIL \<or>
                   rq_flag request = FLAG_PERMISSION_SECURITY_ACCESS_DETAIL
                 then MAX_ACCESS_RECORD_SIZE else recordSizeMaximum st);
               (_, rows) = FindByConditions ops PERMISSION_RECORD (TransferToOpcode (rq_permissionList request))
                 andConditionValues dataLimitNum (privacyDb st) in
           if rows = [] then (RET_SUCCESS, result)
           else
             (let (_, bundles, result1) =
                    foldl (local_row E (rq_flag request) (GetMergedRecordsFromCache st)) ({}, [], result) rows in
              (RET_SUCCESS, result1\<lparr>pr_bundleRecords := pr_bundleRecords result1 @ map snd bundles\<rparr>))))"

definition GetPermissionUsedRecords ::
    "'s sql_ops \<Rightarrow> privacy_env \<Rightarrow> PermissionUsedRequest \<Rightarrow> 's privacy \<Rightarrow> ret \<times> PermissionUsedResult" where
  "GetPermissionUsedRecords ops E request st =
     (let result = \<lparr>pr_beginTimeMillis = 0, pr_endTimeMillis = 0, pr_bundleRecords = []\<rparr> in
      if \<not> rq_isRemote request then GetRecordsFromLocalDB ops E request result st else (RET_SUCCESS, result))"

text \<open>The thread hands the answer to the callback: what it is called with.\<close>

definition GetPermissionUsedRecordsAsync ::
    "'s sql_ops \<Rightarrow> privacy_env \<Rightarrow> PermissionUsedRequest \<Rightarrow> remote_object \<Rightarrow> 's privacy \<Rightarrow>
      ret \<times> (remote_object \<times> ret \<times> PermissionUsedResult) option" where
  "GetPermissionUsedRecordsAsync ops E request callback st =
     (if callback = 0 then (PRIV_ERR_PARAM_INVALID, None)
      else (RET_SUCCESS, Some (callback, GetPermissionUsedRecords ops E request st)))"

text \<open>The pid of a result is not set by the code.\<close>

definition AddDataValueToResults :: "GenericValues \<Rightarrow> PermissionUsedTypeInfo list \<Rightarrow> PermissionUsedTypeInfo list" where
  "AddDataValueToResults value results =
     (let info = (\<lambda>t. \<lparr>ut_tokenId = word_of_int (GetInt value PF_TOKEN_ID),
            ut_permissionName = (case TransferOpcodeToPermission_pr (GetInt value PF_PERMISSION_CODE) of
              Some p \<Rightarrow> p | None \<Rightarrow> []),
            ut_pid = 0, ut_type = t, ut_enhancedIdentity = []\<rparr>);
          type = word_of_int (GetInt value PF_USED_TYPE) :: u32 in
      results @ (if type AND 1 = 1 then [info NORMAL_TYPE] else []) @
        (if type AND 2 = 2 then [info PICKER_TYPE] else []) @
        (if type AND 4 = 4 then [info SECURITY_COMPONENT_TYPE] else []))"

definition GetPermissionUsedTypeInfos ::
    "'s sql_ops \<Rightarrow> privacy_env \<Rightarrow> token_id \<Rightarrow> string \<Rightarrow> 's privacy \<Rightarrow> ret \<times> PermissionUsedTypeInfo list" where
  "GetPermissionUsedTypeInfos ops E tokenId permissionName st =
     (if tokenId \<noteq> INVALID_TOKENID \<and> pe_hapInfo E tokenId = None then (PRIV_ERR_TOKENID_NOT_EXIST, [])
      else if permissionName \<noteq> [] \<and> TransferPermissionToOpcode_pr permissionName = None
      then (PRIV_ERR_PERMISSION_NOT_EXIST, [])
      else
        (let value = (if tokenId \<noteq> INVALID_TOKENID then PutInt PF_TOKEN_ID (sint tokenId) [] else []);
             value1 = (case TransferPermissionToOpcode_pr permissionName of
                 Some opCode \<Rightarrow> if permissionName \<noteq> [] then PutInt PF_PERMISSION_CODE opCode value else value
               | None \<Rightarrow> value);
             (queried, rows) = Query_db ops PERMISSION_USED_TYPE value1 (privacyDb st) in
         if queried \<noteq> RET_SUCCESS then (RET_FAILED, [])
         else
           (let results = fold AddDataValueToResults rows [] in
            (if length results > MAX_PERMISSION_USED_TYPE_SIZE then PRIV_ERR_OVERSIZE else RET_SUCCESS, results))))"

section \<open>Records of remote uses\<close>

record RemoteAddPermParamInfo =
  ra_deviceId :: string
  ra_deviceName :: string
  ra_permissionName :: string
  ra_successCount :: int
  ra_failCount :: int

definition RemoteIntoGenericValues :: "RemotePermissionRecord \<Rightarrow> GenericValues" where
  "RemoteIntoGenericValues r =
     PutInt PF_SUB_PROFILE_ID (rp_subProfileId r)
       (PutInt PF_REJECT_COUNT (rp_rejectCount r)
         (PutInt PF_ACCESS_COUNT (rp_accessCount r)
           (PutInt64 PF_TIMESTAMP (rp_timestamp r)
             (PutInt PF_OP_CODE (rp_opCode r)
               (PutString PF_DEVICE_NAME (rp_deviceName r)
                 (PutString PF_DEVICE_ID (rp_deviceId r) []))))))"

definition UpdateRemotePermissionUsedRecordToDb ::
    "'s sql_ops \<Rightarrow> privacy_env \<Rightarrow> RemotePermissionRecord \<Rightarrow> 's privacy \<Rightarrow> ret \<times> 's privacy" where
  "UpdateRemotePermissionUsedRecordToDb ops E record st =
     (let modifyValue = PutInt PF_REJECT_COUNT (rp_rejectCount record) (PutInt PF_ACCESS_COUNT (rp_accessCount record) []);
          conditionValue = PutInt64 PF_TIMESTAMP (rp_timestamp record) (PutInt PF_OP_CODE (rp_opCode record)
            (PutString PF_DEVICE_NAME (rp_deviceName record) (PutString PF_DEVICE_ID (rp_deviceId record) [])));
          (ret, files) = Manager_Update ops (pe_dirExist E) (rp_userId record) modifyValue conditionValue (remoteDb st) in
      (ret, st\<lparr>remoteDb := files\<rparr>))"

definition RemoteRecordMergeCheck :: "RemotePermissionRecord \<Rightarrow> RemotePermissionRecord \<Rightarrow> bool" where
  "RemoteRecordMergeCheck record1 record2 =
     (if \<not> IsTimeStampsSameMinute (rp_timestamp record1) (rp_timestamp record2) then False
      else if rp_deviceId record1 \<noteq> rp_deviceId record2 \<or> rp_deviceName record1 \<noteq> rp_deviceName record2 \<or>
        rp_opCode record1 \<noteq> rp_opCode record2
      then False
      else if BuildToggleStatusKey (rp_userId record1) (rp_subProfileId record1) \<noteq>
        BuildToggleStatusKey (rp_userId record2) (rp_subProfileId record2)
      then False
      else if (rp_accessCount record1 > 0 \<and> rp_accessCount record2 = 0) \<or>
        (rp_accessCount record1 = 0 \<and> rp_accessCount record2 > 0)
      then False
      else if (rp_rejectCount record1 > 0 \<and> rp_rejectCount record2 = 0) \<or>
        (rp_rejectCount record1 = 0 \<and> rp_rejectCount record2 > 0)
      then False
      else True)"

definition remote_merge_into :: "RemotePermissionRecord \<Rightarrow> RemotePermissionRecordCache \<Rightarrow> RemotePermissionRecordCache" where
  "remote_merge_into record c =
     c\<lparr>rc_record := (rc_record c)\<lparr>rp_accessCount := i32 (rp_accessCount (rc_record c) + rp_accessCount record),
                                  rp_rejectCount := i32 (rp_rejectCount (rc_record c) + rp_rejectCount record)\<rparr>,
       rc_needUpdateToDb := True\<rparr>"

text \<open>A record that could not be inserted is taken out of the cache again.\<close>

definition MergeOrInsertRemoteRecord ::
    "'s sql_ops \<Rightarrow> privacy_env \<Rightarrow> RemotePermissionRecord \<Rightarrow> 's privacy \<Rightarrow> ret \<times> 's privacy" where
  "MergeOrInsertRemoteRecord ops E record st =
     (let mergeable = (\<lambda>c. RemoteRecordMergeCheck (rc_record c) record); cache = remotePermUsedRecList st in
      if list_ex mergeable cache
      then (RET_SUCCESS, st\<lparr>remotePermUsedRecList := update_first mergeable (remote_merge_into record) cache\<rparr>)
      else
        (let cache1 = cache @ [\<lparr>rc_record = record, rc_needUpdateToDb = False\<rparr>];
             (ret, files) = Manager_Add ops (pe_dirExist E) (rp_userId record) [RemoteIntoGenericValues record] (remoteDb st);
             st1 = st\<lparr>remoteDb := files\<rparr> in
         if ret \<noteq> RET_SUCCESS then (ret, st1\<lparr>remotePermUsedRecList := butlast cache1\<rparr>)
         else (RET_SUCCESS, st1\<lparr>remotePermUsedRecList := cache1\<rparr>)))"

fun remote_flush_loop ::
    "'s sql_ops \<Rightarrow> privacy_env \<Rightarrow> RemotePermissionRecord \<Rightarrow> RemotePermissionRecordCache list \<Rightarrow> 's privacy \<Rightarrow>
      RemotePermissionRecordCache list \<times> 's privacy" where
  "remote_flush_loop ops E record [] st = ([], st)"
| "remote_flush_loop ops E record (c # cs) st =
     (if rp_timestamp (rc_record c) > rp_timestamp record - ONE_MINUTE_MILLISECONDS \<or>
         rp_opCode (rc_record c) \<noteq> rp_opCode record \<or>
         BuildToggleStatusKey (rp_userId (rc_record c)) (rp_subProfileId (rc_record c)) \<noteq>
           BuildToggleStatusKey (rp_userId record) (rp_subProfileId record)
      then (let (stay, st1) = remote_flush_loop ops E record cs st in (c # stay, st1))
      else remote_flush_loop ops E record cs
             (if rc_needUpdateToDb c then snd (UpdateRemotePermissionUsedRecordToDb ops E (rc_record c) st) else st))"

definition AddRemoteRecord ::
    "'s sql_ops \<Rightarrow> privacy_env \<Rightarrow> RemotePermissionRecord \<Rightarrow> 's privacy \<Rightarrow> ret \<times> 's privacy" where
  "AddRemoteRecord ops E record st =
     (let (ret, st1) = MergeOrInsertRemoteRecord ops E record st in
      if ret \<noteq> RET_SUCCESS then (ret, st1)
      else (let (stay, st2) = remote_flush_loop ops E record (remotePermUsedRecList st1) st1 in
            (RET_SUCCESS, st2\<lparr>remotePermUsedRecList := stay\<rparr>)))"

definition GetRemotePermissionRecord ::
    "privacy_env \<Rightarrow> RemoteAddPermParamInfo \<Rightarrow> int \<Rightarrow> int \<Rightarrow> ret + RemotePermissionRecord" where
  "GetRemotePermissionRecord E info userId subProfileId =
     (case TransferPermissionToOpcode_pr (ra_permissionName info) of
        None \<Rightarrow> Inl PRIV_ERR_PERMISSION_NOT_EXIST
      | Some opCode \<Rightarrow>
          Inr \<lparr>rp_deviceId = ra_deviceId info, rp_deviceName = ra_deviceName info, rp_opCode = opCode,
               rp_timestamp = pe_now E, rp_accessCount = ra_successCount info, rp_rejectCount = ra_failCount info,
               rp_userId = userId, rp_subProfileId = subProfileId\<rparr>)"

definition AddRemotePermissionUsedRecord ::
    "'s sql_ops \<Rightarrow> privacy_env \<Rightarrow> RemoteAddPermParamInfo \<Rightarrow> 's privacy \<Rightarrow> ret \<times> 's privacy" where
  "AddRemotePermissionUsedRecord ops E info st =
     (if \<not> IsDeviceIdValid (ra_deviceId info) \<or> \<not> IsDeviceNameValid (ra_deviceName info) \<or>
         \<not> IsPermissionNameValid (ra_permissionName info) \<or> (ra_successCount info = 0 \<and> ra_failCount info = 0)
      then (PRIV_ERR_PARAM_INVALID, st)
      else if ra_successCount info < 0 \<or> ra_failCount info < 0 then (PRIV_ERR_PARAM_INVALID, st)
      else
        (let (err, userId) = pe_foregroundUser E in
         if err \<noteq> 0 then (PRIV_ERR_SERVICE_ABNORMAL, st)
         else if \<not> CheckPermissionUsedRecordToggleStatus userId LEGACY_SUBPROFILE_ID st
         then (PRIV_ERR_TOGGLE_RESTRICTED, st)
         else
           (case GetRemotePermissionRecord E info userId LEGACY_SUBPROFILE_ID of
              Inl e \<Rightarrow> (e, st)
            | Inr record \<Rightarrow>
                if \<not> GetGlobalSwitchStatus (ra_permissionName info) st then (RET_SUCCESS, st)
                else AddRemoteRecord ops E record st)))"

definition InsteadMergedRemoteRecIfNecessary ::
    "GenericValues \<Rightarrow> int \<Rightarrow> RemotePermissionRecord list \<Rightarrow> GenericValues" where
  "InsteadMergedRemoteRecIfNecessary queryValue userId mergedRecords =
     (let toggleKey = BuildToggleStatusKey userId (GetInt queryValue PF_SUB_PROFILE_ID) in
      case find (\<lambda>record. GetString queryValue PF_DEVICE_ID = rp_deviceId record \<and>
             GetString queryValue PF_DEVICE_NAME = rp_deviceName record \<and>
             GetInt queryValue PF_OP_CODE = rp_opCode record \<and> GetInt64 queryValue PF_TIMESTAMP = rp_timestamp record \<and>
             toggleKey = BuildToggleStatusKey (rp_userId record) (rp_subProfileId record)) mergedRecords of
        None \<Rightarrow> queryValue
      | Some record \<Rightarrow> replace_counts (rp_accessCount record) (rp_rejectCount record) queryValue)"

definition RemoteRequestIntoGenericValues :: "int \<Rightarrow> PermissionUsedRequest \<Rightarrow> GenericValues option" where
  "RemoteRequestIntoGenericValues now request =
     (if rq_beginTimeMillis request < 0 \<or> rq_endTimeMillis request < 0 \<or>
         rq_beginTimeMillis request > rq_endTimeMillis request
      then None
      else Some (time_conditions now (rq_beginTimeMillis request) (rq_endTimeMillis request) []))"

definition GenericValuesIntoRemotePermissionRecord :: "u32 \<Rightarrow> GenericValues \<Rightarrow> PermissionUsedRecord option" where
  "GenericValuesIntoRemotePermissionRecord flag values =
     (let timestamp = GetInt64 values PF_TIMESTAMP; accessCount = GetInt values PF_ACCESS_COUNT;
          rejectCount = GetInt values PF_REJECT_COUNT in
      case TransferOpcodeToPermission_pr (GetInt values PF_OP_CODE) of
        None \<Rightarrow> None
      | Some permission \<Rightarrow>
          (let r0 = null_used\<lparr>ur_permissionName := permission\<rparr>;
               r1 = (if accessCount \<noteq> 0 then r0\<lparr>ur_accessCount := accessCount, ur_lastAccessTime := timestamp,
                       ur_lastAccessDuration := 0\<rparr> else r0);
               r2 = (if rejectCount \<noteq> 0 then r1\<lparr>ur_rejectCount := rejectCount, ur_lastRejectTime := timestamp\<rparr> else r1) in
           if flag = FLAG_PERMISSION_USAGE_SUMMARY then Some r2
           else
             (let detail = (\<lambda>time count. \<lparr>ud_status = DEFAULT_VALUE, ud_lockScreenStatus = PERM_ACTIVE_IN_UNLOCKED,
                    ud_timestamp = time, ud_accessDuration = 0, ud_count = count, ud_type = DEFAULT_VALUE\<rparr>);
                  r3 = (if ur_lastAccessTime r2 > 0
                        then r2\<lparr>ur_accessRecords := [detail (ur_lastAccessTime r2) accessCount]\<rparr> else r2) in
              Some (if ur_lastRejectTime r3 > 0
                    then r3\<lparr>ur_rejectRecords := [detail (ur_lastRejectTime r3) rejectCount]\<rparr> else r3))))"

text \<open>One row of \<open>BuildBundleUsedRecordsFromRemoteResults\<close>; the map of the latest times is written but never read.\<close>

definition remote_row ::
    "int \<Rightarrow> RemotePermissionRecord list \<Rightarrow> u32 \<Rightarrow> (string, BundleUsedRecord) omap \<times> PermissionUsedResult \<Rightarrow>
      GenericValues \<Rightarrow> (string, BundleUsedRecord) omap \<times> PermissionUsedResult" where
  "remote_row userId mergedRecords flag acc recordValue =
     (let (bundles, result) = acc;
          value = InsteadMergedRemoteRecIfNecessary recordValue userId mergedRecords;
          result1 = widen_times (GetInt64 value PF_TIMESTAMP) result;
          uniqueStr = GetString value PF_DEVICE_ID @ GetString value PF_DEVICE_NAME;
          old = (case map_of bundles uniqueStr of
              Some b \<Rightarrow> b
            | None \<Rightarrow> null_bundle\<lparr>bu_tokenId := 0, bu_isRemote := True, bu_deviceId := GetString value PF_DEVICE_ID,
                bu_deviceName := GetString value PF_DEVICE_NAME, bu_bundleName := []\<rparr>);
          new = (case GenericValuesIntoRemotePermissionRecord flag value of
              None \<Rightarrow> old
            | Some r \<Rightarrow> old\<lparr>bu_permissionRecords := FillPermissionUsedRecords r flag (bu_permissionRecords old)\<rparr>) in
      (omap_insert uniqueStr new bundles, result1))"

definition BuildBundleUsedRecordsFromRemoteResults ::
    "GenericValues list \<Rightarrow> int \<Rightarrow> RemotePermissionRecord list \<Rightarrow> PermissionUsedResult \<Rightarrow> u32 \<Rightarrow>
      (string, BundleUsedRecord) omap \<times> PermissionUsedResult" where
  "BuildBundleUsedRecordsFromRemoteResults rows userId mergedRecords result flag =
     foldl (remote_row userId mergedRecords flag) ([], result) rows"

definition GetRemotePermissionUsedRecords ::
    "'s sql_ops \<Rightarrow> privacy_env \<Rightarrow> PermissionUsedRequest \<Rightarrow> int \<Rightarrow> PermissionUsedResult \<Rightarrow> 's privacy \<Rightarrow>
      ret \<times> PermissionUsedResult \<times> 's privacy" where
  "GetRemotePermissionUsedRecords ops E request userId result st =
     (if \<not> rq_isRemote request \<or> \<not> Privacy_IsUserIdValid userId \<or> \<not> IsRemotePermissionUsedFlagValid (rq_flag request)
      then (PRIV_ERR_PARAM_INVALID, result, st)
      else
        (case RemoteRequestIntoGenericValues (pe_now E) request of
           None \<Rightarrow> (PRIV_ERR_PARAM_INVALID, result, st)
         | Some andConditionValues \<Rightarrow>
             (let dataLimitNum = (if rq_flag request = FLAG_PERMISSION_USAGE_DETAIL then MAX_ACCESS_RECORD_SIZE
                    else recordSizeMaximum st);
                  (rows, files) = Manager_FindByConditions ops (pe_dirExist E) userId
                    (TransferToOpcode (rq_permissionList request)) andConditionValues dataLimitNum (remoteDb st);
                  st1 = st\<lparr>remoteDb := files\<rparr> in
              if rows = [] then (RET_SUCCESS, result, st1)
              else
                (let mergedRecords = map rc_record (filter (\<lambda>c. rc_needUpdateToDb c \<and>
                       BuildToggleStatusKey (rp_userId (rc_record c)) (rp_subProfileId (rc_record c)) =
                       BuildToggleStatusKey userId LEGACY_SUBPROFILE_ID) (remotePermUsedRecList st1));
                     (bundles, result1) = BuildBundleUsedRecordsFromRemoteResults rows userId mergedRecords result
                       (rq_flag request) in
                 (RET_SUCCESS, result1\<lparr>pr_bundleRecords := pr_bundleRecords result1 @ map snd bundles\<rparr>, st1)))))"

definition DeleteRemotePermissionRecord ::
    "'s sql_ops \<Rightarrow> privacy_env \<Rightarrow> int \<Rightarrow> 's privacy \<Rightarrow> ret \<times> 's privacy" where
  "DeleteRemotePermissionRecord ops E days st =
     (let (err, userId) = pe_foregroundUser E in
      if err \<noteq> 0 then (PRIV_ERR_SERVICE_ABNORMAL, st)
      else
        (let interval = days * ONE_DAY_MILLISECONDS;
             (total, files) = Manager_Count ops (pe_dirExist E) userId (remoteDb st);
             (ret, files1) = (if total > recordSizeMaximum st
                then Manager_DeleteExcessiveRecords ops (pe_dirExist E) userId
                       (word_of_int total - word_of_int (recordSizeMaximum st)) files
                else (RET_SUCCESS, files)) in
         if ret \<noteq> RET_SUCCESS then (RET_FAILED, st\<lparr>remoteDb := files1\<rparr>)
         else
           (let (ret2, files2) = Manager_DeleteExpireRecords ops (pe_dirExist E) userId
                  (PutInt64 PF_TIMESTAMP_END (pe_now E - interval) []) files1 in
            (if ret2 \<noteq> RET_SUCCESS then RET_FAILED else RET_SUCCESS, st\<lparr>remoteDb := files2\<rparr>))))"

section \<open>Events\<close>

definition UpdatePermRecImmediately :: "'s sql_ops \<Rightarrow> privacy_env \<Rightarrow> 's privacy \<Rightarrow> 's privacy" where
  "UpdatePermRecImmediately ops E st =
     foldl (\<lambda>st c. if rc_needUpdateToDb c then snd (UpdateRemotePermissionUsedRecordToDb ops E (rc_record c) st) else st)
       (update_local_cache ops st) (remotePermUsedRecList st)"

text \<open>The thread of the task deletes at once and ends, with \<open>ReduceDeleteTaskNum\<close>, one minute later.\<close>

definition ExecuteDeletePermissionRecordTask :: "'s sql_ops \<Rightarrow> privacy_env \<Rightarrow> 's privacy \<Rightarrow> 's privacy" where
  "ExecuteDeletePermissionRecordTask ops E st =
     (if deleteTaskNum st > 1 then st
      else
        (let st1 = st\<lparr>deleteTaskNum := deleteTaskNum st + 1\<rparr>;
             st2 = snd (DeletePermissionRecord ops E (recordAgingTime st1) st1) in
         snd (DeleteRemotePermissionRecord ops E (recordAgingTime st2) st2)))"

definition ReduceDeleteTaskNum :: "'s privacy \<Rightarrow> 's privacy" where
  "ReduceDeleteTaskNum st = st\<lparr>deleteTaskNum := deleteTaskNum st - 1\<rparr>"

datatype common_event =
    SCREEN_UNLOCKED
  | SCREEN_LOCKED
  | SCREEN_OFF
  | SCREEN_ON
  | PACKAGE_REMOVED token_id
  | SHUTDOWN
  | OTHER_EVENT

fun OnReceiveEvent :: "'s sql_ops \<Rightarrow> privacy_env \<Rightarrow> common_event \<Rightarrow> 's privacy \<Rightarrow> 's privacy" where
  "OnReceiveEvent ops E SCREEN_UNLOCKED st = SetLockScreenStatus PERM_ACTIVE_IN_UNLOCKED st"
| "OnReceiveEvent ops E SCREEN_LOCKED st =
     ExecuteAllCameraExecuteCallback (SetLockScreenStatus PERM_ACTIVE_IN_LOCKED st)"
| "OnReceiveEvent ops E SCREEN_OFF st =
     (let st1 = SetScreenOn False st;
          st2 = (if cameraPrivacyControlEnhanceEnable st1 then ExecuteAllCameraExecuteCallback st1 else st1) in
      ExecuteDeletePermissionRecordTask ops E st2)"
| "OnReceiveEvent ops E SCREEN_ON st = SetScreenOn True st"
| "OnReceiveEvent ops E (PACKAGE_REMOVED tokenId) st = snd (RemovePermissionUsedRecords ops E tokenId [] st)"
| "OnReceiveEvent ops E SHUTDOWN st = UpdatePermRecImmediately ops E st"
| "OnReceiveEvent ops E OTHER_EVENT st = st"

end
