(* ===== verification/Spec2Isabelle.thy ===== *)
theory Spec2Isabelle
  imports Id_Manager Permission_Brief_Laws User_Policy_Reach Hap_Policy_Laws Hap_Token_Laws Kernel_Laws Info_Remote
    Monitor_Laws Service_Laws Privacy_Queries
begin

text \<open>
  \<^bold>\<open>The access token service of OpenHarmony\<close>

  The program keeps, for every application and native process, an access token with the permissions
  it requested and their states. The access token manager
  (\<^verbatim>\<open>services/accesstokenmanager/main/cpp\<close>) hands out token ids and user ids, stores permission
  states in memory and in a relational database, and answers whether a token holds a permission.
  This development models the data and decision code of that service as functions on explicit
  states. Return codes are integers, machine integers are words, and every early return of the
  source is a branch of the model.

  \<^bold>\<open>Theories, in the order of the code's layers\<close>

  \<^item> \<open>ATM_Prelude\<close>: types, return codes, permission flags and what the code uses of the C++ library.
  \<^item> \<open>Ordered_Map\<close>: \<open>std::map\<close> as a sorted association list, with the interface \<open>std_map\<close>.
  \<^item> \<open>Token_Id\<close>: the bit layout of token ids (\<^verbatim>\<open>access_token_basic_type.h\<close>) and
    \<^verbatim>\<open>tokenid_attributes.cpp\<close>.
  \<^item> \<open>Generic_Values\<close>: database rows (\<^verbatim>\<open>variant_value.cpp\<close>, \<^verbatim>\<open>generic_values.cpp\<close>).
  \<^item> \<open>Token_Db\<close>: \<^verbatim>\<open>access_token_db.cpp\<close> and \<^verbatim>\<open>access_token_db_util.cpp\<close> over the relational
    store. A write is atomic, a batched read ends and returns all rows, and a row survives storage.
  \<^item> \<open>Id_Manager\<close>: \<^verbatim>\<open>accesstoken_id_manager.cpp\<close>. The three id sets stay exclusive and refine one
    map from ids to statuses; allocation of user ids is sound and complete and can be rolled back.
  \<^item> \<open>Permission_Map\<close>: \<^verbatim>\<open>permission_map.cpp\<close> over the generated permission table.
  \<^item> \<open>Validators\<close>: \<^verbatim>\<open>data_validator.cpp\<close>, \<^verbatim>\<open>permission_validator.cpp\<close> and the flag helpers of
    \<^verbatim>\<open>constant_common.cpp\<close>.
  \<^item> \<open>Data_Translator\<close>: \<^verbatim>\<open>data_translator.cpp\<close>.
  \<^item> \<open>Permission_Data_Brief\<close> and \<open>Permission_Brief_Laws\<close>: \<^verbatim>\<open>permission_data_brief.cpp\<close>, the store
    of permission states. The first theory has the operations and the invariant of the store, the
    second what the operations do to the answers of its queries.

  \<^bold>\<open>State and concurrency\<close>

  A class with members is a record and each method is a function from the old record to the result
  and the new record. Methods that take the lock for their whole state change are one step;
  sequences of calls are reachability in the inductive step relations \<open>id_step\<close>, \<open>brief_step\<close> and
  \<open>user_step\<close>.

  \<^bold>\<open>Parameters\<close>

  Code outside the repository is an argument. \<open>rdb_ops\<close> is the relational store, with the laws
  \<open>rdb_laws\<close> and \<open>cursor_laws\<close> and the instance \<open>mem_rdb\<close>; \<open>spm_kernel\<close> is the kernel's table of
  user ids; the permission table is generated at build time, with the law \<open>perm_table_ok\<close>. Random
  draws and clock readings are arguments.

  \<^bold>\<open>Loops\<close>

  Loops over containers are structural recursion. The batched read of a query result may run forever
  on a cursor that never ends; it is a partial function, and its termination over finite cursors is
  a theorem. The retry loops have the bounds of the code (two queries, three kernel calls, a thousand
  draws of a token id) as fuel, so the fuel is the code's own counter.

  \<^bold>\<open>Not modelled\<close>

  Logging, inter-process calls and event reporting have no effect on the modelled state and are left
  out. The manifest lists the parts of the system that are not modelled, with the reasons.
\<close>

end
